(* ===== verification/Prelude.thy ===== *)
theory Prelude
  imports Main "HOL-Library.List_Lexorder" "HOL-Library.Char_ord"
begin

text \<open>
  Shared vocabulary of the development: Python exceptions as values, the sequencing of
  fallible service code, database tables as row lists with a primary key, the queries the
  services issue against them (\<open>get\<close>, \<open>filter(...).first()\<close>, \<open>save\<close>, \<open>create\<close>), and the
  timestamps.  The lemma collections \<open>table_simps\<close> (row stores) and \<open>res_simps\<close> (results) carry
  the component proofs.
\<close>

named_theorems table_simps
named_theorems res_simps

subsection \<open>Exceptions and results\<close>

text \<open>
  One constructor per exception class the modelled services raise or catch, with its message
  (and the wire code of a \<open>TabletError\<close>, the HTTP status of a \<open>TransferError\<close>).
  \<open>IntegrityError\<close> is what the database raises when a constraint of the model layer is violated,
  \<open>DoesNotExist\<close> what \<open>objects.get\<close> raises.
\<close>

datatype exn =
    PublicationError string
  | PublicationBuildError string
  | DatasetRegistryError string
  | PermissionDenied string
  | ValidationError string
  | ArtifactError string
  | ValueError string
  | IntegrityError string
  | DoesNotExist string
  | KeyError string
  | AttributeError string
  | StationAdminContextError string
  | AppVersionError string
  | DuplicateEmailError string
  | TabletError string string
  | AssignmentError string
  | LibraryError string
  | TransferError string nat
  | ManifestError string
  | ReportAdmissionError string
  | PersonnelError string
  | OSError string
  | FileNotFoundError string

type_synonym 'a res = "exn + 'a"

primrec bind_res :: "'e + 'a \<Rightarrow> ('a \<Rightarrow> 'e + 'b) \<Rightarrow> 'e + 'b" where
  "bind_res (Inl e) f = Inl e"
| "bind_res (Inr x) f = f x"

definition require :: "bool \<Rightarrow> 'e \<Rightarrow> 'e + unit" where
  "require b e = (if b then Inr () else Inl e)"

lemma bind_res_Inr [res_simps]:
  "bind_res m f = Inr y \<longleftrightarrow> (\<exists>x. m = Inr x \<and> f x = Inr y)"
  by (cases m) auto

lemma bind_res_Inl [res_simps]:
  "bind_res m f = Inl e \<longleftrightarrow> m = Inl e \<or> (\<exists>x. m = Inr x \<and> f x = Inl e)"
  by (cases m) auto

lemma bind_resE:
  assumes "bind_res m f = Inr y"
  obtains x where "m = Inr x" and "f x = Inr y"
  using assms by (auto simp: bind_res_Inr)

text \<open>A computation that raises keeps raising whatever follows, or whatever preceded it.\<close>

lemma isl_bind: "isl m \<Longrightarrow> isl (bind_res m f)"
  by (cases m) auto

lemma isl_cont: "(\<And>x. isl (f x)) \<Longrightarrow> isl (bind_res m f)"
  by (cases m) auto

lemma bind_res_assoc: "bind_res (bind_res m f) g = bind_res m (\<lambda>x. bind_res (f x) g)"
  by (cases m) auto

lemma require_Inr [res_simps]: "require b e = Inr x \<longleftrightarrow> b"
  by (simp add: require_def)

lemma require_Inl [res_simps]: "require b e = Inl e' \<longleftrightarrow> \<not> b \<and> e' = e"
  by (auto simp: require_def)

lemma require_True [simp]: "b \<Longrightarrow> require b e = Inr ()"
  by (simp add: require_def)

lemma require_False [simp]: "\<not> b \<Longrightarrow> require b e = Inl e"
  by (simp add: require_def)

definition of_option :: "'e \<Rightarrow> 'a option \<Rightarrow> 'e + 'a" where
  "of_option e m = (case m of None \<Rightarrow> Inl e | Some x \<Rightarrow> Inr x)"

lemma of_option_Inr [res_simps]: "of_option e m = Inr x \<longleftrightarrow> m = Some x"
  by (auto simp: of_option_def split: option.splits)

lemma of_option_Inl [res_simps]: "of_option e m = Inl e' \<longleftrightarrow> m = None \<and> e' = e"
  by (auto simp: of_option_def split: option.splits)

lemma of_option_Some [simp]: "of_option e (Some x) = Inr x"
  by (simp add: of_option_def)

lemma of_option_None [simp]: "of_option e None = Inl e"
  by (simp add: of_option_def)

text \<open>A \<open>for\<close> loop over a fixed list whose body may raise.\<close>

primrec fold_res :: "('a \<Rightarrow> 's \<Rightarrow> 'e + 's) \<Rightarrow> 'a list \<Rightarrow> 's \<Rightarrow> 'e + 's" where
  "fold_res f [] s = Inr s"
| "fold_res f (x # xs) s = bind_res (f x s) (fold_res f xs)"

lemma fold_res_invariant:
  assumes "fold_res f xs s = Inr s'" and "I s"
    and "\<And>x s s'. x \<in> set xs \<Longrightarrow> I s \<Longrightarrow> f x s = Inr s' \<Longrightarrow> I s'"
  shows "I s'"
  using assms
proof (induction xs arbitrary: s)
  case (Cons x xs)
  from Cons.prems(1) obtain t where t: "f x s = Inr t" "fold_res f xs t = Inr s'"
    by (auto simp: bind_res_Inr)
  have "I t" by (rule Cons.prems(3) [OF _ Cons.prems(2) t(1)]) simp
  then show ?case
    using Cons.IH [OF t(2)] Cons.prems(3) by (metis list.set_intros(2))
qed simp

subsection \<open>Tables\<close>

text \<open>
  A table is the list of its rows.  \<open>row_get\<close> is a primary-key lookup, \<open>row_put\<close> is
  \<open>row.save()\<close> on an existing row, \<open>first_by\<close> is \<open>order_by(key).first()\<close> on the filtered rows.
\<close>

definition row_get :: "('r \<Rightarrow> nat) \<Rightarrow> nat \<Rightarrow> 'r list \<Rightarrow> 'r option" where
  "row_get key i rows = find (\<lambda>r. key r = i) rows"

definition row_put :: "('r \<Rightarrow> nat) \<Rightarrow> 'r \<Rightarrow> 'r list \<Rightarrow> 'r list" where
  "row_put key x rows = map (\<lambda>r. if key r = key x then x else r) rows"

definition first_by :: "('r \<Rightarrow> 'k::linorder) \<Rightarrow> ('r \<Rightarrow> bool) \<Rightarrow> 'r list \<Rightarrow> 'r option" where
  "first_by key P rows = (case sort_key key (filter P rows) of [] \<Rightarrow> None | r # _ \<Rightarrow> Some r)"

definition exists_row :: "('r \<Rightarrow> bool) \<Rightarrow> 'r list \<Rightarrow> bool" where
  "exists_row P rows = list_ex P rows"

abbreviation unique_rows :: "('r \<Rightarrow> nat) \<Rightarrow> 'r list \<Rightarrow> bool" where
  "unique_rows key rows \<equiv> distinct (map key rows)"

lemma row_get_SomeD:
  "row_get key i rows = Some r \<Longrightarrow> r \<in> set rows \<and> key r = i"
  unfolding row_get_def by (metis (mono_tags, lifting) find_Some_iff nth_mem)

lemma row_get_mem: "row_get key i rows = Some r \<Longrightarrow> r \<in> set rows"
  by (simp add: row_get_SomeD)

lemma row_get_key: "row_get key i rows = Some r \<Longrightarrow> key r = i"
  by (simp add: row_get_SomeD)

lemma row_get_None: "row_get key i rows = None \<longleftrightarrow> i \<notin> key ` set rows"
  by (auto simp: row_get_def find_None_iff)

lemma distinct_key_Cons: "unique_rows key (x # xs) \<Longrightarrow> y \<in> set xs \<Longrightarrow> key y \<noteq> key x"
  by (metis distinct.simps(2) image_eqI list.set_map list.simps(9))

lemma row_get_image: "row_get key i rows = Some r \<Longrightarrow> i \<in> key ` set rows"
  by (metis option.distinct(1) row_get_None)

lemma row_get_unique:
  "unique_rows key rows \<Longrightarrow> r \<in> set rows \<Longrightarrow> row_get key (key r) rows = Some r"
proof (induction rows)
  case (Cons a rows)
  then show ?case by (auto simp: row_get_def image_iff)
qed simp

lemma row_get_iff:
  "unique_rows key rows \<Longrightarrow> row_get key i rows = Some r \<longleftrightarrow> r \<in> set rows \<and> key r = i"
  by (auto simp: row_get_unique dest: row_get_SomeD)

lemma map_key_row_put [table_simps, simp]: "map key (row_put key x rows) = map key rows"
  by (simp add: row_put_def comp_def cong: map_cong)

lemma row_get_put [table_simps]:
  "row_get key i (row_put key x rows)
     = (if i = key x then (if i \<in> key ` set rows then Some x else None) else row_get key i rows)"
  by (induction rows) (auto simp: row_get_def row_put_def)

lemma row_get_snoc [table_simps]:
  "row_get key i (rows @ [x])
     = (case row_get key i rows of Some r \<Rightarrow> Some r | None \<Rightarrow> if key x = i then Some x else None)"
  by (induction rows) (auto simp: row_get_def)

lemma row_put_absent: "key x \<notin> key ` set rows \<Longrightarrow> row_put key x rows = rows"
  by (induction rows) (auto simp: row_put_def)

lemma set_row_put_subset: "set (row_put key x rows) \<subseteq> insert x (set rows)"
  by (auto simp: row_put_def)

lemma in_set_row_put:
  "r \<in> set (row_put key x rows) \<longleftrightarrow>
     (r = x \<and> key x \<in> key ` set rows) \<or> (r \<in> set rows \<and> key r \<noteq> key x)"
  unfolding row_put_def by (auto simp: image_iff intro: sym)

lemma length_row_put [simp]: "length (row_put key x rows) = length rows"
  by (simp add: row_put_def)

lemma row_put_Nil [simp]: "row_put key x [] = []"
  by (simp add: row_put_def)

lemma first_by_SomeD:
  assumes "first_by key P rows = Some r"
  shows "r \<in> set rows \<and> P r \<and> (\<forall>x\<in>set rows. P x \<longrightarrow> key r \<le> key x)"
proof -
  from assms obtain rs where s: "sort_key key (filter P rows) = r # rs"
    by (auto simp: first_by_def split: list.splits)
  then have "set (r # rs) = set (filter P rows)"
    by (metis set_sort)
  moreover have "sorted (map key (r # rs))"
    using s by (metis sorted_sort_key)
  ultimately show ?thesis by auto
qed

lemma first_by_None: "first_by key P rows = None \<longleftrightarrow> (\<forall>x\<in>set rows. \<not> P x)"
proof -
  have "sort_key key (filter P rows) = [] \<longleftrightarrow> filter P rows = []"
    by (metis set_empty2 set_sort)
  then show ?thesis
    by (auto simp: first_by_def filter_empty_conv split: list.splits)
qed

lemma first_by_mem: "first_by key P rows = Some r \<Longrightarrow> r \<in> set rows"
  by (simp add: first_by_SomeD)

lemma first_by_pred: "first_by key P rows = Some r \<Longrightarrow> P r"
  by (simp add: first_by_SomeD)

lemma exists_row_iff [simp]: "exists_row P rows \<longleftrightarrow> (\<exists>r\<in>set rows. P r)"
  by (simp add: exists_row_def list_ex_iff)

text \<open>Sorting by a key that identifies the elements depends on the set of elements only.\<close>

lemma sort_key_unique:
  fixes f :: "'a \<Rightarrow> 'k::linorder"
  assumes "distinct (map f xs)" and "distinct (map f ys)" and "set xs = set ys"
  shows "sort_key f xs = sort_key f ys"
proof (rule map_sorted_distinct_set_unique)
  show "inj_on f (set (sort_key f xs) \<union> set (sort_key f ys))"
    using assms by (auto simp: distinct_map)
  show "distinct (map f (sort_key f xs))" "distinct (map f (sort_key f ys))"
    using assms by (auto simp: distinct_map)
  show "sorted (map f (sort_key f xs))" "sorted (map f (sort_key f ys))" by simp_all
  show "set (sort_key f xs) = set (sort_key f ys)" using assms by simp
qed

subsection \<open>Time\<close>

text \<open>Timestamps are UTC microseconds since the epoch, as Django's \<open>timezone.now()\<close> yields them.\<close>

type_synonym timestamp = int

definition usec_per_second :: int where "usec_per_second = 1000000"
definition usec_per_day :: int where "usec_per_day = 86400 * usec_per_second"

lemma usec_per_day_value: "usec_per_day = 86400000000"
  by (simp add: usec_per_day_def usec_per_second_def)

end
