(* ===== verification/Registry.thy ===== *)
theory Registry
  imports Prelude
begin

text \<open>
  apps/publications/registry.py: the immutable dataset registry, the lookup
  \<open>get_dataset_definition\<close> and the ownership rule \<open>validate_dataset_scope\<close>.  The registry's scope
  names (\<open>"system"\<close>, \<open>"department"\<close>, \<open>"station"\<close>) and the persisted upper-case scope types are the
  three constructors of \<open>scope_type\<close>; \<open>.upper()\<close> is the identity on them.
\<close>

datatype scope_type = SYSTEM | DEPARTMENT | STATION

record dataset_definition =
  dt_code :: string
  dt_display_name :: string
  dt_scope :: scope_type
  dt_artifact_format :: string
  dt_current_schema_version :: int
  dt_encryption_required :: bool
  dt_minimum_app_version :: "string option"
  dt_builder_service :: string
  dt_validator_service :: string
  dt_summary_schema :: "(string \<times> string) list"
  dt_required :: bool
  dt_supported_schema_versions :: "int list"
  dt_minimum_supported_schema_version :: int
  dt_maximum_supported_schema_version :: int
  dt_feature_code :: string
  dt_internal_only :: bool
  dt_system_exposure :: bool

definition file_library_definition :: "string \<Rightarrow> string \<Rightarrow> scope_type \<Rightarrow> dataset_definition" where
  "file_library_definition c label sc =
     \<lparr>dt_code = c, dt_display_name = label, dt_scope = sc, dt_artifact_format = ''document-manifest-v2'',
      dt_current_schema_version = 2, dt_encryption_required = True, dt_minimum_app_version = None,
      dt_builder_service = c, dt_validator_service = ''summary'',
      dt_summary_schema = [(''document_count'', ''item_count''),
        (''total_accepted_bytes'', ''non_negative_integer''),
        (''source_revision'', ''non_negative_integer'')],
      dt_required = True, dt_supported_schema_versions = [2], dt_minimum_supported_schema_version = 2,
      dt_maximum_supported_schema_version = 2, dt_feature_code = ''publications'',
      dt_internal_only = False, dt_system_exposure = False\<rparr>"

definition dangerous_goods_definition :: dataset_definition where
  "dangerous_goods_definition =
     \<lparr>dt_code = ''dangerous_goods'', dt_display_name = ''Dangerous goods'', dt_scope = SYSTEM,
      dt_artifact_format = ''json'', dt_current_schema_version = 1, dt_encryption_required = True,
      dt_minimum_app_version = None, dt_builder_service = ''dangerous_goods'',
      dt_validator_service = ''summary'',
      dt_summary_schema = [(''goods_count'', ''item_count''), (''eri_card_count'', ''item_count''),
        (''source_revision'', ''non_negative_integer'')],
      dt_required = True, dt_supported_schema_versions = [1], dt_minimum_supported_schema_version = 1,
      dt_maximum_supported_schema_version = 1, dt_feature_code = ''publications'',
      dt_internal_only = False, dt_system_exposure = True\<rparr>"

definition department_hydrants_definition :: dataset_definition where
  "department_hydrants_definition =
     \<lparr>dt_code = ''department_hydrants'', dt_display_name = ''Department hydrants'', dt_scope = DEPARTMENT,
      dt_artifact_format = ''geojson'', dt_current_schema_version = 1, dt_encryption_required = True,
      dt_minimum_app_version = None, dt_builder_service = ''department_hydrants'',
      dt_validator_service = ''summary'',
      dt_summary_schema = [(''active_count'', ''item_count''),
        (''source_revision'', ''non_negative_integer''),
        (''status_counts'', ''bounded_string_integer_map'')],
      dt_required = True, dt_supported_schema_versions = [1], dt_minimum_supported_schema_version = 1,
      dt_maximum_supported_schema_version = 1, dt_feature_code = ''publications'',
      dt_internal_only = False, dt_system_exposure = False\<rparr>"

definition department_fire_plans_definition :: dataset_definition where
  "department_fire_plans_definition =
     \<lparr>dt_code = ''department_fire_plans'', dt_display_name = ''Department fire plans'',
      dt_scope = DEPARTMENT, dt_artifact_format = ''document-manifest-v2'', dt_current_schema_version = 2,
      dt_encryption_required = True, dt_minimum_app_version = None,
      dt_builder_service = ''department_fire_plans'', dt_validator_service = ''summary'',
      dt_summary_schema = [(''active_document_count'', ''item_count''),
        (''total_accepted_bytes'', ''non_negative_integer''),
        (''total_pages'', ''non_negative_integer''),
        (''source_revision'', ''non_negative_integer'')],
      dt_required = True, dt_supported_schema_versions = [2], dt_minimum_supported_schema_version = 2,
      dt_maximum_supported_schema_version = 2, dt_feature_code = ''publications'',
      dt_internal_only = False, dt_system_exposure = False\<rparr>"

definition station_personnel_definition :: dataset_definition where
  "station_personnel_definition =
     \<lparr>dt_code = ''station_personnel'', dt_display_name = ''Station personnel'', dt_scope = STATION,
      dt_artifact_format = ''json'', dt_current_schema_version = 1, dt_encryption_required = True,
      dt_minimum_app_version = None, dt_builder_service = ''station_personnel'',
      dt_validator_service = ''summary'',
      dt_summary_schema = [(''person_count'', ''item_count''), (''station_id'', ''uuid''),
        (''commander_eligible_count'', ''item_count''),
        (''verified_commander_email_count'', ''item_count''),
        (''source_revision'', ''non_negative_integer'')],
      dt_required = True, dt_supported_schema_versions = [1], dt_minimum_supported_schema_version = 1,
      dt_maximum_supported_schema_version = 1, dt_feature_code = ''publications'',
      dt_internal_only = False, dt_system_exposure = False\<rparr>"

definition department_phonebook_definition :: dataset_definition where
  "department_phonebook_definition =
     \<lparr>dt_code = ''department_phonebook'', dt_display_name = ''Department phonebook'',
      dt_scope = DEPARTMENT, dt_artifact_format = ''json'', dt_current_schema_version = 1,
      dt_encryption_required = True, dt_minimum_app_version = None,
      dt_builder_service = ''department_phonebook'', dt_validator_service = ''summary'',
      dt_summary_schema = [(''entry_count'', ''item_count''),
        (''source_revision'', ''non_negative_integer'')],
      dt_required = False, dt_supported_schema_versions = [1], dt_minimum_supported_schema_version = 1,
      dt_maximum_supported_schema_version = 1, dt_feature_code = ''publications'',
      dt_internal_only = False, dt_system_exposure = False\<rparr>"

definition station_phonebook_definition :: dataset_definition where
  "station_phonebook_definition =
     \<lparr>dt_code = ''station_phonebook'', dt_display_name = ''Station phonebook'', dt_scope = STATION,
      dt_artifact_format = ''json'', dt_current_schema_version = 1, dt_encryption_required = True,
      dt_minimum_app_version = None, dt_builder_service = ''station_phonebook'',
      dt_validator_service = ''summary'',
      dt_summary_schema = [(''entry_count'', ''item_count''),
        (''source_revision'', ''non_negative_integer'')],
      dt_required = False, dt_supported_schema_versions = [1], dt_minimum_supported_schema_version = 1,
      dt_maximum_supported_schema_version = 1, dt_feature_code = ''publications'',
      dt_internal_only = False, dt_system_exposure = False\<rparr>"

definition department_klgv_plans_definition :: dataset_definition where
  "department_klgv_plans_definition =
     \<lparr>dt_code = ''department_klgv_plans'', dt_display_name = ''Department KLGV plans'',
      dt_scope = DEPARTMENT, dt_artifact_format = ''document-manifest-v2'', dt_current_schema_version = 2,
      dt_encryption_required = True, dt_minimum_app_version = None,
      dt_builder_service = ''department_klgv_plans'', dt_validator_service = ''summary'',
      dt_summary_schema = [(''document_count'', ''item_count''),
        (''total_accepted_bytes'', ''non_negative_integer''),
        (''total_pages'', ''non_negative_integer''),
        (''source_revision'', ''non_negative_integer'')],
      dt_required = True, dt_supported_schema_versions = [2], dt_minimum_supported_schema_version = 2,
      dt_maximum_supported_schema_version = 2, dt_feature_code = ''klgv_plans'',
      dt_internal_only = False, dt_system_exposure = False\<rparr>"

definition test_department_incidents_definition :: dataset_definition where
  "test_department_incidents_definition =
     \<lparr>dt_code = ''test_department_incidents'', dt_display_name = ''Test department incidents'',
      dt_scope = DEPARTMENT, dt_artifact_format = ''json'', dt_current_schema_version = 1,
      dt_encryption_required = True, dt_minimum_app_version = None,
      dt_builder_service = ''test_department_incidents'', dt_validator_service = ''summary'',
      dt_summary_schema = [(''incident_count'', ''item_count''),
        (''source_revision'', ''non_negative_integer'')],
      dt_required = False, dt_supported_schema_versions = [1], dt_minimum_supported_schema_version = 1,
      dt_maximum_supported_schema_version = 1, dt_feature_code = ''publications'',
      dt_internal_only = True, dt_system_exposure = False\<rparr>"

definition test_system_dataset_definition :: dataset_definition where
  "test_system_dataset_definition =
     \<lparr>dt_code = ''test_system_dataset'', dt_display_name = ''Test system dataset'', dt_scope = SYSTEM,
      dt_artifact_format = ''json'', dt_current_schema_version = 1, dt_encryption_required = True,
      dt_minimum_app_version = None, dt_builder_service = ''test_system_dataset'',
      dt_validator_service = ''summary'',
      dt_summary_schema = [(''item_count'', ''item_count''),
        (''source_revision'', ''non_negative_integer'')],
      dt_required = False, dt_supported_schema_versions = [1], dt_minimum_supported_schema_version = 1,
      dt_maximum_supported_schema_version = 1, dt_feature_code = ''publications'',
      dt_internal_only = True, dt_system_exposure = False\<rparr>"

definition DEFINITIONS :: "dataset_definition list" where
  "DEFINITIONS =
     [file_library_definition ''department_files'' ''Department files'' DEPARTMENT,
      file_library_definition ''station_files'' ''Station files'' STATION,
      dangerous_goods_definition, department_hydrants_definition,
      department_fire_plans_definition, station_personnel_definition,
      department_phonebook_definition, station_phonebook_definition,
      department_klgv_plans_definition, test_department_incidents_definition,
      test_system_dataset_definition]"

text \<open>\<open>{definition.code: definition for ...}\<close>: with a duplicate code the last entry would win.\<close>

definition DATASET_REGISTRY :: "string \<rightharpoonup> dataset_definition" where
  "DATASET_REGISTRY = map_of (rev (map (\<lambda>d. (dt_code d, d)) DEFINITIONS))"

definition production_dataset_definitions :: "dataset_definition list" where
  "production_dataset_definitions = filter (\<lambda>d. \<not> dt_internal_only d) DEFINITIONS"

definition get_dataset_definition :: "string \<Rightarrow> dataset_definition res" where
  "get_dataset_definition c =
     of_option (DatasetRegistryError ''Unknown dataset type code.'') (DATASET_REGISTRY c)"

definition validate_dataset_scope ::
  "string \<Rightarrow> scope_type option \<Rightarrow> 'd option \<Rightarrow> 's option \<Rightarrow> dataset_definition res" where
  "validate_dataset_scope c scope_type department station =
     bind_res (get_dataset_definition c) (\<lambda>d.
       let expected_scope = dt_scope d in
       case scope_type of
         None \<Rightarrow>
           if expected_scope = DEPARTMENT \<and> station \<noteq> None
           then Inl (DatasetRegistryError ''Department-scoped datasets cannot have a station.'')
           else if expected_scope = STATION \<and> station = None
           then Inl (DatasetRegistryError ''Station-scoped datasets require a station.'')
           else Inr d
       | Some st \<Rightarrow>
           if st \<noteq> expected_scope
           then Inl (DatasetRegistryError ''Dataset type is not registered for this publication scope.'')
           else (case st of
             SYSTEM \<Rightarrow>
               if department \<noteq> None \<or> station \<noteq> None
               then Inl (DatasetRegistryError ''System-scoped datasets cannot have a department or station.'')
               else Inr d
           | DEPARTMENT \<Rightarrow>
               if department = None \<or> station \<noteq> None
               then Inl (DatasetRegistryError ''Department-scoped datasets cannot have a station and require a department.'')
               else Inr d
           | STATION \<Rightarrow>
               if department = None \<or> station = None
               then Inl (DatasetRegistryError ''Station scope requires a department and station.'')
               else Inr d))"

text \<open>The two file-library datasets, \<open>{"department_files", "station_files"}\<close> throughout the services.\<close>

definition FILE_DATASETS :: "string set" where
  "FILE_DATASETS = {''department_files'', ''station_files''}"

definition DOCUMENT_V2_DATASETS :: "string set" where
  "DOCUMENT_V2_DATASETS =
     {''department_fire_plans'', ''department_klgv_plans'', ''department_files'', ''station_files''}"

subsection \<open>Lemmas\<close>

lemmas definition_defs =
  file_library_definition_def dangerous_goods_definition_def department_hydrants_definition_def
  department_fire_plans_definition_def station_personnel_definition_def
  department_phonebook_definition_def station_phonebook_definition_def
  department_klgv_plans_definition_def test_department_incidents_definition_def
  test_system_dataset_definition_def

lemma distinct_codes: "distinct (map dt_code DEFINITIONS)"
  by (simp add: DEFINITIONS_def definition_defs)

lemma registry_lookup:
  "DATASET_REGISTRY c = Some d \<longleftrightarrow> d \<in> set DEFINITIONS \<and> dt_code d = c"
proof -
  have fst_map: "map fst (map (\<lambda>d. (dt_code d, d)) DEFINITIONS) = map dt_code DEFINITIONS"
    by (simp add: comp_def)
  have "distinct (map fst (rev (map (\<lambda>d. (dt_code d, d)) DEFINITIONS)))"
    using distinct_codes fst_map by (metis distinct_rev rev_map)
  then show ?thesis
    unfolding DATASET_REGISTRY_def by (auto simp: map_of_eq_Some_iff)
qed

lemma get_dataset_definition_Inr:
  "get_dataset_definition c = Inr d \<longleftrightarrow> d \<in> set DEFINITIONS \<and> dt_code d = c"
  by (simp add: get_dataset_definition_def of_option_Inr registry_lookup)

lemma get_dataset_definition_code: "get_dataset_definition c = Inr d \<Longrightarrow> dt_code d = c"
  by (simp add: get_dataset_definition_Inr)

text \<open>The owner shape a persisted row of each scope type must have.\<close>

definition owner_shape :: "scope_type \<Rightarrow> 'd option \<Rightarrow> 's option \<Rightarrow> bool" where
  "owner_shape t department station =
     (case t of
        SYSTEM \<Rightarrow> department = None \<and> station = None
      | DEPARTMENT \<Rightarrow> department \<noteq> None \<and> station = None
      | STATION \<Rightarrow> department \<noteq> None \<and> station \<noteq> None)"

lemma validate_dataset_scope_Inr:
  "validate_dataset_scope c (Some t) department station = Inr d \<longleftrightarrow>
     get_dataset_definition c = Inr d \<and> dt_scope d = t \<and> owner_shape t department station"
  by (cases t; cases "get_dataset_definition c")
     (auto simp: validate_dataset_scope_def owner_shape_def Let_def split: if_splits)

lemma definitions_schema:
  "d \<in> set DEFINITIONS \<Longrightarrow> dt_current_schema_version d \<in> set (dt_supported_schema_versions d)"
  by (auto simp: DEFINITIONS_def definition_defs)

lemma document_v2_schema:
  "d \<in> set DEFINITIONS \<Longrightarrow>
     dt_artifact_format d = ''document-manifest-v2'' \<longleftrightarrow> dt_code d \<in> DOCUMENT_V2_DATASETS"
  by (auto simp: DEFINITIONS_def definition_defs DOCUMENT_V2_DATASETS_def)

lemma document_v2_version:
  "d \<in> set DEFINITIONS \<Longrightarrow> dt_code d \<in> DOCUMENT_V2_DATASETS \<Longrightarrow> dt_current_schema_version d = 2"
  by (auto simp: DEFINITIONS_def definition_defs DOCUMENT_V2_DATASETS_def)

end
