(* ===== verification/Decimal.thy ===== *)
theory Decimal
  imports Prelude
begin

text \<open>
  Decimal notation: \<open>str(n)\<close> of a non-negative integer, \<open>str(i)\<close> of an integer, and \<open>int(s)\<close> of a string of
  ASCII digits, with the round trips the wire formats and the storage paths rely on.
\<close>

fun dec_nat :: "nat \<Rightarrow> string" where
  "dec_nat n = (if n < 10 then [char_of (48 + n)] else dec_nat (n div 10) @ [char_of (48 + n mod 10)])"

declare dec_nat.simps [simp del]

definition dec_int :: "int \<Rightarrow> string" where
  "dec_int i = (if i < 0 then CHR ''-'' # dec_nat (nat (- i)) else dec_nat (nat i))"

definition is_digit :: "char \<Rightarrow> bool" where
  "is_digit c = (48 \<le> (of_char c :: nat) \<and> (of_char c :: nat) \<le> 57)"

definition digit_value :: "char \<Rightarrow> nat" where
  "digit_value c = of_char c - 48"

definition read_nat :: "string \<Rightarrow> nat" where
  "read_nat s = foldl (\<lambda>n c. 10 * n + digit_value c) 0 s"

lemma of_char_digit: "d < 10 \<Longrightarrow> of_char (char_of (48 + d :: nat)) = 48 + d"
  by (simp add: of_char_of)

lemma digit_char [simp]: "(d :: nat) < 10 \<Longrightarrow> is_digit (char_of (48 + d))"
  by (simp add: is_digit_def of_char_digit)

lemma digit_value_char [simp]: "d < 10 \<Longrightarrow> digit_value (char_of (48 + d)) = d"
  by (simp add: digit_value_def of_char_digit)

lemma char_digit_value: "is_digit c \<Longrightarrow> char_of (48 + digit_value c) = c"
  by (simp add: is_digit_def digit_value_def)

lemma digit_value_less: "is_digit c \<Longrightarrow> digit_value c < 10"
  unfolding is_digit_def digit_value_def by linarith

lemma digit_zero: "is_digit c \<Longrightarrow> digit_value c = 0 \<longleftrightarrow> c = CHR ''0''"
proof -
  assume c: "is_digit c"
  have "char_of (48 :: nat) = CHR ''0''" by code_simp
  moreover have "digit_value (CHR ''0'') = 0" by code_simp
  ultimately show ?thesis using char_digit_value [OF c] by auto
qed

lemma dec_nat_digits: "list_all is_digit (dec_nat n)"
proof (induction n rule: dec_nat.induct)
  case (1 n)
  then show ?case by (subst dec_nat.simps) auto
qed

lemma read_nat_snoc [simp]: "read_nat (s @ [c]) = 10 * read_nat s + digit_value c"
  by (simp add: read_nat_def)

lemma read_nat_Nil [simp]: "read_nat [] = 0"
  by (simp add: read_nat_def)

lemma read_dec_nat [simp]: "read_nat (dec_nat n) = n"
proof (induction n rule: dec_nat.induct)
  case (1 n)
  show ?case
  proof (cases "n < 10")
    case True
    then show ?thesis using read_nat_snoc [of "[]" "char_of (48 + n)"] by (subst dec_nat.simps) simp
  next
    case False
    with 1 show ?thesis by (subst dec_nat.simps) simp
  qed
qed

lemma dec_nat_inj [simp]: "dec_nat m = dec_nat n \<longleftrightarrow> m = n"
  by (metis read_dec_nat)

lemma dec_nat_nonempty [simp]: "dec_nat n \<noteq> []"
  by (subst dec_nat.simps) auto

lemma hd_dec_nat: "hd (dec_nat n) = CHR ''0'' \<longleftrightarrow> n = 0"
proof (induction n rule: dec_nat.induct)
  case (1 n)
  show ?case
  proof (cases "n < 10")
    case True
    then have "char_of (48 + n) = CHR ''0'' \<longleftrightarrow> n = 0"
      using digit_zero [of "char_of (48 + n)"] by simp
    with True show ?thesis by (subst dec_nat.simps) simp
  next
    case False
    with 1 show ?thesis by (subst dec_nat.simps) (simp add: hd_append)
  qed
qed

text \<open>A digit string without a leading zero is the decimal of its value.\<close>

lemma dec_read_nat:
  assumes "s \<noteq> []" and "list_all is_digit s" and "length s = 1 \<or> hd s \<noteq> CHR ''0''"
  shows "dec_nat (read_nat s) = s"
  using assms
proof (induction s rule: rev_induct)
  case (snoc c s)
  have c: "is_digit c" using snoc.prems by simp
  show ?case
  proof (cases "s = []")
    case True
    then show ?thesis
      using c digit_value_less [OF c] read_nat_snoc [of "[]" c]
      by (subst dec_nat.simps) (simp add: char_digit_value)
  next
    case False
    then have s: "hd s \<noteq> CHR ''0''" "list_all is_digit s" using snoc.prems by auto
    then have ih: "dec_nat (read_nat s) = s" using snoc.IH False by blast
    have "read_nat s \<noteq> 0" using ih s(1) by (metis hd_dec_nat)
    then show ?thesis
      using ih digit_value_less [OF c] c by (subst dec_nat.simps) (simp add: char_digit_value)
  qed
qed simp

end
