(* ===== verification/Json.thy ===== *)
theory Json
  imports Decimal
begin

text \<open>
  JSON values as Python holds them after decoding, and their canonical serialisation
  \<open>json.dumps(value, sort_keys=True, separators=(",", ":"), ensure_ascii=True)\<close>
  (apps/publications/builders.py, \<open>_json_bytes\<close>).  A dictionary is its item list; strings hold
  code points below 256, which \<open>ensure_ascii\<close> escapes as \<open>\u00XX\<close> outside the printable range.
\<close>

datatype json =
    JNull
  | JBool bool
  | JInt int
  | JStr string
  | JList "json list"
  | JObj "(string \<times> json) list"

definition jget :: "json \<Rightarrow> string \<Rightarrow> json option" where
  "jget j k = (case j of JObj fs \<Rightarrow> map_of fs k | _ \<Rightarrow> None)"

definition is_dict :: "json \<Rightarrow> bool" where
  "is_dict j = (case j of JObj _ \<Rightarrow> True | _ \<Rightarrow> False)"

definition is_str :: "json \<Rightarrow> bool" where
  "is_str j = (case j of JStr _ \<Rightarrow> True | _ \<Rightarrow> False)"

definition is_list :: "json \<Rightarrow> bool" where
  "is_list j = (case j of JList _ \<Rightarrow> True | _ \<Rightarrow> False)"

definition jkeys :: "json \<Rightarrow> string list" where
  "jkeys j = (case j of JObj fs \<Rightarrow> map fst fs | _ \<Rightarrow> [])"

definition jitems :: "json \<Rightarrow> json list" where
  "jitems j = (case j of JList xs \<Rightarrow> xs | _ \<Rightarrow> [])"

text \<open>The dictionary comprehension \<open>{k: v for k, v in d.items() if k != key}\<close>.\<close>

definition jdrop :: "string \<Rightarrow> json \<Rightarrow> json" where
  "jdrop key j = (case j of JObj fs \<Rightarrow> JObj (filter (\<lambda>(k, v). k \<noteq> key) fs) | _ \<Rightarrow> j)"

lemma jget_jdrop: "jget (jdrop key j) k = (if k = key then None else jget j k)"
proof (cases j)
  case (JObj fs)
  have "map_of (filter (\<lambda>(k, v). k \<noteq> key) fs) k = (if k = key then None else map_of fs k)"
    by (induction fs) auto
  with JObj show ?thesis by (simp add: jget_def jdrop_def)
qed (simp_all add: jget_def jdrop_def)

subsection \<open>Canonical serialisation\<close>

definition hex_digit :: "nat \<Rightarrow> char" where
  "hex_digit n = (if n < 10 then char_of (48 + n) else char_of (87 + n))"

definition bsl :: char where "bsl = char_of (92::nat)"
definition dquote :: char where "dquote = char_of (34::nat)"

definition escape_char :: "char \<Rightarrow> string" where
  "escape_char c =
     (let n = of_char c :: nat in
      if n = 34 then [bsl, dquote]
      else if n = 92 then [bsl, bsl]
      else if n = 10 then [bsl, CHR ''n'']
      else if n = 13 then [bsl, CHR ''r'']
      else if n = 9 then [bsl, CHR ''t'']
      else if n = 12 then [bsl, CHR ''f'']
      else if n = 8 then [bsl, CHR ''b'']
      else if 32 \<le> n \<and> n \<le> 126 then [c]
      else [bsl, CHR ''u'', CHR ''0'', CHR ''0'', hex_digit (n div 16), hex_digit (n mod 16)])"

definition jquote :: "string \<Rightarrow> string" where
  "jquote s = dquote # concat (map escape_char s) @ [dquote]"

fun join_with :: "string \<Rightarrow> string list \<Rightarrow> string" where
  "join_with sep [] = []"
| "join_with sep [x] = x"
| "join_with sep (x # y # xs) = x @ sep @ join_with sep (y # xs)"

fun json_bytes :: "json \<Rightarrow> string" where
  "json_bytes JNull = ''null''"
| "json_bytes (JBool b) = (if b then ''true'' else ''false'')"
| "json_bytes (JInt i) = dec_int i"
| "json_bytes (JStr s) = jquote s"
| "json_bytes (JList xs) = ''['' @ join_with '','' (map json_bytes xs) @ '']''"
| "json_bytes (JObj fs) =
     ''{'' @ join_with '',''
       (map (\<lambda>(k, v). jquote k @ '':'' @ v) (sort_key fst (map (\<lambda>(k, v). (k, json_bytes v)) fs)))
     @ ''}''"

text \<open>The serialisation of a dictionary does not depend on the order of its items.\<close>

lemma json_bytes_key_order:
  assumes "distinct (map fst fs)" and "distinct (map fst gs)" and "set fs = set gs"
  shows "json_bytes (JObj fs) = json_bytes (JObj gs)"
proof -
  let ?m = "map (\<lambda>(k, v). (k, json_bytes v))"
  have fst_m: "map fst (?m hs) = map fst hs" for hs
    by (induction hs) auto
  have "sort_key fst (?m fs) = sort_key fst (?m gs)"
    by (rule sort_key_unique) (use assms in \<open>simp_all add: fst_m del: map_map\<close>)
  then show ?thesis by simp
qed

end
