(* ===== verification/World.thy ===== *)
theory World
  imports Registry Json
begin

text \<open>
  The persistent state: one record per database row the modelled services read or write, the
  enumerations of the model classes, the tables, and the model-layer constraints
  (apps/accounts/models.py, apps/authorization/models.py, apps/organizations/models.py,
  apps/file_library/models.py, apps/publications/models.py, apps/audit/models.py).

  UUID primary keys are natural numbers drawn from \<open>next_id\<close>: \<open>uuid4\<close> is used for its freshness
  only.  All reads of \<open>timezone.now()\<close> inside one service call see the same \<open>clock\<close>.
  \<open>sources\<close> is what \<open>build_source_payload\<close> currently returns for a dataset scope: the canonical
  reference data is edited outside the publication services.
\<close>

subsection \<open>Accounts, organisation and roles\<close>

record user_row =
  usr_id :: nat
  usr_email :: string
  usr_display_name :: string
  usr_is_active :: bool
  usr_is_staff :: bool
  usr_mfa_enabled :: bool
  usr_created_at :: timestamp

datatype department_status = DEP_ACTIVE | DEP_SUSPENDED | DEP_DEACTIVATED

record department_row =
  dep_id :: nat
  dep_name :: string
  dep_short_code :: string
  dep_status :: department_status
  dep_tablet_lease_days :: int
  dep_asset_number_auto_enabled :: bool
  dep_asset_number_prefix :: string
  dep_asset_number_width :: int
  dep_asset_number_sequence :: int
  dep_locale :: string
  dep_timezone :: string
  dep_created_at :: timestamp
  dep_created_by :: "nat option"

record station_row =
  sta_id :: nat
  sta_department :: nat
  sta_name :: string
  sta_short_code :: string
  sta_active :: bool

record system_role_row =
  sr_id :: nat
  sr_user :: nat
  sr_active :: bool

datatype role_status = ROLE_ACTIVE | ROLE_SUSPENDED | ROLE_REVOKED

record membership_row =
  mem_id :: nat
  mem_user :: nat
  mem_department :: nat
  mem_status :: role_status
  mem_created_at :: timestamp
  mem_created_by :: "nat option"
  mem_revoked_at :: "timestamp option"
  mem_revoked_by :: "nat option"
  mem_suspended_at :: "timestamp option"
  mem_suspended_by :: "nat option"

record station_admin_row =
  saa_id :: nat
  saa_user :: nat
  saa_station :: nat
  saa_status :: role_status
  saa_created_at :: timestamp
  saa_created_by :: "nat option"
  saa_revoked_at :: "timestamp option"
  saa_revoked_by :: "nat option"
  saa_suspended_at :: "timestamp option"
  saa_suspended_by :: "nat option"

record temporary_access_row =
  tsa_id :: nat
  tsa_user :: nat
  tsa_department :: nat
  tsa_station :: nat
  tsa_activated_at :: timestamp
  tsa_expires_at :: timestamp
  tsa_revoked_at :: "timestamp option"
  tsa_revocation_reason :: string

subsection \<open>Publications\<close>

record scope_state =
  scp_id :: nat
  scp_scope_type :: scope_type
  scp_department :: "nat option"
  scp_station :: "nat option"
  scp_dataset_type_code :: string
  scp_source_revision :: int
  scp_current_source_fingerprint :: string
  scp_dirty_since :: "timestamp option"
  scp_latest_built_publication :: "nat option"
  scp_current_published_publication :: "nat option"
  scp_updated_at :: timestamp

datatype artifact_status = ART_PENDING | ART_READY | ART_FAILED

datatype publication_status =
    STAGED | BUILDING | READY_FOR_REVIEW | PUBLISHED | PUB_FAILED
  | SUPERSEDED | REJECTED | PUB_OBSOLETE | PUB_CANCELLED

record artifact_meta =
  am_path :: string
  am_size :: "int option"
  am_sha256 :: string
  am_nonce :: "string option"
  am_wrapped_cek :: "string option"
  am_encryption_algorithm :: string
  am_wrapping_algorithm :: string
  am_kek_version :: string
  am_signature :: "string option"
  am_signature_algorithm :: string
  am_signing_key_version :: string

definition no_artifact :: artifact_meta where
  "no_artifact =
     \<lparr>am_path = [], am_size = None, am_sha256 = [], am_nonce = None, am_wrapped_cek = None,
      am_encryption_algorithm = [], am_wrapping_algorithm = [], am_kek_version = [],
      am_signature = None, am_signature_algorithm = [], am_signing_key_version = []\<rparr>"

record publication =
  pub_id :: nat
  pub_scope_type :: scope_type
  pub_department :: "nat option"
  pub_station :: "nat option"
  pub_dataset_type_code :: string
  pub_scope_state :: nat
  pub_version_number :: nat
  pub_schema_version :: int
  pub_source_revision :: int
  pub_source_fingerprint :: string
  pub_source_snapshot :: "json option"
  pub_status :: publication_status
  pub_build_summary :: json
  pub_change_summary :: json
  pub_artifact_ready :: bool
  pub_artifact_status :: artifact_status
  pub_artifact :: artifact_meta
  pub_created_at :: timestamp
  pub_created_by :: "nat option"
  pub_published_at :: "timestamp option"
  pub_published_by :: "nat option"
  pub_supersedes :: "nat option"
  pub_build_error :: string

datatype job_status = PENDING | RUNNING | SUCCEEDED | JOB_FAILED | JOB_OBSOLETE | JOB_CANCELLED

datatype trigger_type = USER_REQUEST | BULK_REQUEST | DATA_CHANGE

record publication_job =
  job_id :: nat
  job_dataset_type_code :: string
  job_scope_state :: nat
  job_scope_type :: scope_type
  job_department :: "nat option"
  job_station :: "nat option"
  job_source_revision :: int
  job_attempt_count :: nat
  job_status :: job_status
  job_requested_by :: "nat option"
  job_trigger_type :: trigger_type
  job_allow_clean_rebuild :: bool
  job_not_before :: "timestamp option"
  job_debounce_started_at :: "timestamp option"
  job_created_at :: timestamp
  job_started_at :: "timestamp option"
  job_heartbeat_at :: "timestamp option"
  job_completed_at :: "timestamp option"
  job_error_message :: string
  job_error_category :: string
  job_build_publication :: "nat option"

datatype activation_action = PUBLISH | ROLLBACK

record publication_activation =
  act_id :: nat
  act_publication :: nat
  act_scope_state :: nat
  act_previous_publication :: "nat option"
  act_action :: activation_action
  act_activated_at :: timestamp
  act_activated_by :: "nat option"

datatype grant_status = GRANT_PENDING | GRANT_RUNNING | GRANT_READY | GRANT_FAILED | GRANT_REVOKED

record key_grant =
  kg_id :: nat
  kg_publication :: nat
  kg_app_installation :: nat
  kg_status :: grant_status
  kg_revoked_at :: "timestamp option"

record document_artifact =
  da_id :: nat
  da_dataset_type_code :: string
  da_canonical_document_id :: nat
  da_sanitized_pdf_sha256 :: string
  da_artifact_path :: string
  da_ciphertext_size :: int
  da_ciphertext_sha256 :: string
  da_nonce :: string
  da_wrapped_cek :: string
  da_encryption_algorithm :: string
  da_wrapping_algorithm :: string
  da_kek_version :: string
  da_signature :: string
  da_signature_algorithm :: string
  da_signing_key_version :: string
  da_created_at :: timestamp

record artifact_reference =
  dref_id :: nat
  dref_publication :: nat
  dref_canonical_document_id :: nat
  dref_document_artifact :: nat

record artifact_cleanup =
  dcl_id :: nat
  dcl_artifact_id :: nat
  dcl_artifact_path :: string
  dcl_created_at :: timestamp

record generation_key =
  gk_publication :: nat
  gk_wrapped_key :: string
  gk_wrapping_algorithm :: string
  gk_kek_version :: string

record generation_manifest =
  gm_publication :: nat
  gm_payload :: json
  gm_signature :: string
  gm_signature_algorithm :: string
  gm_signing_key_version :: string

record publication_content =
  pc_publication :: nat
  pc_content :: string
  pc_document_id :: string

record audit_event =
  aud_action :: string
  aud_actor_user :: "nat option"
  aud_department :: "nat option"
  aud_station :: "nat option"
  aud_target_type :: string
  aud_target_uuid :: "nat option"
  aud_metadata :: "(string \<times> json) list"

text \<open>Functions registered with \<open>transaction.on_commit\<close>.\<close>

datatype callback =
    RemoveArtifact string
  | ProcessCleanup nat
  | EnqueueFollowUp "nat option" "nat option" string "timestamp option"
  | WakeBuildWorker

record world =
  clock :: timestamp
  next_id :: nat
  users :: "user_row list"
  departments :: "department_row list"
  stations :: "station_row list"
  system_roles :: "system_role_row list"
  memberships :: "membership_row list"
  station_admins :: "station_admin_row list"
  temporary_accesses :: "temporary_access_row list"
  scope_states :: "scope_state list"
  publications :: "publication list"
  jobs :: "publication_job list"
  activations :: "publication_activation list"
  dataset_key_grants :: "key_grant list"
  generation_key_grants :: "key_grant list"
  document_artifacts :: "document_artifact list"
  artifact_references :: "artifact_reference list"
  artifact_cleanups :: "artifact_cleanup list"
  generation_keys :: "generation_key list"
  generation_manifests :: "generation_manifest list"
  publication_contents :: "publication_content list"
  library_contents :: "(string \<times> string) list"
  audit_log :: "audit_event list"
  on_commit :: "callback list"
  artifact_files :: "string list"
  wakes :: nat
  sources :: "string \<Rightarrow> nat option \<Rightarrow> nat option \<Rightarrow> json res"

text \<open>A database without rows, for concrete instances of the components.\<close>

definition empty_world :: "timestamp \<Rightarrow> nat \<Rightarrow> world" where
  "empty_world now next =
     \<lparr>clock = now, next_id = next, users = [], departments = [], stations = [], system_roles = [], memberships = [],
      station_admins = [], temporary_accesses = [], scope_states = [], publications = [], jobs = [],
      activations = [], dataset_key_grants = [], generation_key_grants = [], document_artifacts = [],
      artifact_references = [], artifact_cleanups = [], generation_keys = [], generation_manifests = [],
      publication_contents = [], library_contents = [], audit_log = [], on_commit = [], artifact_files = [],
      wakes = 0, sources = (\<lambda>_ _ _. Inl (PublicationBuildError ''no source''))\<rparr>"

text \<open>
  Parameters: SHA-256 (hashlib), the storage layer's refusal of a path and the failures of \<open>unlink\<close>, the validator of a
  persisted document generation (apps/publications/document_v2.py, which reads cryptographic
  material this model does not hold), and the deployment settings.
\<close>

record env =
  sha256_hex :: "string \<Rightarrow> string"
  unlink_fault :: "string \<Rightarrow> bool"
  unlink_error :: "string \<Rightarrow> bool"
  generation_error :: "world \<Rightarrow> publication \<Rightarrow> bool \<Rightarrow> string option"
  RETAINED_ROLLBACK_PREDECESSORS :: nat
  RESTORE_AWARE_ENABLED :: bool
  TERMINAL_SNAPSHOT_RETENTION_DAYS :: int
  RETENTION_BATCH_SIZE :: nat
  SUMMARY_MAX_ITEMS :: int

end
