(* ===== verification/Store.thy ===== *)
theory Store
  imports World
begin

text \<open>
  The model layer's statements: \<open>save\<close> and \<open>create\<close> on the three constrained publication tables with
  the \<open>Meta.constraints\<close> of apps/publications/models.py checked at every statement (PostgreSQL's
  unique constraints are immediate), the audit trail, and \<open>transaction.on_commit\<close>.  The locale
  \<open>constrained_table\<close> is the contract the services rely on; it is interpreted for the scope,
  publication and job tables.
\<close>

subsection \<open>Constraints\<close>

definition scope_key :: "scope_state \<Rightarrow> scope_type \<times> nat option \<times> nat option \<times> string" where
  "scope_key s = (scp_scope_type s, scp_department s, scp_station s, scp_dataset_type_code s)"

definition publication_key :: "publication \<Rightarrow> scope_type \<times> nat option \<times> nat option \<times> string" where
  "publication_key p = (pub_scope_type p, pub_department p, pub_station p, pub_dataset_type_code p)"

definition job_key :: "publication_job \<Rightarrow> scope_type \<times> nat option \<times> nat option \<times> string" where
  "job_key j = (job_scope_type j, job_department j, job_station j, job_dataset_type_code j)"

definition scope_state_constraints :: "scope_state list \<Rightarrow> bool" where
  "scope_state_constraints ss =
     (list_all (\<lambda>s. owner_shape (scp_scope_type s) (scp_department s) (scp_station s)) ss
      \<and> distinct (map scope_key ss))"

definition publication_constraints :: "publication list \<Rightarrow> bool" where
  "publication_constraints ps =
     (list_all (\<lambda>p. owner_shape (pub_scope_type p) (pub_department p) (pub_station p)) ps
      \<and> distinct (map (\<lambda>p. (publication_key p, pub_version_number p)) ps)
      \<and> distinct (map publication_key (filter (\<lambda>p. pub_status p = PUBLISHED) ps))
      \<and> list_all (\<lambda>p. pub_status p \<in> {READY_FOR_REVIEW, PUBLISHED} \<longrightarrow> pub_artifact_status p = ART_READY) ps)"

definition job_active :: "publication_job \<Rightarrow> bool" where
  "job_active j = (job_status j = PENDING \<or> job_status j = RUNNING)"

definition job_constraints :: "publication_job list \<Rightarrow> bool" where
  "job_constraints js =
     (list_all (\<lambda>j. owner_shape (job_scope_type j) (job_department j) (job_station j)) js
      \<and> distinct (map job_key (filter job_active js)))"

subsection \<open>Statements\<close>

definition save_scope :: "scope_state \<Rightarrow> world \<Rightarrow> world res" where
  "save_scope s w =
     (let ss = row_put scp_id (s\<lparr>scp_updated_at := clock w\<rparr>) (scope_states w) in
      if scope_state_constraints ss then Inr (w\<lparr>scope_states := ss\<rparr>)
      else Inl (IntegrityError ''dataset_scope_state''))"

definition create_scope :: "scope_state \<Rightarrow> world \<Rightarrow> world res" where
  "create_scope s w =
     (let ss = scope_states w @ [s] in
      if scope_state_constraints ss then Inr (w\<lparr>scope_states := ss\<rparr>)
      else Inl (IntegrityError ''dataset_scope_state''))"

definition save_publication :: "publication \<Rightarrow> world \<Rightarrow> world res" where
  "save_publication p w =
     (let ps = row_put pub_id p (publications w) in
      if publication_constraints ps then Inr (w\<lparr>publications := ps\<rparr>)
      else Inl (IntegrityError ''dataset_publication''))"

definition create_publication :: "publication \<Rightarrow> world \<Rightarrow> world res" where
  "create_publication p w =
     (let ps = publications w @ [p] in
      if publication_constraints ps then Inr (w\<lparr>publications := ps\<rparr>)
      else Inl (IntegrityError ''dataset_publication''))"

definition save_job :: "publication_job \<Rightarrow> world \<Rightarrow> world res" where
  "save_job j w =
     (let js = row_put job_id j (jobs w) in
      if job_constraints js then Inr (w\<lparr>jobs := js\<rparr>)
      else Inl (IntegrityError ''publication_job''))"

definition create_job :: "publication_job \<Rightarrow> world \<Rightarrow> world res" where
  "create_job j w =
     (let js = jobs w @ [j] in
      if job_constraints js then Inr (w\<lparr>jobs := js\<rparr>)
      else Inl (IntegrityError ''publication_job''))"

definition get_publication :: "nat \<Rightarrow> world \<Rightarrow> publication option" where
  "get_publication i w = row_get pub_id i (publications w)"

definition get_job :: "nat \<Rightarrow> world \<Rightarrow> publication_job option" where
  "get_job i w = row_get job_id i (jobs w)"

definition get_scope :: "nat \<Rightarrow> world \<Rightarrow> scope_state option" where
  "get_scope i w = row_get scp_id i (scope_states w)"

text \<open>Following a nullable foreign key to a publication.\<close>

definition fk_publication :: "nat option \<Rightarrow> world \<Rightarrow> publication option" where
  "fk_publication fk w = (case fk of None \<Rightarrow> None | Some i \<Rightarrow> get_publication i w)"

definition record_event ::
  "string \<Rightarrow> nat option \<Rightarrow> nat option \<Rightarrow> nat option \<Rightarrow> string \<Rightarrow> nat option \<Rightarrow> (string \<times> json) list
   \<Rightarrow> world \<Rightarrow> world" where
  "record_event action actor department station target_type target_uuid metadata w =
     w\<lparr>audit_log := audit_log w @
        [\<lparr>aud_action = action, aud_actor_user = actor, aud_department = department,
          aud_station = station, aud_target_type = target_type, aud_target_uuid = target_uuid,
          aud_metadata = metadata\<rparr>]\<rparr>"

definition register_on_commit :: "callback \<Rightarrow> world \<Rightarrow> world" where
  "register_on_commit cb w = w\<lparr>on_commit := on_commit w @ [cb]\<rparr>"

definition fresh_id :: "world \<Rightarrow> nat \<times> world" where
  "fresh_id w = (next_id w, w\<lparr>next_id := Suc (next_id w)\<rparr>)"

subsection \<open>The table contract\<close>

locale constrained_table =
  fixes key :: "'r \<Rightarrow> nat"
    and rows :: "'w \<Rightarrow> 'r list"
    and set_rows :: "'r list \<Rightarrow> 'w \<Rightarrow> 'w"
    and ok :: "'r list \<Rightarrow> bool"
    and stamp :: "'w \<Rightarrow> 'r \<Rightarrow> 'r"
    and save :: "'r \<Rightarrow> 'w \<Rightarrow> exn + 'w"
    and create :: "'r \<Rightarrow> 'w \<Rightarrow> exn + 'w"
  assumes rows_set_rows: "rows (set_rows rs w) = rs"
    and key_stamp: "key (stamp w r) = key r"
    and save_result: "save r w = Inr w' \<longleftrightarrow>
           ok (row_put key (stamp w r) (rows w)) \<and> w' = set_rows (row_put key (stamp w r) (rows w)) w"
    and create_result: "create r w = Inr w' \<longleftrightarrow>
           ok (rows w @ [r]) \<and> w' = set_rows (rows w @ [r]) w"
begin

lemma save_ok: "save r w = Inr w' \<Longrightarrow> ok (rows w')"
  by (simp add: save_result rows_set_rows)

lemma create_ok: "create r w = Inr w' \<Longrightarrow> ok (rows w')"
  by (simp add: create_result rows_set_rows)

lemma save_keys: "save r w = Inr w' \<Longrightarrow> map key (rows w') = map key (rows w)"
  by (simp add: save_result rows_set_rows)

lemma save_get:
  "save r w = Inr w' \<Longrightarrow> row_get key i (rows w') =
     (if i = key r then (if i \<in> key ` set (rows w) then Some (stamp w r) else None)
      else row_get key i (rows w))"
  by (simp add: save_result rows_set_rows row_get_put key_stamp)

lemma save_get_same:
  "save r w = Inr w' \<Longrightarrow> row_get key (key r) (rows w) = Some r0 \<Longrightarrow>
     row_get key (key r) (rows w') = Some (stamp w r)"
  by (auto simp: save_get image_iff dest!: row_get_SomeD intro: bexI [of _ r0])

lemma save_get_other:
  "save r w = Inr w' \<Longrightarrow> i \<noteq> key r \<Longrightarrow> row_get key i (rows w') = row_get key i (rows w)"
  by (simp add: save_get)

lemma create_get:
  assumes "create r w = Inr w'" and new: "key r \<notin> key ` set (rows w)"
  shows "row_get key i (rows w') = (if i = key r then Some r else row_get key i (rows w))"
proof (cases "row_get key i (rows w)")
  case None
  with assms show ?thesis by (simp add: create_result rows_set_rows row_get_snoc)
next
  case (Some a)
  then have "key a = i" and "a \<in> set (rows w)" by (simp_all add: row_get_SomeD)
  with new have "i \<noteq> key r" by (metis imageI)
  with assms Some show ?thesis by (simp add: create_result rows_set_rows row_get_snoc)
qed

lemma create_unique:
  "create r w = Inr w' \<Longrightarrow> key r \<notin> key ` set (rows w) \<Longrightarrow> unique_rows key (rows w) \<Longrightarrow>
     unique_rows key (rows w')"
  by (simp add: create_result rows_set_rows)

lemma save_unique:
  "save r w = Inr w' \<Longrightarrow> unique_rows key (rows w) \<Longrightarrow> unique_rows key (rows w')"
  by (metis save_keys)

end

interpretation scope_table: constrained_table scp_id scope_states "\<lambda>rs w. w\<lparr>scope_states := rs\<rparr>"
  scope_state_constraints "\<lambda>w s. s\<lparr>scp_updated_at := clock w\<rparr>" save_scope create_scope
  by unfold_locales (auto simp: save_scope_def create_scope_def Let_def)

interpretation publication_table: constrained_table pub_id publications
  "\<lambda>rs w. w\<lparr>publications := rs\<rparr>" publication_constraints "\<lambda>w p. p" save_publication create_publication
  by unfold_locales (auto simp: save_publication_def create_publication_def Let_def)

interpretation job_table: constrained_table job_id jobs "\<lambda>rs w. w\<lparr>jobs := rs\<rparr>"
  job_constraints "\<lambda>w j. j" save_job create_job
  by unfold_locales (auto simp: save_job_def create_job_def Let_def)

lemmas save_results =
  scope_table.save_result scope_table.create_result publication_table.save_result
  publication_table.create_result job_table.save_result job_table.create_result

lemma fk_publication_Some:
  "fk_publication fk w = Some p \<longleftrightarrow> (\<exists>i. fk = Some i \<and> get_publication i w = Some p)"
  by (auto simp: fk_publication_def split: option.splits)

lemma get_publication_id: "get_publication i w = Some p \<Longrightarrow> pub_id p = i"
  by (simp add: get_publication_def row_get_key)

lemma get_job_id: "get_job i w = Some j \<Longrightarrow> job_id j = i"
  by (simp add: get_job_def row_get_key)

lemma get_scope_id: "get_scope i w = Some s \<Longrightarrow> scp_id s = i"
  by (simp add: get_scope_def row_get_key)

end
