(* ===== verification/Document_Artifacts.thy ===== *)
theory Document_Artifacts
  imports Store
begin

text \<open>
  Ciphertext storage and its cleanup: apps/publications/paths.py, \<open>remove_artifact_path\<close> of
  apps/publications/artifacts.py, \<open>_schedule_artifact_removal\<close> of apps/publications/services.py, and
  apps/publications/document_artifacts.py (release of a terminal generation's documents, the durable
  cleanup queue, the orphan sweep), plus \<open>revoke_publication_dataset_key_grants\<close> of
  apps/publications/manifests.py.  The artifact store is the list of stored relative paths.
\<close>

subsection \<open>Paths\<close>

definition publication_artifact_relative_path ::
  "nat option \<Rightarrow> nat \<Rightarrow> scope_type \<Rightarrow> string res" where
  "publication_artifact_relative_path department_id publication_id scope_type =
     (if scope_type = SYSTEM then
        (if department_id \<noteq> None
         then Inl (ValueError ''SYSTEM publication artifacts cannot have a department owner.'')
         else Inr (''system/'' @ dec_nat publication_id @ ''/artifact.bin''))
      else (case department_id of
        None \<Rightarrow> Inl (ValueError ''Tenant publication artifacts require a valid owner scope.'')
      | Some d \<Rightarrow> Inr (dec_nat d @ ''/'' @ dec_nat publication_id @ ''/artifact.bin'')))"

definition document_artifact_relative_path :: "nat \<Rightarrow> string" where
  "document_artifact_relative_path artifact_id = ''documents/'' @ dec_nat artifact_id @ ''/artifact.bin''"

subsection \<open>Physical removal\<close>

datatype removal = Deleted | Missing

text \<open>
  \<open>unlink_fault\<close> stands for the refusals that depend on the file system, a path that resolves outside
  the root or a symlink on the way, and \<open>unlink_error\<close> for an \<open>OSError\<close> of \<open>unlink\<close> on a file that is there.
\<close>

definition remove_artifact_path :: "env \<Rightarrow> string \<Rightarrow> world \<Rightarrow> (removal \<times> world) res" where
  "remove_artifact_path E path w =
     (if path = [] then Inl (ArtifactError ''Artifact path must be a nonempty string.'')
      else if unlink_fault E path then Inl (ArtifactError path)
      else if path \<notin> set (artifact_files w) then Inr (Missing, w)
      else if unlink_error E path then Inl (OSError path)
      else Inr (Deleted, w\<lparr>artifact_files := filter (\<lambda>f. f \<noteq> path) (artifact_files w)\<rparr>))"

definition schedule_artifact_removal :: "string \<Rightarrow> world \<Rightarrow> world" where
  "schedule_artifact_removal path w = (if path = [] then w else register_on_commit (RemoveArtifact path) w)"

text \<open>The registered function: a failed cleanup is logged and left to orphan maintenance.\<close>

definition remove_after_commit :: "env \<Rightarrow> string \<Rightarrow> world \<Rightarrow> world" where
  "remove_after_commit E path w =
     (case remove_artifact_path E path w of Inl _ \<Rightarrow> w | Inr (_, w') \<Rightarrow> w')"

subsection \<open>Cleanup accounting\<close>

record cleanup_result =
  files_deleted :: int
  files_already_missing :: int
  cleanup_deferred :: int
  cleanup_failed :: int
  temporary_entries_removed :: int
  document_cleanup_records_processed :: int
  document_orphan_records_removed :: int

definition empty_cleanup_result :: cleanup_result where
  "empty_cleanup_result =
     \<lparr>files_deleted = 0, files_already_missing = 0, cleanup_deferred = 0, cleanup_failed = 0,
      temporary_entries_removed = 0, document_cleanup_records_processed = 0,
      document_orphan_records_removed = 0\<rparr>"

definition record_file :: "removal \<Rightarrow> cleanup_result \<Rightarrow> cleanup_result" where
  "record_file outcome r =
     (case outcome of
        Deleted \<Rightarrow> r\<lparr>files_deleted := files_deleted r + 1\<rparr>
      | Missing \<Rightarrow> r\<lparr>files_already_missing := files_already_missing r + 1\<rparr>)"

subsection \<open>The durable document queue\<close>

definition remove_queued_ciphertext :: "env \<Rightarrow> artifact_cleanup \<Rightarrow> world \<Rightarrow> (removal \<times> world) res" where
  "remove_queued_ciphertext E cleanup w =
     (if dcl_artifact_path cleanup \<noteq> document_artifact_relative_path (dcl_artifact_id cleanup)
      then Inl (ArtifactError ''Cleanup path must be a generated document path.'')
      else if exists_row (\<lambda>a. da_id a = dcl_artifact_id cleanup) (document_artifacts w)
           \<or> exists_row (\<lambda>a. da_artifact_path a = dcl_artifact_path cleanup) (document_artifacts w)
      then Inl (ArtifactError ''Cleanup cannot remove a stored document artifact.'')
      else remove_artifact_path E (dcl_artifact_path cleanup) w)"

text \<open>\<open>get_or_create(artifact_id=..., defaults=...)\<close> and the registered removal.\<close>

definition schedule_document_artifact_removal :: "nat \<Rightarrow> string \<Rightarrow> world \<Rightarrow> nat \<times> world" where
  "schedule_document_artifact_removal artifact_id artifact_path w =
     (case first_by dcl_id (\<lambda>c. dcl_artifact_id c = artifact_id) (artifact_cleanups w) of
        Some c \<Rightarrow> (dcl_id c, register_on_commit (ProcessCleanup (dcl_id c)) w)
      | None \<Rightarrow>
          let (i, w1) = fresh_id w in
          (i, register_on_commit (ProcessCleanup i)
               (w1\<lparr>artifact_cleanups := artifact_cleanups w1 @
                  [\<lparr>dcl_id = i, dcl_artifact_id = artifact_id, dcl_artifact_path = artifact_path,
                    dcl_created_at = clock w1\<rparr>]\<rparr>)))"

definition process_cleanup_record ::
  "env \<Rightarrow> nat \<Rightarrow> cleanup_result \<Rightarrow> world \<Rightarrow> cleanup_result \<times> world" where
  "process_cleanup_record E cleanup_id r w =
     (case row_get dcl_id cleanup_id (artifact_cleanups w) of
        None \<Rightarrow> (r, w)
      | Some cleanup \<Rightarrow>
          (case remove_queued_ciphertext E cleanup w of
             Inl _ \<Rightarrow> (r\<lparr>cleanup_failed := cleanup_failed r + 1,
                         cleanup_deferred := cleanup_deferred r + 1\<rparr>, w)
           | Inr (outcome, w1) \<Rightarrow>
               (record_file outcome
                  (r\<lparr>document_cleanup_records_processed := document_cleanup_records_processed r + 1\<rparr>),
                w1\<lparr>artifact_cleanups := filter (\<lambda>c. dcl_id c \<noteq> cleanup_id) (artifact_cleanups w1)\<rparr>)))"

subsection \<open>Release of a terminal generation\<close>

definition release_artifact :: "document_artifact \<Rightarrow> nat \<times> world \<Rightarrow> nat \<times> world" where
  "release_artifact artifact acc =
     (let (queued, w) = acc in
      if exists_row (\<lambda>r. dref_document_artifact r = da_id artifact) (artifact_references w) then (queued, w)
      else (queued + 1,
        snd (schedule_document_artifact_removal (da_id artifact) (da_artifact_path artifact)
          (w\<lparr>document_artifacts := filter (\<lambda>a. da_id a \<noteq> da_id artifact) (document_artifacts w)\<rparr>))))"

definition terminal_status :: "publication_status \<Rightarrow> bool" where
  "terminal_status s = (s \<in> {PUB_FAILED, PUB_CANCELLED, REJECTED, PUB_OBSOLETE})"

definition release_terminal_document_artifact_references ::
  "publication \<Rightarrow> world \<Rightarrow> (nat \<times> world) res" where
  "release_terminal_document_artifact_references p w =
     (if \<not> terminal_status (pub_status p)
      then Inl (ValueError ''Only terminal publications can release document artifacts.'')
      else
        let w1 = (if pub_dataset_type_code p \<in> FILE_DATASETS
                  then w\<lparr>publication_contents := filter (\<lambda>c. pc_publication c \<noteq> pub_id p) (publication_contents w)\<rparr>
                  else w);
            ids = map dref_document_artifact
                    (filter (\<lambda>r. dref_publication r = pub_id p) (artifact_references w1))
        in if ids = [] then Inr (0, w1)
           else
             let artifacts = sort_key da_id (filter (\<lambda>a. da_id a \<in> set ids) (document_artifacts w1));
                 w2 = w1\<lparr>artifact_references := filter (\<lambda>r. dref_publication r \<noteq> pub_id p) (artifact_references w1)\<rparr>
             in Inr (fold release_artifact artifacts (0, w2)))"

subsection \<open>The orphan sweep\<close>

text \<open>One iteration of the second loop, with the removal its own transaction registers run at its commit.\<close>

definition sweep_orphan :: "env \<Rightarrow> nat \<Rightarrow> cleanup_result \<times> world \<Rightarrow> cleanup_result \<times> world" where
  "sweep_orphan E artifact_id acc =
     (let (r, w) = acc in
      case row_get da_id artifact_id (document_artifacts w) of
        None \<Rightarrow> (r, w)
      | Some artifact \<Rightarrow>
          if exists_row (\<lambda>x. dref_document_artifact x = artifact_id) (artifact_references w) then (r, w)
          else
            let (i, w1) = schedule_document_artifact_removal artifact_id (da_artifact_path artifact)
                  (w\<lparr>document_artifacts := filter (\<lambda>a. da_id a \<noteq> artifact_id) (document_artifacts w)\<rparr>);
                (r1, w2) = process_cleanup_record E i r (w1\<lparr>on_commit := on_commit w\<rparr>)
            in (r1\<lparr>document_orphan_records_removed := document_orphan_records_removed r1 + 1\<rparr>, w2))"

definition cleanup_unreferenced_document_artifacts ::
  "env \<Rightarrow> nat \<Rightarrow> world \<Rightarrow> (cleanup_result \<times> world) res" where
  "cleanup_unreferenced_document_artifacts E batch_size w =
     (if batch_size < 1 then Inl (ValueError ''Document artifact cleanup batch size must be positive.'')
      else
        let cleanup_ids = map dcl_id (take batch_size (sort_key dcl_created_at (artifact_cleanups w)));
            (r1, w1) = fold (\<lambda>i (r, w). process_cleanup_record E i r w) cleanup_ids
                         (empty_cleanup_result, w);
            generic_ids = map da_id (take batch_size (sort_key da_created_at
              (filter (\<lambda>a. \<not> exists_row (\<lambda>x. dref_document_artifact x = da_id a) (artifact_references w1))
                (document_artifacts w1))))
        in Inr (fold (sweep_orphan E) generic_ids (r1, w1)))"

subsection \<open>Key grants of a publication that is no longer current\<close>

definition revoke_grant :: "timestamp \<Rightarrow> key_grant \<Rightarrow> key_grant" where
  "revoke_grant now g = g\<lparr>kg_status := GRANT_REVOKED, kg_revoked_at := Some now\<rparr>"

definition revoke_publication_dataset_key_grants :: "publication \<Rightarrow> world \<Rightarrow> nat \<times> world" where
  "revoke_publication_dataset_key_grants p w =
     (let hit = (\<lambda>g. kg_publication g = pub_id p \<and> kg_status g \<noteq> GRANT_REVOKED);
          upd = map (\<lambda>g. if hit g then revoke_grant (clock w) g else g);
          generic_count = (if pub_dataset_type_code p \<in> FILE_DATASETS then 0
                           else length (filter hit (generation_key_grants w)));
          w1 = (if pub_dataset_type_code p \<in> FILE_DATASETS then w
                else w\<lparr>generation_key_grants := upd (generation_key_grants w)\<rparr>)
      in (generic_count + length (filter hit (dataset_key_grants w1)),
          w1\<lparr>dataset_key_grants := upd (dataset_key_grants w1)\<rparr>))"

end
