(* ===== verification/Restore.thy ===== *)
theory Restore
  imports Document_Artifacts
begin

text \<open>
  apps/publications/restore.py: when a superseded publication may be activated again, and the
  strict, batched assessment of a scope's predecessors that rollback, active deletion and
  restore-aware retention share.  A blocked reason is a string, empty when the publication is
  restorable.
\<close>

definition DOCUMENT_CANDIDATE_BATCH_SIZE :: nat where "DOCUMENT_CANDIDATE_BATCH_SIZE = 8"

definition publication_restore_metadata_blocked_reason ::
  "publication \<Rightarrow> scope_state \<Rightarrow> bool \<Rightarrow> string res" where
  "publication_restore_metadata_blocked_reason p s historical =
     (if pub_scope_state p \<noteq> scp_id s
         \<or> pub_dataset_type_code p \<noteq> scp_dataset_type_code s
         \<or> pub_scope_type p \<noteq> scp_scope_type s
         \<or> pub_department p \<noteq> scp_department s
         \<or> pub_station p \<noteq> scp_station s
         \<or> (historical \<and> pub_status p \<noteq> SUPERSEDED)
      then Inr ''Only a superseded publication in this scope can be restored.''
      else bind_res (get_dataset_definition (pub_dataset_type_code p)) (\<lambda>definition.
        let document = (dt_artifact_format definition = ''document-manifest-v2'') in
        if pub_schema_version p \<notin> set (dt_supported_schema_versions definition)
           \<or> (document \<and> pub_schema_version p \<noteq> dt_current_schema_version definition)
        then Inr (if document then ''Rollback unavailable: legacy document format''
                  else ''Unsupported dataset schema'')
        else if \<not> pub_artifact_ready p \<or> pub_artifact_status p \<noteq> ART_READY
        then Inr ''Publication artifact is not ready.''
        else if \<not> document
        then Inr (if am_path (pub_artifact p) \<noteq> [] then [] else ''Publication has no usable artifact.'')
        else if am_path (pub_artifact p) \<noteq> [] then Inr ''Incomplete document generation''
        else Inr []))"

text \<open>
  \<open>publication_restore_blocked_reason(..., strict=True)\<close>: the full generation validator always runs
  with \<open>historical=True\<close>, whatever the caller's \<open>historical\<close> flag says.
\<close>

definition publication_restore_blocked_reason ::
  "env \<Rightarrow> world \<Rightarrow> publication \<Rightarrow> scope_state \<Rightarrow> bool \<Rightarrow> string res" where
  "publication_restore_blocked_reason E w p s historical =
     bind_res (publication_restore_metadata_blocked_reason p s historical) (\<lambda>reason.
       if reason \<noteq> [] then Inr reason
       else bind_res (get_dataset_definition (pub_dataset_type_code p)) (\<lambda>definition.
         if dt_artifact_format definition \<noteq> ''document-manifest-v2'' then Inr reason
         else (case generation_error E w p True of
                 Some e \<Rightarrow> Inr (''Incomplete document generation: '' @ e)
               | None \<Rightarrow> Inr [])))"

subsection \<open>Predecessor assessment\<close>

definition superseded_before :: "world \<Rightarrow> scope_state \<Rightarrow> nat option \<Rightarrow> publication list" where
  "superseded_before w s cursor =
     sort_key (\<lambda>p. - int (pub_version_number p))
       (filter (\<lambda>p. pub_scope_state p = scp_id s \<and> pub_status p = SUPERSEDED
                  \<and> (case cursor of None \<Rightarrow> True | Some c \<Rightarrow> pub_version_number p < c))
         (publications w))"

text \<open>The reason of one row of a batch: metadata first, then the loaded document generation.\<close>

definition batch_reason :: "env \<Rightarrow> world \<Rightarrow> scope_state \<Rightarrow> publication \<Rightarrow> string res" where
  "batch_reason E w s p =
     bind_res (get_dataset_definition (scp_dataset_type_code s)) (\<lambda>definition.
     bind_res (publication_restore_metadata_blocked_reason p s True) (\<lambda>reason.
       if dt_artifact_format definition \<noteq> ''document-manifest-v2'' \<or> reason \<noteq> [] then Inr reason
       else if exists_row (\<lambda>m. gm_publication m = pub_id p) (generation_manifests w)
            \<and> exists_row (\<lambda>k. gk_publication k = pub_id p) (generation_keys w)
       then publication_restore_blocked_reason E w p s True
       else Inr ''Incomplete document generation''))"

function iter_predecessor_assessments ::
  "env \<Rightarrow> world \<Rightarrow> scope_state \<Rightarrow> nat option \<Rightarrow> (publication \<times> string res) list" where
  "iter_predecessor_assessments E w s cursor =
     (let batch = take DOCUMENT_CANDIDATE_BATCH_SIZE (superseded_before w s cursor) in
      if batch = [] then []
      else map (\<lambda>p. (p, batch_reason E w s p)) batch @
        (if length batch < DOCUMENT_CANDIDATE_BATCH_SIZE then []
         else iter_predecessor_assessments E w s (Some (pub_version_number (last batch)))))"
  by pat_completeness auto

text \<open>Each further batch looks strictly below the previous one's last version.\<close>

lemma superseded_before_set:
  "p \<in> set (superseded_before w s cursor) \<longleftrightarrow>
     p \<in> set (publications w) \<and> pub_scope_state p = scp_id s \<and> pub_status p = SUPERSEDED
     \<and> (case cursor of None \<Rightarrow> True | Some c \<Rightarrow> pub_version_number p < c)"
  by (auto simp: superseded_before_def)

lemma superseded_before_decreases:
  assumes "p \<in> set (superseded_before w s cursor)"
  shows "length (superseded_before w s (Some (pub_version_number p)))
           < length (superseded_before w s cursor)"
proof -
  define P where "P = (\<lambda>p::publication. pub_scope_state p = scp_id s \<and> pub_status p = SUPERSEDED
                  \<and> (case cursor of None \<Rightarrow> True | Some c \<Rightarrow> pub_version_number p < c))"
  define Q where "Q = (\<lambda>q::publication. pub_scope_state q = scp_id s \<and> pub_status q = SUPERSEDED
                  \<and> pub_version_number q < pub_version_number p)"
  have p: "p \<in> set (filter P (publications w))"
    using assms by (simp add: superseded_before_def P_def)
  have QP: "filter Q (publications w) = filter Q (filter P (publications w))"
    using p by (auto simp: P_def Q_def intro!: filter_cong split: option.splits)
  have "\<not> Q p" by (simp add: Q_def)
  with p have "length (filter Q (filter P (publications w))) < length (filter P (publications w))"
    by (metis length_filter_less)
  then have "length (filter Q (publications w)) < length (filter P (publications w))"
    by (simp only: QP)
  then show ?thesis
    by (simp add: superseded_before_def flip: P_def Q_def)
qed

termination iter_predecessor_assessments
proof (relation "measure (\<lambda>(E, w, s, cursor). length (superseded_before w s cursor))", goal_cases)
  case (2 E w s cursor batch)
  then have "last batch \<in> set batch" by simp
  then have "last batch \<in> set (superseded_before w s cursor)"
    using 2 by (metis in_set_takeD)
  then show ?case by (simp add: superseded_before_decreases)
qed simp

declare iter_predecessor_assessments.simps [simp del]

fun select_restorable :: "nat \<Rightarrow> (publication \<times> string res) list \<Rightarrow> publication list res" where
  "select_restorable 0 xs = Inr []"
| "select_restorable (Suc n) [] = Inr []"
| "select_restorable (Suc n) ((p, r) # xs) =
     bind_res r (\<lambda>reason.
       if reason = [] then bind_res (select_restorable n xs) (\<lambda>ps. Inr (p # ps))
       else select_restorable (Suc n) xs)"

definition select_restorable_predecessors :: "env \<Rightarrow> world \<Rightarrow> scope_state \<Rightarrow> nat \<Rightarrow> publication list res" where
  "select_restorable_predecessors E w s limit =
     select_restorable limit (iter_predecessor_assessments E w s None)"

end
