(* ===== verification/Source_Fingerprint.thy ===== *)
theory Source_Fingerprint
  imports World
begin

text \<open>
  apps/publications/builders.py: the logical source fingerprint of a canonical snapshot, the
  fingerprint a stored publication is compared by, the summary validator and the change summary.
  File-library snapshots are compared without their bookkeeping (\<open>source_revision\<close>, \<open>content_id\<close>)
  and independently of the order of folders and documents.
\<close>

definition is_file_library_snapshot :: "json \<Rightarrow> bool" where
  "is_file_library_snapshot payload =
     (is_dict payload
      \<and> set (jkeys payload) = {''library'', ''source_revision'', ''folders'', ''documents''}
      \<and> is_dict (the (jget payload ''library''))
      \<and> {''id'', ''name'', ''scope''} \<subseteq> set (jkeys (the (jget payload ''library'')))
      \<and> is_list (the (jget payload ''folders''))
      \<and> is_list (the (jget payload ''documents''))
      \<and> list_all (\<lambda>item. is_dict item \<and> {''id'', ''name'', ''parent_id''} \<subseteq> set (jkeys item))
          (jitems (the (jget payload ''folders'')))
      \<and> list_all (\<lambda>item. is_dict item \<and>
            {''id'', ''name'', ''folder_id'', ''sha256'', ''size_bytes'', ''content_id''} \<subseteq> set (jkeys item))
          (jitems (the (jget payload ''documents''))))"

text \<open>\<open>key=lambda item: item["id"]\<close>; the identifiers are the strings \<open>str(e.id)\<close> of the library rows.\<close>

definition item_id :: "json \<Rightarrow> string" where
  "item_id item = (case jget item ''id'' of Some (JStr s) \<Rightarrow> s | _ \<Rightarrow> [])"

text \<open>\<open>{**{... if key != "source_revision"}, "folders": ..., "documents": ...}\<close> keeps the dictionary's keys.\<close>

definition jreplace :: "string \<Rightarrow> json \<Rightarrow> json \<Rightarrow> json" where
  "jreplace key v j =
     (case j of JObj fs \<Rightarrow> JObj (map (\<lambda>(k, x). if k = key then (k, v) else (k, x)) fs) | _ \<Rightarrow> j)"

definition comparison_payload :: "json \<Rightarrow> json" where
  "comparison_payload payload =
     (if is_file_library_snapshot payload then
        jreplace ''folders'' (JList (sort_key item_id (jitems (the (jget payload ''folders'')))))
          (jreplace ''documents''
            (JList (sort_key item_id (map (jdrop ''content_id'') (jitems (the (jget payload ''documents''))))))
            (jdrop ''source_revision'' payload))
      else payload)"

definition source_fingerprint_for_payload :: "env \<Rightarrow> json \<Rightarrow> string" where
  "source_fingerprint_for_payload E payload =
     (case (set (jkeys payload) = {''_exact_source_sha256''}, jget payload ''_exact_source_sha256'') of
        (True, Some (JStr s)) \<Rightarrow> s
      | _ \<Rightarrow> sha256_hex E (json_bytes (comparison_payload payload)))"

definition publication_source_fingerprint :: "env \<Rightarrow> publication \<Rightarrow> string" where
  "publication_source_fingerprint E p =
     (case pub_source_snapshot p of
        Some snapshot \<Rightarrow>
          if pub_dataset_type_code p \<in> FILE_DATASETS \<and> is_file_library_snapshot snapshot
          then source_fingerprint_for_payload E snapshot
          else pub_source_fingerprint p
      | None \<Rightarrow> pub_source_fingerprint p)"

subsection \<open>Build summaries\<close>

definition MAX_HYDRANT_STATUS_BUCKETS :: nat where "MAX_HYDRANT_STATUS_BUCKETS = 50"

definition validate_summary_field :: "env \<Rightarrow> json \<Rightarrow> string \<times> string \<Rightarrow> unit res" where
  "validate_summary_field E summary fk =
     (let kind = snd fk; value = the (jget summary (fst fk)) in
      if kind \<in> {''item_count'', ''non_negative_integer''}
         \<and> (case value of JInt i \<Rightarrow> i < 0 | _ \<Rightarrow> True)
      then Inl (PublicationBuildError ''Builder returned an invalid summary value.'')
      else if kind = ''item_count'' \<and> (case value of JInt i \<Rightarrow> i > SUMMARY_MAX_ITEMS E | _ \<Rightarrow> False)
      then Inl (PublicationBuildError ''Builder summary exceeds the configured item limit.'')
      else if kind = ''uuid'' \<and> (case value of JStr s \<Rightarrow> length s \<noteq> 36 | _ \<Rightarrow> True)
      then Inl (PublicationBuildError ''Builder returned an invalid summary value.'')
      else if kind = ''bounded_string_integer_map'' then
        (case value of
           JObj fs \<Rightarrow>
             if length fs > MAX_HYDRANT_STATUS_BUCKETS
             then Inl (PublicationBuildError ''Builder summary exceeds the configured category limit.'')
             else if list_ex (\<lambda>(k, c). length k > 128 \<or> (case c of JInt i \<Rightarrow> i < 0 | _ \<Rightarrow> True)) fs
             then Inl (PublicationBuildError ''Builder returned an invalid summary value.'')
             else if list_ex (\<lambda>(k, c). case c of JInt i \<Rightarrow> i > SUMMARY_MAX_ITEMS E | _ \<Rightarrow> False) fs
             then Inl (PublicationBuildError ''Builder summary exceeds the configured item limit.'')
             else Inr ()
         | _ \<Rightarrow> Inl (PublicationBuildError ''Builder summary exceeds the configured category limit.''))
      else Inr ())"

fun validate_summary_fields :: "env \<Rightarrow> json \<Rightarrow> (string \<times> string) list \<Rightarrow> unit res" where
  "validate_summary_fields E summary [] = Inr ()"
| "validate_summary_fields E summary (f # fs) =
     bind_res (validate_summary_field E summary f) (\<lambda>_. validate_summary_fields E summary fs)"

definition validate_summary :: "env \<Rightarrow> dataset_definition \<Rightarrow> json \<Rightarrow> unit res" where
  "validate_summary E definition summary =
     (if \<not> is_dict summary \<or> set (jkeys summary) \<noteq> set (map fst (dt_summary_schema definition))
      then Inl (PublicationBuildError ''Builder returned an invalid summary schema.'')
      else validate_summary_fields E summary (dt_summary_schema definition))"

text \<open>\<open>VALIDATORS\<close> holds the single entry \<open>"summary"\<close>.\<close>

definition validate_built_summary :: "env \<Rightarrow> dataset_definition \<Rightarrow> json \<Rightarrow> unit res" where
  "validate_built_summary E definition summary =
     (if dt_validator_service definition = ''summary'' then validate_summary E definition summary
      else Inl (PublicationBuildError ''No registered validator is available.''))"

text \<open>\<open>isinstance(value, int)\<close>: a Python bool is an int.\<close>

definition as_int :: "json \<Rightarrow> int option" where
  "as_int j = (case j of JInt i \<Rightarrow> Some i | JBool b \<Rightarrow> Some (if b then 1 else 0) | _ \<Rightarrow> None)"

definition change_summary_fields :: "string \<Rightarrow> string list" where
  "change_summary_fields c =
     (if c = ''department_hydrants'' then [''active_count'', ''diameter_mm_summary'']
      else if c = ''department_fire_plans'' then
        [''active_document_count'', ''total_accepted_bytes'', ''total_pages'']
      else if c = ''station_personnel'' then
        [''person_count'', ''commander_eligible_count'', ''verified_commander_email_count'']
      else if c = ''department_klgv_plans'' then
        [''document_count'', ''total_accepted_bytes'', ''total_pages'']
      else if c = ''department_phonebook'' then [''entry_count'']
      else if c = ''station_phonebook'' then [''entry_count'']
      else if c = ''dangerous_goods'' then [''goods_count'', ''eri_card_count'']
      else [''item_count''])"

definition summary_field :: "json \<Rightarrow> string \<Rightarrow> json" where
  "summary_field j f = (case jget j f of Some v \<Rightarrow> v | None \<Rightarrow> JInt 0)"

definition field_delta :: "json \<Rightarrow> json \<Rightarrow> string \<Rightarrow> (string \<times> json) list" where
  "field_delta previous current f =
     (case (as_int (summary_field previous f), as_int (summary_field current f)) of
        (Some before, Some after) \<Rightarrow> [(f @ ''_delta'', JInt (after - before))]
      | _ \<Rightarrow> [])"

definition build_change_summary :: "dataset_definition \<Rightarrow> json \<Rightarrow> json \<Rightarrow> json res" where
  "build_change_summary definition previous current =
     (let previous_summary = (if is_dict previous then previous else JObj []) in
      case (case jget current ''source_revision'' of Some v \<Rightarrow> as_int v | None \<Rightarrow> None) of
        None \<Rightarrow> Inl (PublicationBuildError ''Builder returned an invalid source revision.'')
      | Some r \<Rightarrow> Inr (JObj ((''source_revision'', the (jget current ''source_revision'')) #
          concat (map (field_delta previous_summary current)
            (change_summary_fields (dt_code definition))))))"

end
