(* ===== verification/Authorization.thy ===== *)
theory Authorization
  imports Store
begin

text \<open>
  Who may act on which scope: apps/authorization/scopes.py (effective roles) and the
  \<open>require_*\<close> guards of apps/authorization/services.py and apps/file_library/services.py that the
  publication services call first.  An actor is a user's primary key, \<open>None\<close> for an anonymous
  request.
\<close>

subsection \<open>Effective roles (scopes.py)\<close>

definition user_is_active :: "world \<Rightarrow> nat \<Rightarrow> bool" where
  "user_is_active w u = (case row_get usr_id u (users w) of None \<Rightarrow> False | Some r \<Rightarrow> usr_is_active r)"

definition is_system_admin :: "world \<Rightarrow> nat option \<Rightarrow> bool" where
  "is_system_admin w actor =
     (case actor of
        None \<Rightarrow> False
      | Some u \<Rightarrow> user_is_active w u
          \<and> exists_row (\<lambda>r. sr_user r = u \<and> sr_active r) (system_roles w))"

definition department_is_active :: "world \<Rightarrow> nat \<Rightarrow> bool" where
  "department_is_active w d =
     (case row_get dep_id d (departments w) of None \<Rightarrow> False | Some r \<Rightarrow> dep_status r = DEP_ACTIVE)"

definition effective_department_admin_memberships :: "world \<Rightarrow> nat option \<Rightarrow> membership_row list" where
  "effective_department_admin_memberships w department =
     filter (\<lambda>m. (case department of None \<Rightarrow> True | Some d \<Rightarrow> mem_department m = d))
       (filter (\<lambda>m. mem_status m = ROLE_ACTIVE \<and> user_is_active w (mem_user m)
                 \<and> department_is_active w (mem_department m)) (memberships w))"

definition orphaned_departments :: "world \<Rightarrow> department_row list" where
  "orphaned_departments w =
     filter (\<lambda>d. dep_status d = DEP_ACTIVE
        \<and> dep_id d \<notin> set (map mem_department (effective_department_admin_memberships w None)))
       (departments w)"

definition active_department_ids :: "world \<Rightarrow> nat option \<Rightarrow> nat list" where
  "active_department_ids w actor =
     (case actor of
        None \<Rightarrow> []
      | Some u \<Rightarrow>
          if \<not> user_is_active w u then []
          else map dep_id (filter (\<lambda>d. dep_status d = DEP_ACTIVE \<and>
                 exists_row (\<lambda>m. mem_department m = dep_id d \<and> mem_user m = u \<and> mem_status m = ROLE_ACTIVE)
                   (memberships w)) (departments w)))"

definition managed_department_ids :: "world \<Rightarrow> nat option \<Rightarrow> nat list" where
  "managed_department_ids w actor =
     (case actor of
        None \<Rightarrow> []
      | Some u \<Rightarrow>
          if \<not> user_is_active w u then []
          else map dep_id (filter (\<lambda>d.
                 exists_row (\<lambda>m. mem_department m = dep_id d \<and> mem_user m = u \<and> mem_status m = ROLE_ACTIVE)
                   (memberships w)) (departments w)))"

definition active_station_ids :: "world \<Rightarrow> nat option \<Rightarrow> nat list" where
  "active_station_ids w actor =
     (case actor of
        None \<Rightarrow> []
      | Some u \<Rightarrow>
          if \<not> user_is_active w u then []
          else remdups (map sta_id (filter (\<lambda>s. sta_active s \<and> department_is_active w (sta_department s) \<and>
                 exists_row (\<lambda>a. saa_station a = sta_id s \<and> saa_user a = u \<and> saa_status a = ROLE_ACTIVE)
                   (station_admins w)) (stations w))))"

definition can_manage_department :: "world \<Rightarrow> nat option \<Rightarrow> nat \<Rightarrow> bool" where
  "can_manage_department w actor department = (department \<in> set (managed_department_ids w actor))"

definition can_manage_station :: "world \<Rightarrow> nat option \<Rightarrow> station_row \<Rightarrow> bool" where
  "can_manage_station w actor station =
     (sta_active station \<and> sta_id station \<in> set (active_station_ids w actor))"

definition station_admin_station :: "world \<Rightarrow> nat option \<Rightarrow> station_row option res" where
  "station_admin_station w actor =
     (case active_station_ids w actor of
        [] \<Rightarrow> Inr None
      | [i] \<Rightarrow> bind_res (of_option (DoesNotExist ''Station'') (row_get sta_id i (stations w))) (\<lambda>s. Inr (Some s))
      | _ \<Rightarrow> Inl (StationAdminContextError ''Station administrator has multiple active station assignments.''))"

subsection \<open>Guards\<close>

definition require_system_admin :: "world \<Rightarrow> nat option \<Rightarrow> unit res" where
  "require_system_admin w actor =
     require (is_system_admin w actor) (PermissionDenied ''System administrator role is required.'')"

definition require_department_admin :: "world \<Rightarrow> nat option \<Rightarrow> nat option \<Rightarrow> unit res" where
  "require_department_admin w actor department =
     (case department of
        None \<Rightarrow> Inl (PermissionDenied ''Department administrator scope is required.'')
      | Some d \<Rightarrow>
          if \<not> department_is_active w d \<or> d \<notin> set (active_department_ids w actor)
          then Inl (PermissionDenied ''Department administrator scope is required.'')
          else Inr ())"

text \<open>apps/file_library/services.py, \<open>require_scope\<close>.\<close>

definition require_scope :: "world \<Rightarrow> nat option \<Rightarrow> nat option \<Rightarrow> nat option \<Rightarrow> unit res" where
  "require_scope w actor department_id station_id =
     (if is_system_admin w actor then Inl (PermissionDenied [])
      else
        let departments = active_department_ids w actor in
        if (case (department_id, station_id) of (Some d, None) \<Rightarrow> d \<in> set departments | _ \<Rightarrow> False)
        then Inr ()
        else if (case (station_id, department_id) of
                   (Some s, None) \<Rightarrow> departments = [] \<and> s \<in> set (active_station_ids w actor) | _ \<Rightarrow> False)
        then Inr ()
        else Inl (PermissionDenied []))"

definition station_department :: "world \<Rightarrow> nat \<Rightarrow> nat option" where
  "station_department w s = map_option sta_department (row_get sta_id s (stations w))"

definition require_publication_scope ::
  "world \<Rightarrow> nat option \<Rightarrow> nat option \<Rightarrow> nat option \<Rightarrow> string \<Rightarrow> unit res" where
  "require_publication_scope w actor department station dataset_type_code =
     bind_res (get_dataset_definition dataset_type_code) (\<lambda>definition.
       if dt_scope definition = SYSTEM then
         (if department \<noteq> None \<or> station \<noteq> None
          then Inl (PermissionDenied ''Invalid system publication scope.'')
          else require_system_admin w actor)
       else if dataset_type_code = ''station_files'' \<and> \<not> is_system_admin w actor \<and> department = None
       then Inl (AttributeError ''id'')
       else if dataset_type_code = ''station_files'' \<and> \<not> is_system_admin w actor
               \<and> the department \<in> set (active_department_ids w actor)
       then (if station = None \<or> station_department w (the station) \<noteq> department
             then Inl (PermissionDenied ''Station does not belong to this department.'')
             else require_department_admin w actor department)
       else if dataset_type_code = ''department_files'' \<and> department = None
       then Inl (AttributeError ''id'')
       else if dataset_type_code \<in> FILE_DATASETS
       then require_scope w actor
              (if dataset_type_code = ''department_files'' then department else None)
              (if dataset_type_code = ''station_files'' then station else None)
       else require_department_admin w actor department)"

subsection \<open>Lemmas\<close>

definition department_admin_of :: "world \<Rightarrow> nat \<Rightarrow> nat \<Rightarrow> bool" where
  "department_admin_of w u d \<longleftrightarrow>
     user_is_active w u \<and>
     (\<exists>r\<in>set (departments w). dep_id r = d \<and> dep_status r = DEP_ACTIVE) \<and>
     (\<exists>m\<in>set (memberships w). mem_user m = u \<and> mem_department m = d \<and> mem_status m = ROLE_ACTIVE)"

definition station_admin_of :: "world \<Rightarrow> nat \<Rightarrow> nat \<Rightarrow> bool" where
  "station_admin_of w u s \<longleftrightarrow>
     user_is_active w u \<and>
     (\<exists>r\<in>set (stations w). sta_id r = s \<and> sta_active r \<and> department_is_active w (sta_department r)) \<and>
     (\<exists>a\<in>set (station_admins w). saa_user a = u \<and> saa_station a = s \<and> saa_status a = ROLE_ACTIVE)"

lemma active_department_ids_iff:
  "d \<in> set (active_department_ids w actor) \<longleftrightarrow> (\<exists>u. actor = Some u \<and> department_admin_of w u d)"
  by (cases actor) (auto simp: active_department_ids_def department_admin_of_def)

lemma active_station_ids_iff:
  "s \<in> set (active_station_ids w actor) \<longleftrightarrow> (\<exists>u. actor = Some u \<and> station_admin_of w u s)"
  by (cases actor) (auto simp: active_station_ids_def station_admin_of_def)

lemma require_department_admin_Inr:
  "require_department_admin w actor department = Inr x \<longleftrightarrow>
     (\<exists>d u. department = Some d \<and> actor = Some u \<and> department_is_active w d \<and> department_admin_of w u d)"
  by (cases department) (auto simp: require_department_admin_def active_department_ids_iff)

lemma require_scope_Inr:
  "require_scope w actor department_id station_id = Inr x \<longleftrightarrow>
     \<not> is_system_admin w actor \<and> (\<exists>u. actor = Some u \<and>
       ((\<exists>d. department_id = Some d \<and> station_id = None \<and> department_admin_of w u d) \<or>
        (\<exists>s. station_id = Some s \<and> department_id = None \<and> active_department_ids w actor = []
           \<and> station_admin_of w u s)))"
  by (cases department_id; cases station_id)
     (auto simp: require_scope_def Let_def active_department_ids_iff active_station_ids_iff)

end
