(* ===== verification/Temporary_Access.thy ===== *)
theory Temporary_Access
  imports Authorization
begin

text \<open>
  Time-bounded station access of a department administrator (apps/file_library/services.py): the
  revocation of one access, the lookup that expires or withdraws a stale access on the way, and the
  explicit revocations.  \<open>isoformat\<close> is \<open>datetime.isoformat()\<close> of an aware UTC timestamp.
\<close>

subsection \<open>ISO timestamps\<close>

fun pad_left :: "nat \<Rightarrow> string \<Rightarrow> string" where
  "pad_left n s = replicate (n - length s) (CHR ''0'') @ s"

text \<open>The proleptic Gregorian date (year, month, day) of a day number counted from 1970-01-01.\<close>

definition civil_of_days :: "int \<Rightarrow> int \<times> int \<times> int" where
  "civil_of_days days =
     (let z = days + 719468; era = z div 146097; doe = z mod 146097;
          yoe = (doe - doe div 1460 + doe div 36524 - doe div 146096) div 365;
          doy = doe - (365 * yoe + yoe div 4 - yoe div 100);
          mp = (5 * doy + 2) div 153;
          d = doy - (153 * mp + 2) div 5 + 1;
          m = (if mp < 10 then mp + 3 else mp - 9);
          y = yoe + era * 400 + (if m \<le> 2 then 1 else 0)
      in (y, m, d))"

definition isoformat :: "timestamp \<Rightarrow> string" where
  "isoformat t =
     (let (y, m, d) = civil_of_days (t div usec_per_day);
          r = t mod usec_per_day; us = r mod usec_per_second; sec = r div usec_per_second in
      pad_left 4 (dec_int y) @ ''-'' @ pad_left 2 (dec_int m) @ ''-'' @ pad_left 2 (dec_int d) @ ''T''
      @ pad_left 2 (dec_int (sec div 3600)) @ '':'' @ pad_left 2 (dec_int (sec div 60 mod 60)) @ '':''
      @ pad_left 2 (dec_int (sec mod 60))
      @ (if us = 0 then [] else ''.'' @ pad_left 6 (dec_int us)) @ ''+00:00'')"

subsection \<open>Revocation\<close>

definition revoke_access ::
  "temporary_access_row \<Rightarrow> string \<Rightarrow> nat option \<Rightarrow> nat option \<Rightarrow> string \<Rightarrow> bool \<Rightarrow> world \<Rightarrow> world" where
  "revoke_access access reason actor target_uuid target_type audit w =
     (if tsa_revoked_at access \<noteq> None then w
      else
        let now = clock w;
            w1 = w\<lparr>temporary_accesses := map (\<lambda>a. if tsa_id a = tsa_id access
                     then a\<lparr>tsa_revoked_at := Some now, tsa_revocation_reason := reason\<rparr> else a)
                   (temporary_accesses w)\<rparr>
        in if \<not> audit then w1
           else record_event (''file_library.temporary_access_'' @ reason)
             (case actor of None \<Rightarrow> Some (tsa_user access) | Some u \<Rightarrow> Some u)
             (Some (tsa_department access)) (Some (tsa_station access)) target_type
             (case target_uuid of None \<Rightarrow> Some (tsa_id access) | Some t \<Rightarrow> Some t)
             [(''access_id'', JStr (dec_nat (tsa_id access))),
              (''access_user_id'', JStr (dec_nat (tsa_user access))),
              (''activated_at'', JStr (isoformat (tsa_activated_at access))),
              (''expires_at'', JStr (isoformat (tsa_expires_at access))),
              (''revoked_at'', JStr (isoformat now))] w1)"

definition open_access :: "nat \<Rightarrow> world \<Rightarrow> temporary_access_row option" where
  "open_access u w =
     first_by tsa_id (\<lambda>a. tsa_user a = u \<and> tsa_revoked_at a = None) (temporary_accesses w)"

definition active_temporary_access :: "nat \<Rightarrow> world \<Rightarrow> temporary_access_row option \<times> world" where
  "active_temporary_access actor w =
     (case open_access actor w of
        None \<Rightarrow> (None, w)
      | Some access \<Rightarrow>
          if tsa_expires_at access \<le> clock w
          then (None, revoke_access access ''expired'' None None ''temporary_station_access'' True w)
          else if tsa_department access \<notin> set (active_department_ids w (Some actor))
             \<or> \<not> (case row_get sta_id (tsa_station access) (stations w) of
                     None \<Rightarrow> False | Some s \<Rightarrow> sta_active s \<and> sta_department s = tsa_department access)
          then (None, revoke_access access ''authority_revoked'' None None ''temporary_station_access'' True w)
          else (Some access, w))"

definition revoke_temporary_access ::
  "nat \<Rightarrow> string \<Rightarrow> nat option \<Rightarrow> string \<Rightarrow> world \<Rightarrow> temporary_access_row option \<times> world" where
  "revoke_temporary_access actor reason target_uuid target_type w =
     (case active_temporary_access actor w of
        (None, w1) \<Rightarrow> (None, w1)
      | (Some access, w1) \<Rightarrow>
          (Some access, revoke_access access reason (Some actor) target_uuid target_type True w1))"

definition revoke_temporary_access_for_user ::
  "nat \<Rightarrow> nat option \<Rightarrow> string \<Rightarrow> world \<Rightarrow> temporary_access_row option \<times> world" where
  "revoke_temporary_access_for_user user actor reason w =
     (case open_access user w of
        None \<Rightarrow> (None, w)
      | Some access \<Rightarrow>
          (Some access, revoke_access access reason actor None ''temporary_station_access'' True w))"

definition revoke_department_temporary_accesses ::
  "nat \<Rightarrow> nat option \<Rightarrow> string \<Rightarrow> world \<Rightarrow> nat \<times> world" where
  "revoke_department_temporary_accesses department actor reason w =
     (let accesses = sort_key tsa_id
            (filter (\<lambda>a. tsa_department a = department \<and> tsa_revoked_at a = None) (temporary_accesses w))
      in (length accesses,
          fold (\<lambda>a. revoke_access a reason actor None ''temporary_station_access'' True) accesses w))"

end
