(* ===== verification/Lifecycle_Base.thy ===== *)
theory Lifecycle_Base
  imports Restore Source_Fingerprint Temporary_Access
begin

text \<open>
  The shared helpers of apps/publications/services.py (lines 77 to 287), and the \<open>clean\<close> methods of
  apps/publications/models.py.

  A model instance that a service holds in memory is a row value; \<open>instance.save(update_fields=...)\<close>
  copies the named fields onto the stored row (\<open>update_scope\<close>, \<open>update_publication\<close>,
  \<open>update_job\<close>).  Departments, stations and users are passed by primary key.  A result \<open>Inl\<close> is an
  exception leaving the enclosing \<open>transaction.atomic\<close> block: nothing of the block persists.
\<close>

subsection \<open>Partial saves\<close>

definition update_scope :: "nat \<Rightarrow> (scope_state \<Rightarrow> scope_state) \<Rightarrow> world \<Rightarrow> world res" where
  "update_scope i f w =
     bind_res (of_option (DoesNotExist ''DatasetScopeState'') (get_scope i w)) (\<lambda>s. save_scope (f s) w)"

definition update_publication :: "nat \<Rightarrow> (publication \<Rightarrow> publication) \<Rightarrow> world \<Rightarrow> world res" where
  "update_publication i f w =
     bind_res (of_option (DoesNotExist ''DatasetPublication'') (get_publication i w))
       (\<lambda>p. save_publication (f p) w)"

definition update_job :: "nat \<Rightarrow> (publication_job \<Rightarrow> publication_job) \<Rightarrow> world \<Rightarrow> world res" where
  "update_job i f w =
     bind_res (of_option (DoesNotExist ''PublicationJob'') (get_job i w)) (\<lambda>j. save_job (f j) w)"

subsection \<open>Model validation\<close>

definition station_mismatch :: "world \<Rightarrow> nat option \<Rightarrow> nat option \<Rightarrow> bool" where
  "station_mismatch w department station =
     (case station of None \<Rightarrow> False | Some s \<Rightarrow> station_department w s \<noteq> department)"

text \<open>\<open>except DatasetRegistryError as error: raise ValidationError(...)\<close>\<close>

definition as_validation_error :: "'a res \<Rightarrow> 'a res" where
  "as_validation_error r =
     (case r of Inl (DatasetRegistryError m) \<Rightarrow> Inl (ValidationError m) | _ \<Rightarrow> r)"

definition scope_state_clean :: "world \<Rightarrow> scope_state \<Rightarrow> unit res" where
  "scope_state_clean w s =
     bind_res (as_validation_error (validate_dataset_scope (scp_dataset_type_code s)
       (Some (scp_scope_type s)) (scp_department s) (scp_station s))) (\<lambda>_.
     require (\<not> station_mismatch w (scp_department s) (scp_station s))
       (ValidationError ''Station must belong to the scope department.''))"

text \<open>\<open>full_clean\<close> of a new row: \<open>clean\<close>, then the model's constraints.\<close>

definition scope_state_full_clean :: "world \<Rightarrow> scope_state \<Rightarrow> unit res" where
  "scope_state_full_clean w s =
     bind_res (scope_state_clean w s) (\<lambda>_.
     require (scope_state_constraints (scope_states w @ [s]))
       (ValidationError ''Constraint violated: dataset_scope_state''))"

definition job_clean :: "world \<Rightarrow> publication_job \<Rightarrow> unit res" where
  "job_clean w j =
     bind_res (as_validation_error (validate_dataset_scope (job_dataset_type_code j)
       (Some (job_scope_type j)) (job_department j) (job_station j))) (\<lambda>_.
     bind_res (require (\<not> station_mismatch w (job_department j) (job_station j))
       (ValidationError ''Station must belong to the job department.'')) (\<lambda>_.
     bind_res (of_option (ValidationError ''scope_state'') (get_scope (job_scope_state j) w)) (\<lambda>s.
     require (job_key j = scope_key s) (ValidationError ''Scope state must match the job scope.''))))"

definition job_full_clean :: "world \<Rightarrow> publication_job \<Rightarrow> unit res" where
  "job_full_clean w j =
     bind_res (job_clean w j) (\<lambda>_.
     require (job_constraints (jobs w @ [j])) (ValidationError ''Constraint violated: publication_job''))"

text \<open>The text \<open>str(value)\<close> of a decoded JSON value, as \<open>validate_change_summary\<close> measures it.\<close>

definition squote :: char where "squote = char_of (39::nat)"

definition repr_char :: "char \<Rightarrow> char \<Rightarrow> string" where
  "repr_char q c =
     (let n = of_char c :: nat in
      if c = q \<or> n = 92 then [bsl, c]
      else if n = 10 then [bsl, CHR ''n'']
      else if n = 13 then [bsl, CHR ''r'']
      else if n = 9 then [bsl, CHR ''t'']
      else if n < 32 \<or> (127 \<le> n \<and> n \<le> 160) \<or> n = 173
      then [bsl, CHR ''x'', hex_digit (n div 16), hex_digit (n mod 16)]
      else [c])"

definition repr_str :: "string \<Rightarrow> string" where
  "repr_str s =
     (let q = (if squote \<in> set s \<and> dquote \<notin> set s then dquote else squote)
      in q # concat (map (repr_char q) s) @ [q])"

fun repr_json :: "json \<Rightarrow> string" where
  "repr_json JNull = ''None''"
| "repr_json (JBool b) = (if b then ''True'' else ''False'')"
| "repr_json (JInt i) = dec_int i"
| "repr_json (JStr s) = repr_str s"
| "repr_json (JList xs) = ''['' @ join_with '', '' (map repr_json xs) @ '']''"
| "repr_json (JObj fs) =
     ''{'' @ join_with '', '' (map (\<lambda>(k, v). repr_str k @ '': '' @ repr_json v) fs) @ ''}''"

definition py_str :: "json \<Rightarrow> string" where
  "py_str v = (case v of JStr s \<Rightarrow> s | _ \<Rightarrow> repr_json v)"

definition MAX_CHANGE_SUMMARY_FIELDS :: nat where "MAX_CHANGE_SUMMARY_FIELDS = 20"
definition MAX_CHANGE_SUMMARY_VALUE_LENGTH :: nat where "MAX_CHANGE_SUMMARY_VALUE_LENGTH = 512"

definition validate_change_summary :: "json \<Rightarrow> unit res" where
  "validate_change_summary summary =
     (case summary of
        JObj fs \<Rightarrow>
          if length fs > MAX_CHANGE_SUMMARY_FIELDS
          then Inl (ValidationError ''Change summary exceeds the configured field limit.'')
          else if list_ex (\<lambda>(k, v). length k > 128 \<or> length (py_str v) > MAX_CHANGE_SUMMARY_VALUE_LENGTH) fs
          then Inl (ValidationError ''Change summary contains an invalid value.'')
          else Inr ()
      | _ \<Rightarrow> Inl (ValidationError ''Change summary exceeds the configured field limit.''))"

definition metadata_complete :: "artifact_meta \<Rightarrow> bool" where
  "metadata_complete a =
     (am_path a \<noteq> [] \<and> am_size a \<noteq> None \<and> length (am_sha256 a) = 64
      \<and> am_nonce a \<notin> {None, Some []} \<and> am_wrapped_cek a \<notin> {None, Some []}
      \<and> am_encryption_algorithm a = ''AES-256-GCM'' \<and> am_wrapping_algorithm a = ''AES-KW-RFC3394''
      \<and> am_kek_version a \<noteq> [] \<and> am_signature a \<notin> {None, Some []}
      \<and> am_signature_algorithm a = ''Ed25519'' \<and> am_signing_key_version a \<noteq> [])"

definition is_document_v2 :: "publication \<Rightarrow> bool" where
  "is_document_v2 p = (pub_schema_version p = 2 \<and> pub_dataset_type_code p \<in> DOCUMENT_V2_DATASETS)"

definition reviewable :: "publication_status \<Rightarrow> bool" where
  "reviewable s = (s = READY_FOR_REVIEW \<or> s = PUBLISHED)"

definition publication_clean :: "env \<Rightarrow> world \<Rightarrow> publication \<Rightarrow> unit res" where
  "publication_clean E w p =
     bind_res (as_validation_error (validate_dataset_scope (pub_dataset_type_code p)
       (Some (pub_scope_type p)) (pub_department p) (pub_station p))) (\<lambda>definition.
     bind_res (require (\<not> station_mismatch w (pub_department p) (pub_station p)
         \<and> pub_schema_version p = dt_current_schema_version definition
         \<and> pub_schema_version p \<in> set (dt_supported_schema_versions definition))
       (ValidationError ''Station or schema version is invalid.'')) (\<lambda>_.
     bind_res (validate_change_summary (pub_change_summary p)) (\<lambda>_.
     bind_res (of_option (ValidationError ''scope_state'') (get_scope (pub_scope_state p) w)) (\<lambda>s.
     bind_res (require (publication_key p = scope_key s)
       (ValidationError ''Scope state must match the publication scope.'')) (\<lambda>_.
     bind_res (if am_path (pub_artifact p) = [] then Inr ()
       else bind_res (publication_artifact_relative_path (pub_department p) (pub_id p) (pub_scope_type p))
         (\<lambda>path. require (am_path (pub_artifact p) = path)
           (ValidationError ''Artifact path must be a generated publication path.''))) (\<lambda>_.
     bind_res (require (\<not> (pub_artifact_status p = ART_READY
         \<and> \<not> metadata_complete (pub_artifact p) \<and> \<not> is_document_v2 p))
       (ValidationError ''Ready artifacts require complete cryptographic metadata.'')) (\<lambda>_.
     bind_res (require (\<not> (reviewable (pub_status p) \<and> (pub_artifact_status p \<noteq> ART_READY
         \<or> (\<not> metadata_complete (pub_artifact p) \<and> \<not> is_document_v2 p))))
       (ValidationError ''Review-ready and published publications require a ready artifact.'')) (\<lambda>_.
     if is_document_v2 p \<and> reviewable (pub_status p)
     then (case generation_error E w p False of
             Some e \<Rightarrow> Inl (ValidationError e) | None \<Rightarrow> Inr ())
     else Inr ()))))))))"

definition publication_full_clean :: "env \<Rightarrow> world \<Rightarrow> publication \<Rightarrow> unit res" where
  "publication_full_clean E w p =
     bind_res (publication_clean E w p) (\<lambda>_.
     require (publication_constraints (row_put pub_id p (publications w)))
       (ValidationError ''Constraint violated: dataset_publication''))"

subsection \<open>Scopes\<close>

definition registered_scope_type :: "string \<Rightarrow> scope_type res" where
  "registered_scope_type c = bind_res (get_dataset_definition c) (\<lambda>d. Inr (dt_scope d))"

definition validate_scope :: "world \<Rightarrow> nat option \<Rightarrow> nat option \<Rightarrow> string \<Rightarrow> unit res" where
  "validate_scope w department station dataset_type_code =
     bind_res (registered_scope_type dataset_type_code) (\<lambda>scope_type.
     bind_res (case validate_dataset_scope dataset_type_code (Some scope_type) department station of
                 Inl (DatasetRegistryError m) \<Rightarrow> Inl (PublicationError m) | r \<Rightarrow> r) (\<lambda>_.
     require (\<not> (station \<noteq> None \<and> (department = None \<or> station_department w (the station) \<noteq> department)))
       (PublicationError ''Station must belong to the scope department.'')))"

text \<open>The advisory lock of a file scope dereferences the department.\<close>

definition lock_file_scope :: "nat option \<Rightarrow> string \<Rightarrow> unit res" where
  "lock_file_scope department dataset_type_code =
     require (\<not> (dataset_type_code \<in> FILE_DATASETS \<and> department = None)) (AttributeError ''id'')"

definition scope_filter ::
  "nat option \<Rightarrow> nat option \<Rightarrow> string \<Rightarrow> (scope_type \<times> nat option \<times> nat option \<times> string) res" where
  "scope_filter department station dataset_type_code =
     bind_res (registered_scope_type dataset_type_code) (\<lambda>scope_type.
       Inr (scope_type, department, station, dataset_type_code))"

definition find_scope :: "scope_type \<times> nat option \<times> nat option \<times> string \<Rightarrow> world \<Rightarrow> scope_state option" where
  "find_scope key w = first_by scp_id (\<lambda>s. scope_key s = key) (scope_states w)"

definition locked_scope :: "nat option \<Rightarrow> nat option \<Rightarrow> string \<Rightarrow> world \<Rightarrow> scope_state res" where
  "locked_scope department station dataset_type_code w =
     bind_res (lock_file_scope department dataset_type_code) (\<lambda>_.
     bind_res (scope_filter department station dataset_type_code) (\<lambda>key.
     of_option (PublicationError ''Dataset scope has not been initialized.'') (find_scope key w)))"

definition new_scope :: "nat \<Rightarrow> scope_type \<times> nat option \<times> nat option \<times> string \<Rightarrow> timestamp \<Rightarrow> scope_state" where
  "new_scope i key now =
     (case key of (t, d, s, c) \<Rightarrow>
        \<lparr>scp_id = i, scp_scope_type = t, scp_department = d, scp_station = s, scp_dataset_type_code = c,
         scp_source_revision = 0, scp_current_source_fingerprint = [], scp_dirty_since = None,
         scp_latest_built_publication = None, scp_current_published_publication = None,
         scp_updated_at = now\<rparr>)"

definition max_version :: "nat \<Rightarrow> world \<Rightarrow> nat" where
  "max_version scope w =
     fold max (map pub_version_number (filter (\<lambda>p. pub_scope_state p = scope) (publications w))) 0"

definition allocate_staged_publication ::
  "scope_state \<Rightarrow> publication_job \<Rightarrow> string \<Rightarrow> json \<Rightarrow> world \<Rightarrow> (publication \<times> world) res" where
  "allocate_staged_publication scope job fingerprint snapshot w =
     bind_res (get_dataset_definition (job_dataset_type_code job)) (\<lambda>definition.
       let (i, w1) = fresh_id w;
           p = \<lparr>pub_id = i, pub_scope_type = job_scope_type job, pub_department = job_department job,
                pub_station = job_station job, pub_dataset_type_code = job_dataset_type_code job,
                pub_scope_state = scp_id scope, pub_version_number = max_version (scp_id scope) w + 1,
                pub_schema_version = dt_current_schema_version definition,
                pub_source_revision = job_source_revision job, pub_source_fingerprint = fingerprint,
                pub_source_snapshot = Some snapshot, pub_status = STAGED, pub_build_summary = JObj [],
                pub_change_summary = JObj [], pub_artifact_ready = False,
                pub_artifact_status = ART_PENDING, pub_artifact = no_artifact, pub_created_at = clock w,
                pub_created_by = job_requested_by job, pub_published_at = None, pub_published_by = None,
                pub_supersedes = None, pub_build_error = []\<rparr>
       in bind_res (create_publication p w1) (\<lambda>w2. Inr (p, w2)))"

subsection \<open>Source state\<close>

definition current_source_snapshot :: "scope_state \<Rightarrow> world \<Rightarrow> json res" where
  "current_source_snapshot scope w =
     bind_res (get_dataset_definition (scp_dataset_type_code scope)) (\<lambda>_.
       sources w (scp_dataset_type_code scope) (scp_department scope) (scp_station scope))"

definition snapshot_revision :: "json \<Rightarrow> int res" where
  "snapshot_revision snapshot =
     (case jget snapshot ''source_revision'' of
        None \<Rightarrow> Inl (KeyError ''source_revision'')
      | Some (JInt r) \<Rightarrow> Inr r
      | Some _ \<Rightarrow> Inl (ValueError ''source_revision''))"

text \<open>Returns the snapshot, its fingerprint and the in-memory scope with the adopted revision.\<close>

definition current_source_state ::
  "env \<Rightarrow> scope_state \<Rightarrow> world \<Rightarrow> ((json \<times> string \<times> scope_state) \<times> world) res" where
  "current_source_state E scope w =
     bind_res (current_source_snapshot scope w) (\<lambda>snapshot.
     bind_res
       (if scp_dataset_type_code scope \<in> FILE_DATASETS then
          bind_res (snapshot_revision snapshot) (\<lambda>r.
            if scp_source_revision scope \<noteq> r then
              bind_res (update_scope (scp_id scope) (\<lambda>s. s\<lparr>scp_source_revision := r\<rparr>) w)
                (\<lambda>w1. Inr (scope\<lparr>scp_source_revision := r\<rparr>, w1))
            else Inr (scope, w))
        else Inr (scope, w)) (\<lambda>(scope1, w1).
     Inr ((snapshot, source_fingerprint_for_payload E snapshot, scope1), w1)))"

definition scope_is_dirty :: "env \<Rightarrow> world \<Rightarrow> scope_state \<Rightarrow> string option \<Rightarrow> bool" where
  "scope_is_dirty E w scope fingerprint =
     (case fk_publication (scp_current_published_publication scope) w of
        None \<Rightarrow> True
      | Some current \<Rightarrow>
          let current_fingerprint =
                (case fingerprint of
                   None \<Rightarrow> scp_current_source_fingerprint scope
                 | Some f \<Rightarrow> if f = [] then scp_current_source_fingerprint scope else f)
          in if current_fingerprint = [] \<or> pub_source_fingerprint current = [] then True
             else current_fingerprint \<noteq> pub_source_fingerprint current
                \<and> current_fingerprint \<noteq> publication_source_fingerprint E current)"

definition stored_source_fingerprint :: "env \<Rightarrow> world \<Rightarrow> scope_state \<Rightarrow> string \<Rightarrow> string" where
  "stored_source_fingerprint E w scope fingerprint =
     (case fk_publication (scp_current_published_publication scope) w of
        None \<Rightarrow> fingerprint
      | Some current \<Rightarrow>
          if fingerprint = publication_source_fingerprint E current
          then (if pub_source_fingerprint current \<noteq> [] then pub_source_fingerprint current else fingerprint)
          else fingerprint)"

subsection \<open>Reverted sources\<close>

definition cancel_pending :: "publication_job \<Rightarrow> world \<Rightarrow> world res" where
  "cancel_pending pending w =
     bind_res
       (case job_build_publication pending of
          None \<Rightarrow> Inr w
        | Some i \<Rightarrow>
            bind_res (of_option (DoesNotExist ''DatasetPublication'') (get_publication i w)) (\<lambda>staged.
              if pub_status staged = STAGED
              then update_publication i (\<lambda>p. p\<lparr>pub_status := PUB_CANCELLED,
                     pub_build_error := ''Source matches the active publication.''\<rparr>) w
              else Inr w)) (\<lambda>w1.
     update_job (job_id pending) (\<lambda>j. j\<lparr>job_status := JOB_CANCELLED, job_completed_at := Some (clock w),
       job_error_category := ''source_reverted'',
       job_error_message := ''Source matches the active publication.''\<rparr>) w1)"

definition cancel_unlinked :: "publication \<Rightarrow> world \<Rightarrow> world res" where
  "cancel_unlinked staged w = update_publication (pub_id staged) (\<lambda>p. p\<lparr>pub_status := PUB_CANCELLED\<rparr>) w"

definition cancel_redundant_pending :: "nat \<Rightarrow> world \<Rightarrow> world res" where
  "cancel_redundant_pending scope w =
     bind_res (fold_res cancel_pending
       (filter (\<lambda>j. job_scope_state j = scope \<and> job_status j = PENDING \<and> \<not> job_allow_clean_rebuild j) (jobs w)) w)
     (\<lambda>w1. fold_res cancel_unlinked
       (filter (\<lambda>p. pub_scope_state p = scope \<and> pub_status p = STAGED
          \<and> \<not> exists_row (\<lambda>j. job_build_publication j = Some (pub_id p) \<and> job_active j) (jobs w1))
        (publications w1)) w1)"

text \<open>Returns whether the source is clean, and the in-memory scope.\<close>

definition reconcile_clean_source ::
  "env \<Rightarrow> scope_state \<Rightarrow> string \<Rightarrow> world \<Rightarrow> ((bool \<times> scope_state) \<times> world) res" where
  "reconcile_clean_source E scope fingerprint w =
     (if scope_is_dirty E w scope (Some fingerprint) then Inr ((False, scope), w)
      else
        let stored = stored_source_fingerprint E w scope fingerprint;
            scope1 = scope\<lparr>scp_current_source_fingerprint := stored, scp_dirty_since := None\<rparr>
        in bind_res
             (if scp_current_source_fingerprint scope \<noteq> stored \<or> scp_dirty_since scope \<noteq> None
              then bind_res (update_scope (scp_id scope)
                     (\<lambda>s. s\<lparr>scp_current_source_fingerprint := stored, scp_dirty_since := None\<rparr>) w)
                     (\<lambda>w1. Inr (scope1, w1))
              else Inr (scope, w)) (\<lambda>(scope2, w1).
           bind_res (cancel_redundant_pending (scp_id scope) w1) (\<lambda>w2. Inr ((True, scope2), w2))))"

definition newer_live_attempt_exists :: "nat \<Rightarrow> nat \<Rightarrow> world \<Rightarrow> bool" where
  "newer_live_attempt_exists scope version_number w =
     exists_row (\<lambda>p. pub_scope_state p = scope \<and> version_number < pub_version_number p
        \<and> (pub_status p = STAGED \<or> pub_status p = BUILDING)) (publications w)"

fun first_restorable :: "env \<Rightarrow> world \<Rightarrow> scope_state \<Rightarrow> publication list \<Rightarrow> publication option res" where
  "first_restorable E w scope [] = Inr None"
| "first_restorable E w scope (c # cs) =
     bind_res (publication_restore_blocked_reason E w c scope True) (\<lambda>reason.
       if reason = [] then Inr (Some c) else first_restorable E w scope cs)"

definition eligible_predecessor :: "env \<Rightarrow> world \<Rightarrow> scope_state \<Rightarrow> nat \<Rightarrow> publication option res" where
  "eligible_predecessor E w scope before_version =
     first_restorable E w scope
       (sort_key (\<lambda>p. - int (pub_version_number p))
         (filter (\<lambda>p. pub_scope_state p = scp_id scope \<and> pub_status p = SUPERSEDED
            \<and> pub_version_number p < before_version \<and> pub_artifact_status p = ART_READY
            \<and> pub_artifact_ready p) (publications w)))"

end
