(* ===== verification/Lifecycle_Queue.thy ===== *)
theory Lifecycle_Queue
  imports Lifecycle_Base
begin

text \<open>
  Queueing of build attempts (apps/publications/services.py): \<open>enqueue_publication_job\<close> with its
  coalescing of pending work and allocation of staged attempts, \<open>mark_dirty\<close>, the nightly build
  window, the worker's claim and heartbeat, and the functions run after a transaction commits.
\<close>

subsection \<open>The nightly window\<close>

text \<open>\<open>now.replace(hour=0, minute=5, second=0, microsecond=0)\<close>, a day later from 00:05 on.\<close>

definition data_change_not_before :: "timestamp \<Rightarrow> timestamp" where
  "data_change_not_before now =
     (let offset = 300 * usec_per_second;
          nightly = now div usec_per_day * usec_per_day + offset
      in if now mod usec_per_day \<ge> offset then nightly + usec_per_day else nightly)"

subsection \<open>Enqueueing\<close>

definition user_triggered :: "trigger_type \<Rightarrow> bool" where
  "user_triggered t = (t = USER_REQUEST \<or> t = BULK_REQUEST)"

text \<open>Coalescing of a PENDING job to the latest source; the staged attempt follows.\<close>

definition coalesced_job ::
  "publication_job \<Rightarrow> int \<Rightarrow> nat option \<Rightarrow> trigger_type \<Rightarrow> bool \<Rightarrow> timestamp \<Rightarrow> publication_job" where
  "coalesced_job active revision requested_by trigger allow_clean now =
     (let active1 = active\<lparr>job_source_revision := revision,
            job_allow_clean_rebuild := job_allow_clean_rebuild active \<or> allow_clean\<rparr>
      in if user_triggered trigger
         then active1\<lparr>job_trigger_type := trigger, job_requested_by := requested_by, job_not_before := Some now\<rparr>
         else if job_trigger_type active = DATA_CHANGE
         then active1\<lparr>job_not_before := Some (data_change_not_before now)\<rparr>
         else active1)"

definition coalesce_pending ::
  "publication_job \<Rightarrow> scope_state \<Rightarrow> nat option \<Rightarrow> trigger_type \<Rightarrow> bool \<Rightarrow> json \<Rightarrow> string \<Rightarrow> world
   \<Rightarrow> world res" where
  "coalesce_pending active scope requested_by trigger allow_clean snapshot fingerprint w =
     (let active1 = coalesced_job active (scp_source_revision scope) requested_by trigger allow_clean (clock w)
      in bind_res (update_job (job_id active) (\<lambda>j. j\<lparr>
             job_source_revision := job_source_revision active1,
             job_trigger_type := job_trigger_type active1,
             job_requested_by := job_requested_by active1,
             job_not_before := job_not_before active1,
             job_allow_clean_rebuild := job_allow_clean_rebuild active1\<rparr>) w) (\<lambda>w1.
         case job_build_publication active of
           None \<Rightarrow> Inr w1
         | Some i \<Rightarrow>
             (case get_publication i w1 of
                None \<Rightarrow> Inr w1
              | Some staged \<Rightarrow>
                  if pub_status staged = STAGED
                  then update_publication i (\<lambda>p. p\<lparr>pub_source_revision := job_source_revision active1,
                         pub_source_fingerprint := fingerprint, pub_source_snapshot := Some snapshot\<rparr>) w1
                  else Inr w1)))"

definition new_job ::
  "nat \<Rightarrow> scope_type \<times> nat option \<times> nat option \<times> string \<Rightarrow> scope_state \<Rightarrow> nat option \<Rightarrow> trigger_type
   \<Rightarrow> timestamp option \<Rightarrow> bool \<Rightarrow> timestamp \<Rightarrow> publication_job" where
  "new_job i key scope requested_by trigger debounce_started_at allow_clean now =
     (case key of (t, d, s, c) \<Rightarrow>
        \<lparr>job_id = i, job_dataset_type_code = c, job_scope_state = scp_id scope, job_scope_type = t,
         job_department = d, job_station = s, job_source_revision = scp_source_revision scope,
         job_attempt_count = 0, job_status = PENDING, job_requested_by = requested_by,
         job_trigger_type = trigger, job_allow_clean_rebuild = allow_clean,
         job_not_before = Some (if trigger = DATA_CHANGE then data_change_not_before now else now),
         job_debounce_started_at =
           (if trigger = DATA_CHANGE
            then Some (case debounce_started_at of None \<Rightarrow> now | Some t \<Rightarrow> t) else None),
         job_created_at = now, job_started_at = None, job_heartbeat_at = None, job_completed_at = None,
         job_error_message = [], job_error_category = [], job_build_publication = None\<rparr>)"

text \<open>
  The creation of a job with its staged attempt.  An \<open>IntegrityError\<close> of \<open>job.save()\<close> is caught; the
  enclosing savepoint is marked for rollback, so the call returns \<open>None\<close> and leaves \<open>w0\<close>, the
  state at its start.
\<close>

definition create_attempt ::
  "scope_type \<times> nat option \<times> nat option \<times> string \<Rightarrow> scope_state \<Rightarrow> nat option \<Rightarrow> trigger_type
   \<Rightarrow> timestamp option \<Rightarrow> bool \<Rightarrow> json \<Rightarrow> string \<Rightarrow> world \<Rightarrow> world \<Rightarrow> (nat option \<times> world) res" where
  "create_attempt key scope requested_by trigger debounce allow_clean snapshot fingerprint w0 w =
     (let (i, w1) = fresh_id w;
          job = new_job i key scope requested_by trigger debounce allow_clean (clock w)
      in bind_res (job_full_clean w1 job) (\<lambda>_.
         case create_job job w1 of
           Inl _ \<Rightarrow> Inr (None, w0)
         | Inr w2 \<Rightarrow>
             bind_res (allocate_staged_publication scope job fingerprint snapshot w2) (\<lambda>(p, w3).
             bind_res (update_job i (\<lambda>j. j\<lparr>job_build_publication := Some (pub_id p)\<rparr>) w3) (\<lambda>w4.
             Inr (Some i, record_event ''publication.job_queued'' requested_by (job_department job)
               (job_station job) ''publication_job'' (Some i)
               [(''dataset_type_code'', JStr (job_dataset_type_code job)),
                (''source_revision'', JInt (job_source_revision job)),
                (''version_number'', JInt (int (pub_version_number p)))] w4)))))"

text \<open>The source to queue: what the caller supplied, or the current one, whose fingerprint is stored.\<close>

definition enqueue_source ::
  "env \<Rightarrow> scope_state \<Rightarrow> (json \<times> string) option \<Rightarrow> world \<Rightarrow> ((json \<times> string \<times> scope_state) \<times> world) res" where
  "enqueue_source E scope0 supplied w =
       (case supplied of
          Some (snapshot, fingerprint) \<Rightarrow> Inr ((snapshot, fingerprint, scope0), w)
        | None \<Rightarrow>
            bind_res (current_source_state E scope0 w) (\<lambda>((snapshot, fingerprint, scope1), w1).
              let stored = stored_source_fingerprint E w1 scope1 fingerprint in
              if scp_current_source_fingerprint scope1 \<noteq> stored then
                bind_res (update_scope (scp_id scope1) (\<lambda>s. s\<lparr>scp_current_source_fingerprint := stored\<rparr>) w1)
                  (\<lambda>w2. Inr ((snapshot, fingerprint, scope1\<lparr>scp_current_source_fingerprint := stored\<rparr>), w2))
              else Inr ((snapshot, fingerprint, scope1), w1)))"

definition enqueue_publication_job ::
  "env \<Rightarrow> nat option \<Rightarrow> nat option \<Rightarrow> string \<Rightarrow> nat option \<Rightarrow> trigger_type \<Rightarrow> timestamp option \<Rightarrow> bool
   \<Rightarrow> (json \<times> string) option \<Rightarrow> world \<Rightarrow> (nat option \<times> world) res" where
  "enqueue_publication_job E department station dataset_type_code requested_by trigger debounce
       allow_clean supplied w =
     bind_res (validate_scope w department station dataset_type_code) (\<lambda>_.
     bind_res (locked_scope department station dataset_type_code w) (\<lambda>scope0.
     bind_res (enqueue_source E scope0 supplied w) (\<lambda>((snapshot, fingerprint, scope), w2).
     if \<not> allow_clean \<and> \<not> scope_is_dirty E w2 scope (Some fingerprint) then
       bind_res (reconcile_clean_source E scope fingerprint w2) (\<lambda>(_, w3). Inr (None, w3))
     else
       bind_res (scope_filter department station dataset_type_code) (\<lambda>key.
       case first_by job_id (\<lambda>j. job_key j = key \<and> job_active j) (jobs w2) of
         Some active \<Rightarrow>
           if job_status active = RUNNING then Inr (None, w2)
           else bind_res (coalesce_pending active scope requested_by trigger allow_clean snapshot fingerprint w2)
                  (\<lambda>w3. Inr (Some (job_id active), w3))
       | None \<Rightarrow>
           create_attempt key scope requested_by trigger debounce allow_clean snapshot fingerprint w w2))))"

subsection \<open>Marking a scope dirty\<close>

text \<open>The scope row of a mutation: the stored one, or a new validated row.\<close>

definition find_or_create_scope ::
  "nat option \<Rightarrow> nat option \<Rightarrow> string \<Rightarrow> world \<Rightarrow> (scope_state \<times> world) res" where
  "find_or_create_scope department station dataset_type_code w =
     bind_res (scope_filter department station dataset_type_code) (\<lambda>key.
     case find_scope key w of
       Some scope \<Rightarrow> Inr (scope, w)
     | None \<Rightarrow>
         let (i, w1) = fresh_id w; scope = new_scope i key (clock w) in
         bind_res (scope_state_full_clean w1 scope) (\<lambda>_.
         case create_scope scope w1 of
           Inr w2 \<Rightarrow> Inr (scope, w2)
         | Inl _ \<Rightarrow> bind_res (locked_scope department station dataset_type_code w1) (\<lambda>s. Inr (s, w1))))"

definition mark_dirty ::
  "env \<Rightarrow> nat option \<Rightarrow> nat option \<Rightarrow> string \<Rightarrow> nat option \<Rightarrow> world \<Rightarrow> (nat \<times> world) res" where
  "mark_dirty E department station dataset_type_code actor w =
     bind_res (validate_scope w department station dataset_type_code) (\<lambda>_.
     bind_res (lock_file_scope department dataset_type_code) (\<lambda>_.
     bind_res (find_or_create_scope department station dataset_type_code w) (\<lambda>(scope0, w1).
     let scope1 = scope0\<lparr>scp_source_revision := scp_source_revision scope0 + 1\<rparr> in
     bind_res (current_source_state E scope1 w1) (\<lambda>((snapshot, fingerprint, scope2), w2).
     bind_res (if dataset_type_code \<in> FILE_DATASETS then snapshot_revision snapshot
               else Inr (scp_source_revision scope2)) (\<lambda>revision.
     let scope3 = scope2\<lparr>scp_source_revision := revision,
           scp_current_source_fingerprint := stored_source_fingerprint E w2 scope2 fingerprint\<rparr>;
         dirty = scope_is_dirty E w2 scope3 (Some fingerprint);
         scope4 = (if dirty \<and> scp_dirty_since scope3 = None
                   then scope3\<lparr>scp_dirty_since := Some (clock w)\<rparr> else scope3)
     in bind_res (if \<not> dirty
          then bind_res (reconcile_clean_source E scope4 fingerprint w2) (\<lambda>((_, s), w3). Inr (s, w3))
          else Inr (scope4, w2)) (\<lambda>(scope5, w3).
     bind_res (update_scope (scp_id scope5) (\<lambda>s. s\<lparr>scp_source_revision := scp_source_revision scope5,
         scp_current_source_fingerprint := scp_current_source_fingerprint scope5,
         scp_dirty_since := scp_dirty_since scope5\<rparr>) w3) (\<lambda>w4.
     let w5 = record_event ''publication.scope_marked_dirty'' actor department station
           ''dataset_scope_state'' (Some (scp_id scope5))
           [(''dataset_type_code'', JStr dataset_type_code),
            (''source_revision'', JInt (scp_source_revision scope5))] w4
     in if dirty then
          bind_res (enqueue_publication_job E department station dataset_type_code actor DATA_CHANGE None
            False (Some (snapshot, fingerprint)) w5) (\<lambda>(_, w6). Inr (scp_id scope5, w6))
        else Inr (scp_id scope5, w5))))))))"

subsection \<open>Claiming\<close>

text \<open>apps/file_library/publication.py, \<open>pin_source\<close>: pins the frozen bytes of a file generation.\<close>

definition jstring :: "json \<Rightarrow> string \<Rightarrow> string res" where
  "jstring j k =
     (case jget j k of None \<Rightarrow> Inl (KeyError k) | Some (JStr s) \<Rightarrow> Inr s | Some _ \<Rightarrow> Inl (ValidationError k))"

definition pin_document :: "nat \<Rightarrow> json \<Rightarrow> json \<Rightarrow> world \<Rightarrow> world res" where
  "pin_document publication snapshot entry w =
     bind_res (jstring entry ''content_id'') (\<lambda>content.
     bind_res (of_option (KeyError ''library'') (jget snapshot ''library'')) (\<lambda>library.
     bind_res (jstring library ''id'') (\<lambda>library_id.
     bind_res (require ((content, library_id) \<in> set (library_contents w)) (DoesNotExist ''Content'')) (\<lambda>_.
     bind_res (jstring entry ''id'') (\<lambda>document_id.
     bind_res (require (\<not> exists_row (\<lambda>c. pc_publication c = publication \<and> pc_document_id c = document_id)
                 (publication_contents w)) (IntegrityError ''library_publication_document'')) (\<lambda>_.
     Inr (w\<lparr>publication_contents := publication_contents w @
       [\<lparr>pc_publication = publication, pc_content = content, pc_document_id = document_id\<rparr>]\<rparr>)))))))"

definition pin_source :: "nat \<Rightarrow> json \<Rightarrow> world \<Rightarrow> world res" where
  "pin_source publication snapshot w =
     bind_res (of_option (KeyError ''documents'') (jget snapshot ''documents'')) (\<lambda>documents.
       fold_res (pin_document publication snapshot) (jitems documents) w)"

text \<open>The attempt of a claimed job: its own staged row, or a fresh one for a job without any.\<close>

definition claim_publication ::
  "publication_job \<Rightarrow> scope_state \<Rightarrow> json \<Rightarrow> string \<Rightarrow> world \<Rightarrow> (publication option \<times> world) res" where
  "claim_publication job scope snapshot fingerprint w =
     (case job_build_publication job of
        Some i \<Rightarrow> Inr (get_publication i w, w)
      | None \<Rightarrow> bind_res (allocate_staged_publication scope job fingerprint snapshot w)
                  (\<lambda>(p, w1). Inr (Some p, w1)))"

text \<open>The freeze boundary: STAGED becomes BUILDING and PENDING becomes RUNNING.\<close>

definition start_build ::
  "publication_job \<Rightarrow> publication \<Rightarrow> scope_state \<Rightarrow> json \<Rightarrow> string \<Rightarrow> world \<Rightarrow> (nat option \<times> world) res" where
  "start_build job publication scope snapshot fingerprint w =
     bind_res (if job_build_publication job \<noteq> Some (pub_id publication)
       then update_job (job_id job) (\<lambda>j. j\<lparr>job_build_publication := Some (pub_id publication),
              job_source_revision := scp_source_revision scope\<rparr>) w
       else Inr w) (\<lambda>w1.
     bind_res (update_publication (pub_id publication) (\<lambda>p. p\<lparr>pub_source_revision := scp_source_revision scope,
       pub_source_snapshot := Some snapshot, pub_source_fingerprint := fingerprint,
       pub_status := BUILDING\<rparr>) w1) (\<lambda>w2.
     bind_res (if pub_dataset_type_code publication \<in> FILE_DATASETS
       then pin_source (pub_id publication) snapshot w2 else Inr w2) (\<lambda>w3.
     bind_res (update_job (job_id job) (\<lambda>j. j\<lparr>job_status := RUNNING, job_started_at := Some (clock w),
       job_heartbeat_at := Some (clock w), job_source_revision := scp_source_revision scope,
       job_attempt_count := job_attempt_count job + 1,
       job_build_publication := Some (pub_id publication), job_error_category := [],
       job_error_message := []\<rparr>) w3) (\<lambda>w4.
     Inr (Some (job_id job), w4)))))"

text \<open>Building starts only from a STAGED attempt; a job whose attempt is gone or moved on is obsolete.\<close>

definition claim_attempt ::
  "publication_job \<Rightarrow> scope_state \<Rightarrow> json \<Rightarrow> string \<Rightarrow> world \<Rightarrow> (nat option \<times> world) res" where
  "claim_attempt job scope snapshot fingerprint w =
     bind_res (claim_publication job scope snapshot fingerprint w) (\<lambda>(publication, w1).
     case publication of
       None \<Rightarrow>
         bind_res (update_job (job_id job) (\<lambda>j. j\<lparr>job_status := JOB_OBSOLETE,
           job_completed_at := Some (clock w)\<rparr>) w1) (\<lambda>w2. Inr (Some (job_id job), w2))
     | Some p \<Rightarrow>
         if pub_status p \<noteq> STAGED then
           bind_res (update_job (job_id job) (\<lambda>j. j\<lparr>job_status := JOB_OBSOLETE,
             job_completed_at := Some (clock w)\<rparr>) w1) (\<lambda>w2. Inr (Some (job_id job), w2))
         else start_build job p scope snapshot fingerprint w1)"

text \<open>
  \<open>_claim_job\<close>.  \<open>_locked_scope\<close> resolves the registered scope type before the guarded registry
  lookup below it, so the branch that fails an unregistered job is reached only when
  the lookup succeeded already.
\<close>

definition claim_job :: "env \<Rightarrow> publication_job \<Rightarrow> world \<Rightarrow> (nat option \<times> world) res" where
  "claim_job E candidate w =
     bind_res (locked_scope (job_department candidate) (job_station candidate)
       (job_dataset_type_code candidate) w) (\<lambda>scope0.
     case first_by job_id (\<lambda>j. job_id j = job_id candidate \<and> job_status j = PENDING) (jobs w) of
       None \<Rightarrow> Inr (None, w)
     | Some job0 \<Rightarrow>
       (case get_dataset_definition (job_dataset_type_code job0) of
          Inl _ \<Rightarrow>
            bind_res (update_job (job_id job0) (\<lambda>j. j\<lparr>job_status := JOB_FAILED,
              job_completed_at := Some (clock w), job_error_category := ''registry'',
              job_error_message := ''Unknown dataset type code.''\<rparr>) w) (\<lambda>w1.
            Inr (Some (job_id job0), w1))
        | Inr _ \<Rightarrow>
          bind_res (current_source_state E scope0 w) (\<lambda>((snapshot, fingerprint, scope1), w1).
          let job = job0\<lparr>job_source_revision := scp_source_revision scope1\<rparr>;
              stored = stored_source_fingerprint E w1 scope1 fingerprint in
          bind_res
            (if scp_current_source_fingerprint scope1 \<noteq> stored
             then update_scope (scp_id scope1) (\<lambda>s. s\<lparr>scp_current_source_fingerprint := stored\<rparr>) w1
             else Inr w1) (\<lambda>w2.
          let scope = scope1\<lparr>scp_current_source_fingerprint := stored\<rparr> in
          bind_res
            (if scp_dataset_type_code scope \<in> FILE_DATASETS \<and> \<not> job_allow_clean_rebuild job
             then bind_res (reconcile_clean_source E scope fingerprint w2) (\<lambda>((b, _), w3). Inr (b, w3))
             else Inr (False, w2)) (\<lambda>(clean, w3).
          if clean then Inr (None, w3)
          else
            claim_attempt job scope snapshot fingerprint w3)))))"

text \<open>
  Each candidate is tried in its own transaction.  An exception of one of them leaves the loop; what
  earlier candidates committed stays.
\<close>

fun claim_candidates :: "env \<Rightarrow> publication_job list \<Rightarrow> world \<Rightarrow> nat option res \<times> world" where
  "claim_candidates E [] w = (Inr None, w)"
| "claim_candidates E (c # cs) w =
     (case claim_job E c w of
        Inl e \<Rightarrow> (Inl e, w)
      | Inr (Some i, w1) \<Rightarrow> (Inr (Some i), w1)
      | Inr (None, w1) \<Rightarrow> claim_candidates E cs w1)"

definition claimable :: "world \<Rightarrow> publication_job list" where
  "claimable w =
     sort_key job_created_at (sort_key job_id
       (filter (\<lambda>j. job_status j = PENDING
          \<and> (case job_not_before j of None \<Rightarrow> True | Some t \<Rightarrow> t \<le> clock w)) (jobs w)))"

definition claim_next_job :: "env \<Rightarrow> world \<Rightarrow> nat option res \<times> world" where
  "claim_next_job E w = claim_candidates E (claimable w) w"

definition heartbeat_job :: "nat \<Rightarrow> world \<Rightarrow> (bool \<times> world) res" where
  "heartbeat_job i w =
     (case get_job i w of
        None \<Rightarrow> Inr (False, w)
      | Some job \<Rightarrow>
          if job_status job \<noteq> RUNNING then Inr (False, w)
          else bind_res (update_job i (\<lambda>j. j\<lparr>job_heartbeat_at := Some (clock w)\<rparr>) w)
                 (\<lambda>w1. Inr (True, w1)))"

subsection \<open>After commit\<close>

text \<open>
  The functions a transaction registered run in order once it has committed.  An exception of one of
  them propagates to the caller and drops the remaining ones; the transaction stays committed.
\<close>

definition run_callback :: "env \<Rightarrow> callback \<Rightarrow> world \<Rightarrow> world res" where
  "run_callback E cb w =
     (case cb of
        RemoveArtifact path \<Rightarrow> Inr (remove_after_commit E path w)
      | ProcessCleanup i \<Rightarrow> Inr (snd (process_cleanup_record E i empty_cleanup_result w))
      | EnqueueFollowUp department station code debounce \<Rightarrow>
          bind_res (enqueue_publication_job E department station code None DATA_CHANGE debounce False None w)
            (\<lambda>(_, w1). Inr w1)
      | WakeBuildWorker \<Rightarrow> Inr (w\<lparr>wakes := wakes w + 1\<rparr>))"

fun run_callbacks :: "env \<Rightarrow> callback list \<Rightarrow> world \<Rightarrow> exn option \<times> world" where
  "run_callbacks E [] w = (None, w)"
| "run_callbacks E (cb # cbs) w =
     (case run_callback E cb w of Inl e \<Rightarrow> (Some e, w) | Inr w1 \<Rightarrow> run_callbacks E cbs w1)"

definition commit :: "env \<Rightarrow> world \<Rightarrow> exn option \<times> world" where
  "commit E w = run_callbacks E (on_commit w) (w\<lparr>on_commit := []\<rparr>)"

end
