(* ===== verification/Lifecycle_Worker.thy ===== *)
theory Lifecycle_Worker
  imports Lifecycle_Queue
begin

text \<open>
  The build worker (apps/publications/services.py): failing, finalising and recovering jobs, and the
  build of a claimed job outside locks, during which other transactions commit.
\<close>

subsection \<open>Failing\<close>

definition queue_follow_up_if_stale :: "env \<Rightarrow> publication_job \<Rightarrow> world \<Rightarrow> world res" where
  "queue_follow_up_if_stale E job w =
     bind_res (locked_scope (job_department job) (job_station job) (job_dataset_type_code job) w) (\<lambda>scope.
       if \<not> scope_is_dirty E w scope None then Inr w
       else Inr (register_on_commit (EnqueueFollowUp (job_department job) (job_station job)
              (job_dataset_type_code job) (scp_dirty_since scope)) w))"

definition release_references :: "publication \<Rightarrow> world \<Rightarrow> world res" where
  "release_references p w =
     bind_res (release_terminal_document_artifact_references p w) (\<lambda>(_, w1). Inr w1)"

text \<open>The publication part of a failed job: only a BUILDING attempt becomes FAILED.\<close>

definition fail_attempt :: "publication \<Rightarrow> string \<Rightarrow> world \<Rightarrow> world res" where
  "fail_attempt publication message w =
     (let w1 = schedule_artifact_removal (am_path (pub_artifact publication)) w in
      if pub_status publication = BUILDING then
        bind_res (update_publication (pub_id publication) (\<lambda>p. p\<lparr>pub_status := PUB_FAILED,
          pub_artifact_status := ART_FAILED, pub_build_error := message\<rparr>) w1)
          (release_references (publication\<lparr>pub_status := PUB_FAILED\<rparr>))
      else Inr w1)"

definition fail_publication_job :: "env \<Rightarrow> nat \<Rightarrow> string \<Rightarrow> string \<Rightarrow> world \<Rightarrow> (nat \<times> world) res" where
  "fail_publication_job E i error_message error_category w =
     bind_res (of_option (DoesNotExist ''PublicationJob'') (get_job i w)) (\<lambda>job.
     bind_res (locked_scope (job_department job) (job_station job) (job_dataset_type_code job) w) (\<lambda>_.
     if job_status job \<noteq> RUNNING then Inr (i, w)
     else
       let message = take 2000 error_message in
       bind_res (update_job i (\<lambda>j. j\<lparr>job_status := JOB_FAILED, job_completed_at := Some (clock w),
         job_error_message := message, job_error_category := take 32 error_category\<rparr>) w) (\<lambda>w1.
       bind_res (case fk_publication (job_build_publication job) w1 of
          None \<Rightarrow> Inr w1 | Some publication \<Rightarrow> fail_attempt publication message w1) (\<lambda>w2.
       let w3 = record_event ''publication.build_failed'' None (job_department job) (job_station job)
             ''publication_job'' (Some i) [(''dataset_type_code'', JStr (job_dataset_type_code job))] w2
       in bind_res (queue_follow_up_if_stale E job w3) (\<lambda>w4. Inr (i, w4))))))"

subsection \<open>Finalising\<close>

text \<open>A file generation whose library moved on while it was building is retired and requeued.\<close>

definition finalize_stale_source ::
  "env \<Rightarrow> publication_job \<Rightarrow> publication \<Rightarrow> string \<Rightarrow> world \<Rightarrow> (nat \<times> world) res" where
  "finalize_stale_source E job publication path w =
     (let w1 = schedule_artifact_removal path w in
      bind_res (update_publication (pub_id publication) (\<lambda>p. p\<lparr>pub_status := PUB_OBSOLETE,
        pub_source_snapshot := None\<rparr>) w1) (\<lambda>w2.
      bind_res (release_references (publication\<lparr>pub_status := PUB_OBSOLETE\<rparr>) w2) (\<lambda>w3.
      bind_res (update_job (job_id job) (\<lambda>j. j\<lparr>job_status := JOB_OBSOLETE,
        job_completed_at := Some (clock w)\<rparr>) w3) (\<lambda>w4.
      let w5 = record_event ''publication.job_obsolete'' None (job_department job) (job_station job)
            ''publication_job'' (Some (job_id job))
            [(''dataset_type_code'', JStr (job_dataset_type_code job)),
             (''reason'', JStr ''source_revision_changed'')] w4
      in bind_res (enqueue_publication_job E (job_department job) (job_station job)
           (job_dataset_type_code job) (job_requested_by job) (job_trigger_type job) None
           (job_allow_clean_rebuild job) None w5) (\<lambda>(_, w6). Inr (job_id job, w6))))))"

text \<open>Content identical to the current publication is not published again unless requested.\<close>

definition finalize_duplicate ::
  "publication_job \<Rightarrow> publication \<Rightarrow> string \<Rightarrow> nat \<Rightarrow> string \<Rightarrow> world \<Rightarrow> (nat \<times> world) res" where
  "finalize_duplicate job publication fingerprint scope path w =
     (let w1 = schedule_artifact_removal path w in
      bind_res (update_publication (pub_id publication) (\<lambda>p. p\<lparr>pub_status := PUB_OBSOLETE,
        pub_source_fingerprint := fingerprint, pub_source_snapshot := None\<rparr>) w1) (\<lambda>w2.
      bind_res (release_references (publication\<lparr>pub_status := PUB_OBSOLETE\<rparr>) w2) (\<lambda>w3.
      bind_res (update_job (job_id job) (\<lambda>j. j\<lparr>job_status := JOB_OBSOLETE,
        job_completed_at := Some (clock w)\<rparr>) w3) (\<lambda>w4.
      bind_res (update_scope scope (\<lambda>s. s\<lparr>scp_dirty_since := None\<rparr>) w4) (\<lambda>w5.
      Inr (job_id job, record_event ''publication.job_obsolete'' None (job_department job) (job_station job)
        ''publication_job'' (Some (job_id job))
        [(''dataset_type_code'', JStr (job_dataset_type_code job)),
         (''source_revision'', JInt (job_source_revision job)),
         (''reason'', JStr ''source_matches_current_publication'')] w5))))))"

text \<open>Retires the publication that was current: its key grants are revoked and it is SUPERSEDED.\<close>

definition supersede :: "publication \<Rightarrow> world \<Rightarrow> world res" where
  "supersede previous w =
     (let w1 = snd (revoke_publication_dataset_key_grants previous w) in
      update_publication (pub_id previous) (\<lambda>p. p\<lparr>pub_status := SUPERSEDED\<rparr>) w1)"

definition supersede_previous :: "publication option \<Rightarrow> world \<Rightarrow> world res" where
  "supersede_previous previous w = (case previous of None \<Rightarrow> Inr w | Some p \<Rightarrow> supersede p w)"

text \<open>The clean-source alias of a reconciled file scope is translated to the new logical hash.\<close>

definition finalized_alias :: "env \<Rightarrow> scope_state \<Rightarrow> publication \<Rightarrow> publication option \<Rightarrow> string \<Rightarrow> string" where
  "finalized_alias E scope publication previous fingerprint =
     (if pub_dataset_type_code publication \<in> FILE_DATASETS
         \<and> (case previous of None \<Rightarrow> False | Some q \<Rightarrow> pub_source_fingerprint q \<noteq> []
              \<and> scp_current_source_fingerprint scope = pub_source_fingerprint q
              \<and> publication_source_fingerprint E q = fingerprint)
      then fingerprint else scp_current_source_fingerprint scope)"

definition trigger_name :: "trigger_type \<Rightarrow> string" where
  "trigger_name t =
     (case t of USER_REQUEST \<Rightarrow> ''user_request'' | BULK_REQUEST \<Rightarrow> ''bulk_request'' | DATA_CHANGE \<Rightarrow> ''data_change'')"

definition finalize_publish ::
  "env \<Rightarrow> publication_job \<Rightarrow> publication \<Rightarrow> publication option \<Rightarrow> scope_state \<Rightarrow> world \<Rightarrow> (nat \<times> world) res" where
  "finalize_publish E job publication previous scope w =
     bind_res (supersede_previous previous w) (\<lambda>w1.
     let built = publication\<lparr>pub_status := PUBLISHED, pub_published_at := Some (clock w),
           pub_supersedes := map_option pub_id previous\<rparr> in
     bind_res (publication_full_clean E w1 built) (\<lambda>_.
     bind_res (update_publication (pub_id publication) (\<lambda>p. p\<lparr>
         pub_build_summary := pub_build_summary built, pub_source_fingerprint := pub_source_fingerprint built,
         pub_change_summary := pub_change_summary built, pub_artifact_status := pub_artifact_status built,
         pub_artifact_ready := pub_artifact_ready built, pub_artifact := pub_artifact built,
         pub_status := PUBLISHED, pub_published_at := pub_published_at built,
         pub_supersedes := pub_supersedes built\<rparr>) w1) (\<lambda>w2.
     let scope1 = scope\<lparr>scp_current_source_fingerprint :=
             finalized_alias E scope publication previous (pub_source_fingerprint publication),
           scp_latest_built_publication := Some (pub_id publication),
           scp_current_published_publication := Some (pub_id publication)\<rparr>;
         changed = scope_is_dirty E w2 scope1 None;
         dirty_since = (if \<not> changed then None
           else case scp_dirty_since scope of None \<Rightarrow> Some (clock w) | Some t \<Rightarrow> Some t) in
     bind_res (update_scope (scp_id scope) (\<lambda>s. s\<lparr>
         scp_latest_built_publication := Some (pub_id publication),
         scp_current_published_publication := Some (pub_id publication),
         scp_current_source_fingerprint := scp_current_source_fingerprint scope1,
         scp_dirty_since := dirty_since\<rparr>) w2) (\<lambda>w3.
     bind_res (update_job (job_id job) (\<lambda>j. j\<lparr>job_status := SUCCEEDED,
         job_completed_at := Some (clock w), job_heartbeat_at := Some (clock w)\<rparr>) w3) (\<lambda>w4.
     let w5 = record_event ''publication.published'' None (job_department job) (job_station job)
           ''dataset_publication'' (Some (pub_id publication))
           [(''dataset_type_code'', JStr (job_dataset_type_code job)),
            (''version_number'', JInt (int (pub_version_number publication))),
            (''origin'', JStr (trigger_name (job_trigger_type job))),
            (''source_revision'', JInt (pub_source_revision publication))] w4
     in Inr (job_id job,
          if changed then register_on_commit (EnqueueFollowUp (job_department job) (job_station job)
            (job_dataset_type_code job) dirty_since) w5 else w5))))))"

text \<open>
  \<open>artifact\<close> is the dictionary of artifact fields, \<open>None\<close> the empty one of a document generation.
\<close>

definition artifact_path :: "artifact_meta option \<Rightarrow> string" where
  "artifact_path artifact = (case artifact of None \<Rightarrow> [] | Some m \<Rightarrow> am_path m)"

definition finalize_publication_job ::
  "env \<Rightarrow> nat \<Rightarrow> json \<Rightarrow> artifact_meta option \<Rightarrow> string option \<Rightarrow> world \<Rightarrow> (nat \<times> world) res" where
  "finalize_publication_job E i summary artifact fingerprint_value w =
     bind_res (of_option (DoesNotExist ''PublicationJob'') (get_job i w)) (\<lambda>job.
     bind_res (locked_scope (job_department job) (job_station job) (job_dataset_type_code job) w) (\<lambda>scope.
     if job_status job \<noteq> RUNNING then Inr (i, schedule_artifact_removal (artifact_path artifact) w)
     else (case job_build_publication job of
       None \<Rightarrow> fail_publication_job E i ''Claim did not allocate a publication.'' ''worker'' w
     | Some pid \<Rightarrow>
       bind_res (of_option (DoesNotExist ''DatasetPublication'') (get_publication pid w)) (\<lambda>publication.
       if pub_status publication \<noteq> BUILDING
       then Inr (i, schedule_artifact_removal (artifact_path artifact) w)
       else
         let fingerprint =
               (if pub_dataset_type_code publication \<in> FILE_DATASETS
                then publication_source_fingerprint E publication
                else case fingerprint_value of
                       None \<Rightarrow> pub_source_fingerprint publication
                     | Some f \<Rightarrow> if f = [] then pub_source_fingerprint publication else f) in
         bind_res (get_dataset_definition (job_dataset_type_code job)) (\<lambda>definition.
         bind_res (validate_built_summary E definition summary) (\<lambda>_.
         let previous_summary =
               (case fk_publication (scp_latest_built_publication scope) w of
                  None \<Rightarrow> JObj [] | Some q \<Rightarrow> pub_build_summary q) in
         bind_res (build_change_summary definition previous_summary summary) (\<lambda>change.
         let built = publication\<lparr>pub_build_summary := summary, pub_source_fingerprint := fingerprint,
               pub_change_summary := change,
               pub_artifact := (case artifact of None \<Rightarrow> pub_artifact publication | Some m \<Rightarrow> m),
               pub_artifact_status := ART_READY, pub_artifact_ready := True\<rparr>;
             previous = fk_publication (scp_current_published_publication scope) w in
         if pub_dataset_type_code publication \<in> FILE_DATASETS
            \<and> scp_source_revision scope \<noteq> pub_source_revision publication
         then finalize_stale_source E job built (artifact_path artifact) w
         else if (case previous of None \<Rightarrow> False | Some q \<Rightarrow> pub_source_fingerprint q \<noteq> []
                    \<and> publication_source_fingerprint E q = fingerprint)
                 \<and> \<not> job_allow_clean_rebuild job
         then finalize_duplicate job built fingerprint (scp_id scope) (artifact_path artifact) w
         else finalize_publish E job built previous scope w)))))))"

subsection \<open>Recovery of stale jobs\<close>

definition recovery_order :: "publication_job list \<Rightarrow> publication_job list" where
  "recovery_order js =
     sort_key (\<lambda>j. if job_department j = None then 1 else 0 :: nat)
       (sort_key (\<lambda>j. case job_department j of None \<Rightarrow> 0 | Some d \<Rightarrow> d)
         (sort_key job_scope_state (sort_key job_id js)))"

definition stale_job :: "timestamp \<Rightarrow> publication_job \<Rightarrow> bool" where
  "stale_job cutoff j =
     (job_status j = RUNNING \<and> (case job_heartbeat_at j of None \<Rightarrow> False | Some t \<Rightarrow> t < cutoff))"

definition recover_attempt :: "publication_job \<Rightarrow> world \<Rightarrow> world res" where
  "recover_attempt job w =
     (case fk_publication (job_build_publication job) w of
        None \<Rightarrow> Inr w
      | Some publication \<Rightarrow>
          if pub_status publication = BUILDING then
            bind_res (update_publication (pub_id publication) (\<lambda>p. p\<lparr>pub_status := PUB_FAILED,
              pub_build_error := ''Worker heartbeat timed out.''\<rparr>) w)
              (release_references (publication\<lparr>pub_status := PUB_FAILED\<rparr>))
          else Inr w)"

definition recover_job ::
  "env \<Rightarrow> timestamp \<Rightarrow> nat \<Rightarrow> nat \<Rightarrow> nat \<times> world \<Rightarrow> (nat \<times> world) res" where
  "recover_job E cutoff max_attempts i acc =
     (let (recovered, w) = acc in
      case get_job i w of
        None \<Rightarrow> Inr (recovered, w)
      | Some job \<Rightarrow>
        bind_res (locked_scope (job_department job) (job_station job) (job_dataset_type_code job) w) (\<lambda>_.
        if \<not> stale_job cutoff job then Inr (recovered, w)
        else
          bind_res (recover_attempt job w) (\<lambda>w1.
          if job_attempt_count job \<ge> max_attempts then
            bind_res (update_job i (\<lambda>j. j\<lparr>job_status := JOB_FAILED, job_completed_at := Some (clock w),
              job_error_category := ''retry_exhausted'',
              job_error_message := ''Publication build exceeded the maximum retry attempts.''\<rparr>) w1) (\<lambda>w2.
            bind_res (queue_follow_up_if_stale E job w2) (\<lambda>w3. Inr (recovered + 1, w3)))
          else
            bind_res (update_job i (\<lambda>j. j\<lparr>job_status := PENDING, job_started_at := None,
              job_heartbeat_at := None, job_build_publication := None,
              job_error_category := ''retryable_timeout'',
              job_error_message := ''Worker heartbeat timed out; the build will be retried.''\<rparr>) w1) (\<lambda>w2.
            Inr (recovered + 1, w2)))))"

definition recover_stale_jobs :: "env \<Rightarrow> int \<Rightarrow> nat \<Rightarrow> world \<Rightarrow> (nat \<times> world) res" where
  "recover_stale_jobs E timeout max_attempts w =
     (if timeout \<le> 0 then Inl (PublicationError ''Job recovery timeout must be positive.'')
      else if max_attempts < 1 then Inl (PublicationError ''Maximum job attempts must be positive.'')
      else
        let cutoff = clock w - timeout in
        fold_res (recover_job E cutoff max_attempts)
          (map job_id (recovery_order (filter (stale_job cutoff) (jobs w)))) (0, w))"

subsection \<open>Building a claimed job\<close>

definition build_is_still_running :: "nat \<Rightarrow> world \<Rightarrow> bool" where
  "build_is_still_running i w =
     (case get_job i w of
        None \<Rightarrow> False
      | Some job \<Rightarrow> job_status job = RUNNING
          \<and> (case fk_publication (job_build_publication job) w of
               None \<Rightarrow> False | Some p \<Rightarrow> pub_status p = BUILDING))"

definition is_publication_guard_error :: "exn \<Rightarrow> bool" where
  "is_publication_guard_error e = (e = IntegrityError ''P0001'')"

text \<open>
  \<open>None\<close> before an artifact exists, \<open>Some None\<close> for the empty dictionary of a document generation, on
  which \<open>remove_artifact_path(None)\<close> raises the \<open>ArtifactError\<close> that is ignored.  An \<open>OSError\<close> of the
  removal is not ignored.
\<close>

definition compensate_artifact :: "env \<Rightarrow> artifact_meta option option \<Rightarrow> world \<Rightarrow> unit res \<times> world" where
  "compensate_artifact E artifact w =
     (case artifact of
        Some (Some m) \<Rightarrow>
          (case remove_artifact_path E (am_path m) w of
             Inr (_, w1) \<Rightarrow> (Inr (), w1)
           | Inl (ArtifactError _) \<Rightarrow> (Inr (), w)
           | Inl e \<Rightarrow> (Inl e, w))
      | _ \<Rightarrow> (Inr (), w))"

text \<open>apps/file_library/publication.py, \<open>summary\<close>.\<close>

fun sum_sizes :: "json list \<Rightarrow> int res" where
  "sum_sizes [] = Inr 0"
| "sum_sizes (e # es) =
     (case jget e ''size_bytes'' of
        None \<Rightarrow> Inl (KeyError ''size_bytes'')
      | Some v \<Rightarrow> (case as_int v of
          None \<Rightarrow> Inl (ValueError ''size_bytes'')
        | Some n \<Rightarrow> bind_res (sum_sizes es) (\<lambda>m. Inr (n + m))))"

definition library_summary :: "json \<Rightarrow> int \<Rightarrow> json res" where
  "library_summary snapshot revision =
     bind_res (of_option (KeyError ''documents'') (jget snapshot ''documents'')) (\<lambda>documents.
     bind_res (sum_sizes (jitems documents)) (\<lambda>total.
     Inr (JObj [(''document_count'', JInt (int (length (jitems documents)))),
                (''total_accepted_bytes'', JInt total), (''source_revision'', JInt revision)])))"

text \<open>
  What the worker computes from material this model does not hold: the live summary of a dataset,
  the encrypted and signed artifact (its ciphertext file is promoted on success), and a document
  generation.  \<open>GenerationRefused\<close> is a \<open>DocumentV2Error\<close>, \<open>KeyGrantError\<close> or
  \<open>InvalidUnwrap\<close>.  The list holds the ciphertexts the generation promoted, kept when it rolls back.
\<close>

datatype generation_result = Generated world | GenerationRefused | GenerationRaised exn

record worker_env =
  build_summary :: "world \<Rightarrow> publication_job \<Rightarrow> json res"
  build_encrypted_artifact :: "world \<Rightarrow> publication_job \<Rightarrow> publication \<Rightarrow> artifact_meta res"
  build_document_v2_generation :: "world \<Rightarrow> publication \<Rightarrow> generation_result \<times> (nat \<times> string) list"

text \<open>The outcome of the guarded region: artifact, promoted documents, exception or return, state.\<close>

type_synonym build_outcome =
  "artifact_meta option option \<times> (nat \<times> string) list \<times> unit res \<times> world"

definition committed :: "env \<Rightarrow> ('a \<times> world) res \<Rightarrow> world \<Rightarrow> unit res \<times> world" where
  "committed E r w =
     (case r of
        Inl e \<Rightarrow> (Inl e, w)
      | Inr (_, w1) \<Rightarrow> (case commit E w1 of (None, w2) \<Rightarrow> (Inr (), w2) | (Some e, w2) \<Rightarrow> (Inl e, w2)))"

text \<open>
  \<open>others n\<close> is what other transactions commit while the worker is at its n-th point outside locks.
\<close>

definition finish_build ::
  "env \<Rightarrow> (nat \<Rightarrow> world \<Rightarrow> world) \<Rightarrow> nat \<Rightarrow> json \<Rightarrow> artifact_meta option \<Rightarrow> (nat \<times> string) list \<Rightarrow> string
   \<Rightarrow> world \<Rightarrow> build_outcome" where
  "finish_build E others i summary artifact created fingerprint w =
     (let w1 = others 3 w in
      if \<not> build_is_still_running i w1
      then let (c, w2) = compensate_artifact E (Some artifact) w1 in (Some artifact, created, c, w2)
      else
        let w2 = others 4 w1;
            (r, w3) = committed E (finalize_publication_job E i summary artifact (Some fingerprint) w2) w2
        in (Some artifact, created, r, w3))"

definition build_generation ::
  "env \<Rightarrow> worker_env \<Rightarrow> (nat \<Rightarrow> world \<Rightarrow> world) \<Rightarrow> nat \<Rightarrow> publication \<Rightarrow> json \<Rightarrow> world \<Rightarrow> build_outcome" where
  "build_generation E W others i publication summary w =
     (case get_publication (pub_id publication) w of
        None \<Rightarrow> (Some None, [], Inl (DoesNotExist ''DatasetPublication''), w)
      | Some locked \<Rightarrow>
          if pub_status locked \<noteq> BUILDING then (Some None, [], Inr (), w)
          else (case build_document_v2_generation W w locked of
             (GenerationRefused, created) \<Rightarrow>
               (Some None, created, Inl (PublicationBuildError ''Document encryption or signing failed.''), w)
           | (GenerationRaised e, created) \<Rightarrow> (Some None, created, Inl e, w)
           | (Generated w1, created) \<Rightarrow>
               let w2 = others 2 w1 in
               if build_is_still_running i w2
               then finish_build E others i summary None created (pub_source_fingerprint publication) w2
               else (case get_publication (pub_id publication) w2 of
                  None \<Rightarrow> (Some None, created, Inl (DoesNotExist ''DatasetPublication''), w2)
                | Some terminal \<Rightarrow>
                    if terminal_status (pub_status terminal) then
                      (case committed E (release_terminal_document_artifact_references terminal w2) w2 of
                         (Inl e, w3) \<Rightarrow> (Some None, created, Inl e, w3)
                       | (Inr _, w3) \<Rightarrow>
                           finish_build E others i summary None created (pub_source_fingerprint publication) w3)
                    else finish_build E others i summary None created (pub_source_fingerprint publication) w2)))"

definition build_attempt ::
  "env \<Rightarrow> worker_env \<Rightarrow> (nat \<Rightarrow> world \<Rightarrow> world) \<Rightarrow> publication_job \<Rightarrow> nat \<Rightarrow> world \<Rightarrow> build_outcome" where
  "build_attempt E W others job pid w =
     (case bind_res (get_dataset_definition (job_dataset_type_code job)) (\<lambda>_.
           bind_res (validate_scope w (job_department job) (job_station job) (job_dataset_type_code job)) (\<lambda>_.
           bind_res (of_option (DoesNotExist ''DatasetPublication'') (get_publication pid w)) (\<lambda>p.
           bind_res (of_option (PublicationBuildError ''Frozen publication source is unavailable.'')
             (pub_source_snapshot p)) (\<lambda>snapshot.
           bind_res (if pub_dataset_type_code p \<in> FILE_DATASETS
             then library_summary snapshot (pub_source_revision p) else build_summary W w job) (\<lambda>summary.
           Inr (p, summary)))))) of
        Inl e \<Rightarrow> (None, [], Inl e, w)
      | Inr (publication, summary) \<Rightarrow>
          let w1 = others 0 w in
          if \<not> build_is_still_running (job_id job) w1 then (None, [], Inr (), w1)
          else
            let w2 = others 1 w1 in
            if is_document_v2 publication
            then build_generation E W others (job_id job) publication summary w2
            else (case build_encrypted_artifact W w2 job publication of
               Inl e \<Rightarrow> (None, [], Inl e, w2)
             | Inr m \<Rightarrow>
                 finish_build E others (job_id job) summary (Some m) [] (pub_source_fingerprint publication)
                   (w2\<lparr>artifact_files := am_path m # artifact_files w2\<rparr>)))"

text \<open>
  The \<open>except\<close> clauses: compensation and the failed job, or propagation.  A compensation that raises inside
  a clause leaves the job as it is.
\<close>

definition handle_build_error ::
  "env \<Rightarrow> nat \<Rightarrow> artifact_meta option option \<Rightarrow> exn \<Rightarrow> world \<Rightarrow> unit res \<times> world" where
  "handle_build_error E i artifact e w =
     (let failed = (\<lambda>message category.
            case compensate_artifact E artifact w of
              (Inl e1, w1) \<Rightarrow> (Inl e1, w1)
            | (Inr _, w1) \<Rightarrow> committed E (fail_publication_job E i message category w1) w1)
      in case e of
           DatasetRegistryError m \<Rightarrow> failed m ''build''
         | PublicationBuildError m \<Rightarrow> failed m ''build''
         | PublicationError m \<Rightarrow> failed m ''build''
         | ArtifactError m \<Rightarrow> failed m ''build''
         | ValidationError _ \<Rightarrow> failed ''Publication metadata is invalid.'' ''validation''
         | _ \<Rightarrow> if is_publication_guard_error e
                then failed ''Publication could not be finalized.'' ''finalization'' else (Inl e, w))"

text \<open>The \<open>finally\<close> clause: a promoted document ciphertext without a row is queued for removal.\<close>

definition remove_unrecorded :: "env \<Rightarrow> nat \<times> string \<Rightarrow> world \<Rightarrow> world" where
  "remove_unrecorded E created w =
     (if exists_row (\<lambda>a. da_id a = fst created) (document_artifacts w) then w
      else snd (commit E (snd (schedule_document_artifact_removal (fst created) (snd created) w))))"

definition build_claimed_job ::
  "env \<Rightarrow> worker_env \<Rightarrow> (nat \<Rightarrow> world \<Rightarrow> world) \<Rightarrow> nat \<Rightarrow> world \<Rightarrow> unit res \<times> world" where
  "build_claimed_job E W others i w =
     (case get_job i w of
        None \<Rightarrow> (Inl (DoesNotExist ''PublicationJob''), w)
      | Some job \<Rightarrow>
          if job_status job \<noteq> RUNNING then (Inr (), w)
          else (case job_build_publication job of
             None \<Rightarrow> committed E (fail_publication_job E i ''Claim did not allocate a publication.'' ''worker'' w) w
           | Some pid \<Rightarrow>
               let (artifact, created, r, w1) = build_attempt E W others job pid w;
                   (r1, w2) = (case r of Inr _ \<Rightarrow> (Inr (), w1) | Inl e \<Rightarrow> handle_build_error E i artifact e w1)
               in (r1, fold (remove_unrecorded E) created w2)))"

definition process_next_job ::
  "env \<Rightarrow> worker_env \<Rightarrow> (nat \<Rightarrow> world \<Rightarrow> world) \<Rightarrow> world \<Rightarrow> unit res \<times> world" where
  "process_next_job E W others w =
     (case claim_next_job E w of
        (Inl e, w1) \<Rightarrow> (Inl e, w1)
      | (Inr None, w1) \<Rightarrow> (Inr (), w1)
      | (Inr (Some i), w1) \<Rightarrow> build_claimed_job E W others i w1)"

end
