(* ===== verification/Lifecycle_Admin.thy ===== *)
theory Lifecycle_Admin
  imports Lifecycle_Worker
begin

text \<open>
  The administrator's operations on publications (apps/publications/services.py): review, rebuild
  requests, staging, cancellation, rollback and deletion.  Each starts with the authorisation guard of
  its scope.  A returned model instance is given by its primary key.
\<close>

subsection \<open>Review\<close>

definition require_publication ::
  "world \<Rightarrow> nat option \<Rightarrow> publication \<Rightarrow> unit res" where
  "require_publication w actor p =
     require_publication_scope w actor (pub_department p) (pub_station p) (pub_dataset_type_code p)"

definition validate_publication_scope :: "world \<Rightarrow> publication \<Rightarrow> unit res" where
  "validate_publication_scope w p =
     validate_scope w (pub_department p) (pub_station p) (pub_dataset_type_code p)"

definition scope_of_publication :: "publication \<Rightarrow> world \<Rightarrow> scope_state res" where
  "scope_of_publication p w = locked_scope (pub_department p) (pub_station p) (pub_dataset_type_code p) w"

definition fetch_publication :: "nat \<Rightarrow> world \<Rightarrow> publication res" where
  "fetch_publication i w = of_option (DoesNotExist ''DatasetPublication'') (get_publication i w)"

definition publication_event ::
  "string \<Rightarrow> nat option \<Rightarrow> publication \<Rightarrow> (string \<times> json) list \<Rightarrow> world \<Rightarrow> world" where
  "publication_event action actor p metadata =
     record_event action actor (pub_department p) (pub_station p) ''dataset_publication'' (Some (pub_id p)) metadata"

definition create_activation ::
  "nat \<Rightarrow> nat \<Rightarrow> nat option \<Rightarrow> activation_action \<Rightarrow> nat option \<Rightarrow> world \<Rightarrow> world" where
  "create_activation publication scope previous action actor w =
     (let (i, w1) = fresh_id w in
      w1\<lparr>activations := activations w1 @
         [\<lparr>act_id = i, act_publication = publication, act_scope_state = scope,
           act_previous_publication = previous, act_action = action, act_activated_at = clock w,
           act_activated_by = actor\<rparr>]\<rparr>)"

definition publish_publication :: "env \<Rightarrow> nat option \<Rightarrow> nat \<Rightarrow> world \<Rightarrow> (nat \<times> world) res" where
  "publish_publication E actor i w =
     bind_res (fetch_publication i w) (\<lambda>p.
     bind_res (require_publication w actor p) (\<lambda>_.
     bind_res (require (pub_status p = READY_FOR_REVIEW)
       (PublicationError ''Only a review-ready publication can be published.'')) (\<lambda>_.
     bind_res (validate_publication_scope w p) (\<lambda>_.
     bind_res (require (pub_artifact_status p = ART_READY)
       (PublicationError ''Publication artifact is not ready.'')) (\<lambda>_.
     bind_res (scope_of_publication p w) (\<lambda>scope.
     bind_res (get_dataset_definition (pub_dataset_type_code p)) (\<lambda>definition.
     bind_res (if dt_artifact_format definition = ''document-manifest-v2''
       then bind_res (publication_restore_blocked_reason E w p scope False)
              (\<lambda>reason. require (reason = []) (PublicationError reason))
       else Inr ()) (\<lambda>_.
     bind_res (require (\<not> (pub_dataset_type_code p \<in> FILE_DATASETS
         \<and> scp_source_revision scope \<noteq> pub_source_revision p))
       (PublicationError ''Publication source revision changed; build the current source.'')) (\<lambda>_.
     let previous = fk_publication (scp_current_published_publication scope) w in
     bind_res (supersede_previous previous w) (\<lambda>w1.
     bind_res (update_publication i (\<lambda>p. p\<lparr>pub_status := PUBLISHED, pub_published_at := Some (clock w),
       pub_published_by := actor, pub_supersedes := map_option pub_id previous\<rparr>) w1) (\<lambda>w2.
     bind_res (update_scope (scp_id scope) (\<lambda>s. s\<lparr>scp_current_published_publication := Some i\<rparr>) w2) (\<lambda>w3.
     let w4 = create_activation i (scp_id scope) (map_option pub_id previous) PUBLISH actor w3 in
     Inr (i, publication_event ''publication.published'' actor p
       [(''dataset_type_code'', JStr (pub_dataset_type_code p))] w4)))))))))))))"

definition reject_publication :: "nat option \<Rightarrow> nat \<Rightarrow> world \<Rightarrow> (nat \<times> world) res" where
  "reject_publication actor i w =
     bind_res (fetch_publication i w) (\<lambda>p.
     bind_res (require_publication w actor p) (\<lambda>_.
     bind_res (require (pub_status p = READY_FOR_REVIEW)
       (PublicationError ''Only a review-ready publication can be rejected.'')) (\<lambda>_.
     bind_res (validate_publication_scope w p) (\<lambda>_.
     bind_res (update_publication i (\<lambda>p. p\<lparr>pub_status := REJECTED\<rparr>) w) (\<lambda>w1.
     Inr (i, publication_event ''publication.rejected'' actor p
       [(''dataset_type_code'', JStr (pub_dataset_type_code p))] w1))))))"

subsection \<open>Rebuild requests and staging\<close>

definition scope_or_new :: "nat option \<Rightarrow> nat option \<Rightarrow> string \<Rightarrow> world \<Rightarrow> (scope_state \<times> world) res" where
  "scope_or_new department station dataset_type_code w =
     bind_res (scope_filter department station dataset_type_code) (\<lambda>key.
     case find_scope key w of
       Some scope \<Rightarrow> Inr (scope, w)
     | None \<Rightarrow>
         let (i, w1) = fresh_id w; scope = new_scope i key (clock w) in
         bind_res (scope_state_full_clean w1 scope) (\<lambda>_.
         bind_res (create_scope scope w1) (\<lambda>w2. Inr (scope, w2))))"

definition live_attempt :: "nat \<Rightarrow> world \<Rightarrow> bool" where
  "live_attempt scope w =
     (exists_row (\<lambda>j. job_scope_state j = scope \<and> job_active j) (jobs w)
      \<or> exists_row (\<lambda>p. pub_scope_state p = scope \<and> pub_status p \<in> {STAGED, BUILDING, READY_FOR_REVIEW})
          (publications w))"

definition request_rebuild ::
  "env \<Rightarrow> nat option \<Rightarrow> nat option \<Rightarrow> nat option \<Rightarrow> string \<Rightarrow> world \<Rightarrow> (nat \<times> world) res" where
  "request_rebuild E actor department station dataset_type_code w =
     bind_res (require_publication_scope w actor department station dataset_type_code) (\<lambda>_.
     bind_res (validate_scope w department station dataset_type_code) (\<lambda>_.
     bind_res (lock_file_scope department dataset_type_code) (\<lambda>_.
     bind_res (scope_or_new department station dataset_type_code w) (\<lambda>(scope, w1).
     bind_res (require (\<not> live_attempt (scp_id scope) w1) (PublicationError
       ''Rebuild unavailable while another publication attempt is queued, building or awaiting review.'')) (\<lambda>_.
     bind_res (case enqueue_publication_job E department station dataset_type_code actor USER_REQUEST
                      None True None w1 of
          Inl (PublicationBuildError m) \<Rightarrow> Inl (PublicationError (''Rebuild source is unavailable: '' @ m))
        | r \<Rightarrow> r) (\<lambda>(_, w2).
     let w3 = (case actor of
                 Some u \<Rightarrow>
                   if dataset_type_code = ''department_files''
                   then snd (revoke_temporary_access u ''department_mutation'' None ''temporary_station_access'' w2)
                   else w2
               | None \<Rightarrow> w2);
         w4 = register_on_commit WakeBuildWorker w3 in
     Inr (scp_id scope, record_event ''publication.rebuild_requested'' actor department station
       ''dataset_scope_state'' (Some (scp_id scope))
       [(''dataset_type_code'', JStr dataset_type_code),
        (''source_revision'', JInt (scp_source_revision scope))] w4)))))))"

definition stage_publication_update ::
  "env \<Rightarrow> nat option \<Rightarrow> nat option \<Rightarrow> nat option \<Rightarrow> string \<Rightarrow> world \<Rightarrow> (nat \<times> world) res" where
  "stage_publication_update E actor department station dataset_type_code w =
     bind_res (require_publication_scope w actor department station dataset_type_code) (\<lambda>_.
     bind_res (validate_scope w department station dataset_type_code) (\<lambda>_.
     bind_res (locked_scope department station dataset_type_code w) (\<lambda>scope0.
     bind_res (if dataset_type_code \<in> FILE_DATASETS then
         bind_res (current_source_state E scope0 w) (\<lambda>((_, fingerprint, scope1), w1).
           reconcile_clean_source E scope1 fingerprint w1)
       else Inr ((False, scope0), w)) (\<lambda>((clean, scope), w1).
     if clean then Inr (scp_id scope, w1)
     else
       bind_res (require (scope_is_dirty E w1 scope None)
         (PublicationError ''This dataset scope has no unpublished changes.'')) (\<lambda>_.
       bind_res (require (\<not> exists_row (\<lambda>j. job_scope_state j = scp_id scope \<and> job_active j) (jobs w1))
         (PublicationError ''A publication update is already staged or building.'')) (\<lambda>_.
       bind_res (enqueue_publication_job E department station dataset_type_code actor DATA_CHANGE
         None False None w1) (\<lambda>(queued, w2).
       bind_res (require (queued \<noteq> None)
         (PublicationError ''This dataset scope has no unpublished changes.'')) (\<lambda>_.
       Inr (scp_id scope, record_event ''publication.update_staged'' actor department station
         ''dataset_scope_state'' (Some (scp_id scope))
         [(''dataset_type_code'', JStr dataset_type_code),
          (''source_revision'', JInt (scp_source_revision scope))] w2)))))))))"

definition build_staged_publication ::
  "env \<Rightarrow> nat option \<Rightarrow> nat \<Rightarrow> world \<Rightarrow> (nat \<times> world) res" where
  "build_staged_publication E actor scope_id w =
     bind_res (of_option (DoesNotExist ''DatasetScopeState'') (get_scope scope_id w)) (\<lambda>scope.
     bind_res (require_publication_scope w actor (scp_department scope) (scp_station scope)
       (scp_dataset_type_code scope)) (\<lambda>_.
     bind_res (locked_scope (scp_department scope) (scp_station scope) (scp_dataset_type_code scope) w) (\<lambda>locked.
     bind_res (of_option (PublicationError ''No staged publication is available to build.'')
       (first_by job_created_at (\<lambda>j. job_scope_state j = scp_id locked \<and> job_status j = PENDING) (jobs w))) (\<lambda>job.
     bind_res (of_option (PublicationError ''No staged publication is available to build.'')
       (job_build_publication job)) (\<lambda>pid.
     bind_res (of_option (PublicationError ''Only a staged publication can be built now.'')
       (get_publication pid w)) (\<lambda>p.
     bind_res (require (pub_status p = STAGED)
       (PublicationError ''Only a staged publication can be built now.'')) (\<lambda>_.
     bind_res (if scp_dataset_type_code locked \<in> FILE_DATASETS then
         bind_res (require (\<not> exists_row (\<lambda>j. job_scope_state j = scp_id locked \<and> job_status j = RUNNING) (jobs w))
           (PublicationError ''A publication is already building.'')) (\<lambda>_.
         bind_res (current_source_snapshot locked w) (\<lambda>snapshot.
         if job_allow_clean_rebuild job then Inr (False, w)
         else bind_res (reconcile_clean_source E locked (source_fingerprint_for_payload E snapshot) w)
                (\<lambda>((clean, _), w1). Inr (clean, w1))))
       else Inr (False, w)) (\<lambda>(clean, w1).
     if clean then Inr (job_id job, w1)
     else
       bind_res (update_job (job_id job) (\<lambda>j. j\<lparr>job_trigger_type := USER_REQUEST,
         job_not_before := Some (clock w), job_requested_by := actor\<rparr>) w1) (\<lambda>w2.
       Inr (job_id job, register_on_commit WakeBuildWorker
         (record_event ''publication.build_now_requested'' actor (scp_department locked) (scp_station locked)
           ''dataset_publication'' (Some pid)
           [(''dataset_type_code'', JStr (scp_dataset_type_code locked)),
            (''version_number'', JInt (int (pub_version_number p)))] w2)))))))))))"

subsection \<open>Withdrawing an attempt\<close>

text \<open>\<open>filter(build_publication=candidate).order_by("-created_at").first()\<close>\<close>

definition latest_job_of :: "nat \<Rightarrow> world \<Rightarrow> publication_job option" where
  "latest_job_of pid w = first_by (\<lambda>j. - job_created_at j) (\<lambda>j. job_build_publication j = Some pid) (jobs w)"

definition attempt_metadata :: "publication \<Rightarrow> (string \<times> json) list" where
  "attempt_metadata p =
     [(''dataset_type_code'', JStr (pub_dataset_type_code p)),
      (''version_number'', JInt (int (pub_version_number p)))]"

definition delete_staged_publication :: "env \<Rightarrow> nat option \<Rightarrow> nat \<Rightarrow> world \<Rightarrow> (nat \<times> world) res" where
  "delete_staged_publication E actor i w =
     bind_res (fetch_publication i w) (\<lambda>p.
     bind_res (require_publication w actor p) (\<lambda>_.
     bind_res (scope_of_publication p w) (\<lambda>scope.
     bind_res (require (pub_scope_state p = scp_id scope \<and> pub_status p = STAGED)
       (PublicationError ''Only a staged publication can be deleted.'')) (\<lambda>_.
     bind_res (require (case latest_job_of i w of None \<Rightarrow> True | Some j \<Rightarrow> job_status j = PENDING)
       (PublicationError ''A started publication build must be cancelled instead.'')) (\<lambda>_.
     bind_res (update_publication i (\<lambda>p. p\<lparr>pub_status := PUB_CANCELLED\<rparr>) w) (\<lambda>w1.
     bind_res (case latest_job_of i w of
          None \<Rightarrow> Inr w1
        | Some j \<Rightarrow> update_job (job_id j) (\<lambda>j. j\<lparr>job_status := JOB_CANCELLED,
                     job_completed_at := Some (clock w)\<rparr>) w1) (\<lambda>w2.
     bind_res (if pub_dataset_type_code p \<in> FILE_DATASETS then
         bind_res (current_source_state E scope w2) (\<lambda>((_, fingerprint, scope1), w3).
         bind_res (reconcile_clean_source E scope1 fingerprint w3) (\<lambda>(_, w4). Inr w4))
       else Inr w2) (\<lambda>w3.
     Inr (i, publication_event ''publication.staged_deleted'' actor p (attempt_metadata p) w3)))))))))"

definition cancel_publication_build :: "nat option \<Rightarrow> nat \<Rightarrow> world \<Rightarrow> (nat \<times> world) res" where
  "cancel_publication_build actor i w =
     bind_res (fetch_publication i w) (\<lambda>p.
     bind_res (require_publication w actor p) (\<lambda>_.
     bind_res (scope_of_publication p w) (\<lambda>scope.
     bind_res (of_option (PublicationError ''Publication has no build job to cancel.'') (latest_job_of i w)) (\<lambda>job.
     bind_res (require (pub_scope_state p = scp_id scope \<and> job_status job = RUNNING)
       (PublicationError ''Only a building publication can be cancelled.'')) (\<lambda>_.
     bind_res (require (pub_status p = BUILDING)
       (PublicationError ''Only a building publication can be cancelled.'')) (\<lambda>_.
     bind_res (update_publication i (\<lambda>p. p\<lparr>pub_status := PUB_CANCELLED,
       pub_build_error := ''Build cancelled by an administrator.''\<rparr>) w) (\<lambda>w1.
     bind_res (release_references (p\<lparr>pub_status := PUB_CANCELLED\<rparr>) w1) (\<lambda>w2.
     bind_res (update_job (job_id job) (\<lambda>j. j\<lparr>job_status := JOB_CANCELLED,
       job_completed_at := Some (clock w), job_error_category := ''cancelled'',
       job_error_message := ''Build cancelled by an administrator.''\<rparr>) w2) (\<lambda>w3.
     Inr (i, publication_event ''publication.build_cancelled'' actor p (attempt_metadata p)
       (schedule_artifact_removal (am_path (pub_artifact p)) w3)))))))))))"

subsection \<open>Rollback and deletion\<close>

definition activate_publication ::
  "scope_state \<Rightarrow> publication \<Rightarrow> nat option \<Rightarrow> activation_action \<Rightarrow> world \<Rightarrow> world res" where
  "activate_publication scope target actor action w =
     (let previous = fk_publication (scp_current_published_publication scope) w in
      bind_res (case previous of
          None \<Rightarrow> Inr w
        | Some p \<Rightarrow> if pub_id p \<noteq> pub_id target then supersede p w else Inr w) (\<lambda>w1.
      bind_res (update_publication (pub_id target) (\<lambda>p. p\<lparr>pub_status := PUBLISHED,
        pub_published_at := Some (clock w), pub_published_by := actor\<rparr>) w1) (\<lambda>w2.
      bind_res (update_scope (scp_id scope)
        (\<lambda>s. s\<lparr>scp_current_published_publication := Some (pub_id target)\<rparr>) w2) (\<lambda>w3.
      Inr (create_activation (pub_id target) (scp_id scope) (map_option pub_id previous) action actor w3)))))"

definition rollback_publication :: "env \<Rightarrow> nat option \<Rightarrow> nat \<Rightarrow> world \<Rightarrow> (nat \<times> world) res" where
  "rollback_publication E actor i w =
     bind_res (fetch_publication i w) (\<lambda>p.
     bind_res (require_publication w actor p) (\<lambda>_.
     bind_res (validate_publication_scope w p) (\<lambda>_.
     bind_res (scope_of_publication p w) (\<lambda>scope.
     bind_res (publication_restore_blocked_reason E w p scope True) (\<lambda>reason.
     bind_res (require (reason = []) (PublicationError reason)) (\<lambda>_.
     bind_res (of_option (PublicationError ''Dataset scope has no current publication.'')
       (fk_publication (scp_current_published_publication scope) w)) (\<lambda>previous.
     bind_res (require (\<not> newer_live_attempt_exists (scp_id scope) (pub_version_number previous) w)
       (PublicationError ''Rollback is unavailable while a newer attempt is staged or building.'')) (\<lambda>_.
     bind_res (activate_publication scope p actor ROLLBACK w) (\<lambda>w1.
     Inr (i, publication_event ''publication.rolled_back'' actor p
       [(''dataset_type_code'', JStr (pub_dataset_type_code p))] w1))))))))))"

text \<open>Active deletion first activates the newest safe predecessor.\<close>

definition replace_active ::
  "env \<Rightarrow> scope_state \<Rightarrow> publication \<Rightarrow> nat option \<Rightarrow> world \<Rightarrow> world res" where
  "replace_active E scope candidate actor w =
     bind_res (require (scp_current_published_publication scope = Some (pub_id candidate))
       (PublicationError ''Publication is not the authoritative active publication.'')) (\<lambda>_.
     bind_res (require (\<not> newer_live_attempt_exists (scp_id scope) (pub_version_number candidate) w)
       (PublicationError ''Active deletion is unavailable while a newer attempt is staged or building.'')) (\<lambda>_.
     bind_res (eligible_predecessor E w scope (pub_version_number candidate)) (\<lambda>found.
     bind_res (of_option (PublicationError ''Active publication has no safe predecessor to activate.'') found)
       (\<lambda>predecessor.
     bind_res (activate_publication scope predecessor actor ROLLBACK w) (\<lambda>w1.
     Inr (publication_event ''publication.active_replaced_before_delete'' actor candidate
       [(''replacement_version'', JInt (int (pub_version_number predecessor)))] w1))))))"

definition retire_publication :: "publication \<Rightarrow> world \<Rightarrow> world res" where
  "retire_publication p w =
     (let w1 = snd (revoke_publication_dataset_key_grants p w) in
      bind_res (update_publication (pub_id p) (\<lambda>p. p\<lparr>pub_status := PUB_OBSOLETE,
        pub_source_snapshot := None\<rparr>) w1)
        (release_references (p\<lparr>pub_status := PUB_OBSOLETE\<rparr>)))"

text \<open>\<open>scope.latest_built_publication = scope.current_published_publication\<close>, as activated just before.\<close>

definition repoint_latest_built :: "nat \<Rightarrow> nat \<Rightarrow> world \<Rightarrow> world res" where
  "repoint_latest_built scope i w =
     bind_res (of_option (DoesNotExist ''DatasetScopeState'') (get_scope scope w)) (\<lambda>s.
       if scp_latest_built_publication s = Some i
       then update_scope scope (\<lambda>s. s\<lparr>scp_latest_built_publication := scp_current_published_publication s\<rparr>) w
       else Inr w)"

definition delete_publication :: "env \<Rightarrow> nat option \<Rightarrow> nat \<Rightarrow> world \<Rightarrow> (nat \<times> world) res" where
  "delete_publication E actor i w =
     bind_res (fetch_publication i w) (\<lambda>p.
     bind_res (require_publication w actor p) (\<lambda>_.
     bind_res (validate_publication_scope w p) (\<lambda>_.
     bind_res (scope_of_publication p w) (\<lambda>scope.
     bind_res (require (pub_scope_state p = scp_id scope)
       (PublicationError ''Publication is outside this dataset scope.'')) (\<lambda>_.
     bind_res (if pub_status p = PUBLISHED then replace_active E scope p actor w
       else if pub_status p \<noteq> SUPERSEDED
       then Inl (PublicationError ''Only active or superseded successful publications can be deleted.'')
       else Inr w) (\<lambda>w1.
     bind_res (retire_publication p w1) (\<lambda>w2.
     bind_res (repoint_latest_built (scp_id scope) i w2) (\<lambda>w3.
     Inr (i, publication_event ''publication.deleted'' actor p (attempt_metadata p)
       (schedule_artifact_removal (am_path (pub_artifact p)) w3))))))))))"

subsection \<open>Bulk rebuilds\<close>

definition latest_publication_status_by_scope :: "nat \<Rightarrow> world \<Rightarrow> (nat \<times> publication_status option) list" where
  "latest_publication_status_by_scope department w =
     map (\<lambda>s. (scp_id s, map_option pub_status
            (first_by (\<lambda>p. - int (pub_version_number p)) (\<lambda>p. pub_scope_state p = scp_id s) (publications w))))
       (filter (\<lambda>s. scp_department s = Some department) (scope_states w))"

record bulk_counts =
  bulk_created :: nat
  bulk_promoted :: nat
  bulk_already_running :: nat
  bulk_skipped_current :: nat

definition bulk_scope ::
  "env \<Rightarrow> nat option \<Rightarrow> nat \<Rightarrow> nat set \<Rightarrow> scope_state \<Rightarrow> bulk_counts \<times> world \<Rightarrow> (bulk_counts \<times> world) res" where
  "bulk_scope E actor department running scope acc =
     (let (c, w) = acc in
      if scp_id scope \<in> running
      then Inr (c\<lparr>bulk_already_running := bulk_already_running c + 1\<rparr>, w)
      else if \<not> (scope_is_dirty E w scope None \<or> scp_latest_built_publication scope = None)
      then Inr (c\<lparr>bulk_skipped_current := bulk_skipped_current c + 1\<rparr>, w)
      else
        let before = exists_row (\<lambda>j. job_scope_state j = scp_id scope \<and> job_status j = PENDING) (jobs w) in
        bind_res (enqueue_publication_job E (Some department) (scp_station scope) (scp_dataset_type_code scope)
          actor BULK_REQUEST None False None w) (\<lambda>(queued, w1).
        Inr (if queued = None then c
             else if before then c\<lparr>bulk_promoted := bulk_promoted c + 1\<rparr>
             else c\<lparr>bulk_created := bulk_created c + 1\<rparr>, w1)))"

definition bulk_request_rebuilds ::
  "env \<Rightarrow> nat option \<Rightarrow> nat \<Rightarrow> world \<Rightarrow> (bulk_counts \<times> world) res" where
  "bulk_request_rebuilds E actor department w =
     bind_res (require_department_admin w actor (Some department)) (\<lambda>_.
     let scopes = filter (\<lambda>s. scp_department s = Some department) (scope_states w);
         running = set (map job_scope_state
           (filter (\<lambda>j. job_department j = Some department \<and> job_status j = RUNNING) (jobs w))) in
     bind_res (fold_res (bulk_scope E actor department running) scopes
       (\<lparr>bulk_created = 0, bulk_promoted = 0, bulk_already_running = 0, bulk_skipped_current = 0\<rparr>, w)) (\<lambda>(c, w1).
     let w2 = (if bulk_created c \<noteq> 0 \<or> bulk_promoted c \<noteq> 0
               then register_on_commit WakeBuildWorker w1 else w1) in
     Inr (c, record_event ''publication.bulk_rebuild_requested'' actor (Some department) None
       ''dataset_scope_state'' None
       [(''created'', JInt (int (bulk_created c))), (''promoted'', JInt (int (bulk_promoted c))),
        (''already_running'', JInt (int (bulk_already_running c))),
        (''skipped_current'', JInt (int (bulk_skipped_current c)))] w2)))"

end
