(* ===== verification/Retention.thy ===== *)
theory Retention
  imports Lifecycle_Admin
begin

text \<open>
  apps/publications/retention.py: the bounded retention pass.  Candidates are discovered outside
  transactions and each is re-evaluated in its own.  The optional cleanup accounting argument is not
  modelled: it does not influence which rows change.
\<close>

definition ready_predecessor :: "nat \<Rightarrow> publication \<Rightarrow> bool" where
  "ready_predecessor scope p =
     (pub_scope_state p = scope \<and> pub_status p = SUPERSEDED \<and> pub_artifact_status p = ART_READY
      \<and> pub_artifact_ready p)"

text \<open>The window rank of a READY predecessor is one more than the number of newer ones in its scope.\<close>

definition predecessor_rank :: "world \<Rightarrow> publication \<Rightarrow> nat" where
  "predecessor_rank w p =
     1 + length (filter (\<lambda>q. ready_predecessor (pub_scope_state p) q
           \<and> pub_version_number p < pub_version_number q) (publications w))"

definition retained_predecessor_ids :: "env \<Rightarrow> world \<Rightarrow> nat list" where
  "retained_predecessor_ids E w =
     map pub_id (filter (\<lambda>p. ready_predecessor (pub_scope_state p) p
        \<and> predecessor_rank w p \<le> RETAINED_ROLLBACK_PREDECESSORS E) (publications w))"

definition by_creation :: "publication list \<Rightarrow> publication list" where
  "by_creation ps = sort_key pub_created_at (sort_key pub_id ps)"

fun restore_aware_candidates ::
  "env \<Rightarrow> world \<Rightarrow> nat \<Rightarrow> scope_state list \<Rightarrow> nat list \<Rightarrow> nat list res" where
  "restore_aware_candidates E w limit [] ids = Inr ids"
| "restore_aware_candidates E w limit (s # ss) ids =
     bind_res (select_restorable_predecessors E w s (RETAINED_ROLLBACK_PREDECESSORS E)) (\<lambda>protected.
       let ids1 = ids @ take (limit - length ids) (map pub_id (by_creation
             (filter (\<lambda>p. pub_scope_state p = scp_id s \<and> pub_status p = SUPERSEDED
                \<and> pub_id p \<notin> set (map pub_id protected)) (publications w))))
       in if length ids1 = limit then Inr ids1 else restore_aware_candidates E w limit ss ids1)"

definition terminal_cutoff :: "env \<Rightarrow> timestamp \<Rightarrow> timestamp" where
  "terminal_cutoff E now = now - TERMINAL_SNAPSHOT_RETENTION_DAYS E * usec_per_day"

definition candidate_ids :: "env \<Rightarrow> nat \<Rightarrow> timestamp \<Rightarrow> world \<Rightarrow> nat list res" where
  "candidate_ids E limit now w =
     bind_res
       (if RESTORE_AWARE_ENABLED E then
          restore_aware_candidates E w limit
            (sort_key scp_id (filter (\<lambda>s. exists_row (\<lambda>p. pub_status p = SUPERSEDED \<and> pub_scope_state p = scp_id s)
               (publications w)) (scope_states w))) []
        else Inr (take limit (map pub_id (by_creation (filter (\<lambda>p. pub_status p = SUPERSEDED
               \<and> pub_id p \<notin> set (retained_predecessor_ids E w)) (publications w)))))) (\<lambda>superseded_ids.
     if limit - length superseded_ids = 0 then Inr superseded_ids
     else Inr (superseded_ids @ take (limit - length superseded_ids) (map pub_id (by_creation
            (filter (\<lambda>p. (pub_status p = PUB_FAILED \<or> pub_status p = PUB_CANCELLED)
               \<and> pub_source_snapshot p \<noteq> None \<and> pub_created_at p \<le> terminal_cutoff E now)
             (publications w))))))"

definition terminal_timestamp :: "publication \<Rightarrow> publication_job option \<Rightarrow> timestamp" where
  "terminal_timestamp publication job =
     (case job of None \<Rightarrow> pub_created_at publication
      | Some j \<Rightarrow> (case job_completed_at j of None \<Rightarrow> pub_created_at publication | Some t \<Rightarrow> t))"

definition is_retained_predecessor :: "env \<Rightarrow> world \<Rightarrow> scope_state \<Rightarrow> publication \<Rightarrow> bool res" where
  "is_retained_predecessor E w scope publication =
     (if RESTORE_AWARE_ENABLED E then
        bind_res (select_restorable_predecessors E w scope (RETAINED_ROLLBACK_PREDECESSORS E)) (\<lambda>ps.
          Inr (pub_id publication \<in> set (map pub_id ps)))
      else Inr (pub_id publication \<in> set (map pub_id (take (RETAINED_ROLLBACK_PREDECESSORS E)
             (sort_key (\<lambda>p. - int (pub_version_number p))
               (filter (ready_predecessor (scp_id scope)) (publications w)))))))"

definition live_job :: "nat \<Rightarrow> world \<Rightarrow> publication_job option" where
  "live_job scope w = first_by job_created_at (\<lambda>j. job_scope_state j = scope \<and> job_active j) (jobs w)"

datatype retention_outcome = Skipped | Obsoleted | SnapshotPurged

definition process_candidate ::
  "env \<Rightarrow> nat \<Rightarrow> timestamp \<Rightarrow> bool \<Rightarrow> world \<Rightarrow> (retention_outcome \<times> world) res" where
  "process_candidate E publication_id now dry_run w =
     (case get_publication publication_id w of
        None \<Rightarrow> Inr (Skipped, w)
      | Some publication \<Rightarrow>
        (case get_scope (pub_scope_state publication) w of
           None \<Rightarrow> Inr (Skipped, w)
         | Some scope \<Rightarrow>
           if live_job (scp_id scope) w \<noteq> None then Inr (Skipped, w)
           else if pub_status publication = SUPERSEDED then
             (if scp_current_published_publication scope = Some publication_id then Inr (Skipped, w)
              else bind_res (is_retained_predecessor E w scope publication) (\<lambda>retained.
                if retained then Inr (Skipped, w)
                else if dry_run then Inr (Obsoleted, w)
                else
                  bind_res (retire_publication publication w) (\<lambda>w1.
                  bind_res (repoint_latest_built (scp_id scope) publication_id w1) (\<lambda>w2.
                  Inr (Obsoleted, publication_event ''publication.retention_obsoleted'' None publication
                    (attempt_metadata publication)
                    (schedule_artifact_removal (am_path (pub_artifact publication)) w2))))))
           else if pub_status publication \<noteq> PUB_FAILED \<and> pub_status publication \<noteq> PUB_CANCELLED
           then Inr (Skipped, w)
           else if pub_source_snapshot publication = None then Inr (Skipped, w)
           else if terminal_timestamp publication
                 (first_by (\<lambda>j. - job_created_at j) (\<lambda>j. job_scope_state j = scp_id scope
                    \<and> job_build_publication j = Some publication_id) (jobs w)) > terminal_cutoff E now
           then Inr (Skipped, w)
           else if dry_run then Inr (SnapshotPurged, w)
           else
             bind_res (update_publication publication_id (\<lambda>p. p\<lparr>pub_source_snapshot := None\<rparr>) w) (\<lambda>w1.
             bind_res (release_references publication w1) (\<lambda>w2.
             Inr (SnapshotPurged, publication_event ''publication.retention_snapshot_purged'' None publication
               (attempt_metadata publication) w2)))))"

record retention_result =
  ret_considered :: nat
  ret_obsoleted :: nat
  ret_snapshots_purged :: nat
  ret_skipped :: nat

definition count_outcome :: "retention_outcome \<Rightarrow> retention_result \<Rightarrow> retention_result" where
  "count_outcome outcome r =
     (let r1 = r\<lparr>ret_considered := ret_considered r + 1\<rparr> in
      case outcome of
        Obsoleted \<Rightarrow> r1\<lparr>ret_obsoleted := ret_obsoleted r1 + 1\<rparr>
      | SnapshotPurged \<Rightarrow> r1\<lparr>ret_snapshots_purged := ret_snapshots_purged r1 + 1\<rparr>
      | Skipped \<Rightarrow> r1\<lparr>ret_skipped := ret_skipped r1 + 1\<rparr>)"

text \<open>Each candidate commits before the next; an exception leaves what was committed.\<close>

fun process_candidates ::
  "env \<Rightarrow> timestamp \<Rightarrow> bool \<Rightarrow> nat list \<Rightarrow> retention_result \<Rightarrow> world \<Rightarrow> retention_result res \<times> world" where
  "process_candidates E now dry_run [] r w = (Inr r, w)"
| "process_candidates E now dry_run (i # ids) r w =
     (case process_candidate E i now dry_run w of
        Inl e \<Rightarrow> (Inl e, w)
      | Inr (outcome, w1) \<Rightarrow>
          (case commit E w1 of
             (Some e, w2) \<Rightarrow> (Inl e, w2)
           | (None, w2) \<Rightarrow> process_candidates E now dry_run ids (count_outcome outcome r) w2))"

definition empty_retention_result :: retention_result where
  "empty_retention_result =
     \<lparr>ret_considered = 0, ret_obsoleted = 0, ret_snapshots_purged = 0, ret_skipped = 0\<rparr>"

definition run_publication_retention ::
  "env \<Rightarrow> nat option \<Rightarrow> timestamp option \<Rightarrow> bool \<Rightarrow> world \<Rightarrow> retention_result res \<times> world" where
  "run_publication_retention E batch_size now dry_run w =
     (let limit = (case batch_size of None \<Rightarrow> RETENTION_BATCH_SIZE E
                   | Some b \<Rightarrow> if b = 0 then RETENTION_BATCH_SIZE E else b);
          now1 = (case now of None \<Rightarrow> clock w | Some t \<Rightarrow> t)
      in if limit < 1 then (Inl (ValueError ''Publication retention batch size must be positive.''), w)
         else (case candidate_ids E limit now1 w of
                 Inl e \<Rightarrow> (Inl e, w)
               | Inr ids \<Rightarrow> process_candidates E now1 dry_run ids empty_retention_result w))"

end
