(* ===== verification/Lifecycle_Frame.thy ===== *)
theory Lifecycle_Frame
  imports Lifecycle_Admin
begin

text \<open>
  What a statement leaves alone.  \<open>core_eq\<close> relates states with the same scope, publication and job
  tables: the audit trail, the commit hooks, the key grants, the document store, the pins and the
  activations are outside the core.  Partial saves are read as updates of the primary-key maps
  \<open>scope_map\<close>, \<open>publication_map\<close> and \<open>job_map\<close>.
\<close>

subsection \<open>Primary-key maps\<close>

definition scope_map :: "world \<Rightarrow> nat \<rightharpoonup> scope_state" where
  "scope_map w = (\<lambda>i. get_scope i w)"

definition publication_map :: "world \<Rightarrow> nat \<rightharpoonup> publication" where
  "publication_map w = (\<lambda>i. get_publication i w)"

definition job_map :: "world \<Rightarrow> nat \<rightharpoonup> publication_job" where
  "job_map w = (\<lambda>i. get_job i w)"

lemma scope_map_id: "scope_map w i = Some s \<Longrightarrow> scp_id s = i"
  by (simp add: scope_map_def get_scope_id)

lemma publication_map_id: "publication_map w i = Some p \<Longrightarrow> pub_id p = i"
  by (simp add: publication_map_def get_publication_id)

lemma job_map_id: "job_map w i = Some j \<Longrightarrow> job_id j = i"
  by (simp add: job_map_def get_job_id)

lemma get_is_map:
  "get_scope i w = scope_map w i" "get_publication i w = publication_map w i" "get_job i w = job_map w i"
  by (simp_all add: scope_map_def publication_map_def job_map_def)

lemma map_upd_eqI: "(\<And>j. f j = (if j = i then Some x else g j)) \<Longrightarrow> f = g(i \<mapsto> x)"
  by (rule ext) simp

lemma row_get_put_upd:
  assumes "row_get key i rows = Some r" and "key x = i"
  shows "(\<lambda>k. row_get key k (row_put key x rows)) = (\<lambda>k. row_get key k rows)(i \<mapsto> x)"
  using assms by (auto intro!: map_upd_eqI simp: row_get_put dest: row_get_image)

lemma row_get_snoc_upd:
  assumes "key x \<notin> key ` set rows"
  shows "(\<lambda>k. row_get key k (rows @ [x])) = (\<lambda>k. row_get key k rows)(key x \<mapsto> x)"
proof (rule map_upd_eqI)
  fix k
  show "row_get key k (rows @ [x]) = (if k = key x then Some x else row_get key k rows)"
    using assms by (cases "row_get key k rows") (auto simp: row_get_snoc dest: row_get_image)
qed

subsection \<open>States with the same core\<close>

definition core_eq :: "world \<Rightarrow> world \<Rightarrow> bool" where
  "core_eq w w' \<longleftrightarrow>
     scope_states w' = scope_states w \<and> publications w' = publications w \<and> jobs w' = jobs w
     \<and> clock w' = clock w \<and> stations w' = stations w \<and> sources w' = sources w \<and> next_id w \<le> next_id w'"

lemma core_eq_refl [simp]: "core_eq w w"
  by (simp add: core_eq_def)

lemma core_eq_trans: "core_eq u v \<Longrightarrow> core_eq v w \<Longrightarrow> core_eq u w"
  by (auto simp: core_eq_def)

lemma core_eq_maps:
  "core_eq w w' \<Longrightarrow> scope_map w' = scope_map w \<and> publication_map w' = publication_map w \<and> job_map w' = job_map w"
  by (simp add: core_eq_def scope_map_def publication_map_def job_map_def get_scope_def
      get_publication_def get_job_def)

lemma core_eq_record_event [simp]: "core_eq w (record_event a b c d e f g w)"
  by (simp add: core_eq_def record_event_def)

lemma core_eq_register [simp]: "core_eq w (register_on_commit cb w)"
  by (simp add: core_eq_def register_on_commit_def)

lemma core_eq_frame_iff [simp]:
  "core_eq w (record_event a b c d e f g v) = core_eq w v" "core_eq w (register_on_commit cb v) = core_eq w v"
  "core_eq w (if P then u else v) = (if P then core_eq w u else core_eq w v)"
  by (simp_all add: core_eq_def record_event_def register_on_commit_def)

lemma core_eq_schedule [simp]: "core_eq w (schedule_artifact_removal path w)"
  by (simp add: schedule_artifact_removal_def)

lemma core_eq_revoke_grants [simp]: "core_eq w (snd (revoke_publication_dataset_key_grants p w))"
  by (simp add: core_eq_def revoke_publication_dataset_key_grants_def Let_def)

lemma core_eq_activation [simp]: "core_eq w (create_activation a b c d e w)"
  by (simp add: core_eq_def create_activation_def fresh_id_def Let_def)

lemma core_eq_publication_event [simp]: "core_eq w (publication_event a b p m w)"
  by (simp add: publication_event_def)

lemma core_eq_event_iff [simp]:
  "core_eq w (publication_event a b p m v) = core_eq w v" "core_eq w (schedule_artifact_removal path v) = core_eq w v"
  by (simp_all add: publication_event_def schedule_artifact_removal_def)

lemma core_eq_revoke_access [simp]: "core_eq w (revoke_access a b c d e f w)"
  by (simp add: revoke_access_def Let_def core_eq_def record_event_def)

lemma core_eq_active_access: "core_eq w (snd (active_temporary_access u w))"
  by (simp add: active_temporary_access_def split: option.splits)

lemma core_eq_revoke_temporary [simp]: "core_eq w (snd (revoke_temporary_access u a b c w))"
proof -
  obtain r w1 where a: "active_temporary_access u w = (r, w1)"
    by (cases "active_temporary_access u w")
  have "core_eq w w1" using core_eq_active_access [of w u] a by simp
  then show ?thesis
    by (cases r) (auto simp: revoke_temporary_access_def a intro: core_eq_trans)
qed

lemma core_eq_schedule_document [simp]:
  "core_eq w (snd (schedule_document_artifact_removal i path w))"
  by (auto simp: schedule_document_artifact_removal_def core_eq_def register_on_commit_def fresh_id_def
      Let_def split: option.splits)

lemma core_eq_release_artifact:
  assumes "core_eq w0 (snd acc)" shows "core_eq w0 (snd (release_artifact a acc))"
proof -
  obtain q w where acc: "acc = (q, w)" by (cases acc)
  let ?w1 = "w\<lparr>document_artifacts := filter (\<lambda>x. da_id x \<noteq> da_id a) (document_artifacts w)\<rparr>"
  have "core_eq w ?w1" by (simp add: core_eq_def)
  then have "core_eq w (snd (schedule_document_artifact_removal (da_id a) (da_artifact_path a) ?w1))"
    using core_eq_schedule_document core_eq_trans by blast
  with assms acc show ?thesis
    by (auto simp: release_artifact_def intro: core_eq_trans)
qed

lemma core_eq_release_fold:
  "core_eq w0 (snd acc) \<Longrightarrow> core_eq w0 (snd (fold release_artifact as acc))"
  by (induction as arbitrary: acc) (simp_all add: core_eq_release_artifact)

lemma core_eq_release:
  assumes "release_terminal_document_artifact_references p w = Inr r"
  shows "core_eq w (snd r)"
proof -
  have contents: "core_eq w (w\<lparr>publication_contents := c\<rparr>)" for c
    by (simp add: core_eq_def)
  have refs: "core_eq w (w\<lparr>publication_contents := c, artifact_references := d\<rparr>)"
    "core_eq w (w\<lparr>artifact_references := d\<rparr>)" for c d
    by (simp_all add: core_eq_def)
  show ?thesis
    using assms contents refs
    by (auto simp: release_terminal_document_artifact_references_def Let_def
        intro!: core_eq_release_fold split: if_splits)
qed

lemma core_eq_release_references: "release_references p w = Inr w' \<Longrightarrow> core_eq w w'"
  by (auto simp: release_references_def res_simps dest!: core_eq_release)

lemma core_eq_pin_document: "pin_document i s e w = Inr w' \<Longrightarrow> core_eq w w'"
  by (auto simp: pin_document_def res_simps core_eq_def)

lemma core_eq_pin_source: "pin_source i s w = Inr w' \<Longrightarrow> core_eq w w'"
  unfolding pin_source_def bind_res_Inr
  by (auto intro: core_eq_trans core_eq_pin_document elim!: fold_res_invariant [where I = "core_eq w"])

lemma core_eq_fresh: "fresh_id w = (i, w1) \<Longrightarrow> core_eq w w1 \<and> i = next_id w \<and> next_id w1 = Suc i"
  by (auto simp: fresh_id_def core_eq_def)

lemma core_eq_process_cleanup: "core_eq w (snd (process_cleanup_record E i r w))"
  by (auto simp: process_cleanup_record_def remove_queued_ciphertext_def remove_artifact_path_def core_eq_def
      split: option.splits sum.splits if_splits)

lemma core_eq_remove_after_commit: "core_eq w (remove_after_commit E path w)"
  by (auto simp: remove_after_commit_def remove_artifact_path_def core_eq_def split: sum.splits if_splits)

lemma core_eq_compensate: "core_eq w (snd (compensate_artifact E artifact w))"
  by (auto simp: compensate_artifact_def remove_artifact_path_def core_eq_def
      split: option.splits sum.splits if_splits exn.splits)

subsection \<open>Partial saves as map updates\<close>

lemma update_publication_Inr:
  assumes "update_publication i f w = Inr w'" and "\<And>p. pub_id (f p) = pub_id p"
  obtains p where "publication_map w i = Some p" and "publication_map w' = (publication_map w)(i \<mapsto> f p)"
    and "scope_map w' = scope_map w" and "job_map w' = job_map w"
    and "w' = w\<lparr>publications := row_put pub_id (f p) (publications w)\<rparr>"
    and "publication_constraints (publications w')"
proof -
  from assms(1) obtain p where p: "get_publication i w = Some p" and s: "save_publication (f p) w = Inr w'"
    by (auto simp: update_publication_def res_simps)
  from s have w': "w' = w\<lparr>publications := row_put pub_id (f p) (publications w)\<rparr>"
    and c: "publication_constraints (publications w')"
    by (auto simp: publication_table.save_result)
  have "pub_id (f p) = i" using assms(2) p by (simp add: get_publication_id)
  then have "publication_map w' = (publication_map w)(i \<mapsto> f p)"
    using p row_get_put_upd [of pub_id i "publications w" p "f p"]
    by (simp add: w' publication_map_def get_publication_def)
  then show ?thesis
    using that p w' c
    by (simp add: publication_map_def scope_map_def job_map_def get_scope_def get_job_def)
qed

lemma update_job_Inr:
  assumes "update_job i f w = Inr w'" and "\<And>p. job_id (f p) = job_id p"
  obtains p where "job_map w i = Some p" and "job_map w' = (job_map w)(i \<mapsto> f p)"
    and "scope_map w' = scope_map w" and "publication_map w' = publication_map w"
    and "w' = w\<lparr>jobs := row_put job_id (f p) (jobs w)\<rparr>"
    and "job_constraints (jobs w')"
proof -
  from assms(1) obtain p where p: "get_job i w = Some p" and s: "save_job (f p) w = Inr w'"
    by (auto simp: update_job_def res_simps)
  from s have w': "w' = w\<lparr>jobs := row_put job_id (f p) (jobs w)\<rparr>" and c: "job_constraints (jobs w')"
    by (auto simp: job_table.save_result)
  have "job_id (f p) = i" using assms(2) p by (simp add: get_job_id)
  then have "job_map w' = (job_map w)(i \<mapsto> f p)"
    using p row_get_put_upd [of job_id i "jobs w" p "f p"]
    by (simp add: w' job_map_def get_job_def)
  then show ?thesis
    using that p w' c
    by (simp add: publication_map_def scope_map_def job_map_def get_scope_def get_publication_def)
qed

lemma update_scope_Inr:
  assumes "update_scope i f w = Inr w'" and "\<And>p. scp_id (f p) = scp_id p"
  obtains s where "scope_map w i = Some s"
    and "scope_map w' = (scope_map w)(i \<mapsto> (f s)\<lparr>scp_updated_at := clock w\<rparr>)"
    and "publication_map w' = publication_map w" and "job_map w' = job_map w"
    and "w' = w\<lparr>scope_states := row_put scp_id ((f s)\<lparr>scp_updated_at := clock w\<rparr>) (scope_states w)\<rparr>"
    and "scope_state_constraints (scope_states w')"
proof -
  from assms(1) obtain s where s: "get_scope i w = Some s" and sv: "save_scope (f s) w = Inr w'"
    by (auto simp: update_scope_def res_simps)
  let ?s = "(f s)\<lparr>scp_updated_at := clock w\<rparr>"
  from sv have w': "w' = w\<lparr>scope_states := row_put scp_id ?s (scope_states w)\<rparr>"
    and c: "scope_state_constraints (scope_states w')"
    by (auto simp: scope_table.save_result)
  have "scp_id ?s = i" using assms(2) s by (simp add: get_scope_id)
  then have "scope_map w' = (scope_map w)(i \<mapsto> ?s)"
    using s row_get_put_upd [of scp_id i "scope_states w" s ?s]
    by (simp add: w' scope_map_def get_scope_def)
  then show ?thesis
    using that s w' c
    by (simp add: publication_map_def scope_map_def job_map_def get_job_def get_publication_def)
qed

text \<open>The same facts as one conclusion, for reading off the effect of a service.\<close>

lemma publication_effect:
  assumes "update_publication i f w = Inr w'" and "\<And>p. pub_id (f p) = pub_id p"
  shows "\<exists>p. publication_map w i = Some p \<and> publication_map w' = (publication_map w)(i \<mapsto> f p)
     \<and> scope_map w' = scope_map w \<and> job_map w' = job_map w
     \<and> w' = w\<lparr>publications := row_put pub_id (f p) (publications w)\<rparr>"
  by (rule update_publication_Inr [OF assms]) blast

lemma job_effect:
  assumes "update_job i f w = Inr w'" and "\<And>j. job_id (f j) = job_id j"
  shows "\<exists>j. job_map w i = Some j \<and> job_map w' = (job_map w)(i \<mapsto> f j)
     \<and> scope_map w' = scope_map w \<and> publication_map w' = publication_map w
     \<and> w' = w\<lparr>jobs := row_put job_id (f j) (jobs w)\<rparr>"
  by (rule update_job_Inr [OF assms]) blast

lemma scope_effect:
  assumes "update_scope i f w = Inr w'" and "\<And>s. scp_id (f s) = scp_id s"
  shows "\<exists>s. scope_map w i = Some s \<and> scope_map w' = (scope_map w)(i \<mapsto> (f s)\<lparr>scp_updated_at := clock w\<rparr>)
     \<and> publication_map w' = publication_map w \<and> job_map w' = job_map w
     \<and> w' = w\<lparr>scope_states := row_put scp_id ((f s)\<lparr>scp_updated_at := clock w\<rparr>) (scope_states w)\<rparr>"
  by (rule update_scope_Inr [OF assms]) blast

end
