(* ===== verification/Abstract_Lifecycle.thy ===== *)
theory Abstract_Lifecycle
  imports World
begin

text \<open>
  The publication lifecycle with the payload removed: \<open>C\<close> maps each scope to its current
  publication, \<open>Q\<close> each publication to its status and scope, \<open>R\<close> each job to its status, attempt and
  scope.  The invariant of this abstract state and the transitions that keep it.
\<close>

type_synonym currents = "nat \<rightharpoonup> nat option"
type_synonym statuses = "nat \<rightharpoonup> publication_status \<times> nat"
type_synonym attempts = "nat \<rightharpoonup> job_status \<times> nat option \<times> nat"

definition current_inv :: "currents \<Rightarrow> statuses \<Rightarrow> bool" where
  "current_inv C Q \<longleftrightarrow> (\<forall>i k. C i = Some (Some k) \<longleftrightarrow> Q k = Some (PUBLISHED, i))"

definition link_inv :: "statuses \<Rightarrow> attempts \<Rightarrow> bool" where
  "link_inv Q R \<longleftrightarrow> (\<forall>i st k sc. R i = Some (st, Some k, sc) \<longrightarrow> (\<exists>u. Q k = Some (u, sc)))"

definition unique_link_inv :: "attempts \<Rightarrow> bool" where
  "unique_link_inv R \<longleftrightarrow>
     (\<forall>i i' st st' k sc sc'. R i = Some (st, Some k, sc) \<longrightarrow> R i' = Some (st', Some k, sc') \<longrightarrow> i = i')"

definition running_inv :: "statuses \<Rightarrow> attempts \<Rightarrow> bool" where
  "running_inv Q R \<longleftrightarrow>
     (\<forall>i b sc. R i = Some (RUNNING, b, sc) \<longrightarrow> (\<exists>k. b = Some k \<and> Q k = Some (BUILDING, sc)))"

definition building_inv :: "statuses \<Rightarrow> attempts \<Rightarrow> bool" where
  "building_inv Q R \<longleftrightarrow>
     (\<forall>k sc. Q k = Some (BUILDING, sc) \<longrightarrow> (\<exists>i. R i = Some (RUNNING, Some k, sc)))"

definition pending_inv :: "statuses \<Rightarrow> attempts \<Rightarrow> bool" where
  "pending_inv Q R \<longleftrightarrow>
     (\<forall>i k sc. R i = Some (PENDING, Some k, sc) \<longrightarrow> Q k = Some (STAGED, sc))"

definition attempt_inv :: "currents \<Rightarrow> statuses \<Rightarrow> attempts \<Rightarrow> bool" where
  "attempt_inv C Q R \<longleftrightarrow> current_inv C Q \<and> link_inv Q R \<and> unique_link_inv R \<and> running_inv Q R
     \<and> building_inv Q R \<and> pending_inv Q R"

lemma attempt_invI:
  assumes "current_inv C Q" "link_inv Q R" "unique_link_inv R" "running_inv Q R" "building_inv Q R"
    "pending_inv Q R"
  shows "attempt_inv C Q R"
  using assms by (simp add: attempt_inv_def)

lemma attempt_invD:
  assumes "attempt_inv C Q R"
  shows "current_inv C Q" "link_inv Q R" "unique_link_inv R" "running_inv Q R" "building_inv Q R"
    "pending_inv Q R"
  using assms by (simp_all add: attempt_inv_def)

lemma current_status: "current_inv C Q \<Longrightarrow> C i = Some (Some k) \<Longrightarrow> Q k = Some (PUBLISHED, i)"
  by (simp add: current_inv_def)

lemma status_current: "current_inv C Q \<Longrightarrow> Q k = Some (PUBLISHED, i) \<Longrightarrow> C i = Some (Some k)"
  by (simp add: current_inv_def)

lemma link_status: "link_inv Q R \<Longrightarrow> R i = Some (st, Some k, sc) \<Longrightarrow> \<exists>u. Q k = Some (u, sc)"
  by (auto simp: link_inv_def)

lemma unique_link:
  "unique_link_inv R \<Longrightarrow> R i = Some (st, Some k, sc) \<Longrightarrow> R i' = Some (st', Some k, sc') \<Longrightarrow> i = i'"
  unfolding unique_link_inv_def by blast

subsection \<open>Frame conditions of the parts\<close>

text \<open>A status change away from and to unpublished states.\<close>

lemma current_upd:
  assumes "current_inv C Q" and "Q k = Some (u, sc)" and "u \<noteq> PUBLISHED" and "u' \<noteq> PUBLISHED"
  shows "current_inv C (Q(k \<mapsto> (u', sc)))"
  using assms by (auto simp: current_inv_def)

lemma current_new:
  assumes "current_inv C Q" and "Q k = None" and "u' \<noteq> PUBLISHED"
  shows "current_inv C (Q(k \<mapsto> (u', sc)))"
  using assms by (auto simp: current_inv_def)

lemma link_upd_status:
  assumes "link_inv Q R" and "Q k = Some (u, sc)"
  shows "link_inv (Q(k \<mapsto> (u', sc))) R"
  using assms by (fastforce simp: link_inv_def)

lemma link_new_status: "link_inv Q R \<Longrightarrow> Q k = None \<Longrightarrow> link_inv (Q(k \<mapsto> v)) R"
  by (fastforce simp: link_inv_def)

lemma link_upd_job:
  assumes "link_inv Q R" and "b = None \<or> (\<exists>k u. b = Some k \<and> Q k = Some (u, sc))"
  shows "link_inv Q (R(i \<mapsto> (st, b, sc)))"
  using assms by (auto simp: link_inv_def)

lemma unique_upd_job:
  assumes "unique_link_inv R" and "\<And>i' st' sc' k. b = Some k \<Longrightarrow> R i' = Some (st', Some k, sc') \<Longrightarrow> i' = i"
  shows "unique_link_inv (R(i \<mapsto> (st, b, sc)))"
  using assms(1) assms(2) unfolding unique_link_inv_def by (simp split: if_splits) blast

lemma building_upd_job:
  assumes "building_inv Q R" and "\<And>k sc. Q k = Some (BUILDING, sc) \<Longrightarrow> R i \<noteq> Some (RUNNING, Some k, sc)"
  shows "building_inv Q (R(i \<mapsto> x))"
  unfolding building_inv_def
proof (intro allI impI)
  fix k sc assume q: "Q k = Some (BUILDING, sc)"
  then obtain i' where "R i' = Some (RUNNING, Some k, sc)" using assms(1) by (auto simp: building_inv_def)
  with assms(2) [OF q] show "\<exists>i'. (R(i \<mapsto> x)) i' = Some (RUNNING, Some k, sc)"
    by (intro exI [of _ i']) auto
qed

lemma building_upd_status: "building_inv Q R \<Longrightarrow> u' \<noteq> BUILDING \<Longrightarrow> building_inv (Q(k \<mapsto> (u', sc))) R"
  by (simp add: building_inv_def)

lemma running_upd_status:
  assumes "running_inv Q R" and "\<And>i sc. R i \<noteq> Some (RUNNING, Some k, sc)"
  shows "running_inv (Q(k \<mapsto> v)) R"
  unfolding running_inv_def
proof (intro allI impI)
  fix i b sc assume r: "R i = Some (RUNNING, b, sc)"
  then obtain k' where k': "b = Some k'" "Q k' = Some (BUILDING, sc)"
    using assms(1) unfolding running_inv_def by blast
  moreover have "k' \<noteq> k" using assms(2) r k'(1) by auto
  ultimately show "\<exists>k'. b = Some k' \<and> (Q(k \<mapsto> v)) k' = Some (BUILDING, sc)" by auto
qed

lemma running_upd_job: "running_inv Q R \<Longrightarrow> st \<noteq> RUNNING \<Longrightarrow> running_inv Q (R(i \<mapsto> (st, b, sc)))"
  by (simp add: running_inv_def)

lemma not_running_on: "running_inv Q R \<Longrightarrow> Q k \<noteq> Some (BUILDING, sc) \<Longrightarrow> R i \<noteq> Some (RUNNING, Some k, sc)"
  by (auto simp: running_inv_def)

subsection \<open>Transitions\<close>

text \<open>A live attempt ends: its publication leaves STAGED or BUILDING, its job is no longer running it.\<close>

lemma attempt_end:
  assumes inv: "attempt_inv C Q R" and R: "R i = Some (st, Some k, sc)" and Q: "Q k = Some (u, sc)"
    and u: "u = STAGED \<or> u = BUILDING" "u' \<noteq> BUILDING" "u' \<noteq> PUBLISHED"
    and st: "st' \<noteq> RUNNING" "b = Some k \<and> st' \<noteq> PENDING \<or> b = None"
  shows "attempt_inv C (Q(k \<mapsto> (u', sc))) (R(i \<mapsto> (st', b, sc)))"
proof (rule attempt_invI)
  note inv = attempt_invD [OF inv]
  have only: "i' = i" if "R i' = Some (st2, Some k, sc2)" for i' st2 sc2
    using unique_link [OF inv(3) that R] .
  show "current_inv C (Q(k \<mapsto> (u', sc)))" using current_upd [OF inv(1) Q] u by auto
  show "link_inv (Q(k \<mapsto> (u', sc))) (R(i \<mapsto> (st', b, sc)))"
    using link_upd_status [OF inv(2) Q] st(2) by (intro link_upd_job) auto
  show "unique_link_inv (R(i \<mapsto> (st', b, sc)))" using inv(3) st(2) only by (intro unique_upd_job) auto
  show "running_inv (Q(k \<mapsto> (u', sc))) (R(i \<mapsto> (st', b, sc)))"
    using inv(4) st(1) only by (fastforce simp: running_inv_def)
  show "building_inv (Q(k \<mapsto> (u', sc))) (R(i \<mapsto> (st', b, sc)))"
    using building_upd_status [OF inv(5) u(2)] u(2) R by (intro building_upd_job) (auto split: if_splits)
  show "pending_inv (Q(k \<mapsto> (u', sc))) (R(i \<mapsto> (st', b, sc)))"
    using inv(6) st(2) only by (fastforce simp: pending_inv_def)
qed

text \<open>A job without an attempt ends or waits.\<close>

lemma attempt_drop_job:
  assumes inv: "attempt_inv C Q R" and "R i = Some (st, None, sc)" and "st' \<noteq> RUNNING"
  shows "attempt_inv C Q (R(i \<mapsto> (st', None, sc)))"
proof (rule attempt_invI)
  note inv = attempt_invD [OF inv]
  show "current_inv C Q" by (rule inv(1))
  show "link_inv Q (R(i \<mapsto> (st', None, sc)))" using inv(2) by (intro link_upd_job) auto
  show "unique_link_inv (R(i \<mapsto> (st', None, sc)))" using inv(3) by (intro unique_upd_job) auto
  show "running_inv Q (R(i \<mapsto> (st', None, sc)))" using inv(4) assms(3) by (fastforce simp: running_inv_def)
  show "building_inv Q (R(i \<mapsto> (st', None, sc)))"
    using inv(5) assms(2) by (intro building_upd_job) auto
  show "pending_inv Q (R(i \<mapsto> (st', None, sc)))" using inv(6) by (fastforce simp: pending_inv_def)
qed

text \<open>A publication no job is working on changes status.\<close>

lemma attempt_publication:
  assumes inv: "attempt_inv C Q R" and Q: "Q k = Some (u, sc)"
    and u: "u' \<noteq> BUILDING" "u' \<noteq> PUBLISHED" "u \<noteq> BUILDING" "u \<noteq> PUBLISHED"
    and free: "\<And>i sc. R i \<noteq> Some (PENDING, Some k, sc)"
  shows "attempt_inv C (Q(k \<mapsto> (u', sc))) R"
proof (rule attempt_invI)
  note inv = attempt_invD [OF inv]
  show "current_inv C (Q(k \<mapsto> (u', sc)))" using current_upd [OF inv(1) Q] u by simp
  show "link_inv (Q(k \<mapsto> (u', sc))) R" by (rule link_upd_status [OF inv(2) Q])
  show "unique_link_inv R" by (rule inv(3))
  show "running_inv (Q(k \<mapsto> (u', sc))) R" 
    using not_running_on [OF inv(4)] Q u(3) by (intro running_upd_status [OF inv(4)]) auto
  show "building_inv (Q(k \<mapsto> (u', sc))) R" by (rule building_upd_status [OF inv(5) u(1)])
  show "pending_inv (Q(k \<mapsto> (u', sc))) R" using inv(6) free by (fastforce simp: pending_inv_def)
qed

text \<open>A claimed attempt starts.\<close>

lemma attempt_start:
  assumes inv: "attempt_inv C Q R" and R: "R i = Some (PENDING, b, sc)" and Q: "Q k = Some (STAGED, sc)"
    and only: "\<And>i' st sc'. R i' = Some (st, Some k, sc') \<Longrightarrow> i' = i"
  shows "attempt_inv C (Q(k \<mapsto> (BUILDING, sc))) (R(i \<mapsto> (RUNNING, Some k, sc)))"
proof (rule attempt_invI)
  note inv = attempt_invD [OF inv]
  show "current_inv C (Q(k \<mapsto> (BUILDING, sc)))" using current_upd [OF inv(1) Q] by simp
  show "link_inv (Q(k \<mapsto> (BUILDING, sc))) (R(i \<mapsto> (RUNNING, Some k, sc)))"
    using link_upd_status [OF inv(2) Q] by (intro link_upd_job) auto
  show "unique_link_inv (R(i \<mapsto> (RUNNING, Some k, sc)))" using inv(3) only by (intro unique_upd_job) auto
  show "running_inv (Q(k \<mapsto> (BUILDING, sc))) (R(i \<mapsto> (RUNNING, Some k, sc)))"
    using inv(4) only by (fastforce simp: running_inv_def)
  show "building_inv (Q(k \<mapsto> (BUILDING, sc))) (R(i \<mapsto> (RUNNING, Some k, sc)))"
    using building_upd_job [OF inv(5)] R by (fastforce simp: building_inv_def)
  show "pending_inv (Q(k \<mapsto> (BUILDING, sc))) (R(i \<mapsto> (RUNNING, Some k, sc)))"
    using inv(6) only by (fastforce simp: pending_inv_def)
qed

text \<open>A new staged publication appears; a job is queued for it.\<close>

lemma attempt_allocate:
  assumes inv: "attempt_inv C Q R" and Q: "Q k = None"
  shows "attempt_inv C (Q(k \<mapsto> (STAGED, sc))) R"
proof (rule attempt_invI)
  note inv = attempt_invD [OF inv]
  show "current_inv C (Q(k \<mapsto> (STAGED, sc)))" using current_new [OF inv(1) Q] by simp
  show "link_inv (Q(k \<mapsto> (STAGED, sc))) R" by (rule link_new_status [OF inv(2) Q])
  show "unique_link_inv R" by (rule inv(3))
  show "running_inv (Q(k \<mapsto> (STAGED, sc))) R" 
    using not_running_on [OF inv(4)] Q by (intro running_upd_status [OF inv(4)]) auto
  show "building_inv (Q(k \<mapsto> (STAGED, sc))) R" using building_upd_status [OF inv(5)] by simp
  show "pending_inv (Q(k \<mapsto> (STAGED, sc))) R" using inv(6) Q by (fastforce simp: pending_inv_def)
qed

lemma attempt_new_job:
  assumes inv: "attempt_inv C Q R" and R: "R i = None"
  shows "attempt_inv C Q (R(i \<mapsto> (PENDING, None, sc)))"
proof (rule attempt_invI)
  note inv = attempt_invD [OF inv]
  show "current_inv C Q" by (rule inv(1))
  show "link_inv Q (R(i \<mapsto> (PENDING, None, sc)))" using inv(2) by (intro link_upd_job) auto
  show "unique_link_inv (R(i \<mapsto> (PENDING, None, sc)))" using inv(3) by (intro unique_upd_job) auto
  show "running_inv Q (R(i \<mapsto> (PENDING, None, sc)))" using inv(4) by (fastforce simp: running_inv_def)
  show "building_inv Q (R(i \<mapsto> (PENDING, None, sc)))"
    using inv(5) R by (intro building_upd_job) auto
  show "pending_inv Q (R(i \<mapsto> (PENDING, None, sc)))" using inv(6) by (fastforce simp: pending_inv_def)
qed

lemma attempt_new_scope:
  assumes inv: "attempt_inv C Q R" and C: "C i = None"
  shows "attempt_inv (C(i \<mapsto> None)) Q R"
proof -
  have "Q k \<noteq> Some (PUBLISHED, i)" for k
    using status_current [OF attempt_invD(1) [OF inv]] C by fastforce
  then have "current_inv (C(i \<mapsto> None)) Q"
    using attempt_invD(1) [OF inv] by (auto simp: current_inv_def)
  then show ?thesis using inv by (simp add: attempt_inv_def)
qed

lemma attempt_attach:
  assumes inv: "attempt_inv C Q R" and R: "R i = Some (PENDING, b, sc)" and Q: "Q k = Some (STAGED, sc)"
    and only: "\<And>i' st sc'. R i' = Some (st, Some k, sc') \<Longrightarrow> i' = i"
  shows "attempt_inv C Q (R(i \<mapsto> (PENDING, Some k, sc)))"
proof (rule attempt_invI)
  note inv = attempt_invD [OF inv]
  show "current_inv C Q" by (rule inv(1))
  show "link_inv Q (R(i \<mapsto> (PENDING, Some k, sc)))" using inv(2) Q by (intro link_upd_job) auto
  show "unique_link_inv (R(i \<mapsto> (PENDING, Some k, sc)))" using inv(3) only by (intro unique_upd_job) auto
  show "running_inv Q (R(i \<mapsto> (PENDING, Some k, sc)))" using inv(4) by (fastforce simp: running_inv_def)
  show "building_inv Q (R(i \<mapsto> (PENDING, Some k, sc)))"
    using inv(5) R by (intro building_upd_job) auto
  show "pending_inv Q (R(i \<mapsto> (PENDING, Some k, sc)))" using inv(6) Q by (fastforce simp: pending_inv_def)
qed

lemma unlinked: "link_inv Q R \<Longrightarrow> Q k = None \<Longrightarrow> R i \<noteq> Some (st, Some k, sc)"
  by (metis link_status option.distinct(1))

subsection \<open>Activation\<close>

text \<open>The statuses once the current publication of scope \<open>i\<close>, if any, is superseded.\<close>

definition superseded :: "nat option \<Rightarrow> nat \<Rightarrow> statuses \<Rightarrow> statuses" where
  "superseded cur i Q = (case cur of None \<Rightarrow> Q | Some k0 \<Rightarrow> Q(k0 \<mapsto> (SUPERSEDED, i)))"

definition work_inv :: "statuses \<Rightarrow> attempts \<Rightarrow> bool" where
  "work_inv Q R \<longleftrightarrow> link_inv Q R \<and> unique_link_inv R \<and> running_inv Q R \<and> building_inv Q R \<and> pending_inv Q R"

lemma attempt_inv_split: "attempt_inv C Q R \<longleftrightarrow> current_inv C Q \<and> work_inv Q R"
  by (auto simp: attempt_inv_def work_inv_def)

lemma work_status:
  assumes w: "work_inv Q R" and Q: "Q k = Some (u, sc)" and u: "u \<noteq> BUILDING" "u \<noteq> STAGED" "u' \<noteq> BUILDING"
  shows "work_inv (Q(k \<mapsto> (u', sc))) R"
proof -
  note w = w [unfolded work_inv_def]
  have "running_inv (Q(k \<mapsto> (u', sc))) R"
    using not_running_on [of Q R] w Q u(1) by (intro running_upd_status) auto
  moreover have "building_inv (Q(k \<mapsto> (u', sc))) R" using w u(3) building_upd_status by blast
  moreover have "pending_inv (Q(k \<mapsto> (u', sc))) R" using w Q u(2) by (fastforce simp: pending_inv_def)
  ultimately show ?thesis using w Q by (simp add: work_inv_def link_upd_status)
qed

lemma superseded_other: "cur \<noteq> Some k \<Longrightarrow> superseded cur i Q k = Q k"
  by (auto simp: superseded_def split: option.splits)

lemma work_superseded:
  assumes "work_inv Q R" and "\<And>k0. cur = Some k0 \<Longrightarrow> Q k0 = Some (PUBLISHED, i)"
  shows "work_inv (superseded cur i Q) R"
  using assms by (auto simp: superseded_def intro: work_status split: option.splits)

lemma current_activate:
  assumes c: "current_inv C Q" and C: "C i = Some cur" and k: "Q k = Some (u, i)" "u \<noteq> PUBLISHED"
  shows "current_inv (C(i \<mapsto> Some k)) ((superseded cur i Q)(k \<mapsto> (PUBLISHED, i)))"
  unfolding current_inv_def
proof (intro allI)
  fix i' k'
  have only: "cur = Some k''" if "Q k'' = Some (PUBLISHED, i)" for k''
    using status_current [OF c that] C by simp
  have pub: "C i' = Some (Some k') \<longleftrightarrow> Q k' = Some (PUBLISHED, i')"
    using c by (simp add: current_inv_def)
  have cur: "Q k0 = Some (PUBLISHED, i)" if "cur = Some k0" for k0
    using current_status [OF c] C that by simp
  show "(C(i \<mapsto> Some k)) i' = Some (Some k') \<longleftrightarrow>
      ((superseded cur i Q)(k \<mapsto> (PUBLISHED, i))) k' = Some (PUBLISHED, i')"
  proof (cases "cur = Some k'")
    case True
    with cur k have "k' \<noteq> k" by auto
    with True cur pub show ?thesis by (auto simp: superseded_def)
  next
    case False
    with superseded_other only pub k show ?thesis by (auto simp: superseded_other)
  qed
qed

lemma current_distinct:
  "current_inv C Q \<Longrightarrow> C i = Some cur \<Longrightarrow> Q k = Some (u, sc) \<Longrightarrow> u \<noteq> PUBLISHED \<Longrightarrow> cur \<noteq> Some k"
  by (auto simp: current_inv_def)

text \<open>A reviewed or superseded publication becomes current.\<close>

lemma attempt_activate:
  assumes inv: "attempt_inv C Q R" and C: "C i = Some cur" and Q: "Q k = Some (u, i)"
    and u: "u \<noteq> PUBLISHED" "u \<noteq> BUILDING" "u \<noteq> STAGED"
  shows "attempt_inv (C(i \<mapsto> Some k)) ((superseded cur i Q)(k \<mapsto> (PUBLISHED, i))) R"
proof -
  have c: "current_inv C Q" and w: "work_inv Q R" using inv by (simp_all add: attempt_inv_split)
  have "work_inv (superseded cur i Q) R"
    by (rule work_superseded [OF w]) (use c C in \<open>simp add: current_status\<close>)
  moreover have "superseded cur i Q k = Some (u, i)"
    using superseded_other current_distinct [OF c C Q u(1)] Q by simp
  ultimately have "work_inv ((superseded cur i Q)(k \<mapsto> (PUBLISHED, i))) R"
    using u by (intro work_status) auto
  with current_activate [OF c C Q u(1)] show ?thesis by (simp add: attempt_inv_split)
qed

text \<open>A finished build becomes current and its job succeeds.\<close>

lemma attempt_publish:
  assumes inv: "attempt_inv C Q R" and C: "C i = Some cur" and Q: "Q k = Some (BUILDING, i)"
    and R: "R j = Some (RUNNING, Some k, i)"
  shows "attempt_inv (C(i \<mapsto> Some k)) ((superseded cur i Q)(k \<mapsto> (PUBLISHED, i)))
           (R(j \<mapsto> (SUCCEEDED, Some k, i)))"
proof -
  have c: "current_inv C Q" using inv by (simp add: attempt_inv_split)
  have "attempt_inv C (Q(k \<mapsto> (SUPERSEDED, i))) (R(j \<mapsto> (SUCCEEDED, Some k, i)))"
    by (rule attempt_end [OF inv R Q]) simp_all
  then have "attempt_inv (C(i \<mapsto> Some k)) ((superseded cur i (Q(k \<mapsto> (SUPERSEDED, i))))(k \<mapsto> (PUBLISHED, i)))
           (R(j \<mapsto> (SUCCEEDED, Some k, i)))"
    using C by (rule attempt_activate [where u = SUPERSEDED]) simp_all
  moreover have "cur \<noteq> Some k" by (rule current_distinct [OF c C Q]) simp
  then have "(superseded cur i (Q(k \<mapsto> (SUPERSEDED, i))))(k \<mapsto> (PUBLISHED, i))
      = (superseded cur i Q)(k \<mapsto> (PUBLISHED, i))"
    by (auto simp: superseded_def split: option.splits)
  ultimately show ?thesis by simp
qed

end
