(* ===== verification/Lifecycle_Inv.thy ===== *)
theory Lifecycle_Inv
  imports Lifecycle_Frame Abstract_Lifecycle
begin

text \<open>
  The invariant of the publication tables.  \<open>base_inv\<close> holds after every single statement: primary
  keys, the database constraints, and that every publication and job belongs to the scope row its
  tenant key names.  \<open>attempt_inv\<close> holds between operations: a scope points to a publication exactly
  when that publication is PUBLISHED, a job is RUNNING exactly when its attempt is BUILDING, and a
  PENDING job's attempt is STAGED.
\<close>

subsection \<open>The statement-level invariant\<close>

definition owned :: "world \<Rightarrow> nat \<Rightarrow> scope_type \<times> nat option \<times> nat option \<times> string \<Rightarrow> bool" where
  "owned w i key \<longleftrightarrow> (\<exists>s. scope_map w i = Some s \<and> scope_key s = key)"

definition base_inv :: "world \<Rightarrow> bool" where
  "base_inv w \<longleftrightarrow>
     unique_rows scp_id (scope_states w) \<and> unique_rows pub_id (publications w) \<and> unique_rows job_id (jobs w)
     \<and> (\<forall>s\<in>set (scope_states w). scp_id s < next_id w
          \<and> registered_scope_type (scp_dataset_type_code s) = Inr (scp_scope_type s))
     \<and> (\<forall>p\<in>set (publications w). pub_id p < next_id w \<and> owned w (pub_scope_state p) (publication_key p))
     \<and> (\<forall>j\<in>set (jobs w). job_id j < next_id w \<and> owned w (job_scope_state j) (job_key j))
     \<and> scope_state_constraints (scope_states w) \<and> publication_constraints (publications w)
     \<and> job_constraints (jobs w)"

definition frozen_scope :: "(scope_state \<Rightarrow> scope_state) \<Rightarrow> bool" where
  "frozen_scope f \<longleftrightarrow> (\<forall>s. scp_id (f s) = scp_id s \<and> scope_key (f s) = scope_key s)"

definition frozen_publication :: "(publication \<Rightarrow> publication) \<Rightarrow> bool" where
  "frozen_publication f \<longleftrightarrow> (\<forall>p. pub_id (f p) = pub_id p \<and> publication_key (f p) = publication_key p
     \<and> pub_scope_state (f p) = pub_scope_state p \<and> pub_version_number (f p) = pub_version_number p)"

definition frozen_job :: "(publication_job \<Rightarrow> publication_job) \<Rightarrow> bool" where
  "frozen_job f \<longleftrightarrow> (\<forall>j. job_id (f j) = job_id j \<and> job_key (f j) = job_key j
     \<and> job_scope_state (f j) = job_scope_state j)"

lemmas frozen_defs = frozen_scope_def frozen_publication_def frozen_job_def scope_key_def
  publication_key_def job_key_def

lemma owned_cong: "scope_map w' = scope_map w \<Longrightarrow> owned w' i key = owned w i key"
  by (simp add: owned_def)

lemma base_unique:
  assumes "base_inv w"
  shows "unique_rows scp_id (scope_states w)" "unique_rows pub_id (publications w)"
    "unique_rows job_id (jobs w)"
  using assms by (auto simp: base_inv_def)

lemma base_maps:
  assumes "base_inv w"
  shows "s \<in> set (scope_states w) \<longleftrightarrow> scope_map w (scp_id s) = Some s"
    "p \<in> set (publications w) \<longleftrightarrow> publication_map w (pub_id p) = Some p"
    "j \<in> set (jobs w) \<longleftrightarrow> job_map w (job_id j) = Some j"
  using base_unique [OF assms]
  by (simp_all add: scope_map_def publication_map_def job_map_def get_scope_def get_publication_def
      get_job_def row_get_iff)

lemma map_mem:
  "scope_map w i = Some s \<Longrightarrow> s \<in> set (scope_states w)"
  "publication_map w i = Some p \<Longrightarrow> p \<in> set (publications w)"
  "job_map w i = Some j \<Longrightarrow> j \<in> set (jobs w)"
  by (simp_all add: scope_map_def publication_map_def job_map_def get_scope_def get_publication_def
      get_job_def row_get_mem)

lemma base_update_publication:
  assumes "update_publication i f w = Inr w'" and "frozen_publication f" and b: "base_inv w"
  shows "base_inv w'"
proof -
  obtain p where p: "publication_map w i = Some p" and sm: "scope_map w' = scope_map w"
    and w': "w' = w\<lparr>publications := row_put pub_id (f p) (publications w)\<rparr>"
    and c: "publication_constraints (publications w')"
    using update_publication_Inr [OF assms(1)] assms(2) by (metis frozen_publication_def)
  have pm: "p \<in> set (publications w)" by (rule map_mem(2) [OF p])
  have f: "pub_id (f p) = pub_id p" "publication_key (f p) = publication_key p"
    "pub_scope_state (f p) = pub_scope_state p"
    using assms(2) by (simp_all add: frozen_publication_def)
  have rows: "pub_id q < next_id w' \<and> owned w' (pub_scope_state q) (publication_key q)"
    if "q \<in> set (publications w')" for q
    using that b pm by (auto simp: w' in_set_row_put base_inv_def f owned_cong [OF sm, unfolded w'])
  have jobs: "owned w' i' k = owned w i' k" for i' k
    by (rule owned_cong [OF sm])
  show ?thesis
    using b c rows jobs by (auto simp: base_inv_def w')
qed

lemma base_update_job:
  assumes "update_job i f w = Inr w'" and "frozen_job f" and b: "base_inv w"
  shows "base_inv w'"
proof -
  obtain j where j: "job_map w i = Some j" and sm: "scope_map w' = scope_map w"
    and w': "w' = w\<lparr>jobs := row_put job_id (f j) (jobs w)\<rparr>"
    and c: "job_constraints (jobs w')"
    using update_job_Inr [OF assms(1)] assms(2) by (metis frozen_job_def)
  have jm: "j \<in> set (jobs w)" by (rule map_mem(3) [OF j])
  have f: "job_id (f j) = job_id j" "job_key (f j) = job_key j" "job_scope_state (f j) = job_scope_state j"
    using assms(2) by (simp_all add: frozen_job_def)
  have rows: "job_id q < next_id w' \<and> owned w' (job_scope_state q) (job_key q)"
    if "q \<in> set (jobs w')" for q
    using that b jm by (auto simp: w' in_set_row_put base_inv_def f owned_cong [OF sm, unfolded w'])
  have pubs: "owned w' i' k = owned w i' k" for i' k
    by (rule owned_cong [OF sm])
  show ?thesis
    using b c rows pubs by (auto simp: base_inv_def w')
qed

lemma base_update_scope:
  assumes "update_scope i f w = Inr w'" and "frozen_scope f" and b: "base_inv w"
  shows "base_inv w'"
proof -
  obtain s where s: "scope_map w i = Some s"
    and sm: "scope_map w' = (scope_map w)(i \<mapsto> (f s)\<lparr>scp_updated_at := clock w\<rparr>)"
    and w': "w' = w\<lparr>scope_states := row_put scp_id ((f s)\<lparr>scp_updated_at := clock w\<rparr>) (scope_states w)\<rparr>"
    and c: "scope_state_constraints (scope_states w')"
    using update_scope_Inr [OF assms(1)] assms(2) by (metis frozen_scope_def)
  have sin: "s \<in> set (scope_states w)" by (rule map_mem(1) [OF s])
  have f: "scp_id (f s) = scp_id s" "scope_key (f s) = scope_key s"
    using assms(2) by (simp_all add: frozen_scope_def)
  from f(2) have f': "scp_dataset_type_code (f s) = scp_dataset_type_code s"
    "scp_scope_type (f s) = scp_scope_type s"
    by (simp_all add: scope_key_def)
  have rows: "scp_id q < next_id w' \<and> registered_scope_type (scp_dataset_type_code q) = Inr (scp_scope_type q)"
    if "q \<in> set (scope_states w')" for q
    using that b sin by (auto simp: w' in_set_row_put base_inv_def f f')
  have "owned w' i' k" if "owned w i' k" for i' k
    using that s f(2) by (auto simp: owned_def sm scope_key_def)
  then show ?thesis
    using b c rows by (auto simp: base_inv_def w')
qed

lemma base_core_eq: "core_eq w w' \<Longrightarrow> base_inv w \<Longrightarrow> base_inv w'"
  by (frule core_eq_maps) (fastforce simp: base_inv_def core_eq_def owned_def)

lemma base_create_publication:
  assumes "create_publication p w = Inr w'" and b: "base_inv w"
    and "pub_id p \<notin> pub_id ` set (publications w)" and "pub_id p < next_id w"
    and "owned w (pub_scope_state p) (publication_key p)"
  shows "base_inv w' \<and> publication_map w' = (publication_map w)(pub_id p \<mapsto> p)
    \<and> scope_map w' = scope_map w \<and> job_map w' = job_map w"
proof -
  from assms(1) have w': "w' = w\<lparr>publications := publications w @ [p]\<rparr>"
    and c: "publication_constraints (publications w')"
    by (auto simp: publication_table.create_result)
  have sm: "scope_map w' = scope_map w" "job_map w' = job_map w"
    by (simp_all add: w' scope_map_def job_map_def get_scope_def get_job_def)
  have "publication_map w' = (publication_map w)(pub_id p \<mapsto> p)"
    using row_get_snoc_upd [OF assms(3)] by (simp add: w' publication_map_def get_publication_def)
  moreover have "base_inv w'"
    using b assms(3-5) c owned_cong [OF sm(1)] by (auto simp: base_inv_def w')
  ultimately show ?thesis using sm by simp
qed

lemma base_create_job:
  assumes "create_job j w = Inr w'" and b: "base_inv w"
    and "job_id j \<notin> job_id ` set (jobs w)" and "job_id j < next_id w"
    and "owned w (job_scope_state j) (job_key j)"
  shows "base_inv w' \<and> job_map w' = (job_map w)(job_id j \<mapsto> j)
    \<and> scope_map w' = scope_map w \<and> publication_map w' = publication_map w"
proof -
  from assms(1) have w': "w' = w\<lparr>jobs := jobs w @ [j]\<rparr>" and c: "job_constraints (jobs w')"
    by (auto simp: job_table.create_result)
  have sm: "scope_map w' = scope_map w" "publication_map w' = publication_map w"
    by (simp_all add: w' scope_map_def publication_map_def get_scope_def get_publication_def)
  have "job_map w' = (job_map w)(job_id j \<mapsto> j)"
    using row_get_snoc_upd [OF assms(3)] by (simp add: w' job_map_def get_job_def)
  moreover have "base_inv w'"
    using b assms(3-5) c owned_cong [OF sm(1)] by (auto simp: base_inv_def w')
  ultimately show ?thesis using sm by simp
qed

lemma base_create_scope:
  assumes "create_scope s w = Inr w'" and b: "base_inv w"
    and new: "scp_id s \<notin> scp_id ` set (scope_states w)" and "scp_id s < next_id w"
    and "registered_scope_type (scp_dataset_type_code s) = Inr (scp_scope_type s)"
  shows "base_inv w' \<and> scope_map w' = (scope_map w)(scp_id s \<mapsto> s)
    \<and> job_map w' = job_map w \<and> publication_map w' = publication_map w"
proof -
  from assms(1) have w': "w' = w\<lparr>scope_states := scope_states w @ [s]\<rparr>"
    and c: "scope_state_constraints (scope_states w')"
    by (auto simp: scope_table.create_result)
  have sm: "job_map w' = job_map w" "publication_map w' = publication_map w"
    by (simp_all add: w' job_map_def publication_map_def get_job_def get_publication_def)
  have m: "scope_map w' = (scope_map w)(scp_id s \<mapsto> s)"
    using row_get_snoc_upd [OF new] by (simp add: w' scope_map_def get_scope_def)
  have none: "scope_map w (scp_id s) = None"
    using new by (simp add: scope_map_def get_scope_def row_get_None)
  have "owned w' i k" if "owned w i k" for i k
    using that none by (auto simp: owned_def m)
  then have "base_inv w'"
    using b assms(3-5) c by (auto simp: base_inv_def w')
  then show ?thesis using sm m by simp
qed

lemma base_fresh:
  assumes "base_inv w"
  shows "next_id w \<notin> scp_id ` set (scope_states w)" "next_id w \<notin> pub_id ` set (publications w)"
    "next_id w \<notin> job_id ` set (jobs w)"
  using assms by (auto simp: base_inv_def)

text \<open>The scope a service locks is the row the tenant key of its publications and jobs names.\<close>

lemma find_scope_Some:
  "find_scope key w = Some s \<Longrightarrow> s \<in> set (scope_states w) \<and> scope_key s = key"
  by (auto simp: find_scope_def dest: first_by_SomeD)

lemma locked_scope_Inr:
  assumes "locked_scope d st c w = Inr s" and "base_inv w"
  shows "scope_map w (scp_id s) = Some s \<and> scp_dataset_type_code s = c \<and> scp_department s = d
    \<and> scp_station s = st \<and> registered_scope_type c = Inr (scp_scope_type s)"
  using assms find_scope_Some
  by (fastforce simp: locked_scope_def scope_filter_def res_simps scope_key_def base_maps(1))

lemma owned_scope:
  assumes "base_inv w" and "owned w i (t, d, st, c)" and "locked_scope d st c w = Inr s"
  shows "scp_id s = i"
proof -
  from assms(2) obtain s0 where s0: "scope_map w i = Some s0" "scope_key s0 = (t, d, st, c)"
    by (auto simp: owned_def)
  have in0: "s0 \<in> set (scope_states w)" by (rule map_mem(1) [OF s0(1)])
  have s: "scope_map w (scp_id s) = Some s" "scope_key s = (scp_scope_type s, d, st, c)"
    "registered_scope_type c = Inr (scp_scope_type s)"
    using locked_scope_Inr [OF assms(3,1)] by (simp_all add: scope_key_def)
  have "registered_scope_type c = Inr t"
    using assms(1) in0 s0(2) by (auto simp: base_inv_def scope_key_def)
  with s(3) have t: "t = scp_scope_type s" by simp
  have "distinct (map scope_key (scope_states w))"
    using assms(1) by (simp add: base_inv_def scope_state_constraints_def)
  moreover have "scope_key s = scope_key s0" using s(2) s0(2) t by simp
  ultimately have "s = s0"
    using in0 map_mem(1) [OF s(1)] by (metis distinct_map inj_onD)
  then show ?thesis using s0(1) scope_map_id by metis
qed

lemma job_scope:
  assumes "base_inv w" and "job_map w i = Some j"
    and "locked_scope (job_department j) (job_station j) (job_dataset_type_code j) w = Inr s"
  shows "scp_id s = job_scope_state j"
  using assms map_mem(3) [OF assms(2)]
  by (intro owned_scope [OF assms(1) _ assms(3)]) (auto simp: base_inv_def job_key_def)

lemma publication_scope:
  assumes "base_inv w" and "publication_map w i = Some p"
    and "locked_scope (pub_department p) (pub_station p) (pub_dataset_type_code p) w = Inr s"
  shows "scp_id s = pub_scope_state p"
  using assms map_mem(2) [OF assms(2)]
  by (intro owned_scope [OF assms(1) _ assms(3)]) (auto simp: base_inv_def publication_key_def)

subsection \<open>The abstract lifecycle\<close>

text \<open>
  What the lifecycle is about, with the payload removed: each scope's current publication, each
  publication's status and scope, each job's status, attempt and scope.
\<close>

definition current_of :: "world \<Rightarrow> currents" where
  "current_of w = map_option scp_current_published_publication \<circ> scope_map w"

definition status_of :: "world \<Rightarrow> statuses" where
  "status_of w = map_option (\<lambda>p. (pub_status p, pub_scope_state p)) \<circ> publication_map w"

definition attempt_of :: "world \<Rightarrow> attempts" where
  "attempt_of w = map_option (\<lambda>j. (job_status j, job_build_publication j, job_scope_state j)) \<circ> job_map w"

definition lifecycle_inv :: "world \<Rightarrow> bool" where
  "lifecycle_inv w \<longleftrightarrow> base_inv w \<and> attempt_inv (current_of w) (status_of w) (attempt_of w)"

lemma lifecycle_inv_base: "lifecycle_inv w \<Longrightarrow> base_inv w"
  by (simp add: lifecycle_inv_def)

lemma inv_core_eq: "core_eq w w' \<Longrightarrow> lifecycle_inv w \<Longrightarrow> lifecycle_inv w'"
  by (frule core_eq_maps)
     (simp add: lifecycle_inv_def base_core_eq current_of_def status_of_def attempt_of_def)

lemma project_upd: "map_option f \<circ> m(i \<mapsto> x) = (map_option f \<circ> m)(i \<mapsto> f x)"
  by (rule ext) simp

lemma project_neutral: "m i = Some y \<Longrightarrow> f x = f y \<Longrightarrow> map_option f \<circ> m(i \<mapsto> x) = map_option f \<circ> m"
  by (rule ext) simp

subsection \<open>Statements on the abstract state\<close>

lemma inv_update_publication:
  assumes u: "update_publication i f w = Inr w'" and f: "frozen_publication f" and b: "base_inv w"
  obtains p where "publication_map w i = Some p" and "publication_map w' = (publication_map w)(i \<mapsto> f p)"
    and "status_of w i = Some (pub_status p, pub_scope_state p)"
    and "status_of w' = (status_of w)(i \<mapsto> (pub_status (f p), pub_scope_state p))"
    and "current_of w' = current_of w" and "attempt_of w' = attempt_of w"
    and "scope_map w' = scope_map w" and "job_map w' = job_map w"
    and "jobs w' = jobs w" and "scope_states w' = scope_states w" and "base_inv w'"
    and "clock w' = clock w" and "next_id w' = next_id w" and "sources w' = sources w"
proof -
  have f': "pub_id (f p) = pub_id p" "pub_scope_state (f p) = pub_scope_state p" for p
    using f by (simp_all add: frozen_publication_def)
  obtain p where p: "publication_map w i = Some p"
    and pm: "publication_map w' = (publication_map w)(i \<mapsto> f p)" "scope_map w' = scope_map w"
      "job_map w' = job_map w" "w' = w\<lparr>publications := row_put pub_id (f p) (publications w)\<rparr>"
    using update_publication_Inr [OF u f'(1)] by metis
  show ?thesis
    by (rule that [OF p pm(1)])
       (use p pm base_update_publication [OF u f b] in
         \<open>simp_all add: status_of_def current_of_def attempt_of_def project_upd f'\<close>)
qed

lemma inv_update_job:
  assumes u: "update_job i f w = Inr w'" and f: "frozen_job f" and b: "base_inv w"
  obtains j where "job_map w i = Some j" and "job_map w' = (job_map w)(i \<mapsto> f j)"
    and "attempt_of w i = Some (job_status j, job_build_publication j, job_scope_state j)"
    and "attempt_of w' = (attempt_of w)(i \<mapsto> (job_status (f j), job_build_publication (f j), job_scope_state j))"
    and "current_of w' = current_of w" and "status_of w' = status_of w"
    and "scope_map w' = scope_map w" and "publication_map w' = publication_map w"
    and "publications w' = publications w" and "scope_states w' = scope_states w" and "base_inv w'"
    and "clock w' = clock w" and "next_id w' = next_id w" and "sources w' = sources w"
proof -
  have f': "job_id (f p) = job_id p" "job_scope_state (f p) = job_scope_state p" for p
    using f by (simp_all add: frozen_job_def)
  obtain j where j: "job_map w i = Some j"
    and pm: "job_map w' = (job_map w)(i \<mapsto> f j)" "scope_map w' = scope_map w"
      "publication_map w' = publication_map w" "w' = w\<lparr>jobs := row_put job_id (f j) (jobs w)\<rparr>"
    using update_job_Inr [OF u f'(1)] by metis
  show ?thesis
    by (rule that [OF j pm(1)])
       (use j pm base_update_job [OF u f b] in
         \<open>simp_all add: status_of_def current_of_def attempt_of_def project_upd f'\<close>)
qed

lemma inv_update_scope:
  assumes u: "update_scope i f w = Inr w'" and f: "frozen_scope f" and b: "base_inv w"
  obtains s where "scope_map w i = Some s"
    and "scope_map w' = (scope_map w)(i \<mapsto> (f s)\<lparr>scp_updated_at := clock w\<rparr>)"
    and "current_of w i = Some (scp_current_published_publication s)"
    and "current_of w' = (current_of w)(i \<mapsto> scp_current_published_publication (f s))"
    and "status_of w' = status_of w" and "attempt_of w' = attempt_of w"
    and "job_map w' = job_map w" and "publication_map w' = publication_map w"
    and "publications w' = publications w" and "jobs w' = jobs w" and "base_inv w'"
    and "clock w' = clock w" and "next_id w' = next_id w" and "sources w' = sources w"
proof -
  have f': "scp_id (f p) = scp_id p" for p
    using f by (simp add: frozen_scope_def)
  obtain s where s: "scope_map w i = Some s"
    and pm: "scope_map w' = (scope_map w)(i \<mapsto> (f s)\<lparr>scp_updated_at := clock w\<rparr>)"
      "publication_map w' = publication_map w" "job_map w' = job_map w"
      "w' = w\<lparr>scope_states := row_put scp_id ((f s)\<lparr>scp_updated_at := clock w\<rparr>) (scope_states w)\<rparr>"
    using update_scope_Inr [OF u f'] by metis
  show ?thesis
    by (rule that [OF s pm(1)])
       (use s pm base_update_scope [OF u f b] in
         \<open>simp_all add: status_of_def current_of_def attempt_of_def project_upd\<close>)
qed

text \<open>Updates that keep the abstract state.\<close>

lemma inv_neutral_publication:
  assumes "update_publication i f w = Inr w'" and "frozen_publication f" and "\<And>p. pub_status (f p) = pub_status p"
    and "lifecycle_inv w"
  shows "lifecycle_inv w'"
  using assms by (auto simp: lifecycle_inv_def fun_upd_idem elim!: inv_update_publication)

lemma inv_neutral_job:
  assumes "update_job i f w = Inr w'" and "frozen_job f"
    and "\<And>j. job_status (f j) = job_status j" "\<And>j. job_build_publication (f j) = job_build_publication j"
    and "lifecycle_inv w"
  shows "lifecycle_inv w'"
  using assms by (auto simp: lifecycle_inv_def fun_upd_idem elim!: inv_update_job)

lemma inv_neutral_scope:
  assumes "update_scope i f w = Inr w'" and "frozen_scope f"
    and "\<And>s. scp_current_published_publication (f s) = scp_current_published_publication s"
    and "lifecycle_inv w"
  shows "lifecycle_inv w'"
  using assms by (auto simp: lifecycle_inv_def fun_upd_idem elim!: inv_update_scope)

end
