(* ===== verification/Lifecycle_Evolution.thy ===== *)
theory Lifecycle_Evolution
  imports Lifecycle_Inv
begin

text \<open>
  What every operation does to the history: publication and job rows are never removed, their
  identity (tenant key, scope, version) is immutable, a publication's status moves along the edges of
  the lifecycle, a job that is neither PENDING nor RUNNING keeps its status, and a new publication's version exceeds every version its scope has ever used.
\<close>

subsection \<open>The status diagram\<close>

inductive status_edge :: "publication_status \<Rightarrow> publication_status \<Rightarrow> bool" where
  claim: "status_edge STAGED BUILDING"
| withdraw: "status_edge STAGED PUB_CANCELLED"
| publish: "status_edge BUILDING PUBLISHED"
| fail: "status_edge BUILDING PUB_FAILED"
| duplicate: "status_edge BUILDING PUB_OBSOLETE"
| cancel: "status_edge BUILDING PUB_CANCELLED"
| approve: "status_edge READY_FOR_REVIEW PUBLISHED"
| reject: "status_edge READY_FOR_REVIEW REJECTED"
| supersede: "status_edge PUBLISHED SUPERSEDED"
| restore: "status_edge SUPERSEDED PUBLISHED"
| retire: "status_edge SUPERSEDED PUB_OBSOLETE"

code_pred status_edge .

abbreviation status_path :: "publication_status \<Rightarrow> publication_status \<Rightarrow> bool" where
  "status_path \<equiv> status_edge\<^sup>*\<^sup>*"

inductive_cases status_edge_from:
  "status_edge PUB_FAILED s" "status_edge PUB_CANCELLED s" "status_edge PUB_OBSOLETE s"
  "status_edge REJECTED s" "status_edge STAGED s" "status_edge BUILDING s"

text \<open>The terminal statuses have no way out.\<close>

lemma terminal_final:
  assumes "status_path s s'" and "terminal_status s"
  shows "s' = s"
  using assms
proof (induction rule: converse_rtranclp_induct)
  case (step s t)
  then show ?case
    by (auto simp: terminal_status_def elim: status_edge_from)
qed simp

text \<open>STAGED is never entered: an attempt that has started cannot be staged again.\<close>

lemma staged_initial: "status_path s s' \<Longrightarrow> s' = STAGED \<Longrightarrow> s = STAGED"
  by (induction rule: rtranclp_induct) (auto elim: status_edge.cases)

subsection \<open>Evolution of the tables\<close>

definition same_publication :: "publication \<Rightarrow> publication \<Rightarrow> bool" where
  "same_publication p p' \<longleftrightarrow> publication_key p' = publication_key p \<and> pub_scope_state p' = pub_scope_state p
     \<and> pub_version_number p' = pub_version_number p \<and> status_path (pub_status p) (pub_status p')"

definition same_job :: "publication_job \<Rightarrow> publication_job \<Rightarrow> bool" where
  "same_job j j' \<longleftrightarrow> job_key j' = job_key j \<and> job_scope_state j' = job_scope_state j
     \<and> (job_active j \<or> job_status j' = job_status j)"

definition evolves :: "world \<Rightarrow> world \<Rightarrow> bool" where
  "evolves w w' \<longleftrightarrow> next_id w \<le> next_id w'
     \<and> (\<forall>i k. owned w i k \<longrightarrow> owned w' i k)
     \<and> (\<forall>i j. job_map w i = Some j \<longrightarrow> (\<exists>j'. job_map w' i = Some j' \<and> same_job j j'))
     \<and> (\<forall>i p. publication_map w i = Some p \<longrightarrow> (\<exists>p'. publication_map w' i = Some p' \<and> same_publication p p'))
     \<and> (\<forall>i p'. publication_map w' i = Some p' \<longrightarrow> publication_map w i = None \<longrightarrow>
          (\<forall>k q. publication_map w k = Some q \<and> pub_scope_state q = pub_scope_state p' \<longrightarrow>
             pub_version_number q < pub_version_number p'))"

lemma same_publication_refl [simp]: "same_publication p p"
  by (simp add: same_publication_def)

lemma same_job_refl [simp]: "same_job j j"
  by (simp add: same_job_def)

lemma same_publication_trans: "same_publication p q \<Longrightarrow> same_publication q r \<Longrightarrow> same_publication p r"
  by (auto simp: same_publication_def)

lemma same_job_trans: "same_job p q \<Longrightarrow> same_job q r \<Longrightarrow> same_job p r"
  by (auto simp: same_job_def job_active_def)

lemma evolvesD:
  assumes "evolves w w'"
  shows "next_id w \<le> next_id w'" "owned w i k \<Longrightarrow> owned w' i k"
    "job_map w i = Some j \<Longrightarrow> \<exists>j'. job_map w' i = Some j' \<and> same_job j j'"
    "publication_map w i = Some p \<Longrightarrow> \<exists>p'. publication_map w' i = Some p' \<and> same_publication p p'"
    "publication_map w' i = Some p' \<Longrightarrow> publication_map w i = None \<Longrightarrow> publication_map w k' = Some q \<Longrightarrow>
       pub_scope_state q = pub_scope_state p' \<Longrightarrow> pub_version_number q < pub_version_number p'"
  using assms unfolding evolves_def by blast+

lemma evolves_refl [simp]: "evolves w w"
  by (auto simp: evolves_def)

lemma evolves_trans:
  assumes e1: "evolves u v" and e2: "evolves v w"
  shows "evolves u w"
  unfolding evolves_def
proof (intro conjI allI impI)
  show "next_id u \<le> next_id w" using evolvesD(1) [OF e1] evolvesD(1) [OF e2] by simp
next
  fix i k assume "owned u i k"
  then show "owned w i k" using evolvesD(2) [OF e1] evolvesD(2) [OF e2] by blast
next
  fix i j assume "job_map u i = Some j"
  then show "\<exists>j'. job_map w i = Some j' \<and> same_job j j'"
    using evolvesD(3) [OF e1] evolvesD(3) [OF e2] same_job_trans by metis
next
  fix i p assume "publication_map u i = Some p"
  then show "\<exists>p'. publication_map w i = Some p' \<and> same_publication p p'"
    using evolvesD(4) [OF e1] evolvesD(4) [OF e2] same_publication_trans by metis
next
  fix i p' k q
  assume p': "publication_map w i = Some p'" and none: "publication_map u i = None"
    and q: "publication_map u k = Some q \<and> pub_scope_state q = pub_scope_state p'"
  then obtain q1 where q1: "publication_map v k = Some q1" "same_publication q q1"
    using evolvesD(4) [OF e1] by blast
  show "pub_version_number q < pub_version_number p'"
  proof (cases "publication_map v i")
    case None
    from evolvesD(5) [OF e2 p' None q1(1)] q1 q show ?thesis by (simp add: same_publication_def)
  next
    case (Some p1)
    then have "same_publication p1 p'" using evolvesD(4) [OF e2 Some] p' by auto
    then have "pub_scope_state q = pub_scope_state p1" "pub_version_number p' = pub_version_number p1"
      using q by (simp_all add: same_publication_def)
    with evolvesD(5) [OF e1 Some none] q show ?thesis by auto
  qed
qed

lemma evolves_core_eq: "core_eq w w' \<Longrightarrow> evolves w w'"
  by (frule core_eq_maps) (auto simp: evolves_def core_eq_def owned_def)

lemma evolves_update_publication:
  assumes u: "update_publication i f w = Inr w'" and f: "frozen_publication f" and b: "base_inv w"
    and e: "\<And>p. publication_map w i = Some p \<Longrightarrow> status_path (pub_status p) (pub_status (f p))"
  shows "evolves w w'"
proof (rule inv_update_publication [OF u f b])
  fix p
  assume p: "publication_map w i = Some p" "publication_map w' = (publication_map w)(i \<mapsto> f p)"
    and same: "scope_map w' = scope_map w" "job_map w' = job_map w" "next_id w' = next_id w"
  have "same_publication p (f p)"
    using f e [OF p(1)] by (simp add: same_publication_def frozen_publication_def)
  then show ?thesis
    using p same by (auto simp: evolves_def owned_def)
qed

lemma evolves_update_job:
  assumes u: "update_job i f w = Inr w'" and f: "frozen_job f" and b: "base_inv w"
    and act: "\<And>j. job_map w i = Some j \<Longrightarrow> job_active j \<or> job_status (f j) = job_status j"
  shows "evolves w w'"
proof (rule inv_update_job [OF u f b])
  fix j
  assume "job_map w i = Some j" "job_map w' = (job_map w)(i \<mapsto> f j)"
    "scope_map w' = scope_map w" "publication_map w' = publication_map w" "next_id w' = next_id w"
  then show ?thesis
    using f act by (auto simp: evolves_def owned_def same_job_def frozen_job_def)
qed

lemma evolves_update_scope:
  assumes u: "update_scope i f w = Inr w'" and f: "frozen_scope f" and b: "base_inv w"
  shows "evolves w w'"
proof (rule inv_update_scope [OF u f b])
  fix s
  assume s: "scope_map w i = Some s" "scope_map w' = (scope_map w)(i \<mapsto> (f s)\<lparr>scp_updated_at := clock w\<rparr>)"
    and same: "job_map w' = job_map w" "publication_map w' = publication_map w" "next_id w' = next_id w"
  have "scope_key ((f s)\<lparr>scp_updated_at := clock w\<rparr>) = scope_key s"
    using f by (simp add: frozen_scope_def scope_key_def)
  then show ?thesis
    using s same by (auto simp: evolves_def owned_def)
qed

subsection \<open>Keeping the invariant\<close>

text \<open>\<open>keeps w w'\<close>: the invariant holds again and the history evolved.\<close>

definition keeps :: "world \<Rightarrow> world \<Rightarrow> bool" where
  "keeps w w' \<longleftrightarrow> lifecycle_inv w' \<and> evolves w w'"

lemma keeps_refl: "lifecycle_inv w \<Longrightarrow> keeps w w"
  by (simp add: keeps_def)

lemma keeps_trans: "keeps u v \<Longrightarrow> keeps v w \<Longrightarrow> keeps u w"
  by (auto simp: keeps_def intro: evolves_trans)

lemma keepsD: "keeps w w' \<Longrightarrow> lifecycle_inv w'" "keeps w w' \<Longrightarrow> evolves w w'"
  by (simp_all add: keeps_def)

lemma keeps_core_eq: "core_eq w w' \<Longrightarrow> lifecycle_inv w \<Longrightarrow> keeps w w'"
  by (simp add: keeps_def inv_core_eq evolves_core_eq)

lemma keeps_then_core: "keeps u w \<Longrightarrow> core_eq w w' \<Longrightarrow> keeps u w'"
  using keeps_trans keeps_core_eq keepsD(1) by blast

lemma keeps_update_scope:
  assumes "update_scope i f w = Inr w'" and "lifecycle_inv w" and "frozen_scope f"
    and "\<And>s. scp_current_published_publication (f s) = scp_current_published_publication s"
  shows "keeps w w'"
  using assms inv_neutral_scope evolves_update_scope lifecycle_inv_base by (metis keeps_def)

lemma keeps_update_job:
  assumes "update_job i f w = Inr w'" and "lifecycle_inv w" and "frozen_job f"
    and "\<And>j. job_status (f j) = job_status j" "\<And>j. job_build_publication (f j) = job_build_publication j"
  shows "keeps w w'"
  using assms inv_neutral_job evolves_update_job lifecycle_inv_base by (metis keeps_def)

lemma keeps_update_publication:
  assumes u: "update_publication i f w = Inr w'" and inv: "lifecycle_inv w" and f: "frozen_publication f"
    and s: "\<And>p. pub_status (f p) = pub_status p"
  shows "keeps w w'"
proof -
  have "evolves w w'"
    by (rule evolves_update_publication [OF u f lifecycle_inv_base [OF inv]]) (simp add: s)
  then show ?thesis using inv_neutral_publication [OF u f s inv] by (simp add: keeps_def)
qed

text \<open>
  A calculus for service bodies: \<open>pres w m\<close> says that whatever \<open>m\<close> returns keeps \<open>w\<close>.  The three
  sequencing rules are for a step that returns a value and a state, a state, and a value.
\<close>

definition pres :: "world \<Rightarrow> ('a \<times> world) res \<Rightarrow> bool" where
  "pres w m \<longleftrightarrow> (\<forall>x w'. m = Inr (x, w') \<longrightarrow> keeps w w')"

definition pres_state :: "world \<Rightarrow> world res \<Rightarrow> bool" where
  "pres_state w m \<longleftrightarrow> (\<forall>w'. m = Inr w' \<longrightarrow> keeps w w')"

lemma presD: "pres w m \<Longrightarrow> m = Inr (x, w') \<Longrightarrow> keeps w w'"
  by (auto simp: pres_def)

lemma pres_stateD: "pres_state w m \<Longrightarrow> m = Inr w' \<Longrightarrow> keeps w w'"
  by (auto simp: pres_state_def)

lemma presI: "(\<And>x w'. m = Inr (x, w') \<Longrightarrow> keeps w w') \<Longrightarrow> pres w m"
  by (simp add: pres_def)

lemma pres_stateI: "(\<And>w'. m = Inr w' \<Longrightarrow> keeps w w') \<Longrightarrow> pres_state w m"
  by (simp add: pres_state_def)

lemma pres_Inr: "keeps w w' \<Longrightarrow> pres w (Inr (x, w'))"
  by (simp add: pres_def)

lemma pres_Inl [simp]: "pres w (Inl e)"
  by (simp add: pres_def)

lemma pres_state_Inl [simp]: "pres_state w (Inl e)"
  by (simp add: pres_state_def)

lemma pres_state_Inr: "keeps w w' \<Longrightarrow> pres_state w (Inr w')"
  by (simp add: pres_state_def)

lemma pres_core: "lifecycle_inv w \<Longrightarrow> core_eq w w' \<Longrightarrow> pres w (Inr (x, w'))"
  by (simp add: pres_Inr keeps_core_eq)

lemma pres_bind:
  assumes "pres w m" and "\<And>x w1. m = Inr (x, w1) \<Longrightarrow> lifecycle_inv w1 \<Longrightarrow> pres w1 (f (x, w1))"
  shows "pres w (bind_res m f)"
  using assms by (auto simp: pres_def bind_res_Inr keepsD(1) intro: keeps_trans)

lemma pres_bind_state:
  assumes "pres_state w m" and "\<And>w1. m = Inr w1 \<Longrightarrow> lifecycle_inv w1 \<Longrightarrow> pres w1 (f w1)"
  shows "pres w (bind_res m f)"
  using assms by (auto simp: pres_def pres_state_def bind_res_Inr keepsD(1) intro: keeps_trans)

lemma pres_bind_value:
  assumes "\<And>x. m = Inr x \<Longrightarrow> pres w (f x)"
  shows "pres w (bind_res m f)"
  using assms by (auto simp: pres_def bind_res_Inr)

lemma pres_state_bind_value:
  assumes "\<And>x. m = Inr x \<Longrightarrow> pres_state w (f x)"
  shows "pres_state w (bind_res m f)"
  using assms by (auto simp: pres_state_def bind_res_Inr)

lemma pres_state_bind:
  assumes "pres_state w m" and "\<And>w1. m = Inr w1 \<Longrightarrow> lifecycle_inv w1 \<Longrightarrow> pres_state w1 (f w1)"
  shows "pres_state w (bind_res m f)"
  using assms by (auto simp: pres_state_def bind_res_Inr keepsD(1) intro: keeps_trans)

lemma pres_after_core: "core_eq w w1 \<Longrightarrow> lifecycle_inv w \<Longrightarrow> pres w1 m \<Longrightarrow> pres w m"
  by (auto simp: pres_def intro: keeps_trans [OF keeps_core_eq])

lemma pres_bind_return: "pres w m \<Longrightarrow> pres w (bind_res m (\<lambda>(a, w1). Inr (x, w1)))"
  by (auto simp: pres_def bind_res_Inr)

lemma pres_then_core:
  assumes "pres_state w m"
  shows "(\<And>w1. m = Inr w1 \<Longrightarrow> core_eq w1 (g w1)) \<Longrightarrow> pres w (bind_res m (\<lambda>w1. Inr (x, g w1)))"
  using assms by (auto simp: pres_def pres_state_def bind_res_Inr intro: keeps_then_core)

end
