(* ===== verification/Queue_Inv.thy ===== *)
theory Queue_Inv
  imports Lifecycle_Evolution
begin

text \<open>
  The queueing operations keep the lifecycle invariant and evolve the history: reconciliation of a
  reverted source, enqueueing with coalescing, marking dirty, claiming and heartbeats, and the
  functions run after commit.
\<close>

lemmas frozen_simps = frozen_scope_def frozen_publication_def frozen_job_def scope_key_def
  publication_key_def job_key_def

lemma lifecycle_inv_attempt:
  "lifecycle_inv w \<Longrightarrow> attempt_inv (current_of w) (status_of w) (attempt_of w)"
  by (simp add: lifecycle_inv_def)

lemma attempt_of_job:
  "job_map w i = Some j \<Longrightarrow>
     attempt_of w i = Some (job_status j, job_build_publication j, job_scope_state j)"
  by (simp add: attempt_of_def)

lemma status_of_publication:
  "publication_map w i = Some p \<Longrightarrow> status_of w i = Some (pub_status p, pub_scope_state p)"
  by (simp add: status_of_def)

lemma current_of_scope:
  "scope_map w i = Some s \<Longrightarrow> current_of w i = Some (scp_current_published_publication s)"
  by (simp add: current_of_def)

subsection \<open>Ending an attempt\<close>

text \<open>
  The two saves that end a live attempt, in either order of statements around the frame: the job and
  its publication leave the active statuses together.
\<close>

lemma building_active:
  assumes inv: "lifecycle_inv w" and j: "job_map w i = Some j" "job_build_publication j = Some k"
    and p: "publication_map w k = Some p" "pub_status p = BUILDING"
  shows "job_active j"
proof -
  note A = attempt_invD [OF lifecycle_inv_attempt [OF inv]]
  obtain i' where r: "attempt_of w i' = Some (RUNNING, Some k, pub_scope_state p)"
    using A(5) status_of_publication [OF p(1)] p(2) by (auto simp: building_inv_def)
  have "attempt_of w i = Some (job_status j, Some k, job_scope_state j)"
    using attempt_of_job [OF j(1)] j(2) by simp
  then have "i' = i" using A(3) r unfolding unique_link_inv_def by blast
  then show ?thesis using r attempt_of_job [OF j(1)] by (simp add: job_active_def)
qed

lemma end_attempt:
  assumes inv: "lifecycle_inv w" and j: "job_map w i = Some j" "job_build_publication j = Some k"
    and p: "publication_map w k = Some p" "pub_status p = STAGED \<or> pub_status p = BUILDING"
    and up: "update_publication k f w = Inr w1" and fp: "frozen_publication f"
    and fs: "\<And>p. pub_status (f p) = u" and u: "status_edge (pub_status p) u" "u \<noteq> BUILDING" "u \<noteq> PUBLISHED"
    and mid: "core_eq w1 w2"
    and uj: "update_job i g w2 = Inr w3" and fg: "frozen_job g"
    and gs: "\<And>j. job_status (g j) = st" "st \<noteq> RUNNING"
    and gb: "(\<forall>j. job_build_publication (g j) = job_build_publication j) \<and> st \<noteq> PENDING
             \<or> (\<forall>j. job_build_publication (g j) = None)"
    and act: "pub_status p = BUILDING \<or> job_active j"
  shows "keeps w w3"
proof -
  have b: "base_inv w" by (rule lifecycle_inv_base [OF inv])
  have R: "attempt_of w i = Some (job_status j, Some k, job_scope_state j)"
    using attempt_of_job [OF j(1)] j(2) by simp
  then have sc: "pub_scope_state p = job_scope_state j"
    using link_status attempt_invD(2) inv status_of_publication [OF p(1)] by (fastforce simp: lifecycle_inv_def)
  obtain p' where w1: "status_of w1 = (status_of w)(k \<mapsto> (u, pub_scope_state p))"
    "current_of w1 = current_of w" "attempt_of w1 = attempt_of w" "job_map w1 = job_map w" "base_inv w1"
    by (rule inv_update_publication [OF up fp b]) (use p(1) fs in auto)
  have e1: "evolves w w1"
    by (rule evolves_update_publication [OF up fp b]) (use p(1) fs u(1) in auto)
  have m: "scope_map w2 = scope_map w1" "publication_map w2 = publication_map w1" "job_map w2 = job_map w1"
    using core_eq_maps [OF mid] by auto
  have w2: "status_of w2 = status_of w1" "current_of w2 = current_of w1" "attempt_of w2 = attempt_of w1"
    by (simp_all add: status_of_def current_of_def attempt_of_def m)
  have b2: "base_inv w2" by (rule base_core_eq [OF mid w1(5)])
  obtain j' where w3: "attempt_of w3 = (attempt_of w2)(i \<mapsto> (st, job_build_publication (g j), job_scope_state j))"
    "current_of w3 = current_of w2" "status_of w3 = status_of w2" "base_inv w3"
    by (rule inv_update_job [OF uj fg b2]) (use j(1) w1(4) m gs in auto)
  have "attempt_inv (current_of w) ((status_of w)(k \<mapsto> (u, job_scope_state j)))
      ((attempt_of w)(i \<mapsto> (st, job_build_publication (g j), job_scope_state j)))"
    by (rule attempt_end [OF lifecycle_inv_attempt [OF inv] R])
       (use status_of_publication [OF p(1)] sc p(2) u gs gb j(2) in auto)
  then have "lifecycle_inv w3"
    using w1 w2 w3 sc by (simp add: lifecycle_inv_def)
  moreover have "evolves w w3"
  proof (rule evolves_trans [OF evolves_trans [OF e1 evolves_core_eq [OF mid]] evolves_update_job [OF uj fg b2]])
    fix x assume "job_map w2 i = Some x"
    then show "job_active x \<or> job_status (g x) = job_status x"
      using j(1) w1(4) m act building_active [OF inv j p(1)] by auto
  qed
  ultimately show ?thesis by (simp add: keeps_def)
qed

text \<open>A job without an attempt leaves the queue.\<close>

lemma end_job:
  assumes inv: "lifecycle_inv w" and j: "job_map w i = Some j" "job_build_publication j = None"
    and uj: "update_job i g w = Inr w'" and fg: "frozen_job g"
    and gs: "\<And>j. job_status (g j) \<noteq> RUNNING" "\<And>j. job_build_publication (g j) = job_build_publication j"
    and act: "job_active j"
  shows "keeps w w'"
proof -
  have b: "base_inv w" by (rule lifecycle_inv_base [OF inv])
  obtain j' where w': "attempt_of w' = (attempt_of w)(i \<mapsto> (job_status (g j), None, job_scope_state j))"
    "current_of w' = current_of w" "status_of w' = status_of w" "base_inv w'"
    by (rule inv_update_job [OF uj fg b]) (use j gs in auto)
  have "attempt_inv (current_of w) (status_of w)
      ((attempt_of w)(i \<mapsto> (job_status (g j), None, job_scope_state j)))"
    by (rule attempt_drop_job) (use inv attempt_of_job [OF j(1)] j(2) gs in \<open>auto simp: lifecycle_inv_def\<close>)
  then show ?thesis
    using w' evolves_update_job [OF uj fg b] act j(1) by (simp add: keeps_def lifecycle_inv_def)
qed

text \<open>A publication no job is working on changes status.\<close>

lemma move_publication:
  assumes inv: "lifecycle_inv w" and p: "publication_map w k = Some p"
    and up: "update_publication k f w = Inr w'" and fp: "frozen_publication f"
    and fs: "\<And>p. pub_status (f p) = u" and u: "status_edge (pub_status p) u" "u \<noteq> BUILDING" "u \<noteq> PUBLISHED"
    and pu: "pub_status p \<noteq> BUILDING" "pub_status p \<noteq> PUBLISHED"
    and free: "\<And>i j. job_map w i = Some j \<Longrightarrow> job_status j = PENDING \<Longrightarrow> job_build_publication j \<noteq> Some k"
  shows "keeps w w'"
proof -
  have b: "base_inv w" by (rule lifecycle_inv_base [OF inv])
  obtain p' where w': "status_of w' = (status_of w)(k \<mapsto> (u, pub_scope_state p))"
    "current_of w' = current_of w" "attempt_of w' = attempt_of w" "base_inv w'"
    by (rule inv_update_publication [OF up fp b]) (use p fs in auto)
  have "attempt_inv (current_of w) ((status_of w)(k \<mapsto> (u, pub_scope_state p))) (attempt_of w)"
    by (rule attempt_publication [OF lifecycle_inv_attempt [OF inv] status_of_publication [OF p]])
       (use u pu free in \<open>auto simp: attempt_of_def\<close>)
  moreover have "evolves w w'"
    by (rule evolves_update_publication [OF up fp b]) (use p fs u(1) in auto)
  ultimately show ?thesis using w' by (simp add: keeps_def lifecycle_inv_def)
qed

subsection \<open>Reverted sources\<close>

text \<open>The attempt of a PENDING job is STAGED, that of a RUNNING job BUILDING.\<close>

lemma pending_staged:
  assumes "lifecycle_inv w" and "job_map w i = Some j" and "job_status j = PENDING"
    and "job_build_publication j = Some k"
  obtains p where "publication_map w k = Some p" and "pub_status p = STAGED"
    and "pub_scope_state p = job_scope_state j"
proof -
  have "status_of w k = Some (STAGED, job_scope_state j)"
    using attempt_invD(6) [OF lifecycle_inv_attempt [OF assms(1)]] attempt_of_job [OF assms(2)] assms(3,4)
    by (simp add: pending_inv_def)
  then show ?thesis using that by (auto simp: status_of_def)
qed

lemma running_building:
  assumes "lifecycle_inv w" and "job_map w i = Some j" and "job_status j = RUNNING"
  obtains k p where "job_build_publication j = Some k" and "publication_map w k = Some p"
    and "pub_status p = BUILDING" and "pub_scope_state p = job_scope_state j"
proof -
  obtain k where k: "job_build_publication j = Some k" "status_of w k = Some (BUILDING, job_scope_state j)"
    using attempt_invD(4) [OF lifecycle_inv_attempt [OF assms(1)]] attempt_of_job [OF assms(2)] assms(3)
    unfolding running_inv_def by fastforce
  then show ?thesis using that by (auto simp: status_of_def)
qed

lemma cancel_pending_keeps:
  assumes c: "cancel_pending j w = Inr w'" and inv: "lifecycle_inv w"
    and j: "job_map w (job_id j) = Some j" "job_status j = PENDING"
  shows "keeps w w'"
proof (cases "job_build_publication j")
  case None
  with c have "update_job (job_id j) (\<lambda>j. j\<lparr>job_status := JOB_CANCELLED, job_completed_at := Some (clock w),
       job_error_category := ''source_reverted'',
       job_error_message := ''Source matches the active publication.''\<rparr>) w = Inr w'"
    by (simp add: cancel_pending_def)
  from end_job [OF inv j(1) None this] j(2) show ?thesis by (simp add: frozen_simps job_active_def)
next
  case (Some k)
  then obtain p where p: "publication_map w k = Some p" "pub_status p = STAGED"
    using pending_staged [OF inv j Some] by blast
  from c Some p obtain w1 where
    up: "update_publication k (\<lambda>p. p\<lparr>pub_status := PUB_CANCELLED,
           pub_build_error := ''Source matches the active publication.''\<rparr>) w = Inr w1"
    and uj: "update_job (job_id j) (\<lambda>j. j\<lparr>job_status := JOB_CANCELLED, job_completed_at := Some (clock w),
       job_error_category := ''source_reverted'',
       job_error_message := ''Source matches the active publication.''\<rparr>) w1 = Inr w'"
    by (auto simp: cancel_pending_def res_simps get_is_map)
  from end_attempt [OF inv j(1) Some p(1) _ up _ _ _ _ _ core_eq_refl uj] p(2) j(2) show ?thesis
    by (simp add: frozen_simps status_edge.withdraw job_active_def)
qed

lemma cancel_pending_other_jobs:
  assumes "cancel_pending j w = Inr w'" and "i \<noteq> job_id j"
  shows "job_map w' i = job_map w i"
proof -
  obtain w1 where w1: "job_map w1 = job_map w" and
    uj: "update_job (job_id j) (\<lambda>j. j\<lparr>job_status := JOB_CANCELLED, job_completed_at := Some (clock w),
       job_error_category := ''source_reverted'',
       job_error_message := ''Source matches the active publication.''\<rparr>) w1 = Inr w'"
    using assms(1)
    by (auto simp: cancel_pending_def res_simps split: option.splits if_splits elim!: update_publication_Inr)
  then show ?thesis
    using assms(2) by (auto elim!: update_job_Inr)
qed

lemma cancel_pendings_keep:
  assumes "fold_res cancel_pending js w = Inr w'" and "lifecycle_inv w" and "distinct (map job_id js)"
    and "\<And>j. j \<in> set js \<Longrightarrow> job_map w (job_id j) = Some j \<and> job_status j = PENDING"
  shows "keeps w w'"
  using assms
proof (induction js arbitrary: w)
  case Nil
  then show ?case by (simp add: keeps_refl)
next
  case (Cons j js)
  from Cons.prems(1) obtain w1 where w1: "cancel_pending j w = Inr w1" "fold_res cancel_pending js w1 = Inr w'"
    by (auto simp: res_simps)
  have k: "keeps w w1" using cancel_pending_keeps [OF w1(1)] Cons.prems by simp
  have "keeps w1 w'"
  proof (rule Cons.IH [OF w1(2) keepsD(1) [OF k]])
    show "distinct (map job_id js)" using Cons.prems(3) by simp
    fix j' assume "j' \<in> set js"
    then have "job_id j' \<noteq> job_id j" by (rule distinct_key_Cons [OF Cons.prems(3)])
    then show "job_map w1 (job_id j') = Some j' \<and> job_status j' = PENDING"
      using cancel_pending_other_jobs [OF w1(1)] Cons.prems(4) \<open>j' \<in> set js\<close> by simp
  qed
  with k show ?case by (rule keeps_trans)
qed

lemma cancel_unlinked_keeps:
  assumes c: "cancel_unlinked x w = Inr w'" and inv: "lifecycle_inv w"
    and p: "publication_map w (pub_id x) = Some p" "pub_status p = STAGED"
    and free: "\<And>i j. job_map w i = Some j \<Longrightarrow> job_status j = PENDING \<Longrightarrow> job_build_publication j \<noteq> Some (pub_id x)"
  shows "keeps w w'"
  using move_publication [OF inv p(1) c [unfolded cancel_unlinked_def]] p(2) free
  by (simp add: frozen_simps status_edge.withdraw)

lemma cancel_unlinkeds_keep:
  assumes "fold_res cancel_unlinked ps w = Inr w'" and "lifecycle_inv w" and "distinct (map pub_id ps)"
    and "\<And>p. p \<in> set ps \<Longrightarrow> publication_map w (pub_id p) = Some p \<and> pub_status p = STAGED"
    and "\<And>p i j. p \<in> set ps \<Longrightarrow> job_map w i = Some j \<Longrightarrow> job_status j = PENDING \<Longrightarrow>
           job_build_publication j \<noteq> Some (pub_id p)"
  shows "keeps w w'"
  using assms
proof (induction ps arbitrary: w)
  case Nil
  then show ?case by (simp add: keeps_refl)
next
  case (Cons p ps)
  from Cons.prems(1) obtain w1 where w1: "cancel_unlinked p w = Inr w1" "fold_res cancel_unlinked ps w1 = Inr w'"
    by (auto simp: res_simps)
  have k: "keeps w w1"
    by (rule cancel_unlinked_keeps [OF w1(1) Cons.prems(2), of p]) (use Cons.prems(4,5) in auto)
  have m: "job_map w1 = job_map w" "\<And>i. i \<noteq> pub_id p \<Longrightarrow> publication_map w1 i = publication_map w i"
    using w1(1) by (auto simp: cancel_unlinked_def elim!: update_publication_Inr)
  have "keeps w1 w'"
  proof (rule Cons.IH [OF w1(2) keepsD(1) [OF k]])
    show "distinct (map pub_id ps)" using Cons.prems(3) by simp
    fix p' assume p': "p' \<in> set ps"
    then have "pub_id p' \<noteq> pub_id p" by (rule distinct_key_Cons [OF Cons.prems(3)])
    then show "publication_map w1 (pub_id p') = Some p' \<and> pub_status p' = STAGED"
      using m(2) Cons.prems(4) p' by simp
    show "job_build_publication j \<noteq> Some (pub_id p')" if "job_map w1 i = Some j" "job_status j = PENDING" for i j
      using Cons.prems(5) [of p' i j] p' that m(1) by simp
  qed
  with k show ?case by (rule keeps_trans)
qed

lemma cancel_redundant_pending_keeps:
  assumes c: "cancel_redundant_pending s w = Inr w'" and inv: "lifecycle_inv w"
  shows "keeps w w'"
proof -
  let ?js = "filter (\<lambda>j. job_scope_state j = s \<and> job_status j = PENDING \<and> \<not> job_allow_clean_rebuild j) (jobs w)"
  from c obtain w1 where w1: "fold_res cancel_pending ?js w = Inr w1"
    and w2: "fold_res cancel_unlinked
       (filter (\<lambda>p. pub_scope_state p = s \<and> pub_status p = STAGED
          \<and> \<not> exists_row (\<lambda>j. job_build_publication j = Some (pub_id p) \<and> job_active j) (jobs w1))
        (publications w1)) w1 = Inr w'"
    by (auto simp: cancel_redundant_pending_def res_simps)
  note b = lifecycle_inv_base [OF inv]
  have k1: "keeps w w1"
    by (rule cancel_pendings_keep [OF w1 inv])
       (use base_unique(3) [OF b] base_maps(3) [OF b] in \<open>auto simp: distinct_map_filter\<close>)
  note b1 = lifecycle_inv_base [OF keepsD(1) [OF k1]]
  have "keeps w1 w'"
    by (rule cancel_unlinkeds_keep [OF w2 keepsD(1) [OF k1]])
       (use base_unique(2) [OF b1] base_maps(2) [OF b1] in
         \<open>auto simp: distinct_map_filter job_active_def dest: map_mem(3)\<close>)
  with k1 show ?thesis by (rule keeps_trans)
qed

lemma reconcile_keeps:
  assumes "reconcile_clean_source E s fp w = Inr ((b, s'), w')" and inv: "lifecycle_inv w"
  shows "keeps w w' \<and> scp_id s' = scp_id s"
proof (cases "scope_is_dirty E w s (Some fp)")
  case True
  with assms show ?thesis by (simp add: reconcile_clean_source_def keeps_refl)
next
  case False
  let ?f = "\<lambda>r. r\<lparr>scp_current_source_fingerprint := stored_source_fingerprint E w s fp, scp_dirty_since := None\<rparr>"
  let ?c = "scp_current_source_fingerprint s \<noteq> stored_source_fingerprint E w s fp \<or> scp_dirty_since s \<noteq> None"
  obtain s1 w1 where m: "(if ?c then bind_res (update_scope (scp_id s) ?f w) (\<lambda>w1. Inr (?f s, w1)) else Inr (s, w))
      = Inr (s1, w1)"
    and c: "cancel_redundant_pending (scp_id s) w1 = Inr w'" and s1: "s' = s1"
    using assms(1) False unfolding reconcile_clean_source_def Let_def bind_res_Inr by (auto simp: bind_res_Inr)
  have "keeps w w1 \<and> scp_id s1 = scp_id s"
  proof (cases ?c)
    case True
    with m have u: "update_scope (scp_id s) ?f w = Inr w1" and "s1 = ?f s"
      by (simp_all add: bind_res_Inr)
    from keeps_update_scope [OF u inv] \<open>s1 = ?f s\<close> show ?thesis by (simp add: frozen_simps)
  next
    case False
    with m inv show ?thesis by (auto simp: keeps_refl)
  qed
  with keeps_trans cancel_redundant_pending_keeps [OF c] keepsD(1) s1 show ?thesis by blast
qed

lemma save_source_keeps:
  assumes u: "update_scope i f w = Inr w'" and inv: "lifecycle_inv w" and f: "frozen_scope f"
    and c: "\<And>s. scp_current_published_publication (f s) = scp_current_published_publication s"
  shows "keeps w w' \<and> jobs w' = jobs w \<and> publications w' = publications w \<and> clock w' = clock w"
proof (rule inv_update_scope [OF u f lifecycle_inv_base [OF inv]])
  assume "publications w' = publications w" "jobs w' = jobs w" "clock w' = clock w"
  then show ?thesis using keeps_update_scope [OF u inv f c] by simp
qed

lemma current_source_state_keeps:
  assumes "current_source_state E s w = Inr ((snap, fp, s'), w')" and inv: "lifecycle_inv w"
  shows "(keeps w w' \<and> jobs w' = jobs w \<and> publications w' = publications w \<and> clock w' = clock w)
    \<and> scp_id s' = scp_id s \<and> scp_current_published_publication s' = scp_current_published_publication s"
proof -
  from assms(1) obtain r where
    "s' = s \<and> w' = w \<or> s' = s\<lparr>scp_source_revision := r\<rparr>
      \<and> update_scope (scp_id s) (\<lambda>s. s\<lparr>scp_source_revision := r\<rparr>) w = Inr w'"
    by (auto simp: current_source_state_def res_simps split: if_splits)
  then show ?thesis
  proof
    assume u: "s' = s\<lparr>scp_source_revision := r\<rparr>
      \<and> update_scope (scp_id s) (\<lambda>s. s\<lparr>scp_source_revision := r\<rparr>) w = Inr w'"
    then have "keeps w w' \<and> jobs w' = jobs w \<and> publications w' = publications w \<and> clock w' = clock w"
      by (intro save_source_keeps [of "scp_id s" "\<lambda>s. s\<lparr>scp_source_revision := r\<rparr>"] inv)
         (simp_all add: frozen_simps)
    with u show ?thesis by simp
  qed (simp add: keeps_refl inv)
qed

subsection \<open>Enqueueing\<close>

lemma fold_max_le: "(x::nat) \<le> fold max xs x"
  by (induction xs arbitrary: x) (auto intro: order_trans [OF max.cobounded2])

lemma fold_max_upper: "y \<in> set xs \<Longrightarrow> (y::nat) \<le> fold max xs x"
proof (induction xs arbitrary: x)
  case (Cons z zs)
  then show ?case using fold_max_le [of "max z x" zs] by auto
qed simp

lemma max_version_upper:
  "p \<in> set (publications w) \<Longrightarrow> pub_scope_state p = sc \<Longrightarrow> pub_version_number p \<le> max_version sc w"
  unfolding max_version_def by (rule fold_max_upper) auto

text \<open>An allocated attempt is a new STAGED row with the next version of its scope.\<close>

lemma allocate_Inr:
  assumes a: "allocate_staged_publication s j fp snap w = Inr (p, w')" and b: "base_inv w"
    and own: "owned w (scp_id s) (job_key j)"
  shows "base_inv w' \<and> evolves w w' \<and> publication_map w (pub_id p) = None
    \<and> publication_map w' = (publication_map w)(pub_id p \<mapsto> p)
    \<and> scope_map w' = scope_map w \<and> job_map w' = job_map w \<and> clock w' = clock w
    \<and> pub_status p = STAGED \<and> pub_scope_state p = scp_id s
    \<and> pub_version_number p = max_version (scp_id s) w + 1"
proof -
  obtain w1 where w1: "w1 = w\<lparr>next_id := Suc (next_id w)\<rparr>" by blast
  from a have c: "create_publication p w1 = Inr w'"
    and p: "pub_id p = next_id w" "pub_status p = STAGED" "pub_scope_state p = scp_id s"
      "publication_key p = job_key j" "pub_version_number p = max_version (scp_id s) w + 1"
    by (auto simp: allocate_staged_publication_def res_simps fresh_id_def Let_def w1 publication_key_def job_key_def)
  have core: "core_eq w w1" by (simp add: core_eq_def w1)
  note m = core_eq_maps [OF core]
  have new: "pub_id p \<notin> pub_id ` set (publications w1)" "pub_id p < next_id w1"
    using base_fresh(2) [OF b] by (simp_all add: w1 p)
  have own1: "owned w1 (pub_scope_state p) (publication_key p)"
    using own m by (simp add: owned_def p)
  have w': "base_inv w'" "publication_map w' = (publication_map w)(pub_id p \<mapsto> p)" "scope_map w' = scope_map w"
    "job_map w' = job_map w"
    using base_create_publication [OF c base_core_eq [OF core b] new own1] m by simp_all
  have none: "publication_map w (pub_id p) = None"
    using base_fresh(2) [OF b] p(1) by (simp add: publication_map_def get_publication_def row_get_None)
  have "clock w' = clock w" "next_id w \<le> next_id w'"
    using c by (auto simp: publication_table.create_result w1)
  moreover have "pub_version_number q < pub_version_number p"
    if "publication_map w k = Some q" "pub_scope_state q = pub_scope_state p" for k q
    using max_version_upper [OF map_mem(2) [OF that(1)]] that(2) p by auto
  ultimately show ?thesis
    using w' none p by (auto simp: evolves_def owned_def)
qed

lemma new_job_simps [simp]:
  "job_id (new_job i key s r t d a n) = i" "job_key (new_job i key s r t d a n) = key"
  "job_scope_state (new_job i key s r t d a n) = scp_id s" "job_status (new_job i key s r t d a n) = PENDING"
  "job_build_publication (new_job i key s r t d a n) = None"
  by (simp_all add: new_job_def job_key_def split: prod.splits)

lemma evolves_create_job:
  assumes "create_job j w = Inr w'" and "base_inv w" and "job_id j \<notin> job_id ` set (jobs w)"
    and "job_id j < next_id w" and "owned w (job_scope_state j) (job_key j)"
  shows "evolves w w'"
proof -
  have none: "job_map w (job_id j) = None"
    using assms(3) by (simp add: job_map_def get_job_def row_get_None)
  have "next_id w' = next_id w" using assms(1) by (auto simp: job_table.create_result)
  with base_create_job [OF assms] none show ?thesis by (auto simp: evolves_def owned_def)
qed

lemma create_attempt_keeps:
  assumes c: "create_attempt key s rb tr db al snap fp w0 w = Inr (r, w')" and inv: "lifecycle_inv w"
    and own: "owned w (scp_id s) key" and k0: "lifecycle_inv w0"
  shows "(r = None \<and> w' = w0) \<or> keeps w w'"
proof -
  define i where "i = next_id w"
  define w1 where "w1 = w\<lparr>next_id := Suc (next_id w)\<rparr>"
  define j where "j = new_job i key s rb tr db al (clock w)"
  have core: "core_eq w w1" by (simp add: core_eq_def w1_def)
  note m1 = core_eq_maps [OF core]
  note b = lifecycle_inv_base [OF inv]
  have b1: "base_inv w1" by (rule base_core_eq [OF core b])
  have new: "job_id j \<notin> job_id ` set (jobs w1)" "job_id j < next_id w1"
    using base_fresh(3) [OF b] by (simp_all add: j_def i_def w1_def)
  have own1: "owned w1 (job_scope_state j) (job_key j)"
    using own m1 by (simp add: owned_def j_def)
  show ?thesis
  proof (cases "create_job j w1")
    case (Inl e)
    with c show ?thesis
      by (auto simp: create_attempt_def fresh_id_def Let_def res_simps i_def w1_def j_def)
  next
    case (Inr w2)
    with c obtain p w3 w4 where al: "allocate_staged_publication s j fp snap w2 = Inr (p, w3)"
      and uj: "update_job i (\<lambda>j. j\<lparr>job_build_publication := Some (pub_id p)\<rparr>) w3 = Inr w4"
      and w': "core_eq w4 w'"
      by (auto simp: create_attempt_def fresh_id_def Let_def res_simps i_def w1_def j_def)
    have w2: "base_inv w2" "job_map w2 = (job_map w)(i \<mapsto> j)" "scope_map w2 = scope_map w"
      "publication_map w2 = publication_map w"
      using base_create_job [OF Inr b1 new own1] m1 by (simp_all add: j_def)
    have own2: "owned w2 (scp_id s) (job_key j)" using own w2 by (simp add: owned_def j_def)
    note w3 = allocate_Inr [OF al w2(1) own2]
    have fg: "frozen_job (\<lambda>j. j\<lparr>job_build_publication := Some (pub_id p)\<rparr>)" by (simp add: frozen_simps)
    obtain j' where w4: "attempt_of w4 = (attempt_of w3)(i \<mapsto> (PENDING, Some (pub_id p), scp_id s))"
      "current_of w4 = current_of w3" "status_of w4 = status_of w3" "base_inv w4"
      by (rule inv_update_job [OF uj fg]) (use w3 w2 in \<open>auto simp: j_def\<close>)
    have none: "attempt_of w i = None" "status_of w (pub_id p) = None"
      using base_fresh(3) [OF b] w3 w2
      by (simp_all add: attempt_of_def status_of_def job_map_def get_job_def row_get_None i_def)
    have R3: "attempt_of w3 = (attempt_of w)(i \<mapsto> (PENDING, None, scp_id s))"
      "status_of w3 = (status_of w)(pub_id p \<mapsto> (STAGED, scp_id s))" "current_of w3 = current_of w"
      using w3 w2 by (simp_all add: attempt_of_def status_of_def current_of_def project_upd j_def)
    have A: "attempt_inv (current_of w) ((status_of w)(pub_id p \<mapsto> (STAGED, scp_id s)))
        ((attempt_of w)(i \<mapsto> (PENDING, None, scp_id s)))"
      by (intro attempt_allocate attempt_new_job lifecycle_inv_attempt [OF inv] none)
    have "attempt_inv (current_of w) ((status_of w)(pub_id p \<mapsto> (STAGED, scp_id s)))
        ((attempt_of w)(i \<mapsto> (PENDING, None, scp_id s), i \<mapsto> (PENDING, Some (pub_id p), scp_id s)))"
      by (rule attempt_attach [OF A, where b = None])
         (use unlinked [OF attempt_invD(2) [OF lifecycle_inv_attempt [OF inv]] none(2)] in
           \<open>auto split: if_splits\<close>)
    then have "lifecycle_inv w4" using w4 R3 by (simp add: lifecycle_inv_def)
    moreover have "evolves w w4"
    proof (rule evolves_trans)
      show "evolves w w2"
        by (rule evolves_trans [OF evolves_core_eq [OF core] evolves_create_job [OF Inr b1 new own1]])
      show "evolves w2 w4"
        by (rule evolves_trans [OF w3 [THEN conjunct2, THEN conjunct1]
              evolves_update_job [OF uj fg w3 [THEN conjunct1]]]) simp
    qed
    ultimately have "keeps w w4" by (simp add: keeps_def)
    then show ?thesis using keeps_then_core [OF _ w'] by blast
  qed
qed

lemma coalesce_pending_keeps:
  assumes c: "coalesce_pending j s rb tr al snap fp w = Inr w'" and inv: "lifecycle_inv w"
  shows "keeps w w'"
proof -
  from c obtain w1 f where uj: "update_job (job_id j) f w = Inr w1"
    and f: "frozen_job f" "\<And>j. job_status (f j) = job_status j"
      "\<And>j. job_build_publication (f j) = job_build_publication j"
    and rest: "w' = w1 \<or> (\<exists>i g. update_publication i g w1 = Inr w' \<and> frozen_publication g
        \<and> (\<forall>p. pub_status (g p) = pub_status p))"
    unfolding coalesce_pending_def Let_def bind_res_Inr
    by (fastforce simp: frozen_simps split: option.splits if_splits)
  have k: "keeps w w1" by (rule keeps_update_job [OF uj inv f])
  from rest have "keeps w1 w'"
    using keeps_update_publication keepsD(1) [OF k] keeps_refl by blast
  with k show ?thesis by (rule keeps_trans)
qed

lemma locked_scope_owned:
  assumes "locked_scope d st c w = Inr s" and "base_inv w" and "scope_filter d st c = Inr key"
  shows "owned w (scp_id s) key \<and> scope_map w (scp_id s) = Some s \<and> scope_key s = key"
  using locked_scope_Inr [OF assms(1,2)] assms(3)
  by (auto simp: owned_def scope_filter_def res_simps scope_key_def)

text \<open>The source part of \<open>enqueue_publication_job\<close>.\<close>

lemma enqueue_source_keeps:
  assumes "enqueue_source E scope0 supplied w = Inr ((snap, fp, s), w2)"
    and inv: "lifecycle_inv w"
  shows "(keeps w w2 \<and> jobs w2 = jobs w \<and> publications w2 = publications w \<and> clock w2 = clock w)
    \<and> scp_id s = scp_id scope0"
proof (cases supplied)
  case None
  with assms(1) obtain s1 w1 where cs: "current_source_state E scope0 w = Inr ((snap, fp, s1), w1)"
    and m: "(let stored = stored_source_fingerprint E w1 s1 fp in
              if scp_current_source_fingerprint s1 \<noteq> stored then
                bind_res (update_scope (scp_id s1) (\<lambda>s. s\<lparr>scp_current_source_fingerprint := stored\<rparr>) w1)
                  (\<lambda>w2. Inr ((snap, fp, s1\<lparr>scp_current_source_fingerprint := stored\<rparr>), w2))
              else Inr ((snap, fp, s1), w1)) = Inr ((snap, fp, s), w2)"
    by (auto simp: enqueue_source_def bind_res_Inr Let_def split: if_splits)
  note k1 = current_source_state_keeps [OF cs inv]
  then have inv1: "lifecycle_inv w1" using keepsD by blast
  have "(keeps w1 w2 \<and> jobs w2 = jobs w1 \<and> publications w2 = publications w1 \<and> clock w2 = clock w1)
      \<and> scp_id s = scp_id s1"
  proof (cases "scp_current_source_fingerprint s1 = stored_source_fingerprint E w1 s1 fp")
    case True
    with m inv1 show ?thesis by (simp add: keeps_refl)
  next
    case False
    with m have u: "update_scope (scp_id s1) (\<lambda>s. s\<lparr>scp_current_source_fingerprint :=
        stored_source_fingerprint E w1 s1 fp\<rparr>) w1 = Inr w2" and "scp_id s = scp_id s1"
      by (auto simp: bind_res_Inr Let_def)
    from save_source_keeps [OF u inv1] this(2) show ?thesis by (simp add: frozen_simps)
  qed
  with k1 show ?thesis by (auto intro: keeps_trans)
next
  case (Some a)
  with assms show ?thesis by (auto simp: enqueue_source_def keeps_refl split: prod.splits)
qed

text \<open>The ways through \<open>enqueue_publication_job\<close>, for every proof about it.\<close>

lemma enqueue_cases [consumes 1, case_names clean running coalesced created]:
  assumes e: "enqueue_publication_job E d st c rb tr db al given w = Inr (r, w')"
  obtains
    (clean) s0 snap fp s w2 b s' where "locked_scope d st c w = Inr s0"
      and "enqueue_source E s0 given w = Inr ((snap, fp, s), w2)" and "\<not> al"
      and "\<not> scope_is_dirty E w2 s (Some fp)" and "reconcile_clean_source E s fp w2 = Inr ((b, s'), w')"
  | (running) s0 snap fp s w2 key a where "locked_scope d st c w = Inr s0"
      and "enqueue_source E s0 given w = Inr ((snap, fp, s), w2)" and "scope_filter d st c = Inr key"
      and "first_by job_id (\<lambda>j. job_key j = key \<and> job_active j) (jobs w2) = Some a"
      and "job_status a = RUNNING" and "w' = w2" and "r = None"
  | (coalesced) s0 snap fp s w2 key a where "locked_scope d st c w = Inr s0"
      and "enqueue_source E s0 given w = Inr ((snap, fp, s), w2)" and "scope_filter d st c = Inr key"
      and "first_by job_id (\<lambda>j. job_key j = key \<and> job_active j) (jobs w2) = Some a"
      and "coalesce_pending a s rb tr al snap fp w2 = Inr w'" and "r = Some (job_id a)"
  | (created) s0 snap fp s w2 key where "locked_scope d st c w = Inr s0"
      and "enqueue_source E s0 given w = Inr ((snap, fp, s), w2)" and "scope_filter d st c = Inr key"
      and "first_by job_id (\<lambda>j. job_key j = key \<and> job_active j) (jobs w2) = None"
      and "create_attempt key s rb tr db al snap fp w w2 = Inr (r, w')"
  using e unfolding enqueue_publication_job_def
proof (elim bind_resE, goal_cases)
  case (1 u s0 x)
  obtain snap fp s w2 where x: "x = ((snap, fp, s), w2)" by (metis surj_pair)
  note l = 1(6) and src = 1(7) [unfolded x]
  show ?case
  proof (cases "\<not> al \<and> \<not> scope_is_dirty E w2 s (Some fp)")
    case True
    then obtain b s' where "reconcile_clean_source E s fp w2 = Inr ((b, s'), w')"
      using 1(8) by (auto simp: x bind_res_Inr)
    with True show ?thesis by (intro 1(1) [OF l src]) auto
  next
    case False
    then obtain key where key: "scope_filter d st c = Inr key"
      and act: "(case first_by job_id (\<lambda>j. job_key j = key \<and> job_active j) (jobs w2) of
         Some active \<Rightarrow>
           if job_status active = RUNNING then Inr (None, w2)
           else bind_res (coalesce_pending active s rb tr al snap fp w2)
                  (\<lambda>w3. Inr (Some (job_id active), w3))
       | None \<Rightarrow> create_attempt key s rb tr db al snap fp w w2) = Inr (r, w')"
      using 1(8) by (auto simp: x bind_res_Inr)
    show ?thesis
    proof (cases "first_by job_id (\<lambda>j. job_key j = key \<and> job_active j) (jobs w2)")
      case None
      with act show ?thesis by (intro 1(4) [OF l src key]) simp_all
    next
      case (Some a)
      with act show ?thesis
        by (cases "job_status a = RUNNING")
           (auto simp: bind_res_Inr intro: 1(2) [OF l src key] 1(3) [OF l src key])
    qed
  qed
qed

lemma enqueue_keeps:
  assumes e: "enqueue_publication_job E d st c rb tr db al given w = Inr (r, w')" and inv: "lifecycle_inv w"
  shows "keeps w w'"
  using e
proof (cases rule: enqueue_cases)
  case clean
  then show ?thesis
    using enqueue_source_keeps [OF clean(2) inv] reconcile_keeps [OF clean(5)] keepsD(1) keeps_trans by blast
next
  case running
  then show ?thesis using enqueue_source_keeps [OF running(2) inv] by simp
next
  case coalesced
  then show ?thesis
    using enqueue_source_keeps [OF coalesced(2) inv] coalesce_pending_keeps [OF coalesced(5)] keepsD(1) keeps_trans
    by blast
next
  case (created s0 snap fp s w2 key)
  note k2 = enqueue_source_keeps [OF created(2) inv]
  have "owned w2 (scp_id s) key"
    using locked_scope_owned [OF created(1) lifecycle_inv_base [OF inv] created(3)] k2
      evolvesD(2) [OF keepsD(2)] by metis
  then show ?thesis
    using create_attempt_keeps [OF created(5) keepsD(1) _ inv, of w] k2 keeps_trans keeps_refl [OF inv] by blast
qed

subsection \<open>Scopes and dirty marks\<close>

lemma create_new_scope_keeps:
  assumes c: "create_scope s (w\<lparr>next_id := Suc (next_id w)\<rparr>) = Inr w'" and inv: "lifecycle_inv w"
    and s: "scp_id s = next_id w" "scope_key s = key" "scp_current_published_publication s = None"
      "registered_scope_type (scp_dataset_type_code s) = Inr (scp_scope_type s)"
  shows "keeps w w' \<and> owned w' (next_id w) key"
proof -
  let ?w1 = "w\<lparr>next_id := Suc (next_id w)\<rparr>"
  have core: "core_eq w ?w1" by (simp add: core_eq_def)
  note m1 = core_eq_maps [OF core]
  note b = lifecycle_inv_base [OF inv]
  have w': "base_inv w'" "scope_map w' = (scope_map w)(next_id w \<mapsto> s)" "job_map w' = job_map w"
    "publication_map w' = publication_map w"
    using base_create_scope [OF c base_core_eq [OF core b]] base_fresh(1) [OF b] s m1 by simp_all
  have none: "scope_map w (next_id w) = None"
    using base_fresh(1) [OF b] by (simp add: scope_map_def get_scope_def row_get_None)
  have "current_of w' = (current_of w)(next_id w \<mapsto> None)" "status_of w' = status_of w" "attempt_of w' = attempt_of w"
    using w' s by (simp_all add: current_of_def status_of_def attempt_of_def project_upd)
  moreover have "attempt_inv ((current_of w)(next_id w \<mapsto> None)) (status_of w) (attempt_of w)"
    by (rule attempt_new_scope [OF lifecycle_inv_attempt [OF inv]]) (simp add: current_of_def none)
  ultimately have "lifecycle_inv w'" using w'(1) by (simp add: lifecycle_inv_def)
  moreover have "next_id w \<le> next_id w'" using c by (auto simp: scope_table.create_result)
  then have "evolves w w'" using w' none by (auto simp: evolves_def owned_def)
  ultimately show ?thesis using w'(2) s by (auto simp: keeps_def owned_def)
qed

lemma create_scope_keeps:
  assumes "create_scope (new_scope (next_id w) key now) (w\<lparr>next_id := Suc (next_id w)\<rparr>) = Inr w'"
    and "lifecycle_inv w" and "scope_filter d st code = Inr key"
  shows "keeps w w' \<and> owned w' (next_id w) key"
  by (rule create_new_scope_keeps [OF assms(1,2)])
     (use assms(3) in \<open>auto simp: new_scope_def scope_key_def scope_filter_def res_simps\<close>)

lemma find_scope_owned:
  "find_scope key w = Some s \<Longrightarrow> base_inv w \<Longrightarrow> owned w (scp_id s) key"
  by (auto simp: owned_def base_maps(1) dest!: find_scope_Some)

lemma find_or_create_scope_keeps:
  assumes f: "find_or_create_scope d st c w = Inr (s, w')" and inv: "lifecycle_inv w"
  shows "keeps w w'"
proof -
  from f obtain key where key: "scope_filter d st c = Inr key" by (auto simp: find_or_create_scope_def res_simps)
  show ?thesis
  proof (cases "find_scope key w")
    case (Some s1)
    with f key inv show ?thesis by (auto simp: find_or_create_scope_def keeps_refl)
  next
    case None
    let ?w1 = "w\<lparr>next_id := Suc (next_id w)\<rparr>"
    have core: "core_eq w ?w1" by (simp add: core_eq_def)
    show ?thesis
    proof (cases "create_scope (new_scope (next_id w) key (clock w)) ?w1")
      case (Inl e)
      with f key None have "w' = ?w1"
        by (auto simp: find_or_create_scope_def fresh_id_def res_simps Let_def)
      with keeps_core_eq [OF core inv] show ?thesis by simp
    next
      case (Inr w2)
      with f key None have "w' = w2" by (auto simp: find_or_create_scope_def fresh_id_def res_simps Let_def)
      with create_scope_keeps [OF Inr inv key] show ?thesis by simp
    qed
  qed
qed

lemma scope_or_new_keeps:
  assumes f: "scope_or_new d st c w = Inr (s, w')" and inv: "lifecycle_inv w"
  shows "keeps w w'"
proof -
  from f obtain key where key: "scope_filter d st c = Inr key" by (auto simp: scope_or_new_def res_simps)
  show ?thesis
  proof (cases "find_scope key w")
    case (Some s1)
    with f key inv show ?thesis by (auto simp: scope_or_new_def keeps_refl)
  next
    case None
    with f key have "create_scope (new_scope (next_id w) key (clock w)) (w\<lparr>next_id := Suc (next_id w)\<rparr>) = Inr w'"
      by (auto simp: scope_or_new_def fresh_id_def res_simps Let_def)
    from create_scope_keeps [OF this inv key] show ?thesis by simp
  qed
qed

lemma pres_enqueue: "lifecycle_inv w \<Longrightarrow> pres w (enqueue_publication_job E d st c rb tr db al given w)"
  by (auto intro: presI enqueue_keeps)

lemma pres_reconcile: "lifecycle_inv w \<Longrightarrow> pres w (reconcile_clean_source E s fp w)"
  by (rule presI) (metis prod.exhaust reconcile_keeps)

lemma pres_current_source_state: "lifecycle_inv w \<Longrightarrow> pres w (current_source_state E s w)"
  by (rule presI) (metis prod.exhaust current_source_state_keeps)

lemma pres_find_or_create_scope: "lifecycle_inv w \<Longrightarrow> pres w (find_or_create_scope d st c w)"
  by (auto intro: presI find_or_create_scope_keeps)

lemma pres_state_update_scope:
  "lifecycle_inv w \<Longrightarrow> frozen_scope f \<Longrightarrow>
     (\<And>s. scp_current_published_publication (f s) = scp_current_published_publication s) \<Longrightarrow>
     pres_state w (update_scope i f w)"
  by (auto intro: pres_stateI keeps_update_scope)

lemma pres_state_update_job:
  "lifecycle_inv w \<Longrightarrow> frozen_job f \<Longrightarrow> (\<And>j. job_status (f j) = job_status j) \<Longrightarrow>
     (\<And>j. job_build_publication (f j) = job_build_publication j) \<Longrightarrow> pres_state w (update_job i f w)"
  by (auto intro: pres_stateI keeps_update_job)

lemma mark_dirty_pres:
  assumes inv: "lifecycle_inv w"
  shows "pres w (mark_dirty E d st c actor w)"
  unfolding mark_dirty_def Let_def
proof (rule pres_bind_value, rule pres_bind_value, rule pres_bind, goal_cases)
  case 1
  show ?case by (rule pres_find_or_create_scope [OF inv])
next
  case (2 _ _ s0 w1)
  show ?case unfolding prod.case
  proof (rule pres_bind [OF pres_current_source_state [OF 2(4)]], unfold split_paired_all prod.case,
      rule pres_bind_value, rule pres_bind, goal_cases)
    case (1 snap fp s2 w2 revision)
    then show ?case by (auto intro!: pres_bind [OF pres_reconcile] pres_Inr keeps_refl)
  next
    case (2 snap fp s2 w2 revision s5 w3)
    then show ?case unfolding prod.case
      by (intro pres_bind_state [OF pres_state_update_scope])
         (auto simp: frozen_simps inv_core_eq [OF core_eq_record_event] intro!: pres_Inr keeps_core_eq
           pres_bind_return pres_after_core [OF core_eq_record_event _ pres_enqueue])
  qed
qed

subsection \<open>Claiming\<close>

text \<open>The link of a job is its own: no other job refers to the same attempt.\<close>

lemma only_link:
  assumes "lifecycle_inv w" and "job_map w i = Some j" and "job_build_publication j = Some k"
    and "attempt_of w i' = Some (st, Some k, sc)"
  shows "i' = i"
  using unique_link [OF attempt_invD(3) [OF lifecycle_inv_attempt [OF assms(1)]] assms(4)]
    attempt_of_job [OF assms(2)] assms(3) by simp

lemma begin_attempt:
  assumes inv: "lifecycle_inv w" and j: "job_map w i = Some j" "job_build_publication j = Some k"
    "job_status j = PENDING"
    and up: "update_publication k f w = Inr w1" and fp: "frozen_publication f"
    and fs: "\<And>p. pub_status (f p) = BUILDING"
    and mid: "core_eq w1 w2"
    and uj: "update_job i g w2 = Inr w3" and fg: "frozen_job g"
    and gs: "\<And>j. job_status (g j) = RUNNING" "\<And>j. job_build_publication (g j) = Some k"
  shows "keeps w w3"
proof -
  have b: "base_inv w" by (rule lifecycle_inv_base [OF inv])
  obtain p where p: "publication_map w k = Some p" "pub_status p = STAGED" "pub_scope_state p = job_scope_state j"
    using pending_staged [OF inv j(1,3,2)] by blast
  have R: "attempt_of w i = Some (PENDING, Some k, job_scope_state j)"
    using attempt_of_job [OF j(1)] j by simp
  obtain p' where w1: "status_of w1 = (status_of w)(k \<mapsto> (BUILDING, job_scope_state j))"
    "current_of w1 = current_of w" "attempt_of w1 = attempt_of w" "job_map w1 = job_map w" "base_inv w1"
    by (rule inv_update_publication [OF up fp b]) (use p fs in auto)
  have e1: "evolves w w1"
    by (rule evolves_update_publication [OF up fp b]) (use p fs in \<open>auto intro: status_edge.claim\<close>)
  note m = core_eq_maps [OF mid]
  have w2: "status_of w2 = status_of w1" "current_of w2 = current_of w1" "attempt_of w2 = attempt_of w1"
    using m by (simp_all add: status_of_def current_of_def attempt_of_def)
  have b2: "base_inv w2" by (rule base_core_eq [OF mid w1(5)])
  obtain j' where w3: "attempt_of w3 = (attempt_of w2)(i \<mapsto> (RUNNING, Some k, job_scope_state j))"
    "current_of w3 = current_of w2" "status_of w3 = status_of w2" "base_inv w3"
    by (rule inv_update_job [OF uj fg b2]) (use j(1) w1(4) m gs in auto)
  have "attempt_inv (current_of w) ((status_of w)(k \<mapsto> (BUILDING, job_scope_state j)))
      ((attempt_of w)(i \<mapsto> (RUNNING, Some k, job_scope_state j)))"
    by (rule attempt_start [OF lifecycle_inv_attempt [OF inv] R])
       (use status_of_publication [OF p(1)] p only_link [OF inv j(1,2)] in auto)
  then have "lifecycle_inv w3"
    using w1 w2 w3 by (simp add: lifecycle_inv_def)
  moreover have "evolves w w3"
    by (rule evolves_trans [OF evolves_trans [OF e1 evolves_core_eq [OF mid]] evolves_update_job [OF uj fg b2]])
       (use j m w1(4) in \<open>simp add: job_active_def\<close>)
  ultimately show ?thesis by (simp add: keeps_def)
qed

text \<open>A PENDING job without an attempt adopts a staged one no other job has.\<close>

lemma attach_attempt:
  assumes inv: "lifecycle_inv w" and j: "job_map w i = Some j" "job_status j = PENDING"
    and p: "publication_map w k = Some p" "pub_status p = STAGED" "pub_scope_state p = job_scope_state j"
    and only: "\<And>i' st sc. attempt_of w i' = Some (st, Some k, sc) \<Longrightarrow> i' = i"
    and uj: "update_job i g w = Inr w'" and fg: "frozen_job g"
    and gs: "\<And>j. job_status (g j) = job_status j" "\<And>j. job_build_publication (g j) = Some k"
  shows "keeps w w' \<and> job_map w' i = Some (g j)"
proof -
  have b: "base_inv w" by (rule lifecycle_inv_base [OF inv])
  obtain j' where w': "attempt_of w' = (attempt_of w)(i \<mapsto> (PENDING, Some k, job_scope_state j))"
    "current_of w' = current_of w" "status_of w' = status_of w" "base_inv w'" "job_map w' i = Some (g j)"
    by (rule inv_update_job [OF uj fg b]) (use j gs in auto)
  have "attempt_inv (current_of w) (status_of w) ((attempt_of w)(i \<mapsto> (PENDING, Some k, job_scope_state j)))"
    by (rule attempt_attach [OF lifecycle_inv_attempt [OF inv], where b = "job_build_publication j"])
       (use attempt_of_job [OF j(1)] status_of_publication [OF p(1)] j p only in auto)
  then show ?thesis
    using w' evolves_update_job [OF uj fg b] gs(1) by (simp add: keeps_def lifecycle_inv_def)
qed

lemma start_build_pres:
  assumes inv: "lifecycle_inv w" and j: "job_map w (job_id job) = Some j" "job_status j = PENDING"
    "job_build_publication j = job_build_publication job"
    and p: "publication_map w (pub_id p) = Some p" "pub_status p = STAGED" "pub_scope_state p = job_scope_state j"
    and b: "job_build_publication job = None \<or> job_build_publication job = Some (pub_id p)"
    and only: "\<And>i' st sc. attempt_of w i' = Some (st, Some (pub_id p), sc) \<Longrightarrow> i' = job_id job"
  shows "pres w (start_build job p scope snap fp w)"
  unfolding start_build_def
proof (rule presI)
  let ?h = "\<lambda>j. j\<lparr>job_build_publication := Some (pub_id p), job_source_revision := scp_source_revision scope\<rparr>"
  let ?f = "\<lambda>p. p\<lparr>pub_source_revision := scp_source_revision scope, pub_source_snapshot := Some snap,
       pub_source_fingerprint := fp, pub_status := BUILDING\<rparr>"
  let ?g = "\<lambda>j. j\<lparr>job_status := RUNNING, job_started_at := Some (clock w), job_heartbeat_at := Some (clock w),
       job_source_revision := scp_source_revision scope, job_attempt_count := job_attempt_count job + 1,
       job_build_publication := Some (pub_id p), job_error_category := [], job_error_message := []\<rparr>"
  fix x w'
  assume "bind_res (if job_build_publication job \<noteq> Some (pub_id p) then update_job (job_id job) ?h w else Inr w) (\<lambda>w1.
     bind_res (update_publication (pub_id p) ?f w1) (\<lambda>w2.
     bind_res (if pub_dataset_type_code p \<in> FILE_DATASETS then pin_source (pub_id p) snap w2 else Inr w2) (\<lambda>w3.
     bind_res (update_job (job_id job) ?g w3) (\<lambda>w4. Inr (Some (job_id job), w4))))) = Inr (x, w')"
  then obtain w1 w2 w3 where
    u1: "(if job_build_publication job \<noteq> Some (pub_id p) then update_job (job_id job) ?h w else Inr w) = Inr w1"
    and u2: "update_publication (pub_id p) ?f w1 = Inr w2"
    and u3: "(if pub_dataset_type_code p \<in> FILE_DATASETS then pin_source (pub_id p) snap w2 else Inr w2) = Inr w3"
    and u4: "update_job (job_id job) ?g w3 = Inr w'"
    unfolding bind_res_Inr by blast
  have "\<exists>j1. keeps w w1 \<and> job_map w1 (job_id job) = Some j1 \<and> job_status j1 = PENDING
      \<and> job_build_publication j1 = Some (pub_id p)"
  proof (cases "job_build_publication job = Some (pub_id p)")
    case True
    with u1 j inv show ?thesis by (auto simp: keeps_refl)
  next
    case False
    with u1 have u: "update_job (job_id job) ?h w = Inr w1" by simp
    have "keeps w w1 \<and> job_map w1 (job_id job) = Some (?h j)"
      by (rule attach_attempt [OF inv j(1,2) p _ u]) (use only in \<open>simp_all add: frozen_simps\<close>)
    then show ?thesis using j(2) by auto
  qed
  then obtain j1 where j1: "keeps w w1" "job_map w1 (job_id job) = Some j1" "job_status j1 = PENDING"
    "job_build_publication j1 = Some (pub_id p)" by blast
  have mid: "core_eq w2 w3" using u3 by (auto split: if_splits dest: core_eq_pin_source)
  have "keeps w1 w'"
    by (rule begin_attempt [OF keepsD(1) [OF j1(1)] j1(2,4,3) u2 _ _ mid u4]) (simp_all add: frozen_simps)
  with j1(1) show "keeps w w'" by (rule keeps_trans)
qed

lemma status_allocated:
  assumes "allocate_staged_publication s j fp snap w = Inr (p, w')" and inv: "lifecycle_inv w"
    and "owned w (scp_id s) (job_key j)"
  shows "keeps w w' \<and> job_map w' = job_map w \<and> publication_map w' (pub_id p) = Some p \<and> pub_status p = STAGED
    \<and> pub_scope_state p = scp_id s \<and> (\<forall>i st sc. attempt_of w' i \<noteq> Some (st, Some (pub_id p), sc))"
proof -
  note al = allocate_Inr [OF assms(1) lifecycle_inv_base [OF inv] assms(3)]
  note iv = lifecycle_inv_attempt [OF inv]
  have Q: "status_of w (pub_id p) = None" using al by (simp add: status_of_def)
  have "status_of w' = (status_of w)(pub_id p \<mapsto> (STAGED, scp_id s))" "current_of w' = current_of w"
    "attempt_of w' = attempt_of w"
    using al by (simp_all add: status_of_def current_of_def attempt_of_def project_upd)
  then have "lifecycle_inv w'" "\<forall>i st sc. attempt_of w' i \<noteq> Some (st, Some (pub_id p), sc)"
    using al attempt_allocate [OF iv Q] unlinked [OF attempt_invD(2) [OF iv] Q]
    by (simp_all add: lifecycle_inv_def)
  with al show ?thesis by (simp add: keeps_def)
qed

lemma obsolete_pending_pres:
  assumes inv: "lifecycle_inv w" and j: "job_map w i = Some j" "job_build_publication j = None"
    and act: "job_active j"
  shows "pres w (bind_res (update_job i (\<lambda>j. j\<lparr>job_status := JOB_OBSOLETE, job_completed_at := t\<rparr>) w)
           (\<lambda>w'. Inr (r, w')))"
  by (rule pres_bind_state [OF pres_stateI])
     (auto intro!: end_job [OF inv j _ _ _ _ act] pres_Inr keeps_refl simp: frozen_simps)

text \<open>
  The last part of a claim.  The candidate's own attempt is STAGED by the invariant, so a claim that
  gets this far starts the build.
\<close>

lemma claim_attempt_pres:
  assumes inv: "lifecycle_inv w" and j: "job_map w (job_id job) = Some j" "job_status j = PENDING"
    "job_build_publication j = job_build_publication job" "job_scope_state j = scp_id scope"
    and own: "owned w (scp_id scope) (job_key job)"
  shows "pres w (claim_attempt job scope snap fp w)"
proof (cases "job_build_publication job")
  case (Some k)
  with j obtain p where p: "publication_map w k = Some p" "pub_status p = STAGED" "pub_scope_state p = scp_id scope"
    using pending_staged [OF inv j(1,2)] by metis
  have k: "pub_id p = k" by (rule publication_map_id [OF p(1)])
  have "pres w (start_build job p scope snap fp w)"
    by (rule start_build_pres [OF inv j(1-3)])
       (use p k Some j only_link [OF inv j(1)] in auto)
  with Some p show ?thesis by (simp add: claim_attempt_def claim_publication_def get_is_map)
next
  case None
  show ?thesis
  proof (rule presI)
    fix r w'
    assume "claim_attempt job scope snap fp w = Inr (r, w')"
    then obtain p w4 where al: "allocate_staged_publication scope job fp snap w = Inr (p, w4)"
      and st: "pub_status p = STAGED \<Longrightarrow> start_build job p scope snap fp w4 = Inr (r, w')"
      using None by (auto simp: claim_attempt_def claim_publication_def bind_res_Inr split: if_splits)
    note a = status_allocated [OF al inv own]
    have "pres w4 (start_build job p scope snap fp w4)"
    proof (rule start_build_pres [where j = j])
      show "lifecycle_inv w4" using a keepsD(1) by blast
      show "job_map w4 (job_id job) = Some j" "publication_map w4 (pub_id p) = Some p" "pub_status p = STAGED"
        "pub_scope_state p = job_scope_state j"
        using a j by simp_all
      show "i' = job_id job" if "attempt_of w4 i' = Some (st, Some (pub_id p), sc)" for i' st sc
        using a that by blast
    qed (use j None in simp_all)
    then have "keeps w4 w'" using st a presD by metis
    with a show "keeps w w'" using keeps_trans by blast
  qed
qed

lemma reconcile_False:
  assumes "reconcile_clean_source E s fp w = Inr ((False, s'), w')"
  shows "w' = w"
  using assms by (auto simp: reconcile_clean_source_def bind_res_Inr Let_def split: if_splits)

lemma pending_after_core_jobs:
  "jobs w' = jobs w \<Longrightarrow> job_map w' = job_map w"
  by (simp add: job_map_def get_job_def)

lemma claim_job_pres:
  assumes inv: "lifecycle_inv w"
    and same: "\<And>j. job_map w (job_id c) = Some j \<Longrightarrow> same_job c j"
  shows "pres w (claim_job E c w)"
proof (cases "locked_scope (job_department c) (job_station c) (job_dataset_type_code c) w")
  case (Inl e)
  then show ?thesis by (simp add: claim_job_def)
next
  case (Inr s0)
  note b = lifecycle_inv_base [OF inv]
  show ?thesis
  proof (cases "first_by job_id (\<lambda>j. job_id j = job_id c \<and> job_status j = PENDING) (jobs w)")
    case None
    with Inr inv show ?thesis by (simp add: claim_job_def pres_Inr keeps_refl)
  next
    case (Some j)
    have jm: "j \<in> set (jobs w)" "job_status j = PENDING" "job_id j = job_id c"
      using first_by_SomeD [OF Some] by auto
    then have j: "job_map w (job_id j) = Some j" using base_maps(3) [OF b] by simp
    have c: "job_key j = job_key c" "job_scope_state j = job_scope_state c"
      using same j jm(3) by (auto simp: same_job_def)
    have s0: "scp_id s0 = job_scope_state j"
      by (rule job_scope [OF b j]) (use Inr c in \<open>simp add: job_key_def\<close>)
    have own: "owned w (scp_id s0) (job_key j)"
      using b jm(1) s0 by (simp add: base_inv_def)
    obtain df where d: "get_dataset_definition (job_dataset_type_code j) = Inr df"
      using locked_scope_Inr [OF Inr b] c
      by (auto simp: registered_scope_type_def bind_res_Inr job_key_def)
    let ?job = "\<lambda>s. j\<lparr>job_source_revision := scp_source_revision s\<rparr>"
    have fin: "pres w3 (claim_attempt (?job s) scope snap fp w3)"
      if "keeps w w3" "jobs w3 = jobs w" "scp_id scope = scp_id s0" for s scope snap fp w3
    proof (rule claim_attempt_pres [where j = j])
      show "lifecycle_inv w3" by (rule keepsD(1) [OF that(1)])
      show "job_map w3 (job_id (?job s)) = Some j" using j pending_after_core_jobs [OF that(2)] by simp
      show "owned w3 (scp_id scope) (job_key (?job s))"
        using evolvesD(2) [OF keepsD(2) [OF that(1)] own] that(3) by (simp add: job_key_def)
    qed (use jm s0 that in simp_all)
    show ?thesis
      unfolding claim_job_def Inr Some d bind_res.simps sum.case option.case Let_def
    proof (rule pres_bind [OF pres_current_source_state [OF inv]], unfold split_paired_all prod.case, goal_cases)
      case (1 snap fp s1 w1)
      let ?f = "\<lambda>s. s\<lparr>scp_current_source_fingerprint := stored_source_fingerprint E w1 s1 fp\<rparr>"
      note k1 = current_source_state_keeps [OF 1(1) inv]
      show ?case
      proof (rule pres_bind_state, goal_cases)
        case 1
        show ?case
          using k1 keepsD(1) by (auto intro!: pres_state_update_scope pres_state_Inr keeps_refl simp: frozen_simps)
      next
        case (2 w2)
        have k2: "keeps w1 w2 \<and> jobs w2 = jobs w1"
        proof (cases "scp_current_source_fingerprint s1 = stored_source_fingerprint E w1 s1 fp")
          case False
          with 2(1) have u: "update_scope (scp_id s1) ?f w1 = Inr w2" by simp
          from save_source_keeps [OF u \<open>lifecycle_inv w1\<close>] show ?thesis by (simp add: frozen_simps)
        qed (use 2(1) \<open>lifecycle_inv w1\<close> in \<open>auto simp: keeps_refl\<close>)
        then have kk: "keeps w w2" "jobs w2 = jobs w" "scp_id s1 = scp_id s0"
          using k1 keeps_trans by auto
        show ?case
        proof (rule pres_bind, goal_cases)
          case 1
          show ?case
            by (auto intro!: pres_bind [OF pres_reconcile [OF 2(2)]] pres_Inr keeps_refl simp: 2(2))
        next
          case (2 clean w3)
          show ?case
          proof (cases clean)
            case True
            then show ?thesis by (simp add: pres_Inr keeps_refl 2(2))
          next
            case False
            with 2(1) have "w3 = w2"
              by (auto simp: bind_res_Inr split: if_splits dest: reconcile_False)
            have "scp_id (?f s1) = scp_id s0" using kk(3) by simp
            with False fin [OF kk(1,2) this] \<open>w3 = w2\<close> show ?thesis by simp
          qed
        qed
      qed
    qed
  qed
qed

lemma claim_candidates_keep:
  assumes "lifecycle_inv w" and "\<And>c j. c \<in> set cs \<Longrightarrow> job_map w (job_id c) = Some j \<Longrightarrow> same_job c j"
    and "\<And>c. c \<in> set cs \<Longrightarrow> job_map w (job_id c) \<noteq> None"
  shows "keeps w (snd (claim_candidates E cs w))"
  using assms
proof (induction cs arbitrary: w)
  case Nil
  then show ?case by (simp add: keeps_refl)
next
  case (Cons c cs)
  have p: "pres w (claim_job E c w)" by (rule claim_job_pres) (use Cons.prems in auto)
  show ?case
  proof (cases "claim_job E c w")
    case (Inl e)
    then show ?thesis using Cons.prems(1) by (simp add: keeps_refl)
  next
    case (Inr rw)
    obtain r w1 where rw: "rw = (r, w1)" by (cases rw)
    have k: "keeps w w1" using presD [OF p] Inr rw by simp
    have step: "\<exists>j1. job_map w1 (job_id x) = Some j1 \<and> same_job x j1" if x: "x \<in> set cs" for x
    proof -
      obtain j where j: "job_map w (job_id x) = Some j" using Cons.prems(3) [of x] x by auto
      then show ?thesis
        using evolvesD(3) [OF keepsD(2) [OF k] j] Cons.prems(2) [of x j] x same_job_trans by auto
    qed
    have "keeps w1 (snd (claim_candidates E cs w1))"
      by (rule Cons.IH [OF keepsD(1) [OF k]]) (use step in fastforce)+
    with k Inr rw show ?thesis by (cases r) (auto intro: keeps_trans)
  qed
qed

lemma claim_next_job_keeps:
  assumes inv: "lifecycle_inv w"
  shows "keeps w (snd (claim_next_job E w))"
proof -
  have j: "job_map w (job_id c) = Some c" if "c \<in> set (claimable w)" for c
    using that base_maps(3) [OF lifecycle_inv_base [OF inv]] by (simp add: claimable_def)
  show ?thesis
    unfolding claim_next_job_def
    by (rule claim_candidates_keep [OF inv]) (use j in auto)
qed

lemma heartbeat_pres: "lifecycle_inv w \<Longrightarrow> pres w (heartbeat_job i w)"
  by (auto simp: heartbeat_job_def frozen_simps keeps_refl split: option.splits
      intro!: pres_Inr pres_bind_state [OF pres_state_update_job])

subsection \<open>After commit\<close>

lemma run_callback_keeps:
  assumes "run_callback E cb w = Inr w'" and inv: "lifecycle_inv w"
  shows "keeps w w'"
proof (cases cb)
  case (EnqueueFollowUp d st c db)
  with assms obtain r where
    "enqueue_publication_job E d st c None DATA_CHANGE db False None w = Inr (r, w')"
    by (auto simp: run_callback_def bind_res_Inr)
  then show ?thesis by (rule enqueue_keeps [OF _ inv])
next
  case WakeBuildWorker
  with assms show ?thesis by (auto simp: run_callback_def core_eq_def intro!: keeps_core_eq [OF _ inv])
qed (use assms in \<open>auto simp: run_callback_def core_eq_remove_after_commit core_eq_process_cleanup
       intro!: keeps_core_eq [OF _ inv]\<close>)

lemma run_callbacks_keep: "lifecycle_inv w \<Longrightarrow> keeps w (snd (run_callbacks E cbs w))"
proof (induction cbs arbitrary: w)
  case (Cons cb cbs)
  show ?case
  proof (cases "run_callback E cb w")
    case (Inr w1)
    then show ?thesis
      using run_callback_keeps [OF Inr Cons.prems] Cons.IH keepsD(1) keeps_trans by (simp add: keeps_trans)
  qed (simp add: keeps_refl Cons.prems)
qed (simp add: keeps_refl)

lemma commit_keeps:
  assumes inv: "lifecycle_inv w"
  shows "keeps w (snd (commit E w))"
proof -
  have c: "core_eq w (w\<lparr>on_commit := []\<rparr>)" by (simp add: core_eq_def)
  show ?thesis
    unfolding commit_def
    using keeps_trans [OF keeps_core_eq [OF c inv] run_callbacks_keep [OF inv_core_eq [OF c inv]]] .
qed

text \<open>A transaction with its commit hooks.\<close>

lemma committed_keeps:
  assumes inv: "lifecycle_inv w" and p: "pres w r"
  shows "keeps w (snd (committed E r w))"
proof (cases r)
  case (Inl e)
  then show ?thesis by (simp add: committed_def keeps_refl inv)
next
  case (Inr xw)
  obtain x w1 where xw: "xw = (x, w1)" by (cases xw)
  have k: "keeps w w1" using presD [OF p] Inr xw by simp
  have "snd (committed E r w) = snd (commit E w1)"
    by (auto simp: committed_def Inr xw split: prod.splits option.splits)
  with keeps_trans [OF k commit_keeps [OF keepsD(1) [OF k]]] show ?thesis by simp
qed

end
