(* ===== verification/Worker_Inv.thy ===== *)
theory Worker_Inv
  imports Queue_Inv
begin

text \<open>
  The worker's and the administrator's operations keep the lifecycle invariant and evolve the
  history, whatever other invariant-keeping transactions commit between the worker's checkpoints.
\<close>

subsection \<open>Failing\<close>

lemma core_eq_follow_up: "queue_follow_up_if_stale E j w = Inr w' \<Longrightarrow> core_eq w w'"
  by (auto simp: queue_follow_up_if_stale_def bind_res_Inr split: if_splits)

text \<open>Ending an attempt with the job saved first.\<close>

lemma end_attempt_job_first:
  assumes inv: "lifecycle_inv w" and j: "job_map w i = Some j" "job_build_publication j = Some k"
    and p: "publication_map w k = Some p" "pub_status p = STAGED \<or> pub_status p = BUILDING"
    and uj: "update_job i g w = Inr w1" and fg: "frozen_job g"
    and gs: "\<And>j. job_status (g j) = st" "st \<noteq> RUNNING" "st \<noteq> PENDING"
      "\<And>j. job_build_publication (g j) = job_build_publication j"
    and mid: "core_eq w1 w2"
    and up: "update_publication k f w2 = Inr w3" and fp: "frozen_publication f"
    and fs: "\<And>p. pub_status (f p) = u" and u: "status_edge (pub_status p) u" "u \<noteq> BUILDING" "u \<noteq> PUBLISHED"
    and act: "pub_status p = BUILDING \<or> job_active j"
  shows "keeps w w3"
proof -
  have b: "base_inv w" by (rule lifecycle_inv_base [OF inv])
  have R: "attempt_of w i = Some (job_status j, Some k, job_scope_state j)"
    using attempt_of_job [OF j(1)] j(2) by simp
  then have sc: "pub_scope_state p = job_scope_state j"
    using link_status attempt_invD(2) inv status_of_publication [OF p(1)] by (fastforce simp: lifecycle_inv_def)
  obtain j' where w1: "attempt_of w1 = (attempt_of w)(i \<mapsto> (st, Some k, job_scope_state j))"
    "current_of w1 = current_of w" "status_of w1 = status_of w" "publication_map w1 = publication_map w" "base_inv w1"
    by (rule inv_update_job [OF uj fg b]) (use j gs in auto)
  note m = core_eq_maps [OF mid]
  have w2: "status_of w2 = status_of w1" "current_of w2 = current_of w1" "attempt_of w2 = attempt_of w1"
    using m by (simp_all add: status_of_def current_of_def attempt_of_def)
  have b2: "base_inv w2" by (rule base_core_eq [OF mid w1(5)])
  obtain p' where w3: "status_of w3 = (status_of w2)(k \<mapsto> (u, pub_scope_state p))"
    "current_of w3 = current_of w2" "attempt_of w3 = attempt_of w2" "base_inv w3"
    by (rule inv_update_publication [OF up fp b2]) (use p(1) fs w1 m in auto)
  have "evolves w2 w3"
    by (rule evolves_update_publication [OF up fp b2]) (use p(1) fs u(1) w1(4) m in auto)
  then have "evolves w w3"
    using evolves_trans [OF evolves_trans [OF evolves_update_job [OF uj fg b] evolves_core_eq [OF mid]]] act j(1)
      building_active [OF inv j p(1)] by auto
  moreover have "attempt_inv (current_of w) ((status_of w)(k \<mapsto> (u, job_scope_state j)))
      ((attempt_of w)(i \<mapsto> (st, Some k, job_scope_state j)))"
    by (rule attempt_end [OF lifecycle_inv_attempt [OF inv] R])
       (use status_of_publication [OF p(1)] sc p(2) u gs in auto)
  ultimately show ?thesis
    using w1 w2 w3 sc by (simp add: keeps_def lifecycle_inv_def)
qed

lemma fail_publication_job_pres:
  assumes inv: "lifecycle_inv w"
  shows "pres w (fail_publication_job E i msg cat w)"
proof (rule presI)
  fix r w'
  assume f: "fail_publication_job E i msg cat w = Inr (r, w')"
  then obtain j where j: "job_map w i = Some j"
    by (auto simp: fail_publication_job_def bind_res_Inr of_option_Inr get_is_map)
  show "keeps w w'"
  proof (cases "job_status j = RUNNING")
    case False
    with f j have "w' = w" by (auto simp: fail_publication_job_def bind_res_Inr of_option_Inr get_is_map)
    with inv show ?thesis by (simp add: keeps_refl)
  next
    case True
    obtain k p where k: "job_build_publication j = Some k" and p: "publication_map w k = Some p"
      "pub_status p = BUILDING"
      using running_building [OF inv j True] by blast
    let ?g = "\<lambda>j. j\<lparr>job_status := JOB_FAILED, job_completed_at := Some (clock w),
         job_error_message := take 2000 msg, job_error_category := take 32 cat\<rparr>"
    from f j True obtain w1 w2 where
      uj: "update_job i ?g w = Inr w1"
      and fa: "(case fk_publication (job_build_publication j) w1 of
          None \<Rightarrow> Inr w1 | Some publication \<Rightarrow> fail_attempt publication (take 2000 msg) w1) = Inr w2"
      and w': "core_eq w2 w'"
      by (auto simp: fail_publication_job_def bind_res_Inr of_option_Inr get_is_map Let_def
          intro: core_eq_trans [OF core_eq_record_event core_eq_follow_up])
    have pm: "publication_map w1 = publication_map w"
      using uj by (auto elim!: update_job_Inr)
    have pid: "pub_id p = k" by (rule publication_map_id [OF p(1)])
    have fk: "fk_publication (job_build_publication j) w1 = Some p"
      using k p pm by (simp add: fk_publication_def get_is_map)
    let ?w1 = "schedule_artifact_removal (am_path (pub_artifact p)) w1"
    from fa fk p(2) pid obtain w3 where
      up: "update_publication k (\<lambda>p. p\<lparr>pub_status := PUB_FAILED, pub_artifact_status := ART_FAILED,
          pub_build_error := take 2000 msg\<rparr>) ?w1 = Inr w3" and w2: "core_eq w3 w2"
      by (auto simp: fail_attempt_def bind_res_Inr Let_def dest: core_eq_release_references)
    have "keeps w w3"
      by (rule end_attempt_job_first [where u = PUB_FAILED and st = JOB_FAILED, OF inv j k p(1) _ uj _ _ _ _ _ core_eq_schedule up])
         (use p(2) in \<open>simp_all add: frozen_simps status_edge.fail\<close>)
    then show ?thesis using keeps_then_core core_eq_trans [OF w2 w'] by blast
  qed
qed

subsection \<open>Finalising\<close>

lemma finalize_stale_source_pres:
  assumes inv: "lifecycle_inv w" and j: "job_map w (job_id j) = Some j" "job_build_publication j = Some k"
    and p: "publication_map w k = Some p" "pub_status p = BUILDING" and q: "pub_id q = k"
  shows "pres w (finalize_stale_source E j q path w)"
proof (rule presI)
  fix r w'
  let ?w1 = "schedule_artifact_removal path w"
  have c1: "core_eq w ?w1" by simp
  note m1 = core_eq_maps [OF c1]
  assume "finalize_stale_source E j q path w = Inr (r, w')"
  then obtain w2 w3 w4 w5 x where
    up: "update_publication k (\<lambda>p. p\<lparr>pub_status := PUB_OBSOLETE, pub_source_snapshot := None\<rparr>) ?w1 = Inr w2"
    and rel: "release_references (q\<lparr>pub_status := PUB_OBSOLETE\<rparr>) w2 = Inr w3"
    and uj: "update_job (job_id j) (\<lambda>j. j\<lparr>job_status := JOB_OBSOLETE, job_completed_at := Some (clock w)\<rparr>) w3 = Inr w4"
    and c5: "core_eq w4 w5"
    and enq: "enqueue_publication_job E (job_department j) (job_station j) (job_dataset_type_code j)
           (job_requested_by j) (job_trigger_type j) None (job_allow_clean_rebuild j) None w5 = Inr (x, w')"
    unfolding finalize_stale_source_def bind_res_Inr Let_def q
    by (auto intro: core_eq_record_event) (metis core_eq_record_event)
  have inv1: "lifecycle_inv ?w1" by (rule inv_core_eq [OF c1 inv])
  have j1: "job_map ?w1 (job_id j) = Some j" and p1: "publication_map ?w1 k = Some p"
    using m1 j p by simp_all
  have "keeps ?w1 w4"
    by (rule end_attempt [where u = PUB_OBSOLETE and st = JOB_OBSOLETE, OF inv1 j1 j(2) p1 _ up _ _ _ _ _ core_eq_release_references [OF rel] uj])
       (use p(2) in \<open>simp_all add: frozen_simps status_edge.duplicate\<close>)
  then have k5: "keeps w w5"
    using keeps_trans [OF keeps_core_eq [OF c1 inv]] keeps_then_core [OF _ c5] by blast
  then show "keeps w w'" using enqueue_keeps [OF enq keepsD(1)] keeps_trans by blast
qed

lemma finalize_duplicate_pres:
  assumes inv: "lifecycle_inv w" and j: "job_map w (job_id j) = Some j" "job_build_publication j = Some k"
    and p: "publication_map w k = Some p" "pub_status p = BUILDING" and q: "pub_id q = k"
  shows "pres w (finalize_duplicate j q fp s path w)"
proof (rule presI)
  fix r w'
  let ?w1 = "schedule_artifact_removal path w"
  have c1: "core_eq w ?w1" by simp
  note m1 = core_eq_maps [OF c1]
  assume "finalize_duplicate j q fp s path w = Inr (r, w')"
  then obtain w2 w3 w4 w5 where
    up: "update_publication k (\<lambda>p. p\<lparr>pub_status := PUB_OBSOLETE, pub_source_fingerprint := fp,
          pub_source_snapshot := None\<rparr>) ?w1 = Inr w2"
    and rel: "release_references (q\<lparr>pub_status := PUB_OBSOLETE\<rparr>) w2 = Inr w3"
    and uj: "update_job (job_id j) (\<lambda>j. j\<lparr>job_status := JOB_OBSOLETE, job_completed_at := Some (clock w)\<rparr>) w3 = Inr w4"
    and us: "update_scope s (\<lambda>s. s\<lparr>scp_dirty_since := None\<rparr>) w4 = Inr w5" and c5: "core_eq w5 w'"
    unfolding finalize_duplicate_def bind_res_Inr Let_def q by auto
  have inv1: "lifecycle_inv ?w1" by (rule inv_core_eq [OF c1 inv])
  have j1: "job_map ?w1 (job_id j) = Some j" and p1: "publication_map ?w1 k = Some p"
    using m1 j p by simp_all
  have k4: "keeps ?w1 w4"
    by (rule end_attempt [where u = PUB_OBSOLETE and st = JOB_OBSOLETE, OF inv1 j1 j(2) p1 _ up _ _ _ _ _ core_eq_release_references [OF rel] uj])
       (use p(2) in \<open>simp_all add: frozen_simps status_edge.duplicate\<close>)
  have "keeps w4 w5" by (rule keeps_update_scope [OF us keepsD(1) [OF k4]]) (simp_all add: frozen_simps)
  then have "keeps w w5"
    using keeps_trans [OF keeps_core_eq [OF c1 inv] keeps_trans [OF k4]] by blast
  then show "keeps w w'" using c5 by (rule keeps_then_core)
qed

text \<open>
  Activation: the previous current publication, if any, is superseded, the target becomes PUBLISHED
  and the scope points to it.  With \<open>supersede_previous\<close> the abstract statuses become
  \<open>superseded\<close>.
\<close>

lemma supersede_Inr:
  assumes u: "supersede q w = Inr w'" and b: "base_inv w" and q: "publication_map w (pub_id q) = Some q"
  shows "base_inv w' \<and> status_of w' = (status_of w)(pub_id q \<mapsto> (SUPERSEDED, pub_scope_state q))
    \<and> current_of w' = current_of w \<and> attempt_of w' = attempt_of w \<and> scope_map w' = scope_map w
    \<and> job_map w' = job_map w \<and> (\<forall>k. k \<noteq> pub_id q \<longrightarrow> publication_map w' k = publication_map w k)
    \<and> (pub_status q = PUBLISHED \<longrightarrow> evolves w w')"
proof -
  let ?w1 = "snd (revoke_publication_dataset_key_grants q w)"
  have c: "core_eq w ?w1" by simp
  note m = core_eq_maps [OF c]
  have b1: "base_inv ?w1" by (rule base_core_eq [OF c b])
  from u have up: "update_publication (pub_id q) (\<lambda>p. p\<lparr>pub_status := SUPERSEDED\<rparr>) ?w1 = Inr w'"
    by (simp add: supersede_def Let_def)
  have fz: "frozen_publication (\<lambda>p. p\<lparr>pub_status := SUPERSEDED\<rparr>)" by (simp add: frozen_simps)
  have ev: "evolves w w'" if "pub_status q = PUBLISHED"
  proof (rule evolves_trans [OF evolves_core_eq [OF c]])
    show "evolves ?w1 w'"
      by (rule evolves_update_publication [OF up fz b1]) (use q m that in \<open>auto intro: status_edge.supersede\<close>)
  qed
  show ?thesis
    by (rule inv_update_publication [OF up fz b1])
       (use q m ev in \<open>auto simp: status_of_def current_of_def attempt_of_def\<close>)
qed

lemma supersede_previous_Inr:
  assumes u: "supersede_previous prev w = Inr w'" and inv: "lifecycle_inv w"
    and s: "scope_map w i = Some s" and prev: "prev = fk_publication (scp_current_published_publication s) w"
  shows "base_inv w' \<and> evolves w w' \<and> status_of w' = superseded (scp_current_published_publication s) i (status_of w)
    \<and> current_of w' = current_of w \<and> attempt_of w' = attempt_of w \<and> scope_map w' = scope_map w
    \<and> job_map w' = job_map w
    \<and> (\<forall>k. Some k \<noteq> scp_current_published_publication s \<longrightarrow> publication_map w' k = publication_map w k)"
proof (cases "scp_current_published_publication s")
  case None
  with u prev inv lifecycle_inv_base [OF inv] show ?thesis
    by (simp add: supersede_previous_def fk_publication_def superseded_def)
next
  case (Some k0)
  have "status_of w k0 = Some (PUBLISHED, i)"
    using current_status [OF attempt_invD(1) [OF lifecycle_inv_attempt [OF inv]]] current_of_scope [OF s] Some
    by simp
  then obtain q where q: "publication_map w k0 = Some q" "pub_status q = PUBLISHED" "pub_scope_state q = i"
    by (auto simp: status_of_def)
  have id: "pub_id q = k0" by (rule publication_map_id [OF q(1)])
  have "supersede q w = Inr w'"
    using u prev Some q by (simp add: supersede_previous_def fk_publication_def get_is_map)
  from supersede_Inr [OF this lifecycle_inv_base [OF inv]] q id Some show ?thesis
    by (auto simp: superseded_def)
qed

lemma current_publication:
  assumes inv: "lifecycle_inv w" and s: "scope_map w i = Some s"
  shows "fk_publication (scp_current_published_publication s) w = Some q \<longleftrightarrow>
     publication_map w (pub_id q) = Some q \<and> pub_status q = PUBLISHED \<and> pub_scope_state q = i"
proof
  assume "fk_publication (scp_current_published_publication s) w = Some q"
  then obtain k where k: "scp_current_published_publication s = Some k" "publication_map w k = Some q"
    by (auto simp: fk_publication_Some get_is_map)
  have "status_of w k = Some (PUBLISHED, i)"
    using current_status [OF attempt_invD(1) [OF lifecycle_inv_attempt [OF inv]]] current_of_scope [OF s] k
    by simp
  with k(2) publication_map_id [OF k(2)] show "publication_map w (pub_id q) = Some q \<and> pub_status q = PUBLISHED
     \<and> pub_scope_state q = i"
    by (simp add: status_of_def)
next
  assume q: "publication_map w (pub_id q) = Some q \<and> pub_status q = PUBLISHED \<and> pub_scope_state q = i"
  then have "status_of w (pub_id q) = Some (PUBLISHED, i)" by (simp add: status_of_def)
  then have "current_of w i = Some (Some (pub_id q))"
    using status_current [OF attempt_invD(1) [OF lifecycle_inv_attempt [OF inv]]] by blast
  with s q show "fk_publication (scp_current_published_publication s) w = Some q"
    by (simp add: current_of_def fk_publication_def get_is_map)
qed

text \<open>The three saves of an activation, up to the job.\<close>

lemma activate_saves:
  assumes inv: "lifecycle_inv w" and s: "scope_map w i = Some s"
    and sp: "supersede_previous (fk_publication (scp_current_published_publication s) w) w = Inr w1"
    and p: "publication_map w k = Some p" "pub_scope_state p = i" "pub_status p \<noteq> PUBLISHED"
    and e: "status_edge (pub_status p) PUBLISHED"
    and up: "update_publication k f w1 = Inr w2" and fp: "frozen_publication f"
    and fs: "\<And>p. pub_status (f p) = PUBLISHED"
    and us: "update_scope i g w2 = Inr w3" and fg: "frozen_scope g"
    and gs: "\<And>s. scp_current_published_publication (g s) = Some k"
  shows "base_inv w3 \<and> evolves w w3 \<and> current_of w3 = (current_of w)(i \<mapsto> Some k)
    \<and> status_of w3 = (superseded (scp_current_published_publication s) i (status_of w))(k \<mapsto> (PUBLISHED, i))
    \<and> attempt_of w3 = attempt_of w \<and> job_map w3 = job_map w"
proof -
  note w1 = supersede_previous_Inr [OF sp inv s refl]
  have ne: "Some k \<noteq> scp_current_published_publication s"
    using current_distinct [OF attempt_invD(1) [OF lifecycle_inv_attempt [OF inv]] current_of_scope [OF s]
        status_of_publication [OF p(1)] p(3)] by simp
  then have p1: "publication_map w1 k = Some p" using w1 p(1) by simp
  have b1: "base_inv w1" using w1 by blast
  obtain x where w2: "status_of w2 = (status_of w1)(k \<mapsto> (PUBLISHED, i))" "current_of w2 = current_of w1"
    "attempt_of w2 = attempt_of w1" "scope_map w2 = scope_map w1" "job_map w2 = job_map w1" "base_inv w2"
    by (rule inv_update_publication [OF up fp b1]) (use p1 p(2) fs in auto)
  have e2: "evolves w1 w2"
    by (rule evolves_update_publication [OF up fp b1]) (use p1 fs e in auto)
  obtain y where w3: "current_of w3 = (current_of w2)(i \<mapsto> Some k)" "status_of w3 = status_of w2"
    "attempt_of w3 = attempt_of w2" "job_map w3 = job_map w2" "base_inv w3"
    by (rule inv_update_scope [OF us fg w2(6)]) (use gs in auto)
  have "evolves w w3"
    using w1 evolves_trans [OF evolves_trans [OF _ e2] evolves_update_scope [OF us fg w2(6)]] by blast
  then show ?thesis using w1 w2 w3 by simp
qed

lemma activate_keeps:
  assumes inv: "lifecycle_inv w" and s: "scope_map w i = Some s"
    and sp: "supersede_previous (fk_publication (scp_current_published_publication s) w) w = Inr w1"
    and p: "publication_map w k = Some p" "pub_scope_state p = i"
      "pub_status p = READY_FOR_REVIEW \<or> pub_status p = SUPERSEDED"
    and up: "update_publication k f w1 = Inr w2" and fp: "frozen_publication f"
    and fs: "\<And>p. pub_status (f p) = PUBLISHED"
    and us: "update_scope i g w2 = Inr w3" and fg: "frozen_scope g"
    and gs: "\<And>s. scp_current_published_publication (g s) = Some k"
  shows "keeps w w3"
proof -
  have e: "status_edge (pub_status p) PUBLISHED" and ne: "pub_status p \<noteq> PUBLISHED"
    using p(3) status_edge.approve status_edge.restore by auto
  note w3 = activate_saves [OF inv s sp p(1,2) ne e up fp fs us fg gs]
  have "attempt_inv ((current_of w)(i \<mapsto> Some k))
      ((superseded (scp_current_published_publication s) i (status_of w))(k \<mapsto> (PUBLISHED, i))) (attempt_of w)"
    by (rule attempt_activate [OF lifecycle_inv_attempt [OF inv] current_of_scope [OF s]])
       (use status_of_publication [OF p(1)] p in auto)
  with w3 show ?thesis by (simp add: keeps_def lifecycle_inv_def)
qed

lemma finalize_publish_pres:
  assumes inv: "lifecycle_inv w" and j: "job_map w (job_id j) = Some j" "job_build_publication j = Some k"
      "job_status j = RUNNING"
    and p: "publication_map w k = Some p" "pub_status p = BUILDING"
    and s: "scope_map w (scp_id s) = Some s" "job_scope_state j = scp_id s"
    and q: "pub_id q = k" and prev: "prev = fk_publication (scp_current_published_publication s) w"
  shows "pres w (finalize_publish E j q prev s w)"
proof (rule presI)
  fix r w'
  assume "finalize_publish E j q prev s w = Inr (r, w')"
  then show "keeps w w'"
    unfolding finalize_publish_def Let_def q
  proof (elim bind_resE, goal_cases)
    case (1 w1 u w2 w3 w4)
    have R: "attempt_of w (job_id j) = Some (RUNNING, Some k, scp_id s)"
      using attempt_of_job [OF j(1)] j s by simp
    have sc: "pub_scope_state p = scp_id s"
      using link_status [OF attempt_invD(2) [OF lifecycle_inv_attempt [OF inv]] R] status_of_publication [OF p(1)]
      by auto
    have w3: "base_inv w3 \<and> evolves w w3 \<and> current_of w3 = (current_of w)(scp_id s \<mapsto> Some k)
      \<and> status_of w3 = (superseded (scp_current_published_publication s) (scp_id s) (status_of w))
            (k \<mapsto> (PUBLISHED, scp_id s))
      \<and> attempt_of w3 = attempt_of w \<and> job_map w3 = job_map w"
      by (rule activate_saves [OF inv s(1) 1(1) [unfolded prev] p(1) sc _ _ 1(3) _ _ 1(4)])
         (simp_all add: p(2) frozen_simps status_edge.publish)
    note uj = 1(5)
    have fz: "frozen_job (\<lambda>j. j\<lparr>job_status := SUCCEEDED, job_completed_at := Some (clock w),
           job_heartbeat_at := Some (clock w)\<rparr>)" by (simp add: frozen_simps)
    have b3: "base_inv w3" using w3 by blast
    obtain x where w4: "attempt_of w4 = (attempt_of w3)(job_id j \<mapsto> (SUCCEEDED, Some k, scp_id s))"
      "current_of w4 = current_of w3" "status_of w4 = status_of w3" "base_inv w4"
      by (rule inv_update_job [OF uj fz b3]) (use w3 j s in auto)
    have "attempt_inv ((current_of w)(scp_id s \<mapsto> Some k))
        ((superseded (scp_current_published_publication s) (scp_id s) (status_of w))(k \<mapsto> (PUBLISHED, scp_id s)))
        ((attempt_of w)(job_id j \<mapsto> (SUCCEEDED, Some k, scp_id s)))"
      by (rule attempt_publish [OF lifecycle_inv_attempt [OF inv] current_of_scope [OF s(1)] _ R])
         (use status_of_publication [OF p(1)] p(2) sc in simp)
    moreover have "evolves w w4"
      using w3 evolves_trans [OF _ evolves_update_job [OF uj fz b3]] j by (simp add: job_active_def)
    ultimately have "keeps w w4" using w3 w4 by (simp add: keeps_def lifecycle_inv_def)
    moreover have "core_eq w4 w'" using 1(6) by auto
    ultimately show ?case by (rule keeps_then_core)
  qed
qed

lemma finalize_publication_job_pres:
  assumes inv: "lifecycle_inv w"
  shows "pres w (finalize_publication_job E i summary artifact fp w)"
  unfolding finalize_publication_job_def
proof (rule pres_bind_value, rule pres_bind_value, goal_cases)
  case (1 j s)
  have j: "job_map w i = Some j" "job_id j = i"
    using 1(1) job_map_id by (auto simp: of_option_Inr get_is_map)
  note b = lifecycle_inv_base [OF inv]
  have s: "scope_map w (scp_id s) = Some s" using locked_scope_Inr [OF 1(2) b] by simp
  have sc: "job_scope_state j = scp_id s" using job_scope [OF b j(1) 1(2)] by simp
  show ?case
  proof (cases "job_status j = RUNNING")
    case False
    then show ?thesis by (simp add: pres_core inv)
  next
    case True
    obtain k p where k: "job_build_publication j = Some k" and p: "publication_map w k = Some p"
      "pub_status p = BUILDING"
      using running_building [OF inv j(1) True] by blast
    have pid: "pub_id p = k" by (rule publication_map_id [OF p(1)])
    have get: "get_publication k w = Some p" using p by (simp add: get_is_map)
    note jj = j(1) [folded j(2)] k
    show ?thesis
      using True p(2)
      by (auto simp: k get Let_def pid intro!: pres_bind_value finalize_stale_source_pres [OF inv jj p]
          finalize_duplicate_pres [OF inv jj p] finalize_publish_pres [OF inv jj True p s sc])
  qed
qed

subsection \<open>Recovery\<close>

lemma recover_attempt_Inr:
  assumes r: "recover_attempt j w = Inr w'" and inv: "lifecycle_inv w" and j: "job_map w i = Some j"
    and st: "job_status j = RUNNING"
  obtains k p w1 where "job_build_publication j = Some k" and "publication_map w k = Some p"
    and "pub_status p = BUILDING"
    and "update_publication k (\<lambda>p. p\<lparr>pub_status := PUB_FAILED,
           pub_build_error := ''Worker heartbeat timed out.''\<rparr>) w = Inr w1"
    and "core_eq w1 w'"
proof -
  obtain k p where k: "job_build_publication j = Some k" and p: "publication_map w k = Some p"
    "pub_status p = BUILDING"
    using running_building [OF inv j st] by blast
  have pid: "pub_id p = k" by (rule publication_map_id [OF p(1)])
  from r k p pid obtain w1 where
    "update_publication k (\<lambda>p. p\<lparr>pub_status := PUB_FAILED,
        pub_build_error := ''Worker heartbeat timed out.''\<rparr>) w = Inr w1" "core_eq w1 w'"
    by (auto simp: recover_attempt_def fk_publication_def get_is_map bind_res_Inr
        dest: core_eq_release_references)
  with k p show ?thesis by (rule that)
qed

lemma recover_job_keeps:
  assumes r: "recover_job E cutoff m i (n, w) = Inr (n', w')" and inv: "lifecycle_inv w"
  shows "keeps w w'"
proof (cases "job_map w i")
  case None
  with r inv show ?thesis by (simp add: recover_job_def get_is_map keeps_refl)
next
  case (Some j)
  show ?thesis
  proof (cases "stale_job cutoff j")
    case False
    with r Some inv show ?thesis by (auto simp: recover_job_def get_is_map keeps_refl bind_res_Inr)
  next
    case True
    then have st: "job_status j = RUNNING" by (simp add: stale_job_def)
    from r Some True obtain w1 where ra: "recover_attempt j w = Inr w1"
      and rest: "(if job_attempt_count j \<ge> m then
            bind_res (update_job i (\<lambda>j. j\<lparr>job_status := JOB_FAILED, job_completed_at := Some (clock w),
              job_error_category := ''retry_exhausted'',
              job_error_message := ''Publication build exceeded the maximum retry attempts.''\<rparr>) w1) (\<lambda>w2.
            bind_res (queue_follow_up_if_stale E j w2) (\<lambda>w3. Inr (n + 1, w3)))
          else
            bind_res (update_job i (\<lambda>j. j\<lparr>job_status := PENDING, job_started_at := None,
              job_heartbeat_at := None, job_build_publication := None,
              job_error_category := ''retryable_timeout'',
              job_error_message := ''Worker heartbeat timed out; the build will be retried.''\<rparr>) w1) (\<lambda>w2.
            Inr (n + 1, w2))) = Inr (n', w')"
      by (auto simp: recover_job_def get_is_map bind_res_Inr)
    obtain k p w0 where k: "job_build_publication j = Some k" and p: "publication_map w k = Some p"
      "pub_status p = BUILDING"
      and up: "update_publication k (\<lambda>p. p\<lparr>pub_status := PUB_FAILED,
           pub_build_error := ''Worker heartbeat timed out.''\<rparr>) w = Inr w0" and mid: "core_eq w0 w1"
      by (rule recover_attempt_Inr [OF ra inv Some st])
    show ?thesis
    proof (cases "job_attempt_count j \<ge> m")
      case True
      with rest obtain w2 where uj: "update_job i (\<lambda>j. j\<lparr>job_status := JOB_FAILED,
              job_completed_at := Some (clock w), job_error_category := ''retry_exhausted'',
              job_error_message := ''Publication build exceeded the maximum retry attempts.''\<rparr>) w1 = Inr w2"
        and c: "core_eq w2 w'" by (auto simp: bind_res_Inr dest: core_eq_follow_up)
      have "keeps w w2"
        by (rule end_attempt [where u = PUB_FAILED and st = JOB_FAILED, OF inv Some k p(1) _ up _ _ _ _ _ mid uj])
           (use p(2) in \<open>simp_all add: frozen_simps status_edge.fail\<close>)
      then show ?thesis using c by (rule keeps_then_core)
    next
      case False
      with rest have uj: "update_job i (\<lambda>j. j\<lparr>job_status := PENDING, job_started_at := None,
              job_heartbeat_at := None, job_build_publication := None,
              job_error_category := ''retryable_timeout'',
              job_error_message := ''Worker heartbeat timed out; the build will be retried.''\<rparr>) w1 = Inr w'"
        by (simp add: bind_res_Inr)
      show ?thesis
        by (rule end_attempt [where u = PUB_FAILED and st = PENDING, OF inv Some k p(1) _ up _ _ _ _ _ mid uj])
           (use p(2) in \<open>simp_all add: frozen_simps status_edge.fail\<close>)
    qed
  qed
qed

lemma recover_stale_jobs_pres:
  assumes inv: "lifecycle_inv w"
  shows "pres w (recover_stale_jobs E timeout m w)"
proof (rule presI)
  fix n w'
  assume r: "recover_stale_jobs E timeout m w = Inr (n, w')"
  then obtain js where f: "fold_res (recover_job E (clock w - timeout) m) js (0, w) = Inr (n, w')"
    by (auto simp: recover_stale_jobs_def Let_def split: if_splits)
  have "keeps w (snd (n, w'))"
  proof (rule fold_res_invariant [where I = "\<lambda>s. keeps w (snd s)", OF f])
    fix i and a b :: "nat \<times> world"
    assume k: "keeps w (snd a)" and r: "recover_job E (clock w - timeout) m i a = Inr b"
    have "keeps (snd a) (snd b)"
      using recover_job_keeps [of E "clock w - timeout" m i "fst a" "snd a" "fst b" "snd b"] r keepsD(1) [OF k]
      by simp
    with k show "keeps w (snd b)" by (rule keeps_trans)
  qed (simp add: keeps_refl inv)
  then show "keeps w w'" by simp
qed

subsection \<open>Building a claimed job\<close>

text \<open>
  What the worker relies on: between its checkpoints other transactions keep the invariant, and the
  generation it builds writes no scope, publication or job row.
\<close>

definition fair_others :: "(nat \<Rightarrow> world \<Rightarrow> world) \<Rightarrow> bool" where
  "fair_others others \<longleftrightarrow> (\<forall>n w. lifecycle_inv w \<longrightarrow> keeps w (others n w))"

definition framed_generation :: "worker_env \<Rightarrow> bool" where
  "framed_generation W \<longleftrightarrow>
     (\<forall>w p w1 cs. build_document_v2_generation W w p = (Generated w1, cs) \<longrightarrow> core_eq w w1)"

lemma finish_build_keeps:
  assumes inv: "lifecycle_inv w" and o: "fair_others others"
  shows "keeps w (snd (snd (snd (finish_build E others i summary artifact created fp w))))"
proof -
  have k1: "keeps w (others 3 w)" using o inv by (simp add: fair_others_def)
  show ?thesis
  proof (cases "build_is_still_running i (others 3 w)")
    case False
    then show ?thesis
      using keeps_then_core [OF k1 core_eq_compensate] by (simp add: finish_build_def Let_def split: prod.split)
  next
    case True
    have k2: "keeps (others 3 w) (others 4 (others 3 w))" using o keepsD(1) [OF k1] by (simp add: fair_others_def)
    note i2 = keepsD(1) [OF k2]
    have k3: "keeps (others 4 (others 3 w)) (snd (committed E (finalize_publication_job E i summary artifact (Some fp)
        (others 4 (others 3 w))) (others 4 (others 3 w))))"
      by (rule committed_keeps [OF i2 finalize_publication_job_pres [OF i2]])
    show ?thesis
      using True keeps_trans [OF keeps_trans [OF k1 k2] k3]
      by (simp add: finish_build_def Let_def split: prod.split)
  qed
qed

lemma build_generation_keeps:
  assumes inv: "lifecycle_inv w" and o: "fair_others others" and g: "framed_generation W"
  shows "keeps w (snd (snd (snd (build_generation E W others i p summary w))))"
proof (cases "get_publication (pub_id p) w")
  case None
  then show ?thesis by (simp add: build_generation_def keeps_refl inv)
next
  case (Some q)
  obtain res created where bg: "build_document_v2_generation W w q = (res, created)" by fastforce
  show ?thesis
  proof (cases "pub_status q = BUILDING \<and> (\<exists>w1. res = Generated w1)")
    case False
    with Some bg show ?thesis
      by (auto simp: build_generation_def keeps_refl inv split: generation_result.splits)
  next
    case True
    then obtain w1 where w1: "res = Generated w1" by blast
    have k1: "keeps w w1"
      using g bg w1 by (intro keeps_core_eq [OF _ inv]) (auto simp: framed_generation_def)
    have k2: "keeps w1 (others 2 w1)" using o keepsD(1) [OF k1] by (simp add: fair_others_def)
    note kk = keeps_trans [OF k1 k2]
    have fin: "keeps w (snd (snd (snd (finish_build E others i summary None created fp (others 2 w1)))))" for fp
      by (rule keeps_trans [OF kk finish_build_keeps [OF keepsD(1) [OF kk] o]])
    have rel: "keeps w w3" if "committed E (release_terminal_document_artifact_references t (others 2 w1))
        (others 2 w1) = (r, w3)" for t r w3
    proof -
      have "pres (others 2 w1) (release_terminal_document_artifact_references t (others 2 w1))"
        by (auto intro!: presI keeps_core_eq [OF _ keepsD(1) [OF k2]] dest: core_eq_release)
      from keeps_trans [OF kk committed_keeps [OF keepsD(1) [OF k2] this]] that show ?thesis
        by (metis snd_conv)
    qed
    have fin': "keeps w (snd (snd (snd (finish_build E others i summary None created fp w3))))"
      if "keeps w w3" for fp w3
      by (rule keeps_trans [OF that finish_build_keeps [OF keepsD(1) [OF that] o]])
    show ?thesis
      using True Some bg w1 kk
      by (auto simp: build_generation_def Let_def fin split: option.split prod.split sum.split intro: rel fin')
  qed
qed

lemma build_attempt_keeps:
  assumes inv: "lifecycle_inv w" and o: "fair_others others" and g: "framed_generation W"
  shows "keeps w (snd (snd (snd (build_attempt E W others j k w))))"
proof -
  let ?w1 = "others 0 w" and ?w2 = "others 1 (others 0 w)"
  have k1: "keeps w ?w1" using o inv by (simp add: fair_others_def)
  have k2: "keeps ?w1 ?w2" using o keepsD(1) [OF k1] by (simp add: fair_others_def)
  note kk = keeps_trans [OF k1 k2]
  have gen: "keeps w (snd (snd (snd (build_generation E W others i p summary ?w2))))" for i p summary
    by (rule keeps_trans [OF kk build_generation_keeps [OF keepsD(1) [OF kk] o g]])
  have art: "keeps w (snd (snd (snd (finish_build E others i summary a cs fp (?w2\<lparr>artifact_files := fs\<rparr>)))))"
    for i summary a cs fp fs
  proof -
    have c: "core_eq ?w2 (?w2\<lparr>artifact_files := fs\<rparr>)" by (simp add: core_eq_def)
    show ?thesis
      by (rule keeps_trans [OF keeps_then_core [OF kk c] finish_build_keeps [OF inv_core_eq [OF c keepsD(1) [OF kk]] o]])
  qed
  show ?thesis
    unfolding build_attempt_def Let_def
    using k1 kk gen art inv by (auto simp: keeps_refl split: sum.splits)
qed

lemma handle_build_error_keeps:
  assumes inv: "lifecycle_inv w"
  shows "keeps w (snd (handle_build_error E i artifact e w))"
proof -
  let ?w1 = "snd (compensate_artifact E artifact w)"
  have c: "core_eq w ?w1" by (rule core_eq_compensate)
  note i1 = inv_core_eq [OF c inv]
  have f: "keeps w (snd (committed E (fail_publication_job E i m cat ?w1) ?w1))" for m cat
    by (rule keeps_trans [OF keeps_core_eq [OF c inv] committed_keeps [OF i1 fail_publication_job_pres [OF i1]]])
  have "keeps w (snd (case compensate_artifact E artifact w of (Inl e1, w1) \<Rightarrow> (Inl e1, w1)
      | (Inr _, w1) \<Rightarrow> committed E (fail_publication_job E i m cat w1) w1))" for m cat
    using f [of m cat] keeps_core_eq [OF c inv]
    by (cases "compensate_artifact E artifact w"; cases "fst (compensate_artifact E artifact w)") simp_all
  then show ?thesis
    by (auto simp: handle_build_error_def Let_def keeps_refl inv split: exn.splits)
qed

lemma remove_unrecorded_keeps:
  assumes inv: "lifecycle_inv w"
  shows "keeps w (remove_unrecorded E c w)"
proof -
  let ?w1 = "snd (schedule_document_artifact_removal (fst c) (snd c) w)"
  have c: "core_eq w ?w1" by simp
  from keeps_trans [OF keeps_core_eq [OF c inv] commit_keeps [OF inv_core_eq [OF c inv]]] show ?thesis
    using inv by (simp add: remove_unrecorded_def keeps_refl)
qed

lemma fold_remove_unrecorded_keeps:
  "lifecycle_inv w \<Longrightarrow> keeps w (fold (remove_unrecorded E) cs w)"
proof (induction cs arbitrary: w)
  case (Cons c cs)
  from keeps_trans [OF remove_unrecorded_keeps [OF Cons.prems]
    Cons.IH [OF keepsD(1) [OF remove_unrecorded_keeps [OF Cons.prems]]]]
  show ?case by simp
qed (simp add: keeps_refl)

lemma build_claimed_job_keeps:
  assumes inv: "lifecycle_inv w" and o: "fair_others others" and g: "framed_generation W"
  shows "keeps w (snd (build_claimed_job E W others i w))"
proof (cases "get_job i w")
  case None
  then show ?thesis by (simp add: build_claimed_job_def keeps_refl inv)
next
  case (Some j)
  show ?thesis
  proof (cases "job_status j = RUNNING \<and> job_build_publication j \<noteq> None")
    case False
    with Some committed_keeps [OF inv fail_publication_job_pres [OF inv]] show ?thesis
      by (auto simp: build_claimed_job_def keeps_refl inv split: option.splits)
  next
    case True
    then obtain k where k: "job_build_publication j = Some k" by auto
    obtain a cs r w1 where ba: "build_attempt E W others j k w = (a, cs, r, w1)" by (metis prod.exhaust)
    have k1: "keeps w w1" using build_attempt_keeps [OF inv o g, of E j k] ba by simp
    let ?h = "case r of Inr _ \<Rightarrow> (Inr (), w1) | Inl e \<Rightarrow> handle_build_error E i a e w1"
    have k2: "keeps w1 (snd ?h)"
      using handle_build_error_keeps [OF keepsD(1) [OF k1]]
      by (auto simp: keeps_refl keepsD(1) [OF k1] split: sum.splits)
    have "snd (build_claimed_job E W others i w) = fold (remove_unrecorded E) cs (snd ?h)"
      using Some True k ba by (simp add: build_claimed_job_def Let_def split: prod.split)
    with keeps_trans [OF keeps_trans [OF k1 k2] fold_remove_unrecorded_keeps [OF keepsD(1) [OF k2]]]
    show ?thesis by simp
  qed
qed

lemma process_next_job_keeps:
  assumes inv: "lifecycle_inv w" and o: "fair_others others" and g: "framed_generation W"
  shows "keeps w (snd (process_next_job E W others w))"
proof -
  obtain r w1 where c: "claim_next_job E w = (r, w1)" by fastforce
  have k: "keeps w w1" using claim_next_job_keeps [OF inv, of E] c by simp
  with keeps_trans [OF k build_claimed_job_keeps [OF keepsD(1) [OF k] o g]] show ?thesis
    by (auto simp: process_next_job_def c split: sum.splits option.splits)
qed

end
