(* ===== verification/Admin_Inv.thy ===== *)
theory Admin_Inv
  imports Worker_Inv
begin

text \<open>
  The administrator's operations keep the lifecycle invariant and evolve the history.
\<close>

lemma fetch_publication_Inr: "fetch_publication i w = Inr p \<Longrightarrow> publication_map w i = Some p \<and> pub_id p = i"
  using publication_map_id by (auto simp: fetch_publication_def of_option_Inr get_is_map)

lemma scope_of_publication_Inr:
  assumes "scope_of_publication p w = Inr s" and "base_inv w" and "publication_map w i = Some p"
  shows "scope_map w (pub_scope_state p) = Some s \<and> scp_id s = pub_scope_state p"
  using locked_scope_Inr [OF assms(1) [unfolded scope_of_publication_def] assms(2)]
    publication_scope [OF assms(2,3) assms(1) [unfolded scope_of_publication_def]] by simp

subsection \<open>Review\<close>

lemma publish_publication_pres:
  assumes inv: "lifecycle_inv w"
  shows "pres w (publish_publication E actor i w)"
proof (rule presI)
  fix r w'
  assume "publish_publication E actor i w = Inr (r, w')"
  then show "keeps w w'"
    unfolding publish_publication_def Let_def
  proof (elim bind_resE, goal_cases)
    case (1 p a b c d s df e f w1 w2 w3)
    have p: "publication_map w i = Some p" "pub_id p = i" using fetch_publication_Inr [OF 1(1)] by auto
    have s: "scope_map w (pub_scope_state p) = Some s" "scp_id s = pub_scope_state p"
      using scope_of_publication_Inr [OF 1(6) lifecycle_inv_base [OF inv] p(1)] by auto
    have "keeps w w3"
      by (rule activate_keeps [OF inv s(1) 1(10) p(1) refl _ 1(11) _ _ 1(12) [unfolded s(2)]])
         (use 1(3) in \<open>simp_all add: frozen_simps require_Inr\<close>)
    moreover have "core_eq w3 w'"
      using 1(13) core_eq_trans [OF core_eq_activation core_eq_publication_event] by auto
    ultimately show ?case by (rule keeps_then_core)
  qed
qed

lemma reject_publication_pres:
  assumes inv: "lifecycle_inv w"
  shows "pres w (reject_publication actor i w)"
proof (rule presI)
  fix r w'
  assume "reject_publication actor i w = Inr (r, w')"
  then show "keeps w w'"
    unfolding reject_publication_def
  proof (elim bind_resE, goal_cases)
    case (1 p a b c w1)
    have p: "publication_map w i = Some p" "pub_status p = READY_FOR_REVIEW"
      using fetch_publication_Inr [OF 1(1)] 1(3) by (auto simp: require_Inr)
    have "keeps w w1"
    proof (rule move_publication [where u = REJECTED, OF inv p(1) 1(5)])
      show "job_build_publication j \<noteq> Some i" if "job_map w k = Some j" "job_status j = PENDING" for k j
        using pending_staged [OF inv that] p by fastforce
    qed (use p(2) in \<open>simp_all add: frozen_simps status_edge.reject\<close>)
    moreover have "core_eq w1 w'" using 1(6) by auto
    ultimately show ?case by (rule keeps_then_core)
  qed
qed

subsection \<open>Rebuild requests and staging\<close>

lemma pres_scope_or_new: "lifecycle_inv w \<Longrightarrow> pres w (scope_or_new d st c w)"
  by (auto intro: presI scope_or_new_keeps)

lemma request_rebuild_pres:
  assumes inv: "lifecycle_inv w"
  shows "pres w (request_rebuild E actor d st c w)"
  unfolding request_rebuild_def Let_def
proof (rule pres_bind_value, rule pres_bind_value, rule pres_bind_value,
    rule pres_bind [OF pres_scope_or_new [OF inv]], unfold prod.case, rule pres_bind_value, rule pres_bind, goal_cases)
  case (1 _ _ _ s w1)
  then show ?case
    using pres_enqueue [of w1 E d st c actor USER_REQUEST None True None]
    by (auto split: sum.splits exn.splits)
next
  case (2 _ _ _ s w1 _ x w2)
  show ?case unfolding prod.case
    by (rule pres_core) (use 2 in \<open>auto split: option.splits\<close>)
qed

lemma stage_publication_update_pres:
  assumes inv: "lifecycle_inv w"
  shows "pres w (stage_publication_update E actor d st c w)"
  unfolding stage_publication_update_def
proof (rule pres_bind_value, rule pres_bind_value, rule pres_bind_value, rule pres_bind, goal_cases)
  case (1 _ _ s)
  show ?case
    by (auto intro!: pres_bind [OF pres_current_source_state [OF inv]] pres_reconcile pres_Inr keeps_refl inv
        split: prod.splits)
next
  case (2 _ _ s x w1)
  obtain clean s1 where x: "x = (clean, s1)" by (cases x)
  show ?case
  proof (cases clean)
    case True
    with 2(5) x show ?thesis by (simp add: pres_Inr keeps_refl)
  next
    case False
    then have c: "clean = False" by simp
    show ?thesis unfolding x prod.case c if_False
    proof (rule pres_bind_value, rule pres_bind_value,
        rule pres_bind [OF pres_enqueue [OF 2(5)]], goal_cases)
      case (1 _ _ q w2)
      then show ?case by (auto intro!: pres_bind_value pres_core)
    qed
  qed
qed

lemma build_staged_publication_pres:
  assumes inv: "lifecycle_inv w"
  shows "pres w (build_staged_publication E actor i w)"
  unfolding build_staged_publication_def
proof (rule pres_bind_value, rule pres_bind_value, rule pres_bind_value, rule pres_bind_value,
    rule pres_bind_value, rule pres_bind_value, rule pres_bind_value, rule pres_bind, goal_cases)
  case (1 s _ locked j pid p _)
  show ?case
    by (auto intro!: pres_bind_value pres_bind [OF pres_reconcile [OF inv]] pres_Inr keeps_refl inv
        split: prod.splits)
next
  case (2 s _ locked j pid p _ x w1)
  then show ?case
    by (auto simp: keeps_refl frozen_simps intro!: pres_Inr keeps_core_eq
        pres_bind_state [OF pres_state_update_job])
qed

subsection \<open>Withdrawing an attempt\<close>

lemma latest_job_of_Some:
  assumes "latest_job_of k w = Some j" and "base_inv w"
  shows "job_map w (job_id j) = Some j \<and> job_build_publication j = Some k"
  using assms first_by_SomeD base_maps(3) by (fastforce simp: latest_job_of_def)

lemma latest_job_of_None:
  assumes "latest_job_of k w = None" and "job_map w i = Some j"
  shows "job_build_publication j \<noteq> Some k"
  using assms map_mem(3) by (fastforce simp: latest_job_of_def first_by_None)

lemma delete_staged_publication_pres:
  assumes inv: "lifecycle_inv w"
  shows "pres w (delete_staged_publication E actor i w)"
proof (rule presI)
  fix r w'
  assume "delete_staged_publication E actor i w = Inr (r, w')"
  then show "keeps w w'"
    unfolding delete_staged_publication_def
  proof (elim bind_resE, goal_cases)
    case (1 p a s b c w1 w2 w3)
    have p: "publication_map w i = Some p" "pub_status p = STAGED"
      using fetch_publication_Inr [OF 1(1)] 1(4) by (auto simp: require_Inr)
    have k2: "keeps w w2"
    proof (cases "latest_job_of i w")
      case None
      with 1(7) have "w2 = w1" by simp
      moreover have "keeps w w1"
        by (rule move_publication [where u = PUB_CANCELLED, OF inv p(1) 1(6)])
           (use p(2) latest_job_of_None [OF None] in \<open>simp_all add: frozen_simps status_edge.withdraw\<close>)
      ultimately show ?thesis by simp
    next
      case (Some j)
      have j: "job_map w (job_id j) = Some j" "job_build_publication j = Some i"
        using latest_job_of_Some [OF Some lifecycle_inv_base [OF inv]] by auto
      from 1(7) Some have uj: "update_job (job_id j) (\<lambda>j. j\<lparr>job_status := JOB_CANCELLED,
          job_completed_at := Some (clock w)\<rparr>) w1 = Inr w2" by simp
      show ?thesis
        by (rule end_attempt [where u = PUB_CANCELLED and st = JOB_CANCELLED,
              OF inv j p(1) _ 1(6) _ _ _ _ _ core_eq_refl uj])
           (use p(2) 1(5) Some in \<open>simp_all add: frozen_simps status_edge.withdraw require_Inr job_active_def\<close>)
    qed
    have "keeps w2 w3"
    proof (cases "pub_dataset_type_code p \<in> FILE_DATASETS")
      case True
      with 1(8) obtain snap fp s1 w4 b s2 where cs: "current_source_state E s w2 = Inr ((snap, fp, s1), w4)"
        and rc: "reconcile_clean_source E s1 fp w4 = Inr ((b, s2), w3)"
        by (auto simp: bind_res_Inr)
      have k4: "keeps w2 w4" using current_source_state_keeps [OF cs keepsD(1) [OF k2]] by simp
      from keeps_trans [OF k4] reconcile_keeps [OF rc keepsD(1) [OF k4]] show ?thesis by simp
    next
      case False
      with 1(8) k2 show ?thesis by (simp add: keeps_refl keepsD(1))
    qed
    then have "keeps w w3" by (rule keeps_trans [OF k2])
    moreover have "core_eq w3 w'" using 1(9) by auto
    ultimately show ?case by (rule keeps_then_core)
  qed
qed

lemma cancel_publication_build_pres:
  assumes inv: "lifecycle_inv w"
  shows "pres w (cancel_publication_build actor i w)"
proof (rule presI)
  fix r w'
  assume "cancel_publication_build actor i w = Inr (r, w')"
  then show "keeps w w'"
    unfolding cancel_publication_build_def
  proof (elim bind_resE, goal_cases)
    case (1 p a s j b c w1 w2 w3)
    have p: "publication_map w i = Some p" "pub_status p = BUILDING"
      using fetch_publication_Inr [OF 1(1)] 1(6) by (auto simp: require_Inr)
    have j: "job_map w (job_id j) = Some j" "job_build_publication j = Some i"
      using latest_job_of_Some [OF _ lifecycle_inv_base [OF inv]] 1(4) by (auto simp: of_option_Inr)
    have "keeps w w3"
      by (rule end_attempt [where u = PUB_CANCELLED and st = JOB_CANCELLED,
            OF inv j p(1) _ 1(7) _ _ _ _ _ core_eq_release_references [OF 1(8)] 1(9)])
         (use p(2) in \<open>simp_all add: frozen_simps status_edge.cancel\<close>)
    moreover have "core_eq w3 w'"
      using 1(10) core_eq_trans [OF core_eq_schedule core_eq_publication_event] by auto
    ultimately show ?case by (rule keeps_then_core)
  qed
qed

lemma cancel_publication_build_status:
  assumes c: "cancel_publication_build actor i w = Inr (x, w')" and inv: "lifecycle_inv w"
  shows "\<exists>q. publication_map w' i = Some q \<and> pub_status q = PUB_CANCELLED"
  using c unfolding cancel_publication_build_def
proof (elim bind_resE, goal_cases)
  case (1 p a s j b c w1 w2 w3)
  have "\<exists>q. publication_map w1 i = Some q \<and> pub_status q = PUB_CANCELLED"
    using publication_effect [OF 1(7)] by fastforce
  moreover have "publication_map w2 = publication_map w1"
    using core_eq_maps [OF core_eq_release_references [OF 1(8)]] by simp
  moreover have "publication_map w3 = publication_map w2"
    using job_effect [OF 1(9)] by fastforce
  moreover have "core_eq w3 w'"
    using 1(10) core_eq_trans [OF core_eq_schedule core_eq_publication_event] by auto
  ultimately show ?case using core_eq_maps [of w3 w'] by simp
qed

subsection \<open>Rollback and deletion\<close>

lemma activate_publication_keeps:
  assumes a: "activate_publication s p actor act w = Inr w'" and inv: "lifecycle_inv w"
    and s: "scope_map w (scp_id s) = Some s"
    and p: "publication_map w (pub_id p) = Some p" "pub_scope_state p = scp_id s" "pub_status p = SUPERSEDED"
  shows "keeps w w'"
  using a unfolding activate_publication_def Let_def
proof (elim bind_resE, goal_cases)
  case (1 w1 w2 w3)
  have "fk_publication (scp_current_published_publication s) w = Some q \<Longrightarrow> pub_id q \<noteq> pub_id p" for q
    using current_publication [OF inv s, of q] p by auto
  then have sp: "supersede_previous (fk_publication (scp_current_published_publication s) w) w = Inr w1"
    using 1(1) by (auto simp: supersede_previous_def split: option.splits if_splits)
  have "keeps w w3"
    by (rule activate_keeps [OF inv s sp p(1,2) _ 1(2) _ _ 1(3)]) (simp_all add: p(3) frozen_simps)
  moreover have "core_eq w3 w'" using 1(4) by auto
  ultimately show ?case by (rule keeps_then_core)
qed

lemma restore_reason_historical:
  assumes "publication_restore_blocked_reason E w p s True = Inr []"
  shows "pub_status p = SUPERSEDED \<and> pub_scope_state p = scp_id s"
proof -
  have "publication_restore_metadata_blocked_reason p s True = Inr []"
    using assms by (auto simp: publication_restore_blocked_reason_def bind_res_Inr split: if_splits)
  then show ?thesis
    by (auto simp: publication_restore_metadata_blocked_reason_def split: if_splits)
qed

lemma rollback_publication_pres:
  assumes inv: "lifecycle_inv w"
  shows "pres w (rollback_publication E actor i w)"
proof (rule presI)
  fix r w'
  assume "rollback_publication E actor i w = Inr (r, w')"
  then show "keeps w w'"
    unfolding rollback_publication_def
  proof (elim bind_resE, goal_cases)
    case (1 p a b s reason c prev d w1)
    have p: "publication_map w i = Some p" "pub_id p = i" using fetch_publication_Inr [OF 1(1)] by auto
    have s: "scope_map w (scp_id s) = Some s"
      using scope_of_publication_Inr [OF 1(4) lifecycle_inv_base [OF inv] p(1)] by simp
    have "pub_status p = SUPERSEDED \<and> pub_scope_state p = scp_id s"
      using 1(5,6) by (intro restore_reason_historical [of E w]) (simp add: require_Inr)
    with activate_publication_keeps [OF 1(9) inv s] p have "keeps w w1" by simp
    moreover have "core_eq w1 w'" using 1(10) by auto
    ultimately show ?case by (rule keeps_then_core)
  qed
qed

lemma activate_publication_status:
  assumes a: "activate_publication s p actor act w = Inr w'" and inv: "lifecycle_inv w"
    and s: "scope_map w (scp_id s) = Some s"
    and p: "publication_map w (pub_id p) = Some p" "pub_scope_state p = scp_id s" "pub_status p = SUPERSEDED"
  shows "status_of w' = (superseded (scp_current_published_publication s) (scp_id s) (status_of w))
           (pub_id p \<mapsto> (PUBLISHED, scp_id s))"
  using a unfolding activate_publication_def Let_def
proof (elim bind_resE, goal_cases)
  case (1 w1 w2 w3)
  have "fk_publication (scp_current_published_publication s) w = Some q \<Longrightarrow> pub_id q \<noteq> pub_id p" for q
    using current_publication [OF inv s, of q] p by auto
  then have sp: "supersede_previous (fk_publication (scp_current_published_publication s) w) w = Inr w1"
    using 1(1) by (auto simp: supersede_previous_def split: option.splits if_splits)
  have "status_of w3 = (superseded (scp_current_published_publication s) (scp_id s) (status_of w))
      (pub_id p \<mapsto> (PUBLISHED, scp_id s))"
    using activate_saves [OF inv s sp p(1,2) _ _ 1(2) _ _ 1(3)]
    by (simp add: p(3) frozen_simps status_edge.restore)
  moreover have "core_eq w3 w'" using 1(4) by auto
  ultimately show ?case by (simp add: status_of_def core_eq_maps)
qed

lemma first_restorable_Some:
  assumes "first_restorable E w s cs = Inr (Some p)"
  shows "p \<in> set cs \<and> publication_restore_blocked_reason E w p s True = Inr []"
  using assms by (induction cs) (auto simp: bind_res_Inr split: if_splits)

lemma eligible_predecessor_Some:
  assumes "eligible_predecessor E w s v = Inr (Some p)"
  shows "p \<in> set (publications w) \<and> pub_scope_state p = scp_id s \<and> pub_status p = SUPERSEDED
    \<and> pub_version_number p < v \<and> publication_restore_blocked_reason E w p s True = Inr []"
  using assms first_restorable_Some by (fastforce simp: eligible_predecessor_def)

lemma replace_active_keeps:
  assumes r: "replace_active E s p actor w = Inr w'" and inv: "lifecycle_inv w"
    and s: "scope_map w (scp_id s) = Some s"
  shows "keeps w w' \<and> status_of w' (pub_id p) = Some (SUPERSEDED, scp_id s)"
  using r unfolding replace_active_def
proof (elim bind_resE, goal_cases)
  case (1 a b found q w1)
  have cur: "scp_current_published_publication s = Some (pub_id p)" using 1(1) by (simp add: require_Inr)
  note q = eligible_predecessor_Some [of E w s "pub_version_number p" q]
  have q: "publication_map w (pub_id q) = Some q" "pub_scope_state q = scp_id s" "pub_status q = SUPERSEDED"
    using q 1(3,4) base_maps(2) [OF lifecycle_inv_base [OF inv]] by (simp_all add: of_option_Inr)
  have "publication_map w (pub_id p) \<noteq> Some q"
    using cur current_publication [OF inv s, of q] q by (auto simp: fk_publication_def get_is_map)
  then have ne: "pub_id p \<noteq> pub_id q" using q by auto
  have "core_eq w1 w'" using 1(6) by auto
  with activate_publication_keeps [OF 1(5) inv s q] activate_publication_status [OF 1(5) inv s q] ne cur
  show ?case using keeps_then_core core_eq_maps by (auto simp: superseded_def status_of_def)
qed

lemma retire_publication_keeps:
  assumes r: "retire_publication q w = Inr w'" and inv: "lifecycle_inv w"
    and st: "status_of w (pub_id q) = Some (SUPERSEDED, sc)"
  shows "keeps w w'"
proof -
  let ?w1 = "snd (revoke_publication_dataset_key_grants q w)"
  have c: "core_eq w ?w1" by simp
  note m = core_eq_maps [OF c] and inv1 = inv_core_eq [OF c inv]
  from st obtain p where p: "publication_map ?w1 (pub_id q) = Some p" "pub_status p = SUPERSEDED"
    using m by (auto simp: status_of_def)
  from r obtain w2 where up: "update_publication (pub_id q) (\<lambda>p. p\<lparr>pub_status := PUB_OBSOLETE,
        pub_source_snapshot := None\<rparr>) ?w1 = Inr w2" and w2: "core_eq w2 w'"
    by (auto simp: retire_publication_def bind_res_Inr Let_def dest: core_eq_release_references)
  have "keeps ?w1 w2"
  proof (rule move_publication [where u = PUB_OBSOLETE, OF inv1 p(1) up])
    show "job_build_publication j \<noteq> Some (pub_id q)" if "job_map ?w1 k = Some j" "job_status j = PENDING" for k j
      using pending_staged [OF inv1 that] p by fastforce
  qed (use p(2) in \<open>simp_all add: frozen_simps status_edge.retire\<close>)
  then show ?thesis
    using keeps_trans [OF keeps_core_eq [OF c inv]] keeps_then_core [OF _ w2] by blast
qed

lemma repoint_latest_built_keeps:
  assumes "repoint_latest_built s i w = Inr w'" and inv: "lifecycle_inv w"
  shows "keeps w w'"
  using assms(1) unfolding repoint_latest_built_def
proof (elim bind_resE, goal_cases)
  case (1 r)
  show ?case
  proof (cases "scp_latest_built_publication r = Some i")
    case True
    with 1(2) have "update_scope s (\<lambda>s. s\<lparr>scp_latest_built_publication := scp_current_published_publication s\<rparr>) w
        = Inr w'" by simp
    then show ?thesis by (rule keeps_update_scope [OF _ inv]) (simp_all add: frozen_simps)
  next
    case False
    with 1(2) inv show ?thesis by (simp add: keeps_refl)
  qed
qed

lemma delete_publication_pres:
  assumes inv: "lifecycle_inv w"
  shows "pres w (delete_publication E actor i w)"
proof (rule presI)
  fix r w'
  assume "delete_publication E actor i w = Inr (r, w')"
  then show "keeps w w'"
    unfolding delete_publication_def
  proof (elim bind_resE, goal_cases)
    case (1 p a b s c w1 w2 w3)
    have p: "publication_map w i = Some p" "pub_id p = i" using fetch_publication_Inr [OF 1(1)] by auto
    have s: "scope_map w (scp_id s) = Some s"
      using scope_of_publication_Inr [OF 1(4) lifecycle_inv_base [OF inv] p(1)] by simp
    have k1: "keeps w w1 \<and> (\<exists>sc. status_of w1 (pub_id p) = Some (SUPERSEDED, sc))"
    proof (cases "pub_status p = PUBLISHED")
      case True
      with 1(6) replace_active_keeps [OF _ inv s] show ?thesis by auto
    next
      case False
      with 1(6) have "w1 = w" "pub_status p = SUPERSEDED" by (auto split: if_splits)
      with p inv show ?thesis by (simp add: keeps_refl status_of_def)
    qed
    then have k2: "keeps w1 w2" using retire_publication_keeps [OF 1(7)] keepsD(1) by blast
    have k3: "keeps w2 w3" by (rule repoint_latest_built_keeps [OF 1(8) keepsD(1) [OF k2]])
    have "keeps w w3" using k1 k2 k3 keeps_trans by blast
    moreover have "core_eq w3 w'"
      using 1(9) core_eq_trans [OF core_eq_schedule core_eq_publication_event] by auto
    ultimately show ?case by (rule keeps_then_core)
  qed
qed

subsection \<open>Bulk rebuilds\<close>

lemma bulk_scope_keeps:
  assumes "bulk_scope E actor d running s (c, w) = Inr (c', w')" and inv: "lifecycle_inv w"
  shows "keeps w w'"
proof -
  have "w' = w \<or> (\<exists>q. enqueue_publication_job E (Some d) (scp_station s) (scp_dataset_type_code s)
          actor BULK_REQUEST None False None w = Inr (q, w'))"
    using assms(1) by (auto simp: bulk_scope_def Let_def bind_res_Inr split: if_splits)
  then show ?thesis using enqueue_keeps [OF _ inv] keeps_refl [OF inv] by blast
qed

lemma bulk_request_rebuilds_pres:
  assumes inv: "lifecycle_inv w"
  shows "pres w (bulk_request_rebuilds E actor d w)"
  unfolding bulk_request_rebuilds_def Let_def
proof (rule pres_bind_value, rule pres_bind, goal_cases)
  case (1 _)
  show ?case
  proof (rule presI)
    fix c w'
    assume f: "fold_res (bulk_scope E actor d (set (map job_scope_state
           (filter (\<lambda>j. job_department j = Some d \<and> job_status j = RUNNING) (jobs w)))))
        (filter (\<lambda>s. scp_department s = Some d) (scope_states w))
       (\<lparr>bulk_created = 0, bulk_promoted = 0, bulk_already_running = 0, bulk_skipped_current = 0\<rparr>, w)
       = Inr (c, w')"
    have "keeps w (snd (c, w'))"
    proof (rule fold_res_invariant [where I = "\<lambda>s. keeps w (snd s)", OF f], goal_cases)
      case (2 x a b)
      have "keeps (snd a) (snd b)"
        using bulk_scope_keeps [OF _ keepsD(1) [OF 2(2)], of E actor d _ x "fst a" "fst b" "snd b"] 2(3) by simp
      with 2(2) show ?case by (rule keeps_trans)
    qed (simp add: keeps_refl inv)
    then show "keeps w w'" by simp
  qed
next
  case (2 _ c w1)
  then show ?case by (auto intro!: pres_core)
qed

end
