(* ===== verification/Retention_Inv.thy ===== *)
theory Retention_Inv
  imports Retention Admin_Inv
begin

text \<open>
  Retention keeps the lifecycle invariant, and protects what it must: the current publication, the
  newest rollback predecessors, and every scope with a live job.
\<close>

text \<open>A retention transaction that changes anything retires a surplus predecessor or drops a frozen source.\<close>

lemma process_candidate_cases:
  assumes p: "process_candidate E i now dry w = Inr (outcome, w')" and ne: "w' \<noteq> w"
  obtains (obsoleted) q s w1 w2 where "publication_map w i = Some q" "scope_map w (pub_scope_state q) = Some s"
      "live_job (scp_id s) w = None" "pub_status q = SUPERSEDED" "scp_current_published_publication s \<noteq> Some i"
      "is_retained_predecessor E w s q = Inr False" "\<not> dry" "outcome = Obsoleted"
      "retire_publication q w = Inr w1" "repoint_latest_built (scp_id s) i w1 = Inr w2"
      "w' = publication_event ''publication.retention_obsoleted'' None q (attempt_metadata q)
          (schedule_artifact_removal (am_path (pub_artifact q)) w2)"
  | (purged) q w1 w2 where "publication_map w i = Some q" "pub_status q \<noteq> SUPERSEDED"
      "update_publication i (\<lambda>p. p\<lparr>pub_source_snapshot := None\<rparr>) w = Inr w1"
      "release_references q w1 = Inr w2" "core_eq w2 w'"
proof -
  from p ne obtain q where q: "publication_map w i = Some q"
    by (auto simp: process_candidate_def get_is_map split: option.splits)
  with p ne obtain s where s: "scope_map w (pub_scope_state q) = Some s"
    by (auto simp: process_candidate_def get_is_map split: option.splits)
  have live: "live_job (scp_id s) w = None"
    using p ne q s by (auto simp: process_candidate_def get_is_map split: if_splits)
  note r = p [unfolded process_candidate_def get_is_map q s option.case, simplified live]
  show thesis
  proof (cases "pub_status q = SUPERSEDED")
    case True
    with r ne have "scp_current_published_publication s \<noteq> Some i
      \<and> is_retained_predecessor E w s q = Inr False \<and> \<not> dry \<and> outcome = Obsoleted
      \<and> (\<exists>w1 w2. retire_publication q w = Inr w1 \<and> repoint_latest_built (scp_id s) i w1 = Inr w2
          \<and> w' = publication_event ''publication.retention_obsoleted'' None q (attempt_metadata q)
              (schedule_artifact_removal (am_path (pub_artifact q)) w2))"
      by (auto simp: bind_res_Inr split: if_splits)
    with True q s live obsoleted show thesis by metis
  next
    case False
    with r ne have "\<exists>w1 w2. update_publication i (\<lambda>p. p\<lparr>pub_source_snapshot := None\<rparr>) w = Inr w1
        \<and> release_references q w1 = Inr w2 \<and> core_eq w2 w'"
      by (auto simp: bind_res_Inr split: if_splits)
    with False q purged show thesis by metis
  qed
qed

lemma process_candidate_pres:
  assumes inv: "lifecycle_inv w"
  shows "pres w (process_candidate E i now dry w)"
proof (rule presI)
  fix outcome w'
  assume p: "process_candidate E i now dry w = Inr (outcome, w')"
  show "keeps w w'"
  proof (cases "w' = w")
    case True
    with inv show ?thesis by (simp add: keeps_refl)
  next
    case False
    from p False show ?thesis
    proof (cases rule: process_candidate_cases)
      case (obsoleted q s w1 w2)
      have "pub_id q = i" by (rule publication_map_id [OF obsoleted(1)])
      then have "status_of w (pub_id q) = Some (SUPERSEDED, pub_scope_state q)"
        using status_of_publication [OF obsoleted(1)] obsoleted(4) by simp
      from retire_publication_keeps [OF obsoleted(9) inv this] repoint_latest_built_keeps [OF obsoleted(10)]
      have "keeps w w2" using keeps_trans keepsD(1) by blast
      then show ?thesis
        unfolding obsoleted(11) using keeps_then_core core_eq_trans [OF core_eq_schedule core_eq_publication_event] by blast
    next
      case (purged q w1 w2)
      have "keeps w w1" by (rule keeps_update_publication [OF purged(3) inv]) (simp_all add: frozen_simps)
      then show ?thesis using keeps_then_core core_eq_trans [OF core_eq_release_references [OF purged(4)] purged(5)] by blast
    qed
  qed
qed

lemma process_candidates_keep:
  "lifecycle_inv w \<Longrightarrow> keeps w (snd (process_candidates E now dry ids r w))"
proof (induction ids arbitrary: r w)
  case (Cons i ids)
  show ?case
  proof (cases "process_candidate E i now dry w")
    case (Inl e)
    then show ?thesis by (simp add: keeps_refl Cons.prems)
  next
    case (Inr x)
    obtain outcome w1 where x: "x = (outcome, w1)" by (cases x)
    obtain e w2 where c: "commit E w1 = (e, w2)" by fastforce
    have k1: "keeps w w1" using presD [OF process_candidate_pres [OF Cons.prems]] Inr x by simp
    have k2: "keeps w w2" using keeps_trans [OF k1 commit_keeps [OF keepsD(1) [OF k1]], of E] c by simp
    show ?thesis
      using Inr x c k2 keeps_trans [OF k2 Cons.IH [OF keepsD(1) [OF k2]]] by (simp split: option.split)
  qed
qed (simp add: keeps_refl)

lemma run_publication_retention_keeps:
  "lifecycle_inv w \<Longrightarrow> keeps w (snd (run_publication_retention E b now dry w))"
  by (auto simp: run_publication_retention_def Let_def keeps_refl process_candidates_keep split: sum.split)

end
