(* ===== verification/Lifecycle_System.thy ===== *)
theory Lifecycle_System
  imports Retention_Inv
begin

text \<open>
  The publication subsystem as a transition system.  A step is one service transaction with the
  functions it registered for after its commit, or a change elsewhere in the database, the clock or
  the canonical sources.  A transaction that raises changes nothing.  The worker's build of a claimed
  job appears as its separate transactions (heartbeat, finalise, fail), interleaved with the
  others in any order.  Other components write the publication tables in two more ways: ingestion and the
  file library create scope rows (apps/ingestion/services.py, \<open>_locked_dangerous_goods_scope\<close>, and
  apps/file_library/publication.py, \<open>lock_scope\<close>), and \<open>cleanup_stale_artifacts\<close>
  (apps/publications/artifacts.py) clears the artifact path of a publication whose file is gone.
\<close>

text \<open>Everything but the publication tables may change, and identifiers are never reissued.\<close>

definition elsewhere :: "world \<Rightarrow> world \<Rightarrow> bool" where
  "elsewhere w w' \<longleftrightarrow>
     scope_states w' = scope_states w \<and> publications w' = publications w \<and> jobs w' = jobs w
     \<and> next_id w \<le> next_id w' \<and> on_commit w' = on_commit w"

inductive lifecycle_step :: "env \<Rightarrow> world \<Rightarrow> world \<Rightarrow> bool" for E :: env where
  dirty: "lifecycle_step E w (snd (committed E (mark_dirty E d st c actor w) w))"
| enqueue: "lifecycle_step E w
     (snd (committed E (enqueue_publication_job E d st c rb tr db al given w) w))"
| claim: "lifecycle_step E w (snd (claim_next_job E w))"
| heartbeat: "lifecycle_step E w (snd (committed E (heartbeat_job i w) w))"
| finalize: "lifecycle_step E w
     (snd (committed E (finalize_publication_job E i summary artifact fp w) w))"
| fail: "lifecycle_step E w (snd (committed E (fail_publication_job E i msg cat w) w))"
| recover: "lifecycle_step E w (snd (committed E (recover_stale_jobs E timeout m w) w))"
| publish: "lifecycle_step E w (snd (committed E (publish_publication E actor i w) w))"
| reject: "lifecycle_step E w (snd (committed E (reject_publication actor i w) w))"
| rebuild: "lifecycle_step E w (snd (committed E (request_rebuild E actor d st c w) w))"
| stage: "lifecycle_step E w (snd (committed E (stage_publication_update E actor d st c w) w))"
| build_now: "lifecycle_step E w (snd (committed E (build_staged_publication E actor i w) w))"
| delete_staged: "lifecycle_step E w (snd (committed E (delete_staged_publication E actor i w) w))"
| cancel: "lifecycle_step E w (snd (committed E (cancel_publication_build actor i w) w))"
| rollback: "lifecycle_step E w (snd (committed E (rollback_publication E actor i w) w))"
| delete: "lifecycle_step E w (snd (committed E (delete_publication E actor i w) w))"
| bulk: "lifecycle_step E w (snd (committed E (bulk_request_rebuilds E actor dep w) w))"
| retention: "lifecycle_step E w (snd (run_publication_retention E b now dry w))"
| new_scope_row: "create_scope s (w\<lparr>next_id := Suc (next_id w)\<rparr>) = Inr w' \<Longrightarrow> scp_id s = next_id w
     \<Longrightarrow> scp_current_published_publication s = None
     \<Longrightarrow> registered_scope_type (scp_dataset_type_code s) = Inr (scp_scope_type s) \<Longrightarrow> lifecycle_step E w w'"
| path_cleared: "update_publication i (\<lambda>p. p\<lparr>pub_artifact := (pub_artifact p)\<lparr>am_path := []\<rparr>\<rparr>) w = Inr w'
     \<Longrightarrow> lifecycle_step E w w'"
| other: "elsewhere w w' \<Longrightarrow> lifecycle_step E w w'"

abbreviation lifecycle_steps :: "env \<Rightarrow> world \<Rightarrow> world \<Rightarrow> bool" where
  "lifecycle_steps E \<equiv> (lifecycle_step E)\<^sup>*\<^sup>*"

definition empty_tables :: "world \<Rightarrow> bool" where
  "empty_tables w \<longleftrightarrow> scope_states w = [] \<and> publications w = [] \<and> jobs w = []"

definition reachable :: "env \<Rightarrow> world \<Rightarrow> bool" where
  "reachable E w \<longleftrightarrow> (\<exists>w0. empty_tables w0 \<and> lifecycle_steps E w0 w)"

lemma empty_tables_inv: "empty_tables w \<Longrightarrow> lifecycle_inv w"
  by (simp add: empty_tables_def lifecycle_inv_def base_inv_def attempt_inv_def current_inv_def link_inv_def
      unique_link_inv_def running_inv_def building_inv_def pending_inv_def current_of_def status_of_def
      attempt_of_def scope_map_def publication_map_def job_map_def get_scope_def get_publication_def get_job_def
      row_get_def scope_state_constraints_def publication_constraints_def job_constraints_def)

lemma elsewhere_keeps:
  assumes e: "elsewhere w w'" and inv: "lifecycle_inv w"
  shows "keeps w w'"
proof -
  have m: "scope_map w' = scope_map w" "publication_map w' = publication_map w" "job_map w' = job_map w"
    using e by (simp_all add: elsewhere_def scope_map_def publication_map_def job_map_def get_scope_def
        get_publication_def get_job_def)
  have "base_inv w'"
    using lifecycle_inv_base [OF inv] e m by (fastforce simp: base_inv_def elsewhere_def owned_def)
  then show ?thesis
    using inv m e
    by (auto simp: keeps_def lifecycle_inv_def current_of_def status_of_def attempt_of_def evolves_def owned_def
        elsewhere_def)
qed

lemmas service_pres = mark_dirty_pres pres_enqueue heartbeat_pres finalize_publication_job_pres
  fail_publication_job_pres recover_stale_jobs_pres publish_publication_pres reject_publication_pres
  request_rebuild_pres stage_publication_update_pres build_staged_publication_pres
  delete_staged_publication_pres cancel_publication_build_pres rollback_publication_pres
  delete_publication_pres bulk_request_rebuilds_pres

lemma path_cleared_keeps:
  assumes "update_publication i (\<lambda>p. p\<lparr>pub_artifact := (pub_artifact p)\<lparr>am_path := []\<rparr>\<rparr>) w = Inr w'" and "lifecycle_inv w"
  shows "keeps w w'"
  by (rule keeps_update_publication [OF assms]) (simp_all add: frozen_defs)

lemma step_keeps:
  assumes "lifecycle_step E w w'" and "lifecycle_inv w"
  shows "keeps w w'"
  using assms
  by (cases rule: lifecycle_step.cases)
     (auto intro: committed_keeps service_pres claim_next_job_keeps run_publication_retention_keeps
       elsewhere_keeps path_cleared_keeps conjunct1 [OF create_new_scope_keeps [OF _ _ _ refl]])

lemma steps_keep:
  assumes "lifecycle_steps E w w'" and "lifecycle_inv w"
  shows "keeps w w'"
  using assms
  by (induction rule: rtranclp_induct) (auto simp: keeps_refl intro: keeps_trans step_keeps keepsD(1))

lemma reachable_inv: "reachable E w \<Longrightarrow> lifecycle_inv w"
  using steps_keep empty_tables_inv keepsD(1) by (fastforce simp: reachable_def)

end
