(* ===== verification/Scope_State.thy ===== *)
theory Scope_State
  imports Lifecycle_Base
begin

text \<open>
  apps/publications/state.py: the one operational state per scope the Publications pages show, the
  rows and cards built from it, and the counters.  Labels and badges are the source's strings.
\<close>

datatype operational_state =
    CURRENT | NOT_PUBLISHED | UPDATE_QUEUED | QUEUED | OP_BUILDING | READY_TO_PUBLISH | NEEDS_REBUILD
  | OP_FAILED

definition STATES :: "operational_state list" where
  "STATES = [CURRENT, NOT_PUBLISHED, UPDATE_QUEUED, QUEUED, OP_BUILDING, READY_TO_PUBLISH, NEEDS_REBUILD,
     OP_FAILED]"

definition STAGED_POLL_GRACE_PERIOD :: int where
  "STAGED_POLL_GRACE_PERIOD = 20 * usec_per_second"

fun STATE_LABELS :: "operational_state \<Rightarrow> string" where
  "STATE_LABELS CURRENT = ''Current''"
| "STATE_LABELS NOT_PUBLISHED = ''Not published''"
| "STATE_LABELS UPDATE_QUEUED = ''Update queued''"
| "STATE_LABELS QUEUED = ''Queued''"
| "STATE_LABELS OP_BUILDING = ''Building''"
| "STATE_LABELS READY_TO_PUBLISH = ''Ready to publish''"
| "STATE_LABELS NEEDS_REBUILD = ''Update required''"
| "STATE_LABELS OP_FAILED = ''Failed''"

fun STATE_BADGE :: "operational_state \<Rightarrow> string" where
  "STATE_BADGE CURRENT = ''success''"
| "STATE_BADGE NOT_PUBLISHED = ''secondary''"
| "STATE_BADGE UPDATE_QUEUED = ''info''"
| "STATE_BADGE QUEUED = ''info''"
| "STATE_BADGE OP_BUILDING = ''info''"
| "STATE_BADGE READY_TO_PUBLISH = ''warning''"
| "STATE_BADGE NEEDS_REBUILD = ''warning''"
| "STATE_BADGE OP_FAILED = ''danger''"

fun CURRENT_UPDATE_LABELS :: "operational_state \<Rightarrow> string option" where
  "CURRENT_UPDATE_LABELS UPDATE_QUEUED = Some ''Update scheduled''"
| "CURRENT_UPDATE_LABELS QUEUED = Some ''Update scheduled''"
| "CURRENT_UPDATE_LABELS OP_BUILDING = Some ''Building update''"
| "CURRENT_UPDATE_LABELS OP_FAILED = Some ''Update failed''"
| "CURRENT_UPDATE_LABELS NEEDS_REBUILD = Some ''Update required''"
| "CURRENT_UPDATE_LABELS _ = None"

definition compute_scope_state ::
  "bool \<Rightarrow> publication_status option \<Rightarrow> publication_status option \<Rightarrow> bool \<Rightarrow> job_status option
   \<Rightarrow> timestamp option \<Rightarrow> timestamp \<Rightarrow> string option \<Rightarrow> string option \<Rightarrow> operational_state" where
  "compute_scope_state dirty latest_status latest_built_status current_published active_job_status
       active_job_not_before now latest_source_fingerprint current_source_fingerprint =
     (if active_job_status = Some RUNNING then OP_BUILDING
      else if active_job_status = Some PENDING then
        (case active_job_not_before of
           Some t \<Rightarrow> if t > now then UPDATE_QUEUED else QUEUED
         | None \<Rightarrow> QUEUED)
      else if latest_status = Some BUILDING then OP_BUILDING
      else if latest_status = Some STAGED then UPDATE_QUEUED
      else if latest_status = Some PUB_FAILED \<and> dirty
           \<and> (latest_source_fingerprint = None \<or> latest_source_fingerprint = Some []
              \<or> latest_source_fingerprint = current_source_fingerprint)
      then OP_FAILED
      else if latest_built_status = Some READY_FOR_REVIEW then READY_TO_PUBLISH
      else if dirty then NEEDS_REBUILD
      else if current_published then CURRENT
      else NOT_PUBLISHED)"

subsection \<open>Inputs\<close>

text \<open>\<open>publication_scope_queryset\<close>: ordered by dataset, station name and id; missing names sort last.\<close>

definition station_name :: "world \<Rightarrow> scope_state \<Rightarrow> string option" where
  "station_name w s =
     (case scp_station s of None \<Rightarrow> None | Some i \<Rightarrow> map_option sta_name (row_get sta_id i (stations w)))"

definition publication_scope_queryset :: "nat option \<Rightarrow> bool \<Rightarrow> world \<Rightarrow> scope_state list" where
  "publication_scope_queryset department include_station w =
     (let rows = sort_key scp_id (filter (\<lambda>s. scp_department s = department) (scope_states w)) in
      sort_key scp_dataset_type_code
        (if include_station
         then sort_key (\<lambda>s. if station_name w s = None then 1 else 0 :: nat)
                (sort_key (\<lambda>s. case station_name w s of None \<Rightarrow> [] | Some n \<Rightarrow> n) rows)
         else rows))"

definition latest_of_scope :: "nat \<Rightarrow> world \<Rightarrow> publication option" where
  "latest_of_scope scope w =
     first_by (\<lambda>p. - int (pub_version_number p)) (\<lambda>p. pub_scope_state p = scope) (publications w)"

text \<open>\<open>{job.scope_state_id: job for job in ...}\<close>: of several active jobs the last one read would win.\<close>

definition active_job_of_scope :: "nat \<Rightarrow> world \<Rightarrow> publication_job option" where
  "active_job_of_scope scope w =
     (case rev (filter (\<lambda>j. job_scope_state j = scope \<and> job_active j) (jobs w)) of
        [] \<Rightarrow> None | j # _ \<Rightarrow> Some j)"

record scope_inputs =
  in_latest :: "publication option"
  in_job :: "publication_job option"
  in_latest_built :: "publication option"
  in_current :: "publication option"
  in_fingerprint :: string
  in_dirty :: bool

definition scope_state_inputs :: "world \<Rightarrow> scope_state \<Rightarrow> scope_inputs" where
  "scope_state_inputs w scope =
     (let current = fk_publication (scp_current_published_publication scope) w;
          fingerprint = scp_current_source_fingerprint scope
      in \<lparr>in_latest = latest_of_scope (scp_id scope) w, in_job = active_job_of_scope (scp_id scope) w,
          in_latest_built = fk_publication (scp_latest_built_publication scope) w,
          in_current = current, in_fingerprint = fingerprint,
          in_dirty =
            (case current of
               None \<Rightarrow> True
             | Some p \<Rightarrow> if fingerprint \<noteq> [] \<and> pub_source_fingerprint p \<noteq> []
                         then fingerprint \<noteq> pub_source_fingerprint p else True)\<rparr>)"

definition state_of_inputs :: "timestamp \<Rightarrow> scope_inputs \<Rightarrow> operational_state" where
  "state_of_inputs now v =
     compute_scope_state (in_dirty v) (map_option pub_status (in_latest v))
       (map_option pub_status (in_latest_built v)) (in_current v \<noteq> None)
       (map_option job_status (in_job v)) (Option.bind (in_job v) job_not_before) now
       (map_option pub_source_fingerprint (in_latest v)) (Some (in_fingerprint v))"

definition scope_operational_state :: "world \<Rightarrow> timestamp \<Rightarrow> scope_state \<Rightarrow> operational_state" where
  "scope_operational_state w now scope = state_of_inputs now (scope_state_inputs w scope)"

subsection \<open>Rows\<close>

record state_row =
  row_scope_id :: nat
  row_dataset_type_code :: string
  row_dataset_name :: string
  row_scope_label :: string
  row_station_short_code :: string
  row_scope_display_name :: string
  row_state :: operational_state
  row_state_label :: string
  row_state_badge :: string
  row_source_revision :: int
  row_source_fingerprint :: string
  row_is_dirty :: bool
  row_distributed_version :: "nat option"
  row_current_published_at :: "timestamp option"
  row_latest_built_version :: "nat option"
  row_latest_built_status :: "publication_status option"
  row_latest_built_publication_id :: "nat option"
  row_latest_publication_id :: "nat option"
  row_latest_publication_version :: "nat option"
  row_current_published_publication_id :: "nat option"
  row_current_snapshot_retained :: bool
  row_latest_snapshot_retained :: bool
  row_current_update_label :: "string option"
  row_current_update_badge :: "string option"
  row_build_error :: "string option"
  row_last_activity :: timestamp
  row_active_job_status :: "job_status option"
  row_active_job_trigger_type :: "trigger_type option"
  row_active_job_not_before :: "timestamp option"
  row_active_job_publication_id :: "nat option"
  row_active_job_publication_version :: "nat option"
  row_should_poll :: bool

definition should_poll :: "operational_state \<Rightarrow> publication_job option \<Rightarrow> timestamp \<Rightarrow> bool" where
  "should_poll state job now =
     (state = OP_BUILDING
      \<or> ((state = UPDATE_QUEUED \<or> state = QUEUED)
         \<and> (case Option.bind job job_not_before of
              None \<Rightarrow> False
            | Some t \<Rightarrow> t \<le> now \<and> now - t \<le> STAGED_POLL_GRACE_PERIOD)))"

definition middle_dot :: char where "middle_dot = char_of (183::nat)"

definition scope_row :: "world \<Rightarrow> timestamp \<Rightarrow> scope_state \<Rightarrow> state_row res" where
  "scope_row w now scope =
     bind_res (get_dataset_definition (scp_dataset_type_code scope)) (\<lambda>definition.
       let v = scope_state_inputs w scope;
           state = state_of_inputs now v;
           station = Option.bind (scp_station scope) (\<lambda>i. row_get sta_id i (stations w));
           current = in_current v; latest = in_latest v; built = in_latest_built v; job = in_job v
       in Inr \<lparr>row_scope_id = scp_id scope, row_dataset_type_code = scp_dataset_type_code scope,
            row_dataset_name = dt_display_name definition,
            row_scope_label = (if scp_scope_type scope = SYSTEM then ''System''
              else case station of Some s \<Rightarrow> sta_name s | None \<Rightarrow> ''Department''),
            row_station_short_code = (case station of Some s \<Rightarrow> sta_short_code s | None \<Rightarrow> []),
            row_scope_display_name = (case station of
                Some s \<Rightarrow> dt_display_name definition @ '' '' @ [middle_dot] @ '' '' @ sta_short_code s
              | None \<Rightarrow> dt_display_name definition),
            row_state = state, row_state_label = STATE_LABELS state, row_state_badge = STATE_BADGE state,
            row_source_revision = scp_source_revision scope, row_source_fingerprint = in_fingerprint v,
            row_is_dirty = in_dirty v, row_distributed_version = map_option pub_version_number current,
            row_current_published_at = Option.bind current pub_published_at,
            row_latest_built_version = map_option pub_version_number built,
            row_latest_built_status = map_option pub_status built,
            row_latest_built_publication_id = map_option pub_id built,
            row_latest_publication_id = map_option pub_id latest,
            row_latest_publication_version = map_option pub_version_number latest,
            row_current_published_publication_id = map_option pub_id current,
            row_current_snapshot_retained = (case current of None \<Rightarrow> False | Some p \<Rightarrow> pub_source_snapshot p \<noteq> None),
            row_latest_snapshot_retained = (case latest of None \<Rightarrow> False | Some p \<Rightarrow> pub_source_snapshot p \<noteq> None),
            row_current_update_label = (if current = None then None else CURRENT_UPDATE_LABELS state),
            row_current_update_badge = (if current \<noteq> None \<and> state \<noteq> CURRENT then Some (STATE_BADGE state) else None),
            row_build_error = (if state = OP_FAILED then map_option pub_build_error latest else None),
            row_last_activity = (case latest of None \<Rightarrow> scp_updated_at scope | Some p \<Rightarrow> pub_created_at p),
            row_active_job_status = map_option job_status job,
            row_active_job_trigger_type = map_option job_trigger_type job,
            row_active_job_not_before = Option.bind job job_not_before,
            row_active_job_publication_id = Option.bind job job_build_publication,
            row_active_job_publication_version =
              map_option pub_version_number (fk_publication (Option.bind job job_build_publication) w),
            row_should_poll = should_poll state job now\<rparr>)"

fun scope_operational_states_for_scopes :: "world \<Rightarrow> timestamp \<Rightarrow> scope_state list \<Rightarrow> state_row list res" where
  "scope_operational_states_for_scopes w now [] = Inr []"
| "scope_operational_states_for_scopes w now (s # ss) =
     bind_res (scope_row w now s) (\<lambda>row.
     bind_res (scope_operational_states_for_scopes w now ss) (\<lambda>rows. Inr (row # rows)))"

definition scope_states_for_attention ::
  "world \<Rightarrow> timestamp \<Rightarrow> scope_state list \<Rightarrow> (scope_state \<times> operational_state) list" where
  "scope_states_for_attention w now scopes = map (\<lambda>s. (s, scope_operational_state w now s)) scopes"

definition scope_operational_states ::
  "nat option \<Rightarrow> nat list option \<Rightarrow> timestamp \<Rightarrow> world \<Rightarrow> state_row list res" where
  "scope_operational_states department scope_ids now w =
     scope_operational_states_for_scopes w now
       (filter (\<lambda>s. case scope_ids of None \<Rightarrow> True | Some ids \<Rightarrow> scp_id s \<in> set ids)
         (publication_scope_queryset department True w))"

definition operational_summary :: "state_row list \<Rightarrow> (operational_state \<times> nat) list \<times> nat" where
  "operational_summary rows =
     (map (\<lambda>k. (k, length (filter (\<lambda>r. row_state r = k) rows))) STATES, length rows)"

subsection \<open>Dataset cards\<close>

fun state_priority :: "operational_state \<Rightarrow> nat" where
  "state_priority OP_BUILDING = 6"
| "state_priority UPDATE_QUEUED = 5"
| "state_priority QUEUED = 5"
| "state_priority OP_FAILED = 4"
| "state_priority NEEDS_REBUILD = 3"
| "state_priority READY_TO_PUBLISH = 2"
| "state_priority CURRENT = 1"
| "state_priority NOT_PUBLISHED = 0"

record dataset_card =
  card_distributed_version :: "nat option"
  card_state :: operational_state
  card_state_label :: string
  card_current_update_label :: "string option"
  card_scope_count :: nat
  card_published_scope_count :: nat

definition empty_card :: dataset_card where
  "empty_card =
     \<lparr>card_distributed_version = None, card_state = NOT_PUBLISHED,
      card_state_label = STATE_LABELS NOT_PUBLISHED, card_current_update_label = None,
      card_scope_count = 0, card_published_scope_count = 0\<rparr>"

definition add_scope_to_card :: "world \<Rightarrow> timestamp \<Rightarrow> scope_state \<Rightarrow> dataset_card \<Rightarrow> dataset_card" where
  "add_scope_to_card w now scope summary =
     (let v = scope_state_inputs w scope;
          state = state_of_inputs now v;
          summary1 = summary\<lparr>card_scope_count := card_scope_count summary + 1\<rparr>;
          summary2 = (case in_current v of
             None \<Rightarrow> summary1
           | Some p \<Rightarrow>
               let summary' = summary1\<lparr>card_published_scope_count := card_published_scope_count summary1 + 1\<rparr> in
               (case card_distributed_version summary' of
                  None \<Rightarrow> summary'\<lparr>card_distributed_version := Some (pub_version_number p)\<rparr>
                | Some n \<Rightarrow> if pub_version_number p > n
                            then summary'\<lparr>card_distributed_version := Some (pub_version_number p)\<rparr> else summary'))
      in if state_priority state > state_priority (card_state summary2)
         then summary2\<lparr>card_state := state\<rparr> else summary2)"

definition close_card :: "dataset_card \<Rightarrow> dataset_card" where
  "close_card summary =
     (let summary1 = (if card_distributed_version summary = None then summary\<lparr>card_state := NOT_PUBLISHED\<rparr> else summary)
      in summary1\<lparr>card_state_label := STATE_LABELS (card_state summary1),
           card_current_update_label :=
             (if card_distributed_version summary1 \<noteq> None then CURRENT_UPDATE_LABELS (card_state summary1) else None)\<rparr>)"

text \<open>The summaries dictionary, keyed by dataset code in first-seen order.\<close>

definition dataset_publication_summaries ::
  "nat option \<Rightarrow> string list option \<Rightarrow> timestamp \<Rightarrow> world \<Rightarrow> (string \<times> dataset_card) list" where
  "dataset_publication_summaries department dataset_type_codes now w =
     (let scopes = filter (\<lambda>s. case dataset_type_codes of None \<Rightarrow> True | Some cs \<Rightarrow> scp_dataset_type_code s \<in> set cs)
            (publication_scope_queryset department False w)
      in map (\<lambda>c. (c, close_card (fold (add_scope_to_card w now)
               (filter (\<lambda>s. scp_dataset_type_code s = c) scopes) empty_card)))
           (rev (remdups (rev (map scp_dataset_type_code scopes)))))"

end
