(* ===== verification/Scenario.thy ===== *)
theory Scenario
  imports Lifecycle_System Scope_State
begin

text \<open>
  A small concrete deployment on which the theorems are applied: one department with a station, a
  department administrator, and the hydrant dataset taken through two publications.  SHA-256 is
  instantiated by the identity, which is all the fingerprint comparisons need.
\<close>

definition demo_env :: env where
  "demo_env =
     \<lparr>sha256_hex = (\<lambda>s. s), unlink_fault = (\<lambda>_. False), unlink_error = (\<lambda>_. False), generation_error = (\<lambda>_ _ _. None),
      RETAINED_ROLLBACK_PREDECESSORS = 2, RESTORE_AWARE_ENABLED = False,
      TERMINAL_SNAPSHOT_RETENTION_DAYS = 30, RETENTION_BATCH_SIZE = 100, SUMMARY_MAX_ITEMS = 1000\<rparr>"

definition demo_admin :: "nat option" where "demo_admin = Some 7"

definition hydrant_source :: "int \<Rightarrow> json" where
  "hydrant_source n = JObj [(''features'', JInt n)]"

definition demo_world :: world where
  "demo_world =
     \<lparr>clock = 1000, next_id = 100,
      users = [\<lparr>usr_id = 7, usr_email = ''a'', usr_display_name = ''A'', usr_is_active = True,
        usr_is_staff = False, usr_mfa_enabled = True, usr_created_at = 0\<rparr>],
      departments = [\<lparr>dep_id = 1, dep_name = ''D'', dep_short_code = ''D'', dep_status = DEP_ACTIVE,
        dep_tablet_lease_days = 7, dep_asset_number_auto_enabled = False, dep_asset_number_prefix = [],
        dep_asset_number_width = 4, dep_asset_number_sequence = 0, dep_locale = ''de'', dep_timezone = ''UTC'',
        dep_created_at = 0, dep_created_by = Some 1\<rparr>],
      stations = [\<lparr>sta_id = 2, sta_department = 1, sta_name = ''S'', sta_short_code = ''S'', sta_active = True\<rparr>],
      system_roles = [],
      memberships = [\<lparr>mem_id = 3, mem_user = 7, mem_department = 1, mem_status = ROLE_ACTIVE,
        mem_created_at = 0, mem_created_by = Some 1, mem_revoked_at = None, mem_revoked_by = None,
        mem_suspended_at = None, mem_suspended_by = None\<rparr>],
      station_admins = [], temporary_accesses = [], scope_states = [], publications = [], jobs = [],
      activations = [], dataset_key_grants = [], generation_key_grants = [], document_artifacts = [],
      artifact_references = [], artifact_cleanups = [], generation_keys = [], generation_manifests = [],
      publication_contents = [], library_contents = [], audit_log = [], on_commit = [], artifact_files = [],
      wakes = 0, sources = (\<lambda>_ _ _. Inr (hydrant_source 1))\<rparr>"

definition later :: "timestamp \<Rightarrow> world \<Rightarrow> world" where
  "later t w = w\<lparr>clock := t\<rparr>"

definition demo_dirty :: world where
  "demo_dirty = snd (committed demo_env
     (mark_dirty demo_env (Some 1) None ''department_hydrants'' demo_admin demo_world) demo_world)"

definition demo_due :: world where "demo_due = later 400000000 demo_dirty"

definition demo_running :: world where "demo_running = snd (claim_next_job demo_env demo_due)"

definition demo_artifact :: "string \<Rightarrow> artifact_meta" where
  "demo_artifact path =
     \<lparr>am_path = path, am_size = Some 10, am_sha256 = replicate 64 (CHR ''0''), am_nonce = Some ''n'',
      am_wrapped_cek = Some ''k'', am_encryption_algorithm = ''AES-256-GCM'',
      am_wrapping_algorithm = ''AES-KW-RFC3394'', am_kek_version = ''1'', am_signature = Some ''s'',
      am_signature_algorithm = ''Ed25519'', am_signing_key_version = ''1''\<rparr>"

definition demo_summary :: "int \<Rightarrow> json" where
  "demo_summary revision =
     JObj [(''active_count'', JInt 3), (''source_revision'', JInt revision), (''status_counts'', JObj [])]"

definition demo_published :: world where
  "demo_published = snd (committed demo_env (finalize_publication_job demo_env 101 (demo_summary 1)
     (Some (demo_artifact ''1/102/artifact.bin'')) None demo_running) demo_running)"

text \<open>Continuations: an administrator requests a rebuild, or cancels the running build.\<close>

definition demo_rebuilt :: world where
  "demo_rebuilt = snd (committed demo_env (request_rebuild demo_env demo_admin (Some 1) None
     ''department_hydrants'' demo_published) demo_published)"

definition demo_cancelled :: world where
  "demo_cancelled = snd (committed demo_env (cancel_publication_build demo_admin 102 demo_running) demo_running)"

text \<open>A scope with a superseded first and a current second version, and key grants on the latter.\<close>

definition demo_publication :: "nat \<Rightarrow> nat \<Rightarrow> publication_status \<Rightarrow> publication" where
  "demo_publication i version status =
     \<lparr>pub_id = i, pub_scope_type = DEPARTMENT, pub_department = Some 1, pub_station = None,
      pub_dataset_type_code = ''department_hydrants'', pub_scope_state = 10, pub_version_number = version,
      pub_schema_version = 1, pub_source_revision = int version,
      pub_source_fingerprint = json_bytes (hydrant_source (int version)),
      pub_source_snapshot = Some (hydrant_source (int version)), pub_status = status,
      pub_build_summary = demo_summary (int version), pub_change_summary = JObj [], pub_artifact_ready = True,
      pub_artifact_status = ART_READY,
      pub_artifact = demo_artifact (''1/'' @ dec_nat i @ ''/artifact.bin''), pub_created_at = int version,
      pub_created_by = None, pub_published_at = Some (int version), pub_published_by = None,
      pub_supersedes = None, pub_build_error = []\<rparr>"

definition demo_scope :: "nat option \<Rightarrow> scope_state" where
  "demo_scope current =
     \<lparr>scp_id = 10, scp_scope_type = DEPARTMENT, scp_department = Some 1, scp_station = None,
      scp_dataset_type_code = ''department_hydrants'', scp_source_revision = 2,
      scp_current_source_fingerprint = json_bytes (hydrant_source 2), scp_dirty_since = None,
      scp_latest_built_publication = current, scp_current_published_publication = current,
      scp_updated_at = 2\<rparr>"

definition demo_two :: world where
  "demo_two = demo_world\<lparr>scope_states := [demo_scope (Some 12)],
     publications := [demo_publication 11 1 SUPERSEDED, demo_publication 12 2 PUBLISHED],
     dataset_key_grants := [\<lparr>kg_id = 50, kg_publication = 12, kg_app_installation = 60,
       kg_status = GRANT_READY, kg_revoked_at = None\<rparr>],
     artifact_files := [''1/11/artifact.bin'', ''1/12/artifact.bin'']\<rparr>"

text \<open>A worker whose build succeeds, and an administrator who cancels the build while it runs.\<close>

definition demo_worker :: worker_env where
  "demo_worker =
     \<lparr>build_summary = (\<lambda>_ _. Inr (demo_summary 1)),
      build_encrypted_artifact = (\<lambda>_ _ _. Inr (demo_artifact ''1/102/artifact.bin'')),
      build_document_v2_generation = (\<lambda>w _. (Generated w, []))\<rparr>"

definition demo_interference :: "nat \<Rightarrow> world \<Rightarrow> world" where
  "demo_interference n w = snd (committed demo_env (cancel_publication_build demo_admin 102 w) w)"

text \<open>The source changes before the finalisation, and its builder fails right afterwards.\<close>

definition demo_failing_source :: "nat \<Rightarrow> world \<Rightarrow> world" where
  "demo_failing_source n w =
     (if n = 3 then
        let w1 = w\<lparr>sources := (\<lambda>_ _ _. Inr (hydrant_source 2))\<rparr> in
        snd (committed demo_env (mark_dirty demo_env (Some 1) None ''department_hydrants'' demo_admin w1) w1)
      else if n = 4 then w\<lparr>sources := (\<lambda>_ _ _. Inl (PublicationBuildError ''incomplete''))\<rparr>
      else w)"

definition stored_artifact :: "nat \<Rightarrow> world \<Rightarrow> (publication_status \<times> bool) option" where
  "stored_artifact i w =
     map_option (\<lambda>p. (pub_status p, am_path (pub_artifact p) \<in> set (artifact_files w))) (get_publication i w)"

lemma demo_empty: "empty_tables demo_world"
  by (simp add: empty_tables_def demo_world_def)

lemma demo_steps:
  "lifecycle_steps demo_env demo_world demo_running" "lifecycle_steps demo_env demo_running demo_published"
proof -
  have a: "lifecycle_step demo_env demo_world demo_dirty" unfolding demo_dirty_def by (rule lifecycle_step.dirty)
  have b: "lifecycle_step demo_env demo_dirty demo_due"
    by (rule lifecycle_step.other) (simp add: elsewhere_def demo_due_def later_def)
  have c: "lifecycle_step demo_env demo_due demo_running"
    unfolding demo_running_def by (rule lifecycle_step.claim)
  show "lifecycle_steps demo_env demo_world demo_running"
    using a b c by (meson converse_rtranclp_into_rtranclp rtranclp.rtrancl_refl)
  have d: "lifecycle_step demo_env demo_running demo_published"
    unfolding demo_published_def by (rule lifecycle_step.finalize)
  then show "lifecycle_steps demo_env demo_running demo_published" by (rule r_into_rtranclp)
qed

lemma demo_due_reachable: "reachable demo_env demo_due"
proof -
  have "lifecycle_step demo_env demo_world demo_dirty" unfolding demo_dirty_def by (rule lifecycle_step.dirty)
  moreover have "lifecycle_step demo_env demo_dirty demo_due"
    by (rule lifecycle_step.other) (simp add: elsewhere_def demo_due_def later_def)
  ultimately have "lifecycle_steps demo_env demo_world demo_due"
    by (meson converse_rtranclp_into_rtranclp rtranclp.rtrancl_refl)
  then show ?thesis using demo_empty by (auto simp: reachable_def)
qed

lemma demo_reachable: "reachable demo_env demo_running" "reachable demo_env demo_published"
  using demo_empty demo_steps unfolding reachable_def by (meson rtranclp_trans)+

lemma demo_published_row:
  "map (\<lambda>p. (pub_id p, pub_version_number p, pub_status p)) (publications demo_published)
     = [(102, 1, PUBLISHED)]"
  by code_simp

lemma demo_running_row:
  "map (\<lambda>p. (pub_id p, pub_status p)) (publications demo_running) = [(102, BUILDING)]"
  by code_simp

lemma demo_rebuilt_row:
  "map (\<lambda>p. (pub_id p, pub_version_number p, pub_scope_state p)) (publications demo_rebuilt)
     = [(102, 1, 100), (104, 2, 100)]"
  by code_simp

lemma demo_cancelled_row:
  "map (\<lambda>p. (pub_id p, pub_status p)) (publications demo_cancelled) = [(102, PUB_CANCELLED)]"
  by code_simp

lemma demo_rebuilt_steps: "lifecycle_steps demo_env demo_published demo_rebuilt"
  unfolding demo_rebuilt_def by (rule r_into_rtranclp, rule lifecycle_step.rebuild)

lemma demo_cancelled_steps: "lifecycle_steps demo_env demo_running demo_cancelled"
  unfolding demo_cancelled_def by (rule r_into_rtranclp, rule lifecycle_step.cancel)

text \<open>The literal state satisfies the invariant.\<close>

lemma demo_two_base: "base_inv demo_two"
proof -
  have "registered_scope_type ''department_hydrants'' = Inr DEPARTMENT" by code_simp
  then show ?thesis
    by (simp add: base_inv_def demo_two_def demo_world_def demo_scope_def demo_publication_def owned_def
        scope_map_def get_scope_def row_get_def scope_key_def publication_key_def
        scope_state_constraints_def publication_constraints_def job_constraints_def owner_shape_def)
qed

lemma demo_two_inv: "lifecycle_inv demo_two"
proof -
  have c: "current_of demo_two = [10 \<mapsto> Some 12]"
    by (rule ext) (simp add: current_of_def scope_map_def get_scope_def row_get_def demo_two_def demo_scope_def)
  have q: "status_of demo_two = [11 \<mapsto> (SUPERSEDED, 10), 12 \<mapsto> (PUBLISHED, 10)]"
    by (rule ext) (simp add: status_of_def publication_map_def get_publication_def row_get_def demo_two_def
        demo_publication_def)
  have r: "attempt_of demo_two = Map.empty"
    by (rule ext) (simp add: attempt_of_def job_map_def get_job_def row_get_def demo_two_def demo_world_def)
  have "attempt_inv [10 \<mapsto> Some 12] [11 \<mapsto> (SUPERSEDED, 10), 12 \<mapsto> (PUBLISHED, 10)] Map.empty"
    by (auto simp: attempt_inv_def current_inv_def link_inv_def unique_link_inv_def running_inv_def
        building_inv_def pending_inv_def)
  with demo_two_base c q r show ?thesis by (simp add: lifecycle_inv_def)
qed

end
