(* ===== verification/System_Properties.thy ===== *)
theory System_Properties
  imports Scenario
begin

text \<open>
  What holds in every reachable state of the publication subsystem, and along every run of it.
  The theorems read the invariant and the evolution relation of \<open>Lifecycle_System\<close> back on the rows
  of the tables.
\<close>

subsection \<open>Reading the invariant on rows\<close>

lemma filter_singleton:
  assumes d: "distinct (map f xs)" and x: "x \<in> set xs" "P x"
    and u: "\<And>y. y \<in> set xs \<Longrightarrow> P y \<Longrightarrow> f y = f x"
  shows "filter P xs = [x]"
proof -
  have "inj_on f (set xs)" using d by (simp add: distinct_map)
  then have "set (filter P xs) = {x}"
    using x u by (fastforce simp: set_eq_iff dest: inj_onD)
  moreover have "distinct (filter P xs)" using d by (simp add: distinct_map)
  ultimately show ?thesis
    by (metis distinct_card card_insert_disjoint card.empty empty_iff finite.emptyI length_0_conv length_Suc_conv
        list.set_intros(1) singletonD One_nat_def)
qed

definition published_rows :: "nat \<Rightarrow> world \<Rightarrow> publication list" where
  "published_rows scope w =
     filter (\<lambda>p. pub_status p = PUBLISHED \<and> pub_scope_state p = scope) (publications w)"

definition building_rows :: "nat \<Rightarrow> world \<Rightarrow> publication list" where
  "building_rows scope w =
     filter (\<lambda>p. pub_status p = BUILDING \<and> pub_scope_state p = scope) (publications w)"

definition running_rows :: "nat \<Rightarrow> world \<Rightarrow> publication_job list" where
  "running_rows scope w =
     filter (\<lambda>j. job_status j = RUNNING \<and> job_scope_state j = scope) (jobs w)"

lemma current_row:
  assumes inv: "lifecycle_inv w" and s: "s \<in> set (scope_states w)"
  shows "scp_current_published_publication s = Some k \<longleftrightarrow>
     (\<exists>p\<in>set (publications w). pub_id p = k \<and> pub_status p = PUBLISHED \<and> pub_scope_state p = scp_id s)"
proof -
  have b: "base_inv w" by (rule lifecycle_inv_base [OF inv])
  have "current_of w (scp_id s) = Some (scp_current_published_publication s)"
    using s base_maps(1) [OF b] by (simp add: current_of_scope)
  moreover have "current_inv (current_of w) (status_of w)"
    using attempt_invD(1) [OF lifecycle_inv_attempt [OF inv]] .
  ultimately have "scp_current_published_publication s = Some k \<longleftrightarrow>
      status_of w k = Some (PUBLISHED, scp_id s)"
    unfolding current_inv_def by (metis option.inject)
  also have "\<dots> \<longleftrightarrow> (\<exists>p. publication_map w k = Some p \<and> pub_status p = PUBLISHED \<and> pub_scope_state p = scp_id s)"
    by (auto simp: status_of_def)
  also have "\<dots> \<longleftrightarrow>
      (\<exists>p\<in>set (publications w). pub_id p = k \<and> pub_status p = PUBLISHED \<and> pub_scope_state p = scp_id s)"
    using base_maps(2) [OF b] publication_map_id by (metis map_mem(2))
  finally show ?thesis .
qed

lemma published_rows_current:
  assumes inv: "lifecycle_inv w" and s: "s \<in> set (scope_states w)"
  shows "map pub_id (published_rows (scp_id s) w) =
     (case scp_current_published_publication s of None \<Rightarrow> [] | Some k \<Rightarrow> [k])"
proof (cases "scp_current_published_publication s")
  case None
  then have "published_rows (scp_id s) w = []"
    using current_row [OF inv s] by (auto simp: published_rows_def filter_empty_conv)
  then show ?thesis using None by simp
next
  case (Some k)
  then obtain p where p: "p \<in> set (publications w)" "pub_id p = k"
    "pub_status p = PUBLISHED \<and> pub_scope_state p = scp_id s"
    using current_row [OF inv s] by blast
  have "published_rows (scp_id s) w = [p]"
    unfolding published_rows_def
    by (rule filter_singleton [where f = pub_id])
       (use base_unique(2) [OF lifecycle_inv_base [OF inv]] p current_row [OF inv s, THEN iffD2]
         Some in fastforce)+
  then show ?thesis using Some p(2) by simp
qed

lemma active_job_unique:
  assumes b: "base_inv w" and j: "j \<in> set (jobs w)" "job_active j" and j': "j' \<in> set (jobs w)" "job_active j'"
    and same: "job_scope_state j = job_scope_state j'"
  shows "j = j'"
proof -
  have "owned w (job_scope_state j) (job_key j)" "owned w (job_scope_state j') (job_key j')"
    using b j(1) j'(1) by (auto simp: base_inv_def)
  then have "job_key j = job_key j'" using same by (auto simp: owned_def)
  moreover have "distinct (map job_key (filter job_active (jobs w)))"
    using b by (simp add: base_inv_def job_constraints_def)
  ultimately show ?thesis
    using j j' by (auto simp: distinct_map dest: inj_onD)
qed

lemma running_rows_building:
  assumes inv: "lifecycle_inv w"
  shows "map job_build_publication (running_rows i w) = map (Some \<circ> pub_id) (building_rows i w)
     \<and> length (filter (\<lambda>j. job_active j \<and> job_scope_state j = i) (jobs w)) \<le> 1"
proof
  have b: "base_inv w" by (rule lifecycle_inv_base [OF inv])
  note un = base_unique [OF b]
  have build: "building_inv (status_of w) (attempt_of w)"
    using attempt_invD [OF lifecycle_inv_attempt [OF inv]] by simp
  have run: "\<exists>j\<in>set (jobs w). job_status j = RUNNING \<and> job_scope_state j = i \<and> job_build_publication j = Some (pub_id p)"
    if "p \<in> set (building_rows i w)" for p
  proof -
    have "status_of w (pub_id p) = Some (BUILDING, i)"
      using that base_maps(2) [OF b] by (auto simp: building_rows_def status_of_publication)
    then obtain k where "attempt_of w k = Some (RUNNING, Some (pub_id p), i)"
      using build by (auto simp: building_inv_def)
    then show ?thesis by (auto simp: attempt_of_def dest: map_mem(3))
  qed
  show "map job_build_publication (running_rows i w) = map (Some \<circ> pub_id) (building_rows i w)"
  proof (cases "running_rows i w")
    case Nil
    then have "building_rows i w = []"
      using run [of "hd (building_rows i w)"] by (cases "building_rows i w") (auto simp: running_rows_def filter_empty_conv)
    then show ?thesis using Nil by simp
  next
    case (Cons j js)
    then have j: "j \<in> set (jobs w)" "job_status j = RUNNING \<and> job_scope_state j = i"
      by (auto simp: running_rows_def dest: filter_eq_ConsD)
    have only: "j' = j" if "j' \<in> set (jobs w)" "job_status j' = RUNNING \<and> job_scope_state j' = i" for j'
      using active_job_unique [OF b that(1) _ j(1)] that(2) j(2) by (simp add: job_active_def)
    have "running_rows i w = [j]"
      unfolding running_rows_def by (rule filter_singleton [where f = job_id]) (use un j only in fastforce)+
    moreover obtain k p where kp: "job_build_publication j = Some k" "publication_map w k = Some p"
      "pub_status p = BUILDING" "pub_scope_state p = i"
      using running_building [OF inv, of "job_id j" j] j base_maps(3) [OF b] by auto
    have "building_rows i w = [p]"
      unfolding building_rows_def
    proof (rule filter_singleton [where f = pub_id])
      fix q assume "q \<in> set (publications w)" "pub_status q = BUILDING \<and> pub_scope_state q = i"
      then have "\<exists>j'\<in>set (jobs w). job_status j' = RUNNING \<and> job_scope_state j' = i
          \<and> job_build_publication j' = Some (pub_id q)"
        using run by (simp add: building_rows_def)
      then show "pub_id q = pub_id p"
        using only kp(1) publication_map_id [OF kp(2)] by auto
    qed (use un kp map_mem(2) [OF kp(2)] in auto)
    ultimately show ?thesis using kp(1) publication_map_id [OF kp(2)] by simp
  qed
  show "length (filter (\<lambda>j. job_active j \<and> job_scope_state j = i) (jobs w)) \<le> 1"
  proof (cases "filter (\<lambda>j. job_active j \<and> job_scope_state j = i) (jobs w)")
    case (Cons j js)
    then have j: "j \<in> set (jobs w)" "job_active j \<and> job_scope_state j = i"
      by (auto dest: filter_eq_ConsD)
    have only: "j' = j" if "j' \<in> set (jobs w)" "job_active j' \<and> job_scope_state j' = i" for j'
      using active_job_unique [OF b that(1) _ j(1)] that(2) j(2) by simp
    have "filter (\<lambda>j. job_active j \<and> job_scope_state j = i) (jobs w) = [j]"
      by (rule filter_singleton [where f = job_id]) (use un j only in fastforce)+
    then show ?thesis by simp
  qed simp
qed

lemma steps_history:
  assumes "reachable E w" and "lifecycle_steps E w w'" and p: "p \<in> set (publications w)"
  shows "\<exists>p'\<in>set (publications w'). pub_id p' = pub_id p \<and> same_publication p p'"
proof -
  have e: "evolves w w'" using steps_keep [OF assms(2) reachable_inv [OF assms(1)]] by (rule keepsD(2))
  have "publication_map w (pub_id p) = Some p"
    using p base_maps(2) [OF lifecycle_inv_base [OF reachable_inv [OF assms(1)]]] by simp
  then obtain p' where "publication_map w' (pub_id p) = Some p'" "same_publication p p'"
    using evolvesD(4) [OF e] by blast
  then show ?thesis using map_mem(2) publication_map_id by metis
qed

lemma steps_reachable: "reachable E w \<Longrightarrow> lifecycle_steps E w w' \<Longrightarrow> reachable E w'"
  unfolding reachable_def by (meson rtranclp_trans)

lemma reachable_id:
  assumes "reachable E w" and "p \<in> set (publications w)" and "q \<in> set (publications w)" and "pub_id p = pub_id q"
  shows "p = q"
  using assms base_maps(2) [OF lifecycle_inv_base [OF reachable_inv [OF assms(1)]]] by (metis option.inject)

lemma finalize_steps:
  "lifecycle_steps E w (snd (committed E (finalize_publication_job E i summary artifact fp w) w))"
  by (rule r_into_rtranclp, rule lifecycle_step.finalize)

subsection \<open>Properties\<close>

text \<open>
  C1: In every reachable state the PUBLISHED publications of a scope are exactly the one its current
  pointer names: one if the pointer is set, none if it is not.
\<close>

theorem one_current_publication:
  assumes "reachable E w" and "s \<in> set (scope_states w)"
  shows "map pub_id (published_rows (scp_id s) w) =
     (case scp_current_published_publication s of None \<Rightarrow> [] | Some k \<Rightarrow> [k])"
  using assms published_rows_current reachable_inv by blast

theorem one_current_publication_witness:
  "\<exists>s\<in>set (scope_states demo_published). scp_current_published_publication s = Some 102
     \<and> map pub_id (published_rows (scp_id s) demo_published) = [102]"
proof -
  have "map (\<lambda>s. scp_current_published_publication s) (scope_states demo_published) = [Some 102]" by code_simp
  then obtain s where "s \<in> set (scope_states demo_published)" "scp_current_published_publication s = Some 102"
    by auto
  with one_current_publication [OF demo_reachable(2), of s] show ?thesis by auto
qed

text \<open>
  C2: In every reachable state the attempts of a scope that are BUILDING are exactly those of its
  RUNNING jobs, and the scope has at most one PENDING or RUNNING job: two workers never build the same
  scope, and no attempt is left BUILDING without a job that will end it.
\<close>

theorem one_build_per_scope:
  assumes "reachable E w"
  shows "map job_build_publication (running_rows i w) = map (Some \<circ> pub_id) (building_rows i w)
     \<and> length (filter (\<lambda>j. job_active j \<and> job_scope_state j = i) (jobs w)) \<le> 1"
  by (rule running_rows_building [OF reachable_inv [OF assms]])

theorem one_build_per_scope_witness:
  "map job_build_publication (running_rows 100 demo_running) = [Some 102]"
proof -
  have "map pub_id (building_rows 100 demo_running) = [102]" by code_simp
  then show ?thesis
    using one_build_per_scope [OF demo_reachable(1), of 100] by (metis list.map(1,2) map_map)
qed

text \<open>
  C3: Publication history is append-only along every run: a publication row is never removed, its
  tenant key, scope and version never change, and its status only moves along the lifecycle diagram.
\<close>

theorem history_append_only:
  assumes "reachable E w" and "lifecycle_steps E w w'" and "p \<in> set (publications w)"
  shows "\<exists>p'\<in>set (publications w'). pub_id p' = pub_id p \<and> publication_key p' = publication_key p
     \<and> pub_scope_state p' = pub_scope_state p \<and> pub_version_number p' = pub_version_number p
     \<and> status_path (pub_status p) (pub_status p')"
  using steps_history [OF assms] by (auto simp: same_publication_def)

theorem history_append_only_witness:
  "\<exists>p\<in>set (publications demo_running). \<exists>p'\<in>set (publications demo_published).
     pub_id p' = pub_id p \<and> pub_version_number p' = pub_version_number p
     \<and> status_path (pub_status p) (pub_status p')"
proof -
  have "publications demo_running \<noteq> []" using demo_running_row by auto
  then obtain p where p: "p \<in> set (publications demo_running)" by (meson list.set_sel(1))
  with history_append_only [OF demo_reachable(1) demo_steps(2) p] show ?thesis by blast
qed

text \<open>
  C4: Version numbers are never reused: a publication created along a run has a higher version than
  every publication its scope had before, whatever happened to those.
\<close>

theorem versions_grow:
  assumes "reachable E w" and "lifecycle_steps E w w'"
    and "p' \<in> set (publications w')" and "pub_id p' \<notin> pub_id ` set (publications w)"
    and "q \<in> set (publications w)" and "pub_scope_state q = pub_scope_state p'"
  shows "pub_version_number q < pub_version_number p'"
proof -
  have e: "evolves w w'" using steps_keep [OF assms(2) reachable_inv [OF assms(1)]] by (rule keepsD(2))
  have b: "base_inv w" "base_inv w'"
    using lifecycle_inv_base reachable_inv steps_reachable assms(1,2) by blast+
  have "publication_map w (pub_id p') = None"
    using assms(4) by (simp add: publication_map_def get_publication_def row_get_None)
  then show ?thesis
    using evolvesD(5) [OF e] base_maps(2) [OF b(1)] base_maps(2) [OF b(2)] assms(3,5,6) by blast
qed

theorem versions_grow_witness:
  "\<exists>q\<in>set (publications demo_published). \<exists>p'\<in>set (publications demo_rebuilt).
     pub_id p' = 104 \<and> pub_version_number q < pub_version_number p'"
proof -
  have "(102, 1, PUBLISHED) \<in> set (map (\<lambda>p. (pub_id p, pub_version_number p, pub_status p)) (publications demo_published))"
    unfolding demo_published_row by simp
  then obtain q where q: "q \<in> set (publications demo_published)" "pub_id q = 102" by auto
  have "(104, 2, 100) \<in> set (map (\<lambda>p. (pub_id p, pub_version_number p, pub_scope_state p)) (publications demo_rebuilt))"
    unfolding demo_rebuilt_row by simp
  then obtain p' where p': "p' \<in> set (publications demo_rebuilt)" "pub_id p' = 104" "pub_scope_state p' = 100" by auto
  have "map pub_scope_state (publications demo_published) = [100]" by code_simp
  then have "pub_scope_state q = pub_scope_state p'" using q(1) p'(3) by auto
  moreover have "pub_id p' \<notin> pub_id ` set (publications demo_published)"
  proof -
    have "pub_id ` set (publications demo_published) = set (map pub_id (publications demo_published))" by simp
    also have "map pub_id (publications demo_published) = [102]" by code_simp
    finally show ?thesis using p'(2) by simp
  qed
  ultimately show ?thesis
    using versions_grow [OF demo_reachable(2) demo_rebuilt_steps p'(1) _ q(1)] q p' by blast
qed

text \<open>
  FAILED, CANCELLED, REJECTED and OBSOLETE are final: along every run such a publication keeps its
  status, so it is never built, published or restored again.
\<close>

theorem terminal_publications_stay:
  assumes "reachable E w" and "lifecycle_steps E w w'" and "p \<in> set (publications w)"
    and "terminal_status (pub_status p)" and "p' \<in> set (publications w')" and "pub_id p' = pub_id p"
  shows "pub_status p' = pub_status p"
proof -
  obtain q where q: "q \<in> set (publications w')" "pub_id q = pub_id p" "same_publication p q"
    using steps_history [OF assms(1-3)] by blast
  then have "q = p'" using reachable_id steps_reachable assms(1,2,5,6) by metis
  then show ?thesis using q(3) terminal_final assms(4) by (auto simp: same_publication_def)
qed

theorem terminal_publications_stay_witness:
  "\<exists>p\<in>set (publications demo_cancelled). pub_status p = PUB_CANCELLED \<and>
     (\<forall>p'. p' \<in> set (publications (snd (committed demo_env (finalize_publication_job demo_env 101 (demo_summary 1)
          (Some (demo_artifact ''1/102/artifact.bin'')) None demo_cancelled) demo_cancelled)))
        \<longrightarrow> pub_id p' = pub_id p \<longrightarrow> pub_status p' = PUB_CANCELLED)"
proof -
  have "(102, PUB_CANCELLED) \<in> set (map (\<lambda>p. (pub_id p, pub_status p)) (publications demo_cancelled))"
    unfolding demo_cancelled_row by simp
  then obtain p where p: "p \<in> set (publications demo_cancelled)" "pub_status p = PUB_CANCELLED" by auto
  have "reachable demo_env demo_cancelled"
    by (rule steps_reachable [OF demo_reachable(1) demo_cancelled_steps])
  from terminal_publications_stay [OF this finalize_steps p(1)] p
  show ?thesis by (auto simp: terminal_status_def)
qed

text \<open>
  C5: A build an administrator cancelled is never published: whatever the worker that still holds the
  job and every other service do afterwards, in any order, the publication stays CANCELLED.
\<close>

theorem cancelled_build_never_published:
  assumes "reachable E w" and "cancel_publication_build actor i w = Inr (x, w1)"
    and "lifecycle_steps E (snd (commit E w1)) w'"
    and "p \<in> set (publications w')" and "pub_id p = i"
  shows "pub_status p = PUB_CANCELLED"
proof -
  have inv: "lifecycle_inv w" by (rule reachable_inv [OF assms(1)])
  have inv1: "lifecycle_inv w1"
    by (rule keepsD(1) [OF presD [OF cancel_publication_build_pres [OF inv] assms(2)]])
  obtain q where q: "publication_map w1 i = Some q" "pub_status q = PUB_CANCELLED"
    using cancel_publication_build_status [OF assms(2) inv] by blast
  have k: "keeps w1 w'"
    using keeps_trans [OF commit_keeps [OF inv1] steps_keep [OF assms(3) keepsD(1) [OF commit_keeps [OF inv1]]]] .
  have "publication_map w' i = Some p"
    using assms(4,5) base_maps(2) [OF lifecycle_inv_base [OF keepsD(1) [OF k]]] by simp
  then have "same_publication q p" using evolvesD(4) [OF keepsD(2) [OF k] q(1)] by auto
  then show ?thesis
    using q(2) terminal_final by (auto simp: same_publication_def terminal_status_def)
qed

theorem cancelled_build_never_published_witness:
  "\<exists>x w1. cancel_publication_build demo_admin 102 demo_running = Inr (x, w1) \<and>
     (\<forall>p. p \<in> set (publications (snd (committed demo_env (finalize_publication_job demo_env 101 (demo_summary 1)
          (Some (demo_artifact ''1/102/artifact.bin'')) None (snd (commit demo_env w1))) (snd (commit demo_env w1)))))
        \<longrightarrow> pub_id p = 102 \<longrightarrow> pub_status p = PUB_CANCELLED)"
proof -
  have "(case cancel_publication_build demo_admin 102 demo_running of Inl _ \<Rightarrow> False | Inr _ \<Rightarrow> True)" by code_simp
  then obtain r where r: "cancel_publication_build demo_admin 102 demo_running = Inr r"
    by (auto split: sum.splits)
  obtain x w1 where c: "cancel_publication_build demo_admin 102 demo_running = Inr (x, w1)"
    using r by (cases r) simp
  with cancelled_build_never_published [OF demo_reachable(1) c finalize_steps]
  show ?thesis by blast
qed

end
