(* ===== verification/Service_Effects.thy ===== *)
theory Service_Effects
  imports Lifecycle_System
begin

text \<open>
  What single services leave alone: the current pointers of all scopes under queueing, claiming and
  failing, and the key grants under every save of the three publication tables.
\<close>

subsection \<open>Saves that leave the scope rows alone\<close>

lemma save_publication_scopes: "update_publication i f w = Inr w' \<Longrightarrow> scope_states w' = scope_states w"
  by (auto simp: update_publication_def res_simps publication_table.save_result)

lemma save_job_scopes: "update_job i f w = Inr w' \<Longrightarrow> scope_states w' = scope_states w"
  by (auto simp: update_job_def res_simps job_table.save_result)

lemma core_eq_scopes: "core_eq w w' \<Longrightarrow> scope_states w' = scope_states w"
  by (simp add: core_eq_def)

lemma current_of_scopes: "scope_states w' = scope_states w \<Longrightarrow> current_of w' = current_of w"
  by (simp add: current_of_def scope_map_def get_scope_def)

lemma neutral_scope_current:
  assumes "update_scope i f w = Inr w'" and "\<And>s. scp_id (f s) = scp_id s"
    and "\<And>s. scp_current_published_publication (f s) = scp_current_published_publication s"
  shows "current_of w' = current_of w"
  using scope_effect [OF assms(1,2)] assms(3) by (auto simp: current_of_def project_neutral)

lemma cancel_pending_scopes: "cancel_pending j w = Inr w' \<Longrightarrow> scope_states w' = scope_states w"
  unfolding cancel_pending_def
  by (elim bind_resE)
     (auto split: option.splits if_splits elim!: bind_resE dest!: save_publication_scopes save_job_scopes)

lemma cancel_redundant_scopes: "cancel_redundant_pending s w = Inr w' \<Longrightarrow> scope_states w' = scope_states w"
  unfolding cancel_redundant_pending_def cancel_unlinked_def
proof (elim bind_resE, goal_cases)
  case (1 w1)
  have "scope_states w1 = scope_states w"
    by (rule fold_res_invariant [OF 1(1), where I = "\<lambda>v. scope_states v = scope_states w"])
       (auto dest: cancel_pending_scopes)
  moreover have "scope_states w' = scope_states w1"
    by (rule fold_res_invariant [OF 1(2), where I = "\<lambda>v. scope_states v = scope_states w1"])
       (auto dest: save_publication_scopes)
  ultimately show ?case by simp
qed

lemma reconcile_current:
  assumes "reconcile_clean_source E s fp w = Inr (r, w')"
  shows "current_of w' = current_of w"
  using assms
  by (auto simp: reconcile_clean_source_def Let_def res_simps split: if_splits prod.splits
      dest!: neutral_scope_current cancel_redundant_scopes [THEN current_of_scopes])

lemma current_source_state_current:
  assumes "current_source_state E s w = Inr (r, w')"
  shows "current_of w' = current_of w"
  using assms
  by (auto simp: current_source_state_def res_simps split: if_splits prod.splits dest!: neutral_scope_current)

lemma allocate_scopes: "allocate_staged_publication s j fp snap w = Inr (p, w') \<Longrightarrow> scope_states w' = scope_states w"
  by (auto simp: allocate_staged_publication_def res_simps fresh_id_def Let_def publication_table.create_result)

lemma create_job_scopes: "create_job j w = Inr w' \<Longrightarrow> scope_states w' = scope_states w"
  by (auto simp: job_table.create_result)

lemma coalesce_scopes: "coalesce_pending j s rb tr al snap fp w = Inr w' \<Longrightarrow> scope_states w' = scope_states w"
  unfolding coalesce_pending_def Let_def
  by (elim bind_resE)
     (auto split: option.splits if_splits dest!: save_publication_scopes save_job_scopes)

lemma coalesce_job:
  assumes "coalesce_pending a s rb tr al snap fp w = Inr w'" and "job_map w (job_id a) = Some j"
  shows "\<exists>j1. job_map w' (job_id a) = Some j1 \<and> job_status j1 = job_status j
    \<and> job_scope_state j1 = job_scope_state j"
  using assms(1) unfolding coalesce_pending_def Let_def
proof (elim bind_resE, goal_cases)
  case (1 w1)
  have "job_map w' = job_map w1"
    using 1(2) by (auto split: option.splits if_splits dest!: publication_effect)
  then show ?case using job_effect [OF 1(1)] assms(2) by auto
qed

lemma create_attempt_current:
  assumes "create_attempt key s rb tr db al snap fp w0 w = Inr (r, w')" and "current_of w = current_of w0"
  shows "current_of w' = current_of w0"
proof -
  have "scope_states w' = scope_states w \<or> w' = w0"
    using assms(1)
    by (auto simp: create_attempt_def Let_def res_simps fresh_id_def record_event_def split: sum.splits
        dest!: create_job_scopes allocate_scopes save_job_scopes)
  then show ?thesis using assms(2) current_of_scopes by metis
qed

lemma enqueue_source_effect:
  assumes "enqueue_source E s0 given w = Inr ((snap, fp, s), w2)"
  shows "current_of w2 = current_of w \<and> jobs w2 = jobs w \<and> publications w2 = publications w
    \<and> scp_id s = scp_id s0 \<and> scp_current_published_publication s = scp_current_published_publication s0
    \<and> (case given of Some x \<Rightarrow> x = (snap, fp) \<and> s = s0
       | None \<Rightarrow> current_source_snapshot s0 w = Inr snap \<and> fp = source_fingerprint_for_payload E snap)"
proof (cases given)
  case None
  then obtain s1 w1 where cs: "current_source_state E s0 w = Inr ((snap, fp, s1), w1)"
    and m: "w2 = w1 \<and> s = s1 \<or> (\<exists>stored. s = s1\<lparr>scp_current_source_fingerprint := stored\<rparr>
        \<and> update_scope (scp_id s1) (\<lambda>s. s\<lparr>scp_current_source_fingerprint := stored\<rparr>) w1 = Inr w2)"
    using assms by (auto simp: enqueue_source_def bind_res_Inr Let_def split: if_splits)
  have s1: "scp_id s1 = scp_id s0" "scp_current_published_publication s1 = scp_current_published_publication s0"
    "current_source_snapshot s0 w = Inr snap" "fp = source_fingerprint_for_payload E snap"
    and w1: "jobs w1 = jobs w" "publications w1 = publications w"
    using cs by (auto simp: current_source_state_def bind_res_Inr update_scope_def save_results split: if_splits prod.splits)
  show ?thesis
    using m
  proof
    assume "w2 = w1 \<and> s = s1"
    then show ?thesis using s1 w1 current_source_state_current [OF cs] None by simp
  next
    assume "\<exists>stored. s = s1\<lparr>scp_current_source_fingerprint := stored\<rparr>
        \<and> update_scope (scp_id s1) (\<lambda>s. s\<lparr>scp_current_source_fingerprint := stored\<rparr>) w1 = Inr w2"
    then obtain stored where s: "s = s1\<lparr>scp_current_source_fingerprint := stored\<rparr>"
      and u: "update_scope (scp_id s1) (\<lambda>s. s\<lparr>scp_current_source_fingerprint := stored\<rparr>) w1 = Inr w2" by blast
    have "jobs w2 = jobs w1" "publications w2 = publications w1"
      using u by (auto simp: update_scope_def bind_res_Inr save_results)
    then show ?thesis
      using s1 w1 s current_source_state_current [OF cs] neutral_scope_current [OF u] None by simp
  qed
qed (use assms in \<open>auto simp: enqueue_source_def\<close>)

lemma enqueue_current:
  assumes "enqueue_publication_job E d st c rb tr db al given w = Inr (r, w')"
  shows "current_of w' = current_of w"
  using assms
proof (cases rule: enqueue_cases)
  case clean
  then show ?thesis using enqueue_source_effect [OF clean(2)] reconcile_current [OF clean(5)] by simp
next
  case running
  then show ?thesis using enqueue_source_effect [OF running(2)] by simp
next
  case coalesced
  then show ?thesis
    using enqueue_source_effect [OF coalesced(2)] current_of_scopes [OF coalesce_scopes [OF coalesced(5)]] by simp
next
  case created
  then show ?thesis
    using enqueue_source_effect [OF created(2)] create_attempt_current [OF created(5)] by simp
qed

subsection \<open>Key grants\<close>

definition all_revoked :: "nat \<Rightarrow> key_grant list \<Rightarrow> bool" where
  "all_revoked k gs \<longleftrightarrow> (\<forall>g\<in>set gs. kg_publication g = k \<longrightarrow> kg_status g = GRANT_REVOKED)"

lemma revoke_all:
  "all_revoked (pub_id p) (dataset_key_grants (snd (revoke_publication_dataset_key_grants p w)))"
  "pub_dataset_type_code p \<notin> FILE_DATASETS \<Longrightarrow>
     all_revoked (pub_id p) (generation_key_grants (snd (revoke_publication_dataset_key_grants p w)))"
  by (auto simp: all_revoked_def revoke_publication_dataset_key_grants_def Let_def revoke_grant_def)

definition same_grants :: "world \<Rightarrow> world \<Rightarrow> bool" where
  "same_grants w w' \<longleftrightarrow> dataset_key_grants w' = dataset_key_grants w
     \<and> generation_key_grants w' = generation_key_grants w"

lemma same_grants_trans: "same_grants u v \<Longrightarrow> same_grants v w \<Longrightarrow> same_grants u w"
  by (simp add: same_grants_def)

lemma save_grants:
  "update_publication i f w = Inr w' \<Longrightarrow> same_grants w w'"
  "update_job i g w = Inr w' \<Longrightarrow> same_grants w w'"
  "update_scope i h w = Inr w' \<Longrightarrow> same_grants w w'"
  by (auto simp: same_grants_def update_publication_def update_job_def update_scope_def res_simps
      save_results)

text \<open>
  What revocation promises of a superseded publication: every dataset key grant is revoked and, unless it is a
  publication of a file library (department_files, station_files), every generation key grant; the
  generation grants of the file libraries are left alone.
\<close>

definition grants_revoked :: "publication \<Rightarrow> world \<Rightarrow> bool" where
  "grants_revoked q w \<longleftrightarrow> all_revoked (pub_id q) (dataset_key_grants w)
     \<and> (pub_dataset_type_code q \<notin> FILE_DATASETS \<longrightarrow> all_revoked (pub_id q) (generation_key_grants w))"

lemma grants_revoked_same: "grants_revoked q w \<Longrightarrow> same_grants w w' \<Longrightarrow> grants_revoked q w'"
  by (simp add: grants_revoked_def same_grants_def)

lemma supersede_revokes: "supersede q w = Inr w' \<Longrightarrow> grants_revoked q w'"
  unfolding supersede_def Let_def
  by (rule grants_revoked_same [OF _ save_grants(1)]) (simp_all add: grants_revoked_def revoke_all)

subsection \<open>Finalising\<close>

text \<open>
  Activation of a publication: its scope points to it, it is PUBLISHED, and whatever was current in the
  scope is SUPERSEDED with its key grants revoked as \<open>grants_revoked\<close> says.
\<close>

definition activated :: "nat \<Rightarrow> nat \<Rightarrow> world \<Rightarrow> world \<Rightarrow> bool" where
  "activated k sc w w' \<longleftrightarrow>
     current_of w' = (current_of w)(sc \<mapsto> Some k) \<and> status_of w' k = Some (PUBLISHED, sc)
     \<and> (\<forall>q. publication_map w (pub_id q) = Some q \<longrightarrow> pub_status q = PUBLISHED \<longrightarrow> pub_scope_state q = sc \<longrightarrow>
          status_of w' (pub_id q) = Some (SUPERSEDED, sc) \<and> grants_revoked q w')"

lemma activation:
  assumes inv: "lifecycle_inv w" and s: "scope_map w i = Some s"
    and sp: "supersede_previous (fk_publication (scp_current_published_publication s) w) w = Inr w1"
    and p: "publication_map w k = Some p" "pub_scope_state p = i" "pub_status p \<noteq> PUBLISHED"
    and e: "status_edge (pub_status p) PUBLISHED"
    and up: "update_publication k f w1 = Inr w2" and fp: "frozen_publication f"
    and fs: "\<And>p. pub_status (f p) = PUBLISHED"
    and us: "update_scope i g w2 = Inr w3" and fg: "frozen_scope g"
    and gs: "\<And>s. scp_current_published_publication (g s) = Some k"
    and m: "scope_map w' = scope_map w3" "publication_map w' = publication_map w3" and g: "same_grants w3 w'"
  shows "activated k i w w'"
proof -
  have w3: "current_of w3 = (current_of w)(i \<mapsto> Some k)"
    "status_of w3 = (superseded (scp_current_published_publication s) i (status_of w))(k \<mapsto> (PUBLISHED, i))"
    using activate_saves [OF inv s sp p e up fp fs us fg gs] by blast+
  have g1: "same_grants w1 w'"
    using save_grants(1) [OF up] save_grants(3) [OF us] g by (blast intro: same_grants_trans)
  have "status_of w' (pub_id x) = Some (SUPERSEDED, i) \<and> grants_revoked x w'"
    if x: "publication_map w (pub_id x) = Some x" "pub_status x = PUBLISHED" "pub_scope_state x = i" for x
  proof -
    have fk: "fk_publication (scp_current_published_publication s) w = Some x"
      using current_publication [OF inv s] x by simp
    then have ptr: "scp_current_published_publication s = Some (pub_id x)"
      using get_publication_id by (auto simp: fk_publication_Some)
    have "grants_revoked x w1" using sp fk supersede_revokes by (simp add: supersede_previous_def)
    moreover have "pub_id x \<noteq> k" using x p by auto
    ultimately show ?thesis
      using g1 ptr w3 m grants_revoked_same by (auto simp: superseded_def status_of_def)
  qed
  with w3 m show ?thesis by (simp add: activated_def current_of_def status_of_def)
qed

text \<open>The two ways a build ends successfully: it becomes current, or it is retired as a duplicate.\<close>

definition becomes_current :: "nat \<Rightarrow> nat \<Rightarrow> nat \<Rightarrow> world \<Rightarrow> world \<Rightarrow> bool" where
  "becomes_current i k sc w w' \<longleftrightarrow>
     activated k sc w w' \<and> attempt_of w' i = Some (SUCCEEDED, Some k, sc)"

definition retired :: "nat \<Rightarrow> nat \<Rightarrow> nat \<Rightarrow> world \<Rightarrow> world \<Rightarrow> bool" where
  "retired i k sc w w' \<longleftrightarrow>
     current_of w' = current_of w \<and> status_of w' k = Some (PUB_OBSOLETE, sc)
     \<and> (\<exists>b. attempt_of w' i = Some (JOB_OBSOLETE, b, sc))"

lemma finalize_publish_effect:
  assumes f: "finalize_publish E j q prev s w = Inr (r, w')"
    and inv: "lifecycle_inv w" and j: "job_map w (job_id j) = Some j" "job_build_publication j = Some k"
      "job_status j = RUNNING"
    and p: "publication_map w k = Some p" "pub_status p = BUILDING"
    and s: "scope_map w (scp_id s) = Some s" "job_scope_state j = scp_id s"
    and q: "pub_id q = k" and prev: "prev = fk_publication (scp_current_published_publication s) w"
  shows "becomes_current (job_id j) k (scp_id s) w w'"
  using f unfolding finalize_publish_def Let_def q
proof (elim bind_resE, goal_cases)
  case (1 w1 u w2 w3 w4)
  have R: "attempt_of w (job_id j) = Some (RUNNING, Some k, scp_id s)"
    using attempt_of_job [OF j(1)] j s by simp
  have sc: "pub_scope_state p = scp_id s"
    using link_status [OF attempt_invD(2) [OF lifecycle_inv_attempt [OF inv]] R] status_of_publication [OF p(1)]
    by auto
  have c: "core_eq w4 w'" using 1(6) by auto
  have g4: "same_grants w4 w'"
    using 1(6) by (auto simp: same_grants_def record_event_def register_on_commit_def)
  have "publication_map w3 = publication_map w2" "job_map w3 = job_map w"
    using scope_effect [OF 1(4)] publication_effect [OF 1(3)]
      supersede_previous_Inr [OF 1(1) inv s(1) prev] by auto
  then have m4: "job_map w4 = (job_map w)(job_id j \<mapsto> j\<lparr>job_status := SUCCEEDED, job_completed_at := Some (clock w),
      job_heartbeat_at := Some (clock w)\<rparr>)" "scope_map w4 = scope_map w3" "publication_map w4 = publication_map w3"
    using job_effect [OF 1(5)] j(1) by auto
  note m' = core_eq_maps [OF c]
  have "activated k (scp_id s) w w'"
    by (rule activation [OF inv s(1) 1(1) [unfolded prev] p(1) sc _ _ 1(3) _ _ 1(4)])
       (use m4 m' same_grants_trans [OF save_grants(2) [OF 1(5)] g4] in
         \<open>simp_all add: p(2) frozen_simps status_edge.publish\<close>)
  moreover have "attempt_of w' (job_id j) = Some (SUCCEEDED, Some k, scp_id s)"
    using m4(1) m' j(2) s(2) by (simp add: attempt_of_def)
  ultimately show ?case by (simp add: becomes_current_def)
qed

lemma obsolete_saves:
  assumes up: "update_publication k f w1 = Inr w2" and f: "\<And>p. pub_id (f p) = pub_id p"
      "\<And>p. pub_status (f p) = PUB_OBSOLETE" "\<And>p. pub_scope_state (f p) = pub_scope_state p"
    and rel: "release_references x w2 = Inr w3"
    and uj: "update_job i (\<lambda>j. j\<lparr>job_status := JOB_OBSOLETE, job_completed_at := t\<rparr>) w3 = Inr w4"
    and j: "job_map w1 i = Some j" and p: "publication_map w1 k = Some p" "pub_scope_state p = job_scope_state j"
  shows "retired i k (job_scope_state j) w1 w4"
proof -
  have m2: "scope_map w2 = scope_map w1" "job_map w2 = job_map w1" "publication_map w2 k = Some (f p)"
    using publication_effect [OF up f(1)] p(1) by auto
  note m3 = core_eq_maps [OF core_eq_release_references [OF rel]]
  have m4: "scope_map w4 = scope_map w1" "publication_map w4 = publication_map w3"
    "job_map w4 i = Some (j\<lparr>job_status := JOB_OBSOLETE, job_completed_at := t\<rparr>)"
    using job_effect [OF uj] m2 m3 j by auto
  have "current_of w4 = current_of w1" using m4(1) by (simp add: current_of_def)
  moreover have "status_of w4 k = Some (PUB_OBSOLETE, job_scope_state j)"
    using m4(2) m3 m2(3) f(2,3) p(2) by (simp add: status_of_def)
  moreover have "attempt_of w4 i = Some (JOB_OBSOLETE, job_build_publication j, job_scope_state j)"
    using m4(3) by (simp add: attempt_of_def)
  ultimately show ?thesis by (simp add: retired_def)
qed

lemma retired_frame:
  assumes "retired i k sc w1 w4" and "scope_map w1 = scope_map w"
    and "current_of w5 = current_of w4" and "status_of w5 k = status_of w4 k"
    and "\<exists>b. attempt_of w5 i = Some (JOB_OBSOLETE, b, sc)"
  shows "retired i k sc w w5"
  using assms by (simp add: retired_def current_of_def)

text \<open>A retired attempt and a finished job stay so in every later state that keeps the invariant.\<close>

lemma retired_keeps:
  assumes r: "retired i k sc w1 w4" and k: "keeps w4 w5" and c: "current_of w5 = current_of w4"
    and m: "scope_map w1 = scope_map w"
  shows "retired i k sc w w5"
proof -
  obtain p where p: "publication_map w4 k = Some p" "pub_status p = PUB_OBSOLETE" "pub_scope_state p = sc"
    using r by (auto simp: retired_def status_of_def)
  obtain p' where p': "publication_map w5 k = Some p'" "same_publication p p'"
    using evolvesD(4) [OF keepsD(2) [OF k] p(1)] by blast
  have "pub_status p' = PUB_OBSOLETE"
    using p' p(2) terminal_final by (auto simp: same_publication_def terminal_status_def)
  then have s: "status_of w5 k = status_of w4 k"
    using p p' by (simp add: status_of_def same_publication_def)
  obtain j where j: "job_map w4 i = Some j" "job_status j = JOB_OBSOLETE" "job_scope_state j = sc"
    using r by (auto simp: retired_def attempt_of_def)
  obtain j' where j': "job_map w5 i = Some j'" "same_job j j'"
    using evolvesD(3) [OF keepsD(2) [OF k] j(1)] by blast
  have "attempt_of w5 i = Some (JOB_OBSOLETE, job_build_publication j', sc)"
    using j j' by (auto simp: attempt_of_def same_job_def job_active_def)
  then show ?thesis using retired_frame [OF r m c s] by blast
qed

lemma finalize_duplicate_effect:
  assumes f: "finalize_duplicate j q fp s path w = Inr (r, w')" and q: "pub_id q = k"
    and j: "job_map w (job_id j) = Some j"
    and p: "publication_map w k = Some p" "pub_scope_state p = job_scope_state j"
  shows "retired (job_id j) k (job_scope_state j) w w'"
  using f unfolding finalize_duplicate_def Let_def q
proof (elim bind_resE, goal_cases)
  case (1 w2 w3 w4 w5)
  note m1 = core_eq_maps [OF core_eq_schedule [of w path]]
  have r: "retired (job_id j) k (job_scope_state j) (schedule_artifact_removal path w) w4"
    by (rule obsolete_saves [OF 1(1) _ _ _ 1(2) 1(3)]) (use j p m1 in simp_all)
  have c: "core_eq w5 w'" using 1(5) by auto
  have "current_of w' = current_of w4"
    using current_of_scopes [OF core_eq_scopes [OF c]] neutral_scope_current [OF 1(4)] by simp
  moreover have "status_of w' = status_of w4" "attempt_of w' = attempt_of w4"
    using scope_effect [OF 1(4)] core_eq_maps [OF c] by (auto simp: status_of_def attempt_of_def)
  moreover have "current_of (schedule_artifact_removal path w) = current_of w" using m1 by (simp add: current_of_def)
  ultimately show ?case using r by (simp add: retired_def)
qed

lemma finalize_stale_source_effect:
  assumes f: "finalize_stale_source E j q path w = Inr (r, w')" and q: "pub_id q = k" and inv: "lifecycle_inv w"
    and j: "job_map w (job_id j) = Some j" "job_build_publication j = Some k"
    and p: "publication_map w k = Some p" "pub_scope_state p = job_scope_state j" "pub_status p = BUILDING"
  shows "retired (job_id j) k (job_scope_state j) w w'"
  using f unfolding finalize_stale_source_def Let_def q
proof (elim bind_resE, goal_cases)
  case (1 w2 w3 w4 x)
  let ?w1 = "schedule_artifact_removal path w"
  note m1 = core_eq_maps [OF core_eq_schedule [of w path]]
  have r: "retired (job_id j) k (job_scope_state j) ?w1 w4"
    by (rule obsolete_saves [OF 1(1) _ _ _ 1(2) 1(3)]) (use j p m1 in simp_all)
  have "keeps ?w1 w4"
    by (rule end_attempt [where u = PUB_OBSOLETE and st = JOB_OBSOLETE and p = p,
          OF inv_core_eq [OF core_eq_schedule inv] _ j(2) _ _ 1(1) _ _ _ _ _ core_eq_release_references [OF 1(2)] 1(3)])
       (use j p m1 in \<open>simp_all add: frozen_simps status_edge.duplicate\<close>)
  then have i4: "lifecycle_inv w4" by (rule keepsD(1))
  obtain y where y: "x = (y, w')" using 1(5) by (cases x) simp
  note enq = 1(4) [unfolded y]
  have k: "keeps w4 w'"
    using keeps_trans [OF keeps_core_eq [OF core_eq_record_event i4] enqueue_keeps [OF enq inv_core_eq [OF core_eq_record_event i4]]] .
  have "current_of w' = current_of w4"
    using enqueue_current [OF enq] current_of_scopes [OF core_eq_scopes [OF core_eq_record_event]] by simp
  then show ?case by (rule retired_keeps [OF r k]) (use m1 in simp)
qed

lemma finalize_effect:
  assumes f: "finalize_publication_job E i summary artifact fp w = Inr (r, w')" and inv: "lifecycle_inv w"
    and j: "job_map w i = Some j" "job_status j = RUNNING"
  shows "\<exists>k. job_build_publication j = Some k
     \<and> (becomes_current i k (job_scope_state j) w w' \<or> retired i k (job_scope_state j) w w')"
proof -
  have ji: "job_id j = i" by (rule job_map_id [OF j(1)])
  obtain k p where k: "job_build_publication j = Some k" and p: "publication_map w k = Some p"
    "pub_status p = BUILDING" "pub_scope_state p = job_scope_state j"
    using running_building [OF inv j(1,2)] by blast
  have pid: "pub_id p = k" by (rule publication_map_id [OF p(1)])
  from f j(1) obtain s where l: "locked_scope (job_department j) (job_station j) (job_dataset_type_code j) w = Inr s"
    by (auto simp: finalize_publication_job_def get_is_map bind_res_Inr)
  note b = lifecycle_inv_base [OF inv]
  have s: "scope_map w (scp_id s) = Some s" using locked_scope_Inr [OF l b] by simp
  have sc: "job_scope_state j = scp_id s" using job_scope [OF b j(1) l] by simp
  note jj = j(1) [folded ji]
  have "becomes_current i k (job_scope_state j) w w' \<or> retired i k (job_scope_state j) w w'"
    using f j k p(1,2) l unfolding finalize_publication_job_def
    by (auto simp: get_is_map Let_def bind_res_Inr pid ji sc split: if_splits
        dest: finalize_publish_effect [OF _ inv jj k j(2) p(1,2) s sc]
          finalize_duplicate_effect [OF _ _ jj p(1,3)] finalize_stale_source_effect [OF _ _ inv jj k p(1,3,2)])
  with k show ?thesis by blast
qed

subsection \<open>Rollback and deletion\<close>

lemma activate_publication_effect:
  assumes a: "activate_publication s p actor act w = Inr w'" and inv: "lifecycle_inv w"
    and s: "scope_map w (scp_id s) = Some s"
    and p: "publication_map w (pub_id p) = Some p" "pub_scope_state p = scp_id s" "pub_status p = SUPERSEDED"
  shows "activated (pub_id p) (scp_id s) w w'"
  using a unfolding activate_publication_def Let_def
proof (elim bind_resE, goal_cases)
  case (1 w1 w2 w3)
  have "fk_publication (scp_current_published_publication s) w = Some q \<Longrightarrow> pub_id q \<noteq> pub_id p" for q
    using current_publication [OF inv s, of q] p by auto
  then have sp: "supersede_previous (fk_publication (scp_current_published_publication s) w) w = Inr w1"
    using 1(1) by (auto simp: supersede_previous_def split: option.splits if_splits)
  have "core_eq w3 w'" using 1(4) by auto
  moreover have "same_grants w3 w'"
    using 1(4) by (auto simp: same_grants_def create_activation_def fresh_id_def)
  ultimately show ?case
    by (intro activation [OF inv s sp p(1,2) _ _ 1(2) _ _ 1(3)])
       (use core_eq_maps in \<open>auto simp: p(3) frozen_simps status_edge.restore\<close>)
qed

lemma activated_frame:
  "activated k sc w w1 \<Longrightarrow> core_eq w1 w' \<Longrightarrow> same_grants w1 w' \<Longrightarrow> activated k sc w w'"
  by (auto simp: activated_def current_of_def status_of_def grants_revoked_same dest!: core_eq_maps)

lemma rollback_effect:
  assumes r: "rollback_publication E actor i w = Inr (x, w')" and inv: "lifecycle_inv w"
  obtains p s where "publication_map w i = Some p" and "pub_status p = SUPERSEDED"
    and "scope_map w (pub_scope_state p) = Some s"
    and "publication_restore_blocked_reason E w p s True = Inr []"
    and "require_publication w actor p = Inr ()" and "activated i (pub_scope_state p) w w'"
  using r unfolding rollback_publication_def
proof (elim bind_resE, goal_cases)
  case (1 p u v s reason a prev b w1)
  have p: "publication_map w i = Some p" "pub_id p = i" using fetch_publication_Inr [OF 1(2)] by auto
  have s: "scope_map w (pub_scope_state p) = Some s" "scp_id s = pub_scope_state p"
    using scope_of_publication_Inr [OF 1(5) lifecycle_inv_base [OF inv] p(1)] by auto
  have reason: "publication_restore_blocked_reason E w p s True = Inr []"
    using 1(6,7) by (auto simp: require_Inr)
  note h = restore_reason_historical [OF reason]
  have "activated i (pub_scope_state p) w w1"
    using activate_publication_effect [OF 1(10) inv, unfolded s(2) p(2), OF s(1) p(1) refl] h by blast
  moreover have "core_eq w1 w'" using 1(11) by auto
  moreover have "same_grants w1 w'"
    using 1(11) by (auto simp: same_grants_def publication_event_def record_event_def)
  ultimately have "activated i (pub_scope_state p) w w'" by (rule activated_frame)
  moreover have "require_publication w actor p = Inr ()" using 1(3) by simp
  ultimately show ?case using p(1) h s(1) reason by (intro 1(1)) blast+
qed

lemma same_grants_event [simp]:
  "same_grants w (publication_event a actor p m w)" "same_grants w (schedule_artifact_removal path w)"
  by (simp_all add: same_grants_def publication_event_def record_event_def schedule_artifact_removal_def
      register_on_commit_def)

lemma replace_active_effect:
  assumes r: "replace_active E s p actor w = Inr w'" and inv: "lifecycle_inv w"
    and s: "scope_map w (scp_id s) = Some s"
  obtains q where "publication_map w (pub_id q) = Some q" and "pub_scope_state q = scp_id s"
    and "pub_status q = SUPERSEDED" and "pub_version_number q < pub_version_number p"
    and "publication_restore_blocked_reason E w q s True = Inr []"
    and "activated (pub_id q) (scp_id s) w w'"
  using r unfolding replace_active_def
proof (elim bind_resE, goal_cases)
  case (1 a b found q w1)
  have q: "publication_map w (pub_id q) = Some q" "pub_scope_state q = scp_id s" "pub_status q = SUPERSEDED"
    "pub_version_number q < pub_version_number p" "publication_restore_blocked_reason E w q s True = Inr []"
    using eligible_predecessor_Some [of E w s "pub_version_number p" q] 1(4,5)
      base_maps(2) [OF lifecycle_inv_base [OF inv]] by (simp_all add: of_option_Inr)
  have "activated (pub_id q) (scp_id s) w w1"
    by (rule activate_publication_effect [OF 1(6) inv s q(1-3)])
  then have "activated (pub_id q) (scp_id s) w w'"
    by (rule activated_frame) (use 1(7) in auto)
  with q show ?case by (rule 1(1))
qed

lemma save_grants_release:
  "release_references p w = Inr w' \<Longrightarrow> same_grants w w'"
proof -
  have schedule: "same_grants v (snd (schedule_document_artifact_removal i path v))" for v i path
    by (simp add: same_grants_def schedule_document_artifact_removal_def fresh_id_def register_on_commit_def
        split: option.splits)
  have one: "same_grants (snd acc) (snd (release_artifact a acc))" for a acc
    using schedule by (cases acc) (auto simp: release_artifact_def same_grants_def)
  have fold: "same_grants (snd acc) (snd (fold release_artifact xs acc))" for xs acc
  proof (induction xs arbitrary: acc)
    case (Cons a xs)
    then show ?case using same_grants_trans [OF one Cons.IH] by simp
  qed (simp add: same_grants_def)
  have fold': "same_grants v v'" if "fold release_artifact xs (n, v) = (a, v')" for xs n v a v'
    using fold [of "(n, v)" xs] that by simp
  assume "release_references p w = Inr w'"
  then show ?thesis
    by (auto simp: release_references_def release_terminal_document_artifact_references_def bind_res_Inr Let_def
        same_grants_def split: if_splits dest!: fold' [unfolded same_grants_def])
qed

lemma retire_publication_effect:
  assumes r: "retire_publication p w = Inr w'" and p: "status_of w (pub_id p) = Some (u, sc)"
  shows "status_of w' = (status_of w)(pub_id p \<mapsto> (PUB_OBSOLETE, sc)) \<and> current_of w' = current_of w
    \<and> grants_revoked p w'"
  using r unfolding retire_publication_def Let_def
proof (elim bind_resE, goal_cases)
  case (1 w2)
  let ?w1 = "snd (revoke_publication_dataset_key_grants p w)"
  note m1 = core_eq_maps [OF core_eq_revoke_grants [of w p]]
  note m3 = core_eq_maps [OF core_eq_release_references [OF 1(2)]]
  obtain p0 where p0: "publication_map ?w1 (pub_id p) = Some p0" "scope_map w2 = scope_map ?w1"
      "publication_map w2 = (publication_map ?w1)(pub_id p \<mapsto> p0\<lparr>pub_status := PUB_OBSOLETE, pub_source_snapshot := None\<rparr>)"
    using publication_effect [OF 1(1)] by auto
  have "pub_scope_state p0 = sc" using p p0(1) m1 by (simp add: status_of_def)
  then have "status_of w' = (status_of w)(pub_id p \<mapsto> (PUB_OBSOLETE, sc))"
    using p0(3) m1 m3 by (simp add: status_of_def project_upd)
  moreover have "current_of w' = current_of w"
    using p0(2) m1 m3 by (simp add: current_of_def)
  moreover have "grants_revoked p w'"
    by (rule grants_revoked_same [OF _ same_grants_trans [OF save_grants(1) [OF 1(1)] save_grants_release [OF 1(2)]]])
       (simp add: grants_revoked_def revoke_all)
  ultimately show ?case by blast
qed

lemma repoint_effect:
  assumes "repoint_latest_built s i w = Inr w'"
  shows "current_of w' = current_of w \<and> status_of w' = status_of w \<and> same_grants w w'"
proof -
  have "w' = w \<or> update_scope s (\<lambda>s. s\<lparr>scp_latest_built_publication := scp_current_published_publication s\<rparr>) w = Inr w'"
    using assms by (auto simp: repoint_latest_built_def bind_res_Inr split: if_splits)
  then show ?thesis
  proof
    assume u: "update_scope s (\<lambda>s. s\<lparr>scp_latest_built_publication := scp_current_published_publication s\<rparr>) w = Inr w'"
    have "status_of w' = status_of w" using scope_effect [OF u] by (auto simp: status_of_def)
    then show ?thesis using neutral_scope_current [OF u] save_grants(3) [OF u] by simp
  qed (simp add: same_grants_def)
qed

lemma delete_active_effect:
  assumes d: "delete_publication E actor i w = Inr (x, w')" and inv: "lifecycle_inv w"
    and p: "publication_map w i = Some p" "pub_status p = PUBLISHED"
  obtains q s where "publication_map w (pub_id q) = Some q" and "pub_scope_state q = pub_scope_state p"
    and "pub_version_number q < pub_version_number p" and "scope_map w (pub_scope_state p) = Some s"
    and "publication_restore_blocked_reason E w q s True = Inr []"
    and "current_of w' = (current_of w)(pub_scope_state p \<mapsto> Some (pub_id q))"
    and "status_of w' (pub_id q) = Some (PUBLISHED, pub_scope_state p)"
    and "status_of w' i = Some (PUB_OBSOLETE, pub_scope_state p)" and "grants_revoked p w'"
  using d unfolding delete_publication_def
proof (elim bind_resE, goal_cases)
  case (1 p' u v s a w1 w2 w3)
  have p': "p' = p" "pub_id p = i" using fetch_publication_Inr [OF 1(2)] p(1) by auto
  have s: "scope_map w (pub_scope_state p) = Some s" "scp_id s = pub_scope_state p"
    using scope_of_publication_Inr [OF 1(5) lifecycle_inv_base [OF inv]] p(1) p' by auto
  have ra: "replace_active E s p actor w = Inr w1" using 1(7) p(2) p' by simp
  obtain q where q: "publication_map w (pub_id q) = Some q" "pub_scope_state q = pub_scope_state p"
    "pub_version_number q < pub_version_number p" "publication_restore_blocked_reason E w q s True = Inr []"
    and act: "activated (pub_id q) (pub_scope_state p) w w1"
    using replace_active_effect [OF ra inv, unfolded s(2), OF s(1)] by metis
  have st1: "status_of w1 (pub_id p) = Some (SUPERSEDED, pub_scope_state p)"
    using act p [folded p'(2)] unfolding activated_def by blast
  note r2 = retire_publication_effect [OF 1(8) [unfolded p'(1)] st1] and r3 = repoint_effect [OF 1(9)]
  have e: "w' = publication_event ''publication.deleted'' actor p (attempt_metadata p)
      (schedule_artifact_removal (am_path (pub_artifact p)) w3)" using 1(10) p'(1) by simp
  have c: "core_eq w3 w'"
    unfolding e by (rule core_eq_trans [OF core_eq_schedule core_eq_publication_event])
  have ne: "pub_id q \<noteq> pub_id p"
  proof
    assume "pub_id q = pub_id p"
    with q(1) p(1) p'(2) have "q = p" by (metis option.inject)
    with q(3) show False by simp
  qed
  have "grants_revoked p w3" using r2 r3 grants_revoked_same by blast
  then have "grants_revoked p w'"
    using same_grants_trans [OF same_grants_event(2) same_grants_event(1)] grants_revoked_same unfolding e by blast
  moreover have "current_of w' = current_of w3" "status_of w' = status_of w3"
    using core_eq_maps [OF c] by (simp_all add: current_of_def status_of_def)
  moreover have "current_of w1 = (current_of w)(pub_scope_state p \<mapsto> Some (pub_id q))"
    "status_of w1 (pub_id q) = Some (PUBLISHED, pub_scope_state p)"
    using act unfolding activated_def by blast+
  ultimately have "current_of w' = (current_of w)(pub_scope_state p \<mapsto> Some (pub_id q))"
    "status_of w' (pub_id q) = Some (PUBLISHED, pub_scope_state p)"
    "status_of w' i = Some (PUB_OBSOLETE, pub_scope_state p)" "grants_revoked p w'"
    using r2 r3 ne p'(2) by auto
  then show ?case by (rule 1(1) [OF q(1,2,3) s(1) q(4)])
qed

subsection \<open>Failing\<close>

lemma fail_effect:
  assumes f: "fail_publication_job E i msg cat w = Inr (r, w')" and inv: "lifecycle_inv w"
    and j: "job_map w i = Some j" "job_status j = RUNNING"
  shows "\<exists>k. job_build_publication j = Some k
     \<and> status_of w' = (status_of w)(k \<mapsto> (PUB_FAILED, job_scope_state j)) \<and> scope_states w' = scope_states w
     \<and> attempt_of w' i = Some (JOB_FAILED, Some k, job_scope_state j)"
proof -
  obtain k p where k: "job_build_publication j = Some k" and p: "publication_map w k = Some p"
    "pub_status p = BUILDING" "pub_scope_state p = job_scope_state j"
    using running_building [OF inv j] by blast
  have pid: "pub_id p = k" by (rule publication_map_id [OF p(1)])
  obtain w1 w2 w3 where
    uj: "update_job i (\<lambda>j. j\<lparr>job_status := JOB_FAILED, job_completed_at := Some (clock w),
         job_error_message := take 2000 msg, job_error_category := take 32 cat\<rparr>) w = Inr w1"
    and fa: "(case fk_publication (job_build_publication j) w1 of
          None \<Rightarrow> Inr w1 | Some q \<Rightarrow> fail_attempt q (take 2000 msg) w1) = Inr w2"
    and c3: "core_eq w2 w3" and fu: "queue_follow_up_if_stale E j w3 = Inr w'"
    using f j unfolding fail_publication_job_def
    by (auto simp: get_is_map Let_def bind_res_Inr intro: core_eq_record_event)
  have m1: "publication_map w1 = publication_map w" "scope_states w1 = scope_states w"
    "job_map w1 i = Some (j\<lparr>job_status := JOB_FAILED, job_completed_at := Some (clock w),
         job_error_message := take 2000 msg, job_error_category := take 32 cat\<rparr>)"
    using job_effect [OF uj] j(1) save_job_scopes [OF uj] by auto
  have "fk_publication (job_build_publication j) w1 = Some p"
    using k p(1) m1(1) by (simp add: fk_publication_def get_is_map)
  with fa have "fail_attempt p (take 2000 msg) w1 = Inr w2" by simp
  then obtain w1b where
    up: "update_publication k (\<lambda>p. p\<lparr>pub_status := PUB_FAILED, pub_artifact_status := ART_FAILED,
        pub_build_error := take 2000 msg\<rparr>) (schedule_artifact_removal (am_path (pub_artifact p)) w1) = Inr w1b"
    and rel: "core_eq w1b w2"
    using p(2) pid by (auto simp: fail_attempt_def Let_def bind_res_Inr dest: core_eq_release_references)
  note ms = core_eq_maps [OF core_eq_schedule [of w1 "am_path (pub_artifact p)"]]
  have c: "core_eq w1b w'"
    using core_eq_trans [OF rel core_eq_trans [OF c3 core_eq_follow_up [OF fu]]] .
  have m2: "publication_map w1b = (publication_map w)(k \<mapsto> p\<lparr>pub_status := PUB_FAILED,
      pub_artifact_status := ART_FAILED, pub_build_error := take 2000 msg\<rparr>)" "job_map w1b = job_map w1"
    using publication_effect [OF up] ms m1(1) p(1) by auto
  note m' = core_eq_maps [OF c]
  have "status_of w' = (status_of w)(k \<mapsto> (PUB_FAILED, job_scope_state j))"
    using m2(1) m' p(3) by (simp add: status_of_def project_upd)
  moreover have "scope_states w' = scope_states w"
    using core_eq_scopes [OF c] save_publication_scopes [OF up] core_eq_scopes [OF core_eq_schedule] m1(2) by simp
  moreover have "attempt_of w' i = Some (JOB_FAILED, Some k, job_scope_state j)"
    using m' m2(2) m1(3) k by (simp add: attempt_of_def)
  ultimately show ?thesis using k by blast
qed

subsection \<open>Enqueueing\<close>

lemma create_attempt_result:
  assumes c: "create_attempt key s rb tr db al snap fp w0 w = Inr (r, w')" and b: "base_inv w"
  shows "r = Some (next_id w) \<and> (\<exists>j\<in>set (jobs w'). job_id j = next_id w \<and> job_status j = PENDING
      \<and> job_key j = key \<and> job_scope_state j = scp_id s \<and> job_build_publication j \<noteq> None)"
proof -
  let ?w1 = "w\<lparr>next_id := Suc (next_id w)\<rparr>"
  let ?job = "new_job (next_id w) key s rb tr db al (clock w)"
  have ok: "job_constraints (jobs w @ [?job])"
    using c by (auto simp: create_attempt_def Let_def fresh_id_def job_full_clean_def bind_res_Inr require_Inr)
  then have cj: "create_job ?job ?w1 = Inr (?w1\<lparr>jobs := jobs w @ [?job]\<rparr>)"
    by (simp add: create_job_def)
  from c obtain p w3 w4 where
    r: "r = Some (next_id w)" and al: "allocate_staged_publication s ?job fp snap (?w1\<lparr>jobs := jobs w @ [?job]\<rparr>) = Inr (p, w3)"
    and uj: "update_job (next_id w) (\<lambda>j. j\<lparr>job_build_publication := Some (pub_id p)\<rparr>) w3 = Inr w4"
    and w': "jobs w' = jobs w4"
    by (auto simp: create_attempt_def Let_def fresh_id_def bind_res_Inr cj record_event_def)
  have "jobs w3 = jobs w @ [?job]"
    using al by (auto simp: allocate_staged_publication_def bind_res_Inr fresh_id_def Let_def
        publication_table.create_result)
  moreover have "row_get job_id (next_id w) (jobs w) = None"
    using base_fresh(3) [OF b] by (simp add: row_get_None)
  ultimately have "job_map w3 (next_id w) = Some ?job"
    by (simp add: job_map_def get_job_def row_get_snoc)
  then have "job_map w4 (next_id w) = Some (?job\<lparr>job_build_publication := Some (pub_id p)\<rparr>)"
    using job_effect [OF uj] by auto
  then have "?job\<lparr>job_build_publication := Some (pub_id p)\<rparr> \<in> set (jobs w')"
    using map_mem(3) w' by simp
  moreover have "job_key (?job\<lparr>job_build_publication := x\<rparr>) = job_key ?job" for x by (simp add: job_key_def)
  ultimately show ?thesis using r by (intro conjI bexI) simp_all
qed

lemma scope_is_dirty_cong:
  assumes "publications w2 = publications w"
    and "scp_current_published_publication s = scp_current_published_publication s0" and "fp \<noteq> []"
  shows "scope_is_dirty E w2 s (Some fp) = scope_is_dirty E w s0 (Some fp)"
  using assms by (simp add: scope_is_dirty_def fk_publication_def get_publication_def split: option.splits)

text \<open>Whatever queueing returns, a dirty scope has a PENDING or RUNNING job afterwards.\<close>

lemma enqueue_active:
  assumes e: "enqueue_publication_job E d st c rb tr db al None w = Inr (r, w')" and inv: "lifecycle_inv w"
    and l: "locked_scope d st c w = Inr s0" and snap: "current_source_snapshot s0 w = Inr snap"
    and dirty: "al \<or> source_fingerprint_for_payload E snap \<noteq> []
        \<and> scope_is_dirty E w s0 (Some (source_fingerprint_for_payload E snap))"
  shows "\<exists>j\<in>set (jobs w'). job_active j \<and> job_scope_state j = scp_id s0"
proof -
  have b: "base_inv w" by (rule lifecycle_inv_base [OF inv])
  have found: "\<exists>j\<in>set (jobs w). job_id j = job_id a \<and> job_active j \<and> job_scope_state j = scp_id s0"
    if key: "scope_filter d st c = Inr key"
      and a: "first_by job_id (\<lambda>j. job_key j = key \<and> job_active j) (jobs w) = Some a" for key a
  proof -
    have a': "a \<in> set (jobs w)" "job_key a = key" "job_active a" using first_by_SomeD [OF a] by auto
    then have "owned w (job_scope_state a) key" using b by (auto simp: base_inv_def)
    moreover obtain t where "key = (t, d, st, c)" using key by (auto simp: scope_filter_def bind_res_Inr)
    ultimately have "scp_id s0 = job_scope_state a" using owned_scope [OF b _ l] by blast
    with a' show ?thesis by auto
  qed
  show ?thesis
    using e
  proof (cases rule: enqueue_cases)
    case (clean s1 snap1 fp s w2 b s')
    then have "s1 = s0" using l by simp
    note se = enqueue_source_effect [OF clean(2)]
    have "fp = source_fingerprint_for_payload E snap" using se snap \<open>s1 = s0\<close> by simp
    then have "scope_is_dirty E w2 s (Some fp)"
      using dirty clean(3) se \<open>s1 = s0\<close> scope_is_dirty_cong [of w2 w s s0 fp E] by simp
    then show ?thesis using clean(4) by simp
  next
    case (running s1 snap1 fp s w2 key a)
    then show ?thesis using enqueue_source_effect [OF running(2)] found [OF running(3)] by auto
  next
    case (coalesced s1 snap1 fp s w2 key a)
    have jobs: "jobs w2 = jobs w" using enqueue_source_effect [OF coalesced(2)] by simp
    obtain j where j: "j \<in> set (jobs w)" "job_id j = job_id a" "job_active j" "job_scope_state j = scp_id s0"
      using found [OF coalesced(3)] coalesced(4) jobs by auto
    have "keeps w w2" using enqueue_source_keeps [OF coalesced(2) inv] by simp
    then have i2: "lifecycle_inv w2" by (rule keepsD(1))
    have "job_map w2 (job_id a) = Some j"
      using j jobs base_maps(3) [OF lifecycle_inv_base [OF i2]] by simp
    then obtain j1 where "job_map w' (job_id a) = Some j1" "job_status j1 = job_status j" "job_scope_state j1 = job_scope_state j"
      using coalesce_job [OF coalesced(5)] by blast
    then show ?thesis using j map_mem(3) by (metis job_active_def)
  next
    case (created s1 snap1 fp s w2 key)
    have "s1 = s0" using created(1) l by simp
    moreover have "base_inv w2"
      using enqueue_source_keeps [OF created(2) inv] keepsD(1) lifecycle_inv_base by blast
    ultimately show ?thesis
      using create_attempt_result [OF created(5)] enqueue_source_effect [OF created(2)]
      by (auto simp: job_active_def)
  qed
qed

subsection \<open>Claiming\<close>

definition frozen_attempt :: "nat \<Rightarrow> json \<Rightarrow> string \<Rightarrow> world \<Rightarrow> bool" where
  "frozen_attempt i snap fp w \<longleftrightarrow> (\<exists>j p. job_map w i = Some j \<and> job_status j = RUNNING
     \<and> job_build_publication j = Some (pub_id p) \<and> publication_map w (pub_id p) = Some p
     \<and> pub_status p = BUILDING \<and> pub_source_snapshot p = Some snap \<and> pub_source_fingerprint p = fp
     \<and> job_heartbeat_at j = Some (clock w))"

lemma save_clock:
  "update_publication i f w = Inr w' \<Longrightarrow> clock w' = clock w" "update_job i g w = Inr w' \<Longrightarrow> clock w' = clock w"
  "update_scope i h w = Inr w' \<Longrightarrow> clock w' = clock w" "pin_document a b c w = Inr w' \<Longrightarrow> clock w' = clock w"
  by (auto simp: update_publication_def update_job_def update_scope_def pin_document_def res_simps save_results)

lemma pin_source_clock: "pin_source i s w = Inr w' \<Longrightarrow> clock w' = clock w"
  unfolding pin_source_def
  by (elim bind_resE) (erule fold_res_invariant [where I = "\<lambda>v. clock v = clock w"], auto dest: save_clock)

lemma start_build_effect:
  assumes "start_build job p scope snap fp w = Inr (r, w')"
  shows "r = Some (job_id job) \<and> frozen_attempt (job_id job) snap fp w'"
  using assms unfolding start_build_def
proof (elim bind_resE, goal_cases)
  case (1 w1 w2 w3 w4)
  have w': "w' = w4" "r = Some (job_id job)" using 1(5) by auto
  have c3: "core_eq w2 w3" "clock w3 = clock w2"
    using 1(3) by (auto split: if_splits dest: core_eq_pin_source pin_source_clock)
  have c1: "clock w1 = clock w" using 1(1) by (auto split: if_splits dest: save_clock)
  obtain p0 where p0: "publication_map w2 (pub_id p) = Some (p0\<lparr>pub_source_revision := scp_source_revision scope,
       pub_source_snapshot := Some snap, pub_source_fingerprint := fp, pub_status := BUILDING\<rparr>)"
    "pub_id p0 = pub_id p"
    using publication_effect [OF 1(2)] publication_map_id by fastforce
  have "clock w4 = clock w" using save_clock(2) [OF 1(4)] c3(2) save_clock(1) [OF 1(2)] c1 by simp
  moreover have "publication_map w4 (pub_id p) = publication_map w2 (pub_id p)"
    using job_effect [OF 1(4)] core_eq_maps [OF c3(1)] by auto
  moreover obtain j0 where "job_map w4 (job_id job) = Some (j0\<lparr>job_status := RUNNING, job_started_at := Some (clock w),
       job_heartbeat_at := Some (clock w), job_source_revision := scp_source_revision scope,
       job_attempt_count := job_attempt_count job + 1,
       job_build_publication := Some (pub_id p), job_error_category := [],
       job_error_message := []\<rparr>)"
    using job_effect [OF 1(4)] by auto
  ultimately have "\<exists>j. job_map w4 (job_id job) = Some j \<and> job_status j = RUNNING
      \<and> job_build_publication j = Some (pub_id p) \<and> job_heartbeat_at j = Some (clock w4)"
    "\<exists>q. publication_map w4 (pub_id p) = Some q \<and> pub_id q = pub_id p \<and> pub_status q = BUILDING
      \<and> pub_source_snapshot q = Some snap \<and> pub_source_fingerprint q = fp"
    using p0 by simp_all
  then show ?case using w' unfolding frozen_attempt_def by metis
qed

lemma claim_attempt_effect:
  assumes "claim_attempt job scope snap fp w = Inr (Some i, w')" and run: "job_map w' i = Some j" "job_status j = RUNNING"
  shows "frozen_attempt i snap fp w'"
proof -
  have stop: False if "update_job k (\<lambda>j. j\<lparr>job_status := JOB_OBSOLETE,
      job_completed_at := t\<rparr>) v = Inr w'" "i = k" for t v k
    using job_effect [OF that(1)] run that(2) by auto
  show ?thesis
    using assms(1) unfolding claim_attempt_def
    by (elim bind_resE) (auto split: prod.splits if_splits option.splits elim!: bind_resE dest: stop start_build_effect)
qed

lemma claim_job_effect:
  assumes c: "claim_job E c w = Inr (Some i, w')" and b: "base_inv w"
    and run: "job_map w' i = Some j" "job_status j = RUNNING"
  shows "\<exists>snap. sources w (job_dataset_type_code c) (job_department c) (job_station c) = Inr snap
     \<and> frozen_attempt i snap (source_fingerprint_for_payload E snap) w'"
  using c unfolding claim_job_def
proof (elim bind_resE, goal_cases)
  case (1 s0)
  note s0 = locked_scope_Inr [OF 1(1) b]
  have failed: False if "update_job k (\<lambda>j. j\<lparr>job_status := JOB_FAILED, job_completed_at := t,
        job_error_category := x, job_error_message := y\<rparr>) v = Inr w'" "i = k" for t x y v k
    using job_effect [OF that(1)] run that(2) by auto
  from 1(2) have "\<exists>snap fp s1 w1. current_source_state E s0 w = Inr ((snap, fp, s1), w1) \<and> frozen_attempt i snap fp w'"
    by (auto simp: Let_def split: prod.splits if_splits option.splits sum.splits elim!: bind_resE
        dest: failed dest!: claim_attempt_effect [OF _ run])
  then obtain snap fp s1 w1 where cs: "current_source_state E s0 w = Inr ((snap, fp, s1), w1)"
    and fr: "frozen_attempt i snap fp w'" by blast
  from cs have "current_source_snapshot s0 w = Inr snap" "fp = source_fingerprint_for_payload E snap"
    by (auto simp: current_source_state_def bind_res_Inr split: prod.splits)
  with fr s0 show ?case by (auto simp: current_source_snapshot_def bind_res_Inr)
qed

end
