(* ===== verification/Service_Properties.thy ===== *)
theory Service_Properties
  imports System_Properties Service_Effects
begin

text \<open>
  What single services of apps/publications/services.py achieve: the outcome of a build, the effect of a
  failure, of a rollback and of a deletion, that a dirty source never stays without a job, and that a
  claim freezes the source it will build.  \<open>lifecycle_inv\<close> is the invariant of every reachable state.
\<close>

lemma returns_pair: "(case r of Inl _ \<Rightarrow> False | Inr _ \<Rightarrow> True) \<Longrightarrow> \<exists>x w. r = Inr (x, w)"
  by (cases r) auto

lemma demo_running_job:
  "\<exists>job. get_job 101 demo_running = Some job \<and> job_status job = RUNNING"
proof -
  have "map_option job_status (get_job 101 demo_running) = Some RUNNING" by code_simp
  then show ?thesis by blast
qed

lemma demo_running_inv: "lifecycle_inv demo_running"
  by (rule reachable_inv [OF demo_reachable(1)])

text \<open>
  C6: Finalising a RUNNING job is all or nothing.  Either the attempt becomes the scope's current
  publication, the job SUCCEEDED, and the publication that was current is SUPERSEDED with every dataset key
  grant revoked and, except for the two file-library datasets, every generation key grant too; or the attempt
  and the job are OBSOLETE and no scope's current pointer moved.
\<close>

theorem finalize_outcome:
  assumes "lifecycle_inv w" and "finalize_publication_job E i summary artifact fp w = Inr (r, w')"
    and "get_job i w = Some job" and "job_status job = RUNNING"
  shows "\<exists>k. job_build_publication job = Some k
     \<and> (becomes_current i k (job_scope_state job) w w' \<or> retired i k (job_scope_state job) w w')"
  using finalize_effect assms by (simp add: get_is_map)

theorem finalize_outcome_witness:
  "\<exists>r w' sc k. finalize_publication_job demo_env 101 (demo_summary 1)
      (Some (demo_artifact ''1/102/artifact.bin'')) None demo_running = Inr (r, w')
     \<and> (becomes_current 101 k sc demo_running w'
        \<or> retired 101 k sc demo_running w')"
proof -
  have "(case finalize_publication_job demo_env 101 (demo_summary 1)
      (Some (demo_artifact ''1/102/artifact.bin'')) None demo_running of Inl _ \<Rightarrow> False | Inr _ \<Rightarrow> True)"
    by code_simp
  then obtain r w' where f: "finalize_publication_job demo_env 101 (demo_summary 1)
      (Some (demo_artifact ''1/102/artifact.bin'')) None demo_running = Inr (r, w')" using returns_pair by blast
  obtain job where job: "get_job 101 demo_running = Some job" "job_status job = RUNNING"
    using demo_running_job by blast
  obtain k where "becomes_current 101 k (job_scope_state job) demo_running w'
        \<or> retired 101 k (job_scope_state job) demo_running w'"
    using finalize_outcome [OF demo_running_inv f job] by (elim exE conjE) (rule that)
  with f show ?thesis by blast
qed

text \<open>
  A failed build leaves the published data alone: no scope row changes, no publication other than
  the attempt changes status, and the attempt and its job are FAILED.
\<close>

theorem failed_build_keeps_current:
  assumes "lifecycle_inv w" and "fail_publication_job E i msg cat w = Inr (r, w')"
    and "get_job i w = Some job" and "job_status job = RUNNING"
  shows "\<exists>k. job_build_publication job = Some k \<and> scope_states w' = scope_states w
     \<and> status_of w' = (status_of w)(k \<mapsto> (PUB_FAILED, job_scope_state job))
     \<and> attempt_of w' i = Some (JOB_FAILED, Some k, job_scope_state job)"
  using fail_effect assms by (fastforce simp: get_is_map)

theorem failed_build_keeps_current_witness:
  "\<exists>r w' k sc. fail_publication_job demo_env 101 ''boom'' ''build'' demo_running = Inr (r, w')
     \<and> scope_states w' = scope_states demo_running \<and> status_of w' k = Some (PUB_FAILED, sc)"
proof -
  have "(case fail_publication_job demo_env 101 ''boom'' ''build'' demo_running of Inl _ \<Rightarrow> False | Inr _ \<Rightarrow> True)"
    by code_simp
  then obtain r w' where f: "fail_publication_job demo_env 101 ''boom'' ''build'' demo_running = Inr (r, w')"
    using returns_pair by blast
  obtain job where job: "get_job 101 demo_running = Some job" "job_status job = RUNNING"
    using demo_running_job by blast
  from failed_build_keeps_current [OF demo_running_inv f job] f show ?thesis by fastforce
qed

text \<open>
  A rollback that returns was requested by an authorised actor for a SUPERSEDED publication that
  the strict restore policy accepts; afterwards that publication is the current one of its scope and
  the one it replaces is SUPERSEDED with its key grants revoked as \<open>grants_revoked\<close> says.
\<close>

theorem rollback_activates:
  assumes "lifecycle_inv w" and "rollback_publication E actor i w = Inr (x, w')"
  shows "\<exists>p s. get_publication i w = Some p \<and> pub_status p = SUPERSEDED
     \<and> get_scope (pub_scope_state p) w = Some s \<and> publication_restore_blocked_reason E w p s True = Inr []
     \<and> require_publication w actor p = Inr () \<and> activated i (pub_scope_state p) w w'"
  by (rule rollback_effect [OF assms(2,1)]) (auto simp: get_is_map)

theorem rollback_activates_witness:
  "\<exists>x w' sc. rollback_publication demo_env demo_admin 11 demo_two = Inr (x, w') \<and> activated 11 sc demo_two w'"
proof -
  have "(case rollback_publication demo_env demo_admin 11 demo_two of Inl _ \<Rightarrow> False | Inr _ \<Rightarrow> True)"
    by code_simp
  then obtain x w' where r: "rollback_publication demo_env demo_admin 11 demo_two = Inr (x, w')"
    using returns_pair by blast
  from rollback_activates [OF demo_two_inv r] r show ?thesis by blast
qed

text \<open>
  C7: Deleting the active publication of a scope never leaves the scope without one: an older
  publication of the same scope that the strict restore policy accepts becomes current first, and the
  deleted one is OBSOLETE with every dataset key grant revoked and, except for the two file-library datasets,
  every generation key grant too.
\<close>

theorem delete_active_replaces:
  assumes "lifecycle_inv w" and "delete_publication E actor i w = Inr (x, w')"
    and "get_publication i w = Some p" and "pub_status p = PUBLISHED"
  shows "\<exists>q s. get_publication (pub_id q) w = Some q \<and> pub_scope_state q = pub_scope_state p
     \<and> pub_version_number q < pub_version_number p \<and> get_scope (pub_scope_state p) w = Some s
     \<and> publication_restore_blocked_reason E w q s True = Inr []
     \<and> current_of w' = (current_of w)(pub_scope_state p \<mapsto> Some (pub_id q))
     \<and> status_of w' (pub_id q) = Some (PUBLISHED, pub_scope_state p)
     \<and> status_of w' i = Some (PUB_OBSOLETE, pub_scope_state p) \<and> grants_revoked p w'"
  by (rule delete_active_effect [OF assms(2,1)]) (use assms(3,4) in \<open>auto simp: get_is_map\<close>)

theorem delete_active_replaces_witness:
  "\<exists>x w' (q :: publication) sc. delete_publication demo_env demo_admin 12 demo_two = Inr (x, w')
     \<and> status_of w' (pub_id q) = Some (PUBLISHED, sc) \<and> status_of w' 12 = Some (PUB_OBSOLETE, sc)"
proof -
  have "(case delete_publication demo_env demo_admin 12 demo_two of Inl _ \<Rightarrow> False | Inr _ \<Rightarrow> True)"
    by code_simp
  then obtain x w' where r: "delete_publication demo_env demo_admin 12 demo_two = Inr (x, w')"
    using returns_pair by blast
  have p: "get_publication 12 demo_two = Some (demo_publication 12 2 PUBLISHED)"
    "pub_status (demo_publication 12 2 PUBLISHED) = PUBLISHED"
    by (simp_all add: demo_two_def get_publication_def row_get_def demo_publication_def)
  obtain q :: publication where "status_of w' (pub_id q) = Some (PUBLISHED, pub_scope_state (demo_publication 12 2 PUBLISHED))"
    "status_of w' 12 = Some (PUB_OBSOLETE, pub_scope_state (demo_publication 12 2 PUBLISHED))"
    using delete_active_replaces [OF demo_two_inv r p] by (elim exE conjE) (rule that)
  with r show ?thesis by blast
qed

text \<open>
  C8: No change is stranded: whenever \<open>enqueue_publication_job\<close> returns for a scope whose current
  source differs from what is published (or a clean rebuild was asked for), the scope has a PENDING or
  RUNNING job afterwards, also when the call reports that it queued nothing.
\<close>

theorem dirty_source_is_queued:
  assumes "lifecycle_inv w" and "enqueue_publication_job E d st c rb tr db al None w = Inr (r, w')"
    and "locked_scope d st c w = Inr s" and "current_source_snapshot s w = Inr snap"
    and "al \<or> source_fingerprint_for_payload E snap \<noteq> []
        \<and> scope_is_dirty E w s (Some (source_fingerprint_for_payload E snap))"
  shows "\<exists>j\<in>set (jobs w'). job_active j \<and> job_scope_state j = scp_id s"
  using enqueue_active assms by blast

theorem dirty_source_is_queued_witness:
  "\<exists>r w'. enqueue_publication_job demo_env (Some 1) None ''department_hydrants'' None DATA_CHANGE None False None
      demo_two = Inr (r, w') \<and> (\<exists>j\<in>set (jobs w'). job_active j \<and> job_scope_state j = 10)"
proof -
  have "(case enqueue_publication_job demo_env (Some 1) None ''department_hydrants'' None DATA_CHANGE None False None
      demo_two of Inl _ \<Rightarrow> False | Inr _ \<Rightarrow> True)"
    by code_simp
  then obtain r w' where e: "enqueue_publication_job demo_env (Some 1) None ''department_hydrants'' None DATA_CHANGE
      None False None demo_two = Inr (r, w')" using returns_pair by blast
  have "locked_scope (Some 1) None ''department_hydrants'' demo_two = Inr (demo_scope (Some 12))"
    by code_simp
  moreover have "current_source_snapshot (demo_scope (Some 12)) demo_two = Inr (hydrant_source 1)" by code_simp
  moreover have "source_fingerprint_for_payload demo_env (hydrant_source 1) \<noteq> []
      \<and> scope_is_dirty demo_env demo_two (demo_scope (Some 12)) (Some (source_fingerprint_for_payload demo_env (hydrant_source 1)))"
    by code_simp
  ultimately have "\<exists>j\<in>set (jobs w'). job_active j \<and> job_scope_state j = scp_id (demo_scope (Some 12))"
    using dirty_source_is_queued [OF demo_two_inv e] by blast
  then show ?thesis using e by (auto simp: demo_scope_def)
qed

text \<open>
  The claim is the freeze boundary: a job that a claim leaves RUNNING has a BUILDING attempt whose
  snapshot is the canonical source at that moment, with the fingerprint of that very snapshot.
\<close>

theorem claim_freezes_source:
  assumes "lifecycle_inv w" and "claim_job E c w = Inr (Some i, w')"
    and "get_job i w' = Some j" and "job_status j = RUNNING"
  shows "\<exists>snap. sources w (job_dataset_type_code c) (job_department c) (job_station c) = Inr snap
     \<and> frozen_attempt i snap (source_fingerprint_for_payload E snap) w'"
  using claim_job_effect assms lifecycle_inv_base by (simp add: get_is_map)

theorem claim_freezes_source_witness:
  "\<exists>c w' snap. claim_job demo_env c demo_due = Inr (Some 101, w')
     \<and> frozen_attempt 101 snap (source_fingerprint_for_payload demo_env snap) w'"
proof -
  have inv: "lifecycle_inv demo_due"
    using demo_due_reachable by (rule reachable_inv)
  have "(case jobs demo_due of [] \<Rightarrow> False | c # _ \<Rightarrow> (case claim_job demo_env c demo_due of Inl _ \<Rightarrow> False
      | Inr (r, w') \<Rightarrow> r = Some 101 \<and> map_option job_status (get_job 101 w') = Some RUNNING))"
    by code_simp
  then obtain c w' j where "claim_job demo_env c demo_due = Inr (Some 101, w')"
    "get_job 101 w' = Some j" "job_status j = RUNNING"
    by (auto split: list.splits sum.splits)
  with claim_freezes_source [OF inv] show ?thesis by metis
qed

text \<open>
  Data changes are scheduled for the next nightly window: strictly after now, at most one day
  later, and always at five past midnight UTC.
\<close>

theorem nightly_window:
  "now < data_change_not_before now \<and> data_change_not_before now \<le> now + usec_per_day
     \<and> data_change_not_before now mod usec_per_day = 300 * usec_per_second"
proof -
  have d: "usec_per_day = 86400000000" "300 * usec_per_second = 300000000"
    by (simp_all add: usec_per_day_def usec_per_second_def)
  define q r where "q = now div usec_per_day" and "r = now mod usec_per_day"
  have now: "now = q * usec_per_day + r" "0 \<le> r" "r < usec_per_day"
    by (simp_all add: q_def r_def d)
  have "data_change_not_before now = q * usec_per_day + (if r < 300 * usec_per_second then 0 else usec_per_day)
      + 300 * usec_per_second"
    by (simp add: data_change_not_before_def q_def r_def)
  then show ?thesis using now by (auto simp: d usec_per_second_def)
qed

end
