(* ===== verification/Policy_Properties.thy ===== *)
theory Policy_Properties
  imports System_Properties Service_Effects
begin

text \<open>
  The policies around the lifecycle: the batched assessment of rollback targets, retention, the worker
  under interleaving, logical source fingerprints and artifact paths.
\<close>

subsection \<open>Rollback targets\<close>

lemma superseded_before_cursor:
  "superseded_before w s (Some c) = filter (\<lambda>p. pub_version_number p < c) (superseded_before w s None)"
  by (simp add: superseded_before_def filter_sort conj_commute conj_left_commute)

lemma decreasing_suffix:
  assumes "sorted_wrt (\<lambda>a b. f b < (f a :: nat)) xs" and "0 < n" and "n \<le> length xs"
  shows "filter (\<lambda>x. f x < f (last (take n xs))) xs = drop n xs"
proof -
  have l: "last (take n xs) = xs ! (n - 1)"
    using assms(2,3) by (subst last_conv_nth) (auto simp: min_def)
  have lt: "f (xs ! j) < f (xs ! i)" if "i < j" "j < length xs" for i j
    using assms(1) that by (simp add: sorted_wrt_iff_nth_less)
  have "filter (\<lambda>x. f x < f (xs ! (n - 1))) (take n xs) = []"
  proof (clarsimp simp: filter_empty_conv in_set_conv_nth not_less)
    fix i assume "i < n"
    then have "i < n - 1 \<or> i = n - 1" "n - 1 < length xs" using assms(2,3) by linarith+
    then show "f (xs ! (n - Suc 0)) \<le> f (xs ! i)" using lt [of i "n - 1"] by auto
  qed
  moreover have "filter (\<lambda>x. f x < f (xs ! (n - 1))) (drop n xs) = drop n xs"
  proof (clarsimp simp: filter_id_conv in_set_conv_nth)
    fix i assume "i < length xs - n"
    then show "f (xs ! (n + i)) < f (xs ! (n - Suc 0))" using lt [of "n - 1" "n + i"] assms(2) by simp
  qed
  ultimately have "filter (\<lambda>x. f x < f (xs ! (n - 1))) (take n xs @ drop n xs) = drop n xs"
    by (simp only: filter_append append_Nil)
  then show ?thesis by (simp add: l)
qed

lemma scope_versions_distinct:
  assumes "base_inv w" and "p \<in> set (publications w)" and "q \<in> set (publications w)"
    and "pub_scope_state p = pub_scope_state q" and "pub_version_number p = pub_version_number q"
  shows "p = q"
proof -
  have "owned w (pub_scope_state p) (publication_key p)" "owned w (pub_scope_state q) (publication_key q)"
    using assms(1-3) by (auto simp: base_inv_def)
  then have "publication_key p = publication_key q" using assms(4) by (auto simp: owned_def)
  moreover have "distinct (map (\<lambda>p. (publication_key p, pub_version_number p)) (publications w))"
    using assms(1) by (auto simp: base_inv_def publication_constraints_def)
  ultimately show ?thesis using assms(2,3,5) by (auto simp: distinct_map inj_on_def)
qed

lemma superseded_decreasing:
  assumes "base_inv w"
  shows "sorted_wrt (\<lambda>a b. pub_version_number b < pub_version_number a) (superseded_before w s None)"
proof -
  let ?k = "\<lambda>p::publication. - int (pub_version_number p)"
  let ?xs = "superseded_before w s None"
  have "distinct (publications w)"
    using base_unique(2) [OF assms] by (simp add: distinct_map)
  then have "distinct ?xs" by (simp add: superseded_before_def)
  moreover have "inj_on ?k (set ?xs)"
    using scope_versions_distinct [OF assms] by (auto simp: inj_on_def superseded_before_set)
  ultimately have "distinct (map ?k ?xs)" by (simp add: distinct_map)
  moreover have "sorted (map ?k ?xs)" by (simp add: superseded_before_def)
  ultimately have "sorted_wrt (<) (map ?k ?xs)" by (simp add: strict_sorted_iff)
  then show ?thesis by (simp add: sorted_wrt_map)
qed

lemma iter_assessments_unbatched:
  assumes "base_inv w"
  shows "iter_predecessor_assessments E w s cursor
     = map (\<lambda>p. (p, batch_reason E w s p)) (superseded_before w s cursor)"
  using assms
proof (induction E w s cursor rule: iter_predecessor_assessments.induct)
  case (1 E w s cursor)
  let ?n = DOCUMENT_CANDIDATE_BATCH_SIZE and ?r = "\<lambda>p. (p, batch_reason E w s p)"
  let ?xs = "superseded_before w s cursor"
  have n: "0 < ?n" by (simp add: DOCUMENT_CANDIDATE_BATCH_SIZE_def)
  have sorted: "sorted_wrt (\<lambda>a b. pub_version_number b < pub_version_number a) ?xs"
    using superseded_decreasing [OF 1(2), of s] sorted_wrt_filter
    by (cases cursor) (simp_all add: superseded_before_cursor)
  show ?case
  proof (cases "length ?xs < ?n")
    case True
    then show ?thesis
      by (subst iter_predecessor_assessments.simps) (simp add: Let_def)
  next
    case False
    then have le: "?n \<le> length ?xs" and ne: "take ?n ?xs \<noteq> []" and len: "length (take ?n ?xs) = ?n"
      using n by auto
    let ?c = "pub_version_number (last (take ?n ?xs))"
    have "last (take ?n ?xs) \<in> set ?xs" using ne by (meson in_set_takeD last_in_set)
    then have "superseded_before w s (Some ?c) = filter (\<lambda>p. pub_version_number p < ?c) ?xs"
      by (cases cursor)
         (auto simp: superseded_before_cursor superseded_before_set intro!: filter_cong)
    also have "\<dots> = drop ?n ?xs" by (rule decreasing_suffix [OF sorted n le])
    finally have rest: "superseded_before w s (Some ?c) = drop ?n ?xs" .
    have "iter_predecessor_assessments E w s cursor
        = map ?r (take ?n ?xs) @ iter_predecessor_assessments E w s (Some ?c)"
      using n ne le by (subst iter_predecessor_assessments.simps) (auto simp: Let_def)
    also have "iter_predecessor_assessments E w s (Some ?c) = map ?r (drop ?n ?xs)"
      using 1(1) [OF refl ne _ 1(2)] len rest by simp
    finally show ?thesis by (simp flip: map_append)
  qed
qed

lemma select_restorable_prefix:
  "select_restorable n (map (\<lambda>p. (p, r p)) ps) = Inr qs \<Longrightarrow> qs = take n (filter (\<lambda>p. r p = Inr []) ps)"
proof (induction n "map (\<lambda>p. (p, r p)) ps" arbitrary: ps qs rule: select_restorable.induct)
  case (3 n p s xs)
  from 3(3) obtain ps' where ps: "ps = p # ps'" "s = r p" "xs = map (\<lambda>p. (p, r p)) ps'" by auto
  from 3(4) obtain reason where reason: "r p = Inr reason"
    by (auto simp: ps bind_res_Inr)
  show ?case
  proof (cases "reason = []")
    case True
    with 3(4) reason obtain qs' where "select_restorable n (map (\<lambda>p. (p, r p)) ps') = Inr qs'" "qs = p # qs'"
      by (auto simp: ps bind_res_Inr)
    with 3(1) [OF True ps(3)] True reason show ?thesis by (simp add: ps)
  next
    case False
    with 3(4) reason have "select_restorable (Suc n) (map (\<lambda>p. (p, r p)) ps') = Inr qs" by (simp add: ps)
    with 3(2) [OF False ps(3)] False reason show ?thesis by (simp add: ps)
  qed
qed auto

text \<open>
  C9: The batched walk over the rollback targets is the plain query: in every state that satisfies the
  invariant, \<open>select_restorable_predecessors\<close> returns the first \<open>limit\<close> SUPERSEDED publications of the scope, newest
  version first, that the strict restore policy accepts; no batch boundary skips or repeats one.
\<close>

theorem predecessors_are_newest_restorable:
  assumes "lifecycle_inv w" and "select_restorable_predecessors E w s limit = Inr ps"
  shows "ps = take limit (filter (\<lambda>p. batch_reason E w s p = Inr [])
     (sort_key (\<lambda>p. - int (pub_version_number p))
       (filter (\<lambda>p. pub_scope_state p = scp_id s \<and> pub_status p = SUPERSEDED) (publications w))))"
  using select_restorable_prefix assms(2)
  unfolding select_restorable_predecessors_def iter_assessments_unbatched [OF lifecycle_inv_base [OF assms(1)]]
  by (simp add: superseded_before_def)

theorem predecessors_are_newest_restorable_witness:
  "\<exists>ps. select_restorable_predecessors demo_env demo_two (demo_scope (Some 12)) 3 = Inr ps \<and> map pub_id ps = [11]"
proof -
  have c: "(case select_restorable_predecessors demo_env demo_two (demo_scope (Some 12)) 3 of
      Inl _ \<Rightarrow> False | Inr _ \<Rightarrow> True)" by code_simp
  then obtain ps where ps: "select_restorable_predecessors demo_env demo_two (demo_scope (Some 12)) 3 = Inr ps"
    by (cases "select_restorable_predecessors demo_env demo_two (demo_scope (Some 12)) 3") auto
  have "map pub_id (take 3 (filter (\<lambda>p. batch_reason demo_env demo_two (demo_scope (Some 12)) p = Inr [])
     (sort_key (\<lambda>p. - int (pub_version_number p))
       (filter (\<lambda>p. pub_scope_state p = scp_id (demo_scope (Some 12)) \<and> pub_status p = SUPERSEDED)
         (publications demo_two))))) = [11]" by code_simp
  with predecessors_are_newest_restorable [OF demo_two_inv ps] ps show ?thesis by simp
qed

subsection \<open>Retention\<close>

lemma newest_ready:
  assumes b: "base_inv w" and p: "p \<in> set (publications w)" and r: "ready_predecessor k p"
    and n: "pub_id p \<notin> set (map pub_id (take n (sort_key (\<lambda>p. - int (pub_version_number p))
       (filter (ready_predecessor k) (publications w)))))"
  shows "n < predecessor_rank w p"
proof -
  let ?ps = "filter (ready_predecessor k) (publications w)"
  let ?newer = "\<lambda>q. pub_version_number p < pub_version_number q"
  define xs where "xs = sort_key (\<lambda>p. - int (pub_version_number p)) ?ps"
  have k: "pub_scope_state p = k" using r by (simp add: ready_predecessor_def)
  have s: "sorted (map (\<lambda>p. - int (pub_version_number p)) xs)" and xs: "set xs = set ?ps"
    by (simp_all add: xs_def)
  from p r xs obtain m where m: "m < length xs" "xs ! m = p"
    by (metis (mono_tags, lifting) filter_set in_set_conv_nth mem_Collect_eq set_filter)
  have n': "p \<notin> set (take n xs)" using n by (auto simp: xs_def)
  have nm: "n \<le> m"
    using n' m by (metis in_set_conv_nth length_take min_less_iff_conj not_le nth_take)
  have newer: "?newer q" if q: "q \<in> set (take n xs)" for q
  proof -
    obtain i where i: "i < n" "i < length xs" "q = xs ! i" using q by (auto simp: in_set_conv_nth)
    have "pub_version_number p \<le> pub_version_number q"
      using sorted_nth_mono [OF s, of i m] i m nm by simp
    moreover have "q \<in> set (publications w)" "pub_scope_state q = k"
      using in_set_takeD [OF q] xs by (auto simp: ready_predecessor_def)
    moreover have "q \<noteq> p" using q n' by auto
    ultimately show ?thesis
      using scope_versions_distinct [OF b p] k by (metis le_neq_implies_less)
  qed
  have "n = length (take n xs)" using nm m(1) by simp
  also have "\<dots> = length (filter ?newer (take n xs))" using newer by (simp add: filter_id_conv [THEN iffD2])
  also have "\<dots> \<le> length (filter ?newer xs)"
    by (metis append_take_drop_id filter_append le_add1 length_append)
  also have "\<dots> = length (filter ?newer ?ps)" by (simp add: xs_def filter_sort)
  finally show ?thesis by (simp add: predecessor_rank_def k conj_commute)
qed

text \<open>
  C10: Retention retires only surplus history.  If one retention transaction changes the status of a
  publication, that publication is the candidate itself, it was SUPERSEDED and becomes OBSOLETE with its key
  grants revoked (generation grants of the file libraries excepted), it was not its scope's current publication, no job of the scope was live, the run
  was no dry run, and it was not among the retained predecessors: with the plain policy a READY
  predecessor has at least \<open>RETAINED_ROLLBACK_PREDECESSORS\<close> newer READY ones.
\<close>

theorem retention_retires_surplus:
  assumes "lifecycle_inv w" and "process_candidate E i now dry w = Inr (outcome, w')"
    and "status_of w' k \<noteq> status_of w k"
  shows "k = i \<and> outcome = Obsoleted \<and> \<not> dry
     \<and> (\<exists>p s. get_publication i w = Some p \<and> pub_status p = SUPERSEDED \<and> get_scope (pub_scope_state p) w = Some s
          \<and> status_of w' i = Some (PUB_OBSOLETE, pub_scope_state p) \<and> grants_revoked p w'
          \<and> scp_current_published_publication s \<noteq> Some i
          \<and> (\<forall>j\<in>set (jobs w). job_scope_state j = pub_scope_state p \<longrightarrow> \<not> job_active j)
          \<and> is_retained_predecessor E w s p = Inr False
          \<and> (\<not> RESTORE_AWARE_ENABLED E \<and> ready_predecessor (pub_scope_state p) p
               \<longrightarrow> RETAINED_ROLLBACK_PREDECESSORS E < predecessor_rank w p))"
proof -
  have "w' \<noteq> w" using assms(3) by auto
  with assms(2) show ?thesis
  proof (cases rule: process_candidate_cases)
    case (obsoleted q s w1 w2)
    have q: "q \<in> set (publications w)" "pub_id q = i" "scp_id s = pub_scope_state q"
      using map_mem(2) publication_map_id obsoleted(1,2) by (auto simp: scope_map_def get_scope_def row_get_key)
    note st = status_of_publication [OF obsoleted(1)]
    have c: "core_eq w2 w'"
      unfolding obsoleted(11) by (rule core_eq_trans [OF core_eq_schedule core_eq_publication_event])
    note e1 = retire_publication_effect [OF obsoleted(9), unfolded q(2), OF st] and e2 = repoint_effect [OF obsoleted(10)]
    have st': "status_of w' = (status_of w)(i \<mapsto> (PUB_OBSOLETE, pub_scope_state q))"
      using e1 e2 core_eq_maps [OF c] by (simp add: status_of_def)
    have "grants_revoked q w2" using e1 e2 grants_revoked_same by blast
    then have g: "grants_revoked q w'"
      using same_grants_trans [OF same_grants_event(2) same_grants_event(1)] grants_revoked_same
      unfolding obsoleted(11) by blast
    have rank: "RETAINED_ROLLBACK_PREDECESSORS E < predecessor_rank w q"
      if "\<not> RESTORE_AWARE_ENABLED E" "ready_predecessor (pub_scope_state q) q"
      by (rule newest_ready [OF lifecycle_inv_base [OF assms(1)] q(1) that(2)])
         (use obsoleted(6) that(1) q(3) in \<open>simp add: is_retained_predecessor_def\<close>)
    have "\<forall>j\<in>set (jobs w). job_scope_state j = pub_scope_state q \<longrightarrow> \<not> job_active j"
      using obsoleted(3) by (simp add: live_job_def first_by_None q(3))
    moreover have "k = i" using assms(3) st' by (auto split: if_splits)
    ultimately show ?thesis using obsoleted(1,2,4-8) st' g rank by (auto simp: get_is_map)
  next
    case (purged q w1 w2)
    have "status_of w1 = status_of w"
      using publication_effect [OF purged(3)] by (auto simp: status_of_def project_neutral)
    then have "status_of w' = status_of w"
      using core_eq_maps [OF core_eq_release_references [OF purged(4)]] core_eq_maps [OF purged(5)]
      by (simp add: status_of_def)
    with assms(3) show ?thesis by simp
  qed
qed

theorem retention_retires_surplus_witness:
  "\<exists>w' sc. process_candidate (demo_env\<lparr>RETAINED_ROLLBACK_PREDECESSORS := 0\<rparr>) 11 0 False demo_two = Inr (Obsoleted, w')
     \<and> status_of w' 11 = Some (PUB_OBSOLETE, sc)"
proof -
  let ?E = "demo_env\<lparr>RETAINED_ROLLBACK_PREDECESSORS := 0\<rparr>"
  have "(case process_candidate ?E 11 0 False demo_two of Inl _ \<Rightarrow> False
      | Inr (_, w') \<Rightarrow> map_option pub_status (get_publication 11 w') = Some PUB_OBSOLETE)" by code_simp
  then obtain outcome w' where r: "process_candidate ?E 11 0 False demo_two = Inr (outcome, w')"
    and s: "map_option pub_status (get_publication 11 w') = Some PUB_OBSOLETE"
    by (auto split: sum.splits)
  have "status_of demo_two 11 = Some (SUPERSEDED, 10)"
    by (simp add: status_of_def publication_map_def get_publication_def row_get_def demo_two_def demo_publication_def)
  with s have "status_of w' 11 \<noteq> status_of demo_two 11"
    by (auto simp: status_of_def get_is_map)
  from retention_retires_surplus [OF demo_two_inv r this] r show ?thesis by auto
qed

subsection \<open>The worker among other transactions\<close>

text \<open>
  C11: The worker is safe under interleaving.  Whatever finite sequences of service transactions other
  processes commit between the worker's own transactions, one pass of the worker from a reachable state
  (claim, build outside locks, finalise or fail, compensation) keeps the lifecycle invariant, removes no
  publication, changes no publication's identity and moves statuses only along the lifecycle diagram.
\<close>

theorem worker_interleaving:
  assumes "reachable E w" and "\<forall>n v. lifecycle_steps E v (others n v)" and "framed_generation W"
  shows "lifecycle_inv (snd (process_next_job E W others w)) \<and> evolves w (snd (process_next_job E W others w))"
proof -
  have "fair_others others" unfolding fair_others_def using assms(2) steps_keep by blast
  from process_next_job_keeps [OF reachable_inv [OF assms(1)] this assms(3)] show ?thesis
    by (simp add: keeps_def)
qed

theorem worker_interleaving_witness:
  "lifecycle_inv (snd (process_next_job demo_env demo_worker demo_interference demo_due))
   \<and> map_option pub_status (get_publication 102 (snd (process_next_job demo_env demo_worker demo_interference demo_due)))
      = Some PUB_CANCELLED"
proof -
  have "\<forall>n v. lifecycle_steps demo_env v (demo_interference n v)"
    unfolding demo_interference_def by (auto intro: lifecycle_step.cancel)
  moreover have "framed_generation demo_worker"
    by (simp add: framed_generation_def demo_worker_def)
  ultimately have "lifecycle_inv (snd (process_next_job demo_env demo_worker demo_interference demo_due))"
    using worker_interleaving [OF demo_due_reachable] by blast
  moreover have "map_option pub_status (get_publication 102
      (snd (process_next_job demo_env demo_worker demo_interference demo_due))) = Some PUB_CANCELLED"
    by code_simp
  ultimately show ?thesis by blast
qed

text \<open>
  A published artifact can be lost, shown by one run: the source changes during a build, its builder fails when the
  follow-up is enqueued after the commit of the finalisation, and the exception reaches the worker's error
  handler, which removes the artifact of the publication that was just made current; the run without the change
  keeps it.  Every interfering transaction is a step of the system.
\<close>

lemma follow_up_failure_loses_artifact:
  "(\<forall>n v. lifecycle_steps demo_env v (demo_failing_source n v))
   \<and> stored_artifact 102 (snd (process_next_job demo_env demo_worker demo_failing_source demo_due)) = Some (PUBLISHED, False)
   \<and> stored_artifact 102 (snd (process_next_job demo_env demo_worker (\<lambda>_ v. v) demo_due)) = Some (PUBLISHED, True)"
proof (intro conjI allI)
  fix n :: nat and v :: world
  let ?v1 = "v\<lparr>sources := (\<lambda>_ _ _. Inr (hydrant_source 2))\<rparr>"
  have "lifecycle_step demo_env v ?v1" "lifecycle_step demo_env v (v\<lparr>sources := s\<rparr>)" for s
    by (rule lifecycle_step.other; simp add: elsewhere_def)+
  moreover have "lifecycle_step demo_env ?v1
      (snd (committed demo_env (mark_dirty demo_env (Some 1) None ''department_hydrants'' demo_admin ?v1) ?v1))"
    by (rule lifecycle_step.dirty)
  ultimately show "lifecycle_steps demo_env v (demo_failing_source n v)"
    by (auto simp: demo_failing_source_def Let_def intro: rtranclp.rtrancl_into_rtrancl [OF r_into_rtranclp])
next
  show "stored_artifact 102 (snd (process_next_job demo_env demo_worker demo_failing_source demo_due)) = Some (PUBLISHED, False)"
    by code_simp
  show "stored_artifact 102 (snd (process_next_job demo_env demo_worker (\<lambda>_ v. v) demo_due)) = Some (PUBLISHED, True)"
    by code_simp
qed

end
