(* ===== verification/Access_Properties.thy ===== *)
theory Access_Properties
  imports Scenario
begin

text \<open>
  Who may change a publication, where its artifact lies, what counts as a changed source, and what an
  unregistered dataset code does to the queue.
\<close>

subsection \<open>Authority over a publication scope\<close>

text \<open>
  The tenant model: system datasets belong to system administrators; a department dataset to the active
  administrators of that active department; a station's files to the administrators of the department that
  owns the station or, for accounts without any department, to the administrators of that station.
\<close>

definition publication_authority :: "world \<Rightarrow> nat option \<Rightarrow> nat option \<Rightarrow> nat option \<Rightarrow> string \<Rightarrow> bool" where
  "publication_authority w actor department station code \<longleftrightarrow>
     (\<exists>d. get_dataset_definition code = Inr d \<and>
       (if dt_scope d = SYSTEM then department = None \<and> station = None \<and> is_system_admin w actor
        else if code = ''station_files'' then
          \<not> is_system_admin w actor \<and> (\<exists>u dep. actor = Some u \<and> department = Some dep \<and>
            (if department_admin_of w u dep
             then department_is_active w dep \<and> (\<exists>s. station = Some s \<and> station_department w s = Some dep)
             else active_department_ids w actor = [] \<and> (\<exists>s. station = Some s \<and> station_admin_of w u s)))
        else if code = ''department_files'' then
          \<not> is_system_admin w actor \<and> (\<exists>u dep. actor = Some u \<and> department = Some dep \<and> department_admin_of w u dep)
        else (\<exists>u dep. actor = Some u \<and> department = Some dep \<and> department_is_active w dep
               \<and> department_admin_of w u dep)))"

text \<open>A library snapshot as \<open>file_library.publication\<close> builds it, and two small instances.\<close>

definition library_snapshot :: "json \<Rightarrow> json \<Rightarrow> json list \<Rightarrow> json list \<Rightarrow> json" where
  "library_snapshot library revision folders documents =
     JObj [(''library'', library), (''source_revision'', revision), (''folders'', JList folders),
           (''documents'', JList documents)]"

definition demo_library :: json where
  "demo_library = JObj [(''id'', JStr ''1''), (''name'', JStr ''Documents''), (''scope'', JStr ''department'')]"

definition demo_document :: "string \<Rightarrow> string \<Rightarrow> json" where
  "demo_document i content = JObj [(''id'', JStr i), (''name'', JStr (i @ ''.pdf'')), (''folder_id'', JNull),
     (''sha256'', JStr ''00''), (''size_bytes'', JInt 5), (''content_id'', JStr content)]"

lemma require_publication_scope_iff:
  "require_publication_scope w actor department station code = Inr ()
     \<longleftrightarrow> publication_authority w actor department station code"
proof (cases "get_dataset_definition code")
  case (Inl e)
  then show ?thesis by (simp add: require_publication_scope_def publication_authority_def)
next
  case (Inr d)
  consider "dt_scope d = SYSTEM" | "dt_scope d \<noteq> SYSTEM" "code = ''station_files''"
    | "dt_scope d \<noteq> SYSTEM" "code = ''department_files''"
    | "dt_scope d \<noteq> SYSTEM" "code \<notin> FILE_DATASETS" "code \<noteq> ''station_files''" "code \<noteq> ''department_files''"
    by (cases "dt_scope d = SYSTEM") (auto simp: FILE_DATASETS_def)
  then show ?thesis
  proof cases
    case 1
    with Inr show ?thesis
      by (auto simp: require_publication_scope_def publication_authority_def require_system_admin_def require_Inr)
  next
    case 2
    with Inr show ?thesis
      by (cases department; cases station)
         (auto simp: require_publication_scope_def publication_authority_def FILE_DATASETS_def require_scope_Inr
           require_department_admin_Inr active_department_ids_iff)
  next
    case 3
    with Inr show ?thesis
      by (cases department)
         (auto simp: require_publication_scope_def publication_authority_def FILE_DATASETS_def require_scope_Inr)
  next
    case 4
    with Inr show ?thesis
      by (auto simp: require_publication_scope_def publication_authority_def require_department_admin_Inr)
  qed
qed

lemma unauthorised:
  assumes "\<not> publication_authority w actor department station code"
  shows "isl (require_publication_scope w actor department station code)"
  using assms by (cases "require_publication_scope w actor department station code")
    (auto simp flip: require_publication_scope_iff)

text \<open>
  C13: Tenant isolation.  An actor without authority over a scope can neither publish, reject, cancel, roll back
  or delete a publication of that scope, nor request its rebuild, stage an update of it or build its staged
  publication: each of these services raises and nothing is committed.  The bulk rebuild of a department's scopes
  asks for less, an active administrator of that active department, without the rules for single scopes; it
  raises for everyone else.
\<close>

theorem mutations_need_authority:
  assumes "\<not> publication_authority w actor department station code"
  shows "(\<forall>i p. get_publication i w = Some p \<and> pub_department p = department \<and> pub_station p = station
         \<and> pub_dataset_type_code p = code \<longrightarrow>
       isl (publish_publication E actor i w) \<and> isl (reject_publication actor i w)
       \<and> isl (delete_staged_publication E actor i w) \<and> isl (cancel_publication_build actor i w)
       \<and> isl (rollback_publication E actor i w) \<and> isl (delete_publication E actor i w))
     \<and> (\<forall>i s. get_scope i w = Some s \<and> scp_department s = department \<and> scp_station s = station
         \<and> scp_dataset_type_code s = code \<longrightarrow> isl (build_staged_publication E actor i w))
     \<and> isl (request_rebuild E actor department station code w)
     \<and> isl (stage_publication_update E actor department station code w)
     \<and> (\<not> (\<exists>u. actor = Some u \<and> department_is_active w d \<and> department_admin_of w u d) \<longrightarrow>
         isl (bulk_request_rebuilds E actor d w))"
proof -
  note raises = unauthorised [OF assms]
  have bulk: "isl (bulk_request_rebuilds E actor d w)"
    if "\<not> (\<exists>u. actor = Some u \<and> department_is_active w d \<and> department_admin_of w u d)"
  proof -
    have "isl (require_department_admin w actor (Some d))"
      using that by (cases "require_department_admin w actor (Some d)") (auto simp: require_department_admin_Inr)
    then show ?thesis by (simp add: bulk_request_rebuilds_def isl_bind)
  qed
  show ?thesis using raises bulk
    by (auto simp: publish_publication_def reject_publication_def delete_staged_publication_def
        cancel_publication_build_def rollback_publication_def delete_publication_def request_rebuild_def
        stage_publication_update_def build_staged_publication_def fetch_publication_def require_publication_def isl_bind)
qed

theorem mutations_need_authority_witness:
  "isl (delete_publication demo_env (Some 99) 12 demo_two) \<and> isl (rollback_publication demo_env (Some 99) 11 demo_two)
   \<and> isl (bulk_request_rebuilds demo_env (Some 99) 1 demo_two) \<and> \<not> isl (rollback_publication demo_env demo_admin 11 demo_two)"
proof -
  have g: "get_publication 12 demo_two = Some (demo_publication 12 2 PUBLISHED)"
    "get_publication 11 demo_two = Some (demo_publication 11 1 SUPERSEDED)"
    by (simp_all add: demo_two_def get_publication_def row_get_def demo_publication_def)
  have "isl (require_publication_scope demo_two (Some 99) (Some 1) None ''department_hydrants'')" by code_simp
  then have a: "\<not> publication_authority demo_two (Some 99) (Some 1) None ''department_hydrants''"
    by (auto simp flip: require_publication_scope_iff)
  have "isl (require_department_admin demo_two (Some 99) (Some 1))" by code_simp
  then have b: "\<not> (\<exists>u. Some 99 = Some u \<and> department_is_active demo_two 1 \<and> department_admin_of demo_two u 1)"
    by (auto simp: isl_def) (metis require_department_admin_Inr sum.distinct(1))
  have "\<not> isl (rollback_publication demo_env demo_admin 11 demo_two)" by code_simp
  then show ?thesis
    using mutations_need_authority [OF a, of demo_env 1] g b by (simp add: demo_publication_def)
qed

subsection \<open>An unregistered dataset code\<close>

lemma file_datasets_registered: "code \<in> FILE_DATASETS \<Longrightarrow> \<exists>d. get_dataset_definition code = Inr d"
proof -
  assume "code \<in> FILE_DATASETS"
  moreover have "\<not> isl (get_dataset_definition ''department_files'')" "\<not> isl (get_dataset_definition ''station_files'')"
    by code_simp+
  ultimately show ?thesis by (auto simp: FILE_DATASETS_def isl_def) (metis obj_sumE)+
qed

lemma locked_scope_unregistered:
  "get_dataset_definition code = Inl e \<Longrightarrow> locked_scope department station code w = Inl e"
  using file_datasets_registered [of code]
  by (cases "code \<in> FILE_DATASETS") (auto simp: locked_scope_def lock_file_scope_def scope_filter_def registered_scope_type_def)

text \<open>
  C14: A due PENDING job whose dataset code is not registered stops the queue: when it is the oldest
  candidate, every claim raises \<open>DatasetRegistryError\<close> and claims nothing, however many other jobs wait;
  the branch that would mark the job FAILED is never reached.
\<close>

theorem unregistered_job_blocks_claims:
  assumes "claimable w = c # cs" and "get_dataset_definition (job_dataset_type_code c) = Inl e"
  shows "claim_next_job E w = (Inl e, w)"
  using locked_scope_unregistered [OF assms(2)] assms(1)
  by (simp add: claim_next_job_def claim_job_def)

theorem unregistered_job_blocks_claims_witness:
  "\<exists>e. claim_next_job demo_env (demo_due\<lparr>jobs := (hd (jobs demo_due))\<lparr>job_id := 1, job_dataset_type_code := ''retired'',
      job_created_at := 0\<rparr> # jobs demo_due\<rparr>) = (Inl e, demo_due\<lparr>jobs := (hd (jobs demo_due))\<lparr>job_id := 1,
      job_dataset_type_code := ''retired'', job_created_at := 0\<rparr> # jobs demo_due\<rparr>)"
proof -
  let ?w = "demo_due\<lparr>jobs := (hd (jobs demo_due))\<lparr>job_id := 1, job_dataset_type_code := ''retired'',
      job_created_at := 0\<rparr> # jobs demo_due\<rparr>"
  have "map job_dataset_type_code (claimable ?w) = [''retired'', ''department_hydrants'']" by code_simp
  then obtain c cs where c: "claimable ?w = c # cs" "job_dataset_type_code c = ''retired''" by auto
  have "isl (get_dataset_definition ''retired'')" by code_simp
  then obtain e where "get_dataset_definition (job_dataset_type_code c) = Inl e" by (auto simp: c(2) isl_def)
  from unregistered_job_blocks_claims [OF c(1) this] show ?thesis by blast
qed

subsection \<open>Artifact paths\<close>

lemma no_slash: "CHR ''/'' \<notin> set (dec_nat n)"
  using dec_nat_digits [of n] by (auto simp: list_all_iff is_digit_def of_char_def)

lemma split_at_slash:
  assumes "xs @ CHR ''/'' # r = ys @ CHR ''/'' # s" and "CHR ''/'' \<notin> set xs" and "CHR ''/'' \<notin> set ys"
  shows "xs = ys \<and> r = s"
  using assms
proof (induction xs arbitrary: ys)
  case Nil
  then show ?case by (cases ys) auto
next
  case (Cons x xs)
  then show ?case by (cases ys) auto
qed

lemma not_decimal: "dec_nat n \<noteq> ''system''" "dec_nat n \<noteq> ''documents''"
  using dec_nat_digits [of n] by (auto simp: is_digit_def of_char_def)

text \<open>
  No two publications share an artifact path, whatever their owners, and no publication's path is
  the path of a document artifact: removing one artifact never removes another's file.
\<close>

theorem artifact_paths_disjoint:
  assumes "publication_artifact_relative_path d i t = Inr path"
    and "publication_artifact_relative_path d' i' t' = Inr path'"
  shows "(path = path' \<longleftrightarrow> i = i' \<and> d = d') \<and> path \<noteq> document_artifact_relative_path k"
proof -
  note [simp] = not_decimal not_decimal [symmetric] no_slash
  have norm: "\<exists>owner. CHR ''/'' \<notin> set owner \<and> owner \<noteq> ''documents'' \<and> p = owner @ CHR ''/'' # dec_nat j @ ''/artifact.bin''
      \<and> owner = (case e of None \<Rightarrow> ''system'' | Some x \<Rightarrow> dec_nat x)"
    if "publication_artifact_relative_path e j u = Inr p" for e j u p
    using that by (auto simp: publication_artifact_relative_path_def split: if_splits option.splits)
  obtain x where x: "CHR ''/'' \<notin> set x" "x \<noteq> ''documents''" "path = x @ CHR ''/'' # dec_nat i @ ''/artifact.bin''"
      "x = (case d of None \<Rightarrow> ''system'' | Some x \<Rightarrow> dec_nat x)" using norm [OF assms(1)] by blast
  obtain y where y: "CHR ''/'' \<notin> set y" "path' = y @ CHR ''/'' # dec_nat i' @ ''/artifact.bin''"
      "y = (case d' of None \<Rightarrow> ''system'' | Some x \<Rightarrow> dec_nat x)" using norm [OF assms(2)] by blast
  have xy: "x = y \<longleftrightarrow> d = d'"
    unfolding x(4) y(3) by (auto split: option.splits)
  have "path = path' \<longleftrightarrow> i = i' \<and> d = d'"
  proof
    assume "path = path'"
    then have "x = y \<and> dec_nat i @ ''/artifact.bin'' = dec_nat i' @ ''/artifact.bin''"
      unfolding x(3) y(2) by (rule split_at_slash [OF _ x(1) y(1)])
    with xy show "i = i' \<and> d = d'" by simp
  next
    assume "i = i' \<and> d = d'"
    then show "path = path'" unfolding x(3,4) y(2,3) by simp
  qed
  moreover have "path \<noteq> document_artifact_relative_path k"
  proof
    assume "path = document_artifact_relative_path k"
    then have "x @ CHR ''/'' # dec_nat i @ ''/artifact.bin'' = ''documents'' @ CHR ''/'' # dec_nat k @ ''/artifact.bin''"
      by (simp add: x(3) document_artifact_relative_path_def)
    then have "x = ''documents'' \<and> dec_nat i @ ''/artifact.bin'' = dec_nat k @ ''/artifact.bin''"
      by (rule split_at_slash [OF _ x(1)]) simp
    with x(2) show False by blast
  qed
  ultimately show ?thesis by blast
qed

theorem artifact_paths_disjoint_witness:
  "\<exists>a b. publication_artifact_relative_path (Some 1) 12 DEPARTMENT = Inr a
     \<and> publication_artifact_relative_path None 11 SYSTEM = Inr b \<and> a \<noteq> b"
proof -
  obtain a b where p: "publication_artifact_relative_path (Some 1) 12 DEPARTMENT = Inr a"
      "publication_artifact_relative_path None 11 SYSTEM = Inr b"
    by (simp add: publication_artifact_relative_path_def)
  with artifact_paths_disjoint [OF p] show ?thesis by auto
qed

subsection \<open>Logical source fingerprints\<close>

lemma item_id_jdrop: "item_id (jdrop ''content_id'' d) = item_id d"
  by (simp add: item_id_def jget_jdrop)

lemma comparison_library_snapshot:
  assumes "is_file_library_snapshot (library_snapshot l r fs ds)"
  shows "comparison_payload (library_snapshot l r fs ds)
     = JObj [(''library'', l), (''folders'', JList (sort_key item_id fs)),
         (''documents'', JList (sort_key item_id (map (jdrop ''content_id'') ds)))]"
  using assms
  by (simp add: comparison_payload_def) (simp add: library_snapshot_def jreplace_def jdrop_def jget_def jitems_def)

text \<open>
  A library's fingerprint is its logical content: neither the bookkeeping revision, nor the identity of the
  stored bytes (\<open>content_id\<close>), nor the order in which the rows were read influences it.
\<close>

theorem library_fingerprint_logical:
  assumes "is_file_library_snapshot (library_snapshot l r fs ds)"
    and "is_file_library_snapshot (library_snapshot l r' fs' ds')"
    and "distinct (map item_id fs)" and "distinct (map item_id fs')" and "set fs = set fs'"
    and "distinct (map item_id ds)" and "distinct (map item_id ds')"
    and "set (map (jdrop ''content_id'') ds) = set (map (jdrop ''content_id'') ds')"
  shows "source_fingerprint_for_payload E (library_snapshot l r fs ds)
     = source_fingerprint_for_payload E (library_snapshot l r' fs' ds')"
proof -
  have ids: "map item_id (map (jdrop ''content_id'') xs) = map item_id xs" for xs
    by (simp add: item_id_jdrop)
  have "sort_key item_id fs = sort_key item_id fs'"
    by (rule sort_key_unique [OF assms(3,4,5)])
  moreover have "sort_key item_id (map (jdrop ''content_id'') ds) = sort_key item_id (map (jdrop ''content_id'') ds')"
    by (rule sort_key_unique) (use assms(6-8) in \<open>simp_all only: ids\<close>)
  ultimately have "comparison_payload (library_snapshot l r fs ds) = comparison_payload (library_snapshot l r' fs' ds')"
    by (simp add: comparison_library_snapshot [OF assms(1)] comparison_library_snapshot [OF assms(2)])
  then show ?thesis
    by (simp add: source_fingerprint_for_payload_def) (auto simp: library_snapshot_def jkeys_def jget_def)
qed

theorem library_fingerprint_logical_witness:
  "source_fingerprint_for_payload demo_env (library_snapshot demo_library (JInt 1) []
      [demo_document ''a'' ''c1'', demo_document ''b'' ''c2''])
   = source_fingerprint_for_payload demo_env (library_snapshot demo_library (JInt 7) []
      [demo_document ''b'' ''c9'', demo_document ''a'' ''c8''])"
  by (rule library_fingerprint_logical; code_simp)

end
