(* ===== verification/Accounts.thy ===== *)
theory Accounts
  imports Authorization Py_String
begin

text \<open>
  Accounts (apps/accounts/services.py, apps/accounts/managers.py, apps/accounts/models.py): provisioning with a
  one-time setup token, anonymisation, login throttling and the pre-MFA session.  The state is the
  database of the other components (\<open>core\<close>) with the account tables and the system-wide policies.  Random values
  (\<open>secrets\<close>) are arguments; the keyed hash of Django's \<open>salted_hmac\<close>, the password hasher and the
  settings are parameters.
\<close>

subsection \<open>State\<close>

record setup_token_row =
  tok_id :: nat
  tok_user :: nat
  tok_token_hash :: string
  tok_expires_at :: timestamp
  tok_created_at :: timestamp
  tok_created_by :: "nat option"
  tok_used_at :: "timestamp option"

datatype throttle_scope = THROTTLE_PASSWORD | THROTTLE_MFA | THROTTLE_SETUP

datatype throttle_subject = SUBJECT_ACCOUNT | SUBJECT_IP

record throttle_row =
  thr_id :: nat
  thr_scope :: throttle_scope
  thr_subject :: throttle_subject
  thr_subject_hash :: string
  thr_failure_count :: nat
  thr_window_started_at :: timestamp
  thr_locked_until :: "timestamp option"

record eligibility_row =
  elg_id :: nat
  elg_department :: nat
  elg_allowed :: bool
  elg_updated_by :: "nat option"

record api_policy_row =
  pol_api_major :: int
  pol_minimum_app_version :: "string option"
  pol_updated_by :: "nat option"

record portal =
  core :: world
  setup_tokens :: "setup_token_row list"
  auth_throttles :: "throttle_row list"
  passwords :: "nat \<Rightarrow> string option"
  mail_eligibilities :: "eligibility_row list"
  api_policies :: "api_policy_row list"

record auth_env =
  salted_hash :: "string \<Rightarrow> string"
  make_password :: "string \<Rightarrow> string"
  AUTH_THROTTLE_WINDOW_SECONDS :: int
  AUTH_THROTTLE_MAX_FAILURES :: nat
  AUTH_THROTTLE_LOCKOUT_SECONDS :: int
  PRE_MFA_SESSION_MAX_AGE_SECONDS :: int

definition is_usable :: "setup_token_row \<Rightarrow> timestamp \<Rightarrow> bool" where
  "is_usable token now = (tok_used_at token = None \<and> tok_expires_at token > now)"

definition set_unusable_password :: "nat \<Rightarrow> portal \<Rightarrow> portal" where
  "set_unusable_password u p = p\<lparr>passwords := (passwords p)(u := None)\<rparr>"

subsection \<open>Email addresses\<close>

text \<open>Django's \<open>normalize_email\<close>: \<open>email.strip().rsplit("@", 1)\<close>, the domain lowercased.\<close>

definition normalize_email :: "string \<Rightarrow> string" where
  "normalize_email email =
     (let s = strip email in
      if CHR ''@'' \<in> set s then
        rev (tl (dropWhile (\<lambda>c. c \<noteq> CHR ''@'') (rev s))) @ ''@''
          @ lower (rev (takeWhile (\<lambda>c. c \<noteq> CHR ''@'') (rev s)))
      else email)"

definition email_exists :: "string \<Rightarrow> portal \<Rightarrow> bool" where
  "email_exists email p = exists_row (\<lambda>u. usr_email u = email) (users (core p))"

definition validate_new_account_email :: "portal \<Rightarrow> string \<Rightarrow> string res" where
  "validate_new_account_email p email =
     (let e = casefold (normalize_email email) in
      if email_exists e p then Inl (DuplicateEmailError ''An account with this email address already exists.'')
      else Inr e)"

subsection \<open>Provisioning\<close>

definition new_user :: "nat \<Rightarrow> string \<Rightarrow> string \<Rightarrow> timestamp \<Rightarrow> user_row" where
  "new_user i email display_name now =
     \<lparr>usr_id = i, usr_email = email, usr_display_name = display_name, usr_is_active = True,
      usr_is_staff = False, usr_mfa_enabled = False, usr_created_at = now\<rparr>"

text \<open>\<open>UserManager.create_user\<close> with the unique constraint on the address.\<close>

definition create_user :: "string \<Rightarrow> string \<Rightarrow> portal \<Rightarrow> (nat \<times> portal) res" where
  "create_user email display_name p =
     (if email = [] then Inl (ValueError ''Users must have an email address.'')
      else if display_name = [] then Inl (ValueError ''Users must have a display name.'')
      else
        let e = casefold (normalize_email email) in
        if email_exists e p then Inl (IntegrityError ''accounts_user_email_key'')
        else
          let (i, w) = fresh_id (core p) in
          Inr (i, p\<lparr>core := w\<lparr>users := users w @ [new_user i e display_name (clock w)]\<rparr>\<rparr>))"

definition create_setup_token_for_user ::
  "auth_env \<Rightarrow> nat \<Rightarrow> nat option \<Rightarrow> string \<Rightarrow> portal \<Rightarrow> (nat \<times> portal) res" where
  "create_setup_token_for_user A user actor raw_token p =
     (let h = salted_hash A raw_token in
      if exists_row (\<lambda>t. tok_token_hash t = h) (setup_tokens p) then Inl (IntegrityError ''token_hash'')
      else
        let (i, w) = fresh_id (core p) in
        Inr (i, p\<lparr>core := w, setup_tokens := setup_tokens p @
          [\<lparr>tok_id = i, tok_user = user, tok_token_hash = h, tok_expires_at = clock w + 24 * 3600 * usec_per_second,
            tok_created_at = clock w, tok_created_by = actor, tok_used_at = None\<rparr>]\<rparr>))"

text \<open>A competing insert of the address shows as its unique constraint and is reported as a duplicate.\<close>

definition translate_email_conflict :: "'a res \<Rightarrow> 'a res" where
  "translate_email_conflict r =
     (case r of
        Inl (IntegrityError c) \<Rightarrow>
          if c = ''accounts_user_email_key''
          then Inl (DuplicateEmailError ''An account with this email address already exists.'')
          else Inl (IntegrityError c)
      | _ \<Rightarrow> r)"

lemma translate_email_conflict_Inr [res_simps]: "translate_email_conflict r = Inr x \<longleftrightarrow> r = Inr x"
  by (auto simp: translate_email_conflict_def split: sum.splits exn.splits)

text \<open>The new account stays inactive until the token is consumed.\<close>

definition create_setup_token ::
  "auth_env \<Rightarrow> nat option \<Rightarrow> string \<Rightarrow> string \<Rightarrow> string \<Rightarrow> portal \<Rightarrow> (nat \<times> portal) res" where
  "create_setup_token A actor email display_name raw_token p =
     bind_res (validate_new_account_email p email) (\<lambda>e.
     translate_email_conflict (bind_res (create_user e display_name p) (\<lambda>(u, p1).
       let p2 = set_unusable_password u (p1\<lparr>core := (core p1)\<lparr>users := map (\<lambda>r. if usr_id r = u
                  then r\<lparr>usr_is_active := False\<rparr> else r) (users (core p1))\<rparr>\<rparr>) in
       bind_res (create_setup_token_for_user A u actor raw_token p2) (\<lambda>(_, p3). Inr (u, p3)))))"

definition consume_setup_token ::
  "auth_env \<Rightarrow> string \<Rightarrow> string \<Rightarrow> portal \<Rightarrow> nat option \<times> portal" where
  "consume_setup_token A raw_token password p =
     (let h = salted_hash A raw_token; now = clock (core p) in
      case find (\<lambda>t. tok_token_hash t = h) (setup_tokens p) of
        None \<Rightarrow> (None, p)
      | Some token \<Rightarrow>
          if \<not> is_usable token now then (None, p)
          else (Some (tok_user token),
            p\<lparr>passwords := (passwords p)(tok_user token := Some (make_password A password)),
              core := (core p)\<lparr>users := map (\<lambda>u. if usr_id u = tok_user token
                 then u\<lparr>usr_is_active := True\<rparr> else u) (users (core p))\<rparr>,
              setup_tokens := map (\<lambda>t. if tok_id t = tok_id token then t\<lparr>tok_used_at := Some now\<rparr> else t)
                 (setup_tokens p)\<rparr>))"

definition permanently_deactivate_and_anonymize_user :: "nat \<Rightarrow> string \<Rightarrow> portal \<Rightarrow> portal" where
  "permanently_deactivate_and_anonymize_user user token_hex p =
     (let now = clock (core p) in
      p\<lparr>core := (core p)\<lparr>users := map (\<lambda>u. if usr_id u = user
           then u\<lparr>usr_email := ''deleted-'' @ token_hex @ ''@anonymized.invalid'',
                  usr_display_name := ''Deleted administrator'', usr_is_active := False, usr_mfa_enabled := False\<rparr>
           else u) (users (core p))\<rparr>,
        passwords := (passwords p)(user := None),
        setup_tokens := map (\<lambda>t. if tok_user t = user \<and> tok_used_at t = None
           then t\<lparr>tok_used_at := Some now\<rparr> else t) (setup_tokens p)\<rparr>)"

subsection \<open>Throttling\<close>

definition is_throttled :: "auth_env \<Rightarrow> throttle_scope \<Rightarrow> string \<Rightarrow> string option \<Rightarrow> portal \<Rightarrow> bool" where
  "is_throttled A scope account source_ip p =
     (let now = clock (core p);
          hashes = salted_hash A (casefold account)
            # (case source_ip of None \<Rightarrow> [] | Some ip \<Rightarrow> if ip = [] then [] else [salted_hash A ip])
      in exists_row (\<lambda>t. thr_scope t = scope \<and> thr_subject_hash t \<in> set hashes
           \<and> (case thr_locked_until t of None \<Rightarrow> False | Some u \<Rightarrow> u > now)) (auth_throttles p))"

text \<open>One failure counted on its throttle row, after the window may have been restarted.\<close>

definition count_failure :: "auth_env \<Rightarrow> timestamp \<Rightarrow> throttle_row \<Rightarrow> throttle_row" where
  "count_failure A now t =
     (let t1 = (if thr_window_started_at t + AUTH_THROTTLE_WINDOW_SECONDS A * usec_per_second \<le> now
                then t\<lparr>thr_failure_count := 0, thr_window_started_at := now, thr_locked_until := None\<rparr> else t);
          t2 = t1\<lparr>thr_failure_count := thr_failure_count t1 + 1\<rparr>
      in if AUTH_THROTTLE_MAX_FAILURES A \<le> thr_failure_count t2
         then t2\<lparr>thr_locked_until := Some (now + AUTH_THROTTLE_LOCKOUT_SECONDS A * usec_per_second)\<rparr>
         else t2)"

definition record_subject_failure ::
  "auth_env \<Rightarrow> throttle_scope \<Rightarrow> throttle_subject \<times> string \<Rightarrow> portal \<Rightarrow> portal" where
  "record_subject_failure A scope subject p =
     (let now = clock (core p); h = salted_hash A (snd subject);
          this = (\<lambda>t. thr_scope t = scope \<and> thr_subject t = fst subject \<and> thr_subject_hash t = h)
      in if exists_row this (auth_throttles p)
         then p\<lparr>auth_throttles := map (\<lambda>t. if this t then count_failure A now t else t) (auth_throttles p)\<rparr>
         else
           let (i, w) = fresh_id (core p) in
           p\<lparr>core := w, auth_throttles := auth_throttles p @ [count_failure A now
              \<lparr>thr_id = i, thr_scope = scope, thr_subject = fst subject, thr_subject_hash = h,
               thr_failure_count = 0, thr_window_started_at = now, thr_locked_until = None\<rparr>]\<rparr>)"

definition record_auth_failure ::
  "auth_env \<Rightarrow> throttle_scope \<Rightarrow> string \<Rightarrow> string option \<Rightarrow> portal \<Rightarrow> portal" where
  "record_auth_failure A scope account source_ip p =
     fold (record_subject_failure A scope)
       ((SUBJECT_ACCOUNT, casefold account)
        # (case source_ip of None \<Rightarrow> [] | Some ip \<Rightarrow> if ip = [] then [] else [(SUBJECT_IP, ip)])) p"

subsection \<open>The pre-MFA session\<close>

text \<open>The clock moves between requests.\<close>

definition at_time :: "timestamp \<Rightarrow> portal \<Rightarrow> portal" where
  "at_time now p = p\<lparr>core := (core p)\<lparr>clock := now\<rparr>\<rparr>"

record mfa_session =
  pending_mfa_user_id :: "nat option"
  pending_mfa_started_at :: "timestamp option"

definition clear_pre_mfa_session :: "mfa_session \<Rightarrow> mfa_session" where
  "clear_pre_mfa_session s = s\<lparr>pending_mfa_user_id := None, pending_mfa_started_at := None\<rparr>"

definition pending_mfa_user :: "auth_env \<Rightarrow> portal \<Rightarrow> mfa_session \<Rightarrow> user_row option \<times> mfa_session" where
  "pending_mfa_user A p s =
     (case (pending_mfa_user_id s, pending_mfa_started_at s) of
        (Some u, Some started) \<Rightarrow>
          if started = 0 \<or> clock (core p) - started > PRE_MFA_SESSION_MAX_AGE_SECONDS A * usec_per_second
          then (None, clear_pre_mfa_session s)
          else (find (\<lambda>r. usr_id r = u \<and> usr_is_active r) (users (core p)), s)
      | _ \<Rightarrow> (None, clear_pre_mfa_session s))"

subsection \<open>Setup tokens are used once\<close>

text \<open>
  C17: A setup token works once: after it was consumed, presenting it again, with any password and at any later
  time, returns nothing and changes nothing.
\<close>

theorem setup_token_single_use:
  assumes "consume_setup_token A raw password p = (Some u, p')"
  shows "consume_setup_token A raw password' (at_time now p') = (None, at_time now p')"
proof -
  let ?h = "\<lambda>t. tok_token_hash t = salted_hash A raw"
  obtain token where t: "find ?h (setup_tokens p) = Some token"
    and p': "setup_tokens p' = map (\<lambda>t. if tok_id t = tok_id token then t\<lparr>tok_used_at := Some (clock (core p))\<rparr> else t)
       (setup_tokens p)"
    using assms by (auto simp: consume_setup_token_def Let_def split: option.splits if_splits)
  have "find ?h (map (\<lambda>t. if tok_id t = tok_id token then t\<lparr>tok_used_at := Some now\<rparr> else t) ts)
      = Some (token\<lparr>tok_used_at := Some now\<rparr>)" if "find ?h ts = Some token" for ts now
    using that by (induction ts) (auto split: if_splits)
  with t show ?thesis
    by (simp add: consume_setup_token_def Let_def at_time_def p' is_usable_def)
qed

subsection \<open>Lockout\<close>

definition account_throttle :: "auth_env \<Rightarrow> throttle_scope \<Rightarrow> string \<Rightarrow> throttle_row \<Rightarrow> bool" where
  "account_throttle A scope account t \<longleftrightarrow>
     thr_scope t = scope \<and> thr_subject t = SUBJECT_ACCOUNT \<and> thr_subject_hash t = salted_hash A (casefold account)"

definition counted :: "auth_env \<Rightarrow> timestamp \<Rightarrow> timestamp \<Rightarrow> nat \<Rightarrow> throttle_row \<Rightarrow> bool" where
  "counted A start now n t \<longleftrightarrow> thr_window_started_at t = start \<and> thr_failure_count t = n
     \<and> (AUTH_THROTTLE_MAX_FAILURES A \<le> n
          \<longrightarrow> thr_locked_until t = Some (now + AUTH_THROTTLE_LOCKOUT_SECONDS A * usec_per_second))"

lemma count_failure_subject [simp]:
  "thr_scope (count_failure A now t) = thr_scope t" "thr_subject (count_failure A now t) = thr_subject t"
  "thr_subject_hash (count_failure A now t) = thr_subject_hash t"
  by (simp_all add: count_failure_def Let_def)

lemma filter_map_kept: "(\<And>t. Q (f t) = Q t) \<Longrightarrow> filter Q (map f ts) = map f (filter Q ts)"
  by (induction ts) auto

lemma ip_failure_keeps_account:
  "filter (account_throttle A scope account) (auth_throttles (record_subject_failure A s (SUBJECT_IP, ip) p))
     = filter (account_throttle A scope account) (auth_throttles p)"
proof -
  let ?Q = "account_throttle A scope account"
  let ?f = "\<lambda>t. if thr_scope t = s \<and> thr_subject t = SUBJECT_IP \<and> thr_subject_hash t = salted_hash A ip
      then count_failure A (clock (core p)) t else t"
  have "filter ?Q (map ?f ts) = map ?f (filter ?Q ts)" for ts
    by (rule filter_map_kept) (simp add: account_throttle_def)
  moreover have "map ?f (filter ?Q ts) = filter ?Q ts" for ts
    by (induction ts) (auto simp: account_throttle_def)
  ultimately show ?thesis
    by (simp add: record_subject_failure_def Let_def fresh_id_def) (simp add: account_throttle_def)
qed

lemma account_failure:
  "filter (account_throttle A scope account)
      (auth_throttles (record_subject_failure A scope (SUBJECT_ACCOUNT, casefold account) p))
     = (case filter (account_throttle A scope account) (auth_throttles p) of
          [] \<Rightarrow> [count_failure A (clock (core p)) \<lparr>thr_id = next_id (core p), thr_scope = scope,
                 thr_subject = SUBJECT_ACCOUNT, thr_subject_hash = salted_hash A (casefold account),
                 thr_failure_count = 0, thr_window_started_at = clock (core p), thr_locked_until = None\<rparr>]
        | ts \<Rightarrow> map (count_failure A (clock (core p))) ts)"
proof -
  let ?Q = "account_throttle A scope account"
  let ?f = "\<lambda>t. if ?Q t then count_failure A (clock (core p)) t else t"
  have kept: "filter ?Q (map ?f ts) = map ?f (filter ?Q ts)" for ts
    by (rule filter_map_kept) (simp add: account_throttle_def)
  have mapped: "map ?f (filter ?Q ts) = map (count_failure A (clock (core p))) (filter ?Q ts)" for ts
    by (induction ts) auto
  have q: "(\<lambda>t. thr_scope t = scope \<and> thr_subject t = fst (SUBJECT_ACCOUNT, casefold account)
      \<and> thr_subject_hash t = salted_hash A (snd (SUBJECT_ACCOUNT, casefold account))) = ?Q"
    by (auto simp: account_throttle_def)
  show ?thesis
    using kept mapped
    by (cases "filter ?Q (auth_throttles p)")
       (auto simp: record_subject_failure_def Let_def q fresh_id_def filter_empty_conv account_throttle_def
         dest!: filter_eq_ConsD)
qed

definition failed_login ::
  "auth_env \<Rightarrow> throttle_scope \<Rightarrow> string \<Rightarrow> timestamp \<times> string option \<Rightarrow> portal \<Rightarrow> portal" where
  "failed_login A scope account attempt p =
     record_auth_failure A scope account (snd attempt) (at_time (fst attempt) p)"

lemma record_subject_clock [simp]: "clock (core (record_subject_failure A s x p)) = clock (core p)"
  by (simp add: record_subject_failure_def Let_def fresh_id_def)

lemma failed_login_rows:
  "filter (account_throttle A scope account) (auth_throttles (failed_login A scope account (now, ip) p))
     = filter (account_throttle A scope account)
         (auth_throttles (record_subject_failure A scope (SUBJECT_ACCOUNT, casefold account) (at_time now p)))"
  by (cases ip) (simp_all add: failed_login_def record_auth_failure_def ip_failure_keeps_account)

text \<open>
  The window a failure at a given time falls into, and how many failures it already has: the stored one while it
  lasts, a new one when the account has no row or the window of its row has ended.
\<close>

definition current_window :: "auth_env \<Rightarrow> throttle_scope \<Rightarrow> string \<Rightarrow> timestamp \<Rightarrow> portal \<Rightarrow> timestamp \<times> nat" where
  "current_window A scope account now p =
     (case filter (account_throttle A scope account) (auth_throttles p) of
        [] \<Rightarrow> (now, 0)
      | r # _ \<Rightarrow>
          if thr_window_started_at r + AUTH_THROTTLE_WINDOW_SECONDS A * usec_per_second \<le> now then (now, 0)
          else (thr_window_started_at r, thr_failure_count r))"

lemma window_failure:
  assumes "length (filter (account_throttle A scope account) (auth_throttles p)) \<le> 1"
    and "current_window A scope account now p = (start, n)"
    and "now < start + AUTH_THROTTLE_WINDOW_SECONDS A * usec_per_second"
  shows "\<exists>r. filter (account_throttle A scope account) (auth_throttles (failed_login A scope account (now, ip) p)) = [r]
     \<and> counted A start now (Suc n) r"
proof (cases "filter (account_throttle A scope account) (auth_throttles p)")
  case Nil
  then show ?thesis using assms(2,3)
    by (simp add: failed_login_rows account_failure at_time_def)
      (simp add: count_failure_def counted_def current_window_def Let_def)
next
  case (Cons r rs)
  then have "rs = []" using assms(1) by simp
  then show ?thesis using Cons assms(2,3)
    by (simp add: failed_login_rows account_failure at_time_def)
      (auto simp: count_failure_def counted_def current_window_def Let_def split: if_splits)
qed

lemma next_failure:
  assumes "filter (account_throttle A scope account) (auth_throttles p) = [r]" and "counted A start before n r"
    and "now < start + AUTH_THROTTLE_WINDOW_SECONDS A * usec_per_second"
  shows "\<exists>r'. filter (account_throttle A scope account) (auth_throttles (failed_login A scope account (now, ip) p)) = [r']
     \<and> counted A start now (Suc n) r'"
  by (rule window_failure) (use assms in \<open>simp_all add: current_window_def counted_def\<close>)

lemma failures_counted:
  assumes "filter (account_throttle A scope account) (auth_throttles p) = [r]" and "counted A start before n r"
    and "\<forall>(t, ip)\<in>set attempts. t < start + AUTH_THROTTLE_WINDOW_SECONDS A * usec_per_second"
  shows "\<exists>r'. filter (account_throttle A scope account)
        (auth_throttles (fold (failed_login A scope account) attempts p)) = [r']
     \<and> counted A start (if attempts = [] then before else fst (last attempts)) (n + length attempts) r'"
  using assms
proof (induction attempts arbitrary: p r before n)
  case (Cons x attempts)
  obtain now ip where x: "x = (now, ip)" by (cases x)
  obtain r1 where r1: "filter (account_throttle A scope account) (auth_throttles (failed_login A scope account x p)) = [r1]"
      "counted A start now (Suc n) r1"
    using next_failure [OF Cons.prems(1,2), of now ip] Cons.prems(3) by (auto simp: x)
  from Cons.IH [OF r1] Cons.prems(3) show ?case by (auto simp: x)
qed auto

text \<open>
  C16: Guessing locks the account out.  Whatever failures are on record (the account has one throttle row or none,
  as the unique constraint says), consider failed logins for the account, from any addresses, that fall into the
  window of the first of them: the stored window when it is still running, with the failures it already counts, or
  the window that failure opens when there is no row or the stored window is over, with none.  Once the window has
  \<open>AUTH_THROTTLE_MAX_FAILURES\<close> failures, the account is throttled until the lockout time after the last of
  them has passed.
\<close>

theorem failures_lock_account:
  assumes "length (filter (account_throttle A scope account) (auth_throttles p)) \<le> 1"
    and "attempts \<noteq> []" and "current_window A scope account (fst (hd attempts)) p = (start, n)"
    and "\<forall>(t, ip)\<in>set attempts. t < start + AUTH_THROTTLE_WINDOW_SECONDS A * usec_per_second"
    and "AUTH_THROTTLE_MAX_FAILURES A \<le> n + length attempts"
    and "now < fst (last attempts) + AUTH_THROTTLE_LOCKOUT_SECONDS A * usec_per_second"
  shows "is_throttled A scope account source_ip (at_time now (fold (failed_login A scope account) attempts p))"
proof -
  obtain first ip rest where a: "attempts = (first, ip) # rest" using assms(2) by (cases attempts) auto
  from window_failure [OF assms(1), of first start n ip] assms(3,4) obtain r where
    "filter (account_throttle A scope account) (auth_throttles (failed_login A scope account (first, ip) p)) = [r]"
    "counted A start first (Suc n) r" by (auto simp: a)
  from failures_counted [OF this, of rest] assms(4) obtain r' where
    r': "filter (account_throttle A scope account) (auth_throttles (fold (failed_login A scope account) attempts p)) = [r']"
      "counted A start (fst (last attempts)) (n + length attempts) r'"
    by (auto simp: a split: if_splits)
  from r'(1) have "r' \<in> set (auth_throttles (fold (failed_login A scope account) attempts p))"
      "account_throttle A scope account r'"
    by (auto dest!: filter_eq_ConsD)
  moreover have "thr_locked_until r' = Some (fst (last attempts) + AUTH_THROTTLE_LOCKOUT_SECONDS A * usec_per_second)"
    using r'(2) assms(5) by (simp add: counted_def)
  ultimately show ?thesis
    using assms(6) by (auto simp: is_throttled_def Let_def at_time_def account_throttle_def)
qed

subsection \<open>Instances\<close>

definition demo_auth :: auth_env where
  "demo_auth = \<lparr>salted_hash = (\<lambda>s. ''h'' @ s), make_password = (\<lambda>s. ''p'' @ s), AUTH_THROTTLE_WINDOW_SECONDS = 900,
     AUTH_THROTTLE_MAX_FAILURES = 3, AUTH_THROTTLE_LOCKOUT_SECONDS = 600, PRE_MFA_SESSION_MAX_AGE_SECONDS = 300\<rparr>"

definition demo_portal :: portal where
  "demo_portal = \<lparr>core = (empty_world 1000 50)\<lparr>users := [\<lparr>usr_id = 7, usr_email = ''a@x.de'', usr_display_name = ''A'',
       usr_is_active = True, usr_is_staff = False, usr_mfa_enabled = True, usr_created_at = 0\<rparr>]\<rparr>,
     setup_tokens = [], auth_throttles = [], passwords = (\<lambda>_. None),
     mail_eligibilities = [], api_policies = []\<rparr>"

definition demo_provisioned :: portal where
  "demo_provisioned = (case create_setup_token demo_auth (Some 7) ''B@X.de'' ''B'' ''secret'' demo_portal of
     Inl _ \<Rightarrow> demo_portal | Inr (_, p) \<Rightarrow> p)"

theorem setup_token_single_use_witness:
  "\<exists>u p'. consume_setup_token demo_auth ''secret'' ''pw'' demo_provisioned = (Some u, p')
     \<and> consume_setup_token demo_auth ''secret'' ''other'' (at_time 2000 p') = (None, at_time 2000 p')"
proof -
  have "fst (consume_setup_token demo_auth ''secret'' ''pw'' demo_provisioned) = Some 50" by code_simp
  then obtain p' where c: "consume_setup_token demo_auth ''secret'' ''pw'' demo_provisioned = (Some 50, p')"
    by (metis prod.collapse)
  with setup_token_single_use [OF c] show ?thesis by blast
qed

text \<open>An old lockout on record, whose window is over: the next failure restarts it.\<close>

definition demo_throttled :: portal where
  "demo_throttled = demo_portal\<lparr>auth_throttles := [\<lparr>thr_id = 9, thr_scope = THROTTLE_PASSWORD,
     thr_subject = SUBJECT_ACCOUNT, thr_subject_hash = ''ha@x.de'', thr_failure_count = 8, thr_window_started_at = 0,
     thr_locked_until = Some 600000000\<rparr>]\<rparr>"

theorem failures_lock_account_witness:
  "is_throttled demo_auth THROTTLE_PASSWORD ''a@x.de'' None (at_time 1000009000
     (fold (failed_login demo_auth THROTTLE_PASSWORD ''a@x.de'')
       [(1000001000, Some ''10.0.0.1''), (1000002000, Some ''10.0.0.2''), (1000003000, None)] demo_throttled))"
proof (rule failures_lock_account)
  show "current_window demo_auth THROTTLE_PASSWORD ''a@x.de''
      (fst (hd [(1000001000, Some ''10.0.0.1''), (1000002000, Some ''10.0.0.2''), (1000003000, None)])) demo_throttled
    = (1000001000, 0)"
    by code_simp
qed (simp_all add: demo_throttled_def demo_portal_def demo_auth_def usec_per_second_def)

end
