(* ===== verification/App_Version.thy ===== *)
theory App_Version
  imports Py_String
begin

text \<open>
  Application versions and build numbers (apps/tablets/versions.py).  The regular expression
  \<open>(0|[1-9][0-9]*)\.(0|[1-9][0-9]*)\.(0|[1-9][0-9]*)\<close> matches the strings whose three segments between
  dots are decimal numerals without leading zero.
\<close>

record app_version =
  major :: nat
  minor :: nat
  patch :: nat

definition MAX_COMPONENT :: int where "MAX_COMPONENT = 2147483647"
definition MAX_BUILD :: int where "MAX_BUILD = 9223372036854775807"

definition version_string :: "app_version \<Rightarrow> string" where
  "version_string v = dec_nat (major v) @ ''.'' @ dec_nat (minor v) @ ''.'' @ dec_nat (patch v)"

definition version_segment :: "string \<Rightarrow> bool" where
  "version_segment s = (s \<noteq> [] \<and> list_all is_digit s \<and> (s = ''0'' \<or> hd s \<noteq> CHR ''0''))"

definition parse_app_version :: "string \<Rightarrow> exn + app_version" where
  "parse_app_version value =
     (case split_on (CHR ''.'') value of
        [a, b, c] \<Rightarrow>
          if version_segment a \<and> version_segment b \<and> version_segment c then
            (if list_ex (\<lambda>part. int part > MAX_COMPONENT) [read_nat a, read_nat b, read_nat c]
             then Inl (AppVersionError ''App version component is too large.'')
             else Inr \<lparr>major = read_nat a, minor = read_nat b, patch = read_nat c\<rparr>)
          else Inl (AppVersionError ''App version must be MAJOR.MINOR.PATCH.'')
      | _ \<Rightarrow> Inl (AppVersionError ''App version must be MAJOR.MINOR.PATCH.''))"

text \<open>\<open>order=True\<close> compares the fields as a tuple.\<close>

definition version_less :: "app_version \<Rightarrow> app_version \<Rightarrow> bool" where
  "version_less v w =
     (major v < major w \<or> major v = major w \<and>
        (minor v < minor w \<or> minor v = minor w \<and> patch v < patch w))"

text \<open>A build number given as an integer: \<open>str(value) != str(build)\<close> never holds then.\<close>

definition parse_app_build :: "int \<Rightarrow> exn + int" where
  "parse_app_build value =
     (if value < 1 \<or> value > MAX_BUILD
      then Inl (AppVersionError ''App build must be a positive integer.'') else Inr value)"

subsection \<open>Lemmas\<close>

lemma dot_free: "CHR ''.'' \<notin> set (dec_nat n)"
  using dec_nat_digits [of n] by (auto simp: list_all_iff is_digit_def of_char_def)

lemma dec_nat_segment: "version_segment (dec_nat n)"
proof (cases "n = 0")
  case True
  have "dec_nat 0 = ''0''" by code_simp
  with True show ?thesis by (simp add: version_segment_def is_digit_def of_char_def)
next
  case False
  then show ?thesis using dec_nat_digits by (simp add: version_segment_def hd_dec_nat)
qed

lemma segment_dec: "version_segment s \<Longrightarrow> dec_nat (read_nat s) = s"
  by (rule dec_read_nat) (auto simp: version_segment_def)

lemma split_version_string:
  "split_on (CHR ''.'') (version_string v) = [dec_nat (major v), dec_nat (minor v), dec_nat (patch v)]"
  by (simp add: version_string_def split_on_append split_on_none dot_free)

lemma split_three:
  assumes "split_on sep s = [a, b, c]"
  shows "s = a @ [sep] @ b @ [sep] @ c"
  using concat_split_on [of sep s] assms by simp

text \<open>
  C18: Versions round-trip.  The text of a version within the component bound parses back to it, and a text that
  parses is the canonical text of its version: two different texts never denote the same version.
\<close>

theorem version_roundtrip:
  "(parse_app_version (version_string v) = Inr v
      \<longleftrightarrow> int (major v) \<le> MAX_COMPONENT \<and> int (minor v) \<le> MAX_COMPONENT \<and> int (patch v) \<le> MAX_COMPONENT)
   \<and> (parse_app_version s = Inr u \<longrightarrow> version_string u = s)"
proof (intro conjI impI)
  show "parse_app_version (version_string v) = Inr v
      \<longleftrightarrow> int (major v) \<le> MAX_COMPONENT \<and> int (minor v) \<le> MAX_COMPONENT \<and> int (patch v) \<le> MAX_COMPONENT"
    by (auto simp: parse_app_version_def split_version_string dec_nat_segment not_less)
next
  assume p: "parse_app_version s = Inr u"
  then obtain a b c where abc: "split_on (CHR ''.'') s = [a, b, c]"
    by (auto simp: parse_app_version_def split: list.splits)
  with p have "version_segment a" "version_segment b" "version_segment c"
    "u = \<lparr>major = read_nat a, minor = read_nat b, patch = read_nat c\<rparr>"
    by (auto simp: parse_app_version_def split: if_splits)
  then show "version_string u = s"
    using split_three [OF abc] by (simp add: version_string_def segment_dec)
qed

theorem version_roundtrip_witness:
  "\<exists>u. parse_app_version ''1.20.3'' = Inr u \<and> version_string u = ''1.20.3''"
proof -
  have "\<not> isl (parse_app_version ''1.20.3'')" by code_simp
  then obtain u where u: "parse_app_version ''1.20.3'' = Inr u" by (cases "parse_app_version ''1.20.3''") auto
  with version_roundtrip [of u "''1.20.3''" u] show ?thesis by blast
qed

end
