(* ===== verification/Admin_Lifecycle.thy ===== *)
theory Admin_Lifecycle
  imports Accounts Temporary_Access App_Version
begin

text \<open>
  Administration of tenants and administrators (apps/authorization/services.py): department policies,
  department creation and status, provisioning, suspension, reinstatement and revocation of
  department and station administrators, and permanent removal, with the constraints of
  apps/authorization/models.py.  The rows the services receive as objects are identified by their
  primary keys and read from the database.
\<close>

subsection \<open>Statements\<close>

definition membership_constraints :: "membership_row list \<Rightarrow> bool" where
  "membership_constraints ms =
     (distinct (map mem_user (filter (\<lambda>m. mem_status m = ROLE_ACTIVE) ms))
      \<and> list_all (\<lambda>m. if mem_status m = ROLE_REVOKED then mem_revoked_at m \<noteq> None \<and> mem_revoked_by m \<noteq> None
           else mem_revoked_at m = None \<and> mem_revoked_by m = None) ms)"

definition station_admin_constraints :: "station_admin_row list \<Rightarrow> bool" where
  "station_admin_constraints rows =
     (distinct (map (\<lambda>a. (saa_user a, saa_station a)) (filter (\<lambda>a. saa_status a = ROLE_ACTIVE) rows))
      \<and> list_all (\<lambda>a. if saa_status a = ROLE_REVOKED then saa_revoked_at a \<noteq> None \<and> saa_revoked_by a \<noteq> None
           else saa_revoked_at a = None \<and> saa_revoked_by a = None) rows)"

definition put_memberships :: "membership_row list \<Rightarrow> world \<Rightarrow> world res" where
  "put_memberships ms w =
     (if membership_constraints ms then Inr (w\<lparr>memberships := ms\<rparr>)
      else Inl (IntegrityError ''department_membership''))"

definition put_station_admins :: "station_admin_row list \<Rightarrow> world \<Rightarrow> world res" where
  "put_station_admins rows w =
     (if station_admin_constraints rows then Inr (w\<lparr>station_admins := rows\<rparr>)
      else Inl (IntegrityError ''station_admin_assignment''))"

definition save_membership :: "membership_row \<Rightarrow> world \<Rightarrow> world res" where
  "save_membership m w = put_memberships (row_put mem_id m (memberships w)) w"

definition save_station_admin :: "station_admin_row \<Rightarrow> world \<Rightarrow> world res" where
  "save_station_admin a w = put_station_admins (row_put saa_id a (station_admins w)) w"

definition create_membership :: "nat \<Rightarrow> nat \<Rightarrow> nat option \<Rightarrow> world \<Rightarrow> world res" where
  "create_membership user department actor w =
     (let (i, w1) = fresh_id w in
      put_memberships (memberships w1 @
        [\<lparr>mem_id = i, mem_user = user, mem_department = department, mem_status = ROLE_ACTIVE,
          mem_created_at = clock w, mem_created_by = actor, mem_revoked_at = None, mem_revoked_by = None,
          mem_suspended_at = None, mem_suspended_by = None\<rparr>]) w1)"

definition create_station_admin :: "nat \<Rightarrow> nat \<Rightarrow> nat option \<Rightarrow> world \<Rightarrow> (nat \<times> world) res" where
  "create_station_admin user station actor w =
     (let (i, w1) = fresh_id w in
      bind_res (put_station_admins (station_admins w1 @
        [\<lparr>saa_id = i, saa_user = user, saa_station = station, saa_status = ROLE_ACTIVE,
          saa_created_at = clock w, saa_created_by = actor, saa_revoked_at = None, saa_revoked_by = None,
          saa_suspended_at = None, saa_suspended_by = None\<rparr>]) w1) (\<lambda>w2. Inr (i, w2)))"

definition fetch_department :: "nat \<Rightarrow> world \<Rightarrow> department_row res" where
  "fetch_department d w = of_option (DoesNotExist ''Department'') (row_get dep_id d (departments w))"

definition fetch_station :: "nat \<Rightarrow> world \<Rightarrow> station_row res" where
  "fetch_station s w = of_option (DoesNotExist ''Station'') (row_get sta_id s (stations w))"

definition fetch_membership :: "nat \<Rightarrow> world \<Rightarrow> membership_row res" where
  "fetch_membership i w = of_option (DoesNotExist ''DepartmentMembership'') (row_get mem_id i (memberships w))"

definition fetch_station_admin :: "nat \<Rightarrow> world \<Rightarrow> station_admin_row res" where
  "fetch_station_admin i w =
     of_option (DoesNotExist ''StationAdminAssignment'') (row_get saa_id i (station_admins w))"

definition save_department :: "department_row \<Rightarrow> world \<Rightarrow> world" where
  "save_department d w = w\<lparr>departments := row_put dep_id d (departments w)\<rparr>"

text \<open>\<open>revoke_temporary_access(actor=actor, reason="department_mutation")\<close> ends every department mutation.\<close>

definition department_mutation :: "nat option \<Rightarrow> world \<Rightarrow> world" where
  "department_mutation actor w =
     (case actor of None \<Rightarrow> w
      | Some u \<Rightarrow> snd (revoke_temporary_access u ''department_mutation'' None ''temporary_station_access'' w))"

subsection \<open>System policies\<close>

definition is_system_managed_mail_allowed :: "nat \<Rightarrow> portal \<Rightarrow> bool" where
  "is_system_managed_mail_allowed d p =
     exists_row (\<lambda>e. elg_department e = d \<and> elg_allowed e) (mail_eligibilities p)"

definition system_managed_mail_eligibility_states :: "portal \<Rightarrow> (department_row \<times> bool) list" where
  "system_managed_mail_eligibility_states p =
     (let ids = map elg_department (filter elg_allowed (mail_eligibilities p)) in
      map (\<lambda>d. (d, dep_id d \<in> set ids))
        (sort_key dep_name (sort_key dep_short_code (sort_key dep_id (departments (core p))))))"

definition set_system_managed_mail_eligibility ::
  "nat option \<Rightarrow> nat \<Rightarrow> bool \<Rightarrow> portal \<Rightarrow> portal res" where
  "set_system_managed_mail_eligibility actor d allowed p =
     bind_res (require_system_admin (core p) actor) (\<lambda>_.
     let event = (\<lambda>i q. q\<lparr>core := record_event
           (if allowed then ''authorization.department_managed_mail_eligibility_granted''
            else ''authorization.department_managed_mail_eligibility_revoked'')
           actor (Some d) None ''department_managed_mail_eligibility'' (Some i) [(''allowed'', JBool allowed)] (core q)\<rparr>)
     in case find (\<lambda>e. elg_department e = d) (mail_eligibilities p) of
          None \<Rightarrow>
            let (i, w) = fresh_id (core p) in
            Inr (event i (p\<lparr>core := w, mail_eligibilities := mail_eligibilities p @
              [\<lparr>elg_id = i, elg_department = d, elg_allowed = allowed, elg_updated_by = actor\<rparr>]\<rparr>))
        | Some e \<Rightarrow>
            if elg_allowed e = allowed then Inr p
            else Inr (event (elg_id e) (p\<lparr>mail_eligibilities := row_put elg_id
              (e\<lparr>elg_allowed := allowed, elg_updated_by := actor\<rparr>) (mail_eligibilities p)\<rparr>)))"

definition grant_system_managed_mail_eligibility :: "nat option \<Rightarrow> nat \<Rightarrow> portal \<Rightarrow> portal res" where
  "grant_system_managed_mail_eligibility actor d = set_system_managed_mail_eligibility actor d True"

definition revoke_system_managed_mail_eligibility :: "nat option \<Rightarrow> nat \<Rightarrow> portal \<Rightarrow> portal res" where
  "revoke_system_managed_mail_eligibility actor d = set_system_managed_mail_eligibility actor d False"

definition minimum_supported_app_version :: "int \<Rightarrow> portal \<Rightarrow> app_version option res" where
  "minimum_supported_app_version api_major p =
     (case find (\<lambda>r. pol_api_major r = api_major) (api_policies p) of
        None \<Rightarrow> Inr None
      | Some r \<Rightarrow> (case pol_minimum_app_version r of
          None \<Rightarrow> Inr None
        | Some s \<Rightarrow> bind_res (parse_app_version s) (\<lambda>v. Inr (Some v))))"

definition optional_string :: "string option \<Rightarrow> json" where
  "optional_string s = (case s of None \<Rightarrow> JNull | Some x \<Rightarrow> JStr x)"

definition set_api_version_compatibility_policy ::
  "nat option \<Rightarrow> int \<Rightarrow> string option \<Rightarrow> portal \<Rightarrow> portal res" where
  "set_api_version_compatibility_policy actor api_major minimum p =
     bind_res (require_system_admin (core p) actor) (\<lambda>_.
     bind_res (require (api_major \<ge> 1) (ValueError ''API major must be positive.'')) (\<lambda>_.
     bind_res (case minimum of None \<Rightarrow> Inr None
       | Some s \<Rightarrow> if s = [] then Inr None
           else (case parse_app_version s of
                   Inr v \<Rightarrow> Inr (Some (version_string v))
                 | Inl (AppVersionError m) \<Rightarrow> Inl (ValueError m)
                 | Inl e \<Rightarrow> Inl e)) (\<lambda>normalized.
     let existing = find (\<lambda>r. pol_api_major r = api_major) (api_policies p);
         old = (case existing of None \<Rightarrow> normalized | Some r \<Rightarrow> pol_minimum_app_version r);
         row = \<lparr>pol_api_major = api_major, pol_minimum_app_version = normalized, pol_updated_by = actor\<rparr>;
         p1 = p\<lparr>api_policies := (case existing of None \<Rightarrow> api_policies p @ [row]
                | Some _ \<Rightarrow> map (\<lambda>r. if pol_api_major r = api_major then row else r) (api_policies p))\<rparr>
     in if existing = None \<or> old \<noteq> normalized
        then Inr (p1\<lparr>core := record_event ''api_compatibility_policy.updated'' actor None None
               ''api_version_compatibility_policy'' None
               [(''api_major'', JInt api_major), (''old_minimum'', optional_string old),
                (''new_minimum'', optional_string normalized)] (core p1)\<rparr>)
        else Inr p1)))"

definition classify_system_admin_state :: "system_role_row list \<Rightarrow> world \<Rightarrow> string" where
  "classify_system_admin_state roles w =
     (case roles of
        [] \<Rightarrow> ''none''
      | [r] \<Rightarrow> if user_is_active w (sr_user r) then ''active'' else ''inactive''
      | _ \<Rightarrow> ''multiple'')"

subsection \<open>Department policies\<close>

definition department_event ::
  "string \<Rightarrow> nat option \<Rightarrow> nat \<Rightarrow> (string \<times> json) list \<Rightarrow> world \<Rightarrow> world" where
  "department_event action actor d = record_event action actor (Some d) None ''department'' (Some d)"

definition valid_lease :: "int \<Rightarrow> unit res" where
  "valid_lease days =
     require (3 \<le> days \<and> days \<le> 365) (ValueError ''Tablet lease duration must be between 3 and 365 days.'')"

definition set_department_tablet_lease :: "nat option \<Rightarrow> nat \<Rightarrow> int \<Rightarrow> world \<Rightarrow> world res" where
  "set_department_tablet_lease actor d days w =
     bind_res (require_department_admin w actor (Some d)) (\<lambda>_.
     bind_res (valid_lease days) (\<lambda>_.
     bind_res (fetch_department d w) (\<lambda>row.
     if dep_tablet_lease_days row = days then Inr w
     else Inr (department_mutation actor (department_event ''authorization.department_tablet_lease_changed'' actor d
            [(''old_days'', JInt (dep_tablet_lease_days row)), (''new_days'', JInt days)]
            (save_department (row\<lparr>dep_tablet_lease_days := days\<rparr>) w))))))"

definition set_system_department_tablet_lease :: "nat option \<Rightarrow> nat \<Rightarrow> int \<Rightarrow> world \<Rightarrow> world res" where
  "set_system_department_tablet_lease actor d days w =
     bind_res (require_system_admin w actor) (\<lambda>_.
     bind_res (valid_lease days) (\<lambda>_.
     bind_res (fetch_department d w) (\<lambda>row.
     if dep_tablet_lease_days row = days then Inr w
     else Inr (department_event ''authorization.department_tablet_lease_changed'' actor d
            [(''old_days'', JInt (dep_tablet_lease_days row)), (''new_days'', JInt days)]
            (save_department (row\<lparr>dep_tablet_lease_days := days\<rparr>) w)))))"

definition ASSET_NUMBER_MAX_LENGTH :: nat where "ASSET_NUMBER_MAX_LENGTH = 128"

definition set_department_tablet_asset_number_policy ::
  "nat option \<Rightarrow> nat \<Rightarrow> bool \<Rightarrow> string \<Rightarrow> int \<Rightarrow> world \<Rightarrow> world res" where
  "set_department_tablet_asset_number_policy actor d auto_enabled prefix0 width w =
     bind_res (require_department_admin w actor (Some d)) (\<lambda>_.
     let prefix = strip prefix0 in
     bind_res (require (1 \<le> width \<and> width \<le> 20)
       (ValueError ''Tablet asset-number width must be between 1 and 20 digits.'')) (\<lambda>_.
     bind_res (require (int (length prefix) + width \<le> int ASSET_NUMBER_MAX_LENGTH)
       (ValueError ''The prefix and number width must fit within the Tablet asset-number length.'')) (\<lambda>_.
     bind_res (fetch_department d w) (\<lambda>row.
     if dep_asset_number_auto_enabled row = auto_enabled \<and> dep_asset_number_prefix row = prefix
        \<and> dep_asset_number_width row = width then Inr w
     else Inr (department_mutation actor
            (department_event ''authorization.department_tablet_asset_number_policy_changed'' actor d
              [(''old_auto_enabled'', JBool (dep_asset_number_auto_enabled row)), (''new_auto_enabled'', JBool auto_enabled),
               (''old_prefix'', JStr (dep_asset_number_prefix row)), (''new_prefix'', JStr prefix),
               (''old_width'', JInt (dep_asset_number_width row)), (''new_width'', JInt width)]
              (save_department (row\<lparr>dep_asset_number_auto_enabled := auto_enabled, dep_asset_number_prefix := prefix,
                 dep_asset_number_width := width\<rparr>) w)))))))"

definition DEPARTMENT_TIMEZONES :: "string list" where
  "DEPARTMENT_TIMEZONES = map (\<lambda>c. ''Europe/'' @ c)
     [''Berlin'', ''Vienna'', ''Zurich'', ''Paris'', ''Amsterdam'', ''Brussels'', ''Luxembourg'', ''Rome'', ''Madrid'',
      ''Lisbon'', ''London'', ''Dublin'', ''Copenhagen'', ''Stockholm'', ''Oslo'', ''Helsinki'', ''Warsaw'', ''Prague'',
      ''Bratislava'', ''Budapest'', ''Ljubljana'', ''Zagreb'', ''Sarajevo'', ''Belgrade'', ''Sofia'', ''Bucharest'',
      ''Athens'', ''Tallinn'', ''Riga'', ''Vilnius'']"

definition DEPARTMENT_LOCALES :: "string list" where
  "DEPARTMENT_LOCALES =
     [''de-DE'', ''de-AT'', ''de-CH'', ''en-GB'', ''fr-FR'', ''it-IT'', ''nl-NL'', ''pl-PL'', ''cs-CZ'', ''sk-SK'',
      ''hu-HU'', ''da-DK'', ''sv-SE'', ''nb-NO'', ''fi-FI'', ''es-ES'', ''pt-PT'']"

definition set_department_locale_time_policy ::
  "nat option \<Rightarrow> nat \<Rightarrow> string \<Rightarrow> string \<Rightarrow> world \<Rightarrow> world res" where
  "set_department_locale_time_policy actor d locale timezone_name w =
     bind_res (require_department_admin w actor (Some d)) (\<lambda>_.
     bind_res (require (locale \<in> set DEPARTMENT_LOCALES) (ValueError ''Unsupported Department locale.'')) (\<lambda>_.
     bind_res (require (timezone_name \<in> set DEPARTMENT_TIMEZONES) (ValueError ''Unsupported Department timezone.'')) (\<lambda>_.
     bind_res (fetch_department d w) (\<lambda>row.
     if dep_locale row = locale \<and> dep_timezone row = timezone_name then Inr w
     else Inr (department_mutation actor
            (department_event ''authorization.department_locale_time_policy_changed'' actor d
              [(''old_locale'', JStr (dep_locale row)), (''new_locale'', JStr locale),
               (''old_timezone'', JStr (dep_timezone row)), (''new_timezone'', JStr timezone_name)]
              (save_department (row\<lparr>dep_locale := locale, dep_timezone := timezone_name\<rparr>) w)))))))"

definition create_department :: "nat option \<Rightarrow> string \<Rightarrow> string \<Rightarrow> world \<Rightarrow> (nat \<times> world) res" where
  "create_department actor name short_code w =
     bind_res (require_system_admin w actor) (\<lambda>_.
     let (i, w1) = fresh_id w;
         row = \<lparr>dep_id = i, dep_name = strip name, dep_short_code = strip short_code, dep_status = DEP_ACTIVE,
                dep_tablet_lease_days = 7, dep_asset_number_auto_enabled = False, dep_asset_number_prefix = [],
                dep_asset_number_width = 1, dep_asset_number_sequence = 0, dep_locale = ''de-DE'',
                dep_timezone = ''Europe/Berlin'', dep_created_at = clock w, dep_created_by = actor\<rparr>
     in Inr (i, department_event ''organization.department_created'' actor i []
                  (w1\<lparr>departments := departments w1 @ [row]\<rparr>)))"

definition change_department_status :: "nat option \<Rightarrow> nat \<Rightarrow> department_status \<Rightarrow> world \<Rightarrow> world res" where
  "change_department_status actor d status w =
     bind_res (require_system_admin w actor) (\<lambda>_.
     bind_res (fetch_department d w) (\<lambda>row.
     let w1 = save_department (row\<lparr>dep_status := status\<rparr>) w;
         w2 = (if status \<noteq> DEP_ACTIVE
               then snd (revoke_department_temporary_accesses d actor ''authority_revoked'' w1) else w1)
     in Inr (department_event ''organization.department_status_changed'' actor d [] w2)))"

subsection \<open>Provisioning\<close>

definition provision_department_admin ::
  "auth_env \<Rightarrow> nat option \<Rightarrow> nat \<Rightarrow> string \<Rightarrow> string \<Rightarrow> string \<Rightarrow> portal \<Rightarrow> (string \<times> portal) res" where
  "provision_department_admin A actor d email display_name raw_token p =
     (let w = core p; system_actor = is_system_admin w actor in
      bind_res (fetch_department d w) (\<lambda>row.
      bind_res
        (if system_actor then
           bind_res (require (dep_status row = DEP_ACTIVE)
             (PermissionDenied ''Department must be operational before administrator bootstrap.'')) (\<lambda>_.
           require (effective_department_admin_memberships w (Some d) = [])
             (PermissionDenied ''System administrators may only bootstrap orphaned departments.''))
         else require (d \<in> set (active_department_ids w actor))
             (PermissionDenied ''Department administrator scope is required.'')) (\<lambda>_.
      let had_prior_authority = exists_row (\<lambda>m. mem_department m = d) (memberships w) in
      bind_res (create_setup_token A actor email display_name raw_token p) (\<lambda>(u, p1).
      bind_res (create_membership u d actor (core p1)) (\<lambda>w2.
      Inr (raw_token, p1\<lparr>core := department_mutation actor (record_event
        (if system_actor \<and> had_prior_authority then ''authorization.department_admin_orphan_recovered''
         else if system_actor then ''authorization.department_admin_bootstrapped''
         else ''authorization.department_admin_provisioned'')
        actor (Some d) None ''user'' (Some u) [] w2)\<rparr>))))))"

definition provision_station_admin ::
  "auth_env \<Rightarrow> nat option \<Rightarrow> nat \<Rightarrow> string \<Rightarrow> string \<Rightarrow> string \<Rightarrow> portal \<Rightarrow> (string \<times> portal) res" where
  "provision_station_admin A actor s email display_name raw_token p =
     bind_res (fetch_station s (core p)) (\<lambda>station.
     bind_res (require_department_admin (core p) actor (Some (sta_department station))) (\<lambda>_.
     bind_res (create_setup_token A actor email display_name raw_token p) (\<lambda>(u, p1).
     bind_res (create_station_admin u s actor (core p1)) (\<lambda>(_, w2).
     Inr (raw_token, p1\<lparr>core := department_mutation actor (record_event ''authorization.station_admin_provisioned''
       actor (Some (sta_department station)) (Some s) ''user'' (Some u) [] w2)\<rparr>)))))"

subsection \<open>Lifecycle of administrators\<close>

definition require_tenant_lifecycle_actor :: "world \<Rightarrow> nat option \<Rightarrow> nat \<Rightarrow> unit res" where
  "require_tenant_lifecycle_actor w actor d =
     bind_res (require (\<not> is_system_admin w actor)
       (PermissionDenied ''System administrators may not manage tenant administrator lifecycle.'')) (\<lambda>_.
     require_department_admin w actor (Some d))"

definition prevent_last_effective_admin_removal :: "world \<Rightarrow> nat \<Rightarrow> membership_row \<Rightarrow> unit res" where
  "prevent_last_effective_admin_removal w d m =
     (if mem_status m \<noteq> ROLE_ACTIVE then Inr ()
      else
        let effective = effective_department_admin_memberships w (Some d) in
        if mem_id m \<notin> set (map mem_id effective) then Inr ()
        else require (\<not> length effective \<le> 1)
          (ValueError ''An operational department must retain one effective Department Administrator.''))"

definition membership_event :: "string \<Rightarrow> nat option \<Rightarrow> membership_row \<Rightarrow> world \<Rightarrow> world" where
  "membership_event action actor m =
     record_event action actor (Some (mem_department m)) None ''department_membership'' (Some (mem_id m)) []"

definition suspend_department_admin :: "nat option \<Rightarrow> nat \<Rightarrow> world \<Rightarrow> world res" where
  "suspend_department_admin actor i w =
     bind_res (fetch_membership i w) (\<lambda>m.
     bind_res (fetch_department (mem_department m) w) (\<lambda>_.
     bind_res (require_tenant_lifecycle_actor w actor (mem_department m)) (\<lambda>_.
     bind_res (require (mem_status m = ROLE_ACTIVE)
       (ValueError ''Only an active Department Administrator can be suspended.'')) (\<lambda>_.
     bind_res (prevent_last_effective_admin_removal w (mem_department m) m) (\<lambda>_.
     bind_res (save_membership (m\<lparr>mem_status := ROLE_SUSPENDED, mem_suspended_at := Some (clock w),
       mem_suspended_by := actor\<rparr>) w) (\<lambda>w1.
     Inr (department_mutation actor (membership_event ''authorization.department_admin_suspended'' actor m
       (snd (revoke_temporary_access_for_user (mem_user m) actor ''authority_revoked'' w1)))))))))) "

definition reinstate_department_admin :: "nat option \<Rightarrow> nat \<Rightarrow> world \<Rightarrow> world res" where
  "reinstate_department_admin actor i w =
     bind_res (fetch_membership i w) (\<lambda>m.
     bind_res (fetch_department (mem_department m) w) (\<lambda>_.
     bind_res (require_tenant_lifecycle_actor w actor (mem_department m)) (\<lambda>_.
     bind_res (require (mem_status m = ROLE_SUSPENDED)
       (ValueError ''Only a suspended Department Administrator can be reinstated.'')) (\<lambda>_.
     bind_res (require (\<not> exists_row (\<lambda>x. mem_user x = mem_user m \<and> mem_status x = ROLE_ACTIVE \<and> mem_id x \<noteq> mem_id m)
         (memberships w)) (ValueError ''This account already actively administers a department.'')) (\<lambda>_.
     bind_res (save_membership (m\<lparr>mem_status := ROLE_ACTIVE\<rparr>) w) (\<lambda>w1.
     Inr (department_mutation actor
       (membership_event ''authorization.department_admin_reinstated'' actor m w1))))))))"

definition revoke_department_admin :: "nat option \<Rightarrow> nat \<Rightarrow> world \<Rightarrow> world res" where
  "revoke_department_admin actor i w =
     bind_res (fetch_membership i w) (\<lambda>m.
     bind_res (fetch_department (mem_department m) w) (\<lambda>_.
     bind_res (require_tenant_lifecycle_actor w actor (mem_department m)) (\<lambda>_.
     bind_res (require (mem_status m = ROLE_ACTIVE \<or> mem_status m = ROLE_SUSPENDED)
       (ValueError ''Only active or suspended Department Administrator authority can be revoked.'')) (\<lambda>_.
     bind_res (prevent_last_effective_admin_removal w (mem_department m) m) (\<lambda>_.
     bind_res (save_membership (m\<lparr>mem_status := ROLE_REVOKED, mem_revoked_at := Some (clock w),
       mem_revoked_by := actor\<rparr>) w) (\<lambda>w1.
     Inr (department_mutation actor (membership_event ''authorization.department_admin_revoked'' actor m
       (snd (revoke_temporary_access_for_user (mem_user m) actor ''authority_revoked'' w1)))))))))) "

definition station_admin_event :: "string \<Rightarrow> nat option \<Rightarrow> station_row \<Rightarrow> nat \<Rightarrow> world \<Rightarrow> world" where
  "station_admin_event action actor s i =
     record_event action actor (Some (sta_department s)) (Some (sta_id s)) ''station_admin_assignment'' (Some i) []"

text \<open>The common frame of the station administrator services: load, authorise, guard, write, audit.\<close>

definition change_station_admin ::
  "(world \<Rightarrow> station_admin_row \<Rightarrow> unit res) \<Rightarrow> (world \<Rightarrow> station_admin_row \<Rightarrow> station_admin_row) \<Rightarrow> string
   \<Rightarrow> nat option \<Rightarrow> nat \<Rightarrow> world \<Rightarrow> world res" where
  "change_station_admin guard change action actor i w =
     bind_res (fetch_station_admin i w) (\<lambda>a.
     bind_res (fetch_station (saa_station a) w) (\<lambda>s.
     bind_res (fetch_department (sta_department s) w) (\<lambda>_.
     bind_res (require_tenant_lifecycle_actor w actor (sta_department s)) (\<lambda>_.
     bind_res (guard w a) (\<lambda>_.
     bind_res (save_station_admin (change w a) w) (\<lambda>w1.
     Inr (department_mutation actor (station_admin_event action actor s i w1))))))))"

definition revoke_station_admin :: "nat option \<Rightarrow> nat \<Rightarrow> world \<Rightarrow> world res" where
  "revoke_station_admin actor =
     change_station_admin
       (\<lambda>_ a. require (saa_status a = ROLE_ACTIVE \<or> saa_status a = ROLE_SUSPENDED)
          (ValueError ''Only active or suspended Station Administrator authority can be revoked.''))
       (\<lambda>w a. a\<lparr>saa_status := ROLE_REVOKED, saa_revoked_at := Some (clock w), saa_revoked_by := actor\<rparr>)
       ''authorization.station_admin_revoked'' actor"

definition suspend_station_admin :: "nat option \<Rightarrow> nat \<Rightarrow> world \<Rightarrow> world res" where
  "suspend_station_admin actor =
     change_station_admin
       (\<lambda>_ a. require (saa_status a = ROLE_ACTIVE) (ValueError ''Only an active Station Administrator can be suspended.''))
       (\<lambda>w a. a\<lparr>saa_status := ROLE_SUSPENDED, saa_suspended_at := Some (clock w), saa_suspended_by := actor\<rparr>)
       ''authorization.station_admin_suspended'' actor"

definition reinstate_station_admin :: "nat option \<Rightarrow> nat \<Rightarrow> world \<Rightarrow> world res" where
  "reinstate_station_admin actor =
     change_station_admin
       (\<lambda>w a. bind_res (require (saa_status a = ROLE_SUSPENDED)
          (ValueError ''Only a suspended Station Administrator can be reinstated.'')) (\<lambda>_.
          require (\<not> exists_row (\<lambda>x. saa_user x = saa_user a \<and> saa_station x = saa_station a
               \<and> saa_status x = ROLE_ACTIVE \<and> saa_id x \<noteq> saa_id a) (station_admins w))
            (ValueError ''This account already has active authority for this station.'')))
       (\<lambda>_ a. a\<lparr>saa_status := ROLE_ACTIVE\<rparr>)
       ''authorization.station_admin_reinstated'' actor"

definition grant_station_admin :: "nat option \<Rightarrow> nat \<Rightarrow> nat \<Rightarrow> world \<Rightarrow> (nat \<times> world) res" where
  "grant_station_admin actor user s w =
     bind_res (fetch_station s w) (\<lambda>station.
     bind_res (require_department_admin w actor (Some (sta_department station))) (\<lambda>_.
     case find (\<lambda>a. saa_user a = user \<and> saa_station a = s \<and> saa_status a = ROLE_ACTIVE) (station_admins w) of
       Some a \<Rightarrow> Inr (saa_id a, w)
     | None \<Rightarrow>
         bind_res (create_station_admin user s actor w) (\<lambda>(i, w1).
         Inr (i, department_mutation actor
           (station_admin_event ''authorization.station_admin_granted'' actor station i w1)))))"

subsection \<open>Permanent removal\<close>

definition revoke_membership_row :: "nat option \<Rightarrow> nat \<Rightarrow> membership_row \<Rightarrow> world \<Rightarrow> world res" where
  "revoke_membership_row actor d m w =
     bind_res (prevent_last_effective_admin_removal w d m) (\<lambda>_.
     if mem_status m \<noteq> ROLE_REVOKED
     then save_membership (m\<lparr>mem_status := ROLE_REVOKED, mem_revoked_at := Some (clock w), mem_revoked_by := actor\<rparr>) w
     else Inr w)"

definition revoke_assignment_row :: "nat option \<Rightarrow> station_admin_row \<Rightarrow> world \<Rightarrow> world res" where
  "revoke_assignment_row actor a w =
     (if saa_status a \<noteq> ROLE_REVOKED
      then save_station_admin (a\<lparr>saa_status := ROLE_REVOKED, saa_revoked_at := Some (clock w), saa_revoked_by := actor\<rparr>) w
      else Inr w)"

definition permanently_remove_administrator ::
  "nat option \<Rightarrow> nat \<Rightarrow> nat \<Rightarrow> string \<Rightarrow> portal \<Rightarrow> portal res" where
  "permanently_remove_administrator actor user d token_hex p =
     (let w = core p in
      bind_res (fetch_department d w) (\<lambda>_.
      bind_res (require_tenant_lifecycle_actor w actor d) (\<lambda>_.
      bind_res (require (\<not> is_system_admin w (Some user))
        (ValueError ''A System Administrator cannot be permanently removed from tenant administration.'')) (\<lambda>_.
      let ms = filter (\<lambda>m. mem_user m = user \<and> mem_department m = d) (memberships w);
          as = filter (\<lambda>a. saa_user a = user \<and> station_department w (saa_station a) = Some d) (station_admins w) in
      bind_res (require (\<not> (ms = [] \<and> as = []))
        (ValueError ''User has no administrator authority in this department.'')) (\<lambda>_.
      bind_res (require (\<not> (exists_row (\<lambda>m. mem_user m = user \<and> mem_status m = ROLE_ACTIVE \<and> mem_department m \<noteq> d)
            (memberships w)
          \<or> exists_row (\<lambda>a. saa_user a = user \<and> saa_status a = ROLE_ACTIVE \<and> station_department w (saa_station a) \<noteq> Some d)
            (station_admins w)))
        (ValueError ''Administrator has authority outside this department and cannot be permanently removed here.'')) (\<lambda>_.
      bind_res (fold_res (revoke_membership_row actor d) ms w) (\<lambda>w1.
      bind_res (fold_res (revoke_assignment_row actor) as w1) (\<lambda>w2.
      let w3 = snd (revoke_temporary_access_for_user user actor ''authority_revoked'' w2);
          p4 = permanently_deactivate_and_anonymize_user user token_hex (p\<lparr>core := w3\<rparr>)
      in Inr (p4\<lparr>core := department_mutation actor
           (record_event ''authorization.administrator_permanently_removed'' actor (Some d) None ''user'' (Some user)
             [(''department_authority_count'', JInt (int (length ms))),
              (''station_authority_count'', JInt (int (length as))),
              (''station_id'', case as of [a] \<Rightarrow> JStr (dec_nat (saa_station a)) | _ \<Rightarrow> JNull)]
             (core p4))\<rparr>)))))))))"

end
