(* ===== verification/Administrator_Inv.thy ===== *)
theory Administrator_Inv
  imports Admin_Lifecycle
begin

text \<open>
  Effective department administration across the tenant services: a department that has an effective
  administrator never loses the last one through the services a tenant can call.
\<close>

subsection \<open>The view the effective-administrator query depends on\<close>

definition effective :: "world \<Rightarrow> membership_row \<Rightarrow> bool" where
  "effective w m \<longleftrightarrow> mem_status m = ROLE_ACTIVE \<and> user_is_active w (mem_user m)
     \<and> department_is_active w (mem_department m)"

definition has_effective_admin :: "world \<Rightarrow> nat \<Rightarrow> bool" where
  "has_effective_admin w d \<longleftrightarrow> effective_department_admin_memberships w (Some d) \<noteq> []"

definition same_roles :: "world \<Rightarrow> world \<Rightarrow> bool" where
  "same_roles w w' \<longleftrightarrow> memberships w' = memberships w \<and> users w' = users w
     \<and> (\<forall>d. department_is_active w' d = department_is_active w d) \<and> next_id w \<le> next_id w'"

definition admin_inv :: "world \<Rightarrow> bool" where
  "admin_inv w \<longleftrightarrow> unique_rows mem_id (memberships w) \<and> (\<forall>m\<in>set (memberships w). mem_id m < next_id w)
     \<and> (\<forall>u\<in>set (users w). usr_id u < next_id w) \<and> (\<forall>m\<in>set (memberships w). mem_user m < next_id w)"

definition retains :: "world \<Rightarrow> world \<Rightarrow> bool" where
  "retains w w' \<longleftrightarrow> admin_inv w' \<and> (\<forall>d. has_effective_admin w d \<longrightarrow> has_effective_admin w' d)"

lemma effective_members:
  "set (effective_department_admin_memberships w (Some d))
     = {m \<in> set (memberships w). effective w m \<and> mem_department m = d}"
  by (auto simp: effective_department_admin_memberships_def effective_def)

lemma has_effective_admin_iff:
  "has_effective_admin w d \<longleftrightarrow> (\<exists>m\<in>set (memberships w). effective w m \<and> mem_department m = d)"
  using effective_members [of w d] unfolding has_effective_admin_def by (metis (mono_tags, lifting) Collect_empty_eq set_empty)

lemma same_roles_refl [simp]: "same_roles w w"
  by (simp add: same_roles_def)

lemma same_roles_trans: "same_roles a b \<Longrightarrow> same_roles b c \<Longrightarrow> same_roles a c"
  by (auto simp: same_roles_def)

lemma same_roles_effective: "same_roles w w' \<Longrightarrow> effective w' m = effective w m"
  by (simp add: same_roles_def effective_def user_is_active_def)

lemma same_roles_retains:
  assumes s: "same_roles w w'" and inv: "admin_inv w"
  shows "retains w w'"
proof -
  have "has_effective_admin w' d = has_effective_admin w d" for d
    using s same_roles_effective [OF s] by (simp add: has_effective_admin_iff same_roles_def)
  moreover have "admin_inv w'" using s inv by (auto simp: admin_inv_def same_roles_def)
  ultimately show ?thesis by (simp add: retains_def)
qed

lemma retains_trans: "retains a b \<Longrightarrow> retains b c \<Longrightarrow> retains a c"
  by (auto simp: retains_def)

lemma retains_then_same: "retains a b \<Longrightarrow> same_roles b c \<Longrightarrow> retains a c"
  using retains_trans same_roles_retains retains_def by blast

lemma retains_inv: "retains w w' \<Longrightarrow> admin_inv w'"
  by (simp add: retains_def)

subsection \<open>Frames\<close>

lemma same_roles_event [simp]: "same_roles w (record_event a b c d e f g w)"
  by (simp add: same_roles_def record_event_def department_is_active_def)

lemma same_roles_revoke_access [simp]: "same_roles w (revoke_access a r b t y audit w)"
  by (simp add: revoke_access_def Let_def same_roles_def record_event_def department_is_active_def)

lemma same_roles_active_access: "same_roles w (snd (active_temporary_access u w))"
  by (simp add: active_temporary_access_def split: option.splits)

lemma same_roles_revoke_temporary: "same_roles w (snd (revoke_temporary_access u r t y w))"
proof (cases "active_temporary_access u w")
  case (Pair a w1)
  then have "same_roles w w1" using same_roles_active_access [of w u] by simp
  then show ?thesis
    using Pair same_roles_trans same_roles_revoke_access
    by (auto simp: revoke_temporary_access_def split: option.splits)
qed

lemma same_roles_revoke_for_user [simp]: "same_roles w (snd (revoke_temporary_access_for_user u a r w))"
  by (simp add: revoke_temporary_access_for_user_def split: option.splits)

lemma same_roles_department_mutation [simp]: "same_roles w (department_mutation a w)"
  by (simp add: department_mutation_def same_roles_revoke_temporary split: option.splits)

lemma same_roles_station_admins:
  "put_station_admins rows w = Inr w' \<Longrightarrow> same_roles w w'"
  by (auto simp: put_station_admins_def same_roles_def department_is_active_def split: if_splits)

lemma same_roles_department:
  assumes "row_get dep_id d (departments w) = Some row" and "dep_id row' = dep_id row" and "dep_status row' = dep_status row"
  shows "same_roles w (save_department row' w)"
proof -
  have "dep_id row = d" by (rule row_get_key [OF assms(1)])
  with assms show ?thesis
    by (auto simp: same_roles_def save_department_def department_is_active_def row_get_put row_get_None [symmetric]
        split: option.splits)
qed

lemma same_roles_then:
  assumes "same_roles w w1"
  shows "same_roles w (department_mutation a w1)" "same_roles w (record_event e b c d x y z w1)"
    "same_roles w (snd (revoke_temporary_access_for_user u a' r w1))"
  using same_roles_trans [OF assms] by simp_all

lemma retains_then:
  assumes "retains w w1"
  shows "retains w (department_mutation a w1)" "retains w (record_event e b c d x y z w1)"
    "retains w (snd (revoke_temporary_access_for_user u a' r w1))"
  using retains_then_same [OF assms] by simp_all

subsection \<open>Withdrawing one membership\<close>

lemma withdraw_retains:
  assumes inv: "admin_inv w" and m: "m \<in> set (memberships w)"
    and guard: "prevent_last_effective_admin_removal w (mem_department m) m = Inr g"
    and save: "save_membership m' w = Inr w'"
    and m': "mem_id m' = mem_id m" "mem_user m' = mem_user m" "mem_department m' = mem_department m"
  shows "retains w w'"
proof -
  have u: "unique_rows mem_id (memberships w)" using inv by (simp add: admin_inv_def)
  have w': "w' = w\<lparr>memberships := row_put mem_id m' (memberships w)\<rparr>"
    using save by (auto simp: save_membership_def put_memberships_def split: if_splits)
  have same: "effective w' x = effective w x" for x
    by (simp add: w' effective_def user_is_active_def department_is_active_def)
  have rows: "x \<in> set (memberships w') \<longleftrightarrow> x = m' \<or> x \<in> set (memberships w) \<and> mem_id x \<noteq> mem_id m" for x
    using m m'(1) by (auto simp: w' in_set_row_put)
  have inv': "admin_inv w'"
    using inv m m' unfolding admin_inv_def
    by (auto simp: rows) (auto simp: w' simp flip: m')
  have "has_effective_admin w' d" if "has_effective_admin w d" for d
  proof -
    from that obtain x where x: "x \<in> set (memberships w)" "effective w x" "mem_department x = d"
      by (auto simp: has_effective_admin_iff)
    show ?thesis
    proof (cases "mem_id x = mem_id m")
      case False
      with x rows same show ?thesis by (auto simp: has_effective_admin_iff)
    next
      case True
      then have "x = m" using u x(1) m by (auto simp: distinct_map inj_on_def)
      let ?es = "effective_department_admin_memberships w (Some d)"
      have "m \<in> set ?es" using x \<open>x = m\<close> by (simp add: effective_members)
      then have "\<not> length ?es \<le> 1"
        using guard x \<open>x = m\<close> by (auto simp: prevent_last_effective_admin_removal_def Let_def effective_def require_Inr split: if_splits)
      moreover have "distinct ?es"
        using u by (simp add: effective_department_admin_memberships_def distinct_map)
      ultimately obtain y where "y \<in> set ?es" "y \<noteq> m"
        using \<open>m \<in> set ?es\<close> by (metis One_nat_def card_le_Suc0_iff_eq distinct_card finite_set)
      then have y: "y \<in> set (memberships w)" "effective w y" "mem_department y = d" "y \<noteq> m"
        by (simp_all add: effective_members)
      then have "mem_id y \<noteq> mem_id m" using u m by (auto simp: distinct_map inj_on_def)
      with y rows same show ?thesis by (auto simp: has_effective_admin_iff)
    qed
  qed
  with inv' show ?thesis by (simp add: retains_def)
qed

subsection \<open>The services\<close>

lemma suspend_retains:
  assumes "suspend_department_admin actor i w = Inr w'" and "admin_inv w"
  shows "retains w w'"
  using assms(1) unfolding suspend_department_admin_def fetch_membership_def
proof (elim bind_resE, goal_cases)
  case (1 m d x1 x2 x3 w1)
  have "retains w w1"
    by (rule withdraw_retains [OF assms(2) _ 1(5) 1(6)]) (use 1(1) in \<open>simp_all add: of_option_Inr row_get_mem\<close>)
  with 1(7) show ?case
    by (auto simp: membership_event_def intro!: retains_then)
qed

lemma revoke_retains:
  assumes "revoke_department_admin actor i w = Inr w'" and "admin_inv w"
  shows "retains w w'"
  using assms(1) unfolding revoke_department_admin_def fetch_membership_def
proof (elim bind_resE, goal_cases)
  case (1 m d x1 x2 x3 w1)
  have "retains w w1"
    by (rule withdraw_retains [OF assms(2) _ 1(5) 1(6)]) (use 1(1) in \<open>simp_all add: of_option_Inr row_get_mem\<close>)
  with 1(7) show ?case
    by (auto simp: membership_event_def intro!: retains_then)
qed

text \<open>Membership changes that take nobody's authority.\<close>

lemma more_memberships_retain:
  assumes inv: "admin_inv w" and save: "put_memberships ms w = Inr w'"
    and ids: "unique_rows mem_id ms" "\<forall>m\<in>set ms. mem_id m < next_id w \<and> mem_user m < next_id w"
    and kept: "\<And>m. m \<in> set (memberships w) \<Longrightarrow> mem_status m = ROLE_ACTIVE \<Longrightarrow> m \<in> set ms"
  shows "retains w w'"
proof -
  have w': "w' = w\<lparr>memberships := ms\<rparr>"
    using save by (auto simp: put_memberships_def split: if_splits)
  have same: "effective w' x = effective w x" for x
    by (simp add: w' effective_def user_is_active_def department_is_active_def)
  have "admin_inv w'" using inv ids by (simp add: w' admin_inv_def)
  moreover have "has_effective_admin w' d" if "has_effective_admin w d" for d
    using that kept unfolding has_effective_admin_iff same by (auto simp: w' effective_def)
  ultimately show ?thesis by (simp add: retains_def)
qed

lemma reinstate_retains:
  assumes "reinstate_department_admin actor i w = Inr w'" and "admin_inv w"
  shows "retains w w'"
  using assms(1) unfolding reinstate_department_admin_def fetch_membership_def save_membership_def
proof (elim bind_resE, goal_cases)
  case (1 m d x1 x2 x3 w1)
  have m: "m \<in> set (memberships w)" "mem_id m = i" "mem_status m = ROLE_SUSPENDED"
    using 1(1,4) by (simp_all add: of_option_Inr row_get_mem row_get_key require_Inr)
  have "retains w w1"
  proof (rule more_memberships_retain [OF assms(2) 1(6)], goal_cases)
    case (3 x)
    then have "mem_id x \<noteq> mem_id m"
      using m assms(2) by (auto simp: admin_inv_def distinct_map inj_on_def)
    with 3 show ?case by (simp add: in_set_row_put)
  qed (use assms(2) m in \<open>auto simp: admin_inv_def in_set_row_put\<close>)
  with 1(7) show ?case
    by (auto simp: membership_event_def intro!: retains_then)
qed

lemma station_admin_change_same:
  assumes "change_station_admin guard change action actor i w = Inr w'"
  shows "same_roles w w'"
  using assms unfolding change_station_admin_def save_station_admin_def
proof (elim bind_resE, goal_cases)
  case (1 a s d x1 x2 w1)
  from 1(7) same_roles_station_admins [OF 1(6)] show ?case
    by (auto simp: station_admin_event_def intro!: same_roles_then)
qed

lemma same_roles_fresh [simp]: "same_roles w (w\<lparr>next_id := Suc (next_id w)\<rparr>)"
  by (simp add: same_roles_def department_is_active_def)

lemma create_station_admin_same:
  assumes "create_station_admin u s a w = Inr (i, w')"
  shows "same_roles w w'"
  using assms same_roles_station_admins same_roles_trans [OF same_roles_fresh]
  by (fastforce simp: create_station_admin_def fresh_id_def bind_res_Inr)

lemma grant_station_admin_same:
  assumes "grant_station_admin actor user s w = Inr (i, w')"
  shows "same_roles w w'"
  using assms unfolding grant_station_admin_def
proof (elim bind_resE, goal_cases)
  case (1 station x)
  show ?case
  proof (cases "find (\<lambda>a. saa_user a = user \<and> saa_station a = s \<and> saa_status a = ROLE_ACTIVE) (station_admins w)")
    case None
    with 1(3) obtain w1 where "create_station_admin user s actor w = Inr (i, w1)"
      "w' = department_mutation actor (station_admin_event ''authorization.station_admin_granted'' actor station i w1)"
      by (auto simp: bind_res_Inr)
    then show ?thesis
      by (auto simp: station_admin_event_def intro!: same_roles_then dest: create_station_admin_same)
  qed (use 1(3) in simp)
qed

lemma department_policy_same:
  assumes "fetch_department d w = Inr row"
    and "dep_id row' = dep_id row" and "dep_status row' = dep_status row"
  shows "same_roles w (department_mutation actor (department_event a b c e (save_department row' w)))"
  unfolding department_event_def
  by (intro same_roles_then same_roles_department)
     (use assms in \<open>simp_all add: fetch_department_def of_option_Inr\<close>)

lemma lease_same: "set_department_tablet_lease actor d days w = Inr w' \<Longrightarrow> same_roles w w'"
  by (auto simp: set_department_tablet_lease_def bind_res_Inr intro: department_policy_same split: if_splits)

lemma asset_policy_same:
  "set_department_tablet_asset_number_policy actor d auto prefix width w = Inr w' \<Longrightarrow> same_roles w w'"
  by (auto simp: set_department_tablet_asset_number_policy_def Let_def bind_res_Inr intro: department_policy_same
      split: if_splits)

lemma locale_policy_same:
  "set_department_locale_time_policy actor d l tz w = Inr w' \<Longrightarrow> same_roles w w'"
  by (auto simp: set_department_locale_time_policy_def bind_res_Inr intro: department_policy_same split: if_splits)

subsection \<open>Accounts\<close>

lemma create_setup_token_core:
  assumes "create_setup_token A actor email name raw p = Inr (u, p')" and inv: "admin_inv (core p)"
  shows "\<exists>r. usr_id r = u \<and> u = next_id (core p) \<and> core p' = (core p)\<lparr>users := users (core p) @ [r],
     next_id := Suc (Suc (next_id (core p)))\<rparr>"
proof -
  let ?i = "next_id (core p)"
  from assms(1) obtain e p1 where c: "create_user e name p = Inr (u, p1)"
    and k: "\<exists>j. create_setup_token_for_user A u actor raw (set_unusable_password u (p1\<lparr>core := (core p1)\<lparr>users :=
        map (\<lambda>r. if usr_id r = u then r\<lparr>usr_is_active := False\<rparr> else r) (users (core p1))\<rparr>\<rparr>)) = Inr (j, p')"
    by (auto simp: create_setup_token_def bind_res_Inr translate_email_conflict_Inr Let_def)
  define r where "r = new_user ?i (casefold (normalize_email e)) name (clock (core p))"
  have r: "usr_id r = ?i" "u = ?i" "core p1 = (core p)\<lparr>users := users (core p) @ [r], next_id := Suc ?i\<rparr>"
    using c by (auto simp: create_user_def Let_def fresh_id_def r_def split: if_splits) (simp add: new_user_def)
  have old: "map (\<lambda>r. if usr_id r = u then r\<lparr>usr_is_active := False\<rparr> else r) (users (core p)) = users (core p)"
    by (rule map_idI) (use inv in \<open>auto simp: admin_inv_def r(2)\<close>)
  show ?thesis
    using k r old
    by (intro exI [of _ "r\<lparr>usr_is_active := False\<rparr>"])
       (auto simp: create_setup_token_for_user_def set_unusable_password_def Let_def fresh_id_def split: if_splits)
qed

lemma new_user_retains:
  assumes inv: "admin_inv w" and r: "usr_id r = next_id w"
  shows "retains w (w\<lparr>users := users w @ [r], next_id := Suc (Suc (next_id w))\<rparr>)"
proof -
  let ?w' = "w\<lparr>users := users w @ [r], next_id := Suc (Suc (next_id w))\<rparr>"
  have "effective ?w' m = effective w m" if "m \<in> set (memberships w)" for m
  proof -
    have "mem_user m \<noteq> usr_id r" using inv that by (auto simp: admin_inv_def r)
    then show ?thesis
      by (auto simp: effective_def user_is_active_def department_is_active_def row_get_snoc split: option.splits)
  qed
  moreover have "admin_inv ?w'" using inv r by (auto simp: admin_inv_def less_Suc_eq)
  ultimately show ?thesis by (auto simp: retains_def has_effective_admin_iff)
qed

lemma create_membership_retains:
  assumes "create_membership u d actor w = Inr w'" and inv: "admin_inv w" and u: "u < next_id w"
  shows "retains w w'"
proof -
  let ?w1 = "w\<lparr>next_id := Suc (next_id w)\<rparr>"
  have r: "retains w ?w1" by (rule same_roles_retains [OF same_roles_fresh inv])
  have "retains ?w1 w'"
  proof (rule more_memberships_retain [OF retains_inv [OF r]])
    show "put_memberships (memberships w @ [\<lparr>mem_id = next_id w, mem_user = u, mem_department = d,
        mem_status = ROLE_ACTIVE, mem_created_at = clock w, mem_created_by = actor, mem_revoked_at = None,
        mem_revoked_by = None, mem_suspended_at = None, mem_suspended_by = None\<rparr>]) ?w1 = Inr w'"
      using assms(1) by (simp add: create_membership_def fresh_id_def)
  qed (use inv u in \<open>auto simp: admin_inv_def less_Suc_eq\<close>)
  with r show ?thesis by (rule retains_trans)
qed

lemma provision_department_admin_retains:
  assumes "provision_department_admin A actor d email name raw p = Inr (x, p')" and inv: "admin_inv (core p)"
  shows "retains (core p) (core p')"
  using assms(1) unfolding provision_department_admin_def Let_def
proof (elim bind_resE, goal_cases)
  case (1 row y q)
  obtain u p1 where q: "q = (u, p1)" by (cases q)
  obtain w2 where w2: "create_membership u d actor (core p1) = Inr w2" "retains (core p) w2 \<Longrightarrow> retains (core p) (core p')"
    using 1(4) by (force simp: q bind_res_Inr intro!: retains_then)
  obtain r where r: "usr_id r = u" "u = next_id (core p)"
    "core p1 = (core p)\<lparr>users := users (core p) @ [r], next_id := Suc (Suc (next_id (core p)))\<rparr>"
    using create_setup_token_core [OF 1(3) [unfolded q] inv] by blast
  have r1: "retains (core p) (core p1)" unfolding r(3) by (rule new_user_retains [OF inv]) (simp add: r(1,2))
  have "retains (core p1) w2"
    by (rule create_membership_retains [OF w2(1) retains_inv [OF r1]]) (simp add: r(2,3))
  then have "retains (core p) w2" by (rule retains_trans [OF r1])
  then show ?case by (rule w2(2))
qed

lemma provision_station_admin_retains:
  assumes "provision_station_admin A actor s email name raw p = Inr (x, p')" and inv: "admin_inv (core p)"
  shows "retains (core p) (core p')"
  using assms(1) unfolding provision_station_admin_def
proof (elim bind_resE, goal_cases)
  case (1 station y q)
  obtain u p1 where q: "q = (u, p1)" by (cases q)
  obtain i w2 where w2: "create_station_admin u s actor (core p1) = Inr (i, w2)"
    "core p' = department_mutation actor (record_event ''authorization.station_admin_provisioned'' actor
       (Some (sta_department station)) (Some s) ''user'' (Some u) [] w2)"
    using 1(4) by (auto simp: q bind_res_Inr)
  obtain r where r: "usr_id r = u" "u = next_id (core p)"
    "core p1 = (core p)\<lparr>users := users (core p) @ [r], next_id := Suc (Suc (next_id (core p)))\<rparr>"
    using create_setup_token_core [OF 1(3) [unfolded q] inv] by blast
  have "retains (core p) (core p1)" unfolding r(3) by (rule new_user_retains [OF inv]) (simp add: r(1,2))
  then have "retains (core p) w2" by (rule retains_then_same [OF _ create_station_admin_same [OF w2(1)]])
  then show ?case unfolding w2(2) by (intro retains_then)
qed

lemma user_activity_retains:
  assumes inv: "admin_inv w" and ids: "map usr_id us = map usr_id (users w)"
    and active: "\<And>m. m \<in> set (memberships w) \<Longrightarrow> effective w m \<Longrightarrow> user_is_active (w\<lparr>users := us\<rparr>) (mem_user m)"
  shows "retains w (w\<lparr>users := us\<rparr>)"
proof -
  have "usr_id ` set us = usr_id ` set (users w)" by (metis ids list.set_map)
  then have "\<forall>u\<in>set us. usr_id u < next_id w" using inv by (metis (mono_tags, lifting) admin_inv_def imageE imageI)
  then have "admin_inv (w\<lparr>users := us\<rparr>)" using inv by (simp add: admin_inv_def)
  moreover have "has_effective_admin (w\<lparr>users := us\<rparr>) d" if "has_effective_admin w d" for d
    using that active by (auto simp: has_effective_admin_iff effective_def department_is_active_def)
  ultimately show ?thesis by (simp add: retains_def)
qed

lemma row_get_map:
  "(\<And>r. key (f r) = key r) \<Longrightarrow> row_get key i (map f rows) = map_option f (row_get key i rows)"
  by (induction rows) (auto simp: row_get_def)

lemma consume_setup_token_retains:
  assumes "consume_setup_token A raw pw p = (u, p')" and inv: "admin_inv (core p)"
  shows "retains (core p) (core p')"
proof -
  consider "core p' = core p" | v where "core p' = (core p)\<lparr>users := map (\<lambda>u. if usr_id u = v
      then u\<lparr>usr_is_active := True\<rparr> else u) (users (core p))\<rparr>"
    using assms(1) by (auto simp: consume_setup_token_def Let_def split: option.splits if_splits)
  then show ?thesis
  proof cases
    case 1
    then show ?thesis using inv by (simp add: same_roles_retains)
  next
    case 2
    show ?thesis unfolding 2
      by (rule user_activity_retains [OF inv])
         (auto simp: effective_def user_is_active_def row_get_map split: option.splits)
  qed
qed

subsection \<open>Permanent removal\<close>

lemma save_membership_rows:
  assumes "save_membership m w = Inr w'" and "mem_id m \<in> mem_id ` set (memberships w)"
  shows "w' = w\<lparr>memberships := row_put mem_id m (memberships w)\<rparr>"
    and "x \<in> set (memberships w') \<longleftrightarrow> x = m \<or> x \<in> set (memberships w) \<and> mem_id x \<noteq> mem_id m"
  using assms by (auto simp: save_membership_def put_memberships_def in_set_row_put split: if_splits)

lemma revoke_membership_row_effect:
  assumes inv: "admin_inv w" and m: "m \<in> set (memberships w)" "mem_department m = d"
    and r: "revoke_membership_row actor d m w = Inr w'"
  shows "retains w w' \<and> users w' = users w \<and> (\<exists>m'. mem_id m' = mem_id m \<and> mem_status m' = ROLE_REVOKED
     \<and> (\<forall>x. x \<in> set (memberships w') \<longleftrightarrow> x = m' \<or> x \<in> set (memberships w) \<and> mem_id x \<noteq> mem_id m))"
proof -
  from r obtain g where g: "prevent_last_effective_admin_removal w d m = Inr g"
    by (auto simp: revoke_membership_row_def bind_res_Inr)
  show ?thesis
  proof (cases "mem_status m = ROLE_REVOKED")
    case True
    with r g have "w' = w" by (simp add: revoke_membership_row_def)
    moreover have "x = m \<longleftrightarrow> x \<in> set (memberships w) \<and> mem_id x = mem_id m" for x
      using inv m(1) by (auto simp: admin_inv_def distinct_map inj_on_def)
    ultimately show ?thesis using True inv by (auto simp: same_roles_retains)
  next
    case False
    define m' where "m' = m\<lparr>mem_status := ROLE_REVOKED, mem_revoked_at := Some (clock w), mem_revoked_by := actor\<rparr>"
    have s: "save_membership m' w = Inr w'" using r g False by (simp add: revoke_membership_row_def m'_def)
    have id: "mem_id m' \<in> mem_id ` set (memberships w)" using m(1) by (simp add: m'_def)
    have "retains w w'"
      by (rule withdraw_retains [OF inv m(1) _ s]) (use g m(2) in \<open>simp_all add: m'_def\<close>)
    moreover have "users w' = users w" by (simp add: save_membership_rows(1) [OF s id])
    moreover have "\<forall>x. x \<in> set (memberships w') \<longleftrightarrow> x = m' \<or> x \<in> set (memberships w) \<and> mem_id x \<noteq> mem_id m"
      using save_membership_rows(2) [OF s id] by (simp add: m'_def)
    ultimately show ?thesis by (intro conjI exI [of _ m']) (simp_all add: m'_def)
  qed
qed

lemma revoke_memberships_effect:
  assumes "admin_inv w" and "\<forall>m\<in>set xs. m \<in> set (memberships w) \<and> mem_department m = d"
    and "distinct (map mem_id xs)" and "fold_res (revoke_membership_row actor d) xs w = Inr w'"
  shows "retains w w' \<and> users w' = users w \<and> (\<forall>x\<in>set (memberships w').
     if mem_id x \<in> mem_id ` set xs then mem_status x = ROLE_REVOKED else x \<in> set (memberships w))"
  using assms
proof (induction xs arbitrary: w)
  case Nil
  then show ?case by (simp add: same_roles_retains)
next
  case (Cons m xs)
  from Cons.prems(4) obtain w1 where w1: "revoke_membership_row actor d m w = Inr w1"
      "fold_res (revoke_membership_row actor d) xs w1 = Inr w'" by (auto simp: bind_res_Inr)
  have m: "m \<in> set (memberships w)" "mem_department m = d" using Cons.prems(2) by auto
  obtain m' where e: "retains w w1" "users w1 = users w" "mem_id m' = mem_id m" "mem_status m' = ROLE_REVOKED"
      "\<And>x. x \<in> set (memberships w1) \<longleftrightarrow> x = m' \<or> x \<in> set (memberships w) \<and> mem_id x \<noteq> mem_id m"
    using revoke_membership_row_effect [OF Cons.prems(1) m w1(1)] by blast
  have out: "mem_id m \<notin> mem_id ` set xs" using Cons.prems(3) by simp
  have rest: "\<forall>x\<in>set xs. x \<in> set (memberships w1) \<and> mem_department x = d"
  proof
    fix x assume "x \<in> set xs"
    moreover from this have "mem_id x \<noteq> mem_id m" using out by (metis imageI)
    ultimately show "x \<in> set (memberships w1) \<and> mem_department x = d" using Cons.prems(2) by (simp add: e(5))
  qed
  have ih: "retains w1 w' \<and> users w' = users w1 \<and> (\<forall>x\<in>set (memberships w').
     if mem_id x \<in> mem_id ` set xs then mem_status x = ROLE_REVOKED else x \<in> set (memberships w1))"
    using Cons.IH [OF retains_inv [OF e(1)] rest _ w1(2)] Cons.prems(3) by simp
  have "if mem_id x \<in> mem_id ` set (m # xs) then mem_status x = ROLE_REVOKED else x \<in> set (memberships w)"
    if "x \<in> set (memberships w')" for x
    using ih that e(3,4) by (auto simp: e(5) split: if_splits)
  with ih e(1,2) retains_trans show ?case by auto
qed

lemma revoke_assignments_same:
  "fold_res (revoke_assignment_row actor) xs w = Inr w' \<Longrightarrow> same_roles w w'"
proof (induction xs arbitrary: w)
  case (Cons a xs)
  then obtain w1 where w1: "revoke_assignment_row actor a w = Inr w1" "same_roles w1 w'" by (auto simp: bind_res_Inr)
  have "same_roles w w1"
    using w1(1) by (auto simp: revoke_assignment_row_def save_station_admin_def intro: same_roles_station_admins split: if_splits)
  with w1(2) show ?case by (rule same_roles_trans [rotated])
qed simp

lemma permanently_remove_retains:
  assumes "permanently_remove_administrator actor user d hex p = Inr p'" and inv: "admin_inv (core p)"
  shows "retains (core p) (core p')"
  using assms(1) unfolding permanently_remove_administrator_def Let_def
proof (elim bind_resE, goal_cases)
  case (1 row x1 x2 x3 x4 w1 w2)
  let ?w = "core p"
  let ?ms = "filter (\<lambda>m. mem_user m = user \<and> mem_department m = d) (memberships ?w)"
  have ms: "\<forall>m\<in>set ?ms. m \<in> set (memberships ?w) \<and> mem_department m = d" by simp
  have dist: "distinct (map mem_id ?ms)" using inv by (simp add: admin_inv_def distinct_map inj_on_def)
  have e: "retains ?w w1" "\<forall>x\<in>set (memberships w1).
      if mem_id x \<in> mem_id ` set ?ms then mem_status x = ROLE_REVOKED else x \<in> set (memberships ?w)"
    using revoke_memberships_effect [OF inv ms dist 1(6)] by blast+
  define w3 where "w3 = snd (revoke_temporary_access_for_user user actor ''authority_revoked'' w2)"
  have s: "same_roles w1 w3"
    unfolding w3_def by (rule same_roles_then(3) [OF revoke_assignments_same [OF 1(7)]])
  have r3: "retains ?w w3" by (rule retains_then_same [OF e(1) s])
  have none: "mem_user m \<noteq> user" if "m \<in> set (memberships w3)" "effective w3 m" for m
  proof
    assume u: "mem_user m = user"
    have m: "m \<in> set (memberships w1)" "mem_status m = ROLE_ACTIVE" using that s by (auto simp: same_roles_def effective_def)
    with e(2) have "m \<in> set (memberships ?w)" "m \<notin> set ?ms" by (auto split: if_splits)
    with u m(2) 1(5) show False by (auto simp: require_Inr)
  qed
  let ?us = "users (core (permanently_deactivate_and_anonymize_user user hex (p\<lparr>core := w3\<rparr>)))"
  have us: "core (permanently_deactivate_and_anonymize_user user hex (p\<lparr>core := w3\<rparr>)) = w3\<lparr>users := ?us\<rparr>"
    by (simp add: permanently_deactivate_and_anonymize_user_def Let_def)
  have "retains w3 (w3\<lparr>users := ?us\<rparr>)"
  proof (rule user_activity_retains [OF retains_inv [OF r3]], goal_cases)
    case 1
    show ?case by (simp add: permanently_deactivate_and_anonymize_user_def Let_def comp_def cong: map_cong)
  next
    case (2 m)
    then show ?case using none [OF 2]
      by (auto simp: effective_def user_is_active_def permanently_deactivate_and_anonymize_user_def Let_def row_get_map
          row_get_key split: option.splits)
  qed
  then have "retains ?w (w3\<lparr>users := ?us\<rparr>)" by (rule retains_trans [OF r3])
  with us 1(8) show ?case by (auto simp: w3_def intro!: retains_then)
qed

subsection \<open>Tenant administration as a transition system\<close>

text \<open>The services a tenant's administrators reach, and the activation of a provisioned account.\<close>

inductive tenant_step :: "auth_env \<Rightarrow> portal \<Rightarrow> portal \<Rightarrow> bool" for A :: auth_env where
  suspend: "suspend_department_admin actor i (core p) = Inr w \<Longrightarrow> tenant_step A p (p\<lparr>core := w\<rparr>)"
| reinstate: "reinstate_department_admin actor i (core p) = Inr w \<Longrightarrow> tenant_step A p (p\<lparr>core := w\<rparr>)"
| revoke: "revoke_department_admin actor i (core p) = Inr w \<Longrightarrow> tenant_step A p (p\<lparr>core := w\<rparr>)"
| suspend_station: "suspend_station_admin actor i (core p) = Inr w \<Longrightarrow> tenant_step A p (p\<lparr>core := w\<rparr>)"
| reinstate_station: "reinstate_station_admin actor i (core p) = Inr w \<Longrightarrow> tenant_step A p (p\<lparr>core := w\<rparr>)"
| revoke_station: "revoke_station_admin actor i (core p) = Inr w \<Longrightarrow> tenant_step A p (p\<lparr>core := w\<rparr>)"
| grant_station: "grant_station_admin actor u s (core p) = Inr (i, w) \<Longrightarrow> tenant_step A p (p\<lparr>core := w\<rparr>)"
| lease: "set_department_tablet_lease actor d days (core p) = Inr w \<Longrightarrow> tenant_step A p (p\<lparr>core := w\<rparr>)"
| asset_numbers: "set_department_tablet_asset_number_policy actor d auto prefix width (core p) = Inr w
    \<Longrightarrow> tenant_step A p (p\<lparr>core := w\<rparr>)"
| locale_time: "set_department_locale_time_policy actor d l tz (core p) = Inr w \<Longrightarrow> tenant_step A p (p\<lparr>core := w\<rparr>)"
| provision: "provision_department_admin A actor d email name raw p = Inr (x, p') \<Longrightarrow> tenant_step A p p'"
| provision_station: "provision_station_admin A actor s email name raw p = Inr (x, p') \<Longrightarrow> tenant_step A p p'"
| remove: "permanently_remove_administrator actor user d hex p = Inr p' \<Longrightarrow> tenant_step A p p'"
| activate: "consume_setup_token A raw pw p = (u, p') \<Longrightarrow> tenant_step A p p'"
| time: "clock (core p) \<le> now \<Longrightarrow> tenant_step A p (at_time now p)"

lemma tenant_step_retains:
  assumes "tenant_step A p p'" and "admin_inv (core p)"
  shows "retains (core p) (core p')"
  using assms
proof (cases rule: tenant_step.cases)
  case (time now)
  then show ?thesis
    using assms(2) by (auto simp: at_time_def intro!: same_roles_retains simp: same_roles_def department_is_active_def)
qed (auto intro: suspend_retains reinstate_retains revoke_retains provision_department_admin_retains
    provision_station_admin_retains permanently_remove_retains consume_setup_token_retains
    same_roles_retains station_admin_change_same grant_station_admin_same lease_same asset_policy_same locale_policy_same
    simp: suspend_station_admin_def reinstate_station_admin_def revoke_station_admin_def)

text \<open>
  C15: Tenant administration never locks a department out: along every sequence of administrator
  suspensions, reinstatements, revocations, permanent removals, provisioning, grants and policy
  changes, a department that has an effective administrator keeps one.
\<close>

theorem effective_admin_retained:
  assumes "(tenant_step A)\<^sup>*\<^sup>* p p'" and "admin_inv (core p)" and "has_effective_admin (core p) d"
  shows "has_effective_admin (core p') d"
proof -
  have "retains (core p) (core p')"
    using assms(1)
  proof (induction rule: rtranclp_induct)
    case base
    then show ?case using assms(2) by (simp add: same_roles_retains)
  next
    case (step q r)
    then show ?case using tenant_step_retains retains_inv retains_trans by blast
  qed
  with assms(3) show ?thesis by (simp add: retains_def)
qed

definition demo_tenant :: portal where
  "demo_tenant = demo_portal\<lparr>core := (core demo_portal)\<lparr>
     users := users (core demo_portal) @ [\<lparr>usr_id = 8, usr_email = ''b@x.de'', usr_display_name = ''B'',
       usr_is_active = True, usr_is_staff = False, usr_mfa_enabled = True, usr_created_at = 0\<rparr>],
     departments := [\<lparr>dep_id = 1, dep_name = ''D'', dep_short_code = ''D'', dep_status = DEP_ACTIVE,
       dep_tablet_lease_days = 7, dep_asset_number_auto_enabled = False, dep_asset_number_prefix = [],
       dep_asset_number_width = 4, dep_asset_number_sequence = 0, dep_locale = ''de-DE'', dep_timezone = ''Europe/Berlin'',
       dep_created_at = 0, dep_created_by = Some 1\<rparr>],
     memberships := map (\<lambda>i. \<lparr>mem_id = i, mem_user = i + 4, mem_department = 1, mem_status = ROLE_ACTIVE, mem_created_at = 0,
       mem_created_by = Some 1, mem_revoked_at = None, mem_revoked_by = None, mem_suspended_at = None,
       mem_suspended_by = None\<rparr>) [3, 4]\<rparr>\<rparr>"

theorem effective_admin_retained_witness:
  "\<exists>p'. tenant_step demo_auth demo_tenant p' \<and> has_effective_admin (core p') 1
     \<and> isl (suspend_department_admin (Some 8) 4 (core p')) \<and> map mem_status (memberships (core p')) = [ROLE_REVOKED, ROLE_ACTIVE]"
proof -
  have "(case revoke_department_admin (Some 7) 3 (core demo_tenant) of Inl _ \<Rightarrow> False
      | Inr w \<Rightarrow> isl (suspend_department_admin (Some 8) 4 w) \<and> map mem_status (memberships w) = [ROLE_REVOKED, ROLE_ACTIVE])"
    by code_simp
  then obtain w where w: "revoke_department_admin (Some 7) 3 (core demo_tenant) = Inr w"
      "isl (suspend_department_admin (Some 8) 4 w)" "map mem_status (memberships w) = [ROLE_REVOKED, ROLE_ACTIVE]"
    by (auto split: sum.splits)
  have step: "tenant_step demo_auth demo_tenant (demo_tenant\<lparr>core := w\<rparr>)" by (rule tenant_step.revoke [OF w(1)])
  have "admin_inv (core demo_tenant)"
    by (simp add: admin_inv_def demo_tenant_def demo_portal_def empty_world_def)
  moreover have "has_effective_admin (core demo_tenant) 1"
    unfolding has_effective_admin_def by code_simp
  moreover have "(tenant_step demo_auth)\<^sup>*\<^sup>* demo_tenant (demo_tenant\<lparr>core := w\<rparr>)" using step by (rule r_into_rtranclp)
  ultimately have "has_effective_admin (core (demo_tenant\<lparr>core := w\<rparr>)) 1"
    using effective_admin_retained by blast
  with step w(2,3) show ?thesis by (intro exI [of _ "demo_tenant\<lparr>core := w\<rparr>"]) simp
qed

text \<open>
  The operator stays out of tenant administration: a system administrator can neither suspend,
  reinstate, revoke nor remove a tenant's administrators, and can provision a department administrator only
  for an active department that has no effective one.
\<close>

theorem operator_bootstraps_only:
  assumes "is_system_admin (core p) actor"
  shows "isl (suspend_department_admin actor i (core p)) \<and> isl (reinstate_department_admin actor i (core p))
     \<and> isl (revoke_department_admin actor i (core p)) \<and> isl (suspend_station_admin actor i (core p))
     \<and> isl (revoke_station_admin actor i (core p)) \<and> isl (reinstate_station_admin actor i (core p))
     \<and> isl (permanently_remove_administrator actor user d hex p)
     \<and> (\<not> isl (provision_department_admin A actor d email name raw p)
          \<longrightarrow> department_is_active (core p) d \<and> \<not> has_effective_admin (core p) d)"
proof -
  have t: "isl (require_tenant_lifecycle_actor (core p) actor e)" for e
    using assms by (simp add: require_tenant_lifecycle_actor_def)
  have s: "isl (change_station_admin guard change action actor i (core p))" for guard change action
    unfolding change_station_admin_def by (intro isl_cont isl_bind t)
  have p: "department_is_active (core p) d \<and> \<not> has_effective_admin (core p) d"
    if "\<not> isl (provision_department_admin A actor d email name raw p)"
  proof -
    from that obtain x where "provision_department_admin A actor d email name raw p = Inr x"
      by (cases "provision_department_admin A actor d email name raw p") auto
    then show ?thesis
      using assms
      by (auto simp: provision_department_admin_def Let_def bind_res_Inr require_Inr fetch_department_def of_option_Inr
          department_is_active_def has_effective_admin_def)
  qed
  have r: "isl (permanently_remove_administrator actor user d hex p)"
    unfolding permanently_remove_administrator_def Let_def by (intro isl_cont isl_bind t)
  show ?thesis
    using s p r unfolding suspend_department_admin_def reinstate_department_admin_def revoke_department_admin_def
      suspend_station_admin_def revoke_station_admin_def reinstate_station_admin_def
    by (intro conjI isl_cont isl_bind t) simp_all
qed

theorem operator_bootstraps_only_witness:
  "isl (revoke_department_admin (Some 7) 4 (core (demo_tenant\<lparr>core := (core demo_tenant)\<lparr>system_roles :=
     [\<lparr>sr_id = 20, sr_user = 7, sr_active = True\<rparr>]\<rparr>\<rparr>)))"
proof -
  let ?p = "demo_tenant\<lparr>core := (core demo_tenant)\<lparr>system_roles := [\<lparr>sr_id = 20, sr_user = 7, sr_active = True\<rparr>]\<rparr>\<rparr>"
  have "is_system_admin (core ?p) (Some 7)" by code_simp
  from operator_bootstraps_only [OF this, of 4] show ?thesis by blast
qed

end
