(* ===== verification/Fleet.thy ===== *)
theory Fleet
  imports Admin_Lifecycle Document_Artifacts
begin

text \<open>
  Tablets, their application installations and their vehicle assignments: the rows of
  apps/tablets/models.py and apps/assignments/models.py with their constraints, and the parts of
  apps/tablets/services.py every operation uses.  The state wraps the database of the other
  components (\<open>base\<close>).  Keyed digests, HPKE and the random values of \<open>secrets\<close> are parameters or
  arguments.
\<close>

subsection \<open>Rows\<close>

record vehicle_row =
  veh_id :: nat
  veh_department :: nat
  veh_station :: nat
  veh_display_name :: string
  veh_active :: bool

datatype tablet_status = TAB_INACTIVE | TAB_ACTIVE | TAB_LOST | TAB_RETIRED

record tablet_row =
  tab_id :: nat
  tab_department :: nat
  tab_asset_number :: string
  tab_display_name :: string
  tab_status :: tablet_status
  tab_active :: bool
  tab_created_at :: timestamp
  tab_created_by :: "nat option"

datatype installation_status = INS_ACTIVE | INS_STALE | INS_REVOKED | INS_REPLACED

record installation_row =
  ins_id :: nat
  ins_tablet :: nat
  ins_installation_uuid :: nat
  ins_credential_hash :: string
  ins_status :: installation_status
  ins_app_version :: string
  ins_adopted_app_version :: string
  ins_app_build :: "int option"
  ins_app_version_seen_at :: timestamp
  ins_hpke_public_key :: string
  ins_hpke_ciphersuite :: string
  ins_hpke_key_fingerprint :: string
  ins_hpke_key_verified_at :: timestamp
  ins_adopted_at :: timestamp
  ins_adopted_by :: "nat option"
  ins_last_successful_check_in_at :: "timestamp option"
  ins_authorization_valid_until :: timestamp
  ins_stale_at :: "timestamp option"
  ins_revoked_at :: "timestamp option"
  ins_revocation_reason :: string

record invitation_row =
  inv_id :: nat
  inv_tablet :: nat
  inv_token_hash :: string
  inv_expires_at :: timestamp
  inv_created_at :: timestamp
  inv_created_by :: "nat option"
  inv_used_at :: "timestamp option"
  inv_revoked_at :: "timestamp option"
  inv_failed_attempt_count :: nat

record adoption_request_row =
  req_id :: nat
  req_invitation :: nat
  req_installation_uuid :: nat
  req_app_version :: string
  req_app_build :: "int option"
  req_hpke_public_key :: string
  req_hpke_public_key_fingerprint :: string
  req_hpke_ciphersuite :: string
  req_expected_hmac_digest :: string
  req_canonical_context_hash :: string
  req_encrypted_challenge :: string
  req_expires_at :: timestamp
  req_completed_at :: "timestamp option"
  req_completion_replay_valid_until :: "timestamp option"
  req_completion_replay_invalidated_at :: "timestamp option"
  req_failed_attempt_count :: nat

record vehicle_assignment_row =
  tva_id :: nat
  tva_tablet :: nat
  tva_vehicle :: nat
  tva_valid_from :: timestamp
  tva_valid_until :: "timestamp option"
  tva_created_by :: "nat option"
  tva_created_at :: timestamp
  tva_ended_by :: "nat option"
  tva_ended_at :: "timestamp option"
  tva_end_reason :: string

datatype manifest_status = MAN_PENDING | MAN_RUNNING | MAN_READY | MAN_FAILED | MAN_OBSOLETE

record signed_manifest_row =
  sm_id :: nat
  sm_app_installation :: nat
  sm_state_hash :: string
  sm_status :: manifest_status
  sm_completed_at :: "timestamp option"
  sm_error_message :: string

record fleet =
  base :: world
  vehicles :: "vehicle_row list"
  tablets :: "tablet_row list"
  installations :: "installation_row list"
  invitations :: "invitation_row list"
  adoption_requests :: "adoption_request_row list"
  vehicle_assignments :: "vehicle_assignment_row list"
  signed_manifests :: "signed_manifest_row list"

text \<open>
  \<open>secret_digest\<close> is the HMAC with the deployment secret, \<open>hpke_key_error\<close> the refusal of
  \<open>parse_p256_public_key\<close>, \<open>hpke_seal\<close> the sealed challenge or its refusal, \<open>hmac_digest\<close> HMAC-SHA-256.
\<close>

record tablet_env =
  secret_digest :: "string \<Rightarrow> string"
  hpke_key_error :: "string \<Rightarrow> string option"
  public_key_fingerprint :: "string \<Rightarrow> string"
  hpke_seal :: "string \<Rightarrow> string \<Rightarrow> string \<Rightarrow> string + string"
  hmac_digest :: "string \<Rightarrow> string \<Rightarrow> string"
  context_hash :: "string \<Rightarrow> string"

definition AUTO_RENEW_THRESHOLD :: int where "AUTO_RENEW_THRESHOLD = 48 * 3600 * usec_per_second"
definition INVITATION_DURATION :: int where "INVITATION_DURATION = 15 * 60 * usec_per_second"
definition CHALLENGE_DURATION :: int where "CHALLENGE_DURATION = 5 * 60 * usec_per_second"
definition MAX_FAILED_ATTEMPTS :: nat where "MAX_FAILED_ATTEMPTS = 5"
definition COMPLETION_REPLAY_DURATION :: int where "COMPLETION_REPLAY_DURATION = 10 * 60 * usec_per_second"
definition MAX_ASSET_NUMBER_ALLOCATION_ATTEMPTS :: nat where "MAX_ASSET_NUMBER_ALLOCATION_ATTEMPTS = 1000"
definition ADOPTION_PROTOCOL :: string where "ADOPTION_PROTOCOL = ''tablet-adoption-v1''"

fun ASSET_TRANSITIONS :: "tablet_status \<Rightarrow> tablet_status list" where
  "ASSET_TRANSITIONS TAB_INACTIVE = [TAB_ACTIVE, TAB_LOST, TAB_RETIRED]"
| "ASSET_TRANSITIONS TAB_ACTIVE = [TAB_INACTIVE, TAB_LOST, TAB_RETIRED]"
| "ASSET_TRANSITIONS TAB_LOST = [TAB_INACTIVE]"
| "ASSET_TRANSITIONS TAB_RETIRED = []"

subsection \<open>Constraints and statements\<close>

definition current_status :: "installation_status \<Rightarrow> bool" where
  "current_status s = (s = INS_ACTIVE \<or> s = INS_STALE)"

definition installation_constraints :: "installation_row list \<Rightarrow> bool" where
  "installation_constraints rows =
     (distinct (map ins_installation_uuid rows)
      \<and> distinct (map ins_tablet (filter (\<lambda>i. current_status (ins_status i)) rows)))"

definition tablet_constraints :: "tablet_row list \<Rightarrow> bool" where
  "tablet_constraints rows =
     (distinct (map (\<lambda>t. (tab_department t, tab_display_name t)) rows)
      \<and> distinct (map (\<lambda>t. (tab_department t, tab_asset_number t)) (filter (\<lambda>t. tab_asset_number t \<noteq> []) rows)))"

definition vehicle_assignment_constraints :: "vehicle_assignment_row list \<Rightarrow> bool" where
  "vehicle_assignment_constraints rows =
     (distinct (map tva_tablet (filter (\<lambda>a. tva_valid_until a = None \<and> tva_ended_at a = None) rows))
      \<and> list_all (\<lambda>a. case tva_valid_until a of None \<Rightarrow> True | Some u \<Rightarrow> u > tva_valid_from a) rows)"

definition put_installations :: "installation_row list \<Rightarrow> fleet \<Rightarrow> fleet res" where
  "put_installations rows f =
     (if installation_constraints rows then Inr (f\<lparr>installations := rows\<rparr>)
      else Inl (IntegrityError ''app_installation''))"

definition put_tablets :: "tablet_row list \<Rightarrow> fleet \<Rightarrow> fleet res" where
  "put_tablets rows f =
     (if tablet_constraints rows then Inr (f\<lparr>tablets := rows\<rparr>) else Inl (IntegrityError ''tablet''))"

definition put_vehicle_assignments :: "vehicle_assignment_row list \<Rightarrow> fleet \<Rightarrow> fleet res" where
  "put_vehicle_assignments rows f =
     (if vehicle_assignment_constraints rows then Inr (f\<lparr>vehicle_assignments := rows\<rparr>)
      else Inl (IntegrityError ''tablet_vehicle_assignment''))"

text \<open>\<open>row.save(update_fields=...)\<close>: the listed fields of the stored row are overwritten.\<close>

definition update_installation :: "nat \<Rightarrow> (installation_row \<Rightarrow> installation_row) \<Rightarrow> fleet \<Rightarrow> fleet res" where
  "update_installation i g f =
     put_installations (map (\<lambda>r. if ins_id r = i then g r else r) (installations f)) f"

definition update_tablet :: "nat \<Rightarrow> (tablet_row \<Rightarrow> tablet_row) \<Rightarrow> fleet \<Rightarrow> fleet res" where
  "update_tablet i g f = put_tablets (map (\<lambda>r. if tab_id r = i then g r else r) (tablets f)) f"

definition update_invitation :: "nat \<Rightarrow> (invitation_row \<Rightarrow> invitation_row) \<Rightarrow> fleet \<Rightarrow> fleet" where
  "update_invitation i g f = f\<lparr>invitations := map (\<lambda>r. if inv_id r = i then g r else r) (invitations f)\<rparr>"

definition update_request :: "nat \<Rightarrow> (adoption_request_row \<Rightarrow> adoption_request_row) \<Rightarrow> fleet \<Rightarrow> fleet" where
  "update_request i g f =
     f\<lparr>adoption_requests := map (\<lambda>r. if req_id r = i then g r else r) (adoption_requests f)\<rparr>"

definition fetch_tablet :: "nat \<Rightarrow> fleet \<Rightarrow> tablet_row res" where
  "fetch_tablet i f = of_option (DoesNotExist ''Tablet'') (row_get tab_id i (tablets f))"

definition fetch_installation :: "nat \<Rightarrow> fleet \<Rightarrow> installation_row res" where
  "fetch_installation i f = of_option (DoesNotExist ''AppInstallation'') (row_get ins_id i (installations f))"

definition fetch_invitation :: "nat \<Rightarrow> fleet \<Rightarrow> invitation_row res" where
  "fetch_invitation i f = of_option (DoesNotExist ''AdoptionInvitation'') (row_get inv_id i (invitations f))"

definition fetch_request :: "nat \<Rightarrow> fleet \<Rightarrow> adoption_request_row res" where
  "fetch_request i f = of_option (DoesNotExist ''AdoptionRequest'') (row_get req_id i (adoption_requests f))"

definition fetch_vehicle :: "nat \<Rightarrow> fleet \<Rightarrow> vehicle_row res" where
  "fetch_vehicle i f = of_option (DoesNotExist ''Vehicle'') (row_get veh_id i (vehicles f))"

definition on_base :: "(world \<Rightarrow> world) \<Rightarrow> fleet \<Rightarrow> fleet" where
  "on_base g f = f\<lparr>base := g (base f)\<rparr>"

definition fresh_fleet_id :: "fleet \<Rightarrow> nat \<times> fleet" where
  "fresh_fleet_id f = (let (i, w) = fresh_id (base f) in (i, f\<lparr>base := w\<rparr>))"

definition fleet_event ::
  "string \<Rightarrow> nat option \<Rightarrow> nat option \<Rightarrow> string \<Rightarrow> nat \<Rightarrow> (string \<times> json) list \<Rightarrow> fleet \<Rightarrow> fleet" where
  "fleet_event action actor department target_type target metadata =
     on_base (record_event action actor department None target_type (Some target) metadata)"

text \<open>apps/publications/manifests.py, \<open>revoke_dataset_key_grants\<close>.\<close>

definition revoke_dataset_key_grants :: "nat \<Rightarrow> world \<Rightarrow> world" where
  "revoke_dataset_key_grants installation w =
     (let g = (\<lambda>k. if kg_app_installation k = installation \<and> kg_status k \<noteq> GRANT_REVOKED
                    then revoke_grant (clock w) k else k)
      in w\<lparr>generation_key_grants := map g (generation_key_grants w),
            dataset_key_grants := map g (dataset_key_grants w)\<rparr>)"

subsection \<open>Operational prerequisites\<close>

definition station_is_active :: "world \<Rightarrow> nat \<Rightarrow> bool" where
  "station_is_active w s = (case row_get sta_id s (stations w) of None \<Rightarrow> False | Some r \<Rightarrow> sta_active r)"

definition has_current_operational_assignment :: "tablet_row \<Rightarrow> timestamp \<Rightarrow> fleet \<Rightarrow> bool" where
  "has_current_operational_assignment tablet now f =
     exists_row (\<lambda>a. tva_tablet a = tab_id tablet \<and> tva_valid_from a \<le> now \<and> tva_ended_at a = None
        \<and> (case tva_valid_until a of None \<Rightarrow> True | Some u \<Rightarrow> u > now)
        \<and> (case row_get veh_id (tva_vehicle a) (vehicles f) of
             None \<Rightarrow> False
           | Some v \<Rightarrow> veh_active v \<and> station_is_active (base f) (veh_station v)
                \<and> veh_department v = tab_department tablet)) (vehicle_assignments f)"

definition inactive :: "string \<Rightarrow> exn" where
  "inactive message = TabletError message ''installation_inactive''"

definition require_department_of_tablet :: "tablet_row \<Rightarrow> fleet \<Rightarrow> unit res" where
  "require_department_of_tablet tablet f =
     require (department_is_active (base f) (tab_department tablet) \<and> tab_active tablet)
       (inactive ''Tablet department must be active.'')"

definition require_assignment :: "tablet_row \<Rightarrow> fleet \<Rightarrow> unit res" where
  "require_assignment tablet f =
     require (has_current_operational_assignment tablet (clock (base f)) f)
       (inactive ''Tablet requires a current active vehicle assignment.'')"

definition require_operational_tablet :: "tablet_row \<Rightarrow> fleet \<Rightarrow> unit res" where
  "require_operational_tablet tablet f =
     bind_res (require_department_of_tablet tablet f) (\<lambda>_.
     bind_res (require (tab_status tablet = TAB_INACTIVE \<or> tab_status tablet = TAB_ACTIVE)
       (inactive ''Tablet cannot be adopted.'')) (\<lambda>_.
     require_assignment tablet f))"

definition require_active_operational_tablet :: "tablet_row \<Rightarrow> fleet \<Rightarrow> unit res" where
  "require_active_operational_tablet tablet f =
     bind_res (require_department_of_tablet tablet f) (\<lambda>_.
     bind_res (require (tab_status tablet = TAB_ACTIVE)
       (inactive ''Tablet is not active for operational service.'')) (\<lambda>_.
     require_assignment tablet f))"

definition require_inactive_control_tablet :: "tablet_row \<Rightarrow> fleet \<Rightarrow> unit res" where
  "require_inactive_control_tablet tablet f =
     bind_res (require_department_of_tablet tablet f) (\<lambda>_.
     require (tab_status tablet = TAB_INACTIVE)
       (inactive ''Tablet is not available for control-plane synchronization.''))"

subsection \<open>Telemetry and leases\<close>

text \<open>What the application reported: its version, its build and whether a build was supplied.\<close>

record telemetry =
  tel_version :: "string option"
  tel_build :: "int option"
  tel_build_supplied :: bool

definition update_app_telemetry :: "telemetry \<Rightarrow> timestamp \<Rightarrow> installation_row \<Rightarrow> bool \<times> installation_row" where
  "update_app_telemetry t now i =
     (case tel_version t of
        None \<Rightarrow> (False, i)
      | Some v \<Rightarrow>
          if v = ins_app_version i
          then (True, i\<lparr>ins_app_version_seen_at := now,
                  ins_app_build := (if tel_build_supplied t then tel_build t else ins_app_build i)\<rparr>)
          else (True, i\<lparr>ins_app_version := v, ins_app_build := (if tel_build_supplied t then tel_build t else None),
                  ins_app_version_seen_at := now\<rparr>))"

definition telemetry_fields :: "telemetry \<Rightarrow> timestamp \<Rightarrow> installation_row \<Rightarrow> installation_row" where
  "telemetry_fields t now i = snd (update_app_telemetry t now i)"

definition lease_target :: "department_row \<Rightarrow> timestamp \<Rightarrow> timestamp" where
  "lease_target department now = now + dep_tablet_lease_days department * usec_per_day"

definition eligible_for_lease_renewal :: "installation_row \<Rightarrow> tablet_row \<Rightarrow> fleet \<Rightarrow> timestamp \<Rightarrow> bool" where
  "eligible_for_lease_renewal i tablet f now =
     (ins_status i = INS_ACTIVE \<and> ins_authorization_valid_until i > now \<and> tab_active tablet
      \<and> tab_status tablet = TAB_ACTIVE \<and> department_is_active (base f) (tab_department tablet))"

definition renew_lease_if_due ::
  "installation_row \<Rightarrow> tablet_row \<Rightarrow> department_row \<Rightarrow> fleet \<Rightarrow> timestamp \<Rightarrow> bool" where
  "renew_lease_if_due i tablet department f now =
     (eligible_for_lease_renewal i tablet f now
      \<and> \<not> ins_authorization_valid_until i - now > AUTO_RENEW_THRESHOLD)"

definition is_current_installation :: "installation_row \<Rightarrow> fleet \<Rightarrow> bool" where
  "is_current_installation i f =
     (\<not> exists_row (\<lambda>r. ins_tablet r = ins_tablet i \<and> current_status (ins_status r) \<and> ins_id r \<noteq> ins_id i)
        (installations f))"

definition version_blocked :: "app_version option \<Rightarrow> string \<Rightarrow> bool res" where
  "version_blocked minimum version =
     (case minimum of None \<Rightarrow> Inr False
      | Some m \<Rightarrow> bind_res (parse_app_version version) (\<lambda>v. Inr (version_less v m)))"

end
