(* ===== verification/Tablet_Services.thy ===== *)
theory Tablet_Services
  imports Fleet
begin

text \<open>
  The services of apps/tablets/services.py: registration with asset-number allocation, adoption of an
  installation by challenge and response, check-in and lease renewal, staleness, and the lifecycle of
  the physical asset; and apps/assignments/services.py for the vehicle a tablet serves.  A service that
  raises leaves the state unchanged.
\<close>

subsection \<open>Registration\<close>

text \<open>\<open>except IntegrityError as error: raise e from error\<close>.\<close>

definition catch_integrity :: "exn \<Rightarrow> 'a res \<Rightarrow> 'a res" where
  "catch_integrity e m = (case m of Inr r \<Rightarrow> Inr r | Inl (IntegrityError _) \<Rightarrow> Inl e | Inl x \<Rightarrow> Inl x)"

lemma catch_integrity_Inr [res_simps, simp]: "catch_integrity e m = Inr r \<longleftrightarrow> m = Inr r"
  by (auto simp: catch_integrity_def split: sum.splits exn.splits)

lemma catch_integrity_ok [simp]: "catch_integrity e (Inr r) = Inr r"
  by simp

definition formatted_asset_number :: "department_row \<Rightarrow> int \<Rightarrow> string res" where
  "formatted_asset_number department sequence =
     (let asset_number = dep_asset_number_prefix department
            @ zfill (nat (dep_asset_number_width department)) (dec_int sequence)
      in if length asset_number > ASSET_NUMBER_MAX_LENGTH
         then Inl (TabletError ''The next generated asset number does not fit the Tablet asset-number length.''
                ''asset_number_exhausted'')
         else Inr asset_number)"

definition tablet_asset_number_preview :: "department_row \<Rightarrow> string res" where
  "tablet_asset_number_preview department =
     formatted_asset_number department (dep_asset_number_sequence department + 1)"

definition next_generated_asset_number :: "nat \<Rightarrow> fleet \<Rightarrow> (string \<times> fleet) res" where
  "next_generated_asset_number d f =
     bind_res (fetch_department d (base f)) (\<lambda>department.
     let sequence = dep_asset_number_sequence department + 1 in
     bind_res (formatted_asset_number department sequence) (\<lambda>asset_number.
     Inr (asset_number, on_base (save_department (department\<lparr>dep_asset_number_sequence := sequence\<rparr>)) f)))"

definition new_tablet :: "nat \<Rightarrow> nat \<Rightarrow> string \<Rightarrow> string \<Rightarrow> nat option \<Rightarrow> timestamp \<Rightarrow> tablet_row" where
  "new_tablet i d display_name asset_number actor now =
     \<lparr>tab_id = i, tab_department = d, tab_asset_number = asset_number, tab_display_name = display_name,
      tab_status = TAB_INACTIVE, tab_active = True, tab_created_at = now, tab_created_by = actor\<rparr>"

definition insert_tablet :: "nat \<Rightarrow> string \<Rightarrow> string \<Rightarrow> nat option \<Rightarrow> fleet \<Rightarrow> (nat \<times> fleet) res" where
  "insert_tablet d display_name asset_number actor f =
     (let (i, f1) = fresh_fleet_id f in
      bind_res (put_tablets (tablets f1 @ [new_tablet i d display_name asset_number actor (clock (base f))]) f1)
        (\<lambda>f2. Inr (i, f2)))"

definition asset_number_taken :: "nat \<Rightarrow> string \<Rightarrow> fleet \<Rightarrow> bool" where
  "asset_number_taken d asset_number f =
     exists_row (\<lambda>t. tab_department t = d \<and> tab_asset_number t = asset_number) (tablets f)"

text \<open>
  The bounded allocation loop.  A collision on the number is checked before the insert, so the
  insert fails on the display name only.
\<close>

fun create_generated_tablet :: "nat \<Rightarrow> nat option \<Rightarrow> nat \<Rightarrow> string \<Rightarrow> fleet \<Rightarrow> (nat \<times> fleet) res" where
  "create_generated_tablet 0 actor d display_name f =
     Inl (TabletError ''Unable to allocate a unique Tablet asset number after 1000 attempts.''
       ''asset_number_allocation_exhausted'')"
| "create_generated_tablet (Suc attempts) actor d display_name f =
     bind_res (next_generated_asset_number d f) (\<lambda>(asset_number, f1).
     if asset_number_taken d asset_number f1 then create_generated_tablet attempts actor d display_name f1
     else catch_integrity
       (TabletError ''A tablet with this display name already exists in the department.'' ''invalid_request'')
       (insert_tablet d display_name asset_number actor f1))"

definition create_tablet :: "nat option \<Rightarrow> nat \<Rightarrow> string \<Rightarrow> string \<Rightarrow> fleet \<Rightarrow> (nat \<times> fleet) res" where
  "create_tablet actor d display_name0 asset_number0 f =
     bind_res (fetch_department d (base f)) (\<lambda>department.
     bind_res (require_department_admin (base f) actor (Some d)) (\<lambda>_.
     bind_res (require (strip display_name0 \<noteq> [])
       (TabletError ''Tablet display name is required.'' ''invalid_request'')) (\<lambda>_.
     let display_name = strip display_name0; asset_number = strip asset_number0 in
     bind_res (require (\<not> exists_row (\<lambda>t. tab_department t = d \<and> tab_display_name t = display_name) (tablets f))
       (TabletError ''A tablet with this display name already exists in the department.'' ''invalid_request'')) (\<lambda>_.
     bind_res
       (if dep_asset_number_auto_enabled department
        then create_generated_tablet MAX_ASSET_NUMBER_ALLOCATION_ATTEMPTS actor d display_name f
        else
          bind_res (require (\<not> (asset_number \<noteq> [] \<and> asset_number_taken d asset_number f))
            (TabletError ''A tablet with this asset number already exists in the department.'' ''invalid_request'')) (\<lambda>_.
          catch_integrity
            (TabletError ''A tablet with this display name or asset number already exists in the department.''
               ''invalid_request'')
            (insert_tablet d display_name asset_number actor f))) (\<lambda>(i, f1).
     Inr (i, on_base (department_mutation actor) (fleet_event ''tablet.created'' actor (Some d) ''tablet'' i [] f1)))))))"

subsection \<open>Adoption\<close>

definition new_invitation :: "nat \<Rightarrow> nat \<Rightarrow> string \<Rightarrow> timestamp option \<Rightarrow> nat option \<Rightarrow> timestamp \<Rightarrow> invitation_row" where
  "new_invitation i tablet_id token_hash expires_at actor now =
     \<lparr>inv_id = i, inv_tablet = tablet_id, inv_token_hash = token_hash,
      inv_expires_at = (case expires_at of None \<Rightarrow> now + INVITATION_DURATION | Some e \<Rightarrow> e),
      inv_created_at = now, inv_created_by = actor, inv_used_at = None, inv_revoked_at = None,
      inv_failed_attempt_count = 0\<rparr>"

definition create_adoption_invitation ::
  "tablet_env \<Rightarrow> nat option \<Rightarrow> nat \<Rightarrow> timestamp option \<Rightarrow> string \<Rightarrow> fleet \<Rightarrow> (nat \<times> fleet) res" where
  "create_adoption_invitation T actor tablet_id expires_at token f =
     bind_res (fetch_tablet tablet_id f) (\<lambda>tablet.
     bind_res (require_department_admin (base f) actor (Some (tab_department tablet))) (\<lambda>_.
     bind_res (require_operational_tablet tablet f) (\<lambda>_.
     let h = secret_digest T token; now = clock (base f); (i, f1) = fresh_fleet_id f in
     if exists_row (\<lambda>r. inv_token_hash r = h) (invitations f) then Inl (IntegrityError ''token_hash'')
     else
       let f2 = f1\<lparr>invitations := invitations f1 @
             [new_invitation i tablet_id h expires_at actor now]\<rparr>
       in Inr (i, on_base (department_mutation actor) (fleet_event ''tablet.adoption_invitation_created'' actor
            (Some (tab_department tablet)) ''adoption_invitation'' i [] f2)))))"

definition initiate_installation_replacement ::
  "tablet_env \<Rightarrow> nat option \<Rightarrow> nat \<Rightarrow> timestamp option \<Rightarrow> string \<Rightarrow> fleet \<Rightarrow> (nat \<times> fleet) res" where
  "initiate_installation_replacement T actor tablet_id expires_at token f =
     bind_res (create_adoption_invitation T actor tablet_id expires_at token f) (\<lambda>(i, f1).
     bind_res (fetch_tablet tablet_id f1) (\<lambda>tablet.
     Inr (i, fleet_event ''tablet.installation_replacement_initiated'' actor (Some (tab_department tablet)) ''tablet''
        tablet_id [(''adoption_invitation_id'', JStr (dec_nat i))] f1)))"

definition invitation_for_token :: "tablet_env \<Rightarrow> string \<Rightarrow> fleet \<Rightarrow> invitation_row res" where
  "invitation_for_token T token f =
     (let refused = TabletError ''Invitation is invalid or expired.'' ''invalid_request'' in
      case find (\<lambda>r. inv_token_hash r = secret_digest T token) (invitations f) of
        None \<Rightarrow> Inl refused
      | Some r \<Rightarrow>
          if inv_used_at r \<noteq> None \<or> inv_revoked_at r \<noteq> None \<or> inv_expires_at r \<le> clock (base f)
          then Inl refused else Inr r)"

definition HPKE_CIPHERSUITE :: string where
  "HPKE_CIPHERSUITE = ''DHKEM(P-256,HKDF-SHA256)/HKDF-SHA256/AES-128-GCM''"

text \<open>\<open>isoformat().replace("+00:00", "Z")\<close> of a UTC timestamp.\<close>

definition canonical_protocol_datetime :: "timestamp \<Rightarrow> string" where
  "canonical_protocol_datetime t = (let s = isoformat t in take (length s - 6) s @ ''Z'')"

definition canonical_context ::
  "nat \<Rightarrow> nat \<Rightarrow> nat \<Rightarrow> string \<Rightarrow> timestamp \<Rightarrow> string \<Rightarrow> string" where
  "canonical_context adoption_request_id installation_uuid tablet_id fingerprint expires_at mode =
     json_bytes (JObj
       [(''adoption_request_id'', JStr (dec_nat adoption_request_id)),
        (''expires_at'', JStr (canonical_protocol_datetime expires_at)),
        (''hpke_ciphersuite'', JStr HPKE_CIPHERSUITE),
        (''hpke_public_key_fingerprint'', JStr fingerprint),
        (''installation_uuid'', JStr (dec_nat installation_uuid)),
        (''mode'', JStr mode), (''protocol'', JStr ADOPTION_PROTOCOL),
        (''tablet_id'', JStr (dec_nat tablet_id))])"

definition create_adoption_request ::
  "tablet_env \<Rightarrow> string \<Rightarrow> nat \<Rightarrow> string \<Rightarrow> int option \<Rightarrow> string \<Rightarrow> string \<Rightarrow> string \<Rightarrow> fleet
   \<Rightarrow> (nat \<times> fleet) res" where
  "create_adoption_request T token installation_uuid app_version0 app_build0 public_key ciphersuite nonce f =
     bind_res (case bind_res (parse_app_version app_version0) (\<lambda>v.
                 bind_res (case app_build0 of None \<Rightarrow> Inr None
                   | Some b \<Rightarrow> bind_res (parse_app_build b) (\<lambda>b. Inr (Some b))) (\<lambda>b.
                 Inr (version_string v, b))) of
                 Inl (AppVersionError m) \<Rightarrow> Inl (TabletError m ''invalid_request'') | r \<Rightarrow> r) (\<lambda>(version, build).
     bind_res (require (ciphersuite = HPKE_CIPHERSUITE)
       (TabletError ''Unsupported HPKE cipher suite.'' ''invalid_request'')) (\<lambda>_.
     bind_res (invitation_for_token T token f) (\<lambda>invitation.
     bind_res (fetch_tablet (inv_tablet invitation) f) (\<lambda>tablet.
     bind_res (require_operational_tablet tablet f) (\<lambda>_.
     bind_res (case hpke_key_error T public_key of Some m \<Rightarrow> Inl (TabletError m ''invalid_request'') | None \<Rightarrow> Inr ()) (\<lambda>_.
     let fingerprint = public_key_fingerprint T public_key;
         expires_at = clock (base f) + CHALLENGE_DURATION;
         (i, f1) = fresh_fleet_id f;
         info = canonical_context i installation_uuid (tab_id tablet) fingerprint expires_at ''adoption'' in
     bind_res (case hpke_seal T nonce public_key info of
                 Inl m \<Rightarrow> Inl (TabletError m ''invalid_request'') | Inr c \<Rightarrow> Inr c) (\<lambda>challenge.
     Inr (i, f1\<lparr>adoption_requests := adoption_requests f1 @
       [\<lparr>req_id = i, req_invitation = inv_id invitation, req_installation_uuid = installation_uuid,
         req_app_version = take 64 version, req_app_build = build, req_hpke_public_key = public_key,
         req_hpke_public_key_fingerprint = fingerprint, req_hpke_ciphersuite = ciphersuite,
         req_expected_hmac_digest = hmac_digest T nonce info, req_canonical_context_hash = context_hash T info,
         req_encrypted_challenge = challenge, req_expires_at = expires_at, req_completed_at = None,
         req_completion_replay_valid_until = None, req_completion_replay_invalidated_at = None,
         req_failed_attempt_count = 0\<rparr>]\<rparr>))))))))"

definition record_failed_attempt :: "nat \<Rightarrow> fleet \<Rightarrow> fleet res" where
  "record_failed_attempt request_id f =
     bind_res (fetch_request request_id f) (\<lambda>request.
     let now = clock (base f) in
     if req_completed_at request \<noteq> None then Inr f
     else if req_expires_at request \<le> now then Inr f
     else
       bind_res (fetch_invitation (req_invitation request) f) (\<lambda>invitation.
       let f1 = update_request request_id (\<lambda>r. r\<lparr>req_failed_attempt_count := req_failed_attempt_count r + 1\<rparr>) f;
           f2 = update_invitation (inv_id invitation)
                  (\<lambda>r. r\<lparr>inv_failed_attempt_count := inv_failed_attempt_count r + 1\<rparr>) f1;
           f3 = (if MAX_FAILED_ATTEMPTS \<le> inv_failed_attempt_count invitation + 1
                 then update_invitation (inv_id invitation) (\<lambda>r. r\<lparr>inv_revoked_at := Some now\<rparr>) f2 else f2)
       in Inr (fleet_event ''tablet.adoption_proof_failed'' None None ''adoption_request'' request_id
            [(''failed_attempt_count'', JInt (int (req_failed_attempt_count request + 1))),
             (''request_id'', JStr (dec_nat request_id))] f3)))"

text \<open>The guards an adoption passes before and again under the locks of its completion.\<close>

definition require_open_request :: "adoption_request_row \<Rightarrow> invitation_row \<Rightarrow> timestamp \<Rightarrow> unit res" where
  "require_open_request request invitation now =
     bind_res (require (req_expires_at request > now)
       (TabletError ''Adoption request is expired.'' ''adoption_request_expired'')) (\<lambda>_.
     bind_res (require (req_failed_attempt_count request < MAX_FAILED_ATTEMPTS)
       (TabletError ''Adoption request has reached the maximum failed attempts.'' ''adoption_attempt_limit_reached'')) (\<lambda>_.
     bind_res (require (inv_used_at invitation = None)
       (TabletError ''Invitation has already been used.'' ''invitation_invalid'')) (\<lambda>_.
     require (inv_revoked_at invitation = None) (TabletError ''Invitation has been revoked.'' ''invitation_invalid''))))"

definition new_installation ::
  "nat \<Rightarrow> tablet_row \<Rightarrow> department_row \<Rightarrow> adoption_request_row \<Rightarrow> invitation_row \<Rightarrow> string \<Rightarrow> timestamp
   \<Rightarrow> installation_row" where
  "new_installation i tablet department request invitation credential_hash now =
     \<lparr>ins_id = i, ins_tablet = tab_id tablet, ins_installation_uuid = req_installation_uuid request,
      ins_credential_hash = credential_hash, ins_status = INS_ACTIVE, ins_app_version = req_app_version request,
      ins_adopted_app_version = req_app_version request, ins_app_build = req_app_build request,
      ins_app_version_seen_at = now, ins_hpke_public_key = req_hpke_public_key request,
      ins_hpke_ciphersuite = req_hpke_ciphersuite request,
      ins_hpke_key_fingerprint = req_hpke_public_key_fingerprint request, ins_hpke_key_verified_at = now,
      ins_adopted_at = now, ins_adopted_by = inv_created_by invitation, ins_last_successful_check_in_at = None,
      ins_authorization_valid_until = lease_target department now, ins_stale_at = None, ins_revoked_at = None,
      ins_revocation_reason = []\<rparr>"

text \<open>Every installation of the tablet in the given state loses its key grants.\<close>

definition revoke_grants_of :: "nat \<Rightarrow> (installation_status \<Rightarrow> bool) \<Rightarrow> fleet \<Rightarrow> fleet" where
  "revoke_grants_of tablet_id P f =
     on_base (fold revoke_dataset_key_grants
       (map ins_id (filter (\<lambda>i. ins_tablet i = tablet_id \<and> P (ins_status i)) (installations f)))) f"

definition complete_successful_adoption ::
  "tablet_env \<Rightarrow> nat \<Rightarrow> string \<Rightarrow> fleet \<Rightarrow> (nat \<times> fleet) res" where
  "complete_successful_adoption T request_id credential f =
     bind_res (fetch_request request_id f) (\<lambda>request.
     bind_res (fetch_invitation (req_invitation request) f) (\<lambda>invitation.
     let now = clock (base f) in
     bind_res (require (req_completed_at request = None)
       (TabletError ''Adoption request has already been completed.'' ''adoption_request_completed'')) (\<lambda>_.
     bind_res (require_open_request request invitation now) (\<lambda>_.
     bind_res (fetch_tablet (inv_tablet invitation) f) (\<lambda>tablet.
     bind_res (require_operational_tablet tablet f) (\<lambda>_.
     bind_res (require (\<not> exists_row (\<lambda>i. ins_installation_uuid i = req_installation_uuid request) (installations f))
       (TabletError ''Installation UUID is already provisioned; replay the original completion request.''
         ''invalid_request'')) (\<lambda>_.
     bind_res (fetch_department (tab_department tablet) (base f)) (\<lambda>department.
     bind_res (put_installations (map (\<lambda>i. if ins_tablet i = tab_id tablet \<and> current_status (ins_status i)
         then i\<lparr>ins_status := INS_REPLACED\<rparr> else i) (installations f)) f) (\<lambda>f1.
     let (i, f2) = fresh_fleet_id f1 in
     bind_res (put_installations (installations f2 @
         [new_installation i tablet department request invitation (secret_digest T credential) now]) f2) (\<lambda>f3.
     let f4 = revoke_grants_of (tab_id tablet) (\<lambda>s. s = INS_REPLACED) f3;
         f5 = update_request request_id (\<lambda>r. r\<lparr>req_completed_at := Some now,
                req_completion_replay_valid_until := Some (now + COMPLETION_REPLAY_DURATION)\<rparr>) f4;
         f6 = update_invitation (inv_id invitation) (\<lambda>r. r\<lparr>inv_used_at := Some now\<rparr>) f5
     in Inr (i, fleet_event ''tablet.adopted'' (inv_created_by invitation) (Some (tab_department tablet))
          ''app_installation'' i [(''hpke_key_fingerprint'', JStr (req_hpke_public_key_fingerprint request))] f6)))))))))))"

definition replay_successful_completion ::
  "tablet_env \<Rightarrow> nat \<Rightarrow> string \<Rightarrow> string \<Rightarrow> fleet \<Rightarrow> (nat \<times> fleet) res" where
  "replay_successful_completion T request_id challenge_response credential f =
     bind_res (fetch_request request_id f) (\<lambda>request.
     let now = clock (base f) in
     bind_res (fetch_invitation (req_invitation request) f) (\<lambda>invitation.
     bind_res (of_option (DoesNotExist ''AppInstallation'')
       (find (\<lambda>i. ins_installation_uuid i = req_installation_uuid request) (installations f))) (\<lambda>installation.
     bind_res (require (req_completed_at request \<noteq> None
         \<and> (case req_completion_replay_valid_until request of None \<Rightarrow> False | Some u \<Rightarrow> u > now)
         \<and> req_completion_replay_invalidated_at request = None \<and> inv_revoked_at invitation = None
         \<and> req_expected_hmac_digest request = challenge_response)
       (TabletError ''Completion recovery is not available.'' ''adoption_request_completed'')) (\<lambda>_.
     bind_res (require (current_status (ins_status installation))
       (inactive ''Completion recovery is not available.'')) (\<lambda>_.
     bind_res (fetch_tablet (ins_tablet installation) f) (\<lambda>tablet.
     bind_res (update_installation (ins_id installation)
       (\<lambda>i. i\<lparr>ins_credential_hash := secret_digest T credential\<rparr>) f) (\<lambda>f1.
     Inr (ins_id installation, fleet_event ''tablet.completion_recovered'' (inv_created_by invitation)
       (Some (tab_department tablet)) ''app_installation'' (ins_id installation) [(''mode'', JStr ''adoption'')] f1))))))))"

text \<open>
  The entry point.  A wrong proof is counted in its own transaction, which is kept although the call
  raises: the result carries the state that is committed either way.
\<close>

definition complete_adoption ::
  "tablet_env \<Rightarrow> nat \<Rightarrow> string \<Rightarrow> bool \<Rightarrow> string \<Rightarrow> fleet \<Rightarrow> nat res \<times> fleet" where
  "complete_adoption T request_id challenge_response confirmed credential f =
     (let run = (\<lambda>r. case r of Inl e \<Rightarrow> (Inl e, f) | Inr (i, f1) \<Rightarrow> (Inr i, f1)) in
      if \<not> confirmed then (Inl (TabletError ''Adoption was not confirmed.'' ''invalid_request''), f)
      else (case fetch_request request_id f of
        Inl e \<Rightarrow> (Inl e, f)
      | Inr request \<Rightarrow>
          if req_completed_at request \<noteq> None
          then run (replay_successful_completion T request_id challenge_response credential f)
          else (case bind_res (fetch_invitation (req_invitation request) f) (\<lambda>invitation.
                       require_open_request request invitation (clock (base f))) of
              Inl e \<Rightarrow> (Inl e, f)
            | Inr _ \<Rightarrow>
                if req_expected_hmac_digest request \<noteq> challenge_response
                then (case record_failed_attempt request_id f of
                        Inl e \<Rightarrow> (Inl e, f)
                      | Inr f1 \<Rightarrow> (Inl (TabletError ''Adoption proof is invalid.'' ''adoption_proof_invalid''), f1))
                else run (complete_successful_adoption T request_id credential f))))"

subsection \<open>Check-in and leases\<close>

definition verify_credential :: "tablet_env \<Rightarrow> installation_row \<Rightarrow> string \<Rightarrow> bool" where
  "verify_credential T installation credential = (ins_credential_hash installation = secret_digest T credential)"

definition mark_stale :: "installation_row \<Rightarrow> tablet_row \<Rightarrow> timestamp \<Rightarrow> fleet \<Rightarrow> fleet res" where
  "mark_stale installation tablet now f =
     bind_res (update_installation (ins_id installation)
       (\<lambda>i. i\<lparr>ins_status := INS_STALE, ins_stale_at := Some now\<rparr>) f) (\<lambda>f1.
     Inr (fleet_event ''tablet.became_stale'' None (Some (tab_department tablet)) ''app_installation''
       (ins_id installation) [] f1))"

definition recover_stale_installation ::
  "installation_row \<Rightarrow> tablet_row \<Rightarrow> department_row \<Rightarrow> timestamp \<Rightarrow> fleet \<Rightarrow> fleet res" where
  "recover_stale_installation installation tablet department now f =
     bind_res (require (ins_status installation = INS_STALE \<and> is_current_installation installation f)
       (inactive ''Installation is not active.'')) (\<lambda>_.
     bind_res (require_active_operational_tablet tablet f) (\<lambda>_.
     bind_res (update_installation (ins_id installation) (\<lambda>i. i\<lparr>ins_status := INS_ACTIVE,
         ins_authorization_valid_until := lease_target department now,
         ins_last_successful_check_in_at := Some now\<rparr>) f) (\<lambda>f1.
     Inr (fleet_event ''tablet.stale_auto_recovered'' None (Some (tab_department tablet)) ''app_installation''
       (ins_id installation) [] f1))))"

text \<open>A stale installation is recovered, an active one needs an operational tablet.\<close>

definition authorize_check_in ::
  "installation_row \<Rightarrow> tablet_row \<Rightarrow> department_row \<Rightarrow> timestamp \<Rightarrow> fleet \<Rightarrow> (installation_row \<times> fleet) res" where
  "authorize_check_in installation tablet department now f =
     (if ins_status installation = INS_STALE then
        bind_res (recover_stale_installation installation tablet department now f) (\<lambda>f1.
        Inr (installation\<lparr>ins_status := INS_ACTIVE, ins_authorization_valid_until := lease_target department now\<rparr>, f1))
      else bind_res (require_active_operational_tablet tablet f) (\<lambda>_. Inr (installation, f)))"

text \<open>
  The check-in of a tablet that is not INACTIVE.  The result says whether the application version was
  too old.
\<close>

definition operational_check_in ::
  "installation_row \<Rightarrow> tablet_row \<Rightarrow> department_row \<Rightarrow> telemetry \<Rightarrow> app_version option \<Rightarrow> fleet \<Rightarrow> (bool \<times> fleet) res" where
  "operational_check_in installation tablet department t minimum f =
     (let now = clock (base f);
          expired = (ins_status installation = INS_ACTIVE \<and> ins_authorization_valid_until installation \<le> now);
          current = installation\<lparr>ins_status := (if expired then INS_STALE else ins_status installation)\<rparr> in
      bind_res (if expired then mark_stale installation tablet now f else Inr f) (\<lambda>f1.
      bind_res (version_blocked minimum (ins_app_version (telemetry_fields t now installation))) (\<lambda>blocked.
      if blocked then
        bind_res (update_installation (ins_id installation) (telemetry_fields t now) f1) (\<lambda>f2. Inr (True, f2))
      else
        bind_res (authorize_check_in current tablet department now f1) (\<lambda>(active, f2).
        bind_res (update_installation (ins_id installation)
          (\<lambda>i. (telemetry_fields t now i)\<lparr>ins_last_successful_check_in_at := Some now,
             ins_authorization_valid_until :=
               (if renew_lease_if_due active tablet department f2 now then lease_target department now
                else ins_authorization_valid_until i)\<rparr>) f2) (\<lambda>f3.
        Inr (False, f3))))))"

definition check_in ::
  "tablet_env \<Rightarrow> nat \<Rightarrow> string \<Rightarrow> telemetry \<Rightarrow> app_version option \<Rightarrow> fleet \<Rightarrow> (bool \<times> fleet) res" where
  "check_in T installation_id credential t minimum f =
     bind_res (fetch_installation installation_id f) (\<lambda>installation.
     bind_res (fetch_tablet (ins_tablet installation) f) (\<lambda>tablet.
     bind_res (fetch_department (tab_department tablet) (base f)) (\<lambda>department.
     let now = clock (base f) in
     bind_res (require (verify_credential T installation credential)
       (PermissionDenied ''Installation credential is invalid.'')) (\<lambda>_.
     bind_res (require (current_status (ins_status installation)) (inactive ''Installation is not active.'')) (\<lambda>_.
     if tab_status tablet = TAB_INACTIVE then
       bind_res (require_inactive_control_tablet tablet f) (\<lambda>_.
       bind_res (update_installation installation_id
         (\<lambda>i. (telemetry_fields t now i)\<lparr>ins_last_successful_check_in_at := Some now\<rparr>) f) (\<lambda>f1.
       bind_res (version_blocked minimum (ins_app_version (telemetry_fields t now installation))) (\<lambda>blocked.
       Inr (blocked, f1))))
     else operational_check_in installation tablet department t minimum f)))))"

definition refresh_installation_lease ::
  "tablet_env \<Rightarrow> nat \<Rightarrow> string \<Rightarrow> telemetry \<Rightarrow> app_version option \<Rightarrow> fleet \<Rightarrow> (bool \<times> fleet) res" where
  "refresh_installation_lease T installation_id credential t minimum f =
     bind_res (fetch_installation installation_id f) (\<lambda>installation.
     bind_res (fetch_tablet (ins_tablet installation) f) (\<lambda>tablet.
     bind_res (fetch_department (tab_department tablet) (base f)) (\<lambda>department.
     let now = clock (base f) in
     bind_res (require (verify_credential T installation credential)
       (PermissionDenied ''Installation credential is invalid.'')) (\<lambda>_.
     bind_res (require (ins_status installation = INS_ACTIVE \<and> ins_authorization_valid_until installation > now)
       (inactive ''Installation is not active.'')) (\<lambda>_.
     bind_res (require_operational_tablet tablet f) (\<lambda>_.
     bind_res (require (eligible_for_lease_renewal installation tablet f now)
       (inactive ''Only an active, authorized installation can be renewed.'')) (\<lambda>_.
     let expiry = max (ins_authorization_valid_until installation) (lease_target department now) in
     bind_res (version_blocked minimum (ins_app_version (telemetry_fields t now installation))) (\<lambda>blocked.
     if blocked then
       bind_res (update_installation installation_id (telemetry_fields t now) f) (\<lambda>f1. Inr (True, f1))
     else
       bind_res (update_installation installation_id (\<lambda>i. (telemetry_fields t now i)\<lparr>
           ins_authorization_valid_until := expiry, ins_last_successful_check_in_at := Some now\<rparr>) f) (\<lambda>f1.
       Inr (False, fleet_event ''tablet.self_refreshed'' None (Some (tab_department tablet)) ''app_installation''
         installation_id [(''old_expiry'', JStr (isoformat (ins_authorization_valid_until installation))),
           (''new_expiry'', JStr (isoformat expiry))] f1))))))))))"

definition mark_stale_installations :: "timestamp option \<Rightarrow> fleet \<Rightarrow> (nat \<times> fleet) res" where
  "mark_stale_installations now0 f =
     (let now = (case now0 of None \<Rightarrow> clock (base f) | Some t \<Rightarrow> t);
          due = filter (\<lambda>i. ins_status i = INS_ACTIVE \<and> ins_authorization_valid_until i \<le> now) (installations f)
      in bind_res (fold_res (\<lambda>i f. bind_res (fetch_tablet (ins_tablet i) f) (\<lambda>tablet. mark_stale i tablet now f)) due f)
           (\<lambda>f1. Inr (length due, f1)))"

subsection \<open>The physical asset\<close>

definition require_asset_transition :: "tablet_row \<Rightarrow> tablet_status \<Rightarrow> unit res" where
  "require_asset_transition tablet new_status =
     require (new_status \<in> set (ASSET_TRANSITIONS (tab_status tablet)))
       (TabletError ''This lifecycle transition is not available for the tablet.'' ''invalid_request'')"

definition invitation_of_tablet :: "nat \<Rightarrow> fleet \<Rightarrow> nat \<Rightarrow> bool" where
  "invitation_of_tablet tablet_id f i =
     (case row_get inv_id i (invitations f) of None \<Rightarrow> False | Some r \<Rightarrow> inv_tablet r = tablet_id)"

definition invalidate_replays :: "nat \<Rightarrow> timestamp \<Rightarrow> fleet \<Rightarrow> fleet" where
  "invalidate_replays tablet_id now f =
     f\<lparr>adoption_requests := map (\<lambda>r. if invitation_of_tablet tablet_id f (req_invitation r)
           \<and> req_completed_at r \<noteq> None
           \<and> (case req_completion_replay_valid_until r of None \<Rightarrow> False | Some u \<Rightarrow> u > now)
           \<and> req_completion_replay_invalidated_at r = None
         then r\<lparr>req_completion_replay_invalidated_at := Some now\<rparr> else r) (adoption_requests f)\<rparr>"

definition revoke_open_invitations :: "nat \<Rightarrow> timestamp \<Rightarrow> fleet \<Rightarrow> fleet" where
  "revoke_open_invitations tablet_id now f =
     f\<lparr>invitations := map (\<lambda>r. if inv_tablet r = tablet_id \<and> inv_used_at r = None \<and> inv_revoked_at r = None
         then r\<lparr>inv_revoked_at := Some now\<rparr> else r) (invitations f)\<rparr>"

definition revoke_tablet_installations :: "nat \<Rightarrow> string \<Rightarrow> timestamp \<Rightarrow> fleet \<Rightarrow> fleet res" where
  "revoke_tablet_installations tablet_id reason now f =
     bind_res (put_installations (map (\<lambda>i. if ins_tablet i = tablet_id \<and> current_status (ins_status i)
         then i\<lparr>ins_status := INS_REVOKED, ins_revoked_at := Some now, ins_revocation_reason := take 512 reason\<rparr> else i)
         (installations f)) f) (\<lambda>f1.
     Inr (revoke_open_invitations tablet_id now
       (revoke_grants_of tablet_id (\<lambda>s. s = INS_REVOKED) (invalidate_replays tablet_id now f1))))"

text \<open>The common end of the asset services: the new state, the audit entry, the department mutation.\<close>

definition finish_asset_change ::
  "nat option \<Rightarrow> tablet_row \<Rightarrow> tablet_status \<Rightarrow> bool \<Rightarrow> string \<Rightarrow> fleet \<Rightarrow> fleet res" where
  "finish_asset_change actor tablet status active action f =
     bind_res (update_tablet (tab_id tablet) (\<lambda>t. t\<lparr>tab_status := status, tab_active := active\<rparr>) f) (\<lambda>f1.
     Inr (on_base (department_mutation actor)
       (fleet_event action actor (Some (tab_department tablet)) ''tablet'' (tab_id tablet) [] f1)))"

definition authorized_tablet :: "nat option \<Rightarrow> nat \<Rightarrow> fleet \<Rightarrow> tablet_row res" where
  "authorized_tablet actor tablet_id f =
     bind_res (fetch_tablet tablet_id f) (\<lambda>tablet.
     bind_res (require_department_admin (base f) actor (Some (tab_department tablet))) (\<lambda>_. Inr tablet))"

definition activate_tablet :: "nat option \<Rightarrow> nat \<Rightarrow> fleet \<Rightarrow> fleet res" where
  "activate_tablet actor tablet_id f =
     bind_res (authorized_tablet actor tablet_id f) (\<lambda>tablet.
     bind_res (require_asset_transition tablet TAB_ACTIVE) (\<lambda>_.
     bind_res (require (department_is_active (base f) (tab_department tablet) \<and> tab_active tablet)
       (TabletError ''Tablet department must be active before activation.'' ''invalid_request'')) (\<lambda>_.
     bind_res (require (exists_row (\<lambda>i. ins_tablet i = tablet_id \<and> current_status (ins_status i)) (installations f))
       (TabletError ''Tablet requires a current installation before it can be activated.'' ''invalid_request'')) (\<lambda>_.
     bind_res (require (has_current_operational_assignment tablet (clock (base f)) f)
       (TabletError ''Tablet requires a current active vehicle assignment before activation.'' ''invalid_request'')) (\<lambda>_.
     finish_asset_change actor tablet TAB_ACTIVE True ''tablet.activated'' f)))))"

definition obsolete_manifests :: "nat list \<Rightarrow> timestamp \<Rightarrow> fleet \<Rightarrow> fleet" where
  "obsolete_manifests ids now f =
     f\<lparr>signed_manifests := map (\<lambda>m. if sm_app_installation m \<in> set ids
        then m\<lparr>sm_status := MAN_OBSOLETE, sm_completed_at := Some now,
               sm_error_message := ''Tablet asset was deactivated.''\<rparr> else m) (signed_manifests f)\<rparr>"

definition deactivate_tablet :: "nat option \<Rightarrow> nat \<Rightarrow> fleet \<Rightarrow> fleet res" where
  "deactivate_tablet actor tablet_id f =
     bind_res (authorized_tablet actor tablet_id f) (\<lambda>tablet.
     bind_res (require_asset_transition tablet TAB_INACTIVE) (\<lambda>_.
     let ids = map ins_id (filter (\<lambda>i. ins_tablet i = tablet_id \<and> current_status (ins_status i)) (installations f));
         f1 = obsolete_manifests ids (clock (base f)) (revoke_grants_of tablet_id current_status f)
     in finish_asset_change actor tablet TAB_INACTIVE True ''tablet.deactivated'' f1))"

definition mark_tablet_lost :: "nat option \<Rightarrow> nat \<Rightarrow> string \<Rightarrow> fleet \<Rightarrow> fleet res" where
  "mark_tablet_lost actor tablet_id reason f =
     bind_res (authorized_tablet actor tablet_id f) (\<lambda>tablet.
     bind_res (require_asset_transition tablet TAB_LOST) (\<lambda>_.
     bind_res (revoke_tablet_installations tablet_id reason (clock (base f)) f) (\<lambda>f1.
     finish_asset_change actor tablet TAB_LOST False ''tablet.lost'' f1)))"

definition recover_tablet :: "nat option \<Rightarrow> nat \<Rightarrow> fleet \<Rightarrow> fleet res" where
  "recover_tablet actor tablet_id f =
     bind_res (authorized_tablet actor tablet_id f) (\<lambda>tablet.
     bind_res (require_asset_transition tablet TAB_INACTIVE) (\<lambda>_.
     finish_asset_change actor tablet TAB_INACTIVE True ''tablet.recovered'' f))"

definition retire_tablet :: "nat option \<Rightarrow> nat \<Rightarrow> string \<Rightarrow> fleet \<Rightarrow> fleet res" where
  "retire_tablet actor tablet_id reason f =
     bind_res (authorized_tablet actor tablet_id f) (\<lambda>tablet.
     bind_res (require_asset_transition tablet TAB_RETIRED) (\<lambda>_.
     bind_res (revoke_tablet_installations tablet_id reason (clock (base f)) f) (\<lambda>f1.
     finish_asset_change actor tablet TAB_RETIRED False ''tablet.retired'' f1)))"

definition revoke_installation :: "nat option \<Rightarrow> nat \<Rightarrow> string \<Rightarrow> fleet \<Rightarrow> fleet res" where
  "revoke_installation actor installation_id reason f =
     bind_res (fetch_installation installation_id f) (\<lambda>installation.
     bind_res (fetch_tablet (ins_tablet installation) f) (\<lambda>tablet.
     bind_res (require_department_admin (base f) actor (Some (tab_department tablet))) (\<lambda>_.
     bind_res (require (current_status (ins_status installation))
       (TabletError ''Only a current installation can be revoked.'' ''invalid_request'')) (\<lambda>_.
     bind_res (update_installation installation_id (\<lambda>i. i\<lparr>ins_status := INS_REVOKED,
         ins_revoked_at := Some (clock (base f)), ins_revocation_reason := take 512 reason\<rparr>) f) (\<lambda>f1.
     Inr (on_base (department_mutation actor) (fleet_event ''tablet.installation_revoked'' actor
       (Some (tab_department tablet)) ''app_installation'' installation_id []
       (on_base (revoke_dataset_key_grants installation_id) f1))))))))"

subsection \<open>Vehicle assignment\<close>

definition validate_tablet_vehicle :: "tablet_row \<Rightarrow> vehicle_row \<Rightarrow> fleet \<Rightarrow> unit res" where
  "validate_tablet_vehicle tablet vehicle f =
     bind_res (require (department_is_active (base f) (tab_department tablet))
       (AssignmentError ''Department is not operationally active.'')) (\<lambda>_.
     bind_res (require (tab_active tablet \<and> veh_active vehicle \<and> tab_department tablet = veh_department vehicle)
       (AssignmentError ''Tablet and vehicle must be active and belong to the same department.'')) (\<lambda>_.
     require (station_is_active (base f) (veh_station vehicle))
       (AssignmentError ''Vehicle station is not operationally active.'')))"

definition open_assignment :: "nat \<Rightarrow> fleet \<Rightarrow> vehicle_assignment_row option" where
  "open_assignment tablet_id f =
     find (\<lambda>a. tva_tablet a = tablet_id \<and> tva_valid_until a = None \<and> tva_ended_at a = None) (vehicle_assignments f)"

definition authorize_tablet_vehicle_assignment ::
  "nat option \<Rightarrow> tablet_row \<Rightarrow> vehicle_row \<Rightarrow> fleet \<Rightarrow> unit res" where
  "authorize_tablet_vehicle_assignment actor tablet vehicle f =
     (if tab_department tablet \<in> set (active_department_ids (base f) actor)
      then require_department_admin (base f) actor (Some (tab_department tablet))
      else
        let station_ids = active_station_ids (base f) actor in
        bind_res (require (station_ids \<noteq> []) (PermissionDenied ''Department administrator scope is required.'')) (\<lambda>_.
        bind_res (require (veh_station vehicle \<in> set station_ids)
          (PermissionDenied ''Station administrator scope is required.'')) (\<lambda>_.
        case open_assignment (tab_id tablet) f of
          None \<Rightarrow> Inr ()
        | Some current \<Rightarrow>
            bind_res (fetch_vehicle (tva_vehicle current) f) (\<lambda>v.
            require (veh_station v \<in> set station_ids)
              (PermissionDenied ''Station administrator scope is required.'')))))"

definition assign_tablet_vehicle ::
  "nat \<Rightarrow> nat \<Rightarrow> nat option \<Rightarrow> timestamp option \<Rightarrow> fleet \<Rightarrow> (nat \<times> fleet) res" where
  "assign_tablet_vehicle tablet_id vehicle_id actor effective_at f =
     bind_res (fetch_vehicle vehicle_id f) (\<lambda>vehicle.
     bind_res (fetch_tablet tablet_id f) (\<lambda>tablet.
     bind_res (authorize_tablet_vehicle_assignment actor tablet vehicle f) (\<lambda>_.
     bind_res (validate_tablet_vehicle tablet vehicle f) (\<lambda>_.
     let now = clock (base f); effective = (case effective_at of None \<Rightarrow> now | Some t \<Rightarrow> t) in
     bind_res (case open_assignment tablet_id f of
         None \<Rightarrow> Inr f
       | Some current \<Rightarrow> put_vehicle_assignments (map (\<lambda>a. if tva_id a = tva_id current
           then a\<lparr>tva_valid_until := Some effective, tva_ended_at := Some now, tva_ended_by := actor,
                  tva_end_reason := ''REASSIGNED''\<rparr> else a) (vehicle_assignments f)) f) (\<lambda>f1.
     let (i, f2) = fresh_fleet_id f1 in
     bind_res (put_vehicle_assignments (vehicle_assignments f2 @
         [\<lparr>tva_id = i, tva_tablet = tablet_id, tva_vehicle = vehicle_id, tva_valid_from = effective, tva_valid_until = None,
           tva_created_by = actor, tva_created_at = now, tva_ended_by = None, tva_ended_at = None, tva_end_reason = []\<rparr>])
         f2) (\<lambda>f3.
     Inr (i, on_base (\<lambda>w. department_mutation actor (record_event ''tablet.vehicle_assigned'' actor
         (Some (tab_department tablet)) (Some (veh_station vehicle)) ''tablet_vehicle_assignment'' (Some i)
         [(''tablet_id'', JStr (dec_nat tablet_id)), (''vehicle_id'', JStr (dec_nat vehicle_id))] w)) f3)))))))"

end
