(* ===== verification/Step_Invariant.thy ===== *)
theory Step_Invariant
  imports Prelude
begin

text \<open>
  The contract between a service and the state it changes: \<open>preserves good evo s s'\<close> says that a change from
  \<open>s\<close> to \<open>s'\<close> keeps the invariant and moves the rows along the history relation.  The locale gives what
  follows for sequences, folds and runs of such changes.
\<close>

definition preserves :: "('s \<Rightarrow> bool) \<Rightarrow> ('s \<Rightarrow> 's \<Rightarrow> bool) \<Rightarrow> 's \<Rightarrow> 's \<Rightarrow> bool" where
  "preserves good evo s s' \<longleftrightarrow> (good s \<longrightarrow> good s' \<and> evo s s')"

locale evolving =
  fixes good :: "'s \<Rightarrow> bool" and evo :: "'s \<Rightarrow> 's \<Rightarrow> bool"
  assumes evo_refl: "evo s s"
    and evo_trans: "evo r s \<Longrightarrow> evo s t \<Longrightarrow> evo r t"
begin

lemma preserves_refl: "preserves good evo s s"
  by (simp add: preserves_def evo_refl)

lemma preserves_trans: "preserves good evo r s \<Longrightarrow> preserves good evo s t \<Longrightarrow> preserves good evo r t"
  by (auto simp: preserves_def intro: evo_trans)

lemma preserves_fold_res:
  assumes "\<And>x s s'. x \<in> set xs \<Longrightarrow> f x s = Inr s' \<Longrightarrow> preserves good evo s s'"
    and "fold_res f xs s = Inr t"
  shows "preserves good evo s t"
  using assms
proof (induction xs arbitrary: s)
  case Nil
  then show ?case by (simp add: preserves_refl)
next
  case (Cons x xs)
  from Cons.prems(2) obtain s1 where s1: "f x s = Inr s1" "fold_res f xs s1 = Inr t" by (auto simp: bind_res_Inr)
  have "preserves good evo s1 t" by (rule Cons.IH) (use Cons.prems(1) s1(2) in auto)
  moreover have "preserves good evo s s1" by (rule Cons.prems(1) [OF _ s1(1)]) simp
  ultimately show ?case by (rule preserves_trans [rotated])
qed

lemma preserves_run:
  assumes "\<And>s s'. step s s' \<Longrightarrow> preserves good evo s s'" and "step\<^sup>*\<^sup>* s t"
  shows "preserves good evo s t"
  using assms(2) by induction (auto intro: preserves_refl preserves_trans assms(1))

end

subsection \<open>Histories of tables\<close>

definition rows_evolve :: "('r \<Rightarrow> nat) \<Rightarrow> ('r \<Rightarrow> 'r \<Rightarrow> bool) \<Rightarrow> 'r list \<Rightarrow> 'r list \<Rightarrow> bool" where
  "rows_evolve key R xs ys \<longleftrightarrow> (\<forall>x\<in>set xs. \<exists>y\<in>set ys. key y = key x \<and> R x y)"

lemma rows_evolve_refl: "(\<And>x. R x x) \<Longrightarrow> rows_evolve key R xs xs"
  by (auto simp: rows_evolve_def)

lemma rows_evolve_trans:
  assumes "rows_evolve key R xs ys" and "rows_evolve key R ys zs"
    and "\<And>x y z. R x y \<Longrightarrow> R y z \<Longrightarrow> R x z"
  shows "rows_evolve key R xs zs"
  using assms unfolding rows_evolve_def by metis

lemma rows_evolve_map:
  "(\<And>x. x \<in> set xs \<Longrightarrow> key (g x) = key x \<and> R x (g x)) \<Longrightarrow> rows_evolve key R xs (map g xs)"
  by (auto simp: rows_evolve_def)

lemma rows_evolve_append: "(\<And>x. R x x) \<Longrightarrow> rows_evolve key R xs (xs @ ys)"
  by (auto simp: rows_evolve_def)

lemma rows_evolve_put:
  "(\<And>y. y \<in> set xs \<Longrightarrow> key y = key x \<Longrightarrow> R y x) \<Longrightarrow> (\<And>x. R x x) \<Longrightarrow> rows_evolve key R xs (row_put key x xs)"
  by (auto simp: row_put_def intro!: rows_evolve_map)

lemma unique_rows_map:
  "(\<And>x. x \<in> set xs \<Longrightarrow> key (g x) = key x) \<Longrightarrow> unique_rows (key \<circ> g) xs \<longleftrightarrow> unique_rows key xs"
  by (metis comp_apply map_eq_conv)

lemma rows_evolve_get:
  assumes "rows_evolve key R xs ys" and "unique_rows key ys" and "row_get key i xs = Some x"
  obtains y where "row_get key i ys = Some y" "R x y"
  using assms row_get_SomeD [OF assms(3)] unfolding rows_evolve_def by (metis row_get_unique)

end
