(* ===== verification/Tablet_Inv.thy ===== *)
theory Tablet_Inv
  imports Tablet_Services Administrator_Inv Step_Invariant
begin

text \<open>
  The lifecycle of tablets, installations, invitations and adoption requests across all services:
  an invariant of the four tables, the history every service moves them along, and the step relation
  of the transactions the services commit.
\<close>

subsection \<open>Invariant and history\<close>

definition asset_path :: "tablet_status \<Rightarrow> tablet_status \<Rightarrow> bool" where
  "asset_path = (\<lambda>s s'. s' \<in> set (ASSET_TRANSITIONS s))\<^sup>*\<^sup>*"

definition tablet_evolves :: "tablet_row \<Rightarrow> tablet_row \<Rightarrow> bool" where
  "tablet_evolves t t' \<longleftrightarrow> tab_department t' = tab_department t \<and> tab_asset_number t' = tab_asset_number t
     \<and> asset_path (tab_status t) (tab_status t')"

definition installation_evolves :: "installation_row \<Rightarrow> installation_row \<Rightarrow> bool" where
  "installation_evolves i i' \<longleftrightarrow> ins_tablet i' = ins_tablet i
     \<and> ins_installation_uuid i' = ins_installation_uuid i \<and> ins_adopted_at i' = ins_adopted_at i
     \<and> (\<not> current_status (ins_status i) \<longrightarrow> ins_status i' = ins_status i)"

definition invitation_evolves :: "invitation_row \<Rightarrow> invitation_row \<Rightarrow> bool" where
  "invitation_evolves v v' \<longleftrightarrow> inv_tablet v' = inv_tablet v \<and> inv_token_hash v' = inv_token_hash v
     \<and> inv_failed_attempt_count v \<le> inv_failed_attempt_count v'
     \<and> (inv_used_at v \<noteq> None \<longrightarrow> inv_used_at v' = inv_used_at v) \<and> (inv_revoked_at v \<noteq> None \<longrightarrow> inv_revoked_at v' \<noteq> None)"

definition request_evolves :: "adoption_request_row \<Rightarrow> adoption_request_row \<Rightarrow> bool" where
  "request_evolves r r' \<longleftrightarrow> req_invitation r' = req_invitation r
     \<and> req_installation_uuid r' = req_installation_uuid r
     \<and> req_failed_attempt_count r \<le> req_failed_attempt_count r'
     \<and> (req_completed_at r \<noteq> None \<longrightarrow> req_completed_at r' = req_completed_at r)"

definition fleet_history :: "fleet \<Rightarrow> fleet \<Rightarrow> bool" where
  "fleet_history f f' \<longleftrightarrow> rows_evolve tab_id tablet_evolves (tablets f) (tablets f')
     \<and> rows_evolve ins_id installation_evolves (installations f) (installations f')
     \<and> rows_evolve inv_id invitation_evolves (invitations f) (invitations f')
     \<and> rows_evolve req_id request_evolves (adoption_requests f) (adoption_requests f')"

definition in_service :: "tablet_status \<Rightarrow> bool" where
  "in_service s \<longleftrightarrow> s = TAB_INACTIVE \<or> s = TAB_ACTIVE"

definition fleet_ids :: "fleet \<Rightarrow> bool" where
  "fleet_ids f \<longleftrightarrow> unique_rows tab_id (tablets f) \<and> unique_rows ins_id (installations f)
     \<and> unique_rows inv_id (invitations f) \<and> unique_rows req_id (adoption_requests f)
     \<and> (\<forall>t\<in>set (tablets f). tab_id t < next_id (base f)) \<and> (\<forall>i\<in>set (installations f). ins_id i < next_id (base f))
     \<and> (\<forall>v\<in>set (invitations f). inv_id v < next_id (base f))
     \<and> (\<forall>r\<in>set (adoption_requests f). req_id r < next_id (base f))"

definition fleet_inv :: "fleet \<Rightarrow> bool" where
  "fleet_inv f \<longleftrightarrow> fleet_ids f \<and> installation_constraints (installations f)
     \<and> (\<forall>i\<in>set (installations f). \<exists>t\<in>set (tablets f). tab_id t = ins_tablet i)
     \<and> (\<forall>t\<in>set (tablets f). tab_active t \<longrightarrow> in_service (tab_status t))
     \<and> (\<forall>t\<in>set (tablets f). \<forall>i\<in>set (installations f).
          ins_tablet i = tab_id t \<and> current_status (ins_status i) \<longrightarrow> in_service (tab_status t))
     \<and> (\<forall>v\<in>set (invitations f). MAX_FAILED_ATTEMPTS \<le> inv_failed_attempt_count v \<longrightarrow> inv_revoked_at v \<noteq> None)"

abbreviation fleet_keeps :: "fleet \<Rightarrow> fleet \<Rightarrow> bool" where
  "fleet_keeps \<equiv> preserves fleet_inv fleet_history"

named_theorems evolve_simps

declare tablet_evolves_def [evolve_simps] installation_evolves_def [evolve_simps]
  invitation_evolves_def [evolve_simps] request_evolves_def [evolve_simps]

lemma asset_path_refl [simp]: "asset_path s s"
  by (simp add: asset_path_def)

lemma asset_path_trans: "asset_path r s \<Longrightarrow> asset_path s t \<Longrightarrow> asset_path r t"
  by (simp add: asset_path_def)

lemma evolves_self [simp]:
  "tablet_evolves t t" "installation_evolves i i" "invitation_evolves v v" "request_evolves r r"
  by (simp_all add: evolve_simps)

lemma evolves_two:
  "tablet_evolves t t' \<Longrightarrow> tablet_evolves t' t'' \<Longrightarrow> tablet_evolves t t''"
  "installation_evolves i i' \<Longrightarrow> installation_evolves i' i'' \<Longrightarrow> installation_evolves i i''"
  "invitation_evolves v v' \<Longrightarrow> invitation_evolves v' v'' \<Longrightarrow> invitation_evolves v v''"
  "request_evolves r r' \<Longrightarrow> request_evolves r' r'' \<Longrightarrow> request_evolves r r''"
  by (auto simp: evolve_simps intro: asset_path_trans)

interpretation fleet_evolution: evolving fleet_inv fleet_history
proof unfold_locales
  show "fleet_history s s" for s by (simp add: fleet_history_def rows_evolve_refl)
  show "fleet_history r s \<Longrightarrow> fleet_history s t \<Longrightarrow> fleet_history r t" for r s t
    unfolding fleet_history_def by (meson evolves_two rows_evolve_trans)
qed

lemmas fleet_keeps_refl [simp] = fleet_evolution.preserves_refl
lemmas fleet_keeps_trans [trans] = fleet_evolution.preserves_trans

subsection \<open>What the statements keep\<close>

definition same_tables :: "fleet \<Rightarrow> fleet \<Rightarrow> bool" where
  "same_tables f f' \<longleftrightarrow> tablets f' = tablets f \<and> installations f' = installations f \<and> invitations f' = invitations f
     \<and> adoption_requests f' = adoption_requests f \<and> next_id (base f) \<le> next_id (base f')"

lemma same_tables_keeps: "same_tables f f' \<Longrightarrow> fleet_keeps f f'"
  by (auto simp: same_tables_def preserves_def fleet_inv_def fleet_ids_def fleet_history_def rows_evolve_refl
      dest: less_le_trans)

lemma keeps_then_same: "fleet_keeps f f1 \<Longrightarrow> same_tables f1 f2 \<Longrightarrow> fleet_keeps f f2"
  using fleet_keeps_trans same_tables_keeps by blast

lemma same_tables_on_base: "same_roles (base f) (g (base f)) \<Longrightarrow> same_tables f (on_base g f)"
  by (simp add: same_tables_def on_base_def same_roles_def)

lemma same_tables_event [simp]: "same_tables f (fleet_event a b c d e g f)"
  by (simp add: fleet_event_def same_tables_on_base)

lemma same_tables_mutation [simp]: "same_tables f (on_base (department_mutation a) f)"
  by (simp add: same_tables_on_base)

lemma same_roles_grants [simp]: "same_roles w (revoke_dataset_key_grants i w)"
  by (simp add: revoke_dataset_key_grants_def Let_def same_roles_def department_is_active_def)

lemma same_roles_grants_fold: "same_roles w (fold revoke_dataset_key_grants is w)"
proof (induction "is" arbitrary: w)
  case (Cons a as)
  show ?case using same_roles_trans [OF same_roles_grants Cons] by simp
qed simp

lemma same_tables_grants [simp]: "same_tables f (revoke_grants_of t P f)"
  by (simp add: revoke_grants_of_def same_tables_on_base same_roles_grants_fold)

lemma same_tables_manifests [simp]: "same_tables f (obsolete_manifests ids now f)"
  by (simp add: obsolete_manifests_def same_tables_def)

lemma same_tables_fresh: "fresh_fleet_id f = (i, f') \<Longrightarrow> same_tables f f' \<and> i = next_id (base f) \<and> next_id (base f') = Suc i"
  by (auto simp: fresh_fleet_id_def fresh_id_def same_tables_def)

lemma fleet_keeps_then:
  assumes "fleet_keeps f f1"
  shows "fleet_keeps f (on_base (department_mutation a) f1)" "fleet_keeps f (fleet_event b c d e g h f1)"
    "fleet_keeps f (revoke_grants_of t P f1)" "fleet_keeps f (obsolete_manifests ids now f1)"
    "fleet_keeps f (on_base (revoke_dataset_key_grants i) f1)"
  using keeps_then_same [OF assms] by (simp_all add: same_tables_on_base)

lemma keeps_map_installations:
  assumes "put_installations (map g (installations f)) f = Inr f'"
    and "\<And>i. i \<in> set (installations f) \<Longrightarrow> ins_id (g i) = ins_id i \<and> installation_evolves i (g i)"
  shows "fleet_keeps f f'"
proof -
  have f': "f' = f\<lparr>installations := map g (installations f)\<rparr>" and c: "installation_constraints (map g (installations f))"
    using assms(1) by (auto simp: put_installations_def split: if_splits)
  have cur: "current_status (ins_status (g i)) \<Longrightarrow> current_status (ins_status i) \<and> ins_tablet (g i) = ins_tablet i"
    if "i \<in> set (installations f)" for i
    using assms(2) [OF that] by (auto simp: evolve_simps)
  have key: "unique_rows (ins_id \<circ> g) (installations f) \<longleftrightarrow> unique_rows ins_id (installations f)" using assms(2) by (simp add: unique_rows_map)
  have "fleet_history f f'"
    using assms(2) by (auto simp: fleet_history_def f' rows_evolve_refl intro!: rows_evolve_map)
  moreover have "fleet_inv f'" if inv: "fleet_inv f"
  proof -
    have "fleet_ids f'" using inv key assms(2) by (simp add: f' fleet_inv_def fleet_ids_def)
    moreover have "\<exists>t\<in>set (tablets f'). tab_id t = ins_tablet x" if "x \<in> set (installations f')" for x
      using that inv assms(2) by (auto simp: f' fleet_inv_def installation_evolves_def)
    moreover have "in_service (tab_status t)"
      if "t \<in> set (tablets f')" "x \<in> set (installations f')" "ins_tablet x = tab_id t" "current_status (ins_status x)" for t x
    proof -
      from that(2) obtain y where y: "y \<in> set (installations f)" "x = g y" by (auto simp: f')
      then have "ins_tablet y = tab_id t" "current_status (ins_status y)" using cur [of y] that(3,4) by simp_all
      then show ?thesis using y(1) that(1) inv by (auto simp: f' fleet_inv_def)
    qed
    ultimately show ?thesis using inv c by (simp add: fleet_inv_def f')
  qed
  ultimately show ?thesis by (simp add: preserves_def)
qed

lemma keeps_update_installation:
  assumes "update_installation i g f = Inr f'"
    and "\<And>r. r \<in> set (installations f) \<Longrightarrow> ins_id r = i \<Longrightarrow> ins_id (g r) = i \<and> installation_evolves r (g r)"
  shows "fleet_keeps f f'"
  by (rule keeps_map_installations [OF assms(1) [unfolded update_installation_def]]) (use assms(2) in auto)

lemma keeps_append_installation:
  assumes "put_installations (installations f @ [n]) f = Inr f'" and "ins_id n < next_id (base f)"
    and "\<And>i. i \<in> set (installations f) \<Longrightarrow> ins_id i \<noteq> ins_id n"
    and "\<exists>t\<in>set (tablets f). tab_id t = ins_tablet n \<and> in_service (tab_status t)"
  shows "fleet_keeps f f'"
proof -
  have f': "f' = f\<lparr>installations := installations f @ [n]\<rparr>" and c: "installation_constraints (installations f @ [n])"
    using assms(1) by (auto simp: put_installations_def split: if_splits)
  show ?thesis
    unfolding preserves_def
  proof (intro impI)
    assume inv: "fleet_inv f"
    then have u: "unique_rows tab_id (tablets f)" by (simp add: fleet_inv_def fleet_ids_def)
    have s: "in_service (tab_status t)" if "t \<in> set (tablets f)" "tab_id t = ins_tablet n" for t
      using assms(4) u that by (auto simp: distinct_map inj_on_def)
    have "fleet_ids f'" using inv assms(2,3) by (auto simp: fleet_inv_def fleet_ids_def f' dest: sym)
    then have "fleet_inv f'"
      using inv assms(4) c s by (auto simp: fleet_inv_def f')
    then show "fleet_inv f' \<and> fleet_history f f'"
      by (simp add: fleet_history_def f' rows_evolve_refl rows_evolve_append)
  qed
qed

lemma keeps_map_tablets:
  assumes f': "f' = f\<lparr>tablets := map g (tablets f)\<rparr>"
    and g: "\<And>t. t \<in> set (tablets f) \<Longrightarrow> tab_id (g t) = tab_id t \<and> tablet_evolves t (g t)"
    and a: "\<And>t. t \<in> set (tablets f) \<Longrightarrow> (tab_active t \<longrightarrow> in_service (tab_status t))
       \<Longrightarrow> (tab_active (g t) \<longrightarrow> in_service (tab_status (g t)))"
    and s: "\<And>t x. t \<in> set (tablets f) \<Longrightarrow> x \<in> set (installations f) \<Longrightarrow> ins_tablet x = tab_id t \<Longrightarrow> current_status (ins_status x)
       \<Longrightarrow> in_service (tab_status t) \<Longrightarrow> in_service (tab_status (g t))"
  shows "fleet_keeps f f'"
proof -
  have key: "unique_rows (tab_id \<circ> g) (tablets f) \<longleftrightarrow> unique_rows tab_id (tablets f)" using g by (simp add: unique_rows_map)
  have "fleet_history f f'"
    using g by (auto simp: fleet_history_def f' rows_evolve_refl intro!: rows_evolve_map)
  moreover have "fleet_inv f'" if inv: "fleet_inv f"
  proof -
    have "fleet_ids f'" using inv key g by (simp add: f' fleet_inv_def fleet_ids_def)
    moreover have "tab_active t \<longrightarrow> in_service (tab_status t)" if "t \<in> set (tablets f')" for t
      using that a inv by (auto simp: f' fleet_inv_def)
    moreover have "in_service (tab_status t)"
      if "t \<in> set (tablets f')" "x \<in> set (installations f')" "ins_tablet x = tab_id t" "current_status (ins_status x)" for t x
    proof -
      from that(1) obtain y where y: "y \<in> set (tablets f)" "t = g y" by (auto simp: f')
      moreover from y have "ins_tablet x = tab_id y" using g that(3) by simp
      moreover have "in_service (tab_status y)" using inv that(2,4) y(1) calculation(3) by (auto simp: fleet_inv_def f')
      ultimately show ?thesis using s [of y x] that(2,4) by (simp add: f')
    qed
    moreover have "\<exists>t\<in>set (tablets f'). tab_id t = ins_tablet x" if "x \<in> set (installations f')" for x
    proof -
      from that inv obtain t where "t \<in> set (tablets f)" "tab_id t = ins_tablet x" by (auto simp: f' fleet_inv_def)
      then show ?thesis using g by (auto simp: f')
    qed
    ultimately show ?thesis using inv by (simp add: fleet_inv_def f')
  qed
  ultimately show ?thesis by (simp add: preserves_def)
qed

lemma withdraw_active_keeps:
  assumes "update_tablet i (\<lambda>t. t\<lparr>tab_active := False\<rparr>) f = Inr f'"
  shows "fleet_keeps f f'"
proof (rule keeps_map_tablets)
  show "f' = f\<lparr>tablets := map (\<lambda>r. if tab_id r = i then r\<lparr>tab_active := False\<rparr> else r) (tablets f)\<rparr>"
    using assms by (auto simp: update_tablet_def put_tablets_def split: if_splits)
qed (auto simp: tablet_evolves_def asset_path_def)

lemma keeps_asset_change:
  assumes "finish_asset_change actor tablet status active action f = Inr f'"
    and "tablet \<in> set (tablets f)" and "status \<in> set (ASSET_TRANSITIONS (tab_status tablet))"
    and "active \<longleftrightarrow> in_service status" and "unique_rows tab_id (tablets f)"
    and "\<not> in_service status \<longrightarrow> (\<forall>x\<in>set (installations f). ins_tablet x = tab_id tablet \<longrightarrow> \<not> current_status (ins_status x))"
  shows "fleet_keeps f f'"
proof -
  from assms(1) obtain f1 where f1: "update_tablet (tab_id tablet) (\<lambda>t. t\<lparr>tab_status := status, tab_active := active\<rparr>) f = Inr f1"
    and f': "f' = on_base (department_mutation actor)
       (fleet_event action actor (Some (tab_department tablet)) ''tablet'' (tab_id tablet) [] f1)"
    by (auto simp: finish_asset_change_def bind_res_Inr)
  have f1': "f1 = f\<lparr>tablets := map (\<lambda>r. if tab_id r = tab_id tablet then r\<lparr>tab_status := status, tab_active := active\<rparr> else r)
      (tablets f)\<rparr>"
    using f1 by (auto simp: update_tablet_def put_tablets_def split: if_splits)
  have same: "t = tablet" if "t \<in> set (tablets f)" "tab_id t = tab_id tablet" for t
    using assms(2,5) that by (auto simp: distinct_map inj_on_def)
  have "asset_path (tab_status tablet) status" using assms(3) by (auto simp: asset_path_def)
  then have "fleet_keeps f f1"
    using assms(4,6) same by (intro keeps_map_tablets [OF f1']) (auto simp: tablet_evolves_def)
  then show ?thesis by (simp add: f' fleet_keeps_then)
qed

lemma keeps_map_invitations:
  assumes "f' = f\<lparr>invitations := map g (invitations f)\<rparr>"
    and "\<And>v. v \<in> set (invitations f) \<Longrightarrow> inv_id (g v) = inv_id v \<and> invitation_evolves v (g v)
       \<and> (MAX_FAILED_ATTEMPTS \<le> inv_failed_attempt_count (g v) \<longrightarrow> inv_revoked_at (g v) \<noteq> None)"
  shows "fleet_keeps f f'"
proof -
  have key: "unique_rows (inv_id \<circ> g) (invitations f) \<longleftrightarrow> unique_rows inv_id (invitations f)" using assms(2) by (simp add: unique_rows_map)
  show ?thesis
    using assms(2)
    by (auto simp: preserves_def fleet_inv_def fleet_ids_def fleet_history_def assms(1) key rows_evolve_refl intro!: rows_evolve_map)
qed

lemma keeps_map_requests:
  assumes "f' = f\<lparr>adoption_requests := map g (adoption_requests f)\<rparr>"
    and "\<And>r. r \<in> set (adoption_requests f) \<Longrightarrow> req_id (g r) = req_id r \<and> request_evolves r (g r)"
  shows "fleet_keeps f f'"
proof -
  have key: "unique_rows (req_id \<circ> g) (adoption_requests f) \<longleftrightarrow> unique_rows req_id (adoption_requests f)" using assms(2) by (simp add: unique_rows_map)
  show ?thesis
    using assms(2)
    by (auto simp: preserves_def fleet_inv_def fleet_ids_def fleet_history_def assms(1) key rows_evolve_refl intro!: rows_evolve_map)
qed

lemma keepsI: "(fleet_inv f \<Longrightarrow> fleet_keeps f f') \<Longrightarrow> fleet_keeps f f'"
  by (simp add: preserves_def)

lemma keeps_append_invitation:
  assumes "f' = f\<lparr>invitations := invitations f @ [v]\<rparr>" and "inv_id v < next_id (base f)"
    and "\<And>x. x \<in> set (invitations f) \<Longrightarrow> inv_id x \<noteq> inv_id v" and "inv_failed_attempt_count v = 0"
  shows "fleet_keeps f f'"
  using assms(2-4)
  by (auto simp: preserves_def fleet_inv_def fleet_ids_def fleet_history_def assms(1) rows_evolve_refl rows_evolve_append
      MAX_FAILED_ATTEMPTS_def dest: sym)

lemma keeps_append_request:
  assumes "f' = f\<lparr>adoption_requests := adoption_requests f @ [r]\<rparr>" and "req_id r < next_id (base f)"
    and "\<And>x. x \<in> set (adoption_requests f) \<Longrightarrow> req_id x \<noteq> req_id r"
  shows "fleet_keeps f f'"
  using assms(2,3)
  by (auto simp: preserves_def fleet_inv_def fleet_ids_def fleet_history_def assms(1) rows_evolve_refl rows_evolve_append
      dest: sym)

lemma keeps_append_tablet:
  assumes "f' = f\<lparr>tablets := tablets f @ [t]\<rparr>" and "tab_id t < next_id (base f)"
    and "\<And>x. x \<in> set (tablets f) \<Longrightarrow> tab_id x \<noteq> tab_id t" and "tab_active t" and "in_service (tab_status t)"
  shows "fleet_keeps f f'"
proof -
  have "fleet_ids f'" if "fleet_inv f"
    using that assms(2,3) by (auto simp: fleet_inv_def fleet_ids_def assms(1) dest: sym)
  then show ?thesis
    using assms(4,5)
    by (auto simp: preserves_def fleet_inv_def fleet_history_def assms(1) rows_evolve_refl rows_evolve_append)
qed

text \<open>A freshly drawn identifier is used by no row.\<close>

lemma fresh_unused:
  assumes "fleet_inv f" and "fresh_fleet_id f = (i, f1)"
  shows "\<And>t. t \<in> set (tablets f1) \<Longrightarrow> tab_id t \<noteq> i" "\<And>x. x \<in> set (installations f1) \<Longrightarrow> ins_id x \<noteq> i"
    "\<And>v. v \<in> set (invitations f1) \<Longrightarrow> inv_id v \<noteq> i" "\<And>r. r \<in> set (adoption_requests f1) \<Longrightarrow> req_id r \<noteq> i"
    "i < next_id (base f1)" "fleet_keeps f f1"
  using assms(1) same_tables_fresh [OF assms(2)] same_tables_keeps
  by (auto simp: fleet_inv_def fleet_ids_def same_tables_def)

lemma fetch_unique:
  assumes "fleet_inv f"
  shows "fetch_request q f = Inr r \<Longrightarrow> x \<in> set (adoption_requests f) \<Longrightarrow> req_id x = q \<Longrightarrow> x = r"
    and "fetch_invitation i f = Inr v \<Longrightarrow> y \<in> set (invitations f) \<Longrightarrow> inv_id y = i \<Longrightarrow> y = v"
    and "fetch_installation j f = Inr n \<Longrightarrow> z \<in> set (installations f) \<Longrightarrow> ins_id z = j \<Longrightarrow> z = n"
    and "fetch_tablet k f = Inr t \<Longrightarrow> u \<in> set (tablets f) \<Longrightarrow> tab_id u = k \<Longrightarrow> u = t"
  using assms
  by (auto simp: fleet_inv_def fleet_ids_def fetch_request_def fetch_invitation_def fetch_installation_def fetch_tablet_def
      of_option_Inr row_get_unique)

subsection \<open>Registration and adoption\<close>

lemma insert_tablet_keeps:
  assumes "insert_tablet d n a actor f = Inr (i, f')"
  shows "fleet_keeps f f'"
proof (rule keepsI)
  assume inv: "fleet_inv f"
  obtain j f1 where j: "fresh_fleet_id f = (j, f1)" by fastforce
  with assms obtain t where "f' = f1\<lparr>tablets := tablets f1 @ [t]\<rparr>" "t = new_tablet j d n a actor (clock (base f))"
    by (auto simp: insert_tablet_def bind_res_Inr put_tablets_def split: if_splits)
  moreover note fresh_unused [OF inv j]
  ultimately have "fleet_keeps f1 f'"
    by (intro keeps_append_tablet) (auto simp: new_tablet_def in_service_def)
  with \<open>fleet_keeps f f1\<close> show "fleet_keeps f f'" by (rule fleet_keeps_trans)
qed

lemma next_number_same:
  assumes "next_generated_asset_number d f = Inr (a, f')"
  shows "same_tables f f'"
  using assms
  by (auto simp: next_generated_asset_number_def Let_def bind_res_Inr same_tables_def on_base_def save_department_def)

lemma create_generated_tablet_Inr:
  assumes "create_generated_tablet (Suc n) actor d name f = Inr r"
  obtains a f1 where "next_generated_asset_number d f = Inr (a, f1)"
    "asset_number_taken d a f1 \<Longrightarrow> create_generated_tablet n actor d name f1 = Inr r"
    "\<not> asset_number_taken d a f1 \<Longrightarrow> insert_tablet d name a actor f1 = Inr r"
proof -
  from assms obtain a f1 where n: "next_generated_asset_number d f = Inr (a, f1)"
    by (auto simp: bind_res_Inr)
  with assms have "asset_number_taken d a f1 \<longrightarrow> create_generated_tablet n actor d name f1 = Inr r"
    and "\<not> asset_number_taken d a f1 \<longrightarrow> insert_tablet d name a actor f1 = Inr r"
    by auto
  with n show ?thesis using that by blast
qed

lemma create_generated_tablet_keeps:
  "create_generated_tablet n actor d name f = Inr (i, f') \<Longrightarrow> fleet_keeps f f'"
proof (induction n arbitrary: f)
  case (Suc n)
  from Suc.prems show ?case
  proof (rule create_generated_tablet_Inr)
    fix a f1
    assume n: "next_generated_asset_number d f = Inr (a, f1)"
      and t: "asset_number_taken d a f1 \<Longrightarrow> create_generated_tablet n actor d name f1 = Inr (i, f')"
      and u: "\<not> asset_number_taken d a f1 \<Longrightarrow> insert_tablet d name a actor f1 = Inr (i, f')"
    have "fleet_keeps f1 f'" using t u Suc.IH insert_tablet_keeps by blast
    then show ?thesis using same_tables_keeps [OF next_number_same [OF n]] fleet_keeps_trans by blast
  qed
qed simp

lemma create_tablet_keeps:
  assumes "create_tablet actor d name asset f = Inr (i, f')"
  shows "fleet_keeps f f'"
  using assms unfolding create_tablet_def Let_def
proof (elim bind_resE, goal_cases)
  case (1 dep x1 x2 x3 r)
  obtain j f1 where r: "r = (j, f1)" by fastforce
  have "fleet_keeps f f1"
    using 1(5) r create_generated_tablet_keeps insert_tablet_keeps
    by (auto simp: bind_res_Inr split: if_splits)
  with 1(6) r show ?case by (auto intro!: fleet_keeps_then)
qed

lemma create_adoption_invitation_keeps:
  assumes "create_adoption_invitation T actor t e token f = Inr (i, f')"
  shows "fleet_keeps f f'"
proof (rule keepsI)
  assume inv: "fleet_inv f"
  obtain j f1 where j: "fresh_fleet_id f = (j, f1)" by fastforce
  let ?v = "new_invitation j t (secret_digest T token) e actor (clock (base f))"
  from assms j obtain x where "f' = on_base (department_mutation actor) (fleet_event ''tablet.adoption_invitation_created''
      actor x ''adoption_invitation'' i [] (f1\<lparr>invitations := invitations f1 @ [?v]\<rparr>))"
    by (auto simp: create_adoption_invitation_def Let_def bind_res_Inr split: if_splits)
  moreover note fresh_unused [OF inv j]
  moreover from calculation have "fleet_keeps f1 (f1\<lparr>invitations := invitations f1 @ [?v]\<rparr>)"
    by (intro keeps_append_invitation) (auto simp: new_invitation_def)
  ultimately show "fleet_keeps f f'" using fleet_keeps_trans by (auto intro!: fleet_keeps_then)
qed

lemma initiate_replacement_keeps:
  assumes "initiate_installation_replacement T actor t e token f = Inr (i, f')"
  shows "fleet_keeps f f'"
  using assms unfolding initiate_installation_replacement_def
proof (elim bind_resE, goal_cases)
  case (1 r)
  then show ?case
    by (cases r) (auto simp: bind_res_Inr intro!: fleet_keeps_then dest: create_adoption_invitation_keeps)
qed

lemma create_adoption_request_keeps:
  assumes "create_adoption_request T token u v b pk cs nonce f = Inr (i, f')"
  shows "fleet_keeps f f'"
proof (rule keepsI)
  assume inv: "fleet_inv f"
  obtain j f1 where j: "fresh_fleet_id f = (j, f1)" by fastforce
  from assms have "f' = f1\<lparr>adoption_requests := adoption_requests f'\<rparr>
      \<and> (\<exists>r. adoption_requests f' = adoption_requests f1 @ [r] \<and> req_id r = j)"
    unfolding create_adoption_request_def
    by (elim bind_resE) (auto simp: Let_def j bind_res_Inr split: prod.splits)
  then obtain r where "req_id r = j" "f' = f1\<lparr>adoption_requests := adoption_requests f1 @ [r]\<rparr>" by metis
  moreover note fresh_unused [OF inv j]
  moreover from calculation have "fleet_keeps f1 f'" by (intro keeps_append_request) auto
  ultimately show "fleet_keeps f f'" using fleet_keeps_trans by blast
qed

lemma record_failed_attempt_keeps:
  assumes "record_failed_attempt q f = Inr f'"
  shows "fleet_keeps f f'"
proof (rule keepsI)
  assume inv: "fleet_inv f"
  from assms obtain r where r: "fetch_request q f = Inr r" by (auto simp: record_failed_attempt_def bind_res_Inr)
  show "fleet_keeps f f'"
  proof (cases "req_completed_at r \<noteq> None \<or> req_expires_at r \<le> clock (base f)")
    case True
    with assms r show ?thesis by (auto simp: record_failed_attempt_def Let_def split: if_splits)
  next
    case False
    let ?bump = "\<lambda>v :: invitation_row. v\<lparr>inv_failed_attempt_count := inv_failed_attempt_count v + 1\<rparr>"
    from False assms r obtain v where v: "fetch_invitation (req_invitation r) f = Inr v"
      by (auto simp: record_failed_attempt_def Let_def bind_res_Inr)
    define g where "g = (\<lambda>x. if inv_id x = inv_id v
      then (if MAX_FAILED_ATTEMPTS \<le> inv_failed_attempt_count v + 1 then (?bump x)\<lparr>inv_revoked_at := Some (clock (base f))\<rparr> else ?bump x)
      else x)"
    define f1 where "f1 = f\<lparr>adoption_requests := map (\<lambda>x. if req_id x = q
      then x\<lparr>req_failed_attempt_count := req_failed_attempt_count x + 1\<rparr> else x) (adoption_requests f)\<rparr>"
    have "inv_id v = req_invitation r" using v by (simp add: fetch_invitation_def of_option_Inr row_get_key)
    then have same: "x = v" if "x \<in> set (invitations f)" "inv_id x = inv_id v" for x
      using fetch_unique(2) [OF inv v that(1)] that(2) by simp
    have ok: "MAX_FAILED_ATTEMPTS \<le> inv_failed_attempt_count x \<longrightarrow> inv_revoked_at x \<noteq> None" if "x \<in> set (invitations f)" for x
      using inv that by (simp add: fleet_inv_def)
    have "fleet_keeps f f1" by (rule keeps_map_requests [OF f1_def]) (simp add: request_evolves_def)
    moreover have "fleet_keeps f1 (f1\<lparr>invitations := map g (invitations f1)\<rparr>)"
      by (rule keeps_map_invitations [OF refl]) (use same ok in \<open>auto simp: g_def f1_def invitation_evolves_def\<close>)
    moreover have "\<exists>m. f' = fleet_event ''tablet.adoption_proof_failed'' None None ''adoption_request'' q m
        (f1\<lparr>invitations := map g (invitations f1)\<rparr>)"
      using assms False r v
      by (auto simp: record_failed_attempt_def Let_def update_request_def update_invitation_def f1_def g_def comp_def
          intro!: exI arg_cong [where f = "fleet_event _ _ _ _ _ _"] split: if_splits)
    ultimately show ?thesis using fleet_keeps_trans by (auto intro!: fleet_keeps_then)
  qed
qed

lemma fetch_tablet_mem: "fetch_tablet i f = Inr t \<Longrightarrow> t \<in> set (tablets f) \<and> tab_id t = i"
  by (simp add: fetch_tablet_def of_option_Inr row_get_SomeD)

lemma operational_in_service: "require_operational_tablet t f = Inr x \<Longrightarrow> in_service (tab_status t)"
  by (auto simp: require_operational_tablet_def bind_res_Inr require_Inr in_service_def)

text \<open>The rest of an adoption once the new installation is stored.\<close>

definition close_adoption :: "nat \<Rightarrow> nat \<Rightarrow> nat \<Rightarrow> timestamp \<Rightarrow> fleet \<Rightarrow> fleet" where
  "close_adoption tablet_id request_id invitation_id now f =
     update_invitation invitation_id (\<lambda>r. r\<lparr>inv_used_at := Some now\<rparr>)
       (update_request request_id (\<lambda>r. r\<lparr>req_completed_at := Some now,
          req_completion_replay_valid_until := Some (now + COMPLETION_REPLAY_DURATION)\<rparr>)
         (revoke_grants_of tablet_id (\<lambda>s. s = INS_REPLACED) f))"

lemma close_adoption_keeps:
  assumes inv: "fleet_inv f" and q: "fetch_request q f = Inr r" "req_completed_at r = None"
    and v: "fetch_invitation i f = Inr v" "inv_used_at v = None"
  shows "fleet_keeps f (close_adoption t q i now f)"
proof -
  let ?f1 = "revoke_grants_of t (\<lambda>s. s = INS_REPLACED) f"
  let ?g = "\<lambda>x :: adoption_request_row. if req_id x = q then x\<lparr>req_completed_at := Some now,
    req_completion_replay_valid_until := Some (now + COMPLETION_REPLAY_DURATION)\<rparr> else x"
  let ?f2 = "?f1\<lparr>adoption_requests := map ?g (adoption_requests ?f1)\<rparr>"
  let ?h = "\<lambda>x :: invitation_row. if inv_id x = i then x\<lparr>inv_used_at := Some now\<rparr> else x"
  have s: "adoption_requests ?f1 = adoption_requests f" "invitations ?f1 = invitations f"
    using same_tables_grants [of f t] by (simp_all add: same_tables_def)
  have q': "x = r" if "x \<in> set (adoption_requests f)" "req_id x = q" for x
    by (rule fetch_unique(1) [OF inv q(1) that])
  have v': "x = v" if "x \<in> set (invitations f)" "inv_id x = i" for x
    by (rule fetch_unique(2) [OF inv v(1) that])
  have ok: "MAX_FAILED_ATTEMPTS \<le> inv_failed_attempt_count x \<longrightarrow> inv_revoked_at x \<noteq> None" if "x \<in> set (invitations f)" for x
    using inv that by (simp add: fleet_inv_def)
  have "fleet_keeps f ?f1" by (simp add: same_tables_keeps)
  also have "fleet_keeps ?f1 ?f2"
    by (rule keeps_map_requests [OF refl]) (use q q' in \<open>auto simp: s request_evolves_def\<close>)
  also have "fleet_keeps ?f2 (?f2\<lparr>invitations := map ?h (invitations ?f2)\<rparr>)"
    by (rule keeps_map_invitations [OF refl]) (use v v' ok in \<open>auto simp: s invitation_evolves_def\<close>)
  finally show ?thesis
    by (simp add: close_adoption_def update_invitation_def update_request_def)
qed

lemma complete_successful_adoption_keeps:
  assumes "complete_successful_adoption T q credential f = Inr (i, f')"
  shows "fleet_keeps f f'"
proof (rule keepsI)
  assume inv: "fleet_inv f"
  show "fleet_keeps f f'"
    using assms unfolding complete_successful_adoption_def Let_def
  proof (elim bind_resE, goal_cases)
    case (1 r v x1 x2 t x3 x4 d f1)
    let ?n = "new_installation (next_id (base f1)) t d r v (secret_digest T credential) (clock (base f))"
    obtain f2 where f2: "fresh_fleet_id f1 = (next_id (base f1), f2)"
      using same_tables_fresh by (metis prod.collapse)
    from 1(10) f2 obtain f3 where f3: "put_installations (installations f2 @ [?n]) f2 = Inr f3"
      and f': "\<exists>m. f' = fleet_event ''tablet.adopted'' (inv_created_by v) (Some (tab_department t)) ''app_installation'' i m
        (close_adoption (tab_id t) q (inv_id v) (clock (base f)) f3)"
      by (auto simp: bind_res_Inr close_adoption_def)
    have t: "t \<in> set (tablets f)" "in_service (tab_status t)"
      using fetch_tablet_mem [OF 1(5)] operational_in_service [OF 1(6)] by auto
    have k1: "fleet_keeps f f1"
      by (rule keeps_map_installations [OF 1(9)]) (auto simp: installation_evolves_def)
    then have inv1: "fleet_inv f1" using inv by (simp add: preserves_def)
    have s1: "tablets f1 = tablets f" "invitations f1 = invitations f" "adoption_requests f1 = adoption_requests f"
      using 1(9) by (auto simp: put_installations_def split: if_splits)
    note fresh = fresh_unused [OF inv1 f2] and s2 = same_tables_fresh [OF f2]
    have k3: "fleet_keeps f2 f3"
      by (rule keeps_append_installation [OF f3])
         (use fresh s2 s1 t in \<open>auto simp: new_installation_def same_tables_def\<close>)
    have inv3: "fleet_inv f3" using k1 fresh(6) k3 inv by (simp add: preserves_def)
    have s3: "invitations f3 = invitations f" "adoption_requests f3 = adoption_requests f"
      using f3 s2 s1 by (auto simp: put_installations_def same_tables_def split: if_splits)
    have "inv_id v = req_invitation r" using 1(2) by (simp add: fetch_invitation_def of_option_Inr row_get_key)
    then have "fleet_keeps f3 (close_adoption (tab_id t) q (inv_id v) (clock (base f)) f3)"
      using 1(1-4) by (intro close_adoption_keeps [OF inv3, of _ r _ v])
        (auto simp: fetch_request_def fetch_invitation_def s3 require_Inr require_open_request_def bind_res_Inr)
    then have "fleet_keeps f (close_adoption (tab_id t) q (inv_id v) (clock (base f)) f3)"
      using k1 fresh(6) k3 fleet_keeps_trans by blast
    with f' show ?case by (auto intro!: fleet_keeps_then)
  qed
qed

lemma replay_successful_completion_keeps:
  assumes "replay_successful_completion T q response credential f = Inr (i, f')"
  shows "fleet_keeps f f'"
  using assms unfolding replay_successful_completion_def Let_def
proof (elim bind_resE, goal_cases)
  case (1 r v n x1 x2 t f1)
  have "fleet_keeps f f1" by (rule keeps_update_installation [OF 1(7)]) (simp add: installation_evolves_def)
  with 1(8) show ?case by (auto intro!: fleet_keeps_then)
qed

subsection \<open>Check-in\<close>

lemma telemetry_fields_same [simp]:
  "ins_id (telemetry_fields t now i) = ins_id i" "ins_tablet (telemetry_fields t now i) = ins_tablet i"
  "ins_installation_uuid (telemetry_fields t now i) = ins_installation_uuid i"
  "ins_status (telemetry_fields t now i) = ins_status i" "ins_adopted_at (telemetry_fields t now i) = ins_adopted_at i"
  "ins_authorization_valid_until (telemetry_fields t now i) = ins_authorization_valid_until i"
  "ins_credential_hash (telemetry_fields t now i) = ins_credential_hash i"
  "ins_revoked_at (telemetry_fields t now i) = ins_revoked_at i"
  by (simp_all add: telemetry_fields_def update_app_telemetry_def split: option.splits)

lemma mark_stale_keeps:
  assumes "mark_stale n t now f = Inr f'" and "\<And>x. x \<in> set (installations f) \<Longrightarrow> ins_id x = ins_id n \<Longrightarrow> current_status (ins_status x)"
  shows "fleet_keeps f f'"
proof -
  from assms(1) obtain f1 where u: "update_installation (ins_id n)
      (\<lambda>i. i\<lparr>ins_status := INS_STALE, ins_stale_at := Some now\<rparr>) f = Inr f1"
    and f': "\<exists>e. f' = fleet_event ''tablet.became_stale'' None e ''app_installation'' (ins_id n) [] f1"
    by (auto simp: mark_stale_def bind_res_Inr)
  have "fleet_keeps f f1"
    by (rule keeps_update_installation [OF u]) (use assms(2) in \<open>auto simp: installation_evolves_def current_status_def\<close>)
  with f' show ?thesis by (auto intro!: fleet_keeps_then)
qed

lemma recover_stale_keeps:
  assumes "recover_stale_installation n t d now f = Inr f'"
    and "\<And>x. x \<in> set (installations f) \<Longrightarrow> ins_id x = ins_id n \<Longrightarrow> current_status (ins_status x)"
  shows "fleet_keeps f f'"
  using assms(1) unfolding recover_stale_installation_def
proof (elim bind_resE, goal_cases)
  case (1 x1 x2 f1)
  have "fleet_keeps f f1"
    by (rule keeps_update_installation [OF 1(3)]) (use assms(2) in \<open>auto simp: installation_evolves_def current_status_def\<close>)
  with 1(4) show ?case by (auto intro!: fleet_keeps_then)
qed

lemma fleet_event_tables [simp]:
  "installations (fleet_event a b c d e g f) = installations f" "tablets (fleet_event a b c d e g f) = tablets f"
  "invitations (fleet_event a b c d e g f) = invitations f" "adoption_requests (fleet_event a b c d e g f) = adoption_requests f"
  using same_tables_event [of f] by (simp_all add: same_tables_def)

text \<open>The installation with the given key is current.\<close>

definition current_at :: "nat \<Rightarrow> fleet \<Rightarrow> bool" where
  "current_at i f \<longleftrightarrow> (\<forall>x\<in>set (installations f). ins_id x = i \<longrightarrow> current_status (ins_status x))"

lemma mark_stale_current_at:
  assumes "mark_stale n t now f = Inr f'" and "current_at j f"
  shows "current_at j f'"
proof -
  have "installations f' = map (\<lambda>r. if ins_id r = ins_id n then r\<lparr>ins_status := INS_STALE, ins_stale_at := Some now\<rparr> else r)
      (installations f)"
    using assms(1) by (auto simp: mark_stale_def bind_res_Inr update_installation_def put_installations_def split: if_splits)
  with assms(2) show ?thesis by (auto simp: current_at_def current_status_def)
qed

lemma stale_step_keeps:
  assumes "mark_stale n t now f = Inr f'" and "current_at (ins_id n) f"
  shows "fleet_keeps f f' \<and> current_at (ins_id n) f'"
proof
  show "fleet_keeps f f'" using assms mark_stale_keeps by (auto simp: current_at_def)
  show "current_at (ins_id n) f'" using assms by (rule mark_stale_current_at)
qed

lemma authorize_check_in_keeps:
  assumes "authorize_check_in n t d now f = Inr (a, f')" and "current_at (ins_id n) f"
  shows "fleet_keeps f f'"
  using assms recover_stale_keeps
  by (auto simp: authorize_check_in_def current_at_def bind_res_Inr split: if_splits)

lemma operational_check_in_keeps:
  assumes "operational_check_in n tab d t m f = Inr (b, f')" and cur: "current_at (ins_id n) f"
  shows "fleet_keeps f f'"
  using assms(1) unfolding operational_check_in_def Let_def
proof (elim bind_resE, goal_cases)
  case (1 f1 blocked)
  let ?now = "clock (base f)"
  have f1: "fleet_keeps f f1 \<and> current_at (ins_id n) f1"
    using 1(1) cur stale_step_keeps by (auto split: if_splits)
  have tel: "fleet_keeps f1 f2" if "update_installation (ins_id n) g f1 = Inr f2"
    "\<And>x. ins_id (g x) = ins_id x \<and> installation_evolves x (g x)" for g f1 f2
    by (rule keeps_update_installation [OF that(1)]) (use that(2) in auto)
  show ?case
  proof (cases blocked)
    case True
    with 1(3) have "fleet_keeps f1 f'" by (auto simp: bind_res_Inr installation_evolves_def intro: tel)
    with f1 show ?thesis using fleet_keeps_trans by blast
  next
    case False
    let ?n = "n\<lparr>ins_status := if ins_status n = INS_ACTIVE \<and> ins_authorization_valid_until n \<le> ?now then INS_STALE else ins_status n\<rparr>"
    from False 1(3) obtain a f2 g where a: "authorize_check_in ?n tab d ?now f1 = Inr (a, f2)"
      and u: "update_installation (ins_id n) (\<lambda>i. (telemetry_fields t ?now i)\<lparr>ins_last_successful_check_in_at := Some ?now,
        ins_authorization_valid_until := g i\<rparr>) f2 = Inr f'"
      by (auto simp: bind_res_Inr)
    have "fleet_keeps f1 f2" using authorize_check_in_keeps [OF a] f1 by simp
    moreover have "fleet_keeps f2 f'" by (rule tel [OF u]) (simp add: installation_evolves_def)
    ultimately show ?thesis using f1 fleet_keeps_trans by blast
  qed
qed

lemma check_in_keeps:
  assumes "check_in T i credential t m f = Inr (b, f')"
  shows "fleet_keeps f f'"
proof (rule keepsI)
  assume inv: "fleet_inv f"
  show "fleet_keeps f f'"
    using assms unfolding check_in_def Let_def
  proof (elim bind_resE, goal_cases)
    case (1 n tab d x1 x2)
    have n: "x = n" if "x \<in> set (installations f)" "ins_id x = i" for x by (rule fetch_unique(3) [OF inv 1(1) that])
    have "ins_id n = i" using 1(1) by (simp add: fetch_installation_def of_option_Inr row_get_key)
    then have cur: "current_at (ins_id n) f" using 1(5) n by (auto simp: require_Inr current_at_def)
    show ?case
    proof (cases "tab_status tab = TAB_INACTIVE")
      case True
      with 1(6) show ?thesis
        by (auto simp: bind_res_Inr installation_evolves_def intro: keeps_update_installation)
    qed (use 1(6) cur operational_check_in_keeps in auto)
  qed
qed

lemma refresh_keeps:
  assumes "refresh_installation_lease T i credential t m f = Inr (b, f')"
  shows "fleet_keeps f f'"
  using assms unfolding refresh_installation_lease_def Let_def
proof (elim bind_resE, goal_cases)
  case (1 n tab d x1 x2 x3 x4 blocked)
  have tel: "fleet_keeps f f2" if "update_installation i g f = Inr f2"
    "\<And>x. ins_id (g x) = ins_id x \<and> installation_evolves x (g x)" for g f2
    by (rule keeps_update_installation [OF that(1)]) (use that(2) in auto)
  from 1(9) show ?case
    by (auto simp: bind_res_Inr installation_evolves_def intro: tel intro!: fleet_keeps_then split: if_splits)
qed

lemma mark_stale_installations_keeps:
  assumes "mark_stale_installations now0 f = Inr (n, f')"
  shows "fleet_keeps f f'"
proof (rule keepsI)
  assume inv: "fleet_inv f"
  let ?now = "case now0 of None \<Rightarrow> clock (base f) | Some t \<Rightarrow> t"
  let ?due = "filter (\<lambda>i. ins_status i = INS_ACTIVE \<and> ins_authorization_valid_until i \<le> ?now) (installations f)"
  let ?step = "\<lambda>i f. bind_res (fetch_tablet (ins_tablet i) f) (\<lambda>tablet. mark_stale i tablet ?now f)"
  have run: "fleet_keeps g g'"
    if "fold_res ?step due g = Inr g'" "\<And>i. i \<in> set due \<Longrightarrow> current_at (ins_id i) g" for due g g'
    using that
  proof (induction due arbitrary: g)
    case (Cons i due)
    from Cons.prems(1) obtain tab g1 where g1: "mark_stale i tab ?now g = Inr g1" "fold_res ?step due g1 = Inr g'"
      by (auto simp: bind_res_Inr)
    have "fleet_keeps g g1" using stale_step_keeps [OF g1(1)] Cons.prems(2) by simp
    moreover have "current_at (ins_id j) g1" if "j \<in> set due" for j
      using mark_stale_current_at [OF g1(1)] Cons.prems(2) that by simp
    ultimately show ?case using Cons.IH [OF g1(2)] fleet_keeps_trans by blast
  qed simp
  from assms have "fold_res ?step ?due f = Inr f'"
    by (auto simp: mark_stale_installations_def Let_def bind_res_Inr)
  moreover have "current_at (ins_id i) f" if "i \<in> set ?due" for i
    using that inv by (auto simp: current_at_def current_status_def fleet_inv_def fleet_ids_def distinct_map inj_on_def)
  ultimately show "fleet_keeps f f'" by (rule run)
qed

subsection \<open>The physical asset\<close>

lemma revoke_tablet_installations_keeps:
  assumes "revoke_tablet_installations t reason now f = Inr f'"
  shows "fleet_keeps f f' \<and> tablets f' = tablets f
     \<and> (\<forall>x\<in>set (installations f'). ins_tablet x = t \<longrightarrow> \<not> current_status (ins_status x))"
proof -
  let ?g = "\<lambda>i :: installation_row. if ins_tablet i = t \<and> current_status (ins_status i)
         then i\<lparr>ins_status := INS_REVOKED, ins_revoked_at := Some now, ins_revocation_reason := take 512 reason\<rparr> else i"
  from assms obtain f1 where f1: "put_installations (map ?g (installations f)) f = Inr f1"
    and f': "f' = revoke_open_invitations t now (revoke_grants_of t (\<lambda>s. s = INS_REVOKED) (invalidate_replays t now f1))"
    by (auto simp: revoke_tablet_installations_def bind_res_Inr)
  define f2 where "f2 = invalidate_replays t now f1"
  define f3 where "f3 = revoke_grants_of t (\<lambda>s. s = INS_REVOKED) f2"
  have f': "f' = revoke_open_invitations t now f3" by (simp add: f' f2_def f3_def)
  have s: "installations f3 = installations f1" "tablets f3 = tablets f1"
    using same_tables_grants [of f2 t] by (simp_all add: f3_def same_tables_def f2_def invalidate_replays_def)
  have inst: "installations f1 = map ?g (installations f)" "tablets f1 = tablets f"
    using f1 by (auto simp: put_installations_def split: if_splits)
  have "fleet_keeps f f1"
    by (rule keeps_map_installations [OF f1]) (auto simp: installation_evolves_def)
  also have "fleet_keeps f1 f2"
    by (rule keeps_map_requests [OF f2_def [unfolded invalidate_replays_def]]) (simp add: request_evolves_def)
  also have "fleet_keeps f2 f3" by (simp add: f3_def same_tables_keeps)
  also have "fleet_keeps f3 f'"
  proof (rule keepsI)
    assume "fleet_inv f3"
    then show "fleet_keeps f3 f'"
      by (intro keeps_map_invitations [OF f' [unfolded revoke_open_invitations_def]])
         (auto simp: invitation_evolves_def fleet_inv_def)
  qed
  finally have "fleet_keeps f f'" .
  moreover have "installations f' = map ?g (installations f)" "tablets f' = tablets f"
    by (simp_all add: f' revoke_open_invitations_def s inst)
  ultimately show ?thesis by (simp add: ball_Un current_status_def)
qed

lemma withdraw_tablet_keeps:
  assumes "authorized_tablet actor t f = Inr tab" and "require_asset_transition tab status = Inr x"
    and "revoke_tablet_installations t reason now f = Inr f1"
    and "finish_asset_change actor tab status False action f1 = Inr f'" and "\<not> in_service status"
  shows "fleet_keeps f f'"
proof (rule keepsI)
  assume inv: "fleet_inv f"
  note r = revoke_tablet_installations_keeps [OF assms(3)]
  then have "fleet_inv f1" using inv by (simp add: preserves_def)
  moreover have "tab \<in> set (tablets f) \<and> tab_id tab = t"
    using assms(1) by (auto simp: authorized_tablet_def bind_res_Inr dest: fetch_tablet_mem)
  ultimately have "fleet_keeps f1 f'"
    using r assms(2,5) by (intro keeps_asset_change [OF assms(4)])
      (auto simp: require_asset_transition_def require_Inr fleet_inv_def fleet_ids_def)
  with r show "fleet_keeps f f'" using fleet_keeps_trans by blast
qed

lemma return_tablet_keeps:
  assumes "authorized_tablet actor t f = Inr tab" and "require_asset_transition tab status = Inr x"
    and "same_tables f f1" and "finish_asset_change actor tab status True action f1 = Inr f'" and "in_service status"
  shows "fleet_keeps f f'"
proof (rule keepsI)
  assume inv: "fleet_inv f"
  have "tab \<in> set (tablets f)"
    using assms(1) by (auto simp: authorized_tablet_def bind_res_Inr dest: fetch_tablet_mem)
  then have "fleet_keeps f1 f'"
    using inv assms(2,3,5) by (intro keeps_asset_change [OF assms(4)])
      (auto simp: require_asset_transition_def require_Inr fleet_inv_def fleet_ids_def same_tables_def)
  with same_tables_keeps [OF assms(3)] show "fleet_keeps f f'" by (rule fleet_keeps_trans)
qed

lemma mark_tablet_lost_keeps: "mark_tablet_lost actor t reason f = Inr f' \<Longrightarrow> fleet_keeps f f'"
  unfolding mark_tablet_lost_def by (elim bind_resE) (rule withdraw_tablet_keeps, auto simp: in_service_def)

lemma retire_tablet_keeps: "retire_tablet actor t reason f = Inr f' \<Longrightarrow> fleet_keeps f f'"
  unfolding retire_tablet_def by (elim bind_resE) (rule withdraw_tablet_keeps, auto simp: in_service_def)

lemma recover_tablet_keeps: "recover_tablet actor t f = Inr f' \<Longrightarrow> fleet_keeps f f'"
  unfolding recover_tablet_def by (elim bind_resE) (rule return_tablet_keeps, auto simp: in_service_def same_tables_def)

lemma activate_tablet_keeps: "activate_tablet actor t f = Inr f' \<Longrightarrow> fleet_keeps f f'"
  unfolding activate_tablet_def by (elim bind_resE) (rule return_tablet_keeps, auto simp: in_service_def same_tables_def)

lemma same_tables_trans: "same_tables a b \<Longrightarrow> same_tables b c \<Longrightarrow> same_tables a c"
  by (auto simp: same_tables_def)

lemma deactivate_tablet_keeps:
  assumes "deactivate_tablet actor t f = Inr f'"
  shows "fleet_keeps f f'"
  using assms unfolding deactivate_tablet_def Let_def
proof (elim bind_resE, goal_cases)
  case (1 tab x)
  show ?case
    by (rule return_tablet_keeps [OF 1(1,2) _ 1(3)])
       (auto simp: in_service_def intro: same_tables_trans [OF same_tables_grants same_tables_manifests])
qed

lemma revoke_installation_keeps:
  assumes "revoke_installation actor i reason f = Inr f'"
  shows "fleet_keeps f f'"
proof (rule keepsI)
  assume inv: "fleet_inv f"
  show "fleet_keeps f f'"
    using assms unfolding revoke_installation_def
  proof (elim bind_resE, goal_cases)
    case (1 n tab x1 x2 f1)
    have "fleet_keeps f f1"
      by (rule keeps_update_installation [OF 1(5)])
         (use fetch_unique(3) [OF inv 1(1)] 1(4) in \<open>auto simp: installation_evolves_def require_Inr\<close>)
    with 1(6) show ?case by (auto intro!: fleet_keeps_then)
  qed
qed

lemma same_tables_assignments: "put_vehicle_assignments rows f = Inr f' \<Longrightarrow> same_tables f f'"
  by (auto simp: put_vehicle_assignments_def same_tables_def split: if_splits)

lemma assign_tablet_vehicle_same:
  assumes "assign_tablet_vehicle t v actor e f = Inr (i, f')"
  shows "same_tables f f'"
  using assms unfolding assign_tablet_vehicle_def Let_def
proof (elim bind_resE, goal_cases)
  case (1 veh tab x1 x2 f1)
  have f1: "same_tables f f1"
    using 1(5) by (auto simp: same_tables_def split: option.splits dest: same_tables_assignments [unfolded same_tables_def])
  obtain j f2 where f2: "fresh_fleet_id f1 = (j, f2)" by fastforce
  with 1(6) obtain rows f3 where f3: "put_vehicle_assignments rows f2 = Inr f3"
    and f': "f' = on_base (\<lambda>w. department_mutation actor (record_event ''tablet.vehicle_assigned'' actor
         (Some (tab_department tab)) (Some (veh_station veh)) ''tablet_vehicle_assignment'' (Some i)
         [(''tablet_id'', JStr (dec_nat t)), (''vehicle_id'', JStr (dec_nat v))] w)) f3"
    by (auto simp: bind_res_Inr)
  have "same_tables f3 f'" unfolding f' by (intro same_tables_on_base same_roles_then same_roles_event)
  with f1 same_tables_fresh [OF f2] same_tables_assignments [OF f3] show ?case using same_tables_trans by blast
qed

end
