(* ===== verification/Tablet_Properties.thy ===== *)
theory Tablet_Properties
  imports Tablet_Inv
begin

text \<open>
  Every transaction of the tablet and assignment services as a step, and what holds along every run of
  them: who can serve, what is final, what an invitation is good for, how leases and asset numbers move.
\<close>

subsection \<open>Runs\<close>

text \<open>
  \<open>others\<close> is any transaction of the other components: they draw identifiers, move the clock and
  change their own tables, the vehicles and the vehicle assignments.  \<open>withdrawn\<close> is what
  apps/organizations/services.py, \<open>deactivate_tablet\<close> does to the row of a tablet.
\<close>

inductive fleet_step :: "tablet_env \<Rightarrow> fleet \<Rightarrow> fleet \<Rightarrow> bool" for T where
  registered: "create_tablet actor d name asset f = Inr (i, f') \<Longrightarrow> fleet_step T f f'"
| invited: "create_adoption_invitation T actor t e token f = Inr (i, f') \<Longrightarrow> fleet_step T f f'"
| replacing: "initiate_installation_replacement T actor t e token f = Inr (i, f') \<Longrightarrow> fleet_step T f f'"
| requested: "create_adoption_request T token u v b pk cs nonce f = Inr (i, f') \<Longrightarrow> fleet_step T f f'"
| proof_failed: "record_failed_attempt q f = Inr f' \<Longrightarrow> fleet_step T f f'"
| adopted: "complete_successful_adoption T q credential f = Inr (i, f') \<Longrightarrow> fleet_step T f f'"
| replayed: "replay_successful_completion T q response credential f = Inr (i, f') \<Longrightarrow> fleet_step T f f'"
| checked_in: "check_in T n credential t m f = Inr (b, f') \<Longrightarrow> fleet_step T f f'"
| refreshed: "refresh_installation_lease T n credential t m f = Inr (b, f') \<Longrightarrow> fleet_step T f f'"
| staled: "mark_stale_installations now f = Inr (k, f') \<Longrightarrow> fleet_step T f f'"
| activated: "activate_tablet actor t f = Inr f' \<Longrightarrow> fleet_step T f f'"
| deactivated: "deactivate_tablet actor t f = Inr f' \<Longrightarrow> fleet_step T f f'"
| lost: "mark_tablet_lost actor t reason f = Inr f' \<Longrightarrow> fleet_step T f f'"
| recovered: "recover_tablet actor t f = Inr f' \<Longrightarrow> fleet_step T f f'"
| retired: "retire_tablet actor t reason f = Inr f' \<Longrightarrow> fleet_step T f f'"
| revoked: "revoke_installation actor n reason f = Inr f' \<Longrightarrow> fleet_step T f f'"
| assigned: "assign_tablet_vehicle t v actor e f = Inr (i, f') \<Longrightarrow> fleet_step T f f'"
| withdrawn: "update_tablet t (\<lambda>r. r\<lparr>tab_active := False\<rparr>) f = Inr f' \<Longrightarrow> fleet_step T f f'"
| others: "next_id (base f) \<le> next_id w \<Longrightarrow> fleet_step T f (f\<lparr>base := w, vehicles := vs, vehicle_assignments := as\<rparr>)"

abbreviation fleet_run :: "tablet_env \<Rightarrow> fleet \<Rightarrow> fleet \<Rightarrow> bool" where
  "fleet_run T \<equiv> (fleet_step T)\<^sup>*\<^sup>*"

lemma fleet_step_keeps: "fleet_step T f f' \<Longrightarrow> fleet_keeps f f'"
proof (induction rule: fleet_step.induct)
  case (assigned t v actor e f i f')
  then show ?case by (simp add: assign_tablet_vehicle_same same_tables_keeps)
next
  case (others f w vs as)
  then show ?case by (simp add: same_tables_def same_tables_keeps)
qed (blast intro: create_tablet_keeps create_adoption_invitation_keeps initiate_replacement_keeps
    create_adoption_request_keeps record_failed_attempt_keeps complete_successful_adoption_keeps
    replay_successful_completion_keeps check_in_keeps refresh_keeps mark_stale_installations_keeps activate_tablet_keeps
    deactivate_tablet_keeps mark_tablet_lost_keeps recover_tablet_keeps retire_tablet_keeps revoke_installation_keeps
    withdraw_active_keeps)+

lemma fleet_run_keeps:
  assumes "fleet_run T f f'" and "fleet_inv f"
  shows "fleet_inv f'" "fleet_history f f'"
  using fleet_evolution.preserves_run [OF fleet_step_keeps assms(1)] assms(2) by (simp_all add: preserves_def)

lemma fleet_invD:
  assumes "fleet_inv f"
  shows "unique_rows tab_id (tablets f)" "unique_rows ins_id (installations f)" "unique_rows inv_id (invitations f)"
    "unique_rows req_id (adoption_requests f)"
  using assms by (simp_all add: fleet_inv_def fleet_ids_def)

text \<open>What becomes of one row along a run.\<close>

lemma run_installation:
  assumes "fleet_run T f f'" and "fleet_inv f" and "fetch_installation i f = Inr n"
  obtains n' where "fetch_installation i f' = Inr n'" "installation_evolves n n'"
  using fleet_run_keeps [OF assms(1,2)] assms(3)
  by (auto simp: fetch_installation_def of_option_Inr fleet_history_def elim: rows_evolve_get intro: fleet_invD)

lemma run_tablet:
  assumes "fleet_run T f f'" and "fleet_inv f" and "fetch_tablet i f = Inr t"
  obtains t' where "fetch_tablet i f' = Inr t'" "tablet_evolves t t'"
  using fleet_run_keeps [OF assms(1,2)] assms(3)
  by (auto simp: fetch_tablet_def of_option_Inr fleet_history_def elim: rows_evolve_get intro: fleet_invD)

lemma run_invitation:
  assumes "fleet_run T f f'" and "fleet_inv f" and "fetch_invitation i f = Inr v"
  obtains v' where "fetch_invitation i f' = Inr v'" "invitation_evolves v v'"
  using fleet_run_keeps [OF assms(1,2)] assms(3)
  by (auto simp: fetch_invitation_def of_option_Inr fleet_history_def elim: rows_evolve_get intro: fleet_invD)

lemma asset_path_retired: "asset_path TAB_RETIRED s \<Longrightarrow> s = TAB_RETIRED"
  unfolding asset_path_def by (induction rule: rtranclp_induct) auto

lemma isl_never: "(\<And>y. m \<noteq> Inr y) \<Longrightarrow> isl m"
  by (cases m) auto

lemma inactive_installation_refused:
  assumes "fetch_installation i f = Inr n" and "\<not> current_status (ins_status n)"
  shows "isl (check_in T i credential t m f) \<and> isl (refresh_installation_lease T i credential t m f)"
proof (intro conjI isl_never notI)
  fix y
  assume "check_in T i credential t m f = Inr y"
  then show False using assms unfolding check_in_def Let_def by (elim bind_resE) (simp add: require_Inr)
next
  fix y
  assume "refresh_installation_lease T i credential t m f = Inr y"
  then show False using assms unfolding refresh_installation_lease_def Let_def
    by (elim bind_resE) (simp add: require_Inr current_status_def)
qed

subsection \<open>A concrete fleet\<close>

definition demo_tablet_env :: tablet_env where
  "demo_tablet_env = \<lparr>secret_digest = (\<lambda>s. ''h'' @ s), hpke_key_error = (\<lambda>_. None), public_key_fingerprint = (\<lambda>k. k),
     hpke_seal = (\<lambda>n k i. Inr (n @ k)), hmac_digest = (\<lambda>n i. ''m'' @ n), context_hash = (\<lambda>i. ''c'')\<rparr>"

definition demo_department :: department_row where
  "demo_department = \<lparr>dep_id = 1, dep_name = ''D'', dep_short_code = ''D'', dep_status = DEP_ACTIVE,
     dep_tablet_lease_days = 7, dep_asset_number_auto_enabled = True, dep_asset_number_prefix = ''T-'',
     dep_asset_number_width = 3, dep_asset_number_sequence = 0, dep_locale = ''de-DE'', dep_timezone = ''Europe/Berlin'',
     dep_created_at = 0, dep_created_by = Some 1\<rparr>"

definition demo_base :: world where
  "demo_base = (empty_world 1000 50)\<lparr>
     users := [\<lparr>usr_id = 7, usr_email = ''a@x.de'', usr_display_name = ''A'', usr_is_active = True, usr_is_staff = False,
       usr_mfa_enabled = True, usr_created_at = 0\<rparr>],
     departments := [demo_department],
     stations := [\<lparr>sta_id = 2, sta_department = 1, sta_name = ''S'', sta_short_code = ''S'', sta_active = True\<rparr>],
     memberships := [\<lparr>mem_id = 3, mem_user = 7, mem_department = 1, mem_status = ROLE_ACTIVE, mem_created_at = 0,
       mem_created_by = Some 1, mem_revoked_at = None, mem_revoked_by = None, mem_suspended_at = None,
       mem_suspended_by = None\<rparr>]\<rparr>"

definition demo_tablet :: tablet_row where
  "demo_tablet = new_tablet 40 1 ''Front'' ''T-007'' (Some 7) 0"

definition demo_request :: adoption_request_row where
  "demo_request = \<lparr>req_id = 43, req_invitation = 42, req_installation_uuid = 900, req_app_version = ''1.2.3'',
     req_app_build = None, req_hpke_public_key = ''pk'', req_hpke_public_key_fingerprint = ''pk'',
     req_hpke_ciphersuite = HPKE_CIPHERSUITE, req_expected_hmac_digest = ''mnonce'', req_canonical_context_hash = ''c'',
     req_encrypted_challenge = ''e'', req_expires_at = 5000, req_completed_at = None,
     req_completion_replay_valid_until = None, req_completion_replay_invalidated_at = None, req_failed_attempt_count = 0\<rparr>"

definition demo_invitation :: invitation_row where
  "demo_invitation = new_invitation 42 40 ''htok'' None (Some 7) 0"

text \<open>A tablet on a vehicle, invited, with an open adoption request.\<close>

definition demo_fleet :: fleet where
  "demo_fleet = \<lparr>base = demo_base,
     vehicles = [\<lparr>veh_id = 4, veh_department = 1, veh_station = 2, veh_display_name = ''HLF'', veh_active = True\<rparr>],
     tablets = [demo_tablet], installations = [], invitations = [demo_invitation],
     adoption_requests = [demo_request, demo_request\<lparr>req_id := 44, req_installation_uuid := 901\<rparr>],
     vehicle_assignments = [\<lparr>tva_id = 41, tva_tablet = 40, tva_vehicle = 4, tva_valid_from = 0, tva_valid_until = None,
       tva_created_by = Some 7, tva_created_at = 0, tva_ended_by = None, tva_ended_at = None, tva_end_reason = []\<rparr>],
     signed_manifests = []\<rparr>"

definition demo_installation :: "nat \<Rightarrow> installation_status \<Rightarrow> installation_row" where
  "demo_installation i s = (new_installation i demo_tablet demo_department demo_request demo_invitation ''hcred'' 0)
     \<lparr>ins_installation_uuid := i, ins_status := s, ins_authorization_valid_until := 500\<rparr>"

text \<open>The same tablet in service with a stale installation, and one that was replaced.\<close>

definition demo_served :: fleet where
  "demo_served = demo_fleet\<lparr>tablets := [demo_tablet\<lparr>tab_status := TAB_ACTIVE\<rparr>],
     installations := [demo_installation 45 INS_REPLACED, demo_installation 46 INS_STALE]\<rparr>"

lemmas demo_defs = demo_fleet_def demo_served_def demo_base_def demo_tablet_def demo_request_def demo_invitation_def
  demo_installation_def new_tablet_def new_invitation_def new_installation_def empty_world_def

lemma demo_fleet_inv: "fleet_inv demo_fleet"
  by (simp add: fleet_inv_def fleet_ids_def demo_defs installation_constraints_def in_service_def MAX_FAILED_ATTEMPTS_def)

lemma demo_served_inv: "fleet_inv demo_served"
  by (simp add: fleet_inv_def fleet_ids_def demo_defs installation_constraints_def in_service_def MAX_FAILED_ATTEMPTS_def
      current_status_def)

subsection \<open>Installations\<close>

lemma distinct_key_count: "distinct (map g xs) \<Longrightarrow> length (filter (\<lambda>x. g x = a) xs) \<le> 1"
  by (induction xs) (auto simp: filter_empty_conv image_iff)

text \<open>
  C19: Along every run of the tablet services a tablet has at most one current (ACTIVE or STALE) installation,
  and a LOST or RETIRED tablet has none.
\<close>

theorem one_current_installation:
  assumes "fleet_inv f" and "fleet_run T f f'" and "t \<in> set (tablets f')"
  shows "length (filter (\<lambda>i. ins_tablet i = tab_id t \<and> current_status (ins_status i)) (installations f'))
     \<le> (if in_service (tab_status t) then 1 else 0)"
proof -
  have inv: "fleet_inv f'" by (rule fleet_run_keeps [OF assms(2,1)])
  have "length (filter (\<lambda>i. ins_tablet i = tab_id t) (filter (\<lambda>i. current_status (ins_status i)) (installations f'))) \<le> 1"
    using inv by (intro distinct_key_count) (simp add: fleet_inv_def installation_constraints_def)
  moreover have "\<not> (ins_tablet i = tab_id t \<and> current_status (ins_status i))"
    if "i \<in> set (installations f')" "\<not> in_service (tab_status t)" for i
    using inv assms(3) that by (auto simp: fleet_inv_def)
  ultimately show ?thesis by (simp add: conj_commute filter_empty_conv)
qed

theorem one_current_installation_witness:
  "\<exists>f'. fleet_run demo_tablet_env demo_served f' \<and> map tab_status (tablets f') = [TAB_LOST]
     \<and> (\<forall>t\<in>set (tablets f'). filter (\<lambda>i. ins_tablet i = tab_id t \<and> current_status (ins_status i)) (installations f') = [])"
proof -
  have "(case mark_tablet_lost (Some 7) 40 ''left'' demo_served of Inl _ \<Rightarrow> False
      | Inr f \<Rightarrow> map tab_status (tablets f) = [TAB_LOST])" by code_simp
  then obtain f where f: "mark_tablet_lost (Some 7) 40 ''left'' demo_served = Inr f" "map tab_status (tablets f) = [TAB_LOST]"
    by (auto split: sum.splits)
  have run: "fleet_run demo_tablet_env demo_served f" using fleet_step.lost [OF f(1)] by blast
  have "tab_status t = TAB_LOST" if "t \<in> set (tablets f)" for t using that f(2) by auto
  with one_current_installation [OF demo_served_inv run] have
    "filter (\<lambda>i. ins_tablet i = tab_id t \<and> current_status (ins_status i)) (installations f) = []" if "t \<in> set (tablets f)" for t
    using that by (fastforce simp: in_service_def)
  with run f(2) show ?thesis by (intro exI [of _ f] conjI ballI)
qed

text \<open>
  C20: A REVOKED or REPLACED installation is final: whatever the services do afterwards it keeps its status, and
  with any credential its check-ins and lease refreshes raise.
\<close>

theorem withdrawn_installation_final:
  assumes "fleet_inv f" and "fleet_run T f f'" and "fetch_installation i f = Inr n"
    and "ins_status n = INS_REVOKED \<or> ins_status n = INS_REPLACED"
  shows "(\<exists>n'. fetch_installation i f' = Inr n' \<and> ins_status n' = ins_status n)
     \<and> isl (check_in T i credential t m f') \<and> isl (refresh_installation_lease T i credential t m f')"
proof -
  from run_installation [OF assms(2,1,3)] obtain n' where n': "fetch_installation i f' = Inr n'" "installation_evolves n n'" .
  then have "ins_status n' = ins_status n" using assms(4) by (auto simp: installation_evolves_def current_status_def)
  with n' assms(4) inactive_installation_refused [OF n'(1)] show ?thesis by (auto simp: current_status_def)
qed

theorem withdrawn_installation_final_witness:
  "fleet_run demo_tablet_env demo_served (demo_served\<lparr>base := (base demo_served)\<lparr>clock := 9000\<rparr>\<rparr>)
     \<and> isl (check_in demo_tablet_env 45 ''cred'' \<lparr>tel_version = None, tel_build = None, tel_build_supplied = False\<rparr> None
         (demo_served\<lparr>base := (base demo_served)\<lparr>clock := 9000\<rparr>\<rparr>))"
proof -
  let ?f = "demo_served\<lparr>base := (base demo_served)\<lparr>clock := 9000\<rparr>, vehicles := vehicles demo_served,
     vehicle_assignments := vehicle_assignments demo_served\<rparr>"
  have "fleet_step demo_tablet_env demo_served ?f" by (rule fleet_step.others) simp
  then have run: "fleet_run demo_tablet_env demo_served ?f" by blast
  have f: "fetch_installation 45 demo_served = Inr (demo_installation 45 INS_REPLACED)"
    by (simp add: fetch_installation_def demo_defs row_get_def)
  show ?thesis
    using withdrawn_installation_final [OF demo_served_inv run f] run by (simp add: demo_installation_def)
qed

subsection \<open>Invitations\<close>

lemma closed_invitation_refused:
  assumes "fetch_invitation (req_invitation r) f = Inr v" and "inv_used_at v \<noteq> None \<or> inv_revoked_at v \<noteq> None"
    and "fetch_request q f = Inr r" and "req_completed_at r = None"
  shows "isl (fst (complete_adoption T q response confirmed credential f))
     \<and> snd (complete_adoption T q response confirmed credential f) = f"
proof -
  have "isl (require_open_request r v (clock (base f)))"
    using assms(2) by (intro isl_never) (auto simp: require_open_request_def bind_res_Inr require_Inr)
  then obtain e where "require_open_request r v (clock (base f)) = Inl e" by (cases "require_open_request r v (clock (base f))") auto
  then show ?thesis using assms(1,3,4) by (simp add: complete_adoption_def Let_def)
qed

lemma run_invitation_closed:
  assumes "fleet_inv f" and "fleet_run T f f'" and "fetch_invitation i f = Inr v"
    and "inv_used_at v \<noteq> None \<or> inv_revoked_at v \<noteq> None"
  shows "\<exists>v'. fetch_invitation i f' = Inr v' \<and> (inv_used_at v' \<noteq> None \<or> inv_revoked_at v' \<noteq> None)"
  using run_invitation [OF assms(2,1,3)] assms(4) unfolding invitation_evolves_def by metis

lemma adoption_uses_invitation:
  assumes inv: "fleet_inv f" and "complete_successful_adoption T q credential f = Inr (i, f')" and "fetch_request q f = Inr r"
  shows "\<exists>v. fetch_invitation (req_invitation r) f' = Inr v \<and> inv_used_at v \<noteq> None"
  using assms(2) unfolding complete_successful_adoption_def Let_def
proof (elim bind_resE, goal_cases)
  case (1 r' v x1 x2 t x3 x4 d f1)
  have r: "r' = r" using 1(1) assms(3) by simp
  have v: "inv_id v = req_invitation r" "v \<in> set (invitations f)"
    using 1(2) r by (simp_all add: fetch_invitation_def of_option_Inr row_get_SomeD)
  have f1: "invitations f1 = invitations f" using 1(9) by (auto simp: put_installations_def split: if_splits)
  let ?use = "\<lambda>x :: invitation_row. if inv_id x = inv_id v then x\<lparr>inv_used_at := Some (clock (base f))\<rparr> else x"
  have inv': "invitations f' = map ?use (invitations f)"
    using 1(10) f1 same_tables_grants
    by (auto simp: bind_res_Inr put_installations_def update_invitation_def update_request_def same_tables_def
        dest: same_tables_fresh split: prod.splits if_splits)
  have "unique_rows inv_id (invitations f')"
    using fleet_invD(3) [OF inv] by (simp add: inv' unique_rows_map)
  moreover have "?use v \<in> set (invitations f')" using v(2) unfolding inv' set_map by (rule imageI)
  ultimately have "row_get inv_id (inv_id (?use v)) (invitations f') = Some (?use v)" by (rule row_get_unique)
  then show ?case using v(1) by (simp add: fetch_invitation_def)
qed

text \<open>
  C21: An invitation is good for one adoption: once a request completed on it, whatever the services do
  afterwards, every other request on the same invitation is refused and the refusal changes nothing.
\<close>

theorem invitation_single_use:
  assumes "fleet_inv f" and "fetch_request q f = Inr r" and "complete_successful_adoption T q credential f = Inr (i, f1)"
    and "fleet_run T f1 f2" and "fetch_request q' f2 = Inr r'" and "req_invitation r' = req_invitation r"
    and "req_completed_at r' = None"
  shows "isl (fst (complete_adoption T q' response confirmed credential' f2))
     \<and> snd (complete_adoption T q' response confirmed credential' f2) = f2"
proof -
  have inv1: "fleet_inv f1"
    using complete_successful_adoption_keeps [OF assms(3)] assms(1) by (simp add: preserves_def)
  obtain v where "fetch_invitation (req_invitation r) f1 = Inr v" "inv_used_at v \<noteq> None"
    using adoption_uses_invitation [OF assms(1,3,2)] by blast
  with run_invitation_closed [OF inv1 assms(4)] assms(6) obtain v' where
    "fetch_invitation (req_invitation r') f2 = Inr v'" "inv_used_at v' \<noteq> None \<or> inv_revoked_at v' \<noteq> None" by metis
  then show ?thesis using assms(5,7) by (rule closed_invitation_refused)
qed

theorem invitation_single_use_witness:
  "\<exists>f1. complete_successful_adoption demo_tablet_env 43 ''cred'' demo_fleet = Inr (50, f1)
     \<and> isl (fst (complete_adoption demo_tablet_env 44 ''mnonce'' True ''other'' f1))"
proof -
  have "(case complete_successful_adoption demo_tablet_env 43 ''cred'' demo_fleet of Inl _ \<Rightarrow> False
      | Inr (i, f) \<Rightarrow> i = 50 \<and> fetch_request 44 f = Inr (demo_request\<lparr>req_id := 44, req_installation_uuid := 901\<rparr>))" by code_simp
  then obtain f1 where f1: "complete_successful_adoption demo_tablet_env 43 ''cred'' demo_fleet = Inr (50, f1)"
      "fetch_request 44 f1 = Inr (demo_request\<lparr>req_id := 44, req_installation_uuid := 901\<rparr>)"
    by (auto split: sum.splits)
  have q: "fetch_request 43 demo_fleet = Inr demo_request"
    by (simp add: fetch_request_def demo_defs row_get_def)
  show ?thesis
    using invitation_single_use [OF demo_fleet_inv q f1(1) rtranclp.rtrancl_refl f1(2)] f1(1)
    by (simp add: demo_request_def)
qed

text \<open>
  Five wrong proofs close an invitation for good: in every reachable state an invitation with five failed
  attempts yields no new request and none of its open requests can complete any more.
\<close>

theorem failed_proofs_close_invitation:
  assumes "fleet_inv f" and "fleet_run T f f'" and "fetch_invitation i f = Inr v" and "5 \<le> inv_failed_attempt_count v"
    and "fetch_request q f' = Inr r" and "req_invitation r = i" and "req_completed_at r = None"
  shows "isl (fst (complete_adoption T q response confirmed credential f'))
     \<and> snd (complete_adoption T q response confirmed credential f') = f'"
proof -
  have "inv_revoked_at v \<noteq> None"
    using assms(1,3,4) by (auto simp: fleet_inv_def MAX_FAILED_ATTEMPTS_def fetch_invitation_def of_option_Inr dest!: row_get_mem)
  with run_invitation_closed [OF assms(1,2,3)] assms(6) obtain v' where
    "fetch_invitation (req_invitation r) f' = Inr v'" "inv_used_at v' \<noteq> None \<or> inv_revoked_at v' \<noteq> None" by metis
  then show ?thesis using assms(5,7) by (rule closed_invitation_refused)
qed

theorem failed_proofs_close_invitation_witness:
  "\<exists>f. fleet_run demo_tablet_env demo_fleet f \<and> map req_failed_attempt_count (adoption_requests f) = [2, 3]
     \<and> isl (fst (complete_adoption demo_tablet_env 43 ''mnonce'' True ''cred'' f))"
proof -
  let ?fail = "\<lambda>q f. record_failed_attempt q f"
  have "(case fold_res ?fail [43, 44, 43, 44, 44] demo_fleet of Inl _ \<Rightarrow> False
      | Inr f \<Rightarrow> map req_failed_attempt_count (adoption_requests f) = [2, 3]
          \<and> map (\<lambda>v. (inv_id v, inv_failed_attempt_count v)) (invitations f) = [(42, 5)]
          \<and> fetch_request 43 f = Inr (demo_request\<lparr>req_failed_attempt_count := 2\<rparr>))" by code_simp
  then obtain f where f: "fold_res ?fail [43, 44, 43, 44, 44] demo_fleet = Inr f"
      "map req_failed_attempt_count (adoption_requests f) = [2, 3]"
      "map (\<lambda>v. (inv_id v, inv_failed_attempt_count v)) (invitations f) = [(42, 5)]"
      "fetch_request 43 f = Inr (demo_request\<lparr>req_failed_attempt_count := 2\<rparr>)"
    by (auto split: sum.splits)
  have "fleet_run T g g'" if "fold_res ?fail qs g = Inr g'" for T qs g g'
    using that
  proof (induction qs arbitrary: g)
    case (Cons q qs)
    from Cons.prems obtain h where "record_failed_attempt q g = Inr h" "fold_res ?fail qs h = Inr g'" by (auto simp: bind_res_Inr)
    with Cons.IH show ?case by (metis converse_rtranclp_into_rtranclp fleet_step.proof_failed)
  qed simp
  then have run: "fleet_run demo_tablet_env demo_fleet f" using f(1) .
  have "fleet_inv f" by (rule fleet_run_keeps [OF run demo_fleet_inv])
  moreover obtain v where v: "invitations f = [v]" "inv_id v = 42" "inv_failed_attempt_count v = 5" using f(3) by auto
  then have "fetch_invitation 42 f = Inr v" by (simp add: fetch_invitation_def row_get_def)
  ultimately have "isl (fst (complete_adoption demo_tablet_env 43 ''mnonce'' True ''cred'' f))"
    using failed_proofs_close_invitation [OF _ rtranclp.rtrancl_refl _ _ f(4)] v(3) by (simp add: demo_request_def)
  with run f(2) show ?thesis by (intro exI [of _ f] conjI)
qed

end
