(* ===== verification/Tablet_Leases.thy ===== *)
theory Tablet_Leases
  imports Tablet_Properties
begin

text \<open>
  Leases and the physical asset: how far a check-in may extend an installation's authorization, when it
  restores service, which asset states are final, and what recovery does to a tablet in service.
\<close>

subsection \<open>The effect of a check-in on its installation\<close>

lemma row_get_map_key:
  assumes "\<And>x. key x = i \<Longrightarrow> key (g x) = i"
  shows "row_get key i (map (\<lambda>r. if key r = i then g r else r) rows) = map_option g (row_get key i rows)"
  by (induction rows) (auto simp: row_get_def assms)

lemma fetch_updated:
  assumes "update_installation i g f = Inr f'" and "fetch_installation i f = Inr n" and "\<And>x. ins_id (g x) = ins_id x"
  shows "fetch_installation i f' = Inr (g n)"
proof -
  have "installations f' = map (\<lambda>r. if ins_id r = i then g r else r) (installations f)"
    using assms(1) by (auto simp: update_installation_def put_installations_def split: if_splits)
  with assms(2,3) show ?thesis by (simp add: fetch_installation_def of_option_Inr row_get_map_key)
qed

lemma fetch_event [simp]: "fetch_installation i (fleet_event a b c d e g f) = fetch_installation i f"
  by (simp add: fetch_installation_def)

lemma fetch_stale:
  assumes "mark_stale n t now f = Inr f'" and "fetch_installation (ins_id n) f = Inr n"
  shows "fetch_installation (ins_id n) f' = Inr (n\<lparr>ins_status := INS_STALE, ins_stale_at := Some now\<rparr>)"
  using assms by (auto simp: mark_stale_def bind_res_Inr dest: fetch_updated)

text \<open>The installation after the authorization step of a check-in.\<close>

lemma authorize_check_in_effect:
  assumes "authorize_check_in n t d now f = Inr (a, f')" and "fetch_installation (ins_id n) f = Inr n0"
    and "ins_authorization_valid_until n0 = ins_authorization_valid_until n" and "ins_status n0 = ins_status n"
  shows "\<exists>n'. fetch_installation (ins_id n) f' = Inr n' \<and> ins_status n' = ins_status a
     \<and> ins_authorization_valid_until n' = ins_authorization_valid_until a
     \<and> ins_authorization_valid_until a \<in> {ins_authorization_valid_until n, lease_target d now}
     \<and> (ins_status n = INS_STALE \<longrightarrow> ins_status a = INS_ACTIVE \<and> ins_authorization_valid_until a = lease_target d now)
     \<and> (ins_status n \<noteq> INS_STALE \<longrightarrow> a = n)"
proof (cases "ins_status n = INS_STALE")
  case True
  from True assms(1) obtain f1 where u: "update_installation (ins_id n) (\<lambda>i. i\<lparr>ins_status := INS_ACTIVE,
         ins_authorization_valid_until := lease_target d now, ins_last_successful_check_in_at := Some now\<rparr>) f = Inr f1"
    and a: "a = n\<lparr>ins_status := INS_ACTIVE, ins_authorization_valid_until := lease_target d now\<rparr>"
    and f': "\<exists>e. f' = fleet_event ''tablet.stale_auto_recovered'' None e ''app_installation'' (ins_id n) [] f1"
    by (auto simp: authorize_check_in_def recover_stale_installation_def bind_res_Inr)
  from fetch_updated [OF u assms(2)] a f' True show ?thesis by auto
next
  case False
  with assms show ?thesis by (auto simp: authorize_check_in_def bind_res_Inr)
qed

text \<open>A check-in in service that is not blocked by the version policy.\<close>

lemma operational_check_in_effect:
  assumes "operational_check_in n tab d t m f = Inr (b, f')" and n: "fetch_installation (ins_id n) f = Inr n"
    and c: "current_status (ins_status n)"
  shows "\<exists>n'. fetch_installation (ins_id n) f' = Inr n'
     \<and> ins_authorization_valid_until n' \<in> {ins_authorization_valid_until n, lease_target d (clock (base f))}
     \<and> (b \<longrightarrow> ins_authorization_valid_until n' = ins_authorization_valid_until n)
     \<and> (\<not> b \<longrightarrow> ins_status n' = INS_ACTIVE \<and> (ins_authorization_valid_until n' > clock (base f)
            \<or> ins_authorization_valid_until n' = lease_target d (clock (base f))))"
  using assms(1) unfolding operational_check_in_def Let_def
proof (elim bind_resE, goal_cases)
  case (1 f1 blocked)
  let ?now = "clock (base f)"
  let ?exp = "ins_status n = INS_ACTIVE \<and> ins_authorization_valid_until n \<le> ?now"
  let ?n = "n\<lparr>ins_status := if ?exp then INS_STALE else ins_status n\<rparr>"
  obtain n0 where n0: "fetch_installation (ins_id n) f1 = Inr n0" "ins_status n0 = ins_status ?n"
      "ins_authorization_valid_until n0 = ins_authorization_valid_until n"
    using 1(1) n fetch_stale [OF _ n] by (auto split: if_splits)
  show ?case
  proof (cases blocked)
    case True
    with 1(3) fetch_updated [OF _ n0(1)] n0 show ?thesis by (auto simp: bind_res_Inr)
  next
    case False
    from False 1(3) obtain a f2 where a: "authorize_check_in ?n tab d ?now f1 = Inr (a, f2)"
      and u: "update_installation (ins_id n) (\<lambda>i. (telemetry_fields t ?now i)\<lparr>ins_last_successful_check_in_at := Some ?now,
        ins_authorization_valid_until := (if renew_lease_if_due a tab d f2 ?now then lease_target d ?now
          else ins_authorization_valid_until i)\<rparr>) f2 = Inr f'" and b: "\<not> b"
      by (auto simp: bind_res_Inr)
    from authorize_check_in_effect [OF a, of n0] n0 obtain n1 where n1: "fetch_installation (ins_id n) f2 = Inr n1"
        "ins_status n1 = ins_status a" "ins_authorization_valid_until n1 = ins_authorization_valid_until a"
        "ins_authorization_valid_until a \<in> {ins_authorization_valid_until n, lease_target d ?now}"
        "ins_status ?n = INS_STALE \<longrightarrow> ins_status a = INS_ACTIVE \<and> ins_authorization_valid_until a = lease_target d ?now"
        "ins_status ?n \<noteq> INS_STALE \<longrightarrow> a = ?n"
      by auto
    from fetch_updated [OF u n1(1)] n1 c b show ?thesis by (auto simp: current_status_def split: if_splits)
  qed
qed

text \<open>
  C22: A check-in or a lease refresh never extends an installation's authorization beyond the later of its
  current end and the department's lease from now; when the application version is blocked, or the tablet is
  INACTIVE, the authorization does not move at all.
\<close>

theorem lease_bounded:
  assumes "fetch_installation i f = Inr n" and "fetch_tablet (ins_tablet n) f = Inr tab"
    and "fetch_department (tab_department tab) (base f) = Inr d"
    and "check_in T i credential t m f = Inr (b, f') \<or> refresh_installation_lease T i credential t m f = Inr (b, f')"
  shows "\<exists>n'. fetch_installation i f' = Inr n'
     \<and> ins_authorization_valid_until n' \<le> max (ins_authorization_valid_until n) (lease_target d (clock (base f)))
     \<and> (b \<or> tab_status tab = TAB_INACTIVE \<longrightarrow> ins_authorization_valid_until n' = ins_authorization_valid_until n)"
  using assms(4)
proof
  have i: "ins_id n = i" using assms(1) by (simp add: fetch_installation_def of_option_Inr row_get_key)
  assume c: "check_in T i credential t m f = Inr (b, f')"
  show ?thesis
  proof (cases "tab_status tab = TAB_INACTIVE")
    case True
    with c assms(1-3) obtain f1 where "update_installation i (\<lambda>i. (telemetry_fields t (clock (base f)) i)\<lparr>
        ins_last_successful_check_in_at := Some (clock (base f))\<rparr>) f = Inr f1" "f' = f1"
      by (auto simp: check_in_def Let_def bind_res_Inr)
    from fetch_updated [OF this(1) assms(1)] this(2) show ?thesis by auto
  next
    case False
    with c assms(1-3) have "operational_check_in n tab d t m f = Inr (b, f')" "current_status (ins_status n)"
      by (auto simp: check_in_def Let_def bind_res_Inr require_Inr)
    from operational_check_in_effect [OF this(1) _ this(2)] assms(1) i False show ?thesis by auto
  qed
next
  assume r: "refresh_installation_lease T i credential t m f = Inr (b, f')"
  have s: "eligible_for_lease_renewal n tab f (clock (base f))"
    using r assms(1-3) by (auto simp: refresh_installation_lease_def Let_def bind_res_Inr require_Inr)
  then have "tab_status tab \<noteq> TAB_INACTIVE" by (auto simp: eligible_for_lease_renewal_def)
  moreover obtain g f1 where "update_installation i g f = Inr f1" "fetch_installation i f' = fetch_installation i f1"
      "\<And>x. ins_id (g x) = ins_id x"
      "b \<longrightarrow> ins_authorization_valid_until (g n) = ins_authorization_valid_until n"
      "ins_authorization_valid_until (g n) \<le> max (ins_authorization_valid_until n) (lease_target d (clock (base f)))"
    using r assms(1-3)
    by (cases b) (auto simp: refresh_installation_lease_def Let_def bind_res_Inr split: if_splits)
  ultimately show ?thesis using fetch_updated [OF _ assms(1)] by metis
qed

definition no_telemetry :: telemetry where
  "no_telemetry = \<lparr>tel_version = None, tel_build = None, tel_build_supplied = False\<rparr>"

lemma demo_served_rows:
  "fetch_installation 46 demo_served = Inr (demo_installation 46 INS_STALE)"
  "fetch_tablet 40 demo_served = Inr (demo_tablet\<lparr>tab_status := TAB_ACTIVE\<rparr>)"
  "fetch_department 1 (base demo_served) = Inr demo_department"
  by (simp_all add: fetch_installation_def fetch_tablet_def fetch_department_def demo_defs demo_department_def row_get_def)

theorem lease_bounded_witness:
  "\<exists>b f' n'. check_in demo_tablet_env 46 ''cred'' no_telemetry None demo_served = Inr (b, f')
     \<and> fetch_installation 46 f' = Inr n' \<and> ins_authorization_valid_until n' \<le> 604800001000"
proof -
  have "\<not> isl (check_in demo_tablet_env 46 ''cred'' no_telemetry None demo_served)" by code_simp
  then obtain b f' where c: "check_in demo_tablet_env 46 ''cred'' no_telemetry None demo_served = Inr (b, f')"
    by (cases "check_in demo_tablet_env 46 ''cred'' no_telemetry None demo_served") auto
  from lease_bounded [OF demo_served_rows(1) _ _ disjI1 [OF c], of "demo_tablet\<lparr>tab_status := TAB_ACTIVE\<rparr>" demo_department]
  obtain n' where "fetch_installation 46 f' = Inr n'" "ins_authorization_valid_until n' \<le> 604800001000"
    using demo_served_rows(2,3)
    by (auto simp: demo_defs demo_department_def lease_target_def usec_per_day_value max_def split: if_splits)
  with c show ?thesis by blast
qed

subsection \<open>A current installation in service can always come back\<close>

lemma constraints_map:
  assumes "\<And>x. x \<in> set rows \<Longrightarrow> ins_installation_uuid (g x) = ins_installation_uuid x \<and> ins_tablet (g x) = ins_tablet x
     \<and> current_status (ins_status (g x)) = current_status (ins_status x)"
  shows "installation_constraints (map g rows) = installation_constraints rows"
proof -
  have "filter (\<lambda>i. current_status (ins_status (g i))) rows = filter (\<lambda>i. current_status (ins_status i)) rows"
    by (rule filter_cong) (use assms in auto)
  moreover have "map (ins_tablet \<circ> g) (filter (\<lambda>i. current_status (ins_status i)) rows)
      = map ins_tablet (filter (\<lambda>i. current_status (ins_status i)) rows)" using assms by simp
  moreover have "map (ins_installation_uuid \<circ> g) rows = map ins_installation_uuid rows" using assms by simp
  ultimately show ?thesis
    by (simp only: installation_constraints_def filter_map map_map comp_def)
qed

lemma update_installation_ok:
  assumes "installation_constraints (installations f)"
    and "\<And>x. x \<in> set (installations f) \<Longrightarrow> ins_id x = i \<Longrightarrow> ins_installation_uuid (g x) = ins_installation_uuid x
       \<and> ins_tablet (g x) = ins_tablet x \<and> current_status (ins_status (g x)) = current_status (ins_status x)"
  shows "update_installation i g f = Inr (f\<lparr>installations := map (\<lambda>r. if ins_id r = i then g r else r) (installations f)\<rparr>)"
  unfolding update_installation_def put_installations_def
  by (subst constraints_map) (use assms in auto)

lemma operational_same:
  assumes "clock (base f') = clock (base f)" "departments (base f') = departments (base f)" "stations (base f') = stations (base f)"
    and "vehicles f' = vehicles f" and "vehicle_assignments f' = vehicle_assignments f"
  shows "require_active_operational_tablet tab f' = require_active_operational_tablet tab f"
proof -
  have "station_is_active (base f') = station_is_active (base f)" "department_is_active (base f') = department_is_active (base f)"
    using assms(2,3) by (simp_all add: fun_eq_iff station_is_active_def department_is_active_def)
  then show ?thesis
    using assms by (simp add: require_active_operational_tablet_def require_department_of_tablet_def require_assignment_def
        has_current_operational_assignment_def cong: option.case_cong)
qed

lemma current_alone:
  assumes "fleet_inv f" and "x \<in> set (installations f)" and "y \<in> set (installations f)" and "ins_tablet x = ins_tablet y"
    and "current_status (ins_status x)" and "current_status (ins_status y)"
  shows "x = y"
  using assms by (auto simp: fleet_inv_def installation_constraints_def distinct_map inj_on_def)

lemma mark_stale_ok:
  assumes "fleet_inv f" and "fetch_installation (ins_id n) f = Inr n" and "current_status (ins_status n)"
  obtains f' where "mark_stale n t now f = Inr f'" "fleet_inv f'"
    "require_active_operational_tablet tab f' = require_active_operational_tablet tab f"
proof -
  let ?g = "\<lambda>i :: installation_row. i\<lparr>ins_status := INS_STALE, ins_stale_at := Some now\<rparr>"
  let ?f = "f\<lparr>installations := map (\<lambda>r. if ins_id r = ins_id n then ?g r else r) (installations f)\<rparr>"
  have cur: "current_status (ins_status x)" if "x \<in> set (installations f)" "ins_id x = ins_id n" for x
    using fetch_unique(3) [OF assms(1,2) that] assms(3) by simp
  have "update_installation (ins_id n) ?g f = Inr ?f"
    by (rule update_installation_ok) (use assms(1) cur in \<open>auto simp: fleet_inv_def current_status_def\<close>)
  then have m: "mark_stale n t now f
      = Inr (fleet_event ''tablet.became_stale'' None (Some (tab_department t)) ''app_installation'' (ins_id n) [] ?f)"
    by (simp add: mark_stale_def)
  then have "fleet_keeps f (fleet_event ''tablet.became_stale'' None (Some (tab_department t)) ''app_installation'' (ins_id n) [] ?f)"
    by (rule mark_stale_keeps) (use cur in auto)
  with assms(1) show ?thesis
    by (intro that [OF m] operational_same) (simp_all add: preserves_def fleet_event_def on_base_def record_event_def)
qed

lemma authorize_check_in_ok:
  assumes inv: "fleet_inv f" and n0: "fetch_installation (ins_id n) f = Inr n0"
    and st: "ins_status n0 = ins_status n" "ins_tablet n0 = ins_tablet n" and cur: "current_status (ins_status n)"
    and ok: "require_active_operational_tablet tab f = Inr u"
  shows "\<exists>a f'. authorize_check_in n tab d now f = Inr (a, f') \<and> fleet_inv f'"
proof (cases "ins_status n = INS_STALE")
  case True
  let ?g = "\<lambda>i :: installation_row. i\<lparr>ins_status := INS_ACTIVE, ins_authorization_valid_until := lease_target d now,
         ins_last_successful_check_in_at := Some now\<rparr>"
  have m0: "n0 \<in> set (installations f)" "ins_id n0 = ins_id n"
    using n0 by (simp_all add: fetch_installation_def of_option_Inr row_get_SomeD)
  have "is_current_installation n f"
    using current_alone [OF inv _ m0(1)] st cur m0(2) by (fastforce simp: is_current_installation_def)
  moreover have c: "current_status (ins_status x)" if "x \<in> set (installations f)" "ins_id x = ins_id n" for x
    using fetch_unique(3) [OF inv n0 that] cur st by simp
  have "\<exists>f1. update_installation (ins_id n) ?g f = Inr f1"
    by (rule exI, rule update_installation_ok) (use inv c in \<open>auto simp: fleet_inv_def current_status_def\<close>)
  ultimately obtain f' where r: "recover_stale_installation n tab d now f = Inr f'"
    using True ok by (auto simp: recover_stale_installation_def)
  have "fleet_keeps f f'" by (rule recover_stale_keeps [OF r c])
  with r True inv show ?thesis by (simp add: authorize_check_in_def preserves_def)
next
  case False
  with ok inv show ?thesis by (simp add: authorize_check_in_def)
qed

lemma operational_check_in_ok:
  assumes inv: "fleet_inv f" and n: "fetch_installation (ins_id n) f = Inr n" and cur: "current_status (ins_status n)"
    and ok: "require_active_operational_tablet tab f = Inr u"
    and v: "version_blocked m (ins_app_version (telemetry_fields t (clock (base f)) n)) = Inr False"
  shows "\<exists>f'. operational_check_in n tab d t m f = Inr (False, f')"
proof -
  let ?now = "clock (base f)"
  let ?exp = "ins_status n = INS_ACTIVE \<and> ins_authorization_valid_until n \<le> ?now"
  let ?n = "n\<lparr>ins_status := if ?exp then INS_STALE else ins_status n\<rparr>"
  obtain f1 where f1: "(if ?exp then mark_stale n tab ?now f else Inr f) = Inr f1" "fleet_inv f1"
      "require_active_operational_tablet tab f1 = Inr u"
  proof (cases ?exp)
    case True
    from mark_stale_ok [OF inv n cur, of tab ?now tab] obtain g where "mark_stale n tab ?now f = Inr g" "fleet_inv g"
      "require_active_operational_tablet tab g = require_active_operational_tablet tab f" .
    with True ok show ?thesis by (intro that [of g]) simp_all
  qed (use inv ok that in auto)
  obtain n0 where n0: "fetch_installation (ins_id ?n) f1 = Inr n0" "ins_status n0 = ins_status ?n" "ins_tablet n0 = ins_tablet ?n"
    using f1(1) n fetch_stale [OF _ n] by (auto split: if_splits)
  have "current_status (ins_status ?n)" using cur by (simp add: current_status_def)
  from authorize_check_in_ok [OF f1(2) n0 this f1(3)] obtain a f2 where
    a: "authorize_check_in ?n tab d ?now f1 = Inr (a, f2)" "fleet_inv f2" by blast
  have "\<exists>f3. update_installation (ins_id n) (\<lambda>i. (telemetry_fields t ?now i)\<lparr>ins_last_successful_check_in_at := Some ?now,
      ins_authorization_valid_until := (if renew_lease_if_due a tab d f2 ?now then lease_target d ?now
        else ins_authorization_valid_until i)\<rparr>) f2 = Inr f3"
    by (rule exI, rule update_installation_ok) (use a(2) in \<open>auto simp: fleet_inv_def\<close>)
  with f1(1) v a(1) show ?thesis by (auto simp: operational_check_in_def Let_def)
qed

text \<open>
  A current installation, also one that went stale, always comes back: with its credential, on an ACTIVE
  tablet that meets the operational prerequisites and with a version the policy accepts, a check-in returns and
  leaves the installation ACTIVE with an authorization in the future.
\<close>

theorem check_in_restores_service:
  assumes "fleet_inv f" and "fetch_installation i f = Inr n" and "fetch_tablet (ins_tablet n) f = Inr tab"
    and "fetch_department (tab_department tab) (base f) = Inr d" and "dep_tablet_lease_days d > 0"
    and "verify_credential T n credential" and "current_status (ins_status n)"
    and "require_active_operational_tablet tab f = Inr ()"
    and "version_blocked m (ins_app_version (telemetry_fields t (clock (base f)) n)) = Inr False"
  shows "\<exists>f' n'. check_in T i credential t m f = Inr (False, f') \<and> fetch_installation i f' = Inr n'
     \<and> ins_status n' = INS_ACTIVE \<and> ins_authorization_valid_until n' > clock (base f)"
proof -
  have i: "ins_id n = i" using assms(2) by (simp add: fetch_installation_def of_option_Inr row_get_key)
  have active: "tab_status tab = TAB_ACTIVE"
    using assms(8) by (auto simp: require_active_operational_tablet_def bind_res_Inr require_Inr)
  from operational_check_in_ok [OF assms(1) _ assms(7-9), of d] i assms(2) obtain f' where
    f': "operational_check_in n tab d t m f = Inr (False, f')" by blast
  have "check_in T i credential t m f = Inr (False, f')"
    using assms(2-4,6,7) active f' by (simp add: check_in_def Let_def)
  moreover have "lease_target d (clock (base f)) > clock (base f)"
    using assms(5) by (simp add: lease_target_def usec_per_day_value)
  ultimately show ?thesis
    using operational_check_in_effect [OF f' _ assms(7)] i assms(2) by auto
qed

theorem check_in_restores_service_witness:
  "\<exists>f' n'. check_in demo_tablet_env 46 ''cred'' no_telemetry (Some \<lparr>major = 1, minor = 2, patch = 3\<rparr>) demo_served = Inr (False, f')
     \<and> fetch_installation 46 f' = Inr n' \<and> ins_status n' = INS_ACTIVE \<and> ins_authorization_valid_until n' > 1000"
proof -
  let ?tab = "demo_tablet\<lparr>tab_status := TAB_ACTIVE\<rparr>"
  have "require_active_operational_tablet ?tab demo_served = Inr ()" by code_simp
  moreover have "version_blocked (Some \<lparr>major = 1, minor = 2, patch = 3\<rparr>) (ins_app_version (telemetry_fields no_telemetry (clock (base demo_served))
      (demo_installation 46 INS_STALE))) = Inr False" by code_simp
  moreover have "verify_credential demo_tablet_env (demo_installation 46 INS_STALE) ''cred''"
    by (simp add: verify_credential_def demo_tablet_env_def demo_defs)
  ultimately show ?thesis
    using check_in_restores_service [OF demo_served_inv demo_served_rows(1), of ?tab demo_department] demo_served_rows(2,3)
    by (simp add: demo_defs demo_department_def current_status_def)
qed

subsection \<open>The physical asset\<close>

text \<open>
  C23: RETIRED is final: whatever the services do, a retired tablet stays RETIRED, and it can neither be
  activated, deactivated, reported lost, recovered, retired again nor invited for adoption.
\<close>

theorem retired_tablet_final:
  assumes "fleet_inv f" and "fleet_run T f f'" and "fetch_tablet t f = Inr tab" and "tab_status tab = TAB_RETIRED"
  shows "(\<exists>tab'. fetch_tablet t f' = Inr tab' \<and> tab_status tab' = TAB_RETIRED)
     \<and> isl (activate_tablet actor t f') \<and> isl (deactivate_tablet actor t f') \<and> isl (mark_tablet_lost actor t reason f')
     \<and> isl (recover_tablet actor t f') \<and> isl (retire_tablet actor t reason f')
     \<and> isl (create_adoption_invitation T actor t expires token f')"
proof -
  from run_tablet [OF assms(2,1,3)] obtain tab' where t: "fetch_tablet t f' = Inr tab'" "tablet_evolves tab tab'" .
  then have s: "tab_status tab' = TAB_RETIRED"
    using assms(4) asset_path_retired by (simp add: tablet_evolves_def)
  have auth: "x = tab'" if "authorized_tablet actor t f' = Inr x" for x
    using that t(1) by (auto simp: authorized_tablet_def bind_res_Inr)
  have step: "require_asset_transition x new = Inr u \<Longrightarrow> authorized_tablet actor t f' = Inr x \<Longrightarrow> False" for x new u
    using auth s by (auto simp: require_asset_transition_def require_Inr)
  have "isl (create_adoption_invitation T actor t expires token f')"
    by (rule isl_never) (use t(1) s in \<open>auto simp: create_adoption_invitation_def bind_res_Inr dest!: operational_in_service
      simp: in_service_def\<close>)
  moreover have "isl (activate_tablet actor t f')" "isl (deactivate_tablet actor t f')" "isl (recover_tablet actor t f')"
      "isl (mark_tablet_lost actor t reason f')" "isl (retire_tablet actor t reason f')"
    by (rule isl_never, use step in \<open>auto simp: activate_tablet_def deactivate_tablet_def recover_tablet_def
      mark_tablet_lost_def retire_tablet_def bind_res_Inr\<close>)+
  ultimately show ?thesis using t(1) s by simp
qed

theorem retired_tablet_final_witness:
  "isl (recover_tablet (Some 7) 40 (demo_fleet\<lparr>tablets := [demo_tablet\<lparr>tab_status := TAB_RETIRED, tab_active := False\<rparr>]\<rparr>))"
proof -
  let ?t = "demo_tablet\<lparr>tab_status := TAB_RETIRED, tab_active := False\<rparr>"
  have "fleet_inv (demo_fleet\<lparr>tablets := [?t]\<rparr>)"
    by (simp add: fleet_inv_def fleet_ids_def demo_defs installation_constraints_def in_service_def MAX_FAILED_ATTEMPTS_def)
  moreover have "fetch_tablet 40 (demo_fleet\<lparr>tablets := [?t]\<rparr>) = Inr ?t"
    by (simp add: fetch_tablet_def row_get_def demo_tablet_def new_tablet_def)
  ultimately show ?thesis using retired_tablet_final [OF _ rtranclp.rtrancl_refl] by simp
qed

definition same_key_grants :: "world \<Rightarrow> world \<Rightarrow> bool" where
  "same_key_grants w w' \<longleftrightarrow> dataset_key_grants w' = dataset_key_grants w \<and> generation_key_grants w' = generation_key_grants w"

lemma same_key_grants_event: "same_key_grants w (record_event a b c d e g h w)"
  by (simp add: same_key_grants_def record_event_def)

lemma same_key_grants_access: "same_key_grants w (revoke_access a b c d e g w)"
  by (simp add: revoke_access_def same_key_grants_def record_event_def Let_def)

lemma same_key_grants_refl [simp]: "same_key_grants w w"
  by (simp add: same_key_grants_def)

lemma same_key_grants_trans: "same_key_grants u v \<Longrightarrow> same_key_grants v w \<Longrightarrow> same_key_grants u w"
  by (simp add: same_key_grants_def)

lemma same_key_grants_mutation: "same_key_grants w (department_mutation a w)"
proof -
  have "same_key_grants w (snd (revoke_temporary_access u r t y w))" for u r t y
  proof (cases "active_temporary_access u w")
    case (Pair x w1)
    have "same_key_grants w (snd (active_temporary_access u w))"
      by (simp add: active_temporary_access_def same_key_grants_access split: option.splits)
    with Pair show ?thesis
      by (auto simp: revoke_temporary_access_def split: option.splits intro: same_key_grants_trans [OF _ same_key_grants_access])
  qed
  then show ?thesis by (simp add: department_mutation_def split: option.splits)
qed

lemma finish_asset_change_frame:
  assumes "finish_asset_change actor tab s a action f = Inr f'"
  shows "signed_manifests f' = signed_manifests f \<and> same_key_grants (base f) (base f')"
proof -
  from assms obtain ts where "f' = on_base (department_mutation actor)
      (fleet_event action actor (Some (tab_department tab)) ''tablet'' (tab_id tab) [] (f\<lparr>tablets := ts\<rparr>))"
    by (auto simp: finish_asset_change_def bind_res_Inr update_tablet_def put_tablets_def split: if_splits)
  then show ?thesis
    using same_key_grants_trans [OF same_key_grants_event same_key_grants_mutation] by (simp add: fleet_event_def on_base_def)
qed

lemma revoked_grants_fold:
  assumes "k \<in> set (dataset_key_grants (fold revoke_dataset_key_grants ids w))
      \<or> k \<in> set (generation_key_grants (fold revoke_dataset_key_grants ids w))" and "kg_app_installation k \<in> set ids"
  shows "kg_status k = GRANT_REVOKED"
  using assms
proof (induction ids arbitrary: w rule: rev_induct)
  case (snoc i ids)
  have g: "kg_app_installation (if P then revoke_grant c x else x) = kg_app_installation x"
    "kg_status (revoke_grant c x) = GRANT_REVOKED" for P c x
    by (simp_all add: revoke_grant_def)
  from snoc show ?case
    by (auto simp: revoke_dataset_key_grants_def Let_def g split: if_splits)
qed simp

lemma row_get_map_put:
  "row_get key i rows = Some r \<Longrightarrow> key (g r) = i \<Longrightarrow>
     row_get key i (map (\<lambda>x. if key x = i then g x else x) rows) = Some (g r)"
  by (induction rows) (auto simp: row_get_def split: if_splits)

lemma tablet_constraints_map:
  assumes "\<And>t. tab_department (g t) = tab_department t \<and> tab_display_name (g t) = tab_display_name t
      \<and> tab_asset_number (g t) = tab_asset_number t"
  shows "tablet_constraints (map g rows) \<longleftrightarrow> tablet_constraints rows"
  by (simp add: tablet_constraints_def filter_map comp_def assms)

lemma finish_asset_change_succeeds:
  assumes "tablet_constraints (tablets f)"
  shows "\<exists>f'. finish_asset_change actor tab s a action f = Inr f'
    \<and> tablets f' = map (\<lambda>r. if tab_id r = tab_id tab then r\<lparr>tab_status := s, tab_active := a\<rparr> else r) (tablets f)"
  using assms
  by (simp add: finish_asset_change_def update_tablet_def put_tablets_def tablet_constraints_map fleet_event_def on_base_def)

text \<open>
  C24: Recovery is meant for lost tablets, but it is open to a tablet in service: for an ACTIVE tablet and an
  administrator of its department, both recovery and deactivation succeed and leave the tablet INACTIVE.
  Deactivation revokes every key grant of its current installations and retires their signed manifests; recovery
  withdraws nothing: every key grant and every manifest stays as it was.
\<close>

theorem recovery_skips_withdrawal:
  assumes "fetch_tablet t f = Inr tab" and "tab_status tab = TAB_ACTIVE"
    and "require_department_admin (base f) actor (Some (tab_department tab)) = Inr ()" and "tablet_constraints (tablets f)"
    and "n \<in> set (installations f)" and "ins_tablet n = t" and "current_status (ins_status n)"
  shows "\<exists>r d. recover_tablet actor t f = Inr r \<and> deactivate_tablet actor t f = Inr d
     \<and> fetch_tablet t r = Inr (tab\<lparr>tab_status := TAB_INACTIVE, tab_active := True\<rparr>)
     \<and> fetch_tablet t d = Inr (tab\<lparr>tab_status := TAB_INACTIVE, tab_active := True\<rparr>)
     \<and> dataset_key_grants (base r) = dataset_key_grants (base f) \<and> generation_key_grants (base r) = generation_key_grants (base f)
     \<and> signed_manifests r = signed_manifests f
     \<and> (\<forall>k\<in>set (dataset_key_grants (base d)) \<union> set (generation_key_grants (base d)).
          kg_app_installation k = ins_id n \<longrightarrow> kg_status k = GRANT_REVOKED)
     \<and> (\<forall>m\<in>set (signed_manifests d). sm_app_installation m = ins_id n \<longrightarrow> sm_status m = MAN_OBSOLETE)"
proof -
  let ?ids = "map ins_id (filter (\<lambda>i. ins_tablet i = t \<and> current_status (ins_status i)) (installations f))"
  let ?f = "obsolete_manifests ?ids (clock (base f)) (revoke_grants_of t current_status f)"
  have row: "row_get tab_id t (tablets f) = Some tab" "tab_id tab = t"
    using assms(1) by (simp_all add: fetch_tablet_def of_option_Inr row_get_key)
  have auth: "authorized_tablet actor t f = Inr tab" using assms(1,3) by (simp add: authorized_tablet_def)
  have trans: "require_asset_transition tab TAB_INACTIVE = Inr ()"
    using assms(2) by (simp add: require_asset_transition_def require_def)
  have tabs: "tablets ?f = tablets f" by (simp add: obsolete_manifests_def revoke_grants_of_def on_base_def)
  obtain r where r: "finish_asset_change actor tab TAB_INACTIVE True ''tablet.recovered'' f = Inr r"
      "tablets r = map (\<lambda>r. if tab_id r = tab_id tab then r\<lparr>tab_status := TAB_INACTIVE, tab_active := True\<rparr> else r) (tablets f)"
    using finish_asset_change_succeeds [OF assms(4)] by blast
  obtain d where d: "finish_asset_change actor tab TAB_INACTIVE True ''tablet.deactivated'' ?f = Inr d"
      "tablets d = map (\<lambda>r. if tab_id r = tab_id tab then r\<lparr>tab_status := TAB_INACTIVE, tab_active := True\<rparr> else r) (tablets f)"
    using finish_asset_change_succeeds [of ?f] assms(4) tabs by metis
  have calls: "recover_tablet actor t f = Inr r" "deactivate_tablet actor t f = Inr d"
    using auth trans r(1) d(1) by (simp_all add: recover_tablet_def deactivate_tablet_def Let_def)
  have fetched: "fetch_tablet t r = Inr (tab\<lparr>tab_status := TAB_INACTIVE, tab_active := True\<rparr>)"
      "fetch_tablet t d = Inr (tab\<lparr>tab_status := TAB_INACTIVE, tab_active := True\<rparr>)"
    unfolding fetch_tablet_def r(2) d(2) using row by (simp_all add: row_get_map_put)
  have rf: "signed_manifests r = signed_manifests f \<and> same_key_grants (base f) (base r)" using r(1) by (rule finish_asset_change_frame)
  have df: "signed_manifests d = signed_manifests ?f \<and> same_key_grants (base ?f) (base d)" using d(1) by (rule finish_asset_change_frame)
  have n: "ins_id n \<in> set ?ids" using assms(5-7) by auto
  have b: "base ?f = fold revoke_dataset_key_grants ?ids (base f)"
    by (simp add: obsolete_manifests_def revoke_grants_of_def on_base_def)
  have "kg_status k = GRANT_REVOKED"
    if "k \<in> set (dataset_key_grants (base d)) \<union> set (generation_key_grants (base d))" "kg_app_installation k = ins_id n" for k
    using df that n revoked_grants_fold [of k ?ids "base f"] unfolding same_key_grants_def b by auto
  moreover have "sm_status m = MAN_OBSOLETE" if "m \<in> set (signed_manifests d)" "sm_app_installation m = ins_id n" for m
    using df that n by (auto simp: obsolete_manifests_def split: if_splits)
  ultimately show ?thesis using calls fetched rf by (auto simp: same_key_grants_def)
qed

definition demo_keyed :: fleet where
  "demo_keyed = demo_served\<lparr>base := demo_base\<lparr>dataset_key_grants := [\<lparr>kg_id = 30, kg_publication = 31,
     kg_app_installation = 46, kg_status = GRANT_READY, kg_revoked_at = None\<rparr>]\<rparr>\<rparr>"

theorem recovery_skips_withdrawal_witness:
  "\<exists>r. recover_tablet (Some 7) 40 demo_keyed = Inr r \<and> map tab_status (tablets demo_keyed) = [TAB_ACTIVE]
     \<and> map kg_status (dataset_key_grants (base r)) = [GRANT_READY]"
proof -
  have h: "fetch_tablet 40 demo_keyed = Inr (hd (tablets demo_keyed))" "tab_status (hd (tablets demo_keyed)) = TAB_ACTIVE"
    "require_department_admin (base demo_keyed) (Some 7) (Some (tab_department (hd (tablets demo_keyed)))) = Inr ()"
    "tablet_constraints (tablets demo_keyed)"
    by code_simp+
  have n: "demo_installation 46 INS_STALE \<in> set (installations demo_keyed)"
    "ins_tablet (demo_installation 46 INS_STALE) = 40" "current_status (ins_status (demo_installation 46 INS_STALE))"
    by (simp_all add: demo_keyed_def demo_served_def demo_defs current_status_def)
  obtain r where "recover_tablet (Some 7) 40 demo_keyed = Inr r"
      "dataset_key_grants (base r) = dataset_key_grants (base demo_keyed)"
    using recovery_skips_withdrawal [OF h n] by blast
  then show ?thesis by (simp add: demo_keyed_def demo_defs)
qed

end
