(* ===== verification/Tablet_Numbers.thy ===== *)
theory Tablet_Numbers
  imports Tablet_Leases
begin

text \<open>
  The bounded allocation of asset numbers: distinct sequence values give distinct numbers, so the loop
  finds a free one whenever the department has fewer tablets than the loop has attempts.
\<close>

definition asset_text :: "department_row \<Rightarrow> int \<Rightarrow> string" where
  "asset_text d k = dep_asset_number_prefix d @ zfill (nat (dep_asset_number_width d)) (dec_int k)"

abbreviation at_sequence :: "department_row \<Rightarrow> int \<Rightarrow> department_row" where
  "at_sequence d k \<equiv> d\<lparr>dep_asset_number_sequence := k\<rparr>"

lemma read_nat_zeros: "read_nat (replicate k (CHR ''0'') @ s) = read_nat s"
proof -
  have z: "digit_value (CHR ''0'') = 0" by code_simp
  have "foldl (\<lambda>n c. 10 * n + digit_value c) 0 (replicate k (CHR ''0'')) = 0"
    by (induction k) (simp_all add: z)
  then show ?thesis by (simp add: read_nat_def)
qed

lemma asset_text_inj:
  assumes "0 \<le> j" and "0 \<le> k"
  shows "asset_text d j = asset_text d k \<longleftrightarrow> j = k"
proof
  assume "asset_text d j = asset_text d k"
  then have "read_nat (zfill (nat (dep_asset_number_width d)) (dec_nat (nat j)))
      = read_nat (zfill (nat (dep_asset_number_width d)) (dec_nat (nat k)))"
    using assms by (simp add: asset_text_def dec_int_def)
  then show "j = k" using assms by (simp add: zfill_def read_nat_zeros)
qed simp

lemma next_number_effect:
  assumes "fetch_department d (base f) = Inr r"
  shows "next_generated_asset_number d f =
     (if length (asset_text r (dep_asset_number_sequence r + 1)) \<le> ASSET_NUMBER_MAX_LENGTH
      then Inr (asset_text r (dep_asset_number_sequence r + 1),
        on_base (save_department (at_sequence r (dep_asset_number_sequence r + 1))) f)
      else Inl (TabletError ''The next generated asset number does not fit the Tablet asset-number length.''
        ''asset_number_exhausted''))"
  using assms by (simp add: next_generated_asset_number_def formatted_asset_number_def Let_def asset_text_def)

lemma department_after:
  assumes "fetch_department d (base f) = Inr r"
  shows "fetch_department d (base (on_base (save_department (at_sequence r k)) f)) = Inr (at_sequence r k)"
proof -
  have "dep_id r = d" "d \<in> dep_id ` set (departments (base f))"
    using assms by (auto simp: fetch_department_def of_option_Inr row_get_key dest: row_get_image)
  then show ?thesis by (simp add: fetch_department_def on_base_def save_department_def row_get_put)
qed

lemma asset_text_sequence [simp]: "asset_text (at_sequence d k) j = asset_text d j"
  by (simp add: asset_text_def)

lemma taken_on_base [simp]: "asset_number_taken d a (on_base g f) = asset_number_taken d a f"
  by (simp add: asset_number_taken_def on_base_def)

lemma tablets_on_base [simp]: "tablets (on_base g f) = tablets f"
  by (simp add: on_base_def)

lemma insert_tablet_ok:
  assumes "tablet_constraints (tablets f)" and "\<not> asset_number_taken d a f" and "a \<noteq> []"
    and "\<And>t. t \<in> set (tablets f) \<Longrightarrow> tab_department t = d \<Longrightarrow> tab_display_name t \<noteq> name"
  shows "\<exists>i f'. insert_tablet d name a actor f = Inr (i, f')
     \<and> (\<exists>t. tablets f' = tablets f @ [t] \<and> tab_id t = i \<and> tab_department t = d \<and> tab_asset_number t = a)
     \<and> departments (base f') = departments (base f)"
proof -
  obtain i f1 where f1: "fresh_fleet_id f = (i, f1)" "tablets f1 = tablets f" "departments (base f1) = departments (base f)"
    by (simp add: fresh_fleet_id_def fresh_id_def)
  have "tablet_constraints (tablets f @ [new_tablet i d name a actor (clock (base f))])"
    using assms by (auto simp: tablet_constraints_def new_tablet_def asset_number_taken_def)
  with f1 show ?thesis
    by (auto simp: insert_tablet_def put_tablets_def new_tablet_def)
qed

text \<open>How the loop ends: at the first free number, or with every number it tried taken.\<close>

lemma create_generated_tablet_first_free:
  assumes "fetch_department d (base f) = Inr r" and "tablet_constraints (tablets f)"
    and "\<And>t. t \<in> set (tablets f) \<Longrightarrow> tab_department t = d \<Longrightarrow> tab_display_name t \<noteq> name"
    and "\<And>k. k < n \<Longrightarrow> length (asset_text r (dep_asset_number_sequence r + 1 + int k)) \<le> ASSET_NUMBER_MAX_LENGTH"
    and "k0 < n" and "\<not> asset_number_taken d (asset_text r (dep_asset_number_sequence r + 1 + int k0)) f"
    and "\<And>k. k < k0 \<Longrightarrow> asset_number_taken d (asset_text r (dep_asset_number_sequence r + 1 + int k)) f"
  shows "\<exists>i f' t. create_generated_tablet n actor d name f = Inr (i, f') \<and> tablets f' = tablets f @ [t] \<and> tab_id t = i
     \<and> tab_department t = d \<and> tab_asset_number t = asset_text r (dep_asset_number_sequence r + 1 + int k0)
     \<and> fetch_department d (base f') = Inr (at_sequence r (dep_asset_number_sequence r + 1 + int k0))"
  using assms
proof (induction n arbitrary: f r k0)
  case (Suc n)
  let ?s = "dep_asset_number_sequence r"
  let ?f = "on_base (save_department (at_sequence r (?s + 1))) f"
  have nxt: "next_generated_asset_number d f = Inr (asset_text r (?s + 1), ?f)"
    using next_number_effect [OF Suc.prems(1)] Suc.prems(4) [of 0] by simp
  have dep: "fetch_department d (base ?f) = Inr (at_sequence r (?s + 1))" by (rule department_after [OF Suc.prems(1)])
  show ?case
  proof (cases k0)
    case 0
    have "asset_text r (?s + 1) \<noteq> []" by (simp add: asset_text_def zfill_def dec_int_def)
    with insert_tablet_ok [of ?f d "asset_text r (?s + 1)" name actor] 0 Suc.prems(2,3,6) nxt dep show ?thesis
      by (auto simp: fetch_department_def)
  next
    case (Suc k)
    have taken: "asset_number_taken d (asset_text r (?s + 1)) ?f" using Suc.prems(7) [of 0] Suc by simp
    have "\<exists>i f' t. create_generated_tablet n actor d name ?f = Inr (i, f') \<and> tablets f' = tablets ?f @ [t] \<and> tab_id t = i
       \<and> tab_department t = d
       \<and> tab_asset_number t = asset_text (at_sequence r (?s + 1)) (dep_asset_number_sequence (at_sequence r (?s + 1)) + 1 + int k)
       \<and> fetch_department d (base f') = Inr (at_sequence (at_sequence r (?s + 1))
            (dep_asset_number_sequence (at_sequence r (?s + 1)) + 1 + int k))"
    proof (rule Suc.IH [OF dep])
      show "length (asset_text (at_sequence r (?s + 1)) (dep_asset_number_sequence (at_sequence r (?s + 1)) + 1 + int j))
          \<le> ASSET_NUMBER_MAX_LENGTH" if "j < n" for j
        using Suc.prems(4) [of "Suc j"] that by (simp add: algebra_simps)
      show "asset_number_taken d (asset_text (at_sequence r (?s + 1)) (dep_asset_number_sequence (at_sequence r (?s + 1)) + 1 + int j)) ?f"
        if "j < k" for j
        using Suc.prems(7) [of "Suc j"] that \<open>k0 = Suc k\<close> by (simp add: algebra_simps)
    qed (use Suc.prems \<open>k0 = Suc k\<close> in \<open>simp_all add: algebra_simps\<close>)
    then show ?thesis using nxt taken \<open>k0 = Suc k\<close> by (simp add: algebra_simps)
  qed
qed simp

lemma some_number_free:
  assumes "0 \<le> dep_asset_number_sequence r" and "length (filter (\<lambda>t. tab_department t = d) (tablets f)) < n"
  shows "\<exists>k<n. \<not> asset_number_taken d (asset_text r (dep_asset_number_sequence r + 1 + int k)) f"
proof (rule ccontr)
  let ?num = "\<lambda>k. asset_text r (dep_asset_number_sequence r + 1 + int k)"
  let ?ts = "filter (\<lambda>t. tab_department t = d) (tablets f)"
  assume "\<not> ?thesis"
  then have "?num ` {..<n} \<subseteq> tab_asset_number ` set ?ts" by (force simp: asset_number_taken_def)
  then have "card (?num ` {..<n}) \<le> card (tab_asset_number ` set ?ts)" by (intro card_mono) auto
  also have "\<dots> \<le> length ?ts" by (metis card_length length_map set_map)
  finally have "card (?num ` {..<n}) < n" using assms(2) by simp
  moreover have "inj_on ?num {..<n}" using assms(1) by (intro inj_onI) (simp add: asset_text_inj)
  ultimately show False by (simp add: card_image)
qed

text \<open>
  C25: The bounded allocation loop always ends with a number: in a department with fewer than a thousand tablets,
  for an unused display name and while the numbers fit the field, registration stores exactly one new tablet; its
  number is unused, belongs to a sequence value above the old one and within the thousand next, and the
  department's sequence is advanced to that value.
\<close>

theorem allocation_finds_number:
  assumes "fetch_department d (base f) = Inr r" and "0 \<le> dep_asset_number_sequence r" and "tablet_constraints (tablets f)"
    and "\<forall>t\<in>set (tablets f). tab_department t = d \<longrightarrow> tab_display_name t \<noteq> name"
    and "length (filter (\<lambda>t. tab_department t = d) (tablets f)) < 1000"
    and "\<forall>k<1000. length (dep_asset_number_prefix r @ zfill (nat (dep_asset_number_width r))
           (dec_int (dep_asset_number_sequence r + 1 + int k))) \<le> ASSET_NUMBER_MAX_LENGTH"
  shows "\<exists>i f' t k. create_generated_tablet MAX_ASSET_NUMBER_ALLOCATION_ATTEMPTS actor d name f = Inr (i, f')
     \<and> tablets f' = tablets f @ [t] \<and> tab_id t = i \<and> tab_department t = d \<and> \<not> asset_number_taken d (tab_asset_number t) f
     \<and> tab_asset_number t = dep_asset_number_prefix r @ zfill (nat (dep_asset_number_width r)) (dec_int k)
     \<and> dep_asset_number_sequence r < k \<and> k \<le> dep_asset_number_sequence r + 1000
     \<and> fetch_department d (base f') = Inr (r\<lparr>dep_asset_number_sequence := k\<rparr>)"
proof -
  let ?free = "\<lambda>k. \<not> asset_number_taken d (asset_text r (dep_asset_number_sequence r + 1 + int k)) f"
  define k0 where "k0 = (LEAST k. ?free k)"
  from some_number_free [OF assms(2,5)] obtain k where k: "k < 1000" "?free k" by blast
  have free: "?free k0" unfolding k0_def by (rule LeastI [of ?free, OF k(2)])
  have le: "k0 \<le> k" unfolding k0_def by (rule Least_le [of ?free, OF k(2)])
  have first: "asset_number_taken d (asset_text r (dep_asset_number_sequence r + 1 + int j)) f" if "j < k0" for j
    using not_less_Least [of j ?free] that unfolding k0_def by blast
  from create_generated_tablet_first_free [OF assms(1,3), of name 1000 k0 actor] assms(4,6) le k(1) free first
  obtain i f' t where "create_generated_tablet 1000 actor d name f = Inr (i, f')" "tablets f' = tablets f @ [t]" "tab_id t = i"
    "tab_department t = d" "tab_asset_number t = asset_text r (dep_asset_number_sequence r + 1 + int k0)"
    "fetch_department d (base f') = Inr (at_sequence r (dep_asset_number_sequence r + 1 + int k0))"
    by (auto simp: asset_text_def)
  moreover have "dep_asset_number_sequence r + 1 + int k0 \<le> dep_asset_number_sequence r + 1000" using le k(1) by simp
  ultimately show ?thesis
    using free unfolding MAX_ASSET_NUMBER_ALLOCATION_ATTEMPTS_def asset_text_def
    by (intro exI [of _ i] exI [of _ f'] exI [of _ t] exI [of _ "dep_asset_number_sequence r + 1 + int k0"]) simp
qed

lemma length_dec_nat: "n < 10 ^ Suc m \<Longrightarrow> length (dec_nat n) \<le> Suc m"
proof (induction m arbitrary: n)
  case (Suc m)
  show ?case
  proof (cases "n < 10")
    case False
    with Suc.prems have "length (dec_nat (n div 10)) \<le> Suc m" by (intro Suc.IH) auto
    with False show ?thesis by (subst dec_nat.simps) simp
  qed (subst dec_nat.simps, simp)
qed (subst dec_nat.simps, simp)

theorem allocation_finds_number_witness:
  "\<exists>i f' t. create_generated_tablet MAX_ASSET_NUMBER_ALLOCATION_ATTEMPTS (Some 7) 1 ''Rear'' demo_fleet = Inr (i, f')
     \<and> tablets f' = tablets demo_fleet @ [t] \<and> \<not> asset_number_taken 1 (tab_asset_number t) demo_fleet"
proof -
  have fits: "length (dep_asset_number_prefix demo_department @ zfill (nat (dep_asset_number_width demo_department))
      (dec_int (dep_asset_number_sequence demo_department + 1 + int k))) \<le> ASSET_NUMBER_MAX_LENGTH" if "k < 1000" for k
    using length_dec_nat [of "Suc k" 3] that
    by (simp add: demo_department_def zfill_def dec_int_def ASSET_NUMBER_MAX_LENGTH_def nat_add_distrib)
  have "fetch_department 1 (base demo_fleet) = Inr demo_department"
    by (simp add: fetch_department_def demo_defs demo_department_def row_get_def)
  from allocation_finds_number [OF this, of "''Rear''" "Some 7"] fits show ?thesis
    by (force simp: demo_department_def demo_defs tablet_constraints_def)
qed

end
