(* ===== verification/Library_Tree.thy ===== *)
theory Library_Tree
  imports Lifecycle_Queue Py_String
begin

text \<open>
  Document libraries (apps/file_library/models.py): libraries, their immutable contents, the tree of folders and
  logical documents, and the quota policies; and of apps/file_library/services.py the names, the walks over the
  tree and the location rules.  The state wraps the database of the publication services (\<open>hall\<close>), whose
  source of a file dataset is the snapshot of the library.
\<close>

subsection \<open>Rows and constraints\<close>

record library_row =
  lib_id :: nat
  lib_department :: "nat option"
  lib_station :: "nat option"
  lib_name :: string
  lib_source_revision :: int
  lib_usage_bytes :: int

record content_row =
  con_id :: nat
  con_library :: nat
  con_storage_key :: string
  con_size_bytes :: int
  con_sha256 :: string
  con_created_at :: timestamp

record entry_row =
  ent_id :: nat
  ent_library :: nat
  ent_parent :: "nat option"
  ent_name :: string
  ent_is_folder :: bool
  ent_content :: "nat option"
  ent_modified_at :: timestamp
  ent_modified_by :: nat

record quota_policy_row =
  qpo_department :: nat
  qpo_department_files_bytes :: int
  qpo_station_files_bytes :: int

record shelf =
  hall :: world
  libraries :: "library_row list"
  contents :: "content_row list"
  entries :: "entry_row list"
  quota_policies :: "quota_policy_row list"
  accepted_files :: "string list"

definition library_constraints :: "library_row list \<Rightarrow> bool" where
  "library_constraints rows =
     (list_all (\<lambda>l. (lib_department l = None) \<noteq> (lib_station l = None) \<and> 0 \<le> lib_usage_bytes l) rows
      \<and> distinct (map lib_department (filter (\<lambda>l. lib_department l \<noteq> None) rows))
      \<and> distinct (map lib_station (filter (\<lambda>l. lib_station l \<noteq> None) rows)))"

definition entry_constraints :: "entry_row list \<Rightarrow> bool" where
  "entry_constraints rows =
     (distinct (map (\<lambda>e. (lower (ent_name e), ent_library e, ent_parent e)) rows)
      \<and> list_all (\<lambda>e. ent_is_folder e = (ent_content e = None)) rows)"

definition put_libraries :: "library_row list \<Rightarrow> shelf \<Rightarrow> shelf res" where
  "put_libraries rows s =
     (if library_constraints rows then Inr (s\<lparr>libraries := rows\<rparr>) else Inl (IntegrityError ''file_library_library''))"

definition put_entries :: "entry_row list \<Rightarrow> shelf \<Rightarrow> shelf res" where
  "put_entries rows s =
     (if entry_constraints rows then Inr (s\<lparr>entries := rows\<rparr>) else Inl (IntegrityError ''file_library_entry''))"

definition on_hall :: "(world \<Rightarrow> world) \<Rightarrow> shelf \<Rightarrow> shelf" where
  "on_hall g s = s\<lparr>hall := g (hall s)\<rparr>"

definition lift_hall :: "(world \<Rightarrow> ('a \<times> world) res) \<Rightarrow> shelf \<Rightarrow> ('a \<times> shelf) res" where
  "lift_hall m s = bind_res (m (hall s)) (\<lambda>(x, w). Inr (x, s\<lparr>hall := w\<rparr>))"

definition fresh_shelf_id :: "shelf \<Rightarrow> nat \<times> shelf" where
  "fresh_shelf_id s = (let (i, w) = fresh_id (hall s) in (i, s\<lparr>hall := w\<rparr>))"

definition fetch_library :: "nat \<Rightarrow> shelf \<Rightarrow> library_row res" where
  "fetch_library i s = of_option (DoesNotExist ''Library'') (row_get lib_id i (libraries s))"

subsection \<open>Names and lookups\<close>

definition ends_with :: "string \<Rightarrow> string \<Rightarrow> bool" where
  "ends_with suffix s = (length suffix \<le> length s \<and> drop (length s - length suffix) s = suffix)"

definition name_value :: "bool \<Rightarrow> string \<Rightarrow> string res" where
  "name_value pdf raw =
     (let value = strip raw in
      bind_res (require (\<not> (value = [] \<or> length value > 255 \<or> value = ''.'' \<or> value = ''..''
          \<or> list_ex (\<lambda>c. (of_char c :: nat) < 32 \<or> c = CHR ''/'' \<or> c = bsl) value))
        (LibraryError ''Enter a name of 1-255 characters without path separators.'')) (\<lambda>_.
      bind_res (require (\<not> (pdf \<and> \<not> ends_with ''.pdf'' (lower value)))
        (LibraryError ''Document names must end in .pdf.'')) (\<lambda>_.
      Inr value)))"

definition scoped_entry :: "nat \<Rightarrow> nat \<Rightarrow> bool \<Rightarrow> entry_row list \<Rightarrow> entry_row res" where
  "scoped_entry library_id entry_id folder rows =
     bind_res (of_option (LibraryError ''The selected item is unavailable in this library.'')
       (find (\<lambda>e. ent_library e = library_id \<and> ent_id e = entry_id) rows)) (\<lambda>entry.
     bind_res (require (\<not> (folder \<and> \<not> ent_is_folder entry)) (LibraryError ''Select a folder.'')) (\<lambda>_.
     Inr entry))"

definition parent_entry :: "nat \<Rightarrow> nat option \<Rightarrow> entry_row list \<Rightarrow> entry_row option res" where
  "parent_entry library_id parent_id rows =
     (case parent_id of None \<Rightarrow> Inr None
      | Some i \<Rightarrow> bind_res (scoped_entry library_id i True rows) (\<lambda>e. Inr (Some e)))"

text \<open>\<open>entry.parent\<close>: the foreign key is followed.\<close>

definition parent_of :: "entry_row list \<Rightarrow> entry_row \<Rightarrow> entry_row option res" where
  "parent_of rows e =
     (case ent_parent e of None \<Rightarrow> Inr None
      | Some p \<Rightarrow> bind_res (of_option (DoesNotExist ''Entry'') (row_get ent_id p rows)) (\<lambda>x. Inr (Some x)))"

definition MAX_FOLDER_DEPTH :: nat where "MAX_FOLDER_DEPTH = 5"

text \<open>
  \<open>folder_ancestry\<close>: the loop ends by its own bound; \<open>n\<close> is how many folders may still be collected.
\<close>

fun ancestry :: "nat \<Rightarrow> nat \<Rightarrow> entry_row list \<Rightarrow> nat list \<Rightarrow> entry_row option \<Rightarrow> entry_row list res" where
  "ancestry n library_id rows seen None = Inr []"
| "ancestry n library_id rows seen (Some folder) =
     bind_res (require (ent_library folder = library_id \<and> ent_is_folder folder)
       (LibraryError ''The selected folder is unavailable in this library.'')) (\<lambda>_.
     bind_res (require (\<not> (ent_id folder \<in> set seen \<or> n = 0))
       (LibraryError ''Folder cycles or excessive folder depth are not allowed.'')) (\<lambda>_.
     case n of 0 \<Rightarrow> Inr []
     | Suc m \<Rightarrow>
         bind_res (case parent_of rows folder of
             Inl _ \<Rightarrow> Inl (LibraryError ''The selected folder is unavailable in this library.'') | Inr p \<Rightarrow> Inr p) (\<lambda>p.
         bind_res (ancestry m library_id rows (ent_id folder # seen) p) (\<lambda>above. Inr (above @ [folder])))))"

definition folder_ancestry :: "nat \<Rightarrow> entry_row option \<Rightarrow> entry_row list \<Rightarrow> entry_row list res" where
  "folder_ancestry library_id folder rows = ancestry MAX_FOLDER_DEPTH library_id rows [] folder"

subsection \<open>Locations\<close>

text \<open>The climb from the parent to the root: \<open>n\<close> is how many folders may still be met.\<close>

fun climb :: "nat \<Rightarrow> entry_row list \<Rightarrow> nat option \<Rightarrow> entry_row option \<Rightarrow> nat res" where
  "climb n rows avoid None = Inr 0"
| "climb 0 rows avoid (Some cursor) = Inl (LibraryError ''Folder cycles are not allowed.'')"
| "climb (Suc n) rows avoid (Some cursor) =
     (if avoid = Some (ent_id cursor) then Inl (LibraryError ''Folder cycles are not allowed.'')
      else bind_res (parent_of rows cursor) (\<lambda>p.
           bind_res (climb n rows avoid p) (\<lambda>depth. Inr (Suc depth))))"

text \<open>
  The breadth-first walks of the tree: the successive frontiers until one is empty, the first included.  A
  walk that does not end within its fuel is \<open>None\<close>.
\<close>

fun levels :: "nat \<Rightarrow> (nat list \<Rightarrow> nat list) \<Rightarrow> nat list \<Rightarrow> nat list list option" where
  "levels 0 next_level frontier = None"
| "levels (Suc fuel) next_level frontier =
     (if frontier = [] then Some []
      else map_option (\<lambda>rest. frontier # rest) (levels fuel next_level (next_level frontier)))"

definition child_ids :: "(entry_row \<Rightarrow> bool) \<Rightarrow> entry_row list \<Rightarrow> nat list \<Rightarrow> nat list" where
  "child_ids P rows frontier =
     map ent_id (filter (\<lambda>e. P e \<and> (case ent_parent e of None \<Rightarrow> False | Some p \<Rightarrow> p \<in> set frontier)) rows)"

definition walk :: "(entry_row \<Rightarrow> bool) \<Rightarrow> entry_row list \<Rightarrow> nat \<Rightarrow> nat list list res" where
  "walk P rows start =
     of_option (ValueError ''unbounded walk'') (levels (length rows + 8) (child_ids P rows) [start])"

definition validate_location ::
  "nat \<Rightarrow> string \<Rightarrow> entry_row option \<Rightarrow> entry_row option \<Rightarrow> bool \<Rightarrow> entry_row list \<Rightarrow> unit res" where
  "validate_location library_id name parent entry folder rows =
     bind_res (require (\<not> exists_row (\<lambda>e. ent_library e = library_id \<and> ent_parent e = map_option ent_id parent
           \<and> lower (ent_name e) = lower name \<and> (case entry of None \<Rightarrow> True | Some x \<Rightarrow> ent_id e \<noteq> ent_id x)) rows)
       (LibraryError ''An item with this name already exists in the folder.'')) (\<lambda>_.
     bind_res (climb MAX_FOLDER_DEPTH rows (map_option ent_id entry) parent) (\<lambda>depth.
     bind_res (case (entry, folder) of
         (Some x, True) \<Rightarrow> bind_res (walk ent_is_folder rows (ent_id x)) (\<lambda>ls. Inr (length ls))
       | _ \<Rightarrow> Inr (if folder then 1 else 0)) (\<lambda>height.
     require (depth + height \<le> MAX_FOLDER_DEPTH)
       (LibraryError ''Folders may be nested at most five levels deep.''))))"

subsection \<open>The tree as a publication source\<close>

definition library_department_of :: "library_row \<Rightarrow> world \<Rightarrow> nat option" where
  "library_department_of l w =
     (case lib_department l of Some d \<Rightarrow> Some d
      | None \<Rightarrow> (case lib_station l of None \<Rightarrow> None | Some st \<Rightarrow> station_department w st))"

definition library_code :: "library_row \<Rightarrow> string" where
  "library_code l = (if lib_department l \<noteq> None then ''department_files'' else ''station_files'')"

definition scope_kwargs :: "library_row \<Rightarrow> world \<Rightarrow> scope_type \<times> nat option \<times> nat option \<times> string" where
  "scope_kwargs l w =
     (if lib_department l \<noteq> None then DEPARTMENT else STATION, library_department_of l w, lib_station l, library_code l)"

definition jopt_id :: "nat option \<Rightarrow> json" where
  "jopt_id i = (case i of None \<Rightarrow> JNull | Some k \<Rightarrow> JStr (dec_nat k))"

definition content_of :: "entry_row \<Rightarrow> shelf \<Rightarrow> content_row option" where
  "content_of e s = (case ent_content e of None \<Rightarrow> None | Some c \<Rightarrow> row_get con_id c (contents s))"

definition document_json :: "shelf \<Rightarrow> entry_row \<Rightarrow> json" where
  "document_json s e =
     (case content_of e s of None \<Rightarrow> JNull
      | Some c \<Rightarrow> JObj [(''id'', JStr (dec_nat (ent_id e))), (''name'', JStr (ent_name e)),
          (''folder_id'', jopt_id (ent_parent e)), (''size_bytes'', JInt (con_size_bytes c)),
          (''sha256'', JStr (con_sha256 c)), (''content_id'', JStr (dec_nat (con_id c)))])"

definition snapshot_for_library :: "library_row \<Rightarrow> shelf \<Rightarrow> json" where
  "snapshot_for_library l s =
     (let rows = sort_key ent_id (filter (\<lambda>e. ent_library e = lib_id l) (entries s)) in
      JObj [(''library'', JObj [(''id'', JStr (dec_nat (lib_id l))), (''name'', JStr (lib_name l)),
              (''scope'', JObj ([(''type'', JStr (if lib_station l \<noteq> None then ''STATION'' else ''DEPARTMENT'')),
                 (''department_id'', jopt_id (library_department_of l (hall s)))]
                 @ (case lib_station l of None \<Rightarrow> [] | Some st \<Rightarrow> [(''station_id'', JStr (dec_nat st))])))]),
            (''source_revision'', JInt (lib_source_revision l)),
            (''folders'', JList (map (\<lambda>e. JObj [(''id'', JStr (dec_nat (ent_id e))), (''name'', JStr (ent_name e)),
                 (''parent_id'', jopt_id (ent_parent e))]) (filter ent_is_folder rows))),
            (''documents'', JList (map (document_json s) (filter (\<lambda>e. \<not> ent_is_folder e) rows)))])"

text \<open>
  \<open>source_payload\<close> of a file dataset reads the library of the scope; when there is none yet, the source reads the
  empty library that \<open>get_or_create\<close> inserts, whose row is written here by the library's own services only.
  Every other dataset keeps the source the world has.
\<close>

definition empty_library :: "nat \<Rightarrow> nat option \<Rightarrow> nat option \<Rightarrow> library_row" where
  "empty_library i department station =
     \<lparr>lib_id = i, lib_department = department, lib_station = station, lib_name = ''Documents'',
      lib_source_revision = 0, lib_usage_bytes = 0\<rparr>"

definition source_payload :: "shelf \<Rightarrow> string \<Rightarrow> nat option \<Rightarrow> nat option \<Rightarrow> json res" where
  "source_payload s code department station =
     (if code \<in> FILE_DATASETS then
        (case find (\<lambda>l. if station \<noteq> None then lib_station l = station else lib_department l = department) (libraries s) of
           Some l \<Rightarrow> Inr (snapshot_for_library l s)
         | None \<Rightarrow> Inr (snapshot_for_library (empty_library (next_id (hall s))
             (if station \<noteq> None then None else department) station) s))
      else sources (hall s) code department station)"

definition synced :: "shelf \<Rightarrow> shelf" where
  "synced s = s\<lparr>hall := (hall s)\<lparr>sources := source_payload s,
     library_contents := map (\<lambda>c. (dec_nat (con_id c), dec_nat (con_library c))) (contents s)\<rparr>\<rparr>"

definition summary_of_snapshot :: "json \<Rightarrow> int \<Rightarrow> json" where
  "summary_of_snapshot snapshot revision =
     (let documents = (case jget snapshot ''documents'' of Some d \<Rightarrow> jitems d | None \<Rightarrow> []) in
      JObj [(''document_count'', JInt (int (length documents))),
            (''total_accepted_bytes'', JInt (sum_list (map (\<lambda>d. case jget d ''size_bytes'' of Some (JInt n) \<Rightarrow> n | _ \<Rightarrow> 0) documents))),
            (''source_revision'', JInt revision)])"

end
