(* ===== verification/Library_Services.thy ===== *)
theory Library_Services
  imports Library_Tree "HOL-Library.Product_Lexorder"
begin

text \<open>
  The services of apps/file_library/services.py and publication.py: access to a library, the mutations of its tree,
  uploads under a quota, content collection, temporary access, and the library's side of the publication
  lifecycle.  A mutation first lets an expired temporary access lapse, in its own transaction.
\<close>

record library_env =
  FILE_LIBRARY_MAX_FILE_BYTES :: int
  FILE_LIBRARY_MAX_QUOTA_BYTES :: int
  FILE_LIBRARY_DEPARTMENT_QUOTA_BYTES :: int
  FILE_LIBRARY_STATION_QUOTA_BYTES :: int
  publication_env :: env
  path_refused :: "string \<Rightarrow> bool"

text \<open>
  An upload with what the quarantine, the validation of the source, the sandbox and the validation of its output
  (apps/reference_data) make of it: the stored size, the first verdict, and the size and digest of the sanitized file.
\<close>

record upload =
  up_name :: string
  up_size :: int
  up_quarantined :: "int res"
  up_valid :: "unit res"
  up_sanitized :: "(int \<times> string) res"
  up_promoted :: "unit res"

datatype permission = PERM_READ | PERM_MANAGE | PERM_DELETE

subsection \<open>Access\<close>

definition require_library :: "nat \<Rightarrow> library_row \<Rightarrow> world \<Rightarrow> unit res" where
  "require_library actor l w = require_scope w (Some actor) (lib_department l) (lib_station l)"

text \<open>The flag tells elevated (temporary) from normal access.\<close>

definition require_library_access ::
  "nat \<Rightarrow> library_row \<Rightarrow> permission \<Rightarrow> shelf \<Rightarrow> (bool \<times> shelf) res" where
  "require_library_access actor l permission s =
     (case require_library actor l (hall s) of
        Inr _ \<Rightarrow> Inr (False, s)
      | Inl e \<Rightarrow>
          if permission = PERM_MANAGE \<or> lib_station l = None then Inl e
          else
            (case active_temporary_access actor (hall s) of
               (Some access, w) \<Rightarrow>
                 if lib_station l = Some (tsa_station access) then Inr (True, s\<lparr>hall := w\<rparr>) else Inl (PermissionDenied [])
             | (None, w) \<Rightarrow> Inl (PermissionDenied [])))"

definition lock_scope :: "library_row \<Rightarrow> world \<Rightarrow> (scope_state \<times> world) res" where
  "lock_scope l w =
     (let key = scope_kwargs l w in
      case find_scope key w of
        Some scope \<Rightarrow> Inr (scope, w)
      | None \<Rightarrow>
          let (i, w1) = fresh_id w; scope = (new_scope i key (clock w))\<lparr>scp_source_revision := lib_source_revision l\<rparr> in
          bind_res (create_scope scope w1) (\<lambda>w2. Inr (scope, w2)))"

definition locked_library ::
  "nat \<Rightarrow> nat \<Rightarrow> permission \<Rightarrow> shelf \<Rightarrow> ((library_row \<times> bool) \<times> shelf) res" where
  "locked_library actor library_id permission s =
     bind_res (fetch_library library_id s) (\<lambda>preview.
     bind_res (require_library_access actor preview permission s) (\<lambda>(_, s1).
     bind_res (lift_hall (lock_scope preview) s1) (\<lambda>(_, s2).
     bind_res (fetch_library library_id s2) (\<lambda>library.
     bind_res (require_library_access actor library permission s2) (\<lambda>(elevated, s3).
     Inr ((library, elevated), s3))))))"

definition is_permission_denied :: "exn \<Rightarrow> bool" where
  "is_permission_denied e = (case e of PermissionDenied _ \<Rightarrow> True | _ \<Rightarrow> False)"

definition expire_access :: "nat \<Rightarrow> shelf \<Rightarrow> shelf" where
  "expire_access actor = on_hall (\<lambda>w. snd (active_temporary_access actor w))"

definition library_mutation ::
  "nat \<Rightarrow> nat \<Rightarrow> permission \<Rightarrow> (shelf \<Rightarrow> ('a \<times> shelf) res) \<Rightarrow> shelf \<Rightarrow> 'a res \<times> shelf" where
  "library_mutation actor library_id permission body s =
     (let s0 = expire_access actor s in
      case bind_res (fetch_library library_id s0) (\<lambda>library.
           bind_res (require_library_access actor library permission s0) (\<lambda>(_, s1). body s1)) of
        Inr (x, s1) \<Rightarrow> (Inr x, s1)
      | Inl e \<Rightarrow> (Inl e, if is_permission_denied e then expire_access actor s0 else s0))"

subsection \<open>Recording a change\<close>

definition department_release :: "nat \<Rightarrow> world \<Rightarrow> world" where
  "department_release actor w = snd (revoke_temporary_access actor ''department_mutation'' None ''temporary_station_access'' w)"

definition save_library :: "library_row \<Rightarrow> library_row \<Rightarrow> library_row" where
  "save_library library l = (if lib_id l = lib_id library
     then l\<lparr>lib_source_revision := lib_source_revision library, lib_usage_bytes := lib_usage_bytes library,
            lib_name := lib_name library\<rparr> else l)"

definition change_event ::
  "nat \<Rightarrow> library_row \<Rightarrow> string \<Rightarrow> nat \<Rightarrow> string \<Rightarrow> (string \<times> json) list \<Rightarrow> world \<Rightarrow> world" where
  "change_event actor library target_type target operation metadata w =
     record_event (''file_library.'' @ operation) (Some actor) (library_department_of library w) (lib_station library)
       target_type (Some target)
       ([(''library_id'', JStr (dec_nat (lib_id library))), (''source_revision'', JInt (lib_source_revision library))]
         @ metadata) w"

definition changed ::
  "library_env \<Rightarrow> nat \<Rightarrow> library_row \<Rightarrow> string \<Rightarrow> nat \<Rightarrow> string \<Rightarrow> (string \<times> json) list \<Rightarrow> shelf \<Rightarrow> shelf res" where
  "changed L actor library0 target_type target operation metadata s =
     (let library = library0\<lparr>lib_source_revision := lib_source_revision library0 + 1\<rparr> in
      bind_res (put_libraries (map (save_library library) (libraries s)) s) (\<lambda>s1.
      bind_res (lift_hall (mark_dirty (publication_env L) (library_department_of library (hall s1)) (lib_station library)
          (library_code library) (Some actor))
        (synced (on_hall (change_event actor library target_type target operation metadata) s1))) (\<lambda>(_, s2).
      Inr (if lib_department library \<noteq> None then on_hall (department_release actor) s2 else s2))))"

subsection \<open>Mutations\<close>

definition rename_library :: "library_env \<Rightarrow> nat \<Rightarrow> nat \<Rightarrow> string \<Rightarrow> shelf \<Rightarrow> unit res \<times> shelf" where
  "rename_library L actor library_id name0 =
     library_mutation actor library_id PERM_MANAGE (\<lambda>s.
       bind_res (locked_library actor library_id PERM_MANAGE s) (\<lambda>((library, _), s1).
       bind_res (name_value False name0) (\<lambda>name.
       if lib_name library \<noteq> name
       then bind_res (changed L actor (library\<lparr>lib_name := name\<rparr>) ''library'' library_id ''library_renamed'' [] s1)
              (\<lambda>s2. Inr ((), s2))
       else Inr ((), s1))))"

definition new_entry ::
  "nat \<Rightarrow> nat \<Rightarrow> nat option \<Rightarrow> string \<Rightarrow> nat option \<Rightarrow> nat \<Rightarrow> timestamp \<Rightarrow> entry_row" where
  "new_entry i library_id parent name content actor now =
     \<lparr>ent_id = i, ent_library = library_id, ent_parent = parent, ent_name = name, ent_is_folder = (content = None),
      ent_content = content, ent_modified_at = now, ent_modified_by = actor\<rparr>"

definition create_folder_at :: "library_env \<Rightarrow> nat \<Rightarrow> nat \<Rightarrow> string \<Rightarrow> nat option \<Rightarrow> shelf \<Rightarrow> (nat \<times> shelf) res" where
  "create_folder_at L actor library_id name0 parent_id s =
     bind_res (locked_library actor library_id PERM_MANAGE s) (\<lambda>((library, _), s1).
     bind_res (name_value False name0) (\<lambda>name.
     bind_res (parent_entry library_id parent_id (entries s1)) (\<lambda>parent.
     bind_res (validate_location library_id name parent None True (entries s1)) (\<lambda>_.
     let (i, s2) = fresh_shelf_id s1 in
     bind_res (put_entries (entries s2 @ [new_entry i library_id (map_option ent_id parent) name None actor (clock (hall s))])
       s2) (\<lambda>s3.
     bind_res (changed L actor library ''library_entry'' i ''folder_created'' [] s3) (\<lambda>s4. Inr (i, s4)))))))"

definition create_folder :: "library_env \<Rightarrow> nat \<Rightarrow> nat \<Rightarrow> string \<Rightarrow> nat option \<Rightarrow> shelf \<Rightarrow> nat res \<times> shelf" where
  "create_folder L actor library_id name0 parent_id =
     library_mutation actor library_id PERM_MANAGE (create_folder_at L actor library_id name0 parent_id)"

definition edit_entry_at ::
  "library_env \<Rightarrow> nat \<Rightarrow> nat \<Rightarrow> nat \<Rightarrow> string option \<Rightarrow> nat option option \<Rightarrow> shelf \<Rightarrow> (unit \<times> shelf) res" where
  "edit_entry_at L actor library_id entry_id name0 move s =
     bind_res (locked_library actor library_id PERM_MANAGE s) (\<lambda>((library, _), s1).
     bind_res (scoped_entry library_id entry_id False (entries s1)) (\<lambda>entry.
     bind_res (case name0 of None \<Rightarrow> Inr (ent_name entry) | Some n \<Rightarrow> name_value (\<not> ent_is_folder entry) n) (\<lambda>new_name.
     bind_res (case move of None \<Rightarrow> parent_of (entries s1) entry
         | Some parent_id \<Rightarrow> parent_entry library_id parent_id (entries s1)) (\<lambda>parent.
     bind_res (validate_location library_id new_name parent (Some entry) (ent_is_folder entry) (entries s1)) (\<lambda>_.
     if new_name = ent_name entry \<and> map_option ent_id parent = ent_parent entry then Inr ((), s1)
     else
       bind_res (put_entries (row_put ent_id (entry\<lparr>ent_name := new_name, ent_parent := map_option ent_id parent,
           ent_modified_by := actor, ent_modified_at := clock (hall s)\<rparr>) (entries s1)) s1) (\<lambda>s2.
       bind_res (changed L actor library ''library_entry'' entry_id (if move \<noteq> None then ''moved'' else ''renamed'')
         [(''is_folder'', JBool (ent_is_folder entry)), (''parent_id'', jopt_id (map_option ent_id parent))] s2) (\<lambda>s3.
       Inr ((), s3))))))))"

definition edit_entry ::
  "library_env \<Rightarrow> nat \<Rightarrow> nat \<Rightarrow> nat \<Rightarrow> string option \<Rightarrow> nat option option \<Rightarrow> shelf \<Rightarrow> unit res \<times> shelf" where
  "edit_entry L actor library_id entry_id name0 move =
     library_mutation actor library_id PERM_MANAGE (edit_entry_at L actor library_id entry_id name0 move)"

definition join_ids :: "nat list \<Rightarrow> string" where
  "join_ids ids = concat (case map dec_nat ids of [] \<Rightarrow> [] | x # xs \<Rightarrow> x # map (\<lambda>y. CHR '','' # y) xs)"

text \<open>The default order of entries (\<open>Entry.Meta.ordering\<close>), names by code point.\<close>

definition in_order :: "entry_row list \<Rightarrow> entry_row list" where
  "in_order items = sort_key (\<lambda>e. (\<not> ent_is_folder e, ent_name e, ent_id e)) items"

definition size_of :: "shelf \<Rightarrow> entry_row \<Rightarrow> int" where
  "size_of s e = (case content_of e s of None \<Rightarrow> 0 | Some c \<Rightarrow> con_size_bytes c)"

definition delete_entry_at :: "library_env \<Rightarrow> nat \<Rightarrow> nat \<Rightarrow> nat \<Rightarrow> shelf \<Rightarrow> (bool \<times> shelf) res" where
  "delete_entry_at L actor library_id entry_id s =
     bind_res (locked_library actor library_id PERM_DELETE s) (\<lambda>((library, elevated), s1).
     bind_res (scoped_entry library_id entry_id False (entries s1)) (\<lambda>entry.
     bind_res (walk (\<lambda>_. True) (entries s1) entry_id) (\<lambda>found.
     let items = filter (\<lambda>e. ent_id e \<in> set (concat found)) (entries s1);
         library1 = library\<lparr>lib_usage_bytes := lib_usage_bytes library - sum_list (map (size_of s1) items)\<rparr>;
         s2 = s1\<lparr>entries := filter (\<lambda>e. ent_id e \<notin> set (concat found)) (entries s1)\<rparr> in
     bind_res (changed L actor library1 ''library_entry'' entry_id ''deleted''
       [(''is_folder'', JBool (ent_is_folder entry)), (''item_count'', JInt (int (length items))),
        (''removed_ids'', JStr (join_ids (map ent_id (in_order items)))), (''elevated'', JBool elevated)] s2) (\<lambda>s3.
     Inr (elevated, if elevated
       then on_hall (\<lambda>w. snd (revoke_temporary_access actor ''consumed_by_deletion'' (Some entry_id) ''library_entry'' w)) s3
       else s3)))))"

definition delete_entry :: "library_env \<Rightarrow> nat \<Rightarrow> nat \<Rightarrow> nat \<Rightarrow> shelf \<Rightarrow> bool res \<times> shelf" where
  "delete_entry L actor library_id entry_id =
     library_mutation actor library_id PERM_DELETE (delete_entry_at L actor library_id entry_id)"

subsection \<open>Quotas and uploads\<close>

definition quota_policy :: "library_env \<Rightarrow> nat \<Rightarrow> shelf \<Rightarrow> quota_policy_row \<times> shelf" where
  "quota_policy L d s =
     (case find (\<lambda>q. qpo_department q = d) (quota_policies s) of
        Some q \<Rightarrow> (q, s)
      | None \<Rightarrow>
          let q = \<lparr>qpo_department = d, qpo_department_files_bytes = FILE_LIBRARY_DEPARTMENT_QUOTA_BYTES L,
                   qpo_station_files_bytes = FILE_LIBRARY_STATION_QUOTA_BYTES L\<rparr>
          in (q, s\<lparr>quota_policies := quota_policies s @ [q]\<rparr>))"

definition quota_bytes :: "library_env \<Rightarrow> library_row \<Rightarrow> shelf \<Rightarrow> (int \<times> shelf) res" where
  "quota_bytes L l s =
     bind_res (of_option (IntegrityError ''department'') (library_department_of l (hall s))) (\<lambda>d.
     let (q, s1) = quota_policy L d s
     in Inr (if lib_department l \<noteq> None then qpo_department_files_bytes q else qpo_station_files_bytes q, s1))"

definition storage_key :: "nat \<Rightarrow> nat \<Rightarrow> string" where
  "storage_key library_id content_id = ''file-libraries/'' @ dec_nat library_id @ ''/'' @ dec_nat content_id @ ''.pdf''"

definition prepare_upload :: "library_env \<Rightarrow> upload \<Rightarrow> (int \<times> string) res" where
  "prepare_upload L up =
     bind_res (up_quarantined up) (\<lambda>stored.
     bind_res (require (stored \<le> FILE_LIBRARY_MAX_FILE_BYTES L) (LibraryError ''PDF exceeds the file size limit.'')) (\<lambda>_.
     bind_res (up_valid up) (\<lambda>_.
     bind_res (up_sanitized up) (\<lambda>(bytes, digest).
     bind_res (require (bytes \<le> FILE_LIBRARY_MAX_FILE_BYTES L)
       (LibraryError ''Sanitized PDF exceeds the file size limit.'')) (\<lambda>_.
     Inr (bytes, digest))))))"

definition store_upload ::
  "library_env \<Rightarrow> nat \<Rightarrow> nat \<Rightarrow> upload \<Rightarrow> string \<Rightarrow> int \<Rightarrow> string \<Rightarrow> nat option \<Rightarrow> nat option \<Rightarrow> shelf \<Rightarrow> (nat \<times> shelf) res" where
  "store_upload L actor library_id up name bytes digest parent_id replace_id s =
     bind_res (locked_library actor library_id PERM_MANAGE s) (\<lambda>((library, _), s1).
     bind_res (case replace_id of None \<Rightarrow> Inr None
         | Some i \<Rightarrow> bind_res (scoped_entry library_id i False (entries s1)) (\<lambda>e. Inr (Some e))) (\<lambda>entry.
     bind_res (require (case entry of None \<Rightarrow> True | Some e \<Rightarrow> \<not> ent_is_folder e)
       (LibraryError ''Only PDFs can be replaced.'')) (\<lambda>_.
     bind_res (case entry of Some e \<Rightarrow> parent_of (entries s1) e
         | None \<Rightarrow> parent_entry library_id parent_id (entries s1)) (\<lambda>parent.
     bind_res (validate_location library_id (case entry of Some e \<Rightarrow> ent_name e | None \<Rightarrow> name) parent entry False (entries s1)) (\<lambda>_.
     let old_size = (case entry of None \<Rightarrow> 0 | Some e \<Rightarrow> size_of s1 e);
         usage = lib_usage_bytes library - old_size + bytes in
     bind_res (quota_bytes L library s1) (\<lambda>(quota, s2).
     bind_res (require (\<not> (usage > quota \<and> usage > lib_usage_bytes library)) (LibraryError ''Library storage quota exceeded.'')) (\<lambda>_.
     let (content_id, s3) = fresh_shelf_id s2; key = storage_key library_id content_id in
     bind_res (require (key \<notin> set (accepted_files s3)) (LibraryError ''Content identity already exists; retry the upload.'')) (\<lambda>_.
     bind_res (up_promoted up) (\<lambda>_.
     let now = clock (hall s);
         content = \<lparr>con_id = content_id, con_library = library_id, con_storage_key = key, con_size_bytes = bytes,
            con_sha256 = digest, con_created_at = now\<rparr>;
         s4 = s3\<lparr>contents := contents s3 @ [content], accepted_files := accepted_files s3 @ [key]\<rparr>;
         (fresh, s5) = fresh_shelf_id s4;
         i = (case entry of None \<Rightarrow> fresh | Some e \<Rightarrow> ent_id e);
         rows = (case entry of
             Some e \<Rightarrow> row_put ent_id (e\<lparr>ent_content := Some content_id, ent_modified_by := actor, ent_modified_at := now\<rparr>) (entries s5)
           | None \<Rightarrow> entries s5 @ [new_entry i library_id (map_option ent_id parent) name (Some content_id) actor now]) in
     bind_res (put_entries rows s5) (\<lambda>s6.
     bind_res (changed L actor (library\<lparr>lib_usage_bytes := usage\<rparr>) ''library_entry'' i
       (if replace_id \<noteq> None then ''replaced'' else ''uploaded'') [(''content_id'', JStr (dec_nat content_id))] s6) (\<lambda>s7.
     Inr (i, s7))))))))))))"

definition upload_pdf ::
  "library_env \<Rightarrow> nat \<Rightarrow> nat \<Rightarrow> upload \<Rightarrow> nat option \<Rightarrow> nat option \<Rightarrow> nat option \<Rightarrow> shelf \<Rightarrow> nat res \<times> shelf" where
  "upload_pdf L actor library_id up parent_id replace_id approval_id s =
     (let s0 = expire_access actor s in
      case bind_res (fetch_library library_id s0) (\<lambda>library.
           bind_res (require_library actor library (hall s0)) (\<lambda>_.
           bind_res (name_value True (up_name up)) (\<lambda>name.
           bind_res (require (up_size up \<le> FILE_LIBRARY_MAX_FILE_BYTES L) (LibraryError ''PDF exceeds the file size limit.'')) (\<lambda>_.
           bind_res (require (approval_id = None)
             (LibraryError ''Upload approvals are obsolete. Upload the PDF without a capacity review.'')) (\<lambda>_.
           bind_res (prepare_upload L up) (\<lambda>(bytes, digest).
           store_upload L actor library_id up name bytes digest parent_id replace_id s0)))))) of
        Inr (i, s1) \<Rightarrow> (Inr i, s1)
      | Inl e \<Rightarrow> (Inl e, s0))"

definition validate_quota :: "library_env \<Rightarrow> int \<Rightarrow> unit res" where
  "validate_quota L quota =
     require (0 \<le> quota \<and> quota \<le> FILE_LIBRARY_MAX_QUOTA_BYTES L)
       (LibraryError (''Quota must be between 0 and '' @ dec_int (FILE_LIBRARY_MAX_QUOTA_BYTES L) @ '' bytes.''))"

definition quota_event :: "nat \<Rightarrow> nat \<Rightarrow> string \<Rightarrow> int \<Rightarrow> int \<Rightarrow> world \<Rightarrow> world" where
  "quota_event actor d field old new =
     record_event ''file_library.quota_changed'' (Some actor) (Some d) None ''department_quota_policy'' (Some d)
       [(''policy'', JStr field), (''old_quota_bytes'', JInt old), (''new_quota_bytes'', JInt new)]"

definition set_department_quotas ::
  "library_env \<Rightarrow> nat \<Rightarrow> nat \<Rightarrow> int option \<Rightarrow> int option \<Rightarrow> shelf \<Rightarrow> (quota_policy_row \<times> shelf) res" where
  "set_department_quotas L actor d dfiles sfiles s =
     bind_res (require_department_admin (hall s) (Some actor) (Some d)) (\<lambda>_.
     bind_res (case dfiles of None \<Rightarrow> Inr () | Some q \<Rightarrow> validate_quota L q) (\<lambda>_.
     bind_res (case sfiles of None \<Rightarrow> Inr () | Some q \<Rightarrow> validate_quota L q) (\<lambda>_.
     let (policy, s1) = quota_policy L d s;
         new_d = (case dfiles of None \<Rightarrow> qpo_department_files_bytes policy | Some q \<Rightarrow> q);
         new_s = (case sfiles of None \<Rightarrow> qpo_station_files_bytes policy | Some q \<Rightarrow> q);
         ch_d = (new_d \<noteq> qpo_department_files_bytes policy); ch_s = (new_s \<noteq> qpo_station_files_bytes policy);
         s2 = (if ch_d then on_hall (quota_event actor d ''department_files_bytes'' (qpo_department_files_bytes policy) new_d) s1 else s1);
         s3 = (if ch_s then on_hall (quota_event actor d ''station_files_bytes'' (qpo_station_files_bytes policy) new_s) s2 else s2);
         policy1 = policy\<lparr>qpo_department_files_bytes := new_d, qpo_station_files_bytes := new_s\<rparr>
     in Inr (if ch_d \<or> ch_s
        then (policy1, on_hall (department_release actor) (s3\<lparr>quota_policies :=
               map (\<lambda>q. if qpo_department q = d then policy1 else q) (quota_policies s3)\<rparr>))
        else (policy, s3)))))"

definition set_library_quota :: "library_env \<Rightarrow> nat \<Rightarrow> nat \<Rightarrow> int \<Rightarrow> shelf \<Rightarrow> (nat \<times> shelf) res" where
  "set_library_quota L actor library_id quota s =
     bind_res (validate_quota L quota) (\<lambda>_.
     bind_res (fetch_library library_id s) (\<lambda>library.
     bind_res (of_option (AttributeError ''department'') (library_department_of library (hall s))) (\<lambda>d.
     bind_res (if lib_department library \<noteq> None then set_department_quotas L actor d (Some quota) None s
               else set_department_quotas L actor d None (Some quota) s) (\<lambda>(_, s1).
     Inr (library_id, s1)))))"

text \<open>Deletion is refused while an entry or a publication still refers to the content (\<open>PROTECT\<close>).\<close>

definition collect_content :: "library_env \<Rightarrow> nat \<Rightarrow> shelf \<Rightarrow> (bool \<times> shelf) res" where
  "collect_content L content_id s =
     bind_res (of_option (DoesNotExist ''Content'') (row_get con_id content_id (contents s))) (\<lambda>content.
     bind_res (require (\<not> path_refused L (con_storage_key content)) (LibraryError ''Content is unavailable.'')) (\<lambda>_.
     if exists_row (\<lambda>e. ent_content e = Some content_id) (entries s)
        \<or> exists_row (\<lambda>p. pc_content p = dec_nat content_id) (publication_contents (hall s))
     then Inr (False, s)
     else Inr (True, s\<lparr>contents := filter (\<lambda>c. con_id c \<noteq> content_id) (contents s),
            accepted_files := filter (\<lambda>k. k \<noteq> con_storage_key content) (accepted_files s)\<rparr>)))"

subsection \<open>Libraries and temporary access\<close>

definition get_or_create_library :: "nat option \<Rightarrow> nat option \<Rightarrow> shelf \<Rightarrow> (library_row \<times> shelf) res" where
  "get_or_create_library department station s =
     (case find (\<lambda>l. lib_department l = department \<and> lib_station l = station) (libraries s) of
        Some l \<Rightarrow> Inr (l, s)
      | None \<Rightarrow>
          let (i, s1) = fresh_shelf_id s; l = empty_library i department station
          in bind_res (put_libraries (libraries s1 @ [l]) s1) (\<lambda>s2. Inr (l, s2)))"

definition initialize_library :: "library_env \<Rightarrow> library_row \<Rightarrow> shelf \<Rightarrow> (nat \<times> shelf) res" where
  "initialize_library L l s =
     bind_res (lift_hall (lock_scope l) s) (\<lambda>(scope, s1).
     if scp_current_published_publication scope = None \<and> \<not> exists_row (\<lambda>j. job_scope_state j = scp_id scope) (jobs (hall s1))
     then (case scope_kwargs l (hall s1) of (_, d, st, code) \<Rightarrow>
        bind_res (lift_hall (enqueue_publication_job (publication_env L) d st code None DATA_CHANGE None False None) (synced s1))
          (\<lambda>(_, s2). Inr (scp_id scope, s2)))
     else Inr (scp_id scope, s1))"

definition get_library :: "library_env \<Rightarrow> nat \<Rightarrow> nat option \<Rightarrow> nat option \<Rightarrow> shelf \<Rightarrow> (nat \<times> shelf) res" where
  "get_library L actor department_id station_id s =
     bind_res (require_scope (hall s) (Some actor) department_id station_id) (\<lambda>_.
     bind_res (get_or_create_library department_id station_id s) (\<lambda>(l, s1).
     bind_res (initialize_library L l s1) (\<lambda>(_, s2). Inr (lib_id l, s2))))"

definition TEMPORARY_ACCESS_DURATION :: int where "TEMPORARY_ACCESS_DURATION = 6 * 3600 * usec_per_second"

definition temporary_access_constraints :: "temporary_access_row list \<Rightarrow> bool" where
  "temporary_access_constraints rows =
     (distinct (map tsa_user (filter (\<lambda>a. tsa_revoked_at a = None) rows))
      \<and> list_all (\<lambda>a. tsa_activated_at a < tsa_expires_at a
           \<and> tsa_expires_at a \<le> tsa_activated_at a + TEMPORARY_ACCESS_DURATION
           \<and> (tsa_revoked_at a = None \<longleftrightarrow> tsa_revocation_reason a = [])) rows)"

definition new_access :: "nat \<Rightarrow> nat \<Rightarrow> station_row \<Rightarrow> timestamp \<Rightarrow> temporary_access_row" where
  "new_access i actor station now =
     \<lparr>tsa_id = i, tsa_user = actor, tsa_department = sta_department station, tsa_station = sta_id station,
      tsa_activated_at = now, tsa_expires_at = now + TEMPORARY_ACCESS_DURATION, tsa_revoked_at = None,
      tsa_revocation_reason = []\<rparr>"

definition grant_access :: "nat \<Rightarrow> station_row \<Rightarrow> temporary_access_row option \<Rightarrow> world \<Rightarrow> (temporary_access_row \<times> world) res" where
  "grant_access actor station previous w =
     (let w1 = (case previous of None \<Rightarrow> w
             | Some p \<Rightarrow> revoke_access p ''switched'' (Some actor) None ''temporary_station_access'' False w);
          now = clock w1; (i, w2) = fresh_id w1; access = new_access i actor station now in
      bind_res (require (temporary_access_constraints (temporary_accesses w2 @ [access]))
        (IntegrityError ''one_active_temporary_station_access'')) (\<lambda>_.
      Inr (access, record_event
        (if previous \<noteq> None then ''file_library.temporary_access_switched'' else ''file_library.temporary_access_activated'')
        (Some actor) (Some (sta_department station)) (Some (sta_id station)) ''temporary_station_access'' (Some i)
        [(''station_id'', JStr (dec_nat (sta_id station))), (''previous_station_id'', jopt_id (map_option tsa_station previous)),
         (''previous_access_id'', jopt_id (map_option tsa_id previous)), (''activated_at'', JStr (isoformat now)),
         (''expires_at'', JStr (isoformat (tsa_expires_at access)))]
        (w2\<lparr>temporary_accesses := temporary_accesses w2 @ [access]\<rparr>))))"

definition activate_temporary_access ::
  "library_env \<Rightarrow> nat \<Rightarrow> nat \<Rightarrow> shelf \<Rightarrow> (temporary_access_row \<times> shelf) res" where
  "activate_temporary_access L actor station_id s =
     bind_res (of_option (DoesNotExist ''Station'') (row_get sta_id station_id (stations (hall s)))) (\<lambda>station.
     bind_res (require (sta_department station \<in> set (active_department_ids (hall s) (Some actor)) \<and> sta_active station)
       (PermissionDenied [])) (\<lambda>_.
     case active_temporary_access actor (hall s) of (previous, w1) \<Rightarrow>
       if (case previous of None \<Rightarrow> False | Some p \<Rightarrow> tsa_station p = station_id)
       then Inr (the previous, s\<lparr>hall := w1\<rparr>)
       else
         bind_res (lift_hall (grant_access actor station previous) (s\<lparr>hall := w1\<rparr>)) (\<lambda>(access, s1).
         bind_res (get_or_create_library None (Some station_id) s1) (\<lambda>(l, s2).
         bind_res (initialize_library L l s2) (\<lambda>(_, s3). Inr (access, s3))))))"

subsection \<open>Publication of a library\<close>

record readiness =
  can_publish :: bool
  can_build :: bool
  publication_current :: bool

definition candidate_readiness :: "library_env \<Rightarrow> library_row \<Rightarrow> shelf \<Rightarrow> readiness" where
  "candidate_readiness L l s =
     (let w = hall s; E = publication_env L in
      case find_scope (scope_kwargs l w) w of
        None \<Rightarrow> \<lparr>can_publish = False, can_build = False, publication_current = False\<rparr>
      | Some scope \<Rightarrow>
          let job = first_by (\<lambda>j. (job_created_at j, job_id j)) (\<lambda>j. job_scope_state j = scp_id scope \<and> job_active j) (jobs w);
              forced = (case job of None \<Rightarrow> False | Some j \<Rightarrow> job_allow_clean_rebuild j) in
          if \<not> forced \<and> \<not> scope_is_dirty E w scope (Some (source_fingerprint_for_payload E (snapshot_for_library l s)))
          then \<lparr>can_publish = False, can_build = False, publication_current = True\<rparr>
          else
            \<lparr>can_publish = \<not> exists_row (\<lambda>j. job_scope_state j = scp_id scope \<and> job_status j = RUNNING) (jobs w),
             can_build = (case job of None \<Rightarrow> False
               | Some j \<Rightarrow> job_status j = PENDING \<and>
                   (case fk_publication (job_build_publication j) w of None \<Rightarrow> False | Some p \<Rightarrow> pub_status p = STAGED)),
             publication_current = False\<rparr>)"

definition publish_now_at :: "library_env \<Rightarrow> nat \<Rightarrow> nat \<Rightarrow> shelf \<Rightarrow> (nat option \<times> shelf) res" where
  "publish_now_at L actor library_id s =
     bind_res (locked_library actor library_id PERM_MANAGE s) (\<lambda>((library, _), s1).
     let r = candidate_readiness L library s1 in
     bind_res (require (can_publish r \<or> publication_current r)
       (LibraryError ''Publication is unavailable. Check the current build status.'')) (\<lambda>_.
     case scope_kwargs library (hall s1) of (_, d, st, code) \<Rightarrow>
       bind_res (lift_hall (enqueue_publication_job (publication_env L) d st code (Some actor) USER_REQUEST None False None)
         (synced s1)) (\<lambda>(job, s2).
       let s3 = on_hall (\<lambda>w. record_event ''file_library.publish_requested'' (Some actor) d st ''library'' (Some library_id) []
                  (register_on_commit WakeBuildWorker w)) s2
       in Inr (job, if lib_department library \<noteq> None then on_hall (department_release actor) s3 else s3))))"

definition publish_now :: "library_env \<Rightarrow> nat \<Rightarrow> nat \<Rightarrow> shelf \<Rightarrow> nat option res \<times> shelf" where
  "publish_now L actor library_id s =
     (let s0 = expire_access actor s in
      case publish_now_at L actor library_id s0 of
        Inr (x, s1) \<Rightarrow> (Inr x, s1)
      | Inl e \<Rightarrow> (Inl e, if is_permission_denied e then expire_access actor s0 else s0))"

definition publication_state :: "library_env \<Rightarrow> library_row \<Rightarrow> shelf \<Rightarrow> string" where
  "publication_state L l s =
     (let w = hall s; r = candidate_readiness L l s in
      case find_scope (scope_kwargs l w) w of
        None \<Rightarrow> ''Unpublished changes''
      | Some scope \<Rightarrow>
          let label = (if publication_current r then ''Current'' else ''Unpublished changes'') in
          case first_by (\<lambda>j. - job_created_at j) (\<lambda>j. job_scope_state j = scp_id scope) (jobs w) of
            None \<Rightarrow> label
          | Some j \<Rightarrow>
              if (job_status j = PENDING \<or> job_status j = RUNNING \<or> job_status j = JOB_FAILED)
                 \<and> (\<not> publication_current r \<or> job_status j = RUNNING)
              then (if job_status j = PENDING then ''Queued'' else if job_status j = RUNNING then ''Building'' else ''Failed'')
              else label)"

subsection \<open>Discovery and repair\<close>

text \<open>
  \<open>initialize_missing_libraries\<close> runs outside a transaction: the row of a library stays when its initialisation
  raises.
\<close>

fun open_libraries :: "library_env \<Rightarrow> (nat option \<times> nat option) list \<Rightarrow> shelf \<Rightarrow> unit res \<times> shelf" where
  "open_libraries L [] s = (Inr (), s)"
| "open_libraries L ((d, st) # owners) s =
     (case get_or_create_library d st s of
        Inl e \<Rightarrow> (Inl e, s)
      | Inr (l, s1) \<Rightarrow>
          (case initialize_library L l s1 of
             Inl e \<Rightarrow> (Inl e, s1)
           | Inr (_, s2) \<Rightarrow> open_libraries L owners s2))"

definition missing_departments :: "world \<Rightarrow> (nat option \<times> nat option) list" where
  "missing_departments w =
     map (\<lambda>d. (Some (dep_id d), None)) (filter (\<lambda>d. dep_status d = DEP_ACTIVE
       \<and> \<not> exists_row (\<lambda>x. scp_dataset_type_code x = ''department_files'' \<and> scp_department x = Some (dep_id d)) (scope_states w))
       (departments w))"

definition missing_stations :: "world \<Rightarrow> (nat option \<times> nat option) list" where
  "missing_stations w =
     map (\<lambda>x. (None, Some (sta_id x))) (filter (\<lambda>x. sta_active x \<and> department_is_active w (sta_department x)
       \<and> \<not> exists_row (\<lambda>y. scp_dataset_type_code y = ''station_files'' \<and> scp_station y = Some (sta_id x)) (scope_states w))
       (stations w))"

definition initialize_missing_libraries :: "library_env \<Rightarrow> shelf \<Rightarrow> unit res \<times> shelf" where
  "initialize_missing_libraries L s =
     (case open_libraries L (missing_departments (hall s)) s of
        (Inl e, s1) \<Rightarrow> (Inl e, s1)
      | (Inr _, s1) \<Rightarrow> open_libraries L (missing_stations (hall s1)) s1)"

text \<open>apps/file_library/publication_reconciliation.py: the verdict on a file scope, with the repair when asked for.\<close>

definition scope_library :: "scope_state \<Rightarrow> shelf \<Rightarrow> library_row option" where
  "scope_library scope s =
     find (\<lambda>l. if scp_station scope \<noteq> None then lib_station l = scp_station scope
              else lib_department l = scp_department scope) (libraries s)"

definition reconcile_verdict :: "library_env \<Rightarrow> scope_state \<Rightarrow> string \<Rightarrow> bool \<Rightarrow> shelf \<Rightarrow> (string \<times> shelf) res" where
  "reconcile_verdict L scope digest apply_it s =
     bind_res (if apply_it then bind_res (lift_hall (reconcile_clean_source (publication_env L) scope digest) s) (\<lambda>(_, s1). Inr s1)
               else Inr s) (\<lambda>s1.
     Inr (if exists_row (\<lambda>j. job_scope_state j = scp_id scope \<and> job_status j = PENDING \<and> job_allow_clean_rebuild j) (jobs (hall s1))
          then ''matches active publication; explicit force rebuild preserved''
          else if apply_it then ''matches active publication; reconciled'' else ''matches active publication; eligible'', s1))"

definition reconcile_file_scope :: "library_env \<Rightarrow> nat \<Rightarrow> nat \<Rightarrow> bool \<Rightarrow> shelf \<Rightarrow> (string \<times> shelf) res" where
  "reconcile_file_scope L scope_id department_id apply_it s =
     bind_res (of_option (DoesNotExist ''DatasetScopeState'') (find (\<lambda>x. scp_id x = scope_id
         \<and> scp_department x = Some department_id \<and> scp_dataset_type_code x \<in> FILE_DATASETS) (scope_states (hall s)))) (\<lambda>preview.
     bind_res (locked_scope (scp_department preview) (scp_station preview) (scp_dataset_type_code preview) (hall s)) (\<lambda>scope.
     case scope_library scope s of
       None \<Rightarrow> Inr (''no library'', s)
     | Some l \<Rightarrow>
         if exists_row (\<lambda>j. job_scope_state j = scp_id scope \<and> job_status j = RUNNING) (jobs (hall s))
         then Inr (''building; deferred'', s)
         else
           let digest = source_fingerprint_for_payload (publication_env L) (snapshot_for_library l s) in
           if scope_is_dirty (publication_env L) (hall s) scope (Some digest)
           then Inr (''changed or historical snapshot unavailable; preserved'', s)
           else reconcile_verdict L scope digest apply_it s))"

end
