(* ===== verification/Library_Tree_Inv.thy ===== *)
theory Library_Tree_Inv
  imports Library_Tree
begin

text \<open>
  The folder tree: every entry sits in a folder of its own library, folders are nested at most five deep, and the
  walks over the tree end.  What creating, moving and removing entries do to the tree, as facts about the table.
\<close>

subsection \<open>Well-formed trees\<close>

text \<open>\<open>within n rows p\<close>: the chain of folders from \<open>p\<close> to the root has at most \<open>n\<close> folders.\<close>

fun within :: "nat \<Rightarrow> entry_row list \<Rightarrow> nat option \<Rightarrow> bool" where
  "within n rows None = True"
| "within 0 rows (Some i) = False"
| "within (Suc n) rows (Some i) =
     (case row_get ent_id i rows of None \<Rightarrow> False | Some e \<Rightarrow> ent_is_folder e \<and> within n rows (ent_parent e))"

definition in_folder :: "entry_row list \<Rightarrow> entry_row \<Rightarrow> bool" where
  "in_folder rows e \<longleftrightarrow> (\<forall>p. ent_parent e = Some p \<longrightarrow>
     (\<exists>f\<in>set rows. ent_id f = p \<and> ent_is_folder f \<and> ent_library f = ent_library e))"

definition tree_ok :: "entry_row list \<Rightarrow> bool" where
  "tree_ok rows \<longleftrightarrow> unique_rows ent_id rows \<and> entry_constraints rows \<and> (\<forall>e\<in>set rows. in_folder rows e)
     \<and> (\<forall>e\<in>set rows. ent_is_folder e \<longrightarrow> within MAX_FOLDER_DEPTH rows (Some (ent_id e)))"

lemma tree_okD:
  assumes "tree_ok rows"
  shows "unique_rows ent_id rows" "entry_constraints rows" "\<And>e. e \<in> set rows \<Longrightarrow> in_folder rows e"
    "\<And>e. e \<in> set rows \<Longrightarrow> ent_is_folder e \<Longrightarrow> within MAX_FOLDER_DEPTH rows (Some (ent_id e))"
  using assms by (auto simp: tree_ok_def)

lemma within_mono: "within n rows p \<Longrightarrow> n \<le> m \<Longrightarrow> within m rows p"
proof (induction n rows p arbitrary: m rule: within.induct)
  case (3 n rows i)
  then obtain m' where "m = Suc m'" "n \<le> m'" by (cases m) auto
  with 3 show ?case by (auto split: option.splits)
qed simp_all

lemma parent_folder:
  assumes "tree_ok rows" and "e \<in> set rows" and "ent_parent e = Some p"
  obtains f where "row_get ent_id p rows = Some f" "ent_is_folder f" "ent_library f = ent_library e" "f \<in> set rows"
proof -
  obtain f where f: "f \<in> set rows" "ent_id f = p" "ent_is_folder f" "ent_library f = ent_library e"
    using tree_okD(3) [OF assms(1,2)] assms(3) unfolding in_folder_def by blast
  with row_get_unique [OF tree_okD(1) [OF assms(1)] f(1)] that show ?thesis by simp
qed

subsection \<open>Climbing\<close>

lemma climb_within:
  assumes "tree_ok rows" and "climb n rows avoid (Some c) = Inr d" and "c \<in> set rows" and "ent_is_folder c"
  shows "within d rows (Some (ent_id c)) \<and> avoid \<noteq> Some (ent_id c)"
  using assms(2-)
proof (induction n arbitrary: c d)
  case (Suc n)
  have get: "row_get ent_id (ent_id c) rows = Some c" by (rule row_get_unique [OF tree_okD(1) [OF assms(1)] Suc.prems(2)])
  from Suc.prems(1) obtain p d' where p: "parent_of rows c = Inr p" "climb n rows avoid p = Inr d'" "d = Suc d'"
      "avoid \<noteq> Some (ent_id c)"
    by (auto simp: bind_res_Inr split: if_splits)
  show ?case
  proof (cases "ent_parent c")
    case None
    with p get Suc.prems(3) show ?thesis by simp
  next
    case (Some q)
    from parent_folder [OF assms(1) Suc.prems(2) Some] obtain f where f: "row_get ent_id q rows = Some f" "ent_is_folder f" "f \<in> set rows" .
    with p(1) Some have "p = Some f" by (simp add: parent_of_def)
    with Suc.IH [of f d'] p(2) f have "within d' rows (Some (ent_id f))" by simp
    moreover have "ent_id f = q" using f(1) by (rule row_get_key)
    ultimately show ?thesis using Some p(3,4) get Suc.prems(3) by simp
  qed
qed simp

subsection \<open>Levels\<close>

lemma child_ids_Nil [simp]: "child_ids P rows [] = []"
  by (auto simp: child_ids_def filter_empty_conv split: option.splits)

lemma child_ids_iff:
  "i \<in> set (child_ids P rows fr) \<longleftrightarrow> (\<exists>e\<in>set rows. ent_id e = i \<and> P e \<and> (\<exists>p\<in>set fr. ent_parent e = Some p))"
  by (auto simp: child_ids_def split: option.splits)

lemma iterate_Nil: "((child_ids P rows) ^^ k) [] = []"
  by (induction k) simp_all

lemma levels_length:
  assumes "levels fuel (child_ids P rows) fr = Some ls" and "((child_ids P rows) ^^ k) fr \<noteq> []"
  shows "k < length ls"
  using assms
proof (induction fuel arbitrary: fr ls k)
  case (Suc fuel)
  show ?case
  proof (cases "fr = []")
    case False
    with Suc.prems(1) obtain rest where r: "levels fuel (child_ids P rows) (child_ids P rows fr) = Some rest" "ls = fr # rest" by auto
    show ?thesis
    proof (cases k)
      case (Suc k')
      with Suc.prems(2) have "((child_ids P rows) ^^ k') (child_ids P rows fr) \<noteq> []" by (simp add: funpow_swap1)
      with Suc.IH [OF r(1)] r(2) Suc show ?thesis by simp
    qed (simp add: r(2))
  qed (use Suc.prems(2) in \<open>simp add: iterate_Nil\<close>)
qed simp

lemma levels_closed:
  assumes "levels fuel (child_ids P rows) fr = Some ls"
  shows "set fr \<subseteq> set (concat ls) \<and> (\<forall>l\<in>set ls. set (child_ids P rows l) \<subseteq> set (concat ls))"
  using assms
proof (induction fuel arbitrary: fr ls)
  case (Suc fuel)
  show ?case
  proof (cases "fr = []")
    case False
    with Suc.prems obtain rest where r: "levels fuel (child_ids P rows) (child_ids P rows fr) = Some rest" "ls = fr # rest" by auto
    from Suc.IH [OF r(1)] r(2) show ?thesis by auto
  qed (use Suc.prems in auto)
qed simp

lemma levels_end: "((child_ids P rows) ^^ k) fr = [] \<Longrightarrow> k < fuel \<Longrightarrow> levels fuel (child_ids P rows) fr \<noteq> None"
proof (induction fuel arbitrary: fr k)
  case (Suc fuel)
  show ?case
  proof (cases "fr = []")
    case False
    with Suc.prems obtain k' where "k = Suc k'" by (cases k) auto
    with Suc.prems Suc.IH [of k' "child_ids P rows fr"] False show ?thesis by (simp add: funpow_swap1)
  qed simp
qed simp

text \<open>An entry on level \<open>k\<close> below the start has \<open>k\<close> folders above it.\<close>

lemma level_depth:
  assumes "tree_ok rows" and "i \<in> set (((child_ids P rows) ^^ k) [start])" and "within n rows (Some i)"
  shows "k < n"
  using assms(2,3)
proof (induction k arbitrary: i n)
  case 0
  then show ?case by (cases n) auto
next
  case (Suc k)
  from Suc.prems(1) obtain e p where e: "e \<in> set rows" "ent_id e = i" "ent_parent e = Some p"
      "p \<in> set (((child_ids P rows) ^^ k) [start])"
    by (auto simp: child_ids_iff)
  have "row_get ent_id i rows = Some e" using row_get_unique [OF tree_okD(1) [OF assms(1)] e(1)] e(2) by simp
  with Suc.prems(2) e(3) obtain n' where "n = Suc n'" "within n' rows (Some p)" by (cases n) auto
  with Suc.IH [OF e(4)] show ?case by simp
qed

lemma level_bound:
  assumes "tree_ok rows"
  shows "((child_ids P rows) ^^ (Suc (Suc MAX_FOLDER_DEPTH))) [start] = []"
proof (rule ccontr)
  let ?ch = "child_ids P rows"
  assume "(?ch ^^ (Suc (Suc MAX_FOLDER_DEPTH))) [start] \<noteq> []"
  then obtain i where "i \<in> set (?ch ((?ch ^^ Suc MAX_FOLDER_DEPTH) [start]))"
    by (metis funpow.simps(2) comp_apply ex_in_conv set_empty)
  then obtain e p where e: "e \<in> set rows" "ent_parent e = Some p" "p \<in> set ((?ch ^^ Suc MAX_FOLDER_DEPTH) [start])"
    by (auto simp: child_ids_iff)
  from parent_folder [OF assms e(1,2)] obtain f where f: "row_get ent_id p rows = Some f" "ent_is_folder f" "f \<in> set rows" .
  have "ent_id f = p" using f(1) by (rule row_get_key)
  then have "within MAX_FOLDER_DEPTH rows (Some p)" using tree_okD(4) [OF assms f(3,2)] by simp
  from level_depth [OF assms e(3) this] show False by simp
qed

lemma walk_returns:
  assumes "tree_ok rows"
  shows "\<exists>ls. walk P rows start = Inr ls"
proof -
  have "levels (length rows + 8) (child_ids P rows) [start] \<noteq> None"
    using levels_end [OF level_bound [OF assms]] by (simp add: MAX_FOLDER_DEPTH_def)
  then show ?thesis by (auto simp: walk_def)
qed

subsection \<open>Adding an entry\<close>

lemma within_append:
  assumes "ent_id x \<notin> ent_id ` set rows"
  shows "within n rows p \<Longrightarrow> within n (rows @ [x]) p"
proof (induction n rows p rule: within.induct)
  case (3 n rows i)
  then show ?case by (auto simp: row_get_snoc split: option.splits)
qed simp_all

lemma parent_entry_Inr:
  assumes "parent_entry library_id parent_id rows = Inr parent"
  shows "map_option ent_id parent = parent_id
     \<and> (\<forall>c. parent = Some c \<longrightarrow> c \<in> set rows \<and> ent_is_folder c \<and> ent_library c = library_id)"
  using assms
  by (auto simp: parent_entry_def scoped_entry_def res_simps find_Some_iff split: option.splits)

lemma scoped_entry_Inr:
  assumes "scoped_entry library_id i folder rows = Inr e"
  shows "e \<in> set rows \<and> ent_id e = i \<and> ent_library e = library_id"
  using assms by (auto simp: scoped_entry_def res_simps find_Some_iff)

lemma climb_parent:
  assumes "tree_ok rows" and "climb n rows avoid parent = Inr d"
    and "\<And>c. parent = Some c \<Longrightarrow> c \<in> set rows \<and> ent_is_folder c"
  shows "within d rows (map_option ent_id parent)"
  using climb_within [OF assms(1), of n avoid _ d] assms(2,3) by (cases parent) auto

lemma tree_ok_add:
  assumes ok: "tree_ok rows" and c: "entry_constraints (rows @ [x])" and new: "ent_id x \<notin> ent_id ` set rows"
    and p: "\<And>c. parent = Some c \<Longrightarrow> c \<in> set rows \<and> ent_is_folder c \<and> ent_library c = ent_library x"
    and x: "ent_parent x = map_option ent_id parent"
    and v: "validate_location library_id name parent None (ent_is_folder x) rows = Inr u"
  shows "tree_ok (rows @ [x])"
proof -
  from v obtain d where d: "climb MAX_FOLDER_DEPTH rows None parent = Inr d"
      "d + (if ent_is_folder x then 1 else 0) \<le> MAX_FOLDER_DEPTH"
    by (auto simp: validate_location_def res_simps split: if_splits)
  have w: "within d (rows @ [x]) (ent_parent x)"
    using within_append [OF new climb_parent [OF ok d(1)]] p x by simp
  have "within MAX_FOLDER_DEPTH (rows @ [x]) (Some (ent_id x))" if f: "ent_is_folder x"
  proof -
    have "row_get ent_id (ent_id x) (rows @ [x]) = Some x"
      using new by (simp add: row_get_snoc row_get_None [THEN iffD2])
    then have "within (Suc d) (rows @ [x]) (Some (ent_id x))" using f w by simp
    then show ?thesis by (rule within_mono) (use d(2) f in simp)
  qed
  moreover have "in_folder (rows @ [x]) e" if "e \<in> set rows" for e
    using tree_okD(3) [OF ok that] by (auto simp: in_folder_def)
  moreover have "in_folder (rows @ [x]) x" using p x by (cases parent) (auto simp: in_folder_def)
  ultimately show ?thesis
    using tree_okD [OF ok] c new within_append [OF new] by (auto simp: tree_ok_def)
qed

subsection \<open>Moving an entry\<close>

fun below :: "nat \<Rightarrow> entry_row list \<Rightarrow> nat \<Rightarrow> nat \<Rightarrow> bool" where
  "below 0 rows e i = (i = e)"
| "below (Suc k) rows e i =
     (case row_get ent_id i rows of None \<Rightarrow> False
      | Some r \<Rightarrow> ent_is_folder r \<and> (case ent_parent r of None \<Rightarrow> False | Some p \<Rightarrow> below k rows e p))"

lemma below_level: "below k rows e i \<Longrightarrow> i \<in> set (((child_ids ent_is_folder rows) ^^ k) [e])"
proof (induction k rows e i rule: below.induct)
  case (2 k rows e i)
  from 2(2) obtain r p where r: "row_get ent_id i rows = Some r" "ent_is_folder r" "ent_parent r = Some p" "below k rows e p"
    by (auto split: option.splits)
  with 2(1) row_get_SomeD [OF r(1)] show ?case by (auto simp: child_ids_iff)
qed simp

text \<open>\<open>rows'\<close> differs from \<open>rows\<close> in the row of \<open>e\<close> only.\<close>

lemma within_move:
  assumes "\<And>i. i \<noteq> e \<Longrightarrow> row_get ent_id i rows' = row_get ent_id i rows"
  shows "within n rows (Some i) \<Longrightarrow> (\<exists>k. below k rows e i) \<or> within n rows' (Some i)"
proof (induction n arbitrary: i)
  case (Suc n)
  from Suc.prems obtain r where r: "row_get ent_id i rows = Some r" "ent_is_folder r" "within n rows (ent_parent r)"
    by (auto split: option.splits)
  show ?case
  proof (cases "i = e")
    case True
    then show ?thesis by (metis below.simps(1))
  next
    case False
    then have r': "row_get ent_id i rows' = Some r" using assms r(1) by simp
    show ?thesis
    proof (cases "ent_parent r")
      case None
      with r r' show ?thesis by simp
    next
      case (Some p)
      with Suc.IH [of p] r(3) consider k where "below k rows e p" | "within n rows' (Some p)" by auto
      then show ?thesis
      proof cases
        case 1
        then have "below (Suc k) rows e i" using r Some by simp
        then show ?thesis by blast
      qed (use r r' Some in simp)
    qed
  qed
qed simp

lemma below_within:
  assumes "\<And>i. i \<noteq> e \<Longrightarrow> row_get ent_id i rows' = row_get ent_id i rows" and "within m rows' (Some e)"
  shows "below k rows e i \<Longrightarrow> within (m + k) rows' (Some i)"
proof (induction k arbitrary: i)
  case (Suc k)
  show ?case
  proof (cases "i = e")
    case True
    then show ?thesis using within_mono [OF assms(2), of "m + Suc k"] by simp
  next
    case False
    from Suc.prems obtain r p where "row_get ent_id i rows = Some r" "ent_is_folder r" "ent_parent r = Some p" "below k rows e p"
      by (auto split: option.splits)
    with Suc.IH [of p] assms(1) [OF False] show ?thesis by simp
  qed
qed (use assms(2) in simp)

text \<open>The climb of a move avoids the moved entry, so the chain above the new parent survives the move.\<close>

lemma climb_move:
  assumes ok: "tree_ok rows" and "climb n rows (Some e) (Some c) = Inr d" and "c \<in> set rows" and "ent_is_folder c"
    and same: "\<And>i. i \<noteq> e \<Longrightarrow> row_get ent_id i rows' = row_get ent_id i rows"
  shows "within d rows' (Some (ent_id c))"
  using assms(2-4)
proof (induction n arbitrary: c d)
  case (Suc n)
  have get: "row_get ent_id (ent_id c) rows = Some c" by (rule row_get_unique [OF tree_okD(1) [OF ok] Suc.prems(2)])
  from Suc.prems(1) obtain p d' where p: "parent_of rows c = Inr p" "climb n rows (Some e) p = Inr d'" "d = Suc d'" "ent_id c \<noteq> e"
    by (auto simp: bind_res_Inr split: if_splits)
  with get same have get': "row_get ent_id (ent_id c) rows' = Some c" by simp
  show ?case
  proof (cases "ent_parent c")
    case None
    with p get' Suc.prems(3) show ?thesis by simp
  next
    case (Some q)
    from parent_folder [OF ok Suc.prems(2) Some] obtain f where f: "row_get ent_id q rows = Some f" "ent_is_folder f" "f \<in> set rows" .
    with p(1) Some have "p = Some f" by (simp add: parent_of_def)
    with Suc.IH [of f d'] p(2) f have "within d' rows' (Some (ent_id f))" by simp
    moreover have "ent_id f = q" using f(1) by (rule row_get_key)
    ultimately show ?thesis using Some p(3) get' Suc.prems(3) by simp
  qed
qed simp

lemma in_folder_put:
  assumes "in_folder rows a" and "x \<in> set rows" and "unique_rows ent_id rows"
    and "ent_id y = ent_id x" "ent_is_folder y = ent_is_folder x" "ent_library y = ent_library x"
  shows "in_folder (row_put ent_id y rows) a"
  unfolding in_folder_def
proof (intro allI impI)
  fix p
  assume "ent_parent a = Some p"
  with assms(1) obtain f where f: "f \<in> set rows" "ent_id f = p" "ent_is_folder f" "ent_library f = ent_library a"
    unfolding in_folder_def by blast
  show "\<exists>f\<in>set (row_put ent_id y rows). ent_id f = p \<and> ent_is_folder f \<and> ent_library f = ent_library a"
  proof (cases "ent_id f = ent_id x")
    case True
    then have "f = x" using assms(2,3) f(1) by (auto simp: distinct_map inj_on_def)
    with f assms(2,4-6) show ?thesis by (intro bexI [of _ y]) (auto simp: in_set_row_put)
  next
    case False
    with f assms(4) show ?thesis by (intro bexI [of _ f]) (auto simp: in_set_row_put)
  qed
qed

lemma tree_ok_replace:
  assumes ok: "tree_ok rows" and x: "x \<in> set rows" and c: "entry_constraints (row_put ent_id y rows)"
    and y: "ent_id y = ent_id x" "ent_is_folder y = ent_is_folder x" "ent_library y = ent_library x"
      "ent_parent y = map_option ent_id parent"
    and p: "\<And>c. parent = Some c \<Longrightarrow> c \<in> set rows \<and> ent_is_folder c \<and> ent_library c = ent_library x"
    and v: "validate_location library_id name parent (Some x) (ent_is_folder x) rows = Inr u"
  shows "tree_ok (row_put ent_id y rows)"
proof -
  let ?rows = "row_put ent_id y rows"
  note u = tree_okD(1) [OF ok]
  have same: "row_get ent_id i ?rows = row_get ent_id i rows" if "i \<noteq> ent_id x" for i
    using that y(1) by (simp add: row_get_put)
  have get: "row_get ent_id (ent_id x) ?rows = Some y" using x y(1) by (simp add: row_get_put)
  from v obtain d where d: "climb MAX_FOLDER_DEPTH rows (Some (ent_id x)) parent = Inr d"
    and h: "ent_is_folder x \<Longrightarrow> \<exists>ls. walk ent_is_folder rows (ent_id x) = Inr ls \<and> d + length ls \<le> MAX_FOLDER_DEPTH"
    by (auto simp: validate_location_def res_simps split: bool.splits)
  have depth: "within MAX_FOLDER_DEPTH ?rows (Some i)" if i: "within MAX_FOLDER_DEPTH rows (Some i)" for i
  proof (cases "ent_is_folder x")
    case True
    from h [OF True] obtain ls where ls: "levels (length rows + 8) (child_ids ent_is_folder rows) [ent_id x] = Some ls"
        "d + length ls \<le> MAX_FOLDER_DEPTH"
      by (auto simp: walk_def of_option_Inr)
    have "within d ?rows (ent_parent y)"
      using climb_move [OF ok _ _ _ same] d p y(4) by (cases parent) auto
    then have top: "within (Suc d) ?rows (Some (ent_id x))" using get y(2) True by simp
    from within_move [OF same i] show ?thesis
    proof
      assume "\<exists>k. below k rows (ent_id x) i"
      then obtain k where k: "below k rows (ent_id x) i" by blast
      have "k < length ls" using levels_length [OF ls(1)] below_level [OF k] by force
      with ls(2) have "Suc d + k \<le> MAX_FOLDER_DEPTH" by simp
      with below_within [OF same top k] show ?thesis by (rule within_mono)
    qed
  next
    case False
    have "within n rows (Some i) \<Longrightarrow> within n ?rows (Some i)" for n
    proof (induction n arbitrary: i)
      case (Suc n)
      from Suc.prems obtain r where r: "row_get ent_id i rows = Some r" "ent_is_folder r" "within n rows (ent_parent r)"
        by (auto split: option.splits)
      have "i \<noteq> ent_id x" using r False row_get_unique [OF u x] by auto
      with same r Suc.IH show ?case by (cases "ent_parent r") auto
    qed simp
    with i show ?thesis by blast
  qed
  have "in_folder ?rows e" if "e \<in> set rows" for e
    by (rule in_folder_put [OF tree_okD(3) [OF ok that] x u y(1-3)])
  moreover have "in_folder ?rows y"
  proof -
    have "in_folder rows y" using p y by (cases parent) (auto simp: in_folder_def)
    then show ?thesis by (rule in_folder_put [OF _ x u y(1-3)])
  qed
  moreover have "within MAX_FOLDER_DEPTH ?rows (Some (ent_id e))" if "e \<in> set ?rows" "ent_is_folder e" for e
    using that depth tree_okD(4) [OF ok] x y(1,2) by (auto simp: in_set_row_put)
  ultimately show ?thesis using u c by (auto simp: tree_ok_def in_set_row_put)
qed

subsection \<open>Removing an entry with everything below it\<close>

lemma within_filter:
  assumes closed: "\<And>e p. e \<in> set rows \<Longrightarrow> ent_parent e = Some p \<Longrightarrow> p \<in> D \<Longrightarrow> ent_id e \<in> D"
  shows "within n rows (Some i) \<Longrightarrow> i \<notin> D \<Longrightarrow> within n (filter (\<lambda>e. ent_id e \<notin> D) rows) (Some i)"
proof (induction n arbitrary: i)
  case (Suc n)
  from Suc.prems(1) obtain r where r: "row_get ent_id i rows = Some r" "ent_is_folder r" "within n rows (ent_parent r)"
    by (auto split: option.splits)
  have "row_get ent_id i (filter (\<lambda>e. ent_id e \<notin> D) rows) = Some r"
    using r(1) Suc.prems(2) by (induction rows) (auto simp: row_get_def)
  moreover have "p \<notin> D" if "ent_parent r = Some p" for p
    using closed [OF _ that] row_get_SomeD [OF r(1)] Suc.prems(2) by auto
  ultimately show ?case using r Suc.IH by (cases "ent_parent r") auto
qed simp

lemma walk_closed:
  assumes "walk (\<lambda>_. True) rows start = Inr ls"
  shows "start \<in> set (concat ls)"
    and "\<And>e p. e \<in> set rows \<Longrightarrow> ent_parent e = Some p \<Longrightarrow> p \<in> set (concat ls) \<Longrightarrow> ent_id e \<in> set (concat ls)"
proof -
  from assms have l: "levels (length rows + 8) (child_ids (\<lambda>_. True) rows) [start] = Some ls" by (simp add: walk_def of_option_Inr)
  note c = levels_closed [OF l]
  from c show "start \<in> set (concat ls)" by auto
  fix e p
  assume e: "e \<in> set rows" "ent_parent e = Some p" "p \<in> set (concat ls)"
  then obtain x where x: "x \<in> set ls" "p \<in> set x" by auto
  have "ent_id e \<in> set (child_ids (\<lambda>_. True) rows x)" using e(1,2) x(2) by (auto simp: child_ids_iff)
  with c x(1) show "ent_id e \<in> set (concat ls)" by blast
qed

lemma tree_ok_remove:
  assumes ok: "tree_ok rows" and w: "walk (\<lambda>_. True) rows start = Inr ls"
  shows "tree_ok (filter (\<lambda>e. ent_id e \<notin> set (concat ls)) rows)"
proof -
  let ?D = "set (concat ls)"
  let ?rows = "filter (\<lambda>e. ent_id e \<notin> ?D) rows"
  have "entry_constraints ?rows"
    using tree_okD(2) [OF ok] by (auto simp: entry_constraints_def distinct_map_filter list_all_iff)
  moreover have "in_folder ?rows e" if "e \<in> set ?rows" for e
  proof -
    have "in_folder rows e" using tree_okD(3) [OF ok] that by simp
    with walk_closed(2) [OF w, of e] that show ?thesis by (fastforce simp: in_folder_def)
  qed
  moreover have "within MAX_FOLDER_DEPTH ?rows (Some (ent_id e))" if "e \<in> set ?rows" "ent_is_folder e" for e
    by (rule within_filter [OF walk_closed(2) [OF w]]) (use that tree_okD(4) [OF ok] in auto)
  ultimately show ?thesis using tree_okD(1) [OF ok] by (auto simp: tree_ok_def distinct_map_filter)
qed

text \<open>Everything a walk meets lies in the library of its start.\<close>

lemma levels_library:
  assumes "tree_ok rows" and "levels fuel (child_ids P rows) fr = Some ls"
    and "\<And>e. e \<in> set rows \<Longrightarrow> ent_id e \<in> set fr \<Longrightarrow> ent_library e = l"
    and "x \<in> set rows" and "ent_id x \<in> set (concat ls)"
  shows "ent_library x = l"
  using assms(2,3,5)
proof (induction fuel arbitrary: fr ls)
  case (Suc fuel)
  show ?case
  proof (cases "fr = []")
    case False
    with Suc.prems(1) obtain rest where r: "levels fuel (child_ids P rows) (child_ids P rows fr) = Some rest" "ls = fr # rest" by auto
    show ?thesis
    proof (cases "ent_id x \<in> set fr")
      case False
      have "ent_library e = l" if e: "e \<in> set rows" "ent_id e \<in> set (child_ids P rows fr)" for e
      proof -
        from e obtain e' p where "e' \<in> set rows" "ent_id e' = ent_id e" "p \<in> set fr" "ent_parent e' = Some p"
          by (auto simp: child_ids_iff)
        moreover from this have "e' = e" using e(1) tree_okD(1) [OF assms(1)] by (auto simp: distinct_map inj_on_def)
        ultimately have p: "p \<in> set fr" "ent_parent e = Some p" by simp_all
        from parent_folder [OF assms(1) e(1) p(2)] obtain f where f: "row_get ent_id p rows = Some f" "ent_library f = ent_library e" "f \<in> set rows" .
        with Suc.prems(2) [of f] p(1) row_get_key [OF f(1)] show ?thesis by simp
      qed
      with Suc.IH [OF r(1)] False Suc.prems(3) r(2) show ?thesis by auto
    qed (use Suc.prems(2) assms(4) in blast)
  qed (use Suc.prems in auto)
qed simp

end
