(* ===== verification/Library_Inv.thy ===== *)
theory Library_Inv
  imports Library_Services Library_Tree_Inv Lifecycle_System Step_Invariant
begin

text \<open>
  The services of a document library keep the tree well formed, the recorded usage equal to what the tree holds,
  and the publication lifecycle of the library's scope in its invariant.
\<close>

subsection \<open>Invariant\<close>

definition usage_of :: "shelf \<Rightarrow> nat \<Rightarrow> int" where
  "usage_of s l = sum_list (map (size_of s) (filter (\<lambda>e. ent_library e = l) (entries s)))"

definition shelf_ids :: "shelf \<Rightarrow> bool" where
  "shelf_ids s \<longleftrightarrow> unique_rows lib_id (libraries s) \<and> unique_rows con_id (contents s)
     \<and> (\<forall>l\<in>set (libraries s). lib_id l < next_id (hall s)) \<and> (\<forall>c\<in>set (contents s). con_id c < next_id (hall s))
     \<and> (\<forall>e\<in>set (entries s). ent_id e < next_id (hall s))
     \<and> (\<forall>e\<in>set (entries s). \<forall>c. ent_content e = Some c \<longrightarrow> c \<in> con_id ` set (contents s))
     \<and> (\<forall>e\<in>set (entries s). ent_library e \<in> lib_id ` set (libraries s))"

definition shelf_inv :: "shelf \<Rightarrow> bool" where
  "shelf_inv s \<longleftrightarrow> lifecycle_inv (hall s) \<and> shelf_ids s \<and> tree_ok (entries s) \<and> library_constraints (libraries s)
     \<and> (\<forall>l\<in>set (libraries s). lib_usage_bytes l = usage_of s (lib_id l))"

definition shelf_history :: "shelf \<Rightarrow> shelf \<Rightarrow> bool" where
  "shelf_history s s' \<longleftrightarrow> evolves (hall s) (hall s')"

abbreviation shelf_keeps :: "shelf \<Rightarrow> shelf \<Rightarrow> bool" where
  "shelf_keeps \<equiv> preserves shelf_inv shelf_history"

interpretation shelf_evolution: evolving shelf_inv shelf_history
  by unfold_locales (auto simp: shelf_history_def intro: evolves_trans)

lemmas shelf_keeps_refl [simp] = shelf_evolution.preserves_refl
lemmas shelf_keeps_trans [trans] = shelf_evolution.preserves_trans

lemma shelf_keepsI: "(shelf_inv s \<Longrightarrow> shelf_keeps s s') \<Longrightarrow> shelf_keeps s s'"
  by (simp add: preserves_def)

subsection \<open>Changes of the publication database only\<close>

definition same_shelf :: "shelf \<Rightarrow> shelf \<Rightarrow> bool" where
  "same_shelf s s' \<longleftrightarrow> libraries s' = libraries s \<and> contents s' = contents s \<and> entries s' = entries s
     \<and> (lifecycle_inv (hall s) \<longrightarrow> keeps (hall s) (hall s'))"

lemma evolves_next_id: "evolves w w' \<Longrightarrow> next_id w \<le> next_id w'"
  by (simp add: evolves_def)

lemma size_of_cong: "contents s' = contents s \<Longrightarrow> size_of s' = size_of s"
  by (simp add: fun_eq_iff size_of_def content_of_def cong: option.case_cong)

lemma usage_of_cong:
  assumes "contents s' = contents s" and "entries s' = entries s"
  shows "usage_of s' = usage_of s"
  using size_of_cong [OF assms(1)] assms(2) by (intro ext) (simp add: usage_of_def)

lemma same_shelf_refl [simp]: "same_shelf s s"
  by (simp add: same_shelf_def keeps_refl)

lemma same_shelf_trans: "same_shelf r s \<Longrightarrow> same_shelf s t \<Longrightarrow> same_shelf r t"
  by (auto simp: same_shelf_def dest: keepsD intro: keeps_trans)

lemma shelf_ids_mono:
  "shelf_ids s \<Longrightarrow> libraries s' = libraries s \<Longrightarrow> contents s' = contents s \<Longrightarrow> entries s' = entries s
     \<Longrightarrow> next_id (hall s) \<le> next_id (hall s') \<Longrightarrow> shelf_ids s'"
  by (auto simp: shelf_ids_def dest: less_le_trans)

lemma same_shelf_keeps:
  assumes "same_shelf s s'"
  shows "shelf_keeps s s'"
  unfolding preserves_def
proof (intro impI)
  assume inv: "shelf_inv s"
  then have k: "keeps (hall s) (hall s')" using assms by (simp add: same_shelf_def shelf_inv_def)
  have "shelf_ids s" using inv by (simp add: shelf_inv_def)
  then have "shelf_ids s'"
    by (rule shelf_ids_mono) (use assms evolves_next_id [OF keepsD(2) [OF k]] in \<open>simp_all add: same_shelf_def\<close>)
  moreover have "usage_of s' = usage_of s" using assms by (intro usage_of_cong) (simp_all add: same_shelf_def)
  moreover have "libraries s' = libraries s" "entries s' = entries s" using assms by (simp_all add: same_shelf_def)
  ultimately show "shelf_inv s' \<and> shelf_history s s'"
    using inv keepsD [OF k] unfolding shelf_inv_def shelf_history_def by simp
qed

lemma same_shelf_hall:
  assumes "lifecycle_inv (hall s) \<Longrightarrow> keeps (hall s) w"
  shows "same_shelf s (s\<lparr>hall := w\<rparr>)"
  using assms by (simp add: same_shelf_def)

lemma same_shelf_core: "core_eq (hall s) (g (hall s)) \<Longrightarrow> same_shelf s (on_hall g s)"
  by (simp add: on_hall_def same_shelf_hall keeps_core_eq)

lemma same_shelf_lift:
  assumes "lift_hall m s = Inr (x, s')" and "lifecycle_inv (hall s) \<Longrightarrow> pres (hall s) (m (hall s))"
  shows "same_shelf s s'"
  using assms by (auto simp: lift_hall_def bind_res_Inr same_shelf_def dest: presD)

lemma same_shelf_expire [simp]: "same_shelf s (expire_access actor s)"
  by (simp add: expire_access_def same_shelf_core core_eq_active_access)

lemma same_shelf_release [simp]: "same_shelf s (on_hall (department_release actor) s)"
  by (rule same_shelf_core) (simp add: department_release_def)

lemma same_shelf_synced [simp]: "same_shelf s (synced s)"
  unfolding synced_def by (rule same_shelf_hall) (simp add: elsewhere_keeps elsewhere_def)

lemma same_shelf_fresh:
  "fresh_shelf_id s = (i, s') \<Longrightarrow> same_shelf s s' \<and> i = next_id (hall s) \<and> next_id (hall s') = Suc i \<and> hall s' = (hall s)\<lparr>next_id := Suc i\<rparr>"
  by (auto simp: fresh_shelf_id_def fresh_id_def same_shelf_def intro!: keeps_core_eq simp: core_eq_def)

lemma lock_scope_pres:
  assumes inv: "lifecycle_inv w"
  shows "pres w (lock_scope l w)"
proof (rule presI)
  fix x w'
  assume l: "lock_scope l w = Inr (x, w')"
  let ?key = "scope_kwargs l w"
  let ?s = "(new_scope (next_id w) ?key (clock w))\<lparr>scp_source_revision := lib_source_revision l\<rparr>"
  have r: "registered_scope_type ''department_files'' = Inr DEPARTMENT" "registered_scope_type ''station_files'' = Inr STATION"
    by code_simp+
  show "keeps w w'"
  proof (cases "find_scope ?key w")
    case None
    with l have c: "create_scope ?s (w\<lparr>next_id := Suc (next_id w)\<rparr>) = Inr w'"
      by (auto simp: lock_scope_def Let_def fresh_id_def bind_res_Inr)
    have "keeps w w' \<and> owned w' (next_id w) ?key"
      by (rule create_new_scope_keeps [OF c inv])
         (auto simp: new_scope_def scope_key_def scope_kwargs_def library_code_def r)
    then show ?thesis by simp
  qed (use l inv in \<open>auto simp: lock_scope_def Let_def keeps_refl\<close>)
qed

lemma require_library_access_same:
  "require_library_access actor l permission s = Inr (b, s') \<Longrightarrow> same_shelf s s'"
  using core_eq_active_access [of "hall s" actor]
  by (auto simp: require_library_access_def keeps_core_eq intro!: same_shelf_hall split: sum.splits if_splits prod.splits option.splits)

lemma locked_library_same:
  assumes "locked_library actor library_id permission s = Inr ((l, b), s')"
  shows "same_shelf s s' \<and> l \<in> set (libraries s) \<and> lib_id l = library_id"
  using assms unfolding locked_library_def
proof (elim bind_resE, goal_cases)
  case (1 preview a1)
  obtain x s1 where a1: "a1 = (x, s1)" by fastforce
  with 1(3) obtain y s2 l' z s3 where s2: "lift_hall (lock_scope preview) s1 = Inr (y, s2)"
    and l': "fetch_library library_id s2 = Inr l'" and s3: "require_library_access actor l' permission s2 = Inr (z, s3)"
    and r: "l = l'" "s' = s3"
    by (auto simp: bind_res_Inr)
  have "same_shelf s s1" using 1(2) a1 require_library_access_same by simp
  moreover have "same_shelf s1 s2" by (rule same_shelf_lift [OF s2 lock_scope_pres])
  moreover have "same_shelf s2 s3" by (rule require_library_access_same [OF s3])
  ultimately have "same_shelf s s'" and "libraries s2 = libraries s"
    using r(2) same_shelf_trans by (blast, simp add: same_shelf_def)
  with l' r(1) show ?case by (auto simp: fetch_library_def of_option_Inr dest: row_get_SomeD)
qed

subsection \<open>Recording a change\<close>

definition recorded :: "library_row \<Rightarrow> library_row \<Rightarrow> library_row" where
  "recorded library = save_library (library\<lparr>lib_source_revision := lib_source_revision library + 1\<rparr>)"

lemma changed_result:
  assumes ch: "changed L actor library tt tg op md s = Inr s'" and inv: "lifecycle_inv (hall s)"
  shows "entries s' = entries s \<and> contents s' = contents s \<and> keeps (hall s) (hall s')
     \<and> libraries s' = map (recorded library) (libraries s) \<and> library_constraints (libraries s')"
proof -
  let ?l = "library\<lparr>lib_source_revision := lib_source_revision library + 1\<rparr>"
  from ch obtain s1 x s3 where p: "put_libraries (map (recorded library) (libraries s)) s = Inr s1"
    and m: "lift_hall (mark_dirty (publication_env L) (library_department_of ?l (hall s1)) (lib_station ?l) (library_code ?l)
        (Some actor)) (synced (on_hall (change_event actor ?l tt tg op md) s1)) = Inr (x, s3)"
    and s': "s' = (if lib_department ?l \<noteq> None then on_hall (department_release actor) s3 else s3)"
    unfolding changed_def Let_def recorded_def by (elim bind_resE) auto
  have s1: "s1 = s\<lparr>libraries := map (recorded library) (libraries s)\<rparr>" and c: "library_constraints (libraries s1)"
    using p by (auto simp: put_libraries_def split: if_splits)
  define s2 where "s2 = synced (on_hall (change_event actor ?l tt tg op md) s1)"
  have "core_eq (hall s1) (change_event actor ?l tt tg op md (hall s1))" by (simp add: change_event_def core_eq_record_event)
  then have s2: "same_shelf s1 s2" unfolding s2_def by (rule same_shelf_trans [OF same_shelf_core same_shelf_synced])
  note m = m [folded s2_def]
  have "same_shelf s2 s3" by (rule same_shelf_lift [OF m mark_dirty_pres])
  moreover have "same_shelf s3 s'" by (simp add: s')
  ultimately have same: "same_shelf s1 s'" using s2 same_shelf_trans by blast
  moreover have h: "hall s1 = hall s" "entries s1 = entries s" "contents s1 = contents s"
      "libraries s1 = map (recorded library) (libraries s)"
    by (simp_all add: s1)
  ultimately show ?thesis using c inv unfolding same_shelf_def by simp
qed

lemma recorded_owner [simp]:
  "lib_id (recorded library l) = lib_id l" "lib_station (recorded library l) = lib_station l"
  "lib_department (recorded library l) = lib_department l"
  by (simp_all add: recorded_def save_library_def)

text \<open>A change of the tree followed by its record.\<close>

lemma change_keeps:
  assumes s0: "shelf_inv s0" and k: "keeps (hall s0) (hall s)" and l: "libraries s = libraries s0"
    and tree: "tree_ok (entries s)"
    and ids: "unique_rows con_id (contents s)" "\<forall>c\<in>set (contents s). con_id c < next_id (hall s)"
      "\<forall>e\<in>set (entries s). ent_id e < next_id (hall s)"
      "\<forall>e\<in>set (entries s). \<forall>c. ent_content e = Some c \<longrightarrow> c \<in> con_id ` set (contents s)"
      "\<forall>e\<in>set (entries s). ent_library e \<in> lib_id ` set (libraries s)"
    and usage: "lib_usage_bytes library = usage_of s (lib_id library)"
      "\<And>i. i \<noteq> lib_id library \<Longrightarrow> usage_of s i = usage_of s0 i"
    and ch: "changed L actor library tt tg op md s = Inr s'"
  shows "shelf_keeps s0 s'"
proof -
  note r = changed_result [OF ch keepsD(1) [OF k]]
  have kk: "keeps (hall s0) (hall s')" using k r keeps_trans by blast
  have le: "next_id (hall s) \<le> next_id (hall s')" "next_id (hall s0) \<le> next_id (hall s')"
    using r kk evolves_next_id keepsD(2) by blast+
  have i0: "shelf_ids s0" using s0 by (simp add: shelf_inv_def)
  have "shelf_ids s'"
    unfolding shelf_ids_def
  proof (intro conjI)
    show "unique_rows lib_id (libraries s')" using i0 r l by (simp add: shelf_ids_def comp_def)
    show "\<forall>x\<in>set (libraries s'). lib_id x < next_id (hall s')" using i0 r l le by (auto simp: shelf_ids_def dest: less_le_trans)
    show "\<forall>x\<in>set (contents s'). con_id x < next_id (hall s')" using ids(2) r le by (auto dest: less_le_trans)
    show "\<forall>x\<in>set (entries s'). ent_id x < next_id (hall s')" using ids(3) r le by (auto dest: less_le_trans)
    show "\<forall>x\<in>set (entries s'). ent_library x \<in> lib_id ` set (libraries s')"
      using ids(5) r by (simp add: image_image)
  qed (use ids r in auto)
  moreover have "usage_of s' = usage_of s" using r by (intro usage_of_cong) simp_all
  moreover have "lib_usage_bytes x = usage_of s (lib_id x)" if x: "x \<in> set (libraries s')" for x
  proof -
    from x r l obtain y where y: "y \<in> set (libraries s0)" "x = recorded library y" by auto
    have "lib_usage_bytes y = usage_of s0 (lib_id y)" using s0 y(1) by (simp add: shelf_inv_def)
    then show ?thesis using usage y(2) by (cases "lib_id y = lib_id library") (simp_all add: recorded_def save_library_def)
  qed
  moreover have "tree_ok (entries s')" using r tree by simp
  moreover have "library_constraints (libraries s')" using r by blast
  ultimately have "shelf_inv s'" using keepsD(1) [OF kk] unfolding shelf_inv_def by simp
  with kk show ?thesis by (simp add: preserves_def shelf_history_def keepsD(2))
qed

end
