(* ===== verification/Library_Steps.thy ===== *)
theory Library_Steps
  imports Library_Inv
begin

text \<open>
  Each service of a document library keeps the invariant of the shelf: what it does to the tree, to the usage
  and to the publication lifecycle of the library's scope.
\<close>

subsection \<open>Usage\<close>

lemma usage_of_sum: "usage_of s l = sum_list (map (\<lambda>e. if ent_library e = l then size_of s e else 0) (entries s))"
  by (simp add: usage_of_def sum_list_map_filter')

lemma sum_list_row_put:
  fixes f :: "'a \<Rightarrow> int"
  assumes "unique_rows key rows" and "x \<in> set rows" and "key y = key x"
  shows "sum_list (map f (row_put key y rows)) = sum_list (map f rows) - f x + f y"
  using assms
proof (induction rows)
  case (Cons r rows)
  show ?case
  proof (cases "key r = key y")
    case True
    with Cons.prems have "r = x" "x \<notin> set rows" by (auto simp: image_iff)
    moreover have "row_put key y rows = rows"
      using Cons.prems(1) True unfolding row_put_def by (intro map_idI) (auto simp: image_iff)
    ultimately show ?thesis using True by (simp add: row_put_def)
  next
    case False
    with Cons show ?thesis by (auto simp: row_put_def)
  qed
qed simp

lemma sum_list_filter_split:
  fixes f :: "'a \<Rightarrow> int"
  shows "sum_list (map f xs) = sum_list (map f (filter P xs)) + sum_list (map f (filter (\<lambda>x. \<not> P x) xs))"
  by (induction xs) simp_all

lemma usage_of_snoc:
  assumes "entries s' = entries s @ [x]" and "contents s' = contents s"
  shows "usage_of s' l = usage_of s l + (if ent_library x = l then size_of s x else 0)"
  using assms size_of_cong [OF assms(2)] by (simp add: usage_of_sum cong: if_cong)

text \<open>A new content does not change the size of an entry that names an old one.\<close>

lemma size_of_content:
  assumes "contents s' = contents s @ [c]" and "\<And>i. ent_content e = Some i \<Longrightarrow> i \<in> con_id ` set (contents s)"
  shows "size_of s' e = size_of s e"
proof (cases "ent_content e")
  case (Some i)
  then obtain r where "row_get con_id i (contents s) = Some r"
    using assms(2) row_get_None [of con_id i "contents s"] by (cases "row_get con_id i (contents s)") auto
  with Some assms(1) show ?thesis by (simp add: size_of_def content_of_def row_get_snoc)
qed (simp add: size_of_def content_of_def)

lemma usage_of_content:
  assumes "shelf_ids s" and "contents s' = contents s @ [c]" and "entries s' = entries s"
  shows "usage_of s' l = usage_of s l"
proof -
  have "size_of s' e = size_of s e" if "e \<in> set (entries s)" for e
    by (rule size_of_content [OF assms(2)]) (use assms(1) that in \<open>auto simp: shelf_ids_def\<close>)
  then show ?thesis using assms(3) by (auto simp: usage_of_sum intro!: arg_cong [of _ _ sum_list])
qed

subsection \<open>Access first\<close>

lemma locked_then:
  assumes "locked_library actor i permission s = Inr ((l, b), s1)"
    and "shelf_inv s1 \<Longrightarrow> l \<in> set (libraries s1) \<Longrightarrow> lib_id l = i \<Longrightarrow> shelf_keeps s1 s'"
  shows "shelf_keeps s s'"
proof (rule shelf_keepsI)
  assume inv: "shelf_inv s"
  note l = locked_library_same [OF assms(1)]
  have k: "shelf_keeps s s1" using l same_shelf_keeps by blast
  moreover have "shelf_inv s1" using k inv by (simp add: preserves_def)
  ultimately show "shelf_keeps s s'" using assms(2) l by (auto simp: same_shelf_def intro: shelf_keeps_trans)
qed

lemma shelf_invD:
  assumes "shelf_inv s"
  shows "lifecycle_inv (hall s)" "shelf_ids s" "tree_ok (entries s)" "library_constraints (libraries s)"
    "\<And>l. l \<in> set (libraries s) \<Longrightarrow> lib_usage_bytes l = usage_of s (lib_id l)"
  using assms by (simp_all add: shelf_inv_def)

lemma fresh_shelf:
  assumes "fresh_shelf_id s = (i, s')" and "shelf_inv s"
  shows "shelf_inv s'" "keeps (hall s) (hall s')" "libraries s' = libraries s" "contents s' = contents s"
    "entries s' = entries s" "i < next_id (hall s')" "i \<notin> ent_id ` set (entries s)" "i \<notin> con_id ` set (contents s)"
    "i \<notin> lib_id ` set (libraries s)"
proof -
  note f = same_shelf_fresh [OF assms(1)]
  from f have "shelf_keeps s s'" using same_shelf_keeps by blast
  with assms(2) show "shelf_inv s'" by (simp add: preserves_def)
  from f shelf_invD(1) [OF assms(2)] show "keeps (hall s) (hall s')" unfolding same_shelf_def by blast
  from f show "libraries s' = libraries s" "contents s' = contents s"
    "entries s' = entries s" "i < next_id (hall s')"
    by (simp_all add: same_shelf_def)
  from f shelf_invD(2) [OF assms(2)] show "i \<notin> ent_id ` set (entries s)" "i \<notin> con_id ` set (contents s)"
    "i \<notin> lib_id ` set (libraries s)"
    by (auto simp: shelf_ids_def)
qed

subsection \<open>Folders\<close>

lemma put_entries_Inr: "put_entries rows s = Inr s' \<longleftrightarrow> entry_constraints rows \<and> s' = s\<lparr>entries := rows\<rparr>"
  by (auto simp: put_entries_def)

lemma add_entry_keeps:
  assumes inv: "shelf_inv s" and x: "ent_id x \<notin> ent_id ` set (entries s)" "ent_id x < next_id (hall s)"
      "\<And>c. ent_content x = Some c \<Longrightarrow> c \<in> con_id ` set (contents s)" "ent_library x = lib_id l"
      "lib_id l \<in> lib_id ` set (libraries s)"
    and p: "\<And>c. parent = Some c \<Longrightarrow> c \<in> set (entries s) \<and> ent_is_folder c \<and> ent_library c = ent_library x"
      "ent_parent x = map_option ent_id parent"
    and v: "validate_location i name parent None (ent_is_folder x) (entries s) = Inr u"
    and put: "put_entries (entries s @ [x]) s = Inr s1"
    and usage: "lib_usage_bytes l = usage_of s (lib_id l) + size_of s x"
    and c: "changed L actor l tt tg op md s1 = Inr s'"
  shows "shelf_keeps s s'"
proof -
  have s1: "s1 = s\<lparr>entries := entries s @ [x]\<rparr>" "entry_constraints (entries s @ [x])"
    using put by (simp_all add: put_entries_Inr)
  have u: "usage_of s1 k = usage_of s k + (if ent_library x = k then size_of s x else 0)" for k
    by (rule usage_of_snoc) (simp_all add: s1)
  show ?thesis
  proof (rule change_keeps [OF inv _ _ _ _ _ _ _ _ _ _ c])
    show "tree_ok (entries s1)" using tree_ok_add [OF shelf_invD(3) [OF inv] s1(2) x(1) p v] s1(1) by simp
    show "lib_usage_bytes l = usage_of s1 (lib_id l)" using usage u x(4) by simp
    show "keeps (hall s) (hall s1)" using shelf_invD(1) [OF inv] s1(1) by (simp add: keeps_refl)
  qed (use shelf_invD(2) [OF inv] s1(1) u x in \<open>auto simp: shelf_ids_def\<close>)
qed

lemma create_folder_at_keeps:
  assumes "create_folder_at L actor i name0 parent_id s = Inr (x, s')"
  shows "shelf_keeps s s'"
  using assms unfolding create_folder_at_def
proof (elim bind_resE, goal_cases)
  case (1 a)
  obtain l b s1 where a: "a = ((l, b), s1)" by (metis surj_pair)
  obtain j s2 where f: "fresh_shelf_id s1 = (j, s2)" by fastforce
  from 1(2) a f obtain name parent u s3 where p: "parent_entry i parent_id (entries s1) = Inr parent"
    and v: "validate_location i name parent None True (entries s1) = Inr u"
    and e: "put_entries (entries s2 @ [new_entry j i (map_option ent_id parent) name None actor (clock (hall s))]) s2 = Inr s3"
    and c: "changed L actor l ''library_entry'' j ''folder_created'' [] s3 = Inr s'"
    by (auto simp: bind_res_Inr)
  show ?case
  proof (rule locked_then [OF 1(1) [unfolded a]])
    assume inv: "shelf_inv s1" and l: "l \<in> set (libraries s1)" "lib_id l = i"
    note f' = fresh_shelf [OF f inv]
    have lib: "lib_id l \<in> lib_id ` set (libraries s1)" using l(1) by (rule imageI)
    have "shelf_keeps s2 s'"
      by (rule add_entry_keeps [OF f'(1) _ _ _ _ _ _ _ _ e _ c, where parent = parent and i = i and name = name and u = u])
         (use l lib f' v parent_entry_Inr [OF p] shelf_invD(5) [OF f'(1), of l] in \<open>simp_all add: new_entry_def size_of_def content_of_def\<close>)
    moreover have "same_shelf s1 s2" using same_shelf_fresh [OF f] by blast
    ultimately show "shelf_keeps s1 s'" using same_shelf_keeps shelf_keeps_trans by blast
  qed
qed

text \<open>A row of the tree is replaced: renamed, moved, or given another content.\<close>

lemma parent_of_Inr:
  assumes "tree_ok rows" and "x \<in> set rows" and "parent_of rows x = Inr parent"
  shows "map_option ent_id parent = ent_parent x
     \<and> (\<forall>c. parent = Some c \<longrightarrow> c \<in> set rows \<and> ent_is_folder c \<and> ent_library c = ent_library x)"
proof (cases "ent_parent x")
  case (Some p)
  from parent_folder [OF assms(1,2) Some] obtain f where f: "row_get ent_id p rows = Some f" "ent_is_folder f"
      "ent_library f = ent_library x" "f \<in> set rows" .
  with assms(3) Some row_get_key [OF f(1)] show ?thesis by (auto simp: parent_of_def)
qed (use assms(3) in \<open>simp add: parent_of_def\<close>)

lemma usage_of_put:
  assumes "unique_rows ent_id (entries s)" and "x \<in> set (entries s)" and "ent_id y = ent_id x" "ent_library y = ent_library x"
    and "entries s' = row_put ent_id y (entries s)" and "contents s' = contents s"
  shows "usage_of s' l = usage_of s l + (if ent_library x = l then size_of s y - size_of s x else 0)"
  using assms(4-) size_of_cong [OF assms(6)] by (simp add: usage_of_sum sum_list_row_put [OF assms(1-3)] cong: if_cong)

lemma replace_entry_keeps:
  assumes inv: "shelf_inv s" and x: "x \<in> set (entries s)" "ent_library x = lib_id l"
    and y: "ent_id y = ent_id x" "ent_is_folder y = ent_is_folder x" "ent_library y = ent_library x"
      "ent_parent y = map_option ent_id parent" "\<And>c. ent_content y = Some c \<Longrightarrow> c \<in> con_id ` set (contents s)"
    and p: "\<And>c. parent = Some c \<Longrightarrow> c \<in> set (entries s) \<and> ent_is_folder c \<and> ent_library c = ent_library x"
    and v: "validate_location i name parent (Some x) (ent_is_folder x) (entries s) = Inr u"
    and put: "put_entries (row_put ent_id y (entries s)) s = Inr s1"
    and usage: "lib_usage_bytes l = usage_of s (lib_id l) + size_of s y - size_of s x"
    and c: "changed L actor l tt tg op md s1 = Inr s'"
  shows "shelf_keeps s s'"
proof -
  note ok = shelf_invD(3) [OF inv]
  have s1: "s1 = s\<lparr>entries := row_put ent_id y (entries s)\<rparr>" "entry_constraints (row_put ent_id y (entries s))"
    using put by (simp_all add: put_entries_Inr)
  have u: "usage_of s1 k = usage_of s k + (if ent_library x = k then size_of s y - size_of s x else 0)" for k
    by (rule usage_of_put [OF tree_okD(1) [OF ok] x(1) y(1,3)]) (simp_all add: s1)
  have lib: "lib_id l \<in> lib_id ` set (libraries s)"
    using shelf_invD(2) [OF inv] x unfolding shelf_ids_def by metis
  show ?thesis
  proof (rule change_keeps [OF inv _ _ _ _ _ _ _ _ _ _ c])
    show "tree_ok (entries s1)" using tree_ok_replace [OF ok x(1) s1(2) y(1-4) p v] s1(1) by simp
    show "lib_usage_bytes l = usage_of s1 (lib_id l)" using usage u x(2) by simp
    show "keeps (hall s) (hall s1)" using shelf_invD(1) [OF inv] s1(1) by (simp add: keeps_refl)
  qed (use shelf_invD(2) [OF inv] s1(1) u x y lib in \<open>auto simp: shelf_ids_def in_set_row_put\<close>)
qed

lemma edit_entry_at_keeps:
  assumes "edit_entry_at L actor i entry_id name0 move s = Inr (x, s')"
  shows "shelf_keeps s s'"
  using assms unfolding edit_entry_at_def
proof (elim bind_resE, goal_cases)
  case (1 a)
  obtain l b s1 where a: "a = ((l, b), s1)" by (metis surj_pair)
  from 1(2) a obtain e name parent u where e: "scoped_entry i entry_id False (entries s1) = Inr e"
    and p: "(case move of None \<Rightarrow> parent_of (entries s1) e | Some parent_id \<Rightarrow> parent_entry i parent_id (entries s1)) = Inr parent"
    and v: "validate_location i name parent (Some e) (ent_is_folder e) (entries s1) = Inr u"
    and r: "s' = s1 \<or> (\<exists>s2. put_entries (row_put ent_id (e\<lparr>ent_name := name, ent_parent := map_option ent_id parent,
           ent_modified_by := actor, ent_modified_at := clock (hall s)\<rparr>) (entries s1)) s1 = Inr s2
         \<and> changed L actor l ''library_entry'' entry_id (if move \<noteq> None then ''moved'' else ''renamed'')
         [(''is_folder'', JBool (ent_is_folder e)), (''parent_id'', jopt_id (map_option ent_id parent))] s2 = Inr s')"
    by (auto simp: bind_res_Inr split: if_splits)
  show ?case
  proof (rule locked_then [OF 1(1) [unfolded a]])
    assume inv: "shelf_inv s1" and l: "l \<in> set (libraries s1)" "lib_id l = i"
    have e: "e \<in> set (entries s1)" "ent_library e = i" using scoped_entry_Inr [OF e] by simp_all
    have parent: "\<And>c. parent = Some c \<Longrightarrow> c \<in> set (entries s1) \<and> ent_is_folder c \<and> ent_library c = ent_library e"
      using p parent_of_Inr [OF shelf_invD(3) [OF inv] e(1)] parent_entry_Inr e(2) by (fastforce split: option.splits)
    have con: "\<And>c. ent_content e = Some c \<Longrightarrow> c \<in> con_id ` set (contents s1)"
      using shelf_invD(2) [OF inv] e(1) by (auto simp: shelf_ids_def)
    from r show "shelf_keeps s1 s'"
    proof (elim disjE exE conjE, goal_cases)
      case (2 s2)
      show ?case
        by (rule replace_entry_keeps [OF inv e(1) _ _ _ _ _ _ parent v 2(1) _ 2(2)])
           (use e(2) l shelf_invD(5) [OF inv l(1)] con in \<open>simp_all add: size_of_def content_of_def\<close>)
    qed simp
  qed
qed

subsection \<open>Deletion\<close>

lemma usage_of_remove:
  assumes "entries s' = filter (\<lambda>e. ent_id e \<notin> D) (entries s)" and "contents s' = contents s"
    and "\<And>e. e \<in> set (entries s) \<Longrightarrow> ent_id e \<in> D \<Longrightarrow> ent_library e = i"
  shows "usage_of s' l = usage_of s l - (if l = i then sum_list (map (size_of s) (filter (\<lambda>e. ent_id e \<in> D) (entries s))) else 0)"
proof -
  let ?f = "\<lambda>e. if ent_library e = l then size_of s e else 0"
  have "map ?f (filter (\<lambda>e. ent_id e \<in> D) (entries s))
      = map (\<lambda>e. if l = i then size_of s e else 0) (filter (\<lambda>e. ent_id e \<in> D) (entries s))"
    using assms(3) by auto
  from arg_cong [OF this, of sum_list] have "sum_list (map ?f (filter (\<lambda>e. ent_id e \<in> D) (entries s)))
      = (if l = i then sum_list (map (size_of s) (filter (\<lambda>e. ent_id e \<in> D) (entries s))) else 0)"
    by (cases "l = i") simp_all
  then show ?thesis
    using sum_list_filter_split [of ?f "entries s" "\<lambda>e. ent_id e \<in> D"] assms(1) size_of_cong [OF assms(2)]
    by (simp add: usage_of_sum cong: if_cong)
qed

lemma delete_entry_at_cases:
  assumes "delete_entry_at L actor i entry_id s = Inr (b, s')"
  obtains l s1 e found s2 l1 md s3 where "locked_library actor i PERM_DELETE s = Inr ((l, b), s1)"
    "scoped_entry i entry_id False (entries s1) = Inr e" "walk (\<lambda>_. True) (entries s1) entry_id = Inr found"
    "l1 = l\<lparr>lib_usage_bytes := lib_usage_bytes l
      - sum_list (map (size_of s1) (filter (\<lambda>e. ent_id e \<in> set (concat found)) (entries s1)))\<rparr>"
    "s2 = s1\<lparr>entries := filter (\<lambda>e. ent_id e \<notin> set (concat found)) (entries s1)\<rparr>"
    "changed L actor l1 ''library_entry'' entry_id ''deleted'' md s2 = Inr s3"
    "s' = (if b then on_hall (\<lambda>w. snd (revoke_temporary_access actor ''consumed_by_deletion'' (Some entry_id) ''library_entry'' w)) s3
       else s3)"
  using assms unfolding delete_entry_at_def
proof (elim bind_resE, goal_cases)
  case (1 a)
  obtain l b' s1 where a: "a = ((l, b'), s1)" by (metis surj_pair)
  note lock = 1(2) [unfolded a]
  from 1(3) [unfolded a prod.case] show ?case
  proof (elim bind_resE, goal_cases)
    case (1 e found)
    note inner = 1
    from 1(3) [unfolded Let_def] show ?case
    proof (elim bind_resE, goal_cases)
      case (1 s3)
      then show ?case using lock inner(1,2) by (intro that [OF _ inner(1,2) refl refl 1(1)]) auto
    qed
  qed
qed

lemma delete_entry_at_keeps:
  assumes "delete_entry_at L actor i entry_id s = Inr (b, s')"
  shows "shelf_keeps s s'"
  using assms
proof (rule delete_entry_at_cases, goal_cases)
  case (1 l s1 e found s2 l1 md s3)
  note l1 = 1(4) and s2 = 1(5) and w = 1(3)
  show ?thesis
  proof (rule locked_then [OF 1(1)])
    assume inv: "shelf_inv s1" and l: "l \<in> set (libraries s1)" "lib_id l = i"
    note ok = shelf_invD(3) [OF inv]
    have lv: "levels (length (entries s1) + 8) (child_ids (\<lambda>_. True) (entries s1)) [entry_id] = Some found"
      using w by (simp add: walk_def of_option_Inr)
    have lib: "ent_library r = i" if "r \<in> set (entries s1)" "ent_id r \<in> set (concat found)" for r
      by (rule levels_library [OF ok lv _ that])
         (use scoped_entry_Inr [OF 1(2)] tree_okD(1) [OF ok] in \<open>auto simp: distinct_map inj_on_def\<close>)
    have u: "usage_of s2 k = usage_of s1 k - (if k = i
        then sum_list (map (size_of s1) (filter (\<lambda>e. ent_id e \<in> set (concat found)) (entries s1))) else 0)" for k
      by (rule usage_of_remove [OF _ _ lib]) (simp_all add: s2)
    have "shelf_keeps s1 s3"
    proof (rule change_keeps [OF inv _ _ _ _ _ _ _ _ _ _ 1(6)])
      show "tree_ok (entries s2)" unfolding s2 using tree_ok_remove [OF ok w] by simp
      show "lib_usage_bytes l1 = usage_of s2 (lib_id l1)" using shelf_invD(5) [OF inv l(1)] u l(2) by (simp add: l1)
      show "usage_of s2 k = usage_of s1 k" if "k \<noteq> lib_id l1" for k using u that l(2) by (simp add: l1)
    qed (use shelf_invD(1,2) [OF inv] in \<open>auto simp: shelf_ids_def keeps_refl s2\<close>)
    moreover have "same_shelf s3 s'" by (simp add: 1(7) same_shelf_core)
    ultimately show "shelf_keeps s1 s'" using same_shelf_keeps shelf_keeps_trans by blast
  qed
qed

subsection \<open>Uploads\<close>

lemma quota_bytes_same:
  assumes "quota_bytes L l s = Inr (q, s')"
  shows "same_shelf s s' \<and> hall s' = hall s"
  using assms
  by (auto simp: quota_bytes_def quota_policy_def bind_res_Inr same_shelf_def keeps_refl Let_def split: option.splits prod.splits)

lemma shelf_inv_content:
  assumes inv: "shelf_inv s" and c: "con_id c \<notin> con_id ` set (contents s)" "con_id c < next_id (hall s)"
    and s': "s' = s\<lparr>contents := contents s @ [c], accepted_files := k\<rparr>"
  shows "shelf_inv s'" and "shelf_keeps s s'"
proof -
  have "usage_of s' l = usage_of s l" for l
    by (rule usage_of_content [OF shelf_invD(2) [OF inv]]) (simp_all add: s')
  moreover have "shelf_ids s'" using shelf_invD(2) [OF inv] c by (auto simp: shelf_ids_def s')
  ultimately show *: "shelf_inv s'" using inv by (simp add: shelf_inv_def s')
  show "shelf_keeps s s'" using * by (simp add: preserves_def shelf_history_def s')
qed

text \<open>The content is stored, then the entry is created or its content replaced, then the change is recorded.\<close>

lemma upload_keeps:
  assumes inv: "shelf_inv s" and l: "l \<in> set (libraries s)" "lib_id l = i"
    and f: "fresh_shelf_id s = (cid, s3)"
    and s4: "s4 = s3\<lparr>contents := contents s3 @ [content], accepted_files := k\<rparr>"
    and content: "con_id content = cid" "con_size_bytes content = bytes"
    and f5: "fresh_shelf_id s4 = (fresh, s5)"
    and entry: "\<And>e. entry = Some e \<Longrightarrow> e \<in> set (entries s) \<and> ent_library e = i \<and> \<not> ent_is_folder e"
    and parent: "\<And>c. parent = Some c \<Longrightarrow> c \<in> set (entries s) \<and> ent_is_folder c \<and> ent_library c = i"
      "\<And>e. entry = Some e \<Longrightarrow> map_option ent_id parent = ent_parent e"
    and v: "validate_location i nm parent entry False (entries s) = Inr u"
    and rows: "rows = (case entry of
             Some e \<Rightarrow> row_put ent_id (e\<lparr>ent_content := Some cid, ent_modified_by := actor, ent_modified_at := now\<rparr>) (entries s5)
           | None \<Rightarrow> entries s5 @ [new_entry fresh i (map_option ent_id parent) name (Some cid) actor now])"
    and put: "put_entries rows s5 = Inr s6"
    and usage: "lib_usage_bytes l' = lib_usage_bytes l - (case entry of None \<Rightarrow> 0 | Some e \<Rightarrow> size_of s e) + bytes"
      "lib_id l' = lib_id l"
    and c: "changed L actor l' tt tg op md s6 = Inr s'"
  shows "shelf_keeps s s'"
proof -
  note f3 = fresh_shelf [OF f inv]
  note inv4 = shelf_inv_content [OF f3(1) _ _ s4, unfolded content(1), OF _ f3(6)]
  have inv4: "shelf_inv s4" "shelf_keeps s3 s4" using inv4 f3(4,8) by simp_all
  note f5' = fresh_shelf [OF f5 inv4(1)]
  have s5: "libraries s5 = libraries s" "entries s5 = entries s" "contents s5 = contents s @ [content]"
    using f5'(3-5) f3(3-5) s4 by simp_all
  have old: "size_of s5 e = size_of s e" if "e \<in> set (entries s)" for e
    by (rule size_of_content [OF s5(3)]) (use shelf_invD(2) [OF inv] that in \<open>auto simp: shelf_ids_def\<close>)
  have bytes: "size_of s5 e = bytes" if "ent_content e = Some cid" for e
    using that row_get_unique [of con_id "contents s5" content] shelf_invD(2) [OF f5'(1)] s5(3) content
    by (simp add: size_of_def content_of_def shelf_ids_def)
  have u: "usage_of s5 (lib_id l) = lib_usage_bytes l" using shelf_invD(5) [OF f5'(1)] l(1) s5(1) by simp
  have lib: "lib_id l \<in> lib_id ` set (libraries s5)" using l(1) s5(1) by simp
  have cid: "cid \<in> con_id ` set (contents s5)" using s5(3) content(1) by simp
  have "shelf_keeps s5 s'"
  proof (cases entry)
    case None
    let ?x = "new_entry fresh i (map_option ent_id parent) name (Some cid) actor now"
    have "size_of s5 ?x = bytes" by (rule bytes) (simp add: new_entry_def)
    with None show ?thesis
      using put v rows c usage u parent(1) cid f5'(5-7) l(2) lib s5(2)
      by (intro add_entry_keeps [where x = ?x, OF f5'(1) _ _ _ _ _ _ _ _ _ _ c]) (auto simp: new_entry_def)
  next
    case (Some e)
    let ?y = "e\<lparr>ent_content := Some cid, ent_modified_by := actor, ent_modified_at := now\<rparr>"
    have e: "e \<in> set (entries s)" "ent_library e = i" "\<not> ent_is_folder e" using entry [OF Some] by simp_all
    have "size_of s5 ?y = bytes" by (rule bytes) simp
    with Some e show ?thesis
      using put v rows c usage u parent cid l s5(2) old [OF e(1)]
      by (intro replace_entry_keeps [where x = e and y = ?y, OF f5'(1) _ _ _ _ _ _ _ _ _ _ _ c]) auto
  qed
  moreover have "shelf_keeps s s3" "shelf_keeps s4 s5"
    using same_shelf_keeps same_shelf_fresh [OF f] same_shelf_fresh [OF f5] by blast+
  ultimately show ?thesis using inv4(2) shelf_keeps_trans by blast
qed

lemma store_upload_cases:
  assumes "store_upload L actor i up name bytes digest parent_id replace_id s = Inr (x, s')"
  obtains l b s1 entry parent u quota s2 cid s3 content s4 fresh s5 s6 where
    "locked_library actor i PERM_MANAGE s = Inr ((l, b), s1)"
    "(case replace_id of None \<Rightarrow> Inr None
         | Some i' \<Rightarrow> bind_res (scoped_entry i i' False (entries s1)) (\<lambda>e. Inr (Some e))) = Inr entry"
    "case entry of None \<Rightarrow> True | Some e \<Rightarrow> \<not> ent_is_folder e"
    "(case entry of Some e \<Rightarrow> parent_of (entries s1) e | None \<Rightarrow> parent_entry i parent_id (entries s1)) = Inr parent"
    "validate_location i (case entry of Some e \<Rightarrow> ent_name e | None \<Rightarrow> name) parent entry False (entries s1) = Inr u"
    "quota_bytes L l s1 = Inr (quota, s2)"
    "\<not> (lib_usage_bytes l - (case entry of None \<Rightarrow> 0 | Some e \<Rightarrow> size_of s1 e) + bytes > quota
        \<and> lib_usage_bytes l - (case entry of None \<Rightarrow> 0 | Some e \<Rightarrow> size_of s1 e) + bytes > lib_usage_bytes l)"
    "fresh_shelf_id s2 = (cid, s3)" "con_id content = cid" "con_size_bytes content = bytes"
    "s4 = s3\<lparr>contents := contents s3 @ [content], accepted_files := accepted_files s3 @ [storage_key i cid]\<rparr>"
    "fresh_shelf_id s4 = (fresh, s5)"
    "put_entries (case entry of
             Some e \<Rightarrow> row_put ent_id (e\<lparr>ent_content := Some cid, ent_modified_by := actor, ent_modified_at := clock (hall s)\<rparr>) (entries s5)
           | None \<Rightarrow> entries s5 @ [new_entry fresh i (map_option ent_id parent) name (Some cid) actor (clock (hall s))]) s5 = Inr s6"
    "changed L actor (l\<lparr>lib_usage_bytes := lib_usage_bytes l - (case entry of None \<Rightarrow> 0 | Some e \<Rightarrow> size_of s1 e) + bytes\<rparr>)
       ''library_entry'' x (if replace_id \<noteq> None then ''replaced'' else ''uploaded'') [(''content_id'', JStr (dec_nat cid))] s6 = Inr s'"
  using assms unfolding store_upload_def Let_def
proof (elim bind_resE, goal_cases)
  case (1 a)
  obtain l b s1 where a: "a = ((l, b), s1)" by (metis surj_pair)
  note b1 = 1(2) [unfolded a]
  from 1(3) [unfolded a prod.case] show ?case
  proof (elim bind_resE, goal_cases)
    case (1 entry u1 parent u2 aq)
    obtain quota s2 where aq: "aq = (quota, s2)" by fastforce
    obtain cid s3 where f3: "fresh_shelf_id s2 = (cid, s3)" by fastforce
    note outer = 1
    from 1(6) [unfolded aq prod.case f3] show ?case
    proof (elim bind_resE, goal_cases)
      case (1 u3 u4 u5)
      let ?content = "\<lparr>con_id = cid, con_library = i, con_storage_key = storage_key i cid, con_size_bytes = bytes,
          con_sha256 = digest, con_created_at = clock (hall s)\<rparr>"
      let ?s4 = "s3\<lparr>contents := contents s3 @ [?content], accepted_files := accepted_files s3 @ [storage_key i cid]\<rparr>"
      obtain fresh s5 where f5: "fresh_shelf_id ?s4 = (fresh, s5)" by fastforce
      from 1(4) [unfolded f5 prod.case] obtain s6 where "put_entries (case entry of
             Some e \<Rightarrow> row_put ent_id (e\<lparr>ent_content := Some cid, ent_modified_by := actor, ent_modified_at := clock (hall s)\<rparr>) (entries s5)
           | None \<Rightarrow> entries s5 @ [new_entry fresh i (map_option ent_id parent) name (Some cid) actor (clock (hall s))]) s5 = Inr s6"
        and "changed L actor (l\<lparr>lib_usage_bytes := lib_usage_bytes l - (case entry of None \<Rightarrow> 0 | Some e \<Rightarrow> size_of s1 e) + bytes\<rparr>)
           ''library_entry'' x (if replace_id \<noteq> None then ''replaced'' else ''uploaded'') [(''content_id'', JStr (dec_nat cid))] s6 = Inr s'"
        by (elim bind_resE) (cases entry; simp)
      then show ?thesis
        using outer(1-5) 1(1) aq f3 f5 b1 
        by (intro that [where content = ?content and entry = entry and parent = parent]) (auto simp: require_Inr)
    qed
  qed
qed

lemma store_upload_keeps:
  assumes "store_upload L actor i up name bytes digest parent_id replace_id s = Inr (x, s')"
  shows "shelf_keeps s s'"
  using assms
proof (rule store_upload_cases, goal_cases)
  case (1 l b s1 entry parent u quota s2 cid s3 content s4 fresh s5 s6)
  have q: "same_shelf s1 s2" "hall s2 = hall s1" "entries s2 = entries s1" "contents s2 = contents s1"
    using quota_bytes_same [OF 1(6)] by (simp_all add: same_shelf_def keeps_refl)
  show ?thesis
  proof (rule locked_then [OF 1(1)])
    assume inv: "shelf_inv s1" and l: "l \<in> set (libraries s1)" "lib_id l = i"
    have inv2: "shelf_inv s2" "shelf_keeps s1 s2" using same_shelf_keeps [OF q(1)] inv by (simp_all add: preserves_def)
    have entry: "e \<in> set (entries s1) \<and> ent_library e = i \<and> \<not> ent_is_folder e" if "entry = Some e" for e
      using 1(2,3) that scoped_entry_Inr [of i _ False "entries s1" e] by (auto simp: bind_res_Inr split: option.splits)
    have parent: "c \<in> set (entries s1) \<and> ent_is_folder c \<and> ent_library c = i" if "parent = Some c" for c
      using 1(4) entry that parent_entry_Inr [of i parent_id "entries s1" parent] parent_of_Inr [OF shelf_invD(3) [OF inv], of _ parent]
      by (auto split: option.splits)
    have same: "map_option ent_id parent = ent_parent e" if "entry = Some e" for e
      using 1(4) that entry [OF that] parent_of_Inr [OF shelf_invD(3) [OF inv], of e parent] by simp
    have size: "size_of s2 = size_of s1" by (rule size_of_cong) (rule q(4))
    have "shelf_keeps s2 s'"
      by (rule upload_keeps [OF inv2(1) _ _ 1(8) 1(11) 1(9,10) 1(12) _ _ _ _ refl 1(13) _ _ 1(14)])
         (use l q(1,3) entry parent same 1(5) size in \<open>auto simp: same_shelf_def cong: option.case_cong\<close>)
    with inv2(2) show "shelf_keeps s1 s'" by (rule shelf_keeps_trans)
  qed
qed

lemma expire_access_keeps [simp]: "shelf_keeps s (expire_access actor s)"
  by (simp add: same_shelf_keeps)

lemma upload_pdf_keeps: "shelf_keeps s (snd (upload_pdf L actor i up parent_id replace_id approval s))"
proof -
  have "shelf_keeps s s1" if "store_upload L actor i up name bytes digest parent_id replace_id (expire_access actor s) = Inr (j, s1)"
    for name bytes digest j s1
    using store_upload_keeps [OF that] expire_access_keeps shelf_keeps_trans by blast
  then show ?thesis unfolding upload_pdf_def Let_def
    by (auto simp: bind_res_Inr split: sum.split)
qed

subsection \<open>Mutations as transactions\<close>

lemma library_mutation_keeps:
  assumes "\<And>s1 x s2. body s1 = Inr (x, s2) \<Longrightarrow> shelf_keeps s1 s2"
  shows "shelf_keeps s (snd (library_mutation actor i permission body s))"
proof -
  let ?s0 = "expire_access actor s"
  have "shelf_keeps ?s0 s2" if "require_library_access actor l permission ?s0 = Inr (b, s1)" "body s1 = Inr (x, s2)" for l b s1 x s2
    using same_shelf_keeps [OF require_library_access_same [OF that(1)]] assms [OF that(2)] shelf_keeps_trans by blast
  then have "shelf_keeps ?s0 (snd (library_mutation actor i permission body s))"
    unfolding library_mutation_def Let_def by (auto simp: bind_res_Inr split: sum.split)
  then show ?thesis using expire_access_keeps shelf_keeps_trans by blast
qed

lemma create_folder_keeps: "shelf_keeps s (snd (create_folder L actor i name0 parent_id s))"
  unfolding create_folder_def by (rule library_mutation_keeps) (rule create_folder_at_keeps)

lemma edit_entry_keeps: "shelf_keeps s (snd (edit_entry L actor i entry_id name0 move s))"
  unfolding edit_entry_def by (rule library_mutation_keeps) (rule edit_entry_at_keeps)

lemma delete_entry_keeps: "shelf_keeps s (snd (delete_entry L actor i entry_id s))"
  unfolding delete_entry_def by (rule library_mutation_keeps) (rule delete_entry_at_keeps)

lemma rename_library_keeps: "shelf_keeps s (snd (rename_library L actor i name0 s))"
  unfolding rename_library_def
proof (rule library_mutation_keeps, elim bind_resE, goal_cases)
  case (1 s1 x s2 a)
  obtain l b s3 where a: "a = ((l, b), s3)" by (metis surj_pair)
  show ?case
  proof (rule locked_then [OF 1(1) [unfolded a]])
    assume inv: "shelf_inv s3" and l: "l \<in> set (libraries s3)" "lib_id l = i"
    have c: "shelf_keeps s3 s2" if "changed L actor (l\<lparr>lib_name := n\<rparr>) ''library'' i ''library_renamed'' [] s3 = Inr s2" for n
      by (rule change_keeps [OF inv _ _ _ _ _ _ _ _ _ _ that])
         (use shelf_invD [OF inv] l in \<open>auto simp: keeps_refl shelf_ids_def\<close>)
    from 1(2) a c show "shelf_keeps s3 s2" by (auto simp: bind_res_Inr split: if_splits)
  qed
qed

subsection \<open>Quotas, contents, libraries and publication\<close>

lemma set_department_quotas_same:
  assumes "set_department_quotas L actor d df sf s = Inr (q, s')"
  shows "same_shelf s s'"
proof -
  obtain p s1 where p: "quota_policy L d s = (p, s1)" by fastforce
  then have s1: "same_shelf s s1" by (auto simp: quota_policy_def same_shelf_def keeps_refl Let_def split: option.splits)
  have ev: "same_shelf t (on_hall (quota_event a b c e f) t)" for t a b c e f
    by (rule same_shelf_core) (simp add: quota_event_def core_eq_record_event)
  have step: "same_shelf s (on_hall (quota_event a b c e f) t)" if "same_shelf s t" for t a b c e f
    using ev same_shelf_trans [OF that] by blast
  have release: "same_shelf s (on_hall (department_release actor) (t\<lparr>quota_policies := ps\<rparr>))" if t: "same_shelf s t" for t ps
  proof -
    have "same_shelf t (t\<lparr>quota_policies := ps\<rparr>)" by (simp add: same_shelf_def keeps_refl)
    then show ?thesis using same_shelf_trans [OF same_shelf_trans [OF t] same_shelf_release] by blast
  qed
  show ?thesis using assms unfolding set_department_quotas_def Let_def
  proof (elim bind_resE, goal_cases)
    case 1
    from 1(4) [unfolded p prod.case sum.inject] s1 show ?case
      by (simp only: prod.inject split: if_split_asm) (auto intro!: release step)
  qed
qed

lemma set_library_quota_same:
  assumes "set_library_quota L actor i quota s = Inr (x, s')"
  shows "same_shelf s s'"
  using assms unfolding set_library_quota_def
  by (elim bind_resE) (auto split: if_splits intro: set_department_quotas_same)

lemma row_get_filter_other: "k \<noteq> i \<Longrightarrow> row_get key k (filter (\<lambda>r. key r \<noteq> i) rows) = row_get key k rows"
  by (induction rows) (auto simp: row_get_def)

lemma collect_content_keeps:
  assumes "collect_content L i s = Inr (b, s')"
  shows "shelf_keeps s s'"
proof (rule shelf_keepsI)
  assume inv: "shelf_inv s"
  from assms consider "s' = s"
    | k where "s' = s\<lparr>contents := filter (\<lambda>c. con_id c \<noteq> i) (contents s), accepted_files := k\<rparr>"
      "\<not> exists_row (\<lambda>e. ent_content e = Some i) (entries s)"
    by (auto simp: collect_content_def bind_res_Inr split: if_splits)
  then show "shelf_keeps s s'"
  proof cases
    case 2
    have used: "c \<noteq> i" if "e \<in> set (entries s)" "ent_content e = Some c" for e c
      using 2(2) that by (auto simp: exists_row_def)
    have "row_get con_id c (contents s') = row_get con_id c (contents s)" if "c \<noteq> i" for c
      using row_get_filter_other [OF that] by (simp add: 2(1))
    then have "size_of s' e = size_of s e" if "e \<in> set (entries s)" for e
      using used [OF that] by (auto simp: size_of_def content_of_def split: option.split)
    then have "usage_of s' l = usage_of s l" for l
      using 2(1) by (auto simp: usage_of_def intro!: arg_cong [of _ _ sum_list])
    moreover have "shelf_ids s'" using shelf_invD(2) [OF inv] used 2(1) by (fastforce simp: shelf_ids_def distinct_map_filter)
    ultimately have "shelf_inv s'" using inv 2(1) by (simp add: shelf_inv_def)
    then show ?thesis using 2(1) by (simp add: preserves_def shelf_history_def)
  qed simp
qed

lemma get_or_create_library_keeps:
  assumes "get_or_create_library d st s = Inr (l, s')"
  shows "shelf_keeps s s'"
proof (rule shelf_keepsI)
  assume inv: "shelf_inv s"
  obtain i s1 where f: "fresh_shelf_id s = (i, s1)" by fastforce
  note f' = fresh_shelf [OF f inv]
  show "shelf_keeps s s'"
  proof (cases "find (\<lambda>l. lib_department l = d \<and> lib_station l = st) (libraries s)")
    case None
    with assms f f'(3) have l: "lib_id l = i" "lib_usage_bytes l = 0" "s' = s1\<lparr>libraries := libraries s @ [l]\<rparr>"
        "library_constraints (libraries s @ [l])"
      by (auto simp: get_or_create_library_def empty_library_def put_libraries_def Let_def bind_res_Inr split: if_splits)
    have u: "usage_of s' = usage_of s1" by (rule usage_of_cong) (simp_all add: l(3))
    have "filter (\<lambda>e. ent_library e = i) (entries s1) = []"
      using shelf_invD(2) [OF inv] f'(5,9) by (fastforce simp: shelf_ids_def filter_empty_conv)
    then have "usage_of s1 i = 0" by (simp add: usage_of_def)
    moreover have "shelf_ids s'" using shelf_invD(2) [OF f'(1)] f'(3,6,9) l(1) unfolding l(3) shelf_ids_def by auto
    ultimately have "shelf_inv s'" using shelf_invD [OF f'(1)] u l f'(3) by (auto simp: shelf_inv_def)
    then show ?thesis using f'(2) l(3) by (simp add: preserves_def shelf_history_def keepsD(2))
  qed (use assms in \<open>simp add: get_or_create_library_def\<close>)
qed

lemma initialize_library_same:
  assumes "initialize_library L l s = Inr (x, s')"
  shows "same_shelf s s'"
  using assms unfolding initialize_library_def
proof (elim bind_resE, goal_cases)
  case (1 a)
  obtain scope s1 where a: "a = (scope, s1)" by fastforce
  have s1: "same_shelf s s1" by (rule same_shelf_lift [OF 1(1) [unfolded a] lock_scope_pres])
  have "same_shelf (synced s1) s2" if "lift_hall (enqueue_publication_job (publication_env L) d st code None DATA_CHANGE None False None)
      (synced s1) = Inr (r, s2)" for d st code r s2
    by (rule same_shelf_lift [OF that pres_enqueue])
  then have "s' = s1 \<or> same_shelf (synced s1) s'"
    using 1(2) a by (auto simp: bind_res_Inr split: if_splits prod.splits)
  then show ?case using s1 same_shelf_synced same_shelf_trans by blast
qed

lemma get_library_keeps:
  assumes "get_library L actor d st s = Inr (x, s')"
  shows "shelf_keeps s s'"
  using assms unfolding get_library_def
  by (auto simp: bind_res_Inr dest!: get_or_create_library_keeps initialize_library_same [THEN same_shelf_keeps] intro: shelf_keeps_trans)

lemma core_eq_grant_access: "grant_access actor station previous w = Inr (a, w') \<Longrightarrow> core_eq w w'"
  unfolding grant_access_def
  by (cases previous) (auto simp: Let_def fresh_id_def bind_res_Inr require_Inr core_eq_def record_event_def revoke_access_def)

lemma activate_temporary_access_keeps:
  assumes "activate_temporary_access L actor station_id s = Inr (a, s')"
  shows "shelf_keeps s s'"
  using assms unfolding activate_temporary_access_def
proof (elim bind_resE, goal_cases)
  case (1 station u)
  obtain previous w1 where w1: "active_temporary_access actor (hall s) = (previous, w1)" by fastforce
  have s1: "same_shelf s (s\<lparr>hall := w1\<rparr>)"
    using core_eq_active_access [of "hall s" actor] w1 by (intro same_shelf_hall) (simp add: keeps_core_eq)
  have g: "same_shelf (s\<lparr>hall := w1\<rparr>) t" if "lift_hall (grant_access actor station previous) (s\<lparr>hall := w1\<rparr>) = Inr (b, t)" for b t
    by (rule same_shelf_lift [OF that]) (auto intro!: presI keeps_core_eq dest: core_eq_grant_access)
  have "shelf_keeps (s\<lparr>hall := w1\<rparr>) s'"
    using 1(3) unfolding w1
    by (auto simp: bind_res_Inr split: if_splits dest!: g [THEN same_shelf_keeps] get_or_create_library_keeps
        initialize_library_same [THEN same_shelf_keeps] intro: shelf_keeps_trans)
  then show ?case using same_shelf_keeps [OF s1] shelf_keeps_trans by blast
qed

lemma publish_now_keeps: "shelf_keeps s (snd (publish_now L actor i s))"
proof -
  have "shelf_keeps t t'" if "publish_now_at L actor i t = Inr (x, t')" for t x t'
    using that unfolding publish_now_at_def
  proof (elim bind_resE, goal_cases)
    case (1 a)
    obtain l b s1 where a: "a = ((l, b), s1)" by (metis surj_pair)
    have e: "same_shelf s1 s2" if "lift_hall (enqueue_publication_job (publication_env L) d st code (Some actor) USER_REQUEST None False None)
        (synced s1) = Inr (r, s2)" for d st code r s2
      using same_shelf_trans [OF same_shelf_synced same_shelf_lift [OF that pres_enqueue]] .
    have r: "same_shelf s2 (on_hall (\<lambda>w. record_event n ac d st tt tg md (register_on_commit WakeBuildWorker w)) s2)" for s2 n ac d st tt tg md
      by (rule same_shelf_core) (simp add: core_eq_def record_event_def register_on_commit_def)
    from 1(2) a have "same_shelf s1 t'"
      by (auto simp: bind_res_Inr Let_def split: prod.splits dest!: e intro!: r same_shelf_trans [OF _ same_shelf_release]
          elim!: same_shelf_trans)
    then show ?case using locked_then [OF 1(1) [unfolded a] same_shelf_keeps] by blast
  qed
  then have "shelf_keeps (expire_access actor s) (snd (publish_now L actor i s))"
    unfolding publish_now_def Let_def by (auto split: sum.split)
  then show ?thesis using expire_access_keeps shelf_keeps_trans by blast
qed

lemma open_libraries_keeps: "shelf_keeps s (snd (open_libraries L owners s))"
proof (induction L owners s rule: open_libraries.induct)
  case (2 L d st owners s)
  show ?case
  proof (cases "get_or_create_library d st s")
    case (Inr a)
    obtain l s1 where a: "a = (l, s1)" by fastforce
    have s1: "shelf_keeps s s1" using get_or_create_library_keeps Inr a by simp
    show ?thesis
    proof (cases "initialize_library L l s1")
      case (Inr b)
      obtain x s2 where b: "b = (x, s2)" by fastforce
      have "shelf_keeps s1 s2" using initialize_library_same [THEN same_shelf_keeps] Inr b by simp
      moreover have "shelf_keeps s2 (snd (open_libraries L owners s2))"
        using 2 [OF \<open>get_or_create_library d st s = Inr a\<close> a [symmetric]] Inr b by simp
      ultimately have "shelf_keeps s (snd (open_libraries L owners s2))" using s1 shelf_keeps_trans by blast
      then show ?thesis using \<open>get_or_create_library d st s = Inr a\<close> a Inr b by simp
    qed (use s1 \<open>get_or_create_library d st s = Inr a\<close> a in simp)
  qed simp
qed simp

lemma initialize_missing_libraries_keeps: "shelf_keeps s (snd (initialize_missing_libraries L s))"
proof -
  obtain r s1 where s1: "open_libraries L (missing_departments (hall s)) s = (r, s1)" by fastforce
  have "shelf_keeps s s1" using open_libraries_keeps [of s L "missing_departments (hall s)"] s1 by simp
  moreover have "shelf_keeps s1 (snd (open_libraries L (missing_stations (hall s1)) s1))" by (rule open_libraries_keeps)
  ultimately show ?thesis using s1 shelf_keeps_trans by (cases r) (auto simp: initialize_missing_libraries_def)
qed

lemma reconcile_file_scope_same:
  assumes "reconcile_file_scope L i d apply_it s = Inr (verdict, s')"
  shows "same_shelf s s'"
proof -
  have r: "same_shelf s s1" if "lift_hall (reconcile_clean_source (publication_env L) scope digest) s = Inr (x, s1)" for scope digest x s1
    by (rule same_shelf_lift [OF that pres_reconcile])
  have "same_shelf s s1" if "reconcile_verdict L scope digest apply_it s = Inr (v, s1)" for scope digest v s1
    using that r by (auto simp: reconcile_verdict_def bind_res_Inr split: if_splits)
  then show ?thesis using assms unfolding reconcile_file_scope_def Let_def
    by (auto simp: bind_res_Inr split: option.splits if_splits)
qed

end
