(* ===== verification/Staff_Frame.thy ===== *)
theory Staff_Frame
  imports Lifecycle_Queue Temporary_Access
begin

text \<open>
  The queueing services of the publication lifecycle touch no role, no station and no temporary access: \<open>staff\<close> is
  the part of the database they read only.
\<close>

definition roles ::
  "world \<Rightarrow> user_row list \<times> system_role_row list \<times> department_row list \<times> station_row list \<times> membership_row list
    \<times> station_admin_row list" where
  "roles w = (users w, system_roles w, departments w, stations w, memberships w, station_admins w)"

definition staff where "staff w = (clock w, roles w, temporary_accesses w)"

lemma staffD:
  assumes "staff w' = staff w"
  shows "clock w' = clock w" "roles w' = roles w" "temporary_accesses w' = temporary_accesses w"
  using assms by (simp_all add: staff_def)

lemma roles_stations: "roles w' = roles w \<Longrightarrow> station_department w' st = station_department w st"
  by (simp add: roles_def station_department_def)

lemma roles_functions:
  assumes "roles w' = roles w"
  shows "user_is_active w' = user_is_active w" "department_is_active w' = department_is_active w"
    "is_system_admin w' = is_system_admin w" "active_department_ids w' = active_department_ids w"
    "active_station_ids w' = active_station_ids w"
proof -
  show u: "user_is_active w' = user_is_active w" and d: "department_is_active w' = department_is_active w"
    using assms by (simp_all add: roles_def user_is_active_def department_is_active_def fun_eq_iff)
  show "is_system_admin w' = is_system_admin w"
    using assms by (simp add: fun_eq_iff is_system_admin_def u roles_def split: option.split)
  show "active_department_ids w' = active_department_ids w"
    using assms by (simp add: fun_eq_iff active_department_ids_def u roles_def split: option.split)
  show "active_station_ids w' = active_station_ids w"
    using assms by (simp add: fun_eq_iff active_station_ids_def u d roles_def split: option.split)
qed

lemma roles_require_scope:
  assumes "roles w' = roles w"
  shows "require_scope w' = require_scope w"
  unfolding fun_eq_iff require_scope_def roles_functions [OF assms] by simp

lemma staff_active_access:
  assumes "staff w' = staff w"
  shows "fst (active_temporary_access u w') = fst (active_temporary_access u w)"
proof -
  have r: "roles w' = roles w" and "clock w' = clock w" "temporary_accesses w' = temporary_accesses w"
    using staffD [OF assms] by simp_all
  moreover have "stations w' = stations w" using r by (simp add: roles_def)
  ultimately show ?thesis
    by (simp add: active_temporary_access_def open_access_def roles_functions [OF r] split: option.split)
qed

lemma staff_tables [simp]:
  "staff (w\<lparr>scope_states := ss\<rparr>) = staff w" "staff (w\<lparr>publications := ps\<rparr>) = staff w" "staff (w\<lparr>jobs := js\<rparr>) = staff w"
  "staff (w\<lparr>next_id := i\<rparr>) = staff w" "staff (w\<lparr>audit_log := al\<rparr>) = staff w" "staff (w\<lparr>on_commit := cbs\<rparr>) = staff w"
  "staff (w\<lparr>sources := src\<rparr>) = staff w" "staff (w\<lparr>library_contents := cs\<rparr>) = staff w"
  by (simp_all add: staff_def roles_def)

lemma staff_record_event [simp]: "staff (record_event a b c d e f g w) = staff w"
  by (simp add: record_event_def)

lemma staff_statements:
  "create_scope s w = Inr w' \<Longrightarrow> staff w' = staff w"
  "create_job j w = Inr w' \<Longrightarrow> staff w' = staff w"
  "create_publication p w = Inr w' \<Longrightarrow> staff w' = staff w"
  "update_scope i f w = Inr w' \<Longrightarrow> staff w' = staff w"
  "update_job i g w = Inr w' \<Longrightarrow> staff w' = staff w"
  "update_publication i h w = Inr w' \<Longrightarrow> staff w' = staff w"
  by (auto simp: create_scope_def create_job_def create_publication_def update_scope_def update_job_def update_publication_def
      save_scope_def save_job_def save_publication_def bind_res_Inr Let_def split: if_splits)

lemma staff_fold:
  assumes "\<And>x w w'. f x w = Inr w' \<Longrightarrow> staff w' = staff w" and "fold_res f xs w = Inr w'"
  shows "staff w' = staff w"
  using assms(2) by (induction xs arbitrary: w) (auto simp: bind_res_Inr dest: assms(1))

lemma staff_current_source_state: "current_source_state E s w = Inr (x, w') \<Longrightarrow> staff w' = staff w"
  by (auto simp: current_source_state_def bind_res_Inr split: if_splits dest: staff_statements)

lemma staff_cancel_redundant: "cancel_redundant_pending s w = Inr w' \<Longrightarrow> staff w' = staff w"
proof -
  have "cancel_pending j w = Inr w' \<Longrightarrow> staff w' = staff w" for j w w'
    by (auto simp: cancel_pending_def bind_res_Inr split: option.splits if_splits dest!: staff_statements)
  moreover have "cancel_unlinked p w = Inr w' \<Longrightarrow> staff w' = staff w" for p w w'
    by (auto simp: cancel_unlinked_def dest: staff_statements)
  moreover assume "cancel_redundant_pending s w = Inr w'"
  ultimately show ?thesis
    unfolding cancel_redundant_pending_def by (auto simp: bind_res_Inr dest!: staff_fold [rotated])
qed

lemma staff_reconcile: "reconcile_clean_source E s f w = Inr (x, w') \<Longrightarrow> staff w' = staff w"
  by (auto simp: reconcile_clean_source_def bind_res_Inr Let_def split: if_splits dest!: staff_statements staff_cancel_redundant)

lemma staff_enqueue_source: "enqueue_source E s g w = Inr (x, w') \<Longrightarrow> staff w' = staff w"
  by (auto simp: enqueue_source_def bind_res_Inr Let_def split: if_splits option.splits prod.splits
      dest!: staff_statements staff_current_source_state)

lemma staff_allocate: "allocate_staged_publication s j f n w = Inr (x, w') \<Longrightarrow> staff w' = staff w"
  by (auto simp: allocate_staged_publication_def bind_res_Inr Let_def fresh_id_def split: if_splits option.splits prod.splits
      dest!: staff_statements)

lemma staff_create_attempt:
  "create_attempt k s rb tr db al n f w0 w = Inr (x, w') \<Longrightarrow> staff w0 = staff w \<Longrightarrow> staff w' = staff w"
  by (auto simp: create_attempt_def bind_res_Inr Let_def fresh_id_def split: if_splits option.splits prod.splits sum.splits
      dest!: staff_statements staff_allocate)

lemma staff_coalesce: "coalesce_pending a s rb tr al n f w = Inr w' \<Longrightarrow> staff w' = staff w"
  unfolding coalesce_pending_def Let_def
  by (elim bind_resE) (auto split: if_splits option.splits dest!: staff_statements)

lemma staff_enqueue: "enqueue_publication_job E d st c rb tr db al g w = Inr (x, w') \<Longrightarrow> staff w' = staff w"
  by (auto simp: enqueue_publication_job_def bind_res_Inr split: if_splits option.splits prod.splits
      dest!: staff_enqueue_source staff_reconcile staff_coalesce staff_create_attempt)

lemma staff_find_or_create: "find_or_create_scope d st c w = Inr (x, w') \<Longrightarrow> staff w' = staff w"
  by (auto simp: find_or_create_scope_def bind_res_Inr Let_def fresh_id_def split: option.splits sum.splits dest!: staff_statements)

lemma staff_mark_dirty:
  assumes "mark_dirty E d st c a w = Inr (x, w')"
  shows "staff w' = staff w"
  using assms unfolding mark_dirty_def Let_def
proof (elim bind_resE, goal_cases)
  case (1 u v found)
  obtain s0 w1 where found: "found = (s0, w1)" by fastforce
  from 1(4) [unfolded found prod.case] show ?case
  proof (elim bind_resE, goal_cases)
    case (1 src)
    obtain snap fp s2 w2 where src: "src = ((snap, fp, s2), w2)" by (metis surj_pair)
    have w2: "staff w2 = staff w" using \<open>find_or_create_scope d st c w = Inr found\<close> found 1(1) src
      by (auto dest!: staff_find_or_create staff_current_source_state)
    from 1(2) [unfolded src prod.case] show ?case
    proof (elim bind_resE, goal_cases)
      case (1 revision rec)
      obtain s5 w3 where rec: "rec = (s5, w3)" by fastforce
      have w3: "staff w3 = staff w2" using 1(2) rec by (auto simp: bind_res_Inr split: if_splits dest!: staff_reconcile)
      from 1(3) [unfolded rec prod.case] obtain w4 where "staff w4 = staff w3" "staff w' = staff w4"
        by (elim bind_resE) (auto simp: bind_res_Inr split: if_splits dest!: staff_statements staff_enqueue)
      with w2 w3 show ?case by simp
    qed
  qed
qed

subsection \<open>Revoking an access\<close>

lemma roles_revoke_access [simp]: "roles (revoke_access a r b t y audit w) = roles w"
  by (simp add: revoke_access_def record_event_def roles_def Let_def)

lemma roles_active_access [simp]: "roles (snd (active_temporary_access u w)) = roles w"
  by (simp add: active_temporary_access_def split: option.splits)

lemma roles_revoke_temporary [simp]: "roles (snd (revoke_temporary_access u r t y w)) = roles w"
  using roles_active_access [of u w]
  by (cases "active_temporary_access u w") (auto simp: revoke_temporary_access_def split: option.splits)

abbreviation one_open_access :: "world \<Rightarrow> bool" where
  "one_open_access w \<equiv> distinct (map tsa_user (filter (\<lambda>a. tsa_revoked_at a = None) (temporary_accesses w)))"

lemma open_access_None: "open_access u w = None \<longleftrightarrow> (\<forall>a\<in>set (temporary_accesses w). tsa_user a = u \<longrightarrow> tsa_revoked_at a \<noteq> None)"
  by (auto simp: open_access_def first_by_None)

lemma revoke_access_closes:
  assumes "one_open_access w" and "open_access u w = Some a"
  shows "open_access u (revoke_access a r b t y audit w) = None"
proof -
  have a: "a \<in> set (temporary_accesses w)" "tsa_user a = u" "tsa_revoked_at a = None"
    using first_by_SomeD [OF assms(2) [unfolded open_access_def]] by simp_all
  have "x = a" if "x \<in> set (temporary_accesses w)" "tsa_user x = u" "tsa_revoked_at x = None" for x
    using assms(1) a that by (auto simp: distinct_map inj_on_def)
  moreover have "temporary_accesses (revoke_access a r b t y audit w) = map (\<lambda>x. if tsa_id x = tsa_id a
      then x\<lparr>tsa_revoked_at := Some (clock w), tsa_revocation_reason := r\<rparr> else x) (temporary_accesses w)"
    using a(3) by (simp add: revoke_access_def record_event_def Let_def)
  ultimately show ?thesis by (auto simp: open_access_None split: if_splits)
qed

text \<open>After the lookup an actor has the access it returned, and no other.\<close>

lemma active_access_open:
  assumes "one_open_access w" and "active_temporary_access u w = (r, w')"
  shows "open_access u w' = r" and "r \<noteq> None \<Longrightarrow> w' = w"
  using assms revoke_access_closes [OF assms(1)]
  by (auto simp: active_temporary_access_def split: option.splits if_splits)

lemma revoke_temporary_closes:
  assumes "one_open_access w"
  shows "open_access u (snd (revoke_temporary_access u r t y w)) = None"
  using active_access_open [OF assms, of u] revoke_access_closes [OF assms, of u]
  by (auto simp: revoke_temporary_access_def split: prod.splits option.splits)

lemma active_access_SomeD:
  assumes "active_temporary_access u w = (Some a, w')"
  shows "open_access u w = Some a" "clock w < tsa_expires_at a" "w' = w"
  using assms by (auto simp: active_temporary_access_def split: option.splits if_splits)

end
