(* ===== verification/Library_Properties.thy ===== *)
theory Library_Properties
  imports Library_Steps Scenario Staff_Frame
begin

text \<open>
  Every transaction of the document libraries as a step, interleaved with the publication lifecycle, and what holds
  along every run: the tree, the usage, the quota, the abstract tree the services implement, and what an elevated
  deletion costs.
\<close>

subsection \<open>Runs\<close>

text \<open>A transaction that raises may still have let an expired access lapse, so its state counts too.\<close>

inductive library_step :: "library_env \<Rightarrow> shelf \<Rightarrow> shelf \<Rightarrow> bool" for L where
  renamed: "library_step L s (snd (rename_library L actor i name s))"
| folder: "library_step L s (snd (create_folder L actor i name parent_id s))"
| edited: "library_step L s (snd (edit_entry L actor i entry_id name0 move s))"
| deleted: "library_step L s (snd (delete_entry L actor i entry_id s))"
| uploaded: "library_step L s (snd (upload_pdf L actor i up parent_id replace_id approval s))"
| quotas: "set_department_quotas L actor d df sf s = Inr (q, s') \<Longrightarrow> library_step L s s'"
| quota: "set_library_quota L actor i quota s = Inr (q, s') \<Longrightarrow> library_step L s s'"
| collected: "collect_content L i s = Inr (b, s') \<Longrightarrow> library_step L s s'"
| opened: "get_library L actor d st s = Inr (i, s') \<Longrightarrow> library_step L s s'"
| elevated: "activate_temporary_access L actor station_id s = Inr (a, s') \<Longrightarrow> library_step L s s'"
| published: "library_step L s (snd (publish_now L actor i s))"
| discovered: "library_step L s (snd (initialize_missing_libraries L s))"
| reconciled: "reconcile_file_scope L i d apply_it s = Inr (verdict, s') \<Longrightarrow> library_step L s s'"
| commit_hooks: "library_step L s (s\<lparr>hall := snd (commit (publication_env L) (hall s))\<rparr>)"
| lifecycle: "lifecycle_step (publication_env L) (hall s) w \<Longrightarrow> library_step L s (s\<lparr>hall := w\<rparr>)"

abbreviation library_run :: "library_env \<Rightarrow> shelf \<Rightarrow> shelf \<Rightarrow> bool" where
  "library_run L \<equiv> (library_step L)\<^sup>*\<^sup>*"

lemma library_step_keeps: "library_step L s s' \<Longrightarrow> shelf_keeps s s'"
proof (induction rule: library_step.induct)
  case (commit_hooks s)
  then show ?case by (intro same_shelf_keeps same_shelf_hall commit_keeps)
next
  case (lifecycle s w)
  then show ?case by (intro same_shelf_keeps same_shelf_hall step_keeps)
qed (blast intro: rename_library_keeps create_folder_keeps edit_entry_keeps delete_entry_keeps upload_pdf_keeps
    same_shelf_keeps set_department_quotas_same set_library_quota_same collect_content_keeps get_library_keeps
    activate_temporary_access_keeps publish_now_keeps initialize_missing_libraries_keeps reconcile_file_scope_same)+

lemma library_run_keeps: "library_run L s s' \<Longrightarrow> shelf_keeps s s'"
  by (rule shelf_evolution.preserves_run [OF library_step_keeps])

lemma library_run_inv: "library_run L s s' \<Longrightarrow> shelf_inv s \<Longrightarrow> shelf_inv s'"
  using library_run_keeps by (auto simp: preserves_def)

subsection \<open>What the access check and a change leave alone\<close>

lemma require_library_access_Inr:
  assumes "require_library_access actor l permission s = Inr (b, s')"
  shows "s' = s" and "b \<Longrightarrow> isl (require_library actor l (hall s))"
    and "b \<Longrightarrow> \<exists>a. active_temporary_access actor (hall s) = (Some a, hall s) \<and> lib_station l = Some (tsa_station a)"
  using assms active_access_SomeD [of actor "hall s"]
  by (auto simp: require_library_access_def split: sum.splits if_splits prod.splits option.splits)

lemma staff_lock_scope: "lock_scope l w = Inr (x, w') \<Longrightarrow> staff w' = staff w"
  by (auto simp: lock_scope_def Let_def fresh_id_def bind_res_Inr split: option.splits dest!: staff_statements)

lemma locked_library_frame:
  assumes "locked_library actor i permission s = Inr ((l, b), s1)"
  shows "staff (hall s1) = staff (hall s)" and "quota_policies s1 = quota_policies s"
    and "b \<Longrightarrow> isl (require_library actor l (hall s))"
    and "b \<Longrightarrow> \<exists>a. fst (active_temporary_access actor (hall s)) = Some a \<and> lib_station l = Some (tsa_station a)"
proof -
  from assms obtain preview b0 y s2 where "require_library_access actor preview permission s = Inr (b0, s)"
    and s2: "lift_hall (lock_scope preview) s = Inr (y, s2)"
    and r: "require_library_access actor l permission s2 = Inr (b, s1)"
    unfolding locked_library_def by (elim bind_resE) (auto simp: bind_res_Inr, metis require_library_access_Inr(1))
  have st: "staff (hall s2) = staff (hall s)" "quota_policies s2 = quota_policies s"
    using s2 by (auto simp: lift_hall_def bind_res_Inr dest: staff_lock_scope)
  note r = require_library_access_Inr [OF r]
  from st r(1) show "staff (hall s1) = staff (hall s)" "quota_policies s1 = quota_policies s" by simp_all
  from r(2) show "b \<Longrightarrow> isl (require_library actor l (hall s))"
    using roles_require_scope [OF staffD(2) [OF st(1)]] by (simp add: require_library_def)
  from r(3) show "b \<Longrightarrow> \<exists>a. fst (active_temporary_access actor (hall s)) = Some a \<and> lib_station l = Some (tsa_station a)"
    using staff_active_access [OF st(1)] by (metis fst_conv)
qed

lemma changed_frame:
  assumes "changed L actor l tt tg op md s = Inr s'"
  shows "quota_policies s' = quota_policies s" and "lib_department l = None \<Longrightarrow> staff (hall s') = staff (hall s)"
    and "libraries s' = map (recorded l) (libraries s)" and "entries s' = entries s" and "contents s' = contents s"
  using assms unfolding changed_def Let_def
  by (auto simp: bind_res_Inr put_libraries_def lift_hall_def on_hall_def synced_def change_event_def recorded_def
      split: if_splits dest!: staff_mark_dirty)

lemma open_access_staff: "staff w' = staff w \<Longrightarrow> open_access u w' = open_access u w"
  by (simp add: staff_def open_access_def)

lemma one_open_access_staff: "staff w' = staff w \<Longrightarrow> one_open_access w' = one_open_access w"
  by (simp add: staff_def)

lemma fetch_library_iff: "fetch_library i s = Inr l \<longleftrightarrow> row_get lib_id i (libraries s) = Some l"
  by (auto simp: fetch_library_def of_option_Inr)

lemma recorded_get:
  "row_get lib_id i (map (recorded library) ls) = map_option (recorded library) (row_get lib_id i ls)"
  by (induction ls) (auto simp: row_get_def)

subsection \<open>A concrete library\<close>

definition demo_library_env :: "env \<Rightarrow> library_env" where
  "demo_library_env E = \<lparr>FILE_LIBRARY_MAX_FILE_BYTES = 100, FILE_LIBRARY_MAX_QUOTA_BYTES = 1000,
     FILE_LIBRARY_DEPARTMENT_QUOTA_BYTES = 200, FILE_LIBRARY_STATION_QUOTA_BYTES = 100, publication_env = E,
     path_refused = (\<lambda>_. False)\<rparr>"

definition demo_shelf :: shelf where
  "demo_shelf = \<lparr>hall = demo_world,
     libraries = [\<lparr>lib_id = 20, lib_department = Some 1, lib_station = None, lib_name = ''Documents'', lib_source_revision = 0,
         lib_usage_bytes = 40\<rparr>,
       \<lparr>lib_id = 21, lib_department = None, lib_station = Some 2, lib_name = ''Documents'', lib_source_revision = 0,
         lib_usage_bytes = 30\<rparr>],
     contents = [\<lparr>con_id = 30, con_library = 20, con_storage_key = storage_key 20 30, con_size_bytes = 40, con_sha256 = ''d'',
         con_created_at = 0\<rparr>,
       \<lparr>con_id = 31, con_library = 21, con_storage_key = storage_key 21 31, con_size_bytes = 30, con_sha256 = ''e'',
         con_created_at = 0\<rparr>],
     entries = [new_entry 40 20 None ''Plans'' None 7 0, new_entry 41 20 (Some 40) ''a.pdf'' (Some 30) 7 0,
       new_entry 42 21 None ''b.pdf'' (Some 31) 7 0],
     quota_policies = [], accepted_files = [storage_key 20 30, storage_key 21 31]\<rparr>"

lemma demo_shelf_inv: "shelf_inv demo_shelf"
proof -
  have "lifecycle_inv (hall demo_shelf)" by (rule empty_tables_inv) (simp add: empty_tables_def demo_shelf_def demo_world_def)
  moreover have "shelf_ids demo_shelf" by (simp add: shelf_ids_def demo_shelf_def new_entry_def demo_world_def)
  moreover have "tree_ok (entries demo_shelf)"
  proof -
    have "entry_constraints (entries demo_shelf)" by code_simp
    moreover have "\<forall>e\<in>set (entries demo_shelf). ent_is_folder e \<longrightarrow> within MAX_FOLDER_DEPTH (entries demo_shelf) (Some (ent_id e))"
      by code_simp
    ultimately show ?thesis by (simp add: tree_ok_def in_folder_def demo_shelf_def new_entry_def)
  qed
  moreover have "library_constraints (libraries demo_shelf)" by code_simp
  moreover have "\<forall>l\<in>set (libraries demo_shelf). lib_usage_bytes l = usage_of demo_shelf (lib_id l)" by code_simp
  ultimately show ?thesis by (simp add: shelf_inv_def)
qed

subsection \<open>The tree\<close>

text \<open>
  C26: Along every run of the library services, interleaved with the publication lifecycle, each library stays a
  tree: an entry sits at the root or in a folder of its own library, at most five folders deep, sibling names
  differ also when their case is ignored, the recorded usage of a library is the sum of the sizes of
  the contents its entries name, and every breadth-first walk over the tree ends.
\<close>

theorem library_tree_kept:
  assumes "shelf_inv s" and "library_run L s s'"
  shows "distinct (map (\<lambda>e. (lower (ent_name e), ent_library e, ent_parent e)) (entries s'))
     \<and> (\<forall>e\<in>set (entries s'). in_folder (entries s') e
          \<and> (ent_is_folder e \<longrightarrow> within MAX_FOLDER_DEPTH (entries s') (Some (ent_id e))))
     \<and> (\<forall>l\<in>set (libraries s'). lib_usage_bytes l = usage_of s' (lib_id l))
     \<and> (\<forall>P start. \<exists>ls. walk P (entries s') start = Inr ls)"
proof -
  have inv: "shelf_inv s'" by (rule library_run_inv [OF assms(2,1)])
  note ok = shelf_invD(3) [OF inv]
  from tree_okD [OF ok] shelf_invD(5) [OF inv] walk_returns [OF ok] show ?thesis
    by (simp add: entry_constraints_def)
qed

theorem library_tree_kept_witness:
  "\<exists>s'. create_folder (demo_library_env demo_env) 7 20 '' New '' (Some 40) demo_shelf = (Inr 101, s')
     \<and> (\<forall>e\<in>set (entries s'). in_folder (entries s') e
          \<and> (ent_is_folder e \<longrightarrow> within MAX_FOLDER_DEPTH (entries s') (Some (ent_id e))))"
proof -
  let ?r = "create_folder (demo_library_env demo_env) 7 20 '' New '' (Some 40) demo_shelf"
  have "fst ?r = Inr 101" by code_simp
  moreover have "library_run (demo_library_env demo_env) demo_shelf (snd ?r)" by (rule r_into_rtranclp) (rule library_step.folder)
  ultimately show ?thesis using library_tree_kept [OF demo_shelf_inv] by (intro exI [of _ "snd ?r"]) (simp add: prod_eq_iff)
qed

subsection \<open>Quotas\<close>

definition quota_of :: "quota_policy_row \<Rightarrow> library_row \<Rightarrow> int" where
  "quota_of q l = (if lib_department l \<noteq> None then qpo_department_files_bytes q else qpo_station_files_bytes q)"

lemma find_snoc: "find P xs = None \<Longrightarrow> P x \<Longrightarrow> find P (xs @ [x]) = Some x"
  by (induction xs) (auto split: if_splits)

lemma quota_policy_stored:
  "quota_policy L d s = (q, s') \<Longrightarrow> find (\<lambda>q. qpo_department q = d) (quota_policies s') = Some q"
  by (auto simp: quota_policy_def Let_def find_snoc split: option.splits)

lemma quota_bytes_policy:
  assumes "quota_bytes L l s = Inr (quota, s')"
  obtains d q where "library_department_of l (hall s) = Some d" "find (\<lambda>q. qpo_department q = d) (quota_policies s') = Some q"
    "quota = quota_of q l"
  using assms unfolding quota_bytes_def
proof (elim bind_resE, goal_cases)
  case (1 d)
  obtain q s1 where q: "quota_policy L d s = (q, s1)" by fastforce
  with 1(3) have "s1 = s'" "quota = quota_of q l" by (simp_all add: quota_of_def)
  with 1(1,2) q show ?case by (auto simp: of_option_Inr dest: quota_policy_stored)
qed

lemma library_department_roles:
  assumes "roles w' = roles w"
  shows "library_department_of l w' = library_department_of l w"
  by (simp add: library_department_of_def roles_stations [OF assms] split: option.split)

lemma store_upload_quota:
  assumes "store_upload L actor i up name bytes digest parent_id replace_id s = Inr (x, s')"
    and u: "unique_rows lib_id (libraries s)" and l: "fetch_library i s = Inr l" and d: "library_department_of l (hall s) = Some d"
  shows "\<exists>q l'. find (\<lambda>q. qpo_department q = d) (quota_policies s') = Some q \<and> fetch_library i s' = Inr l'
     \<and> lib_usage_bytes l' \<le> max (quota_of q l) (lib_usage_bytes l)"
  using assms(1)
proof (rule store_upload_cases, goal_cases)
  case (1 l1 b s1 entry parent uu quota s2 cid s3 content s4 fresh s5 s6)
  note k = locked_library_same [OF 1(1)]
  have l1: "l1 = l" using l k row_get_unique [OF u, of l1] by (simp add: fetch_library_iff)
  from quota_bytes_policy [OF 1(6)] obtain d' q where q: "library_department_of l1 (hall s1) = Some d'"
    "find (\<lambda>q. qpo_department q = d') (quota_policies s2) = Some q" "quota = quota_of q l1" .
  have "d' = d" using q(1) d l1 library_department_roles [OF staffD(2) [OF locked_library_frame(1) [OF 1(1)]]] by simp
  moreover have "quota_policies s' = quota_policies s2"
    using changed_frame(1) [OF 1(14)] 1(8,11,12,13) by (auto simp: put_entries_Inr fresh_shelf_id_def fresh_id_def)
  moreover have "libraries s6 = libraries s"
    using k quota_bytes_same [OF 1(6)] 1(8,11,12,13) by (auto simp: same_shelf_def put_entries_Inr fresh_shelf_id_def fresh_id_def)
  moreover from this have "\<exists>l'. fetch_library i s' = Inr l' \<and> lib_usage_bytes l'
      = lib_usage_bytes l - (case entry of None \<Rightarrow> 0 | Some e \<Rightarrow> size_of s1 e) + bytes"
    using l row_get_key [of lib_id i "libraries s" l] unfolding fetch_library_iff changed_frame(3) [OF 1(14)] recorded_get
    by (simp add: l1 recorded_def save_library_def)
  ultimately show ?thesis using q(2,3) 1(7) by (auto simp: l1)
qed

text \<open>
  C28: A successful upload leaves the library within the quota of its department for its kind of library, or
  no fuller than it was: a library over a lowered quota can still be replaced into smaller files.
\<close>

theorem upload_within_quota:
  assumes "shelf_inv s" and "upload_pdf L actor i up parent_id replace_id approval s = (Inr x, s')"
    and "fetch_library i s = Inr l" and "library_department_of l (hall s) = Some d"
  shows "\<exists>q l'. find (\<lambda>q. qpo_department q = d) (quota_policies s') = Some q \<and> fetch_library i s' = Inr l'
     \<and> lib_usage_bytes l' \<le> max (quota_of q l) (lib_usage_bytes l)"
proof -
  let ?s0 = "expire_access actor s"
  from assms(2) obtain name bytes digest where st: "store_upload L actor i up name bytes digest parent_id replace_id ?s0 = Inr (x, s')"
    unfolding upload_pdf_def Let_def by (auto simp: bind_res_Inr split: sum.splits)
  have s0: "libraries ?s0 = libraries s" "roles (hall ?s0) = roles (hall s)" by (simp_all add: expire_access_def on_hall_def)
  show ?thesis
    by (rule store_upload_quota [OF st])
       (use shelf_invD(2) [OF assms(1)] assms(3,4) s0(1) library_department_roles [OF s0(2)] in
         \<open>simp_all add: shelf_ids_def fetch_library_iff\<close>)
qed

definition demo_upload :: upload where
  "demo_upload = \<lparr>up_name = ''c.pdf'', up_size = 50, up_quarantined = Inr 50, up_valid = Inr (), up_sanitized = Inr (45, ''f''),
     up_promoted = Inr ()\<rparr>"

definition demo_empty :: shelf where
  "demo_empty = \<lparr>hall = demo_world,
     libraries = [\<lparr>lib_id = 1, lib_department = Some 1, lib_station = None, lib_name = [], lib_source_revision = 0, lib_usage_bytes = 0\<rparr>],
     contents = [], entries = [], quota_policies = [], accepted_files = []\<rparr>"

lemma demo_empty_inv: "shelf_inv demo_empty"
proof -
  have "lifecycle_inv (hall demo_empty)" by (rule empty_tables_inv) (simp add: empty_tables_def demo_empty_def demo_world_def)
  then show ?thesis
    by (simp add: shelf_inv_def shelf_ids_def tree_ok_def entry_constraints_def library_constraints_def usage_of_def demo_empty_def
        demo_world_def)
qed

theorem upload_within_quota_witness:
  "\<exists>s' q l'. upload_pdf (demo_library_env demo_env) 7 1 demo_upload None None None demo_empty = (Inr 102, s')
     \<and> find (\<lambda>q. qpo_department q = 1) (quota_policies s') = Some q \<and> fetch_library 1 s' = Inr l'
     \<and> lib_usage_bytes l' \<le> max (quota_of q (hd (libraries demo_empty))) 0"
proof -
  let ?r = "upload_pdf (demo_library_env demo_env) 7 1 demo_upload None None None demo_empty"
  let ?l = "hd (libraries demo_empty)"
  have "fst ?r = Inr 102" by code_simp
  then have r: "?r = (Inr 102, snd ?r)" by (simp add: prod_eq_iff)
  have l: "fetch_library 1 demo_empty = Inr ?l" "library_department_of ?l (hall demo_empty) = Some 1" "lib_usage_bytes ?l = 0"
    by code_simp+
  from upload_within_quota [OF demo_empty_inv r l(1,2)] l(3) show ?thesis
    by (intro exI [of _ "snd ?r"]) (metis r)
qed

subsection \<open>Elevated deletion\<close>

lemma delete_entry_elevated:
  assumes "delete_entry L actor i entry_id s = (Inr True, s')" and inv: "shelf_inv s" and one: "one_open_access (hall s)"
  obtains l a where "fetch_library i s = Inr l" "active_temporary_access actor (hall s) = (Some a, hall s)"
    "lib_station l = Some (tsa_station a)" "isl (require_library actor l (hall s))" "roles (hall s') = roles (hall s)"
    "open_access actor (hall s') = None"
    "\<exists>l'. fetch_library i s' = Inr l' \<and> lib_station l' = lib_station l \<and> lib_department l' = lib_department l"
proof -
  let ?s0 = "expire_access actor s"
  have u0: "unique_rows lib_id (libraries ?s0)" "libraries ?s0 = libraries s"
    using shelf_invD(2) [OF inv] by (simp_all add: shelf_ids_def expire_access_def on_hall_def)
  from assms(1) have "delete_entry_at L actor i entry_id ?s0 = Inr (True, s')"
    unfolding delete_entry_def library_mutation_def Let_def
    by (auto simp: bind_res_Inr split: sum.splits if_splits dest!: require_library_access_Inr(1))
  then obtain l s1 s2 l1 md s3 where k: "locked_library actor i PERM_DELETE ?s0 = Inr ((l, True), s1)"
    and s2: "hall s2 = hall s1" "libraries s2 = libraries s1" and l1: "lib_id l1 = lib_id l" "lib_department l1 = lib_department l"
    and c: "changed L actor l1 ''library_entry'' entry_id ''deleted'' md s2 = Inr s3"
    and s': "s' = on_hall (\<lambda>w. snd (revoke_temporary_access actor ''consumed_by_deletion'' (Some entry_id) ''library_entry'' w)) s3"
    by (rule delete_entry_at_cases) (rule that, simp_all)
  note f = locked_library_frame [OF k]
  obtain a where a: "fst (active_temporary_access actor (hall ?s0)) = Some a" "lib_station l = Some (tsa_station a)"
    using f(4) by blast
  obtain r w' where w': "active_temporary_access actor (hall s) = (r, w')" by fastforce
  then have h0: "hall ?s0 = w'" by (simp add: expire_access_def on_hall_def)
  have "open_access actor w' = Some a" using active_access_SomeD(1) [of actor w' a] a(1) h0 by (metis prod.collapse)
  then have r1: "r = Some a" using active_access_open(1) [OF one w'] by simp
  have r: "r = Some a" "w' = hall s" using r1 active_access_open(2) [OF one w'] by simp_all
  have l: "l \<in> set (libraries s)" "lib_id l = i" using locked_library_same [OF k] u0(2) by simp_all
  have dep: "lib_department l = None"
    using shelf_invD(4) [OF inv] l(1) a(2) by (auto simp: library_constraints_def list_all_iff)
  have st: "staff (hall s3) = staff (hall s)"
    using changed_frame(2) [OF c] l1(2) dep s2(1) f(1) h0 r(2) by simp
  have get: "row_get lib_id i (libraries s) = Some l" using row_get_unique [of lib_id "libraries s" l] u0 l by simp
  have libs: "libraries s' = map (recorded l1) (libraries s)"
    using changed_frame(3) [OF c] s2(2) locked_library_same [OF k] u0(2) by (simp add: s' on_hall_def same_shelf_def)
  show thesis
  proof (rule that [of l a])
    show "fetch_library i s = Inr l" using get by (simp add: fetch_library_iff)
    show "active_temporary_access actor (hall s) = (Some a, hall s)" using w' r by simp
    show "isl (require_library actor l (hall s))" using f(3) h0 r(2) by simp
    show "roles (hall s') = roles (hall s)" using staffD(2) [OF st] by (simp add: s' on_hall_def)
    show "open_access actor (hall s') = None"
      using revoke_temporary_closes one_open_access_staff [OF st] one by (simp add: s' on_hall_def)
    show "\<exists>l'. fetch_library i s' = Inr l' \<and> lib_station l' = lib_station l \<and> lib_department l' = lib_department l"
      using get by (simp add: fetch_library_iff libs recorded_get)
  qed (rule a(2))
qed

text \<open>
  C29: A deletion on temporary access spends it: it needs an unexpired access to the station of the library,
  leaves the administrator with no open access, and a further deletion in that library is refused until access is
  activated again.
\<close>

theorem elevated_deletion_spends_access:
  assumes "shelf_inv s" and "temporary_access_constraints (temporary_accesses (hall s))"
    and "delete_entry L actor i entry_id s = (Inr True, s')"
  shows "(\<exists>l a. fetch_library i s = Inr l \<and> open_access actor (hall s) = Some a \<and> clock (hall s) < tsa_expires_at a
       \<and> lib_station l = Some (tsa_station a))
     \<and> open_access actor (hall s') = None
     \<and> (\<forall>entry_id'. fst (delete_entry L actor i entry_id' s') = Inl (PermissionDenied []))"
proof -
  have one: "one_open_access (hall s)" using assms(2) by (simp add: temporary_access_constraints_def)
  from delete_entry_elevated [OF assms(3,1) one] obtain l a l' where l: "fetch_library i s = Inr l"
    "active_temporary_access actor (hall s) = (Some a, hall s)" "lib_station l = Some (tsa_station a)"
    "isl (require_library actor l (hall s))" "roles (hall s') = roles (hall s)" "open_access actor (hall s') = None"
    "fetch_library i s' = Inr l'" "lib_station l' = lib_station l" "lib_department l' = lib_department l"
    by metis
  have "isl (require_library actor l' (hall s'))"
    using l(4,8,9) roles_require_scope [OF l(5)] by (simp add: require_library_def)
  moreover have "active_temporary_access actor (hall s') = (None, hall s')" using l(6) by (simp add: active_temporary_access_def)
  moreover from this have "expire_access actor s' = s'" by (simp add: expire_access_def on_hall_def)
  ultimately have "fst (delete_entry L actor i entry_id' s') = Inl (PermissionDenied [])" for entry_id'
    using l(3,7,8) unfolding delete_entry_def library_mutation_def Let_def
    by (auto simp: require_library_access_def is_permission_denied_def split: sum.splits)
  with l(1,3,6) active_access_SomeD [OF l(2)] show ?thesis by blast
qed

definition demo_elevated :: shelf where
  "demo_elevated = on_hall (\<lambda>w. w\<lparr>temporary_accesses := [new_access 60 7 (hd (stations w)) 0]\<rparr>) demo_shelf"

lemma demo_elevated_inv: "shelf_inv demo_elevated"
proof -
  have "same_shelf demo_shelf demo_elevated"
    unfolding demo_elevated_def by (rule same_shelf_core) (simp add: core_eq_def)
  from same_shelf_keeps [OF this] demo_shelf_inv show ?thesis by (simp add: preserves_def)
qed

text \<open>The returned value alone, without the audit record of the revocation.\<close>

lemma fst_bind_res: "map_sum id fst (bind_res m f) = bind_res m (\<lambda>x. map_sum id fst (f x))"
  by (cases m) simp_all

lemma fst_library_mutation:
  "fst (library_mutation actor i permission body s) =
     bind_res (fetch_library i (expire_access actor s)) (\<lambda>library.
     bind_res (require_library_access actor library permission (expire_access actor s)) (\<lambda>x. map_sum id fst (body (snd x))))"
  by (auto simp: library_mutation_def Let_def bind_res_def split: sum.split prod.split)

lemma delete_entry_at_value:
  "map_sum id fst (delete_entry_at L actor i entry_id s) =
     bind_res (locked_library actor i PERM_DELETE s) (\<lambda>((library, elevated), s1).
     bind_res (scoped_entry i entry_id False (entries s1)) (\<lambda>entry.
     bind_res (walk (\<lambda>_. True) (entries s1) entry_id) (\<lambda>found.
     let items = filter (\<lambda>e. ent_id e \<in> set (concat found)) (entries s1) in
     bind_res (changed L actor (library\<lparr>lib_usage_bytes := lib_usage_bytes library - sum_list (map (size_of s1) items)\<rparr>)
       ''library_entry'' entry_id ''deleted''
       [(''is_folder'', JBool (ent_is_folder entry)), (''item_count'', JInt (int (length items))),
        (''removed_ids'', JStr (join_ids (map ent_id (in_order items)))), (''elevated'', JBool elevated)]
       (s1\<lparr>entries := filter (\<lambda>e. ent_id e \<notin> set (concat found)) (entries s1)\<rparr>)) (\<lambda>_. Inr elevated))))"
proof (cases "locked_library actor i PERM_DELETE s")
  case (Inr x)
  obtain library elevated s1 where "x = ((library, elevated), s1)" by (metis surj_pair)
  with Inr show ?thesis by (simp add: delete_entry_at_def fst_bind_res Let_def)
qed (simp add: delete_entry_at_def)

theorem elevated_deletion_spends_access_witness:
  "\<exists>s'. delete_entry (demo_library_env demo_env) 7 21 42 demo_elevated = (Inr True, s') \<and> open_access 7 (hall s') = None
     \<and> (\<forall>e. fst (delete_entry (demo_library_env demo_env) 7 21 e s') = Inl (PermissionDenied []))"
proof -
  let ?r = "delete_entry (demo_library_env demo_env) 7 21 42 demo_elevated"
  have "fst ?r = Inr True" unfolding delete_entry_def fst_library_mutation delete_entry_at_value by code_simp
  then have r: "?r = (Inr True, snd ?r)" by (simp add: prod_eq_iff)
  have "temporary_access_constraints (temporary_accesses (hall demo_elevated))" by code_simp
  from elevated_deletion_spends_access [OF demo_elevated_inv this r] r show ?thesis by (intro exI [of _ "snd ?r"]) simp
qed

end
