(* ===== verification/Library_Refinement.thy ===== *)
theory Library_Refinement
  imports Library_Properties
begin

text \<open>
  The library as an abstract tree: a finite map from entries to their library, parent, name and content, and the
  relation of lying beneath an entry.  The services implement the updates of this map.
\<close>

subsection \<open>The abstract tree\<close>

type_synonym node = "nat \<times> nat option \<times> string \<times> nat option"

definition node_of :: "entry_row \<Rightarrow> node" where
  "node_of e = (ent_library e, ent_parent e, ent_name e, ent_content e)"

definition tree_of :: "shelf \<Rightarrow> nat \<rightharpoonup> node" where
  "tree_of s i = map_option node_of (row_get ent_id i (entries s))"

inductive beneath :: "(nat \<rightharpoonup> node) \<Rightarrow> nat \<Rightarrow> nat \<Rightarrow> bool" for t start where
  self: "beneath t start start"
| child: "beneath t start p \<Longrightarrow> t i = Some (l, Some p, n, c) \<Longrightarrow> beneath t start i"

definition without :: "(nat \<rightharpoonup> node) \<Rightarrow> nat \<Rightarrow> (nat \<rightharpoonup> node)" where
  "without t start = t |` {i. \<not> beneath t start i}"

definition relocated :: "node \<Rightarrow> string option \<Rightarrow> nat option option \<Rightarrow> node" where
  "relocated n name move =
     (case n of (l, p, old, c) \<Rightarrow>
        (l, case move of None \<Rightarrow> p | Some q \<Rightarrow> q, case name of None \<Rightarrow> old | Some x \<Rightarrow> strip x, c))"

subsection \<open>Walks find what lies beneath\<close>

lemma levels_beneath:
  assumes ok: "tree_ok (entries s)" and "levels fuel (child_ids (\<lambda>_. True) (entries s)) fr = Some ls"
    and "\<And>i. i \<in> set fr \<Longrightarrow> beneath (tree_of s) start i" and "i \<in> set (concat ls)"
  shows "beneath (tree_of s) start i"
  using assms(2-)
proof (induction fuel arbitrary: fr ls)
  case (Suc fuel)
  show ?case
  proof (cases "fr = []")
    case False
    let ?next = "child_ids (\<lambda>_. True) (entries s) fr"
    from False Suc.prems(1) obtain rest where r: "levels fuel (child_ids (\<lambda>_. True) (entries s)) ?next = Some rest" "ls = fr # rest" by auto
    have "beneath (tree_of s) start k" if k: "k \<in> set ?next" for k
    proof -
      from k obtain e p where e: "e \<in> set (entries s)" "ent_id e = k" "p \<in> set fr" "ent_parent e = Some p"
        by (auto simp: child_ids_iff)
      then have "tree_of s k = Some (ent_library e, Some p, ent_name e, ent_content e)"
        using row_get_unique [OF tree_okD(1) [OF ok] e(1)] by (simp add: tree_of_def node_of_def)
      with Suc.prems(2) [OF e(3)] show ?thesis by (rule beneath.child)
    qed
    with Suc.IH [OF r(1)] Suc.prems(2,3) r(2) show ?thesis by auto
  qed (use Suc.prems in auto)
qed simp

lemma walk_is_beneath:
  assumes ok: "tree_ok (entries s)" and w: "walk (\<lambda>_. True) (entries s) start = Inr ls"
  shows "i \<in> set (concat ls) \<longleftrightarrow> beneath (tree_of s) start i"
proof
  assume "beneath (tree_of s) start i"
  then show "i \<in> set (concat ls)"
  proof induction
    case self
    show ?case by (rule walk_closed(1) [OF w])
  next
    case (child p i l n c)
    from child(2) obtain e where e: "row_get ent_id i (entries s) = Some e" "ent_parent e = Some p"
      by (auto simp: tree_of_def node_of_def)
    from walk_closed(2) [OF w row_get_mem [OF e(1)] e(2) child.IH] row_get_key [OF e(1)] show ?case by simp
  qed
next
  assume "i \<in> set (concat ls)"
  then show "beneath (tree_of s) start i"
    using levels_beneath [OF ok, of _ "[start]" ls start i] w by (auto simp: walk_def of_option_Inr intro: beneath.self)
qed

subsection \<open>What a mutation leaves of the tree\<close>

lemma tree_of_cong: "entries s' = entries s \<Longrightarrow> tree_of s' = tree_of s"
  by (simp add: tree_of_def fun_eq_iff)

lemma mutation_result:
  assumes "library_mutation actor i permission body s = (r, s')"
  shows "entries s' = entries s \<and> isl r \<or> (\<exists>x. r = Inr x \<and> body (expire_access actor s) = Inr (x, s'))"
  using assms
  by (auto simp: library_mutation_def Let_def bind_res_Inr expire_access_def on_hall_def split: sum.splits
      dest!: require_library_access_Inr(1))

lemma mutation_tree:
  assumes "\<And>x s'. body (expire_access actor s) = Inr (x, s') \<Longrightarrow> Q x s'"
  shows "case library_mutation actor i permission body s of
     (Inr x, s') \<Rightarrow> Q x s' | (Inl e, s') \<Rightarrow> tree_of s' = tree_of s"
proof (cases "library_mutation actor i permission body s")
  case (Pair r s')
  from mutation_result [OF Pair] assms Pair show ?thesis by (cases r) (auto intro: tree_of_cong)
qed

lemma tree_of_snoc:
  assumes "entries s' = entries s @ [x]" and "ent_id x \<notin> ent_id ` set (entries s)"
  shows "tree_of s (ent_id x) = None \<and> tree_of s' = (tree_of s)(ent_id x \<mapsto> node_of x)"
  using assms row_get_None [of ent_id "ent_id x" "entries s"]
  by (auto simp: tree_of_def fun_eq_iff row_get_snoc split: option.split dest: row_get_key)

lemma tree_of_put:
  assumes "entries s' = row_put ent_id y (entries s)" and "x \<in> set (entries s)" and "ent_id y = ent_id x"
  shows "tree_of s' = (tree_of s)(ent_id x \<mapsto> node_of y)"
  using assms by (auto simp: tree_of_def fun_eq_iff row_get_put)

lemma tree_of_filter:
  assumes "entries s' = filter (\<lambda>e. ent_id e \<notin> D) (entries s)"
  shows "tree_of s' = tree_of s |` (- D)"
proof
  fix i
  have "row_get ent_id i (filter (\<lambda>e. ent_id e \<notin> D) rows) = (if i \<in> D then None else row_get ent_id i rows)" for rows :: "entry_row list"
    by (induction rows) (auto simp: row_get_def)
  then show "tree_of s' i = (tree_of s |` (- D)) i" by (simp add: tree_of_def assms restrict_map_def)
qed

lemma name_value_Inr: "name_value pdf raw = Inr name \<Longrightarrow> name = strip raw"
  by (auto simp: name_value_def Let_def bind_res_Inr)

lemma expired_tree:
  assumes "shelf_inv s"
  shows "shelf_inv (expire_access actor s)" "entries (expire_access actor s) = entries s"
  using expire_access_keeps [of s actor] assms by (simp_all add: preserves_def expire_access_def on_hall_def)

lemma locked_tree:
  assumes "locked_library actor i permission s = Inr ((l, b), s1)" and "shelf_inv s"
  shows "shelf_inv s1" "entries s1 = entries s"
  using locked_library_same [OF assms(1)] same_shelf_keeps assms(2) by (auto simp: same_shelf_def preserves_def)

lemma create_folder_at_tree:
  assumes "create_folder_at L actor i name0 parent_id s = Inr (j, s')" and "shelf_inv s"
  shows "tree_of s j = None \<and> tree_of s' = (tree_of s)(j \<mapsto> (i, parent_id, strip name0, None))"
  using assms(1) unfolding create_folder_at_def
proof (elim bind_resE, goal_cases)
  case (1 a)
  obtain l b s1 where a: "a = ((l, b), s1)" by (metis surj_pair)
  obtain j' s2 where f: "fresh_shelf_id s1 = (j', s2)" by fastforce
  from 1(2) a f obtain name parent s3 where name: "name_value False name0 = Inr name"
    and p: "parent_entry i parent_id (entries s1) = Inr parent"
    and e: "put_entries (entries s2 @ [new_entry j i (map_option ent_id parent) name None actor (clock (hall s))]) s2 = Inr s3"
    and c: "changed L actor l ''library_entry'' j ''folder_created'' [] s3 = Inr s'" and j: "j' = j"
    by (auto simp: bind_res_Inr)
  let ?x = "new_entry j i parent_id (strip name0) None actor (clock (hall s))"
  note s1 = locked_tree [OF 1(1) [unfolded a] assms(2)]
  have "entries s' = entries s @ [?x]"
    using changed_frame(4) [OF c] e fresh_shelf(5) [OF f s1(1)] s1(2) parent_entry_Inr [OF p] name_value_Inr [OF name]
    by (simp add: put_entries_Inr)
  moreover have "ent_id ?x \<notin> ent_id ` set (entries s)" using fresh_shelf(7) [OF f s1(1)] s1(2) j by (simp add: new_entry_def)
  ultimately show ?case using tree_of_snoc [of s' s ?x] by (simp add: new_entry_def node_of_def)
qed

lemma edit_entry_at_tree:
  assumes "edit_entry_at L actor i entry_id name0 move s = Inr (u, s')" and "shelf_inv s"
  shows "\<exists>n. tree_of s entry_id = Some n \<and> tree_of s' = (tree_of s)(entry_id \<mapsto> relocated n name0 move)"
  using assms(1) unfolding edit_entry_at_def
proof (elim bind_resE, goal_cases)
  case (1 a)
  obtain l b s1 where a: "a = ((l, b), s1)" by (metis surj_pair)
  note s1 = locked_tree [OF 1(1) [unfolded a] assms(2)]
  from 1(2) a obtain e name parent where e: "scoped_entry i entry_id False (entries s1) = Inr e"
    and n: "(case name0 of None \<Rightarrow> Inr (ent_name e) | Some n \<Rightarrow> name_value (\<not> ent_is_folder e) n) = Inr name"
    and p: "(case move of None \<Rightarrow> parent_of (entries s1) e | Some parent_id \<Rightarrow> parent_entry i parent_id (entries s1)) = Inr parent"
    and r: "name = ent_name e \<and> map_option ent_id parent = ent_parent e \<and> s' = s1
       \<or> (\<exists>s2 op md. put_entries (row_put ent_id (e\<lparr>ent_name := name, ent_parent := map_option ent_id parent,
           ent_modified_by := actor, ent_modified_at := clock (hall s)\<rparr>) (entries s1)) s1 = Inr s2
         \<and> changed L actor l ''library_entry'' entry_id op md s2 = Inr s')"
    by (auto simp: bind_res_Inr split: if_splits) blast+
  have e: "e \<in> set (entries s)" "ent_id e = entry_id" using scoped_entry_Inr [OF e] s1(2) by simp_all
  have node: "tree_of s entry_id = Some (node_of e)"
    using row_get_unique [OF tree_okD(1) [OF shelf_invD(3) [OF assms(2)]] e(1)] e(2) by (simp add: tree_of_def)
  have new: "relocated (node_of e) name0 move = (ent_library e, map_option ent_id parent, name, ent_content e)"
  proof -
    have "map_option ent_id parent = (case move of None \<Rightarrow> ent_parent e | Some q \<Rightarrow> q)"
    proof (cases move)
      case None
      with p s1(2) parent_of_Inr [OF shelf_invD(3) [OF assms(2)] e(1), of parent] show ?thesis by simp
    next
      case (Some q)
      with p parent_entry_Inr [of i q "entries s1" parent] show ?thesis by simp
    qed
    moreover have "name = (case name0 of None \<Rightarrow> ent_name e | Some x \<Rightarrow> strip x)"
      using n by (cases name0) (auto dest: name_value_Inr)
    ultimately show ?thesis by (simp add: relocated_def node_of_def)
  qed
  from r show ?case
  proof (elim disjE exE conjE, goal_cases)
    case 1
    then have "relocated (node_of e) name0 move = node_of e" using new by (simp add: node_of_def)
    moreover have "tree_of s' = tree_of s" by (rule tree_of_cong) (simp add: 1(3) s1(2))
    ultimately show ?case using node by (intro exI [of _ "node_of e"]) (simp add: fun_upd_idem)
  next
    case (2 s2 op md)
    let ?y = "e\<lparr>ent_name := name, ent_parent := map_option ent_id parent, ent_modified_by := actor, ent_modified_at := clock (hall s)\<rparr>"
    have "tree_of s' = (tree_of s)(ent_id e \<mapsto> node_of ?y)"
      by (rule tree_of_put [OF _ e(1)]) (use changed_frame(4) [OF 2(2)] 2(1) s1(2) in \<open>simp_all add: put_entries_Inr\<close>)
    then show ?case using node new e(2) by (simp add: node_of_def)
  qed
qed

lemma delete_entry_at_tree:
  assumes "delete_entry_at L actor i entry_id s = Inr (b, s')" and "shelf_inv s"
  shows "tree_of s' = without (tree_of s) entry_id"
  using assms(1)
proof (rule delete_entry_at_cases, goal_cases)
  case (1 l s1 e found s2 l1 md s3)
  note s1 = locked_tree [OF 1(1) assms(2)]
  have "entries s' = filter (\<lambda>e. ent_id e \<notin> set (concat found)) (entries s)"
    using changed_frame(4) [OF 1(6)] s1(2) by (simp add: 1(5,7) on_hall_def)
  then have "tree_of s' = tree_of s |` (- set (concat found))" by (rule tree_of_filter)
  moreover have "- set (concat found) = {j. \<not> beneath (tree_of s) entry_id j}"
    using walk_is_beneath [OF shelf_invD(3) [OF assms(2)], of entry_id found] 1(3) s1(2) by auto
  ultimately show ?thesis by (simp add: without_def)
qed

subsection \<open>Refinement\<close>

text \<open>
  C27: The mutations of a library implement the updates of the abstract tree: creating a folder adds one fresh node
  under the chosen parent, editing an entry changes its name and parent and nothing else, deleting an entry
  removes it with everything beneath it and nothing else, and a mutation that raises leaves the tree
  as it was.
\<close>

theorem library_refines_tree:
  assumes "shelf_inv s"
  shows "(case create_folder L actor i title parent_id s of
            (Inr j, s') \<Rightarrow> tree_of s j = None \<and> tree_of s' = (tree_of s)(j \<mapsto> (i, parent_id, strip title, None))
          | (Inl e, s') \<Rightarrow> tree_of s' = tree_of s)
     \<and> (case edit_entry L actor i entry_id rename move s of
            (Inr _, s') \<Rightarrow> \<exists>n. tree_of s entry_id = Some n \<and> tree_of s' = (tree_of s)(entry_id \<mapsto> relocated n rename move)
          | (Inl e, s') \<Rightarrow> tree_of s' = tree_of s)
     \<and> (case delete_entry L actor i entry_id s of
            (Inr _, s') \<Rightarrow> tree_of s' = without (tree_of s) entry_id
          | (Inl e, s') \<Rightarrow> tree_of s' = tree_of s)"
proof -
  note s0 = expired_tree [OF assms, of actor]
  note t0 = tree_of_cong [OF s0(2)]
  show ?thesis
  proof (intro conjI)
    show "case create_folder L actor i title parent_id s of
            (Inr j, s') \<Rightarrow> tree_of s j = None \<and> tree_of s' = (tree_of s)(j \<mapsto> (i, parent_id, strip title, None))
          | (Inl e, s') \<Rightarrow> tree_of s' = tree_of s"
      unfolding create_folder_def
      by (rule mutation_tree) (use create_folder_at_tree [OF _ s0(1)] t0 in auto)
    show "case edit_entry L actor i entry_id rename move s of
            (Inr _, s') \<Rightarrow> \<exists>n. tree_of s entry_id = Some n \<and> tree_of s' = (tree_of s)(entry_id \<mapsto> relocated n rename move)
          | (Inl e, s') \<Rightarrow> tree_of s' = tree_of s"
      unfolding edit_entry_def
      by (rule mutation_tree) (use edit_entry_at_tree [OF _ s0(1)] t0 in auto)
    show "case delete_entry L actor i entry_id s of
            (Inr _, s') \<Rightarrow> tree_of s' = without (tree_of s) entry_id
          | (Inl e, s') \<Rightarrow> tree_of s' = tree_of s"
      unfolding delete_entry_def
      by (rule mutation_tree) (use delete_entry_at_tree [OF _ s0(1)] t0 in auto)
  qed
qed

theorem library_refines_tree_witness:
  "(\<exists>s'. create_folder (demo_library_env demo_env) 7 20 '' New '' (Some 40) demo_shelf = (Inr 101, s')
       \<and> tree_of s' = (tree_of demo_shelf)(101 \<mapsto> (20, Some 40, ''New'', None)))
     \<and> (\<exists>s'. delete_entry (demo_library_env demo_env) 7 20 40 demo_shelf = (Inr False, s')
       \<and> tree_of s' = without (tree_of demo_shelf) 40)"
proof (intro conjI)
  let ?c = "create_folder (demo_library_env demo_env) 7 20 '' New '' (Some 40) demo_shelf"
  have "fst ?c = Inr 101" by code_simp
  then have c: "?c = (Inr 101, snd ?c)" by (simp add: prod_eq_iff)
  moreover have "strip '' New '' = ''New''" by code_simp
  ultimately have "tree_of (snd ?c) = (tree_of demo_shelf)(101 \<mapsto> (20, Some 40, ''New'', None))"
    using library_refines_tree [OF demo_shelf_inv, where L = "demo_library_env demo_env" and actor = 7 and i = 20
        and title = "'' New ''" and parent_id = "Some 40", THEN conjunct1]
    by (auto split: prod.splits)
  with c show "\<exists>s'. ?c = (Inr 101, s') \<and> tree_of s' = (tree_of demo_shelf)(101 \<mapsto> (20, Some 40, ''New'', None))" by blast
  let ?d = "delete_entry (demo_library_env demo_env) 7 20 40 demo_shelf"
  have "fst ?d = Inr False" unfolding delete_entry_def fst_library_mutation delete_entry_at_value by code_simp
  then have d: "?d = (Inr False, snd ?d)" by (simp add: prod_eq_iff)
  then have "tree_of (snd ?d) = without (tree_of demo_shelf) 40"
    using library_refines_tree [OF demo_shelf_inv, where L = "demo_library_env demo_env" and actor = 7 and i = 20 and entry_id = 40,
        THEN conjunct2, THEN conjunct2]
    by (auto split: prod.splits)
  with d show "\<exists>s'. ?d = (Inr False, s') \<and> tree_of s' = without (tree_of demo_shelf) 40" by blast
qed

end
