(* ===== verification/Library_Explorer.thy ===== *)
theory Library_Explorer
  imports Library_Refinement
begin

text \<open>
  The read model of the file explorer (apps/file_library/explorer.py): ordering, search, paging and breadcrumbs of
  one authorized library.  Names compare by code point.
\<close>

datatype sort_field = SORT_NAME | SORT_MODIFIED | SORT_SIZE

definition MAX_PAGE_SIZE :: int where "MAX_PAGE_SIZE = 100"

text \<open>A stable descending sort.\<close>

definition sort_desc :: "('a \<Rightarrow> 'k::linorder) \<Rightarrow> 'a list \<Rightarrow> 'a list" where
  "sort_desc key xs = rev (sort_key key (rev xs))"

definition entry_size :: "shelf \<Rightarrow> entry_row \<Rightarrow> int option" where
  "entry_size s e = map_option con_size_bytes (content_of e s)"

definition ordered_entries :: "shelf \<Rightarrow> sort_field \<Rightarrow> bool \<Rightarrow> entry_row list \<Rightarrow> entry_row list" where
  "ordered_entries s field descending rows =
     (let by_id = sort_key ent_id rows;
          by_field = (case field of
              SORT_NAME \<Rightarrow> (if descending then sort_desc (\<lambda>e. lower (ent_name e)) by_id else sort_key (\<lambda>e. lower (ent_name e)) by_id)
            | SORT_MODIFIED \<Rightarrow> (if descending then sort_desc ent_modified_at by_id else sort_key ent_modified_at by_id)
            | SORT_SIZE \<Rightarrow> sort_key (\<lambda>e. case entry_size s e of None \<Rightarrow> (True, 0)
                | Some n \<Rightarrow> (False, if descending then - n else n)) by_id)
      in sort_key (\<lambda>e. \<not> ent_is_folder e) by_field)"

text \<open>\<open>Paginator.page\<close> without orphans: the first page may be empty.\<close>

definition page_of :: "int \<Rightarrow> int \<Rightarrow> 'a list \<Rightarrow> 'a list res" where
  "page_of page_size number rows =
     (let hits = max 1 (int (length rows)); num_pages = (hits + page_size - 1) div page_size in
      bind_res (require (1 \<le> number \<and> number \<le> num_pages) (ValueError ''EmptyPage'')) (\<lambda>_.
      Inr (take (nat page_size) (drop (nat ((number - 1) * page_size)) rows))))"

fun contains_text :: "string \<Rightarrow> string \<Rightarrow> bool" where
  "contains_text needle hay = (take (length needle) hay = needle \<or> (case hay of [] \<Rightarrow> False | _ # t \<Rightarrow> contains_text needle t))"

datatype operation = PREVIEW | DOWNLOAD | DELETE | UPLOAD | CREATE_FOLDER | RENAME | MOVE | REPLACE

record explorer_model =
  exp_library :: library_row
  exp_breadcrumbs :: "entry_row list"
  exp_items :: "(entry_row \<times> entry_row list) list"
  exp_file_count :: nat
  exp_elevated :: bool
  exp_operations :: "operation list"

fun each_path :: "nat \<Rightarrow> entry_row list \<Rightarrow> entry_row list \<Rightarrow> (entry_row \<times> entry_row list) list res" where
  "each_path library_id rows [] = Inr []"
| "each_path library_id rows (e # es) =
     bind_res (parent_of rows e) (\<lambda>p.
     bind_res (folder_ancestry library_id p rows) (\<lambda>path.
     bind_res (each_path library_id rows es) (\<lambda>rest. Inr ((e, path) # rest))))"

definition read_explorer ::
  "nat \<Rightarrow> nat \<Rightarrow> nat option \<Rightarrow> string \<Rightarrow> sort_field \<Rightarrow> bool \<Rightarrow> int \<Rightarrow> int \<Rightarrow> shelf \<Rightarrow> (explorer_model \<times> shelf) res" where
  "read_explorer actor library_id folder_id query0 field descending page page_size s =
     bind_res (fetch_library library_id s) (\<lambda>library.
     bind_res (require_library_access actor library PERM_READ s) (\<lambda>(elevated, s1).
     bind_res (parent_entry library_id folder_id (entries s1)) (\<lambda>current.
     bind_res (folder_ancestry library_id current (entries s1)) (\<lambda>breadcrumbs.
     bind_res (require (1 \<le> page_size \<and> page_size \<le> MAX_PAGE_SIZE)
       (LibraryError ''Page size must be between 1 and 100.'')) (\<lambda>_.
     let query = take 255 (strip query0);
         own = filter (\<lambda>e. ent_library e = library_id) (entries s1);
         found = (if query \<noteq> [] then filter (\<lambda>e. contains_text (lower query) (lower (ent_name e))) own
                  else filter (\<lambda>e. ent_parent e = map_option ent_id current) own) in
     bind_res (page_of page_size page (ordered_entries s1 field descending found)) (\<lambda>selected.
     bind_res (each_path library_id (entries s1) selected) (\<lambda>items.
     Inr (\<lparr>exp_library = library, exp_breadcrumbs = breadcrumbs, exp_items = items,
          exp_file_count = length (filter (\<lambda>e. \<not> ent_is_folder e) own), exp_elevated = elevated,
          exp_operations = [PREVIEW, DOWNLOAD, DELETE]
            @ (if elevated then [] else [UPLOAD, CREATE_FOLDER, RENAME, MOVE, REPLACE])\<rparr>, s1))))))))"

subsection \<open>Breadcrumbs\<close>

text \<open>
  \<open>d\<close> is the least depth of the folder: the folders met before it lie deeper, so the cycle check of the
  ancestry never fires.
\<close>

lemma ancestry_returns:
  assumes ok: "tree_ok rows" and "f \<in> set rows" and "ent_is_folder f" and "ent_library f = l"
    and "within (Suc d) rows (Some (ent_id f))" and "\<not> within d rows (Some (ent_id f))"
    and "d < n" and "\<And>i. i \<in> set seen \<Longrightarrow> \<not> within (Suc d) rows (Some i)"
  shows "\<exists>path. ancestry n l rows seen (Some f) = Inr (path @ [f]) \<and> length path = d"
  using assms(2-)
proof (induction d arbitrary: f n seen)
  case (0 f n seen)
  then obtain m where n: "n = Suc m" by (cases n) auto
  have get: "row_get ent_id (ent_id f) rows = Some f" by (rule row_get_unique [OF tree_okD(1) [OF ok] 0(1)])
  with 0(4) have "ent_parent f = None" by (cases "ent_parent f") auto
  moreover have "ent_id f \<notin> set seen" using 0(4,7) by blast
  ultimately show ?case using 0(2,3) n by (simp add: require_def parent_of_def)
next
  case (Suc d f n seen)
  then obtain m where n: "n = Suc m" by (cases n) auto
  have get: "row_get ent_id (ent_id f) rows = Some f" by (rule row_get_unique [OF tree_okD(1) [OF ok] Suc.prems(1)])
  have new: "ent_id f \<notin> set seen" using Suc.prems(4,7) by blast
  obtain q where q: "ent_parent f = Some q"
    using Suc.prems(2,5) get by (cases "ent_parent f") auto
  from parent_folder [OF ok Suc.prems(1) q] obtain p where p: "row_get ent_id q rows = Some p" "ent_is_folder p"
      "ent_library p = ent_library f" "p \<in> set rows" .
  have id: "ent_id p = q" by (rule row_get_key [OF p(1)])
  have "\<exists>path. ancestry m l rows (ent_id f # seen) (Some p) = Inr (path @ [p]) \<and> length path = d"
  proof (rule Suc.IH)
    show "within (Suc d) rows (Some (ent_id p))" using Suc.prems(4) get q id Suc.prems(2) by simp
    show "\<not> within d rows (Some (ent_id p))" using Suc.prems(5) get q id Suc.prems(2) by simp
    show "\<not> within (Suc d) rows (Some i)" if "i \<in> set (ent_id f # seen)" for i
      using that Suc.prems(5,7) within_mono [of "Suc d" rows "Some i" "Suc (Suc d)"] by auto
  qed (use p Suc.prems(3,6) n in simp_all)
  then obtain path where "ancestry m l rows (ent_id f # seen) (Some p) = Inr (path @ [p])" "length path = d" by blast
  then show ?case using n new Suc.prems(2,3) q p(1) by (simp add: require_def parent_of_def)
qed

lemma least_depth:
  assumes "within n rows (Some i)"
  obtains d where "d < n" "within (Suc d) rows (Some i)" "\<not> within d rows (Some i)"
proof -
  define k where "k = (LEAST k. within k rows (Some i))"
  have w: "within k rows (Some i)" and le: "k \<le> n" unfolding k_def using assms by (auto intro: LeastI Least_le)
  then obtain d where d: "k = Suc d" by (cases k) auto
  have "\<not> within d rows (Some i)" using not_less_Least [of d "\<lambda>k. within k rows (Some i)"] d k_def by simp
  with that [of d] w le d show ?thesis by simp
qed

lemma folder_ancestry_returns:
  assumes "tree_ok rows" and "f \<in> set rows" and "ent_is_folder f"
  shows "\<exists>path. folder_ancestry (ent_library f) (Some f) rows = Inr (path @ [f]) \<and> length path < MAX_FOLDER_DEPTH"
proof -
  obtain d where d: "d < MAX_FOLDER_DEPTH" "within (Suc d) rows (Some (ent_id f))" "\<not> within d rows (Some (ent_id f))"
    using least_depth [OF tree_okD(4) [OF assms]] .
  from ancestry_returns [OF assms refl d(2,3,1), of "[]"] d(1) show ?thesis by (auto simp: folder_ancestry_def)
qed

lemma each_path_returns:
  assumes "tree_ok rows" and "\<And>e. e \<in> set es \<Longrightarrow> e \<in> set rows \<and> ent_library e = l"
  shows "\<exists>items. each_path l rows es = Inr items \<and> map fst items = es \<and> (\<forall>x\<in>set items. length (snd x) \<le> MAX_FOLDER_DEPTH)"
  using assms(2)
proof (induction es)
  case (Cons e es)
  have e: "e \<in> set rows" "ent_library e = l" using Cons.prems [of e] by simp_all
  have "\<exists>p path. parent_of rows e = Inr p \<and> folder_ancestry l p rows = Inr path \<and> length path \<le> MAX_FOLDER_DEPTH"
  proof (cases "ent_parent e")
    case None
    then show ?thesis by (simp add: parent_of_def folder_ancestry_def)
  next
    case (Some q)
    from parent_folder [OF assms(1) e(1) Some] obtain f where f: "row_get ent_id q rows = Some f" "ent_is_folder f"
        "ent_library f = ent_library e" "f \<in> set rows" .
    with folder_ancestry_returns [OF assms(1) f(4,2)] Some e(2) show ?thesis by (auto simp: parent_of_def)
  qed
  moreover have "\<exists>items. each_path l rows es = Inr items \<and> map fst items = es \<and> (\<forall>x\<in>set items. length (snd x) \<le> MAX_FOLDER_DEPTH)"
    by (rule Cons.IH) (use Cons.prems in auto)
  ultimately show ?case by auto
qed simp

subsection \<open>Opening a folder\<close>

lemma set_ordered_entries: "set (ordered_entries s field descending rows) = set rows"
  by (cases field) (simp_all add: ordered_entries_def sort_desc_def Let_def)

lemma find_keyed:
  assumes "unique_rows key rows" and "x \<in> set rows" and "P x"
  shows "find (\<lambda>y. P y \<and> key y = key x) rows = Some x"
  using assms by (induction rows) (auto simp: image_iff)

lemma first_page:
  assumes "1 \<le> psize"
  shows "page_of psize 1 rows = Inr (take (nat psize) rows)"
proof -
  have "0 < (max 1 (int (length rows)) + psize - 1) div psize"
    using assms by (subst pos_imp_zdiv_pos_iff) simp_all
  then show ?thesis by (simp add: page_of_def require_def Let_def)
qed

text \<open>
  Whoever may read a library can open every folder of it: the breadcrumbs of the folder, at most five long
  and ending in the folder, are found with the mutation rules' own cycle and depth check, and the first page lists the
  folder's entries in the requested order with the path of each.
\<close>

theorem explorer_opens_every_folder:
  assumes "shelf_inv s" and "fetch_library i s = Inr l" and "require_library_access actor l PERM_READ s = Inr (elevated, s1)"
    and "f \<in> set (entries s)" and "ent_is_folder f" and "ent_library f = i" and "1 \<le> psize" and "psize \<le> MAX_PAGE_SIZE"
  shows "\<exists>m path. read_explorer actor i (Some (ent_id f)) [] field descending 1 psize s = Inr (m, s)
     \<and> exp_breadcrumbs m = path @ [f] \<and> length path < MAX_FOLDER_DEPTH
     \<and> map fst (exp_items m) = take (nat psize) (ordered_entries s field descending
         (filter (\<lambda>e. ent_parent e = Some (ent_id f)) (filter (\<lambda>e. ent_library e = i) (entries s))))
     \<and> (\<forall>x\<in>set (exp_items m). length (snd x) \<le> MAX_FOLDER_DEPTH)"
proof -
  note ok = shelf_invD(3) [OF assms(1)]
  let ?own = "filter (\<lambda>e. ent_library e = i) (entries s)"
  let ?page = "take (nat psize) (ordered_entries s field descending (filter (\<lambda>e. ent_parent e = Some (ent_id f)) ?own))"
  have s1: "s1 = s" by (rule require_library_access_Inr(1) [OF assms(3)])
  have "find (\<lambda>e. ent_library e = i \<and> ent_id e = ent_id f) (entries s) = Some f"
    by (rule find_keyed [OF tree_okD(1) [OF ok] assms(4)]) (simp add: assms(6))
  then have p: "parent_entry i (Some (ent_id f)) (entries s) = Inr (Some f)"
    using assms(5) by (simp add: parent_entry_def scoped_entry_def require_def)
  obtain path where path: "folder_ancestry i (Some f) (entries s) = Inr (path @ [f])" "length path < MAX_FOLDER_DEPTH"
    using folder_ancestry_returns [OF ok assms(4,5)] assms(6) by auto
  have "e \<in> set (entries s) \<and> ent_library e = i" if "e \<in> set ?page" for e
    using in_set_takeD [OF that] by (simp add: set_ordered_entries)
  from each_path_returns [OF ok this] obtain items where items: "each_path i (entries s) ?page = Inr items" "map fst items = ?page"
      "\<forall>x\<in>set items. length (snd x) \<le> MAX_FOLDER_DEPTH"
    by blast
  have "strip [] = []" by (simp add: strip_def)
  then show ?thesis
    using assms(2,3,7,8) p path items s1
    by (simp add: read_explorer_def require_def first_page)
qed

theorem explorer_opens_every_folder_witness:
  "\<exists>m path. read_explorer 7 20 (Some 40) [] SORT_NAME False 1 25 demo_shelf = Inr (m, demo_shelf)
     \<and> exp_breadcrumbs m = path @ [new_entry 40 20 None ''Plans'' None 7 0]
     \<and> map fst (exp_items m) = [new_entry 41 20 (Some 40) ''a.pdf'' (Some 30) 7 0]"
proof -
  let ?f = "new_entry 40 20 None ''Plans'' None 7 0" and ?e = "new_entry 41 20 (Some 40) ''a.pdf'' (Some 30) 7 0"
  have f: "?f \<in> set (entries demo_shelf)" "ent_is_folder ?f" "ent_library ?f = 20" "(1::int) \<le> 25" "25 \<le> MAX_PAGE_SIZE"
    by (simp_all add: demo_shelf_def new_entry_def MAX_PAGE_SIZE_def)
  have l: "fetch_library 20 demo_shelf = Inr (hd (libraries demo_shelf))" by code_simp
  have a: "require_library_access 7 (hd (libraries demo_shelf)) PERM_READ demo_shelf = Inr (False, demo_shelf)"
  proof -
    have "require_library 7 (hd (libraries demo_shelf)) (hall demo_shelf) = Inr ()" by code_simp
    then show ?thesis by (simp add: require_library_access_def)
  qed
  have "take 25 (ordered_entries demo_shelf SORT_NAME False (filter (\<lambda>e. ent_parent e = Some 40)
      (filter (\<lambda>e. ent_library e = 20) (entries demo_shelf)))) = [?e]" by code_simp
  with explorer_opens_every_folder [OF demo_shelf_inv l a f, of SORT_NAME False] show ?thesis
    by (auto simp: new_entry_def)
qed

end
