(* ===== verification/Personnel.thy ===== *)
theory Personnel
  imports Fleet Lifecycle_Queue Py_String
begin

text \<open>
  Personnel and their stations: apps/personnel/models.py and services.py, and the personnel half of
  apps/assignments/models.py and services.py.  The state wraps the fleet (\<open>yard\<close>), whose \<open>base\<close> holds the
  publication scopes every change of a roster marks dirty.
\<close>

subsection \<open>Rows\<close>

datatype person_status = PER_ACTIVE | PER_DEPARTED | PER_ANONYMIZED

record person_row =
  per_id :: nat
  per_department :: nat
  per_personnel_number :: "string option"
  per_first_name :: "string option"
  per_last_name :: "string option"
  per_display_name :: string
  per_lifecycle_status :: person_status
  per_active :: bool
  per_commander_eligible :: bool
  per_commander_email :: "string option"
  per_email_verified_at :: "timestamp option"
  per_email_verified_by :: "nat option"
  per_departed_at :: "timestamp option"
  per_retention_until :: "timestamp option"
  per_anonymized_at :: "timestamp option"
  per_anonymized_by :: "nat option"
  per_updated_at :: timestamp

datatype assignment_type = HOME | TEMPORARY

record station_assignment_row =
  psa_id :: nat
  psa_person :: nat
  psa_station :: nat
  psa_assignment_type :: assignment_type
  psa_valid_from :: timestamp
  psa_valid_until :: "timestamp option"
  psa_reason :: string
  psa_created_by :: "nat option"
  psa_ended_by :: "nat option"
  psa_ended_at :: "timestamp option"

record retention_policy_row =
  rpo_department :: nat
  rpo_retention_period :: int
  rpo_updated_by :: "nat option"

text \<open>
  The roster.  \<open>recipient_policies\<close> are the mail domains a department restricts its recipients to
  (apps/outbound_mail/models.py): whether the restriction is on, and the approved domains.
\<close>

record roster =
  yard :: fleet
  people :: "person_row list"
  station_assignments :: "station_assignment_row list"
  retention_policies :: "retention_policy_row list"
  recipient_policies :: "(nat \<times> bool \<times> string list) list"

abbreviation roster_base :: "roster \<Rightarrow> world" where
  "roster_base r \<equiv> base (yard r)"

abbreviation roster_now :: "roster \<Rightarrow> timestamp" where
  "roster_now r \<equiv> clock (base (yard r))"

definition person_lifecycle_consistent :: "person_row \<Rightarrow> bool" where
  "person_lifecycle_consistent p =
     (case per_lifecycle_status p of
        PER_ACTIVE \<Rightarrow> per_active p \<and> per_departed_at p = None
      | PER_DEPARTED \<Rightarrow> \<not> per_active p \<and> per_departed_at p \<noteq> None
      | PER_ANONYMIZED \<Rightarrow> \<not> per_active p \<and> per_anonymized_at p \<noteq> None)"

definition person_constraints :: "person_row list \<Rightarrow> bool" where
  "person_constraints rows =
     (distinct (map (\<lambda>p. (per_department p, per_personnel_number p))
        (filter (\<lambda>p. per_lifecycle_status p = PER_ACTIVE \<and> per_personnel_number p \<noteq> None) rows))
      \<and> list_all person_lifecycle_consistent rows)"

definition open_home :: "station_assignment_row \<Rightarrow> bool" where
  "open_home a = (psa_assignment_type a = HOME \<and> psa_valid_until a = None \<and> psa_ended_at a = None)"

definition station_assignment_constraints :: "station_assignment_row list \<Rightarrow> bool" where
  "station_assignment_constraints rows =
     (distinct (map psa_person (filter open_home rows))
      \<and> list_all (\<lambda>a. case psa_valid_until a of None \<Rightarrow> True | Some u \<Rightarrow> u > psa_valid_from a) rows)"

definition put_people :: "person_row list \<Rightarrow> roster \<Rightarrow> roster res" where
  "put_people rows r =
     (if person_constraints rows then Inr (r\<lparr>people := rows\<rparr>) else Inl (IntegrityError ''person''))"

definition put_station_assignments :: "station_assignment_row list \<Rightarrow> roster \<Rightarrow> roster res" where
  "put_station_assignments rows r =
     (if station_assignment_constraints rows then Inr (r\<lparr>station_assignments := rows\<rparr>)
      else Inl (IntegrityError ''personnel_station_assignment''))"

text \<open>\<open>person.save(...)\<close>; every save of a person touches \<open>updated_at\<close>.\<close>

definition save_person :: "person_row \<Rightarrow> roster \<Rightarrow> roster res" where
  "save_person p r = put_people (row_put per_id (p\<lparr>per_updated_at := roster_now r\<rparr>) (people r)) r"

definition fetch_person :: "nat \<Rightarrow> roster \<Rightarrow> person_row res" where
  "fetch_person i r = of_option (DoesNotExist ''Person'') (row_get per_id i (people r))"

definition roster_world :: "(world \<Rightarrow> world) \<Rightarrow> roster \<Rightarrow> roster" where
  "roster_world g r = r\<lparr>yard := on_base g (yard r)\<rparr>"

definition fresh_roster_id :: "roster \<Rightarrow> nat \<times> roster" where
  "fresh_roster_id r = (let (i, f) = fresh_fleet_id (yard r) in (i, r\<lparr>yard := f\<rparr>))"

definition personnel_event ::
  "string \<Rightarrow> nat option \<Rightarrow> nat \<Rightarrow> nat option \<Rightarrow> string \<Rightarrow> nat \<Rightarrow> (string \<times> json) list \<Rightarrow> roster \<Rightarrow> roster" where
  "personnel_event action actor department station target_type target metadata =
     roster_world (record_event action actor (Some department) station target_type (Some target) metadata)"

definition mark_station_personnel :: "env \<Rightarrow> nat \<Rightarrow> nat option \<Rightarrow> nat \<Rightarrow> roster \<Rightarrow> roster res" where
  "mark_station_personnel E department actor station r =
     bind_res (mark_dirty E (Some department) (Some station) ''station_personnel'' actor (roster_base r)) (\<lambda>(i, w).
     Inr (r\<lparr>yard := (yard r)\<lparr>base := w\<rparr>\<rparr>))"

subsection \<open>Scopes\<close>

definition current_assignment :: "timestamp \<Rightarrow> station_assignment_row \<Rightarrow> bool" where
  "current_assignment now a =
     (psa_valid_from a \<le> now \<and> psa_ended_at a = None
      \<and> (case psa_valid_until a of None \<Rightarrow> True | Some u \<Rightarrow> u > now))"

definition is_department_admin :: "nat option \<Rightarrow> nat \<Rightarrow> roster \<Rightarrow> bool" where
  "is_department_admin user department r = (department \<in> set (active_department_ids (roster_base r) user))"

definition visible_to_user :: "nat option \<Rightarrow> nat \<Rightarrow> roster \<Rightarrow> person_row list" where
  "visible_to_user user department r =
     (let w = roster_base r; members = filter (\<lambda>p. per_department p = department) (people r);
          stations_of = active_station_ids w user in
      if is_department_admin user department r then members
      else if \<not> exists_row (\<lambda>s. sta_id s \<in> set stations_of \<and> sta_department s = department) (stations w) then []
      else filter (\<lambda>p. exists_row (\<lambda>a. psa_person a = per_id p \<and> psa_station a \<in> set stations_of
             \<and> current_assignment (roster_now r) a) (station_assignments r)) members)"

definition has_home_station_scope :: "nat option \<Rightarrow> person_row \<Rightarrow> roster \<Rightarrow> bool" where
  "has_home_station_scope user person r =
     exists_row (\<lambda>a. psa_person a = per_id person \<and> psa_assignment_type a = HOME
       \<and> psa_station a \<in> set (active_station_ids (roster_base r) user) \<and> current_assignment (roster_now r) a)
       (station_assignments r)"

definition visible_station_ids :: "nat \<Rightarrow> roster \<Rightarrow> nat list" where
  "visible_station_ids person r =
     remdups (map psa_station (filter (\<lambda>a. psa_person a = person \<and> station_is_active (roster_base r) (psa_station a)
       \<and> current_assignment (roster_now r) a) (station_assignments r)))"

definition mark_stations :: "env \<Rightarrow> nat \<Rightarrow> nat option \<Rightarrow> nat list \<Rightarrow> roster \<Rightarrow> roster res" where
  "mark_stations E department actor ids = fold_res (mark_station_personnel E department actor) ids"

definition mark_visible_station_scopes :: "env \<Rightarrow> person_row \<Rightarrow> nat option \<Rightarrow> roster \<Rightarrow> roster res" where
  "mark_visible_station_scopes E person actor r =
     mark_stations E (per_department person) actor (visible_station_ids (per_id person) r) r"

definition require_department_person_admin :: "nat option \<Rightarrow> person_row \<Rightarrow> roster \<Rightarrow> unit res" where
  "require_department_person_admin user person r =
     require (is_department_admin user (per_department person) r)
       (PermissionDenied ''Department administrator scope is required.'')"

definition station_can_manage_visible_person :: "nat option \<Rightarrow> person_row \<Rightarrow> nat \<Rightarrow> roster \<Rightarrow> bool" where
  "station_can_manage_visible_person user person station r =
     (station \<in> set (active_station_ids (roster_base r) user)
      \<and> exists_row (\<lambda>a. psa_person a = per_id person \<and> psa_station a = station \<and> current_assignment (roster_now r) a)
          (station_assignments r))"

definition normalize_commander_email :: "string \<Rightarrow> string" where
  "normalize_commander_email value = casefold (strip value)"

definition none_if_blank :: "string option \<Rightarrow> string option" where
  "none_if_blank v = (if v = Some [] then None else v)"

definition full_name :: "string \<Rightarrow> string \<Rightarrow> string" where
  "full_name first_name last_name = strip (strip first_name @ '' '' @ strip last_name)"

subsection \<open>Homes (apps/assignments/services.py)\<close>

definition current_home :: "nat \<Rightarrow> roster \<Rightarrow> station_assignment_row option" where
  "current_home person r =
     find (\<lambda>a. psa_person a = person \<and> psa_assignment_type a = HOME \<and> current_assignment (roster_now r) a)
       (station_assignments r)"

definition ensure_current_home :: "person_row \<Rightarrow> roster \<Rightarrow> unit res" where
  "ensure_current_home person r =
     require (\<not> (per_active person \<and> current_home (per_id person) r = None))
       (AssignmentError ''Every active person must have exactly one current HOME assignment.'')"

definition new_assignment ::
  "nat \<Rightarrow> nat \<Rightarrow> nat \<Rightarrow> assignment_type \<Rightarrow> timestamp \<Rightarrow> timestamp option \<Rightarrow> string \<Rightarrow> nat option \<Rightarrow> station_assignment_row" where
  "new_assignment i person station kind valid_from valid_until reason actor =
     \<lparr>psa_id = i, psa_person = person, psa_station = station, psa_assignment_type = kind, psa_valid_from = valid_from,
      psa_valid_until = valid_until, psa_reason = reason, psa_created_by = actor, psa_ended_by = None,
      psa_ended_at = None\<rparr>"

definition create_assignment ::
  "nat \<Rightarrow> nat \<Rightarrow> assignment_type \<Rightarrow> timestamp \<Rightarrow> timestamp option \<Rightarrow> string \<Rightarrow> nat option \<Rightarrow> roster \<Rightarrow> (nat \<times> roster) res" where
  "create_assignment person station kind valid_from valid_until reason actor r =
     (let (i, r1) = fresh_roster_id r in
      bind_res (put_station_assignments (station_assignments r1 @
        [new_assignment i person station kind valid_from valid_until reason actor]) r1) (\<lambda>r2. Inr (i, r2)))"

definition validate_person_station :: "person_row \<Rightarrow> station_row \<Rightarrow> roster \<Rightarrow> unit res" where
  "validate_person_station person station r =
     bind_res (require (department_is_active (roster_base r) (per_department person))
       (AssignmentError ''Department is not operationally active.'')) (\<lambda>_.
     require (per_active person \<and> sta_active station \<and> per_department person = sta_department station)
       (AssignmentError ''Person and station must be active and belong to the same department.''))"

definition blank_person :: "nat \<Rightarrow> nat \<Rightarrow> timestamp \<Rightarrow> person_row" where
  "blank_person i department now =
     \<lparr>per_id = i, per_department = department, per_personnel_number = None, per_first_name = None, per_last_name = None,
      per_display_name = [], per_lifecycle_status = PER_ACTIVE, per_active = True, per_commander_eligible = False,
      per_commander_email = None, per_email_verified_at = None, per_email_verified_by = None, per_departed_at = None,
      per_retention_until = None, per_anonymized_at = None, per_anonymized_by = None, per_updated_at = now\<rparr>"

definition create_person_with_home ::
  "nat \<Rightarrow> station_row \<Rightarrow> nat option \<Rightarrow> timestamp option \<Rightarrow> roster \<Rightarrow> (nat \<times> roster) res" where
  "create_person_with_home department station actor effective_at r =
     bind_res (require (department = sta_department station)
       (AssignmentError ''Person and home station must belong to the same department.'')) (\<lambda>_.
     bind_res (require (department_is_active (roster_base r) department)
       (AssignmentError ''Department is not operationally active.'')) (\<lambda>_.
     bind_res (require (sta_active station) (AssignmentError ''Home station is not operationally active.'')) (\<lambda>_.
       let (i, r1) = fresh_roster_id r; person = blank_person i department (roster_now r) in
       bind_res (put_people (people r1 @ [person]) r1) (\<lambda>r2.
       bind_res (create_assignment i (sta_id station) HOME
          (case effective_at of None \<Rightarrow> roster_now r | Some t \<Rightarrow> t) None [] actor r2) (\<lambda>(a, r3).
       bind_res (ensure_current_home person r3) (\<lambda>_. Inr (i, r3)))))))"

definition update_assignment ::
  "nat \<Rightarrow> (station_assignment_row \<Rightarrow> station_assignment_row) \<Rightarrow> roster \<Rightarrow> roster res" where
  "update_assignment i g r =
     put_station_assignments (map (\<lambda>a. if psa_id a = i then g a else a) (station_assignments r)) r"

definition transfer_home ::
  "env \<Rightarrow> nat \<Rightarrow> station_row \<Rightarrow> nat option \<Rightarrow> timestamp option \<Rightarrow> roster \<Rightarrow> (nat \<times> roster) res" where
  "transfer_home E person_id station actor effective_at r =
     bind_res (fetch_person person_id r) (\<lambda>person.
     bind_res (require_department_admin (roster_base r) actor (Some (per_department person))) (\<lambda>_.
     bind_res (validate_person_station person station r) (\<lambda>_.
       let now = roster_now r; effective = (case effective_at of None \<Rightarrow> now | Some t \<Rightarrow> t) in
       bind_res (of_option (AssignmentError ''Active people require one current HOME assignment before transfer.'')
          (current_home person_id r)) (\<lambda>current.
       bind_res (require (psa_station current \<noteq> sta_id station)
          (AssignmentError ''Person already has this home station.'')) (\<lambda>_.
       bind_res (update_assignment (psa_id current)
          (\<lambda>a. a\<lparr>psa_valid_until := Some effective, psa_ended_at := Some now, psa_ended_by := actor\<rparr>) r) (\<lambda>r1.
       bind_res (create_assignment person_id (sta_id station) HOME effective None [] actor r1) (\<lambda>(a, r2).
       bind_res (ensure_current_home person r2) (\<lambda>_.
       bind_res (mark_station_personnel E (per_department person) actor (psa_station current) r2) (\<lambda>r3.
       bind_res (mark_station_personnel E (per_department person) actor (sta_id station) r3) (\<lambda>r4.
       Inr (a, personnel_event ''personnel.home_station_transferred'' actor (per_department person)
         (Some (sta_id station)) ''person'' person_id [] r4)))))))))))"

definition create_temporary_assignment ::
  "env \<Rightarrow> nat \<Rightarrow> station_row \<Rightarrow> nat option \<Rightarrow> timestamp option \<Rightarrow> string \<Rightarrow> roster \<Rightarrow> (nat \<times> roster) res" where
  "create_temporary_assignment E person_id station actor valid_until reason r =
     bind_res (fetch_person person_id r) (\<lambda>person.
     bind_res (require_department_admin (roster_base r) actor (Some (per_department person))) (\<lambda>_.
     bind_res (validate_person_station person station r) (\<lambda>_.
     bind_res (require (case valid_until of None \<Rightarrow> False | Some u \<Rightarrow> u > roster_now r)
        (AssignmentError ''Temporary assignments require a future expiry.'')) (\<lambda>_.
     bind_res (create_assignment person_id (sta_id station) TEMPORARY (roster_now r) valid_until (strip reason) actor r)
        (\<lambda>(a, r1).
     bind_res (mark_station_personnel E (per_department person) actor (sta_id station) r1) (\<lambda>r2.
     Inr (a, personnel_event ''personnel.temporary_assignment_created'' actor (per_department person)
       (Some (sta_id station)) ''personnel_station_assignment'' a [] r2)))))))"

definition end_temporary_assignment :: "env \<Rightarrow> nat \<Rightarrow> nat option \<Rightarrow> roster \<Rightarrow> roster res" where
  "end_temporary_assignment E assignment_id actor r =
     bind_res (of_option (DoesNotExist ''PersonnelStationAssignment'')
        (row_get psa_id assignment_id (station_assignments r))) (\<lambda>assignment.
     bind_res (require (psa_assignment_type assignment = TEMPORARY)
        (AssignmentError ''Only temporary assignments can be ended through this service.'')) (\<lambda>_.
     if psa_ended_at assignment \<noteq> None then Inr r
     else
       bind_res (fetch_person (psa_person assignment) r) (\<lambda>person.
       bind_res (case actor of None \<Rightarrow> Inr ()
          | Some u \<Rightarrow> require_department_admin (roster_base r) actor (Some (per_department person))) (\<lambda>_.
       bind_res (update_assignment assignment_id
          (\<lambda>a. a\<lparr>psa_ended_at := Some (roster_now r), psa_ended_by := actor\<rparr>) r) (\<lambda>r1.
       bind_res (mark_station_personnel E (per_department person) actor (psa_station assignment) r1) (\<lambda>r2.
       Inr (personnel_event
         (if actor \<noteq> None then ''personnel.temporary_assignment_ended'' else ''personnel.temporary_assignment_expired'')
         actor (per_department person) (Some (psa_station assignment)) ''personnel_station_assignment''
         assignment_id [] r2)))))))"

text \<open>The command \<open>expire_temporary_assignments\<close>; a transaction that raises ends it.\<close>

definition expire_temporary_assignments :: "env \<Rightarrow> nat \<Rightarrow> roster \<Rightarrow> roster res" where
  "expire_temporary_assignments E batch r =
     fold_res (\<lambda>a. end_temporary_assignment E (psa_id a) None)
       (take batch (sort_key (\<lambda>a. the (psa_valid_until a))
          (filter (\<lambda>a. psa_assignment_type a = TEMPORARY \<and> psa_ended_at a = None
             \<and> (case psa_valid_until a of None \<Rightarrow> False | Some u \<Rightarrow> u \<le> roster_now r)) (station_assignments r)))) r"

subsection \<open>Personnel (apps/personnel/services.py)\<close>

definition person_event :: "string \<Rightarrow> nat option \<Rightarrow> person_row \<Rightarrow> roster \<Rightarrow> roster" where
  "person_event action actor person =
     personnel_event action actor (per_department person) None ''person'' (per_id person) []"

definition create_person ::
  "env \<Rightarrow> nat option \<Rightarrow> nat \<Rightarrow> station_row \<Rightarrow> string option \<Rightarrow> string \<Rightarrow> string \<Rightarrow> bool \<Rightarrow> string \<Rightarrow> roster \<Rightarrow> (nat \<times> roster) res" where
  "create_person E actor department home_station number first_name last_name eligible email r =
     bind_res (require (is_department_admin actor department r)
        (PermissionDenied ''Only department administrators can create personnel.'')) (\<lambda>_.
     bind_res (require (department = sta_department home_station \<and> sta_active home_station)
        (PersonnelError ''Home station must be active and in the personnel department.'')) (\<lambda>_.
     bind_res (require (full_name first_name last_name \<noteq> []) (PersonnelError ''Personnel display name is required.'')) (\<lambda>_.
       let normalized = (if email \<noteq> [] then Some (normalize_commander_email email) else None) in
       bind_res (require (\<not> (normalized \<noteq> None \<and> normalized \<noteq> Some [] \<and> \<not> eligible))
          (PersonnelError ''Commander eligibility is required before setting commander email.'')) (\<lambda>_.
         let (i, r1) = fresh_roster_id r;
             person = (blank_person i department (roster_now r))\<lparr>per_personnel_number := none_if_blank number,
               per_first_name := Some (strip first_name), per_last_name := Some (strip last_name),
               per_display_name := full_name first_name last_name, per_commander_eligible := eligible,
               per_commander_email := normalized\<rparr> in
         bind_res (put_people (people r1 @ [person]) r1) (\<lambda>r2.
         bind_res (create_assignment i (sta_id home_station) HOME (roster_now r) None [] actor r2) (\<lambda>(a, r3).
         bind_res (ensure_current_home person r3) (\<lambda>_.
         bind_res (mark_station_personnel E department actor (sta_id home_station)
            (personnel_event ''personnel.created'' actor department (Some (sta_id home_station)) ''person'' i [] r3)) (\<lambda>r4.
         Inr (i, r4)))))))))"

definition update_person ::
  "env \<Rightarrow> nat option \<Rightarrow> nat \<Rightarrow> string option \<Rightarrow> string \<Rightarrow> string \<Rightarrow> roster \<Rightarrow> roster res" where
  "update_person E actor person_id number first_name last_name r =
     bind_res (fetch_person person_id r) (\<lambda>person.
     bind_res (require_department_person_admin actor person r) (\<lambda>_.
     bind_res (require (per_lifecycle_status person = PER_ACTIVE)
        (PersonnelError ''Only active personnel can be edited.'')) (\<lambda>_.
       let person1 = person\<lparr>per_personnel_number := none_if_blank number, per_first_name := Some (strip first_name),
             per_last_name := Some (strip last_name), per_display_name := full_name first_name last_name\<rparr> in
       bind_res (require (per_display_name person1 \<noteq> []) (PersonnelError ''Personnel display name is required.'')) (\<lambda>_.
       if person1 = person then Inr r
       else
         bind_res (save_person person1 r) (\<lambda>r1.
         mark_visible_station_scopes E person1 actor (person_event ''personnel.updated'' actor person1 r1))))))"

text \<open>
  \<open>person.delete()\<close> raises while a protected foreign key points at the row: its station assignments, and the
  submissions and transfers of the report component, which \<open>protected\<close> stands for here.
\<close>

definition delete_person :: "env \<Rightarrow> (nat \<Rightarrow> bool) \<Rightarrow> nat option \<Rightarrow> nat \<Rightarrow> roster \<Rightarrow> roster res" where
  "delete_person E protected actor person_id r =
     bind_res (fetch_person person_id r) (\<lambda>person.
     bind_res (require_department_person_admin actor person r) (\<lambda>_.
       let affected = visible_station_ids person_id r in
       bind_res (require (\<not> exists_row (\<lambda>a. psa_person a = person_id) (station_assignments r) \<and> \<not> protected person_id)
          (PersonnelError ''Personnel cannot be deleted while protected assignment or history records exist.'')) (\<lambda>_.
       mark_stations E (per_department person) actor affected
         (personnel_event ''personnel.deleted'' actor (per_department person) None ''person'' person_id
            [(''personnel_number'', case per_personnel_number person of None \<Rightarrow> JNull | Some n \<Rightarrow> JStr n),
             (''display_name'', JStr (per_display_name person))]
            (r\<lparr>people := filter (\<lambda>p. per_id p \<noteq> person_id) (people r)\<rparr>)))))"

definition set_commander_eligibility ::
  "env \<Rightarrow> nat option \<Rightarrow> nat \<Rightarrow> bool \<Rightarrow> station_row option \<Rightarrow> roster \<Rightarrow> roster res" where
  "set_commander_eligibility E actor person_id eligible station r =
     bind_res (fetch_person person_id r) (\<lambda>person.
     bind_res (require (is_department_admin actor (per_department person) r
          \<or> (case station of None \<Rightarrow> False
             | Some s \<Rightarrow> sta_department s = per_department person
                 \<and> station_can_manage_visible_person actor person (sta_id s) r))
        (PermissionDenied ''Personnel is outside the administrator's scope.'')) (\<lambda>_.
     bind_res (require (per_lifecycle_status person = PER_ACTIVE)
        (PersonnelError ''Only active personnel can be commander eligible.'')) (\<lambda>_.
     if per_commander_eligible person = eligible then Inr r
     else
       let person1 = person\<lparr>per_commander_eligible := eligible,
             per_email_verified_at := (if eligible then per_email_verified_at person else None),
             per_email_verified_by := (if eligible then per_email_verified_by person else None)\<rparr> in
       bind_res (save_person person1 r) (\<lambda>r1.
       mark_visible_station_scopes E person1 actor
         (person_event ''personnel.commander_eligibility_changed'' actor person1 r1)))))"

definition set_commander_email :: "env \<Rightarrow> nat option \<Rightarrow> nat \<Rightarrow> string \<Rightarrow> roster \<Rightarrow> roster res" where
  "set_commander_email E actor person_id email r =
     bind_res (fetch_person person_id r) (\<lambda>person.
     bind_res (require_department_person_admin actor person r) (\<lambda>_.
     bind_res (require (per_commander_eligible person)
        (PersonnelError ''Commander eligibility is required before setting commander email.'')) (\<lambda>_.
     if per_commander_email person = Some (normalize_commander_email email) \<and> per_email_verified_at person = None then Inr r
     else
       let person1 = person\<lparr>per_commander_email := Some (normalize_commander_email email), per_email_verified_at := None,
             per_email_verified_by := None\<rparr> in
       bind_res (save_person person1 r) (\<lambda>r1.
       mark_visible_station_scopes E person1 actor
         (person_event ''personnel.commander_email_changed'' actor person1 r1)))))"

definition verify_commander_email :: "env \<Rightarrow> nat option \<Rightarrow> nat \<Rightarrow> roster \<Rightarrow> roster res" where
  "verify_commander_email E actor person_id r =
     bind_res (fetch_person person_id r) (\<lambda>person.
     bind_res (require_department_person_admin actor person r) (\<lambda>_.
     bind_res (require (per_commander_eligible person \<and> per_commander_email person \<noteq> None
          \<and> per_commander_email person \<noteq> Some [])
        (PersonnelError ''Eligible personnel with an email address are required for verification.'')) (\<lambda>_.
     if per_email_verified_at person \<noteq> None then Inr r
     else
       let person1 = person\<lparr>per_email_verified_at := Some (roster_now r), per_email_verified_by := actor\<rparr> in
       bind_res (save_person person1 r) (\<lambda>r1.
       mark_visible_station_scopes E person1 actor
         (person_event ''personnel.commander_email_verified'' actor person1 r1)))))"

definition set_retention_policy :: "nat option \<Rightarrow> nat \<Rightarrow> int \<Rightarrow> roster \<Rightarrow> roster res" where
  "set_retention_policy actor department period r =
     bind_res (require (is_department_admin actor department r \<and> period > 0)
        (PermissionDenied ''A positive retention period and department scope are required.'')) (\<lambda>_.
       let policy = find (\<lambda>p. rpo_department p = department) (retention_policies r) in
       if (case policy of None \<Rightarrow> False | Some p \<Rightarrow> rpo_retention_period p = period) then Inr r
       else
         let rows = (case policy of
               None \<Rightarrow> retention_policies r @
                 [\<lparr>rpo_department = department, rpo_retention_period = period, rpo_updated_by = actor\<rparr>]
             | Some _ \<Rightarrow> map (\<lambda>p. if rpo_department p = department
                 then p\<lparr>rpo_retention_period := period, rpo_updated_by := actor\<rparr> else p) (retention_policies r)) in
         Inr (roster_world (department_mutation actor)
           (personnel_event ''personnel.retention_policy_changed'' actor department None ''personnel_retention_policy''
              department [] (r\<lparr>retention_policies := rows\<rparr>))))"

definition end_open_assignments :: "nat \<Rightarrow> nat option \<Rightarrow> roster \<Rightarrow> roster res" where
  "end_open_assignments person actor r =
     put_station_assignments (map (\<lambda>a. if psa_person a = person \<and> psa_ended_at a = None \<and> psa_valid_until a = None
       then a\<lparr>psa_valid_until := Some (roster_now r), psa_ended_at := Some (roster_now r), psa_ended_by := actor\<rparr>
       else a) (station_assignments r)) r"

definition offboard_person :: "env \<Rightarrow> nat option \<Rightarrow> nat \<Rightarrow> roster \<Rightarrow> roster res" where
  "offboard_person E actor person_id r =
     bind_res (fetch_person person_id r) (\<lambda>person.
     bind_res (require (is_department_admin actor (per_department person) r)
        (PermissionDenied ''Only department administrators can offboard personnel.'')) (\<lambda>_.
     bind_res (of_option (PersonnelError ''A department retention policy is required before offboarding.'')
        (find (\<lambda>p. rpo_department p = per_department person) (retention_policies r))) (\<lambda>policy.
       let now = roster_now r; affected = visible_station_ids person_id r in
       bind_res (end_open_assignments person_id actor r) (\<lambda>r1.
         let person1 = person\<lparr>per_lifecycle_status := PER_DEPARTED, per_active := False, per_departed_at := Some now,
               per_retention_until := Some (now + rpo_retention_period policy), per_commander_eligible := False,
               per_commander_email := None, per_email_verified_at := None, per_email_verified_by := None\<rparr> in
         bind_res (save_person person1 r1) (\<lambda>r2.
         mark_stations E (per_department person) actor affected
           (person_event ''personnel.offboarded'' actor person1 r2))))))"

definition anonymize_person :: "env \<Rightarrow> nat option \<Rightarrow> nat \<Rightarrow> roster \<Rightarrow> roster res" where
  "anonymize_person E actor person_id r =
     bind_res (fetch_person person_id r) (\<lambda>person.
     bind_res (require (is_department_admin actor (per_department person) r)
        (PermissionDenied ''Only department administrators can anonymize personnel.'')) (\<lambda>_.
     bind_res (require (per_lifecycle_status person = PER_DEPARTED
          \<and> (case per_retention_until person of None \<Rightarrow> False | Some t \<Rightarrow> t \<le> roster_now r))
        (PersonnelError ''Personnel retention period has not expired.'')) (\<lambda>_.
       let person1 = person\<lparr>per_personnel_number := None, per_first_name := None, per_last_name := None,
             per_display_name := ''Former member'', per_commander_eligible := False, per_commander_email := None,
             per_email_verified_at := None, per_email_verified_by := None, per_lifecycle_status := PER_ANONYMIZED,
             per_active := False, per_anonymized_at := Some (roster_now r), per_anonymized_by := actor\<rparr> in
       bind_res (save_person person1 r) (\<lambda>r1.
       mark_visible_station_scopes E person1 actor (person_event ''personnel.anonymized'' actor person1 r1)))))"

end
