(* ===== verification/Recipients.thy ===== *)
theory Recipients
  imports Personnel
begin

text \<open>
  Who may receive report mail: the domain policy of apps/outbound_mail/services.py and the recipient admission of
  apps/outbound_mail/report_admission.py.  \<open>accepts\<close> stands for Django's \<open>validate_email\<close>.
\<close>

subsection \<open>Domains\<close>

definition domain_char :: "char \<Rightarrow> bool" where
  "domain_char c = (let n = of_char c :: nat in 97 \<le> n \<and> n \<le> 122 \<or> 48 \<le> n \<and> n \<le> 57)"

text \<open>\<open>^[a-z0-9](?:[a-z0-9-]{0,61}[a-z0-9])?$\<close>, matched in full.\<close>

definition domain_label :: "string \<Rightarrow> bool" where
  "domain_label s =
     (s \<noteq> [] \<and> length s \<le> 63 \<and> domain_char (hd s) \<and> domain_char (last s)
      \<and> list_all (\<lambda>c. domain_char c \<or> c = CHR ''-'') s)"

text \<open>
  What \<open>ipaddress.ip_address\<close> accepts among dotted names: four decimal octets without leading zeros.  A name
  with a colon, the other notation of an address, is refused by the labels as well.
\<close>

definition octet :: "string \<Rightarrow> bool" where
  "octet s = (list_all is_digit s \<and> s = dec_nat (read_nat s) \<and> read_nat s < 256)"

definition ip_address :: "string \<Rightarrow> bool" where
  "ip_address s = (let parts = split_on (CHR ''.'') s in length parts = 4 \<and> list_all octet parts)"

definition exact_domain_error :: exn where
  "exact_domain_error = ValidationError ''Approved recipient domains must be valid exact domain names.''"

definition normalize_recipient_domain :: "string \<Rightarrow> string res" where
  "normalize_recipient_domain domain =
     bind_res (require (domain \<noteq> [] \<and> domain = strip domain) exact_domain_error) (\<lambda>_.
       let normalized = lower domain; labels = split_on (CHR ''.'') normalized in
       bind_res (require (\<not> (hd normalized = CHR ''.'' \<or> hd normalized = CHR ''@'' \<or> CHR ''*'' \<in> set normalized
          \<or> last normalized = CHR ''.'')) exact_domain_error) (\<lambda>_.
       bind_res (require (\<not> ip_address normalized)
          (ValidationError ''Approved recipient domains must be domain names, not IP addresses.'')) (\<lambda>_.
       bind_res (require (length normalized \<le> 253 \<and> 2 \<le> length labels \<and> list_all domain_label labels)
          exact_domain_error) (\<lambda>_. Inr normalized))))"

fun normalize_domains :: "string list \<Rightarrow> string list res" where
  "normalize_domains [] = Inr []"
| "normalize_domains (d # ds) =
     bind_res (normalize_recipient_domain d) (\<lambda>n. bind_res (normalize_domains ds) (\<lambda>ns. Inr (n # ns)))"

subsection \<open>Policies\<close>

definition department_policy :: "nat \<Rightarrow> roster \<Rightarrow> bool \<times> string list" where
  "department_policy department r =
     (case map_of (recipient_policies r) department of None \<Rightarrow> (False, []) | Some p \<Rightarrow> p)"

definition get_department_recipient_policy :: "nat \<Rightarrow> roster \<Rightarrow> bool \<times> string list" where
  "get_department_recipient_policy department r =
     (let (enabled, domains) = department_policy department r in (enabled, sort domains))"

definition require_department_mail_manager :: "nat option \<Rightarrow> nat \<Rightarrow> roster \<Rightarrow> unit res" where
  "require_department_mail_manager actor department r =
     (if is_system_admin (roster_base r) actor then Inr ()
      else require_department_admin (roster_base r) actor (Some department))"

definition set_department_recipient_policy ::
  "nat option \<Rightarrow> nat \<Rightarrow> bool \<Rightarrow> string list \<Rightarrow> roster \<Rightarrow> roster res" where
  "set_department_recipient_policy actor department restriction_enabled approved_domains r =
     bind_res (require_department_mail_manager actor department r) (\<lambda>_.
     bind_res (normalize_domains approved_domains) (\<lambda>normalized.
       let domains = sort (remdups normalized) in
       bind_res (require (length domains = length approved_domains)
          (ValidationError ''Approved recipient domains must not contain duplicates.'')) (\<lambda>_.
       bind_res (require (\<not> (restriction_enabled \<and> domains = []))
          (ValidationError ''At least one approved recipient domain is required when restriction is enabled.'')) (\<lambda>_.
         let created = (if map_of (recipient_policies r) department = None
               then r\<lparr>recipient_policies := recipient_policies r @ [(department, False, [])]\<rparr> else r) in
         if get_department_recipient_policy department r = (restriction_enabled, domains) then Inr created
         else Inr (roster_world (department_mutation actor)
           (personnel_event ''outbound_mail.department_recipient_policy_changed'' actor department None
              ''department_recipient_policy'' department
              [(''restriction_enabled'', JBool restriction_enabled),
               (''approved_domain_count'', JInt (int (length domains)))]
              (created\<lparr>recipient_policies := map (\<lambda>(d, p). (d, if d = department then (restriction_enabled, domains) else p))
                 (recipient_policies created)\<rparr>)))))))"

text \<open>\<open>recipient_email.rsplit("@", 1)\<close> of an address with one \<open>@\<close>.\<close>

definition is_department_recipient_allowed :: "nat \<Rightarrow> string \<Rightarrow> roster \<Rightarrow> bool" where
  "is_department_recipient_allowed department email r =
     (let (enabled, domains) = department_policy department r in
      if \<not> enabled then True
      else case split_on (CHR ''@'') email of
             [local_part, domain] \<Rightarrow>
               email = strip email
               \<and> (case normalize_recipient_domain domain of Inl _ \<Rightarrow> False | Inr n \<Rightarrow> n \<in> set domains)
           | _ \<Rightarrow> False)"

subsection \<open>Admission\<close>

record admitted_recipient =
  adm_personnel_id :: nat
  adm_email :: string

definition normalized_valid_email :: "(string \<Rightarrow> bool) \<Rightarrow> string option \<Rightarrow> string option" where
  "normalized_valid_email accepts value =
     (case value of
        None \<Rightarrow> None
      | Some s \<Rightarrow> if s = [] \<or> s \<noteq> strip s then None
                  else if accepts (casefold s) then Some (casefold s) else None)"

definition resolve_report_recipient :: "(string \<Rightarrow> bool) \<Rightarrow> nat \<Rightarrow> nat \<Rightarrow> roster \<Rightarrow> admitted_recipient res" where
  "resolve_report_recipient accepts department personnel_id r =
     bind_res (of_option (ReportAdmissionError ''recipient_not_authorized'')
        (find (\<lambda>p. per_id p = personnel_id \<and> per_department p = department) (people r))) (\<lambda>person.
     bind_res (require (per_active person \<and> per_lifecycle_status person = PER_ACTIVE \<and> per_commander_eligible person
          \<and> per_email_verified_at person \<noteq> None) (ReportAdmissionError ''recipient_not_authorized'')) (\<lambda>_.
     bind_res (of_option (ReportAdmissionError ''recipient_email_unavailable'')
        (normalized_valid_email accepts (per_commander_email person))) (\<lambda>email.
     bind_res (require (is_department_recipient_allowed department email r)
        (ReportAdmissionError ''recipient_domain_not_allowed'')) (\<lambda>_.
     Inr \<lparr>adm_personnel_id = per_id person, adm_email = email\<rparr>))))"

lemma resolve_report_recipient_Inr:
  "resolve_report_recipient accepts department i r = Inr a \<longleftrightarrow>
     (\<exists>p. find (\<lambda>p. per_id p = i \<and> per_department p = department) (people r) = Some p
        \<and> per_active p \<and> per_lifecycle_status p = PER_ACTIVE \<and> per_commander_eligible p \<and> per_email_verified_at p \<noteq> None
        \<and> normalized_valid_email accepts (per_commander_email p) = Some (adm_email a)
        \<and> is_department_recipient_allowed department (adm_email a) r \<and> adm_personnel_id a = per_id p)"
  by (auto simp: resolve_report_recipient_def bind_res_Inr of_option_Inr require_Inr)

end
