(* ===== verification/Report_Contract.thy ===== *)
theory Report_Contract
  imports Json
begin

text \<open>
  apps/report_transfer/contract.py: the refusals of a report package, the unpadded base64url text of its binary
  parts, identifiers, the inspection of the protected header, and the content records of a package.  Bytes are
  characters; an identifier is the natural number of its row and its text is the decimal notation, the one
  spelling \<open>str(UUID(...))\<close> gives back.
\<close>

subsection \<open>Refusals\<close>

abbreviation invalid_package :: exn where
  "invalid_package \<equiv> TransferError ''invalid_package'' 400"

definition require_package :: "bool \<Rightarrow> unit res" where
  "require_package condition = require condition invalid_package"

lemma require_package_Inr [res_simps]: "require_package b = Inr x \<longleftrightarrow> b"
  by (simp add: require_package_def require_Inr)

lemma require_package_cases [simp]:
  "b \<Longrightarrow> require_package b = Inr ()" "\<not> b \<Longrightarrow> require_package b = Inl invalid_package"
  by (simp_all add: require_package_def)

text \<open>A loop whose body only checks.\<close>

definition each :: "('a \<Rightarrow> unit res) \<Rightarrow> 'a list \<Rightarrow> unit res" where
  "each check xs = fold_res (\<lambda>x _. check x) xs ()"

lemma each_Nil [simp]: "each check [] = Inr ()"
  by (simp add: each_def)

lemma each_Cons [simp]: "each check (x # xs) = bind_res (check x) (\<lambda>_. each check xs)"
  by (cases "check x") (simp_all add: each_def)

lemma each_Inr [res_simps]: "each check xs = Inr y \<longleftrightarrow> (\<forall>x\<in>set xs. check x = Inr ())"
  by (induction xs) (auto simp: bind_res_Inr)

subsection \<open>Base64url\<close>

definition b64_char :: "nat \<Rightarrow> char" where
  "b64_char n = char_of (if n < 26 then 65 + n else if n < 52 then 71 + n else if n < 62 then n - 4
     else if n = 62 then 45 else 95 :: nat)"

definition b64_value :: "char \<Rightarrow> nat option" where
  "b64_value c =
     (let n = of_char c :: nat in
      if 65 \<le> n \<and> n \<le> 90 then Some (n - 65)
      else if 97 \<le> n \<and> n \<le> 122 then Some (n - 71)
      else if 48 \<le> n \<and> n \<le> 57 then Some (n + 4)
      else if n = 45 then Some 62
      else if n = 95 then Some 63
      else None)"

text \<open>\<open>base64.urlsafe_b64encode\<close>, with its padding.\<close>

fun urlsafe_b64encode :: "string \<Rightarrow> string" where
  "urlsafe_b64encode [] = []"
| "urlsafe_b64encode [a] =
     (let x = of_char a :: nat in [b64_char (x div 4), b64_char (x mod 4 * 16), CHR ''='', CHR ''=''])"
| "urlsafe_b64encode [a, b] =
     (let x = of_char a :: nat; y = of_char b :: nat in
      [b64_char (x div 4), b64_char (x mod 4 * 16 + y div 16), b64_char (y mod 16 * 4), CHR ''=''])"
| "urlsafe_b64encode (a # b # c # rest) =
     (let x = of_char a :: nat; y = of_char b :: nat; z = of_char c :: nat in
      [b64_char (x div 4), b64_char (x mod 4 * 16 + y div 16), b64_char (y mod 16 * 4 + z div 64), b64_char (z mod 64)]
      @ urlsafe_b64encode rest)"

definition rstrip_char :: "char \<Rightarrow> string \<Rightarrow> string" where
  "rstrip_char c s = rev (dropWhile (\<lambda>d. d = c) (rev s))"

definition encode_bytes :: "string \<Rightarrow> string" where
  "encode_bytes raw = rstrip_char (CHR ''='') (urlsafe_b64encode raw)"

text \<open>
  \<open>base64.b64decode\<close> of the text padded to a multiple of four: spare low bits of the last character are
  dropped, a single left-over character is an error.
\<close>

fun b64decode :: "nat list \<Rightarrow> string option" where
  "b64decode [] = Some []"
| "b64decode [p] = None"
| "b64decode [p, q] = Some [char_of (p * 4 + q div 16)]"
| "b64decode [p, q, r] = Some [char_of (p * 4 + q div 16), char_of (q mod 16 * 16 + r div 4)]"
| "b64decode (p # q # r # s # rest) =
     map_option (\<lambda>t. [char_of (p * 4 + q div 16), char_of (q mod 16 * 16 + r div 4), char_of (r mod 4 * 64 + s)] @ t)
       (b64decode rest)"

definition b64_alphabet :: "char \<Rightarrow> bool" where
  "b64_alphabet c = (b64_value c \<noteq> None)"

definition decode_text :: "string \<Rightarrow> string res" where
  "decode_text value =
     bind_res (require_package (value \<noteq> [] \<and> list_all b64_alphabet value)) (\<lambda>_.
     bind_res (of_option invalid_package (b64decode (map (\<lambda>c. the (b64_value c)) value))) (\<lambda>raw.
     bind_res (require_package (encode_bytes raw = value)) (\<lambda>_. Inr raw)))"

definition decode :: "json \<Rightarrow> string res" where
  "decode value = (case value of JStr s \<Rightarrow> decode_text s | _ \<Rightarrow> Inl invalid_package)"

subsection \<open>Round trip of base64url\<close>

lemma b64_value_char [simp]: "n < 64 \<Longrightarrow> b64_value (b64_char n) = Some n"
  by (auto simp: b64_value_def b64_char_def of_char_of Let_def)

lemma b64_char_no_pad: "n < 64 \<Longrightarrow> b64_char n \<noteq> CHR ''=''"
proof
  assume "n < 64" "b64_char n = CHR ''=''"
  then have "b64_value (CHR ''='') = Some n" by (metis b64_value_char)
  moreover have "b64_value (CHR ''='') = None" by code_simp
  ultimately show False by simp
qed

lemma of_char_less [simp]: "(of_char c :: nat) < 256"
  by (rule nat_of_char_less_256)

fun b64_sextets :: "string \<Rightarrow> nat list" where
  "b64_sextets [] = []"
| "b64_sextets [a] = (let x = of_char a :: nat in [x div 4, x mod 4 * 16])"
| "b64_sextets [a, b] =
     (let x = of_char a :: nat; y = of_char b :: nat in [x div 4, x mod 4 * 16 + y div 16, y mod 16 * 4])"
| "b64_sextets (a # b # c # rest) =
     (let x = of_char a :: nat; y = of_char b :: nat; z = of_char c :: nat in
      [x div 4, x mod 4 * 16 + y div 16, y mod 16 * 4 + z div 64, z mod 64] @ b64_sextets rest)"

lemma sextet_bounds:
  assumes "(x :: nat) < 256" and "(y :: nat) < 256" and "(z :: nat) < 256"
  shows "x div 4 < 64" "y div 16 < 16" "z div 64 < 4" "x mod 4 * 16 < 64" "x mod 4 * 16 + y div 16 < 64"
    "y mod 16 * 4 < 64" "y mod 16 * 4 + z div 64 < 64" "z mod 64 < 64"
proof -
  show d: "x div 4 < 64" "y div 16 < 16" "z div 64 < 4"
    using assms by (simp_all add: less_mult_imp_div_less)
  have "x mod 4 < 4" "y mod 16 < 16" by simp_all
  with d show "x mod 4 * 16 < 64" "x mod 4 * 16 + y div 16 < 64" "y mod 16 * 4 < 64" "y mod 16 * 4 + z div 64 < 64"
    by linarith+
  show "z mod 64 < 64" by simp
qed

lemma b64_sextets_bound: "list_all (\<lambda>n. n < 64) (b64_sextets s)"
  by (induction s rule: b64_sextets.induct)
    (simp_all add: Let_def sextet_bounds [OF of_char_less of_char_less of_char_less])

lemma rstrip_char_append: "t \<noteq> [] \<Longrightarrow> last t \<noteq> c \<Longrightarrow> rstrip_char c (t @ replicate n c) = t"
proof -
  assume t: "t \<noteq> []" "last t \<noteq> c"
  then have "dropWhile (\<lambda>d. d = c) (replicate n c @ rev t) = rev t"
    by (induction n) (simp_all add: hd_rev [symmetric] dropWhile_eq_self_iff)
  then show ?thesis by (simp add: rstrip_char_def)
qed

lemma urlsafe_b64encode_sextets: "\<exists>n. urlsafe_b64encode s = map b64_char (b64_sextets s) @ replicate n (CHR ''='')"
proof (induction s rule: urlsafe_b64encode.induct)
  case 1
  show ?case by simp
next
  case (2 a)
  show ?case by (rule exI [of _ 2]) (simp add: Let_def numeral_2_eq_2)
next
  case (3 a b)
  show ?case by (rule exI [of _ 1]) (simp add: Let_def)
next
  case (4 a b c rest)
  then obtain n where "urlsafe_b64encode rest = map b64_char (b64_sextets rest) @ replicate n (CHR ''='')" by blast
  then show ?case by (intro exI [of _ n]) (simp add: Let_def)
qed

lemma b64_sextets_Nil [simp]: "b64_sextets s = [] \<longleftrightarrow> s = []"
  by (cases s rule: b64_sextets.cases) (simp_all add: Let_def)

lemma encode_bytes_sextets: "encode_bytes s = map b64_char (b64_sextets s)"
proof (cases "s = []")
  case True
  then show ?thesis by (simp add: encode_bytes_def rstrip_char_def)
next
  case False
  then have ne: "b64_sextets s \<noteq> []" by simp
  have "last (b64_sextets s) < 64" using b64_sextets_bound [of s] ne by (auto simp: list_all_iff)
  then have "last (map b64_char (b64_sextets s)) \<noteq> CHR ''=''" using ne by (simp add: last_map b64_char_no_pad)
  moreover obtain n where "urlsafe_b64encode s = map b64_char (b64_sextets s) @ replicate n (CHR ''='')"
    using urlsafe_b64encode_sextets by blast
  ultimately show ?thesis using ne by (simp add: encode_bytes_def rstrip_char_append)
qed

lemma packed_digits: "(v :: nat) < n \<Longrightarrow> (u * n + v) div n = u" "(v :: nat) < n \<Longrightarrow> (u * n + v) mod n = v"
  by simp_all

lemma sextets_back:
  assumes "(x :: nat) < 256" and "(y :: nat) < 256" and "(z :: nat) < 256"
  shows "x div 4 * 4 + (x mod 4 * 16) div 16 = x"
    "x div 4 * 4 + (x mod 4 * 16 + y div 16) div 16 = x"
    "(x mod 4 * 16 + y div 16) mod 16 * 16 + (y mod 16 * 4) div 4 = y"
    "(x mod 4 * 16 + y div 16) mod 16 * 16 + (y mod 16 * 4 + z div 64) div 4 = y"
    "(y mod 16 * 4 + z div 64) mod 4 * 64 + z mod 64 = z"
  using sextet_bounds [OF assms]
  by (simp_all only: packed_digits nonzero_mult_div_cancel_right div_mult_mod_eq zero_neq_numeral not_False_eq_True
      neq_commute)

lemma b64decode_sextets: "b64decode (b64_sextets s) = Some s"
proof (induction s rule: b64_sextets.induct)
  case 1
  show ?case by simp
next
  case (2 a)
  show ?case unfolding b64_sextets.simps Let_def b64decode.simps
    by (simp only: sextets_back(1) [OF of_char_less of_char_less of_char_less] char_of_char)
next
  case (3 a b)
  show ?case unfolding b64_sextets.simps Let_def b64decode.simps
    by (simp only: sextets_back(2,3) [OF of_char_less of_char_less of_char_less] char_of_char)
next
  case (4 a b c rest)
  have "map_option (\<lambda>t. [a, b, c] @ t) (b64decode (b64_sextets rest)) = Some ([a, b, c] @ rest)"
    by (simp only: 4 option.map)
  then show ?case unfolding b64_sextets.simps Let_def append.simps b64decode.simps
    by (simp only: sextets_back(2,4,5) [OF of_char_less of_char_less of_char_less] char_of_char)
qed

text \<open>Every non-empty byte string decodes from its text, and a text that decodes is the text of its bytes.\<close>

lemma decode_encode: "raw \<noteq> [] \<Longrightarrow> decode_text (encode_bytes raw) = Inr raw"
proof -
  assume raw: "raw \<noteq> []"
  have "list_all b64_alphabet (encode_bytes raw)"
    using b64_sextets_bound [of raw] by (simp add: encode_bytes_sextets b64_alphabet_def list_all_iff)
  moreover have "map (\<lambda>c. the (b64_value c)) (encode_bytes raw) = b64_sextets raw"
    using b64_sextets_bound [of raw] by (simp add: encode_bytes_sextets list_all_iff map_idI)
  ultimately show ?thesis using raw by (simp add: decode_text_def encode_bytes_sextets b64decode_sextets)
qed

lemma decode_text_canonical: "decode_text value = Inr raw \<Longrightarrow> encode_bytes raw = value \<and> raw \<noteq> []"
  by (auto simp: decode_text_def bind_res_Inr require_package_Inr encode_bytes_sextets)

subsection \<open>Identifiers and documents\<close>

definition read_uuid :: "string \<Rightarrow> nat option" where
  "read_uuid s = (if list_all is_digit s \<and> dec_nat (read_nat s) = s then Some (read_nat s) else None)"

definition identifier_of :: "json \<Rightarrow> nat res" where
  "identifier_of value = (case value of JStr s \<Rightarrow> of_option invalid_package (read_uuid s) | _ \<Rightarrow> Inl invalid_package)"

lemma read_uuid_dec [simp]: "read_uuid (dec_nat n) = Some n"
  by (simp add: read_uuid_def dec_nat_digits)

lemma read_uuid_Some: "read_uuid s = Some n \<longleftrightarrow> s = dec_nat n"
  by (auto simp: read_uuid_def dec_nat_digits)

lemma identifier_of_Inr [res_simps]: "identifier_of v = Inr n \<longleftrightarrow> v = JStr (dec_nat n)"
  by (cases v) (auto simp: identifier_of_def of_option_Inr read_uuid_Some)

text \<open>
  What the contract takes from outside: \<open>json.loads\<close> with every item of an object kept (a text it refuses, and a
  number that is not an integer, which no field of a package admits, is \<open>None\<close>), SHA-256, the key ring
  (identifier_of to key size in bits, or its refusal), RSA-OAEP, AES-GCM, and what Pillow reads of an image
  (format, width and height, \<open>None\<close> when it raises), with the settings.
\<close>

record contract_env =
  json_loads :: "string \<Rightarrow> json option"
  digest_hex :: "string \<Rightarrow> string"
  private_keys :: "(string \<Rightarrow> nat option) res"
  oaep_decrypt :: "string \<Rightarrow> string \<Rightarrow> string option"
  gcm_decrypt :: "string \<Rightarrow> string \<Rightarrow> string \<Rightarrow> string \<Rightarrow> string option"
  open_image :: "string \<Rightarrow> (string \<times> int \<times> int) option"
  REPORT_TRANSFER_MAX_JSON_BYTES :: int
  REPORT_TRANSFER_MAX_JPEG_BYTES :: int
  REPORT_TRANSFER_MAX_ATTACHMENTS :: int
  REPORT_TRANSFER_MAX_IMAGE_PIXELS :: int

text \<open>\<open>_pairs\<close>, the hook of every object of the text.\<close>

fun pairs_accepted :: "json \<Rightarrow> bool" where
  "pairs_accepted (JObj fs) = (distinct (map fst fs) \<and> list_all (\<lambda>(k, v). pairs_accepted v) fs)"
| "pairs_accepted (JList xs) = list_all pairs_accepted xs"
| "pairs_accepted _ = True"

definition parse_json :: "contract_env \<Rightarrow> string \<Rightarrow> json res" where
  "parse_json C raw =
     bind_res (of_option invalid_package (json_loads C raw)) (\<lambda>value.
     bind_res (require_package (pairs_accepted value)) (\<lambda>_. Inr value))"

definition canonical :: "json \<Rightarrow> string" where
  "canonical value = json_bytes value"

definition jfield :: "json \<Rightarrow> string \<Rightarrow> json" where
  "jfield j k = (case jget j k of Some v \<Rightarrow> v | None \<Rightarrow> JNull)"

definition jtext :: "json \<Rightarrow> string" where
  "jtext j = (case j of JStr s \<Rightarrow> s | _ \<Rightarrow> [])"

definition has_fields :: "json \<Rightarrow> string list \<Rightarrow> bool" where
  "has_fields j names = (is_dict j \<and> set (jkeys j) = set names)"

subsection \<open>The envelope\<close>

definition HEADER_FIELDS :: "string list" where
  "HEADER_FIELDS = [''typ'', ''alg'', ''enc'', ''kid'', ''package_version'', ''schema_version'', ''submission_id'',
     ''report_id'', ''recipient_personnel_id'', ''installation_id'', ''department_id'', ''station_id'']"

definition JWE_FIELDS :: "string list" where
  "JWE_FIELDS = [''protected'', ''encrypted_key'', ''iv'', ''ciphertext'', ''tag'']"

definition key_char :: "char \<Rightarrow> bool" where
  "key_char c =
     (let n = of_char c :: nat in
      65 \<le> n \<and> n \<le> 90 \<or> 97 \<le> n \<and> n \<le> 122 \<or> 48 \<le> n \<and> n \<le> 57 \<or> n = 45 \<or> n = 46 \<or> n = 95)"

text \<open>\<open>re.fullmatch("[A-Za-z0-9._-]{1,64}", value)\<close>\<close>

definition key_text :: "json \<Rightarrow> bool" where
  "key_text value =
     (case value of JStr s \<Rightarrow> s \<noteq> [] \<and> length s \<le> 64 \<and> list_all key_char s | _ \<Rightarrow> False)"

record report_header =
  hdr_kid :: string
  hdr_submission_id :: nat
  hdr_report_id :: nat
  hdr_recipient_personnel_id :: nat
  hdr_installation_id :: nat
  hdr_department_id :: nat
  hdr_station_id :: nat

definition inspect_envelope :: "contract_env \<Rightarrow> json \<Rightarrow> report_header res" where
  "inspect_envelope C envelope =
     bind_res (require_package (has_fields envelope JWE_FIELDS)) (\<lambda>_.
     bind_res (require_package (list_all (\<lambda>k. is_str (jfield envelope k)) JWE_FIELDS)) (\<lambda>_.
     bind_res (require_package (int (length (jtext (jfield envelope ''protected''))) \<le> 4096)) (\<lambda>_.
     bind_res (decode (jfield envelope ''protected'')) (\<lambda>raw.
     bind_res (parse_json C raw) (\<lambda>header.
     bind_res (require_package (has_fields header HEADER_FIELDS)) (\<lambda>_.
     bind_res (require_package (jfield header ''typ'' = JStr ''firedash-report+jwe''
        \<and> jfield header ''alg'' = JStr ''RSA-OAEP-256'' \<and> jfield header ''enc'' = JStr ''A256GCM'')) (\<lambda>_.
     bind_res (require_package (jfield header ''package_version'' = JInt 1)) (\<lambda>_.
     bind_res (require_package (jfield header ''schema_version'' = JStr ''transport-json-v1'')) (\<lambda>_.
     bind_res (require_package (key_text (jfield header ''kid''))) (\<lambda>_.
     bind_res (identifier_of (jfield header ''submission_id'')) (\<lambda>submission.
     bind_res (identifier_of (jfield header ''report_id'')) (\<lambda>report.
     bind_res (identifier_of (jfield header ''recipient_personnel_id'')) (\<lambda>recipient.
     bind_res (identifier_of (jfield header ''installation_id'')) (\<lambda>installation.
     bind_res (identifier_of (jfield header ''department_id'')) (\<lambda>department.
     bind_res (identifier_of (jfield header ''station_id'')) (\<lambda>station.
     Inr \<lparr>hdr_kid = jtext (jfield header ''kid''), hdr_submission_id = submission, hdr_report_id = report,
       hdr_recipient_personnel_id = recipient, hdr_installation_id = installation, hdr_department_id = department,
       hdr_station_id = station\<rparr>))))))))))))))))"

subsection \<open>Contents\<close>

definition content_item :: "contract_env \<Rightarrow> json \<Rightarrow> int \<Rightarrow> string list \<Rightarrow> string res" where
  "content_item C item limit names =
     bind_res (require_package (has_fields item names)) (\<lambda>_.
     bind_res (require_package (case jfield item ''size'' of JInt n \<Rightarrow> 0 < n \<and> n \<le> limit | _ \<Rightarrow> False)) (\<lambda>_.
     bind_res (require_package (is_str (jfield item ''data'')
        \<and> int (length (jtext (jfield item ''data''))) \<le> (limit + 2) div 3 * 4)) (\<lambda>_.
     bind_res (decode (jfield item ''data'')) (\<lambda>raw.
     bind_res (require_package (jfield item ''size'' = JInt (int (length raw))
        \<and> jfield item ''sha256'' = JStr (digest_hex C raw))) (\<lambda>_. Inr raw)))))"

definition jpeg_start :: string where "jpeg_start = [char_of (255::nat), char_of (216::nat)]"
definition jpeg_end :: string where "jpeg_end = [char_of (255::nat), char_of (217::nat)]"

definition check_jpeg :: "contract_env \<Rightarrow> string \<Rightarrow> unit res" where
  "check_jpeg C raw =
     (case open_image C raw of
        None \<Rightarrow> Inl invalid_package
      | Some (fmt, width, height) \<Rightarrow>
          bind_res (require_package (fmt = ''JPEG'' \<and> width * height \<le> REPORT_TRANSFER_MAX_IMAGE_PIXELS C)) (\<lambda>_.
          require_package (take 2 raw = jpeg_start \<and> drop (length raw - 2) raw = jpeg_end)))"

text \<open>The loop over the attachments collects their identifiers.\<close>

definition check_attachment :: "contract_env \<Rightarrow> report_header \<Rightarrow> json \<Rightarrow> nat list \<Rightarrow> nat list res" where
  "check_attachment C header item seen =
     bind_res (content_item C item (REPORT_TRANSFER_MAX_JPEG_BYTES C)
        [''id'', ''report_id'', ''media_type'', ''size'', ''sha256'', ''data'']) (\<lambda>raw.
     bind_res (identifier_of (jfield item ''id'')) (\<lambda>identity.
     bind_res (require_package (identity \<notin> set seen
        \<and> jfield item ''report_id'' = JStr (dec_nat (hdr_report_id header))
        \<and> jfield item ''media_type'' = JStr ''image/jpeg'')) (\<lambda>_.
     bind_res (check_jpeg C raw) (\<lambda>_. Inr (seen @ [identity])))))"

fun identifiers :: "json list \<Rightarrow> nat list res" where
  "identifiers [] = Inr []"
| "identifiers (v # vs) = bind_res (identifier_of v) (\<lambda>n. bind_res (identifiers vs) (\<lambda>ns. Inr (n # ns)))"

lemma identifiers_Inr [res_simps]: "identifiers vs = Inr ns \<longleftrightarrow> vs = map (\<lambda>n. JStr (dec_nat n)) ns"
  by (induction vs arbitrary: ns) (auto simp: bind_res_Inr identifier_of_Inr)

end
