(* ===== verification/Report_Document.thy ===== *)
theory Report_Document
  imports Report_Contract
begin

text \<open>
  apps/report_transfer/documents.py and the decryption of apps/report_transfer/contract.py: the validator of a
  finalised report document, the digest that binds a document to its attachments, and the validation of a whole
  package.
\<close>

subsection \<open>Leaves\<close>

definition shape :: "json \<Rightarrow> string list \<Rightarrow> string list \<Rightarrow> unit res" where
  "shape value required optional =
     require_package (is_dict value \<and> set required \<subseteq> set (jkeys value)
       \<and> set (jkeys value) \<subseteq> set required \<union> set optional)"

text \<open>Characters of Unicode category C below 256: the controls and the soft hyphen.\<close>

definition category_c :: "char \<Rightarrow> bool" where
  "category_c c = (let n = of_char c :: nat in n < 32 \<or> 127 \<le> n \<and> n \<le> 159 \<or> n = 173)"

definition plain_char :: "char \<Rightarrow> bool" where
  "plain_char c = ((of_char c :: nat) = 10 \<or> (of_char c :: nat) = 9 \<or> \<not> category_c c)"

definition check_text :: "json \<Rightarrow> int \<Rightarrow> bool \<Rightarrow> unit res" where
  "check_text value maximum blank =
     (case value of
        JStr s \<Rightarrow>
          bind_res (require_package ((if blank then 0 else 1) \<le> length s \<and> int (length s) \<le> maximum)) (\<lambda>_.
          bind_res (require_package (CHR ''<'' \<notin> set s \<and> CHR ''>'' \<notin> set s)) (\<lambda>_.
          require_package (list_all plain_char s)))
      | _ \<Rightarrow> Inl invalid_package)"

definition check_key :: "json \<Rightarrow> unit res" where
  "check_key value = require_package (key_text value)"

definition check_sequence :: "json \<Rightarrow> int \<Rightarrow> int \<Rightarrow> unit res" where
  "check_sequence value maximum minimum =
     require_package (is_list value \<and> minimum \<le> int (length (jitems value)) \<and> int (length (jitems value)) \<le> maximum)"

definition check_unique :: "json list \<Rightarrow> string \<Rightarrow> unit res" where
  "check_unique items field = require_package (distinct (map (\<lambda>item. jfield item field) items))"

text \<open>\<open>date.fromisoformat(value).isoformat() == value\<close>\<close>

definition leap_year :: "nat \<Rightarrow> bool" where
  "leap_year y = (y mod 4 = 0 \<and> (y mod 100 \<noteq> 0 \<or> y mod 400 = 0))"

definition days_in_month :: "nat \<Rightarrow> nat \<Rightarrow> nat" where
  "days_in_month y m =
     (if m = 2 then (if leap_year y then 29 else 28) else if m \<in> {4, 6, 9, 11} then 30 else 31)"

definition iso_date :: "string \<Rightarrow> bool" where
  "iso_date s =
     (length s = 10 \<and> s ! 4 = CHR ''-'' \<and> s ! 7 = CHR ''-''
      \<and> list_all is_digit (take 4 s @ take 2 (drop 5 s) @ drop 8 s)
      \<and> (let y = read_nat (take 4 s); m = read_nat (take 2 (drop 5 s)); d = read_nat (drop 8 s) in
         1 \<le> y \<and> 1 \<le> m \<and> m \<le> 12 \<and> 1 \<le> d \<and> d \<le> days_in_month y m))"

definition two_digits :: "string \<Rightarrow> nat \<Rightarrow> bool" where
  "two_digits s limit = (length s = 2 \<and> list_all is_digit s \<and> read_nat s < limit)"

text \<open>The offset of a timestamp: \<open>Z\<close> or hours and minutes with a sign.\<close>

definition iso_offset :: "string \<Rightarrow> bool" where
  "iso_offset s =
     (s = ''Z'' \<or> length s = 6 \<and> (s ! 0 = CHR ''+'' \<or> s ! 0 = CHR ''-'') \<and> s ! 3 = CHR '':''
        \<and> two_digits (take 2 (drop 1 s)) 24 \<and> two_digits (drop 4 s) 60)"

text \<open>The optional fraction of a second, of one to six digits, is followed by the offset.\<close>

definition iso_fraction :: "string \<Rightarrow> bool" where
  "iso_fraction s =
     (case s of
        c # rest \<Rightarrow>
          if c = CHR ''.''
          then (let digits = takeWhile is_digit rest in
                1 \<le> length digits \<and> length digits \<le> 6 \<and> iso_offset (drop (length digits) rest))
          else iso_offset s
      | [] \<Rightarrow> False)"

definition iso_timestamp :: "string \<Rightarrow> bool" where
  "iso_timestamp s =
     (20 \<le> length s \<and> iso_date (take 10 s) \<and> s ! 10 = CHR ''T'' \<and> two_digits (take 2 (drop 11 s)) 24
      \<and> s ! 13 = CHR '':'' \<and> two_digits (take 2 (drop 14 s)) 60 \<and> s ! 16 = CHR '':''
      \<and> two_digits (take 2 (drop 17 s)) 60 \<and> iso_fraction (drop 19 s))"

definition check_timestamp :: "json \<Rightarrow> unit res" where
  "check_timestamp value =
     bind_res (check_text value 35 False) (\<lambda>_. require_package (iso_timestamp (jtext value)))"

text \<open>\<open>-?(0|[1-9][0-9]*)(\.[0-9]+)?\<close>\<close>

definition decimal_text :: "string \<Rightarrow> bool" where
  "decimal_text s =
     (let t = (if s \<noteq> [] \<and> hd s = CHR ''-'' then tl s else s);
          whole = takeWhile is_digit t;
          rest = dropWhile is_digit t
      in whole \<noteq> [] \<and> (whole = ''0'' \<or> hd whole \<noteq> CHR ''0'')
         \<and> (rest = [] \<or> hd rest = CHR ''.'' \<and> tl rest \<noteq> [] \<and> list_all is_digit (tl rest)))"

definition typed_value :: "json \<Rightarrow> unit res" where
  "typed_value item =
     bind_res (shape item [''type'', ''value''] []) (\<lambda>_.
       let value = jfield item ''value'' in
       case jfield item ''type'' of
         JStr kind \<Rightarrow>
           if kind = ''text'' then check_text value 4000 True
           else if kind = ''integer'' then
             require_package (case value of JInt i \<Rightarrow> \<bar>i\<bar> \<le> 9007199254740991 | _ \<Rightarrow> False)
           else if kind = ''decimal'' then
             bind_res (require_package (is_str value \<and> length (jtext value) \<le> 32)) (\<lambda>_.
             require_package (decimal_text (jtext value)))
           else if kind = ''boolean'' then require_package (case value of JBool _ \<Rightarrow> True | _ \<Rightarrow> False)
           else if kind = ''date'' then
             bind_res (check_text value 10 False) (\<lambda>_. require_package (iso_date (jtext value)))
           else if kind = ''datetime'' then check_timestamp value
           else Inl invalid_package
       | _ \<Rightarrow> Inl invalid_package)"

definition check_field :: "json \<Rightarrow> unit res" where
  "check_field item =
     bind_res (shape item [''key'', ''label'', ''value''] []) (\<lambda>_.
     bind_res (check_key (jfield item ''key'')) (\<lambda>_.
     bind_res (check_text (jfield item ''label'') 200 False) (\<lambda>_.
     typed_value (jfield item ''value''))))"

definition check_fields :: "json \<Rightarrow> unit res" where
  "check_fields items =
     bind_res (check_sequence items 100 0) (\<lambda>_.
     bind_res (each check_field (jitems items)) (\<lambda>_.
     check_unique (jitems items) ''key''))"

subsection \<open>Attachments and sections\<close>

text \<open>The loop over the attachments of a document: the identifiers read so far.\<close>

definition document_attachment :: "json \<Rightarrow> json list \<Rightarrow> json list res" where
  "document_attachment attachment ids =
     bind_res (shape attachment [''id'', ''title'', ''caption''] []) (\<lambda>_.
     bind_res (identifier_of (jfield attachment ''id'')) (\<lambda>_.
     bind_res (require_package (jfield attachment ''id'' \<notin> set ids)) (\<lambda>_.
     bind_res (check_text (jfield attachment ''title'') 200 False) (\<lambda>_.
     bind_res (check_text (jfield attachment ''caption'') 2000 True) (\<lambda>_.
     Inr (ids @ [jfield attachment ''id'']))))))"

text \<open>The keys read so far and the running totals of the loop over the sections.\<close>

record scan =
  scan_keys :: "json list"
  total_blocks :: int
  total_cells :: int

definition fresh_key :: "json \<Rightarrow> scan \<Rightarrow> scan res" where
  "fresh_key k s =
     bind_res (require_package (k \<notin> set (scan_keys s))) (\<lambda>_. Inr (s\<lparr>scan_keys := scan_keys s @ [k]\<rparr>))"

definition check_column :: "json \<Rightarrow> unit res" where
  "check_column column =
     bind_res (shape column [''key'', ''label''] []) (\<lambda>_.
     bind_res (check_key (jfield column ''key'')) (\<lambda>_.
     check_text (jfield column ''label'') 80 False))"

definition check_row :: "int \<Rightarrow> json \<Rightarrow> scan \<Rightarrow> scan res" where
  "check_row columns row s =
     bind_res (check_sequence row columns columns) (\<lambda>_.
       let t = s\<lparr>total_cells := total_cells s + int (length (jitems row))\<rparr> in
       bind_res (require_package (total_cells t \<le> 4000)) (\<lambda>_.
       bind_res (each typed_value (jitems row)) (\<lambda>_. Inr t)))"

definition check_table :: "json \<Rightarrow> scan \<Rightarrow> scan res" where
  "check_table block s =
     bind_res (shape block [''key'', ''kind'', ''columns'', ''rows''] []) (\<lambda>_.
       let columns = jfield block ''columns''; rows = jfield block ''rows'' in
       bind_res (check_sequence columns 8 1) (\<lambda>_.
       bind_res (each check_column (jitems columns)) (\<lambda>_.
       bind_res (check_unique (jitems columns) ''key'') (\<lambda>_.
       bind_res (check_sequence rows 500 0) (\<lambda>_.
       fold_res (check_row (int (length (jitems columns)))) (jitems rows) s)))))"

definition check_references :: "json list \<Rightarrow> json \<Rightarrow> unit res" where
  "check_references ids block =
     bind_res (shape block [''key'', ''kind'', ''attachment_ids''] []) (\<lambda>_.
       let refs = jfield block ''attachment_ids'' in
       bind_res (check_sequence refs 32 0) (\<lambda>_.
       bind_res (each (\<lambda>i. bind_res (identifier_of i) (\<lambda>_. require_package (i \<in> set ids))) (jitems refs)) (\<lambda>_.
       require_package (distinct (jitems refs)))))"

definition check_block :: "json list \<Rightarrow> json \<Rightarrow> scan \<Rightarrow> scan res" where
  "check_block ids block s =
     bind_res (require_package (is_dict block)) (\<lambda>_.
     bind_res (check_key (jfield block ''key'')) (\<lambda>_.
     bind_res (fresh_key (jfield block ''key'') s) (\<lambda>t.
       case jfield block ''kind'' of
         JStr kind \<Rightarrow>
           if kind = ''text'' then
             bind_res (shape block [''key'', ''kind'', ''text''] []) (\<lambda>_.
             bind_res (check_text (jfield block ''text'') 20000 True) (\<lambda>_. Inr t))
           else if kind = ''fields'' then
             bind_res (shape block [''key'', ''kind'', ''fields''] []) (\<lambda>_.
             bind_res (check_fields (jfield block ''fields'')) (\<lambda>_. Inr t))
           else if kind = ''table'' then check_table block t
           else if kind = ''attachment_refs'' then bind_res (check_references ids block) (\<lambda>_. Inr t)
           else Inl invalid_package
       | _ \<Rightarrow> Inl invalid_package)))"

definition check_section :: "json list \<Rightarrow> json \<Rightarrow> scan \<Rightarrow> scan res" where
  "check_section ids section s =
     bind_res (shape section [''key'', ''title'', ''blocks''] []) (\<lambda>_.
     bind_res (check_key (jfield section ''key'')) (\<lambda>_.
     bind_res (check_text (jfield section ''title'') 200 False) (\<lambda>_.
     bind_res (fresh_key (jfield section ''key'') s) (\<lambda>t.
       let blocks = jfield section ''blocks'' in
       bind_res (check_sequence blocks 50 0) (\<lambda>_.
         let u = t\<lparr>total_blocks := total_blocks t + int (length (jitems blocks))\<rparr> in
         bind_res (require_package (total_blocks u \<le> 200)) (\<lambda>_.
         fold_res (check_block ids) (jitems blocks) u))))))"

definition check_finalization :: "json list \<Rightarrow> json \<Rightarrow> unit res" where
  "check_finalization ids finalization =
     bind_res (shape finalization [''author'', ''finalized_at''] [''signature_attachment_id'']) (\<lambda>_.
       let author = jfield finalization ''author'' in
       bind_res (shape author [''id'', ''display_name''] []) (\<lambda>_.
       bind_res (check_text (jfield author ''id'') 128 False) (\<lambda>_.
       bind_res (check_text (jfield author ''display_name'') 160 False) (\<lambda>_.
       bind_res (check_timestamp (jfield finalization ''finalized_at'')) (\<lambda>_.
       case jget finalization ''signature_attachment_id'' of
         None \<Rightarrow> Inr ()
       | Some i \<Rightarrow> bind_res (identifier_of i) (\<lambda>_. require_package (i \<in> set ids)))))))"

subsection \<open>Documents\<close>

definition hex_lower :: "char \<Rightarrow> bool" where
  "hex_lower c = (is_digit c \<or> 97 \<le> (of_char c :: nat) \<and> (of_char c :: nat) \<le> 102)"

definition hash_text :: "json \<Rightarrow> bool" where
  "hash_text v = (case v of JStr s \<Rightarrow> length s = 64 \<and> list_all hex_lower s | _ \<Rightarrow> False)"

text \<open>\<open>hashes\<close> is the dictionary from attachment identifier to SHA-256 the package declares.\<close>

definition validate_document :: "json \<Rightarrow> json \<Rightarrow> (json \<times> json) list \<Rightarrow> unit res" where
  "validate_document document report_id hashes =
     bind_res (shape document [''report_id'', ''schema_version'', ''report_type'', ''title'', ''header'', ''sections'',
        ''attachments'', ''finalization''] []) (\<lambda>_.
     bind_res (identifier_of report_id) (\<lambda>_.
     bind_res (require_package (jfield document ''report_id'' = report_id)) (\<lambda>_.
     bind_res (require_package (jfield document ''schema_version'' = JInt 1)) (\<lambda>_.
     bind_res (check_text (jfield document ''report_type'') 80 False) (\<lambda>_.
     bind_res (check_text (jfield document ''title'') 200 False) (\<lambda>_.
     bind_res (check_fields (jfield document ''header'')) (\<lambda>_.
     bind_res (check_sequence (jfield document ''attachments'') 32 0) (\<lambda>_.
     bind_res (fold_res document_attachment (jitems (jfield document ''attachments'')) []) (\<lambda>ids.
     bind_res (require_package (set ids = set (map fst hashes))) (\<lambda>_.
     bind_res (each (\<lambda>h. require_package (hash_text h)) (map snd hashes)) (\<lambda>_.
     bind_res (check_sequence (jfield document ''sections'') 50 0) (\<lambda>_.
     bind_res (fold_res (check_section ids) (jitems (jfield document ''sections''))
        \<lparr>scan_keys = [], total_blocks = 0, total_cells = 0\<rparr>) (\<lambda>_.
     bind_res (check_finalization ids (jfield document ''finalization'')) (\<lambda>_.
     require_package (int (length (canonical document)) \<le> 1024 * 1024)))))))))))))))"

definition document_digest :: "contract_env \<Rightarrow> json \<Rightarrow> (json \<times> json) list \<Rightarrow> string res" where
  "document_digest C document hashes =
     bind_res (require_package (is_dict document)) (\<lambda>_.
     bind_res (validate_document document (jfield document ''report_id'') hashes) (\<lambda>_.
     Inr (digest_hex C (canonical (JObj
       [(''profile'', JStr ''firedash-report-document-sha256-v1''), (''document'', document),
        (''attachments'', JList (map (\<lambda>(k, v). JObj [(''id'', k), (''sha256'', v)])
           (sort_key (\<lambda>(k, v). jtext k) hashes)))])))))"

subsection \<open>Packages\<close>

definition open_package :: "contract_env \<Rightarrow> json \<Rightarrow> report_header \<Rightarrow> string res" where
  "open_package C envelope header =
     bind_res (private_keys C) (\<lambda>keys.
     bind_res (of_option (TransferError ''unknown_report_key'' 400) (keys (hdr_kid header))) (\<lambda>bits.
     bind_res (decode (jfield envelope ''encrypted_key'')) (\<lambda>wrapped.
     bind_res (decode (jfield envelope ''iv'')) (\<lambda>iv.
     bind_res (decode (jfield envelope ''ciphertext'')) (\<lambda>ciphertext.
     bind_res (decode (jfield envelope ''tag'')) (\<lambda>tag.
     bind_res (require_package (length wrapped = bits div 8 \<and> length iv = 12 \<and> length tag = 16)) (\<lambda>_.
     bind_res (of_option invalid_package (oaep_decrypt C (hdr_kid header) wrapped)) (\<lambda>cek.
     bind_res (require_package (length cek = 32)) (\<lambda>_.
     of_option invalid_package
       (gcm_decrypt C cek iv (ciphertext @ tag) (jtext (jfield envelope ''protected''))))))))))))"

record report_package =
  pkg_document :: json
  pkg_attachments :: "json list"
  pkg_digest :: string

definition decrypt_and_validate :: "contract_env \<Rightarrow> json \<Rightarrow> report_header \<Rightarrow> report_package res" where
  "decrypt_and_validate C envelope header =
     bind_res (open_package C envelope header) (\<lambda>plaintext.
     bind_res (parse_json C plaintext) (\<lambda>package.
     bind_res (require_package (has_fields package [''report'', ''attachments''])) (\<lambda>_.
       let report = jfield package ''report''; attachments = jfield package ''attachments'' in
       bind_res (content_item C report (REPORT_TRANSFER_MAX_JSON_BYTES C)
          [''data'', ''size'', ''sha256'', ''attachment_ids'']) (\<lambda>raw.
       bind_res (parse_json C raw) (\<lambda>document.
       bind_res (require_package (is_dict document)) (\<lambda>_.
       bind_res (require_package (is_list attachments
          \<and> int (length (jitems attachments)) \<le> REPORT_TRANSFER_MAX_ATTACHMENTS C)) (\<lambda>_.
         let references = jfield report ''attachment_ids'' in
         bind_res (require_package (is_list references
            \<and> length (jitems references) = length (jitems attachments))) (\<lambda>_.
         bind_res (fold_res (check_attachment C header) (jitems attachments) []) (\<lambda>seen.
         bind_res (identifiers (jitems references)) (\<lambda>refs.
         bind_res (require_package (distinct refs)) (\<lambda>_.
         bind_res (require_package (set refs = set seen)) (\<lambda>_.
         bind_res (document_digest C document
            (map (\<lambda>item. (jfield item ''id'', jfield item ''sha256'')) (jitems attachments))) (\<lambda>digest.
         bind_res (require_package (jfield document ''report_id'' = JStr (dec_nat (hdr_report_id header)))) (\<lambda>_.
         Inr \<lparr>pkg_document = document, pkg_attachments = jitems attachments, pkg_digest = digest\<rparr>))))))))))))))"

end
