(* ===== verification/Report_Services.thy ===== *)
theory Report_Services
  imports Recipients Report_Document
begin

text \<open>
  Acceptance, expiry and export of report packages: apps/report_transfer/models.py, storage.py, services.py and
  exports.py.  The state wraps the roster (\<open>crew\<close>) and adds the rows of the component, its spool directory (the
  ciphertext files, the receipts of completed downloads, the temporary files of receipts) and its audit trail.
\<close>

subsection \<open>Rows and files\<close>

datatype submission_state = SUB_READY | SUB_EXPIRED

record submission_row =
  sub_id :: nat
  sub_installation :: nat
  sub_submission_id :: nat
  sub_report_id :: nat
  sub_recipient :: nat
  sub_department :: nat
  sub_station :: nat
  sub_payload_digest :: string
  sub_document_digest :: string
  sub_document_schema_version :: "int option"
  sub_first_download_at :: "timestamp option"
  sub_payload_key :: string
  sub_key_version :: string
  sub_state :: submission_state
  sub_created_at :: timestamp
  sub_expires_at :: timestamp

datatype mail_state = MAIL_PROCESSING | MAIL_SENT | MAIL_FAILED | MAIL_UNKNOWN

record transfer_row =
  trf_id :: nat
  trf_installation :: nat
  trf_recipient :: nat
  trf_transfer_request_id :: nat
  trf_request_digest :: string
  trf_recipient_email_digest :: string
  trf_submissions :: "nat list"
  trf_token_digest :: string
  trf_issued_at :: timestamp
  trf_token_expires_at :: timestamp
  trf_consumed_at :: "timestamp option"
  trf_revoked_at :: "timestamp option"
  trf_mail_state :: mail_state
  trf_mail_code :: string

record portal_row =
  prt_id :: nat
  prt_transfer :: nat
  prt_session_digest :: string
  prt_last_seen_at :: timestamp
  prt_logged_out_at :: "timestamp option"

record download_audit =
  dla_download_id :: nat
  dla_transfer_id :: nat
  dla_file_type :: string

text \<open>
  The file \<open>{submission_pk}-{uuid}.receipt\<close>: the number in its name, and what it holds; \<open>None\<close> is a symbolic link,
  a file over 512 bytes, or content that is not a receipt.
\<close>

record receipt_file =
  rcp_id :: nat
  rcp_prefix :: nat
  rcp_body :: "(nat \<times> timestamp \<times> download_audit option) option"

record report_event =
  rev_action :: string
  rev_installation_uuid :: "nat option"
  rev_department :: "nat option"
  rev_station :: "nat option"
  rev_target_type :: string
  rev_target :: "nat option"
  rev_timestamp :: timestamp
  rev_metadata :: "(string \<times> json) list"

record exchange =
  crew :: roster
  submissions :: "submission_row list"
  report_transfers :: "transfer_row list"
  portal_sessions :: "portal_row list"
  payload_files :: "(string \<times> string) list"
  receipts :: "receipt_file list"
  receipt_temps :: "(string \<times> timestamp) list"
  report_log :: "report_event list"

abbreviation exchange_now :: "exchange \<Rightarrow> timestamp" where
  "exchange_now x \<equiv> clock (base (yard (crew x)))"

text \<open>
  Parameters: the cryptographic contract, Django's address validator, the keyed digest of an address, the
  department's mail provider (apps/outbound_mail/resolution.py) and what one send does, the PDF renderer, the file
  system (a storage root that overlaps another one, symbolic links, failing writes and unlinks), whether the
  public origin validates, and the settings.
\<close>

datatype send_outcome = SendAccepted | SendRejected | SendRaised | SendOdd | MessageRefused

record report_env =
  contract :: contract_env
  email_accepted :: "string \<Rightarrow> bool"
  email_digest :: "string \<Rightarrow> string"
  provider_usable :: "nat \<Rightarrow> bool"
  provider_send :: "nat \<Rightarrow> string \<Rightarrow> string \<Rightarrow> send_outcome"
  render_pdf :: "json \<Rightarrow> (json \<times> json) list \<Rightarrow> timestamp \<Rightarrow> string"
  storage_overlap :: bool
  is_symlink :: "string \<Rightarrow> bool"
  write_fault :: "string \<Rightarrow> bool"
  io_fault :: "string \<Rightarrow> bool"
  public_origin_valid :: bool
  REPORT_TRANSFER_MAX_REQUEST_BYTES :: int
  REPORT_TRANSFER_RETENTION_HOURS :: int
  REPORT_TRANSFER_MAX_REPORTS :: int
  REPORT_TRANSFER_MAILS_PER_HOUR :: nat
  REPORT_TRANSFER_MAILS_PER_MINUTE :: nat

definition usec_per_hour :: int where "usec_per_hour = 3600 * usec_per_second"
definition usec_per_minute :: int where "usec_per_minute = 60 * usec_per_second"

definition sha256 :: "report_env \<Rightarrow> string \<Rightarrow> string" where
  "sha256 R s = digest_hex (contract R) s"

subsection \<open>Statements\<close>

definition submission_constraints :: "submission_row list \<Rightarrow> bool" where
  "submission_constraints rows =
     (distinct (map (\<lambda>s. (sub_installation s, sub_report_id s)) rows)
      \<and> distinct (map (\<lambda>s. (sub_installation s, sub_submission_id s)) rows))"

definition transfer_constraints :: "transfer_row list \<Rightarrow> bool" where
  "transfer_constraints rows =
     (distinct (map (\<lambda>t. (trf_installation t, trf_transfer_request_id t)) rows)
      \<and> distinct (map (\<lambda>t. (trf_installation t, trf_recipient t)) (filter (\<lambda>t. trf_revoked_at t = None) rows))
      \<and> distinct (map trf_token_digest rows))"

definition put_submissions :: "submission_row list \<Rightarrow> exchange \<Rightarrow> exchange res" where
  "put_submissions rows x =
     (if submission_constraints rows then Inr (x\<lparr>submissions := rows\<rparr>) else Inl (IntegrityError ''report_submission''))"

definition put_transfers :: "transfer_row list \<Rightarrow> exchange \<Rightarrow> exchange res" where
  "put_transfers rows x =
     (if transfer_constraints rows then Inr (x\<lparr>report_transfers := rows\<rparr>) else Inl (IntegrityError ''report_transfer''))"

definition update_transfer :: "nat \<Rightarrow> (transfer_row \<Rightarrow> transfer_row) \<Rightarrow> exchange \<Rightarrow> exchange res" where
  "update_transfer i g x = put_transfers (map (\<lambda>t. if trf_id t = i then g t else t) (report_transfers x)) x"

definition update_submission :: "nat \<Rightarrow> (submission_row \<Rightarrow> submission_row) \<Rightarrow> exchange \<Rightarrow> exchange res" where
  "update_submission i g x = put_submissions (map (\<lambda>s. if sub_id s = i then g s else s) (submissions x)) x"

definition fresh_exchange_id :: "exchange \<Rightarrow> nat \<times> exchange" where
  "fresh_exchange_id x = (let (i, r) = fresh_roster_id (crew x) in (i, x\<lparr>crew := r\<rparr>))"

definition report_event_now ::
  "string \<Rightarrow> nat option \<Rightarrow> nat option \<Rightarrow> nat option \<Rightarrow> string \<Rightarrow> nat option \<Rightarrow> (string \<times> json) list \<Rightarrow> exchange \<Rightarrow> exchange" where
  "report_event_now action installation_uuid department station target_type target metadata x =
     x\<lparr>report_log := report_log x @
        [\<lparr>rev_action = action, rev_installation_uuid = installation_uuid, rev_department = department,
          rev_station = station, rev_target_type = target_type, rev_target = target, rev_timestamp = exchange_now x,
          rev_metadata = metadata\<rparr>]\<rparr>"

subsection \<open>Authorisation\<close>

text \<open>apps/publications/manifests.py, \<open>control_plane_context\<close>.\<close>

definition control_plane_context ::
  "nat \<Rightarrow> timestamp \<Rightarrow> fleet \<Rightarrow> (installation_row \<times> tablet_row \<times> vehicle_row option) res" where
  "control_plane_context installation_id now f =
     bind_res (fetch_installation installation_id f) (\<lambda>installation.
     bind_res (fetch_tablet (ins_tablet installation) f) (\<lambda>tablet.
     bind_res (require (ins_status installation = INS_ACTIVE \<and> ins_authorization_valid_until installation > now
          \<and> tab_active tablet \<and> department_is_active (base f) (tab_department tablet))
        (ManifestError ''Installation is not authorized for control-plane synchronization.'')) (\<lambda>_.
     if tab_status tablet = TAB_INACTIVE then Inr (installation, tablet, None)
     else
       (case first_by tva_id (\<lambda>a. tva_tablet a = tab_id tablet \<and> tva_valid_from a \<le> now \<and> tva_ended_at a = None
             \<and> (case tva_valid_until a of None \<Rightarrow> True | Some u \<Rightarrow> u > now)
             \<and> (case row_get veh_id (tva_vehicle a) (vehicles f) of
                  None \<Rightarrow> False | Some v \<Rightarrow> veh_active v \<and> station_is_active (base f) (veh_station v)))
             (vehicle_assignments f) of
          None \<Rightarrow> Inr (installation, tablet, None)
        | Some a \<Rightarrow>
            (case row_get veh_id (tva_vehicle a) (vehicles f) of
               None \<Rightarrow> Inr (installation, tablet, None)
             | Some v \<Rightarrow> if veh_department v \<noteq> tab_department tablet then Inr (installation, tablet, None)
                         else Inr (installation, tablet, Some v))))))"

abbreviation not_authorized :: exn where
  "not_authorized \<equiv> TransferError ''installation_not_authorized'' 403"

definition authorize :: "nat \<Rightarrow> exchange \<Rightarrow> (installation_row \<times> tablet_row \<times> vehicle_row) res" where
  "authorize installation_id x =
     (case control_plane_context installation_id (exchange_now x) (yard (crew x)) of
        Inl (ManifestError _) \<Rightarrow> Inl not_authorized
      | Inl e \<Rightarrow> Inl e
      | Inr (installation, tablet, None) \<Rightarrow> Inl not_authorized
      | Inr (installation, tablet, Some vehicle) \<Rightarrow>
          if tab_status tablet \<noteq> TAB_ACTIVE
             \<or> station_department (base (yard (crew x))) (veh_station vehicle) \<noteq> Some (tab_department tablet)
          then Inl not_authorized else Inr (installation, tablet, vehicle))"

definition recipient_for :: "report_env \<Rightarrow> nat \<Rightarrow> nat \<Rightarrow> exchange \<Rightarrow> admitted_recipient res" where
  "recipient_for R department person_id x =
     (case resolve_report_recipient (email_accepted R) department person_id (crew x) of
        Inl (ReportAdmissionError _) \<Rightarrow> Inl (TransferError ''recipient_not_authorized'' 403)
      | result \<Rightarrow> result)"

subsection \<open>The spool\<close>

abbreviation storage_unavailable :: exn where
  "storage_unavailable \<equiv> TransferError ''report_storage_unavailable'' 503"

definition payload_name :: "nat \<Rightarrow> string" where
  "payload_name i = dec_nat i @ ''.jwe''"

definition removesuffix :: "string \<Rightarrow> string \<Rightarrow> string" where
  "removesuffix suffix s =
     (if length suffix \<le> length s \<and> drop (length s - length suffix) s = suffix
      then take (length s - length suffix) s else s)"

definition storage_root :: "report_env \<Rightarrow> unit res" where
  "storage_root R = require (\<not> storage_overlap R) storage_unavailable"

definition payload_path :: "report_env \<Rightarrow> string \<Rightarrow> unit res" where
  "payload_path R key =
     bind_res (require (case read_uuid (removesuffix ''.jwe'' key) of None \<Rightarrow> False | Some n \<Rightarrow> key = payload_name n)
        storage_unavailable) (\<lambda>_.
     bind_res (storage_root R) (\<lambda>_.
     require (\<not> is_symlink R key) storage_unavailable))"

definition write_payload :: "report_env \<Rightarrow> string \<Rightarrow> exchange \<Rightarrow> (string \<times> exchange) res" where
  "write_payload R raw x =
     (let (i, x1) = fresh_exchange_id x; key = payload_name i in
      bind_res (payload_path R key) (\<lambda>_.
      bind_res (require (\<not> write_fault R key \<and> map_of (payload_files x1) key = None) (OSError key)) (\<lambda>_.
      Inr (key, x1\<lparr>payload_files := payload_files x1 @ [(key, raw)]\<rparr>))))"

definition remove_payload :: "report_env \<Rightarrow> string \<Rightarrow> exchange \<Rightarrow> exchange res" where
  "remove_payload R key x =
     bind_res (payload_path R key) (\<lambda>_.
     bind_res (require (\<not> io_fault R key) (OSError key)) (\<lambda>_.
     Inr (x\<lparr>payload_files := filter (\<lambda>(k, v). k \<noteq> key) (payload_files x)\<rparr>)))"

definition receipt_name :: "receipt_file \<Rightarrow> string" where
  "receipt_name f = dec_nat (rcp_prefix f) @ ''-'' @ dec_nat (rcp_id f) @ ''.receipt''"

definition write_download_receipt ::
  "report_env \<Rightarrow> nat \<Rightarrow> timestamp \<Rightarrow> download_audit option \<Rightarrow> exchange \<Rightarrow> (receipt_file \<times> exchange) res" where
  "write_download_receipt R pk completed_at audit x =
     bind_res (storage_root R) (\<lambda>_.
       let (i, x1) = fresh_exchange_id x;
           f = \<lparr>rcp_id = i, rcp_prefix = pk, rcp_body = Some (pk, completed_at, audit)\<rparr> in
       bind_res (require (\<not> write_fault R (receipt_name f)) (OSError (receipt_name f))) (\<lambda>_.
       Inr (f, x1\<lparr>receipts := receipts x1 @ [f]\<rparr>)))"

definition read_download_receipt ::
  "receipt_file \<Rightarrow> exchange \<Rightarrow> (nat \<times> timestamp \<times> download_audit option) res" where
  "read_download_receipt f x =
     (case rcp_body f of
        None \<Rightarrow> Inl storage_unavailable
      | Some (pk, completed_at, audit) \<Rightarrow>
          bind_res (require (pk > 0 \<and> rcp_prefix f = pk \<and> completed_at \<le> exchange_now x
            \<and> (case audit of None \<Rightarrow> True | Some a \<Rightarrow> dla_file_type a = ''pdf'' \<or> dla_file_type a = ''jpeg''))
            storage_unavailable) (\<lambda>_. Inr (pk, completed_at, audit)))"

fun read_timestamps :: "receipt_file list \<Rightarrow> exchange \<Rightarrow> timestamp list res" where
  "read_timestamps [] x = Inr []"
| "read_timestamps (f # fs) x =
     bind_res (read_download_receipt f x) (\<lambda>(pk, t, a). bind_res (read_timestamps fs x) (\<lambda>ts. Inr (t # ts)))"

definition pending_downloads :: "nat \<Rightarrow> exchange \<Rightarrow> timestamp list res" where
  "pending_downloads pk x = read_timestamps (filter (\<lambda>f. rcp_prefix f = pk) (receipts x)) x"

definition unlink_receipt :: "report_env \<Rightarrow> receipt_file \<Rightarrow> exchange \<Rightarrow> exchange res" where
  "unlink_receipt R f x =
     bind_res (require (\<not> io_fault R (receipt_name f)) (OSError (receipt_name f))) (\<lambda>_.
     Inr (x\<lparr>receipts := filter (\<lambda>g. rcp_id g \<noteq> rcp_id f) (receipts x)\<rparr>))"

subsection \<open>Expiry\<close>

definition download_ceiling :: "timestamp \<Rightarrow> timestamp \<Rightarrow> timestamp \<Rightarrow> timestamp" where
  "download_ceiling created completed_at deadline =
     (if completed_at \<ge> created then min deadline (completed_at + 48 * usec_per_hour) else deadline)"

definition stored_deadline :: "submission_row \<Rightarrow> timestamp" where
  "stored_deadline row =
     (let deadline = min (sub_expires_at row) (sub_created_at row + 7 * usec_per_day) in
      case sub_first_download_at row of None \<Rightarrow> deadline | Some t \<Rightarrow> min deadline (t + 48 * usec_per_hour))"

definition effective_expiry :: "submission_row \<Rightarrow> exchange \<Rightarrow> timestamp res" where
  "effective_expiry row x =
     bind_res (pending_downloads (sub_id row) x) (\<lambda>completed.
     Inr (fold (download_ceiling (sub_created_at row)) completed (stored_deadline row)))"

text \<open>The response to a tablet, with the expiry as a timestamp in place of its ISO text.\<close>

record submission_result =
  res_submission_id :: nat
  res_report_id :: nat
  res_state :: submission_state
  res_expires_at :: timestamp

definition submission_result_of :: "submission_row \<Rightarrow> exchange \<Rightarrow> submission_result res" where
  "submission_result_of row x =
     bind_res (effective_expiry row x) (\<lambda>deadline.
     Inr \<lparr>res_submission_id = sub_submission_id row, res_report_id = sub_report_id row,
       res_state = (if deadline \<le> exchange_now x then SUB_EXPIRED else sub_state row), res_expires_at = deadline\<rparr>)"

subsection \<open>Acceptance\<close>

text \<open>
  What \<open>submit\<close> checks before its transaction and again under the installation lock reads the same state here.
\<close>

definition new_submission ::
  "report_env \<Rightarrow> nat \<Rightarrow> report_header \<Rightarrow> nat \<Rightarrow> nat \<Rightarrow> nat \<Rightarrow> string \<Rightarrow> string \<Rightarrow> string \<Rightarrow> timestamp \<Rightarrow> submission_row" where
  "new_submission R i header installation department station digest fingerprint key now =
     \<lparr>sub_id = i, sub_installation = installation, sub_submission_id = hdr_submission_id header,
      sub_report_id = hdr_report_id header, sub_recipient = hdr_recipient_personnel_id header,
      sub_department = department, sub_station = station, sub_payload_digest = digest,
      sub_document_digest = fingerprint, sub_document_schema_version = Some 1, sub_first_download_at = None,
      sub_payload_key = key, sub_key_version = hdr_kid header, sub_state = SUB_READY, sub_created_at = now,
      sub_expires_at = now + min (REPORT_TRANSFER_RETENTION_HOURS R) 168 * usec_per_hour\<rparr>"

definition record_submission ::
  "report_env \<Rightarrow> installation_row \<Rightarrow> nat \<Rightarrow> nat \<Rightarrow> report_header \<Rightarrow> string \<Rightarrow> string \<Rightarrow> string \<Rightarrow> exchange \<Rightarrow> (submission_row \<times> exchange) res" where
  "record_submission R installation department station header raw fingerprint key x =
     (let (i, x1) = fresh_exchange_id x; now = exchange_now x;
          row = new_submission R i header (ins_id installation) department station (sha256 R raw) fingerprint key now in
      bind_res (put_submissions (submissions x1 @ [row]) x1) (\<lambda>x2.
      Inr (row, report_event_now ''report_transfer.submission_accepted'' (Some (ins_installation_uuid installation))
        (Some department) (Some station) ''report_submission'' (Some (sub_submission_id row))
        [(''report_id'', JStr (dec_nat (sub_report_id row))),
         (''installation_id'', JStr (dec_nat (sub_installation row))),
         (''accepted_at'', JStr (isoformat now))] x2)))"

text \<open>
  \<open>except BaseException\<close>: whatever was raised after the payload was written, the file goes and the exception is
  raised again; a removal that raises replaces it and leaves the file.  The handler does not know whether the
  transaction committed.  When the row was refused, the rows are those before the transaction; when \<open>result(row)\<close>
  raises, the transaction has committed and the row stays.
\<close>

definition withdraw_payload :: "report_env \<Rightarrow> string \<Rightarrow> exn \<Rightarrow> exchange \<Rightarrow> 'a res \<times> exchange" where
  "withdraw_payload R key e x =
     (case remove_payload R key x of Inl e' \<Rightarrow> (Inl e', x) | Inr x1 \<Rightarrow> (Inl e, x1))"

definition store_submission ::
  "report_env \<Rightarrow> installation_row \<Rightarrow> nat \<Rightarrow> nat \<Rightarrow> report_header \<Rightarrow> string \<Rightarrow> string \<Rightarrow> exchange \<Rightarrow> submission_result res \<times> exchange" where
  "store_submission R installation department station header raw fingerprint x =
     (case write_payload R raw x of
        Inl e \<Rightarrow> (Inl e, x)
      | Inr (key, x1) \<Rightarrow>
          (case record_submission R installation department station header raw fingerprint key x1 of
             Inl e \<Rightarrow> withdraw_payload R key e x1
           | Inr (row, x2) \<Rightarrow>
               (case submission_result_of row x2 of
                  Inl e \<Rightarrow> withdraw_payload R key e x2
                | Inr result \<Rightarrow> (Inr result, x2))))"

definition same_report :: "nat \<Rightarrow> report_header \<Rightarrow> submission_row \<Rightarrow> bool" where
  "same_report installation_id header s =
     (sub_installation s = installation_id
      \<and> (sub_submission_id s = hdr_submission_id header \<or> sub_report_id s = hdr_report_id header))"

text \<open>Everything up to the write: a refusal, the answer to a replay, or a package to store.\<close>

datatype admission =
    Replay submission_result
  | Package report_header installation_row tablet_row vehicle_row report_package

definition admit_package :: "report_env \<Rightarrow> nat \<Rightarrow> json \<Rightarrow> exchange \<Rightarrow> admission res" where
  "admit_package R installation_id envelope x =
     bind_res (inspect_envelope (contract R) envelope) (\<lambda>header.
     bind_res (authorize installation_id x) (\<lambda>(installation, tablet, vehicle).
     bind_res (require (hdr_installation_id header = ins_id installation
          \<and> hdr_department_id header = tab_department tablet \<and> hdr_station_id header = veh_station vehicle)
        (TransferError ''scope_not_authorized'' 403)) (\<lambda>_.
       let raw = canonical envelope in
       bind_res (require (int (length raw) \<le> REPORT_TRANSFER_MAX_REQUEST_BYTES R)
          (TransferError ''package_too_large'' 413)) (\<lambda>_.
       bind_res (recipient_for R (tab_department tablet) (hdr_recipient_personnel_id header) x) (\<lambda>_.
       case first_by sub_id (same_report (ins_id installation) header) (submissions x) of
         Some existing \<Rightarrow>
           bind_res (require (sub_submission_id existing = hdr_submission_id header
              \<and> sub_payload_digest existing = sha256 R raw) (TransferError ''idempotency_conflict'' 409)) (\<lambda>_.
           bind_res (submission_result_of existing x) (\<lambda>result. Inr (Replay result)))
       | None \<Rightarrow>
           bind_res (decrypt_and_validate (contract R) envelope header) (\<lambda>package.
           Inr (Package header installation tablet vehicle package)))))))"

definition submit ::
  "report_env \<Rightarrow> nat \<Rightarrow> json \<Rightarrow> exchange \<Rightarrow> (submission_result \<times> bool) res \<times> exchange" where
  "submit R installation_id envelope x =
     (case admit_package R installation_id envelope x of
        Inl e \<Rightarrow> (Inl e, x)
      | Inr (Replay result) \<Rightarrow> (Inr (result, False), x)
      | Inr (Package header installation tablet vehicle package) \<Rightarrow>
          (case store_submission R installation (tab_department tablet) (veh_station vehicle) header
                  (canonical envelope) (pkg_digest package) x of
             (Inl e, x1) \<Rightarrow> (Inl e, x1)
           | (Inr result, x1) \<Rightarrow> (Inr (result, True), x1)))"

definition submission_status :: "nat \<Rightarrow> nat \<Rightarrow> exchange \<Rightarrow> submission_result res" where
  "submission_status installation_id submission_id x =
     bind_res (authorize installation_id x) (\<lambda>(installation, tablet, vehicle).
     bind_res (of_option (TransferError ''submission_not_found'' 404)
        (first_by sub_id (\<lambda>s. sub_installation s = installation_id \<and> sub_submission_id s = submission_id
           \<and> sub_department s = tab_department tablet) (submissions x))) (\<lambda>row.
     submission_result_of row x))"

subsection \<open>Downloads\<close>

definition fetch_submission :: "nat \<Rightarrow> exchange \<Rightarrow> submission_row res" where
  "fetch_submission pk x = of_option (DoesNotExist ''ReportSubmission'') (row_get sub_id pk (submissions x))"

definition download_recorded :: "submission_row \<Rightarrow> download_audit \<Rightarrow> exchange \<Rightarrow> bool" where
  "download_recorded row audit x =
     exists_row (\<lambda>e. rev_action e = ''report_transfer.download_completed''
       \<and> rev_target e = Some (sub_submission_id row)
       \<and> map_of (rev_metadata e) ''download_id'' = Some (JStr (dec_nat (dla_download_id audit)))) (report_log x)"

definition record_successful_download ::
  "nat \<Rightarrow> timestamp option \<Rightarrow> download_audit option \<Rightarrow> exchange \<Rightarrow> (timestamp \<times> exchange) res" where
  "record_successful_download pk completed audit x =
     bind_res (fetch_submission pk x) (\<lambda>row.
       let now = exchange_now x; completed_at = (case completed of None \<Rightarrow> now | Some t \<Rightarrow> t) in
       bind_res (require_package (sub_created_at row \<le> completed_at \<and> completed_at \<le> now)) (\<lambda>_.
       bind_res (require (sub_state row = SUB_READY) (TransferError ''submission_expired'' 410)) (\<lambda>_.
       bind_res (effective_expiry row x) (\<lambda>deadline.
       bind_res (require (deadline > completed_at) (TransferError ''submission_expired'' 410)) (\<lambda>_.
         let row1 = row\<lparr>sub_first_download_at :=
               (case sub_first_download_at row of
                  None \<Rightarrow> Some completed_at | Some t \<Rightarrow> Some (if completed_at < t then completed_at else t))\<rparr> in
         bind_res (effective_expiry row1 x) (\<lambda>expiry.
         bind_res (update_submission pk (\<lambda>s. s\<lparr>sub_first_download_at := sub_first_download_at row1,
            sub_expires_at := expiry\<rparr>) x) (\<lambda>x1.
         case audit of
           Some a \<Rightarrow>
             if download_recorded row a x1 then Inr (expiry, x1)
             else Inr (expiry, report_event_now ''report_transfer.download_completed'' None (Some (sub_department row)) None
               ''report_submission'' (Some (sub_submission_id row))
               [(''download_id'', JStr (dec_nat (dla_download_id a))), (''transfer_id'', JStr (dec_nat (dla_transfer_id a))),
                (''file_type'', JStr (dla_file_type a)), (''installation_id'', JStr (dec_nat (sub_installation row))),
                (''completed_at'', JStr (isoformat completed_at))] x1)
         | None \<Rightarrow> Inr (expiry, x1))))))))"

subsection \<open>Cleanup\<close>

record cleanup_counts =
  cc_expired :: nat
  cc_orphans :: nat
  cc_failed :: nat

text \<open>\<open>except (OSError, TransferError): failed += 1\<close>; other exceptions end the cleanup.\<close>

definition counted_failure :: "exn \<Rightarrow> bool" where
  "counted_failure e = (case e of OSError _ \<Rightarrow> True | TransferError _ _ \<Rightarrow> True | _ \<Rightarrow> False)"

type_synonym sweep = "cleanup_counts \<times> exchange"

definition note_failure :: "exn \<Rightarrow> sweep \<Rightarrow> sweep res" where
  "note_failure e s =
     (if counted_failure e then Inr ((fst s)\<lparr>cc_failed := cc_failed (fst s) + 1\<rparr>, snd s) else Inl e)"

text \<open>
  One receipt: the completed download is recorded and committed, then the file goes; a failing unlink keeps the
  record.
\<close>

definition reconcile_receipt :: "report_env \<Rightarrow> receipt_file \<Rightarrow> sweep \<Rightarrow> sweep res" where
  "reconcile_receipt R f s =
     (let (c, x) = s in
      case read_download_receipt f x of
        Inl e \<Rightarrow> note_failure e s
      | Inr (pk, completed_at, audit) \<Rightarrow>
          (case (case row_get sub_id pk (submissions x) of
                   None \<Rightarrow> Inr x
                 | Some row \<Rightarrow>
                     if sub_state row = SUB_READY
                     then bind_res (record_successful_download pk (Some completed_at) audit x) (\<lambda>(t, x1). Inr x1)
                     else Inr x) of
             Inl e \<Rightarrow> note_failure e s
           | Inr x1 \<Rightarrow>
               (case unlink_receipt R f x1 of
                  Inl e \<Rightarrow> note_failure e (c, x1)
                | Inr x2 \<Rightarrow> Inr (c, x2))))"

definition expire_submission :: "report_env \<Rightarrow> timestamp \<Rightarrow> nat \<Rightarrow> exchange \<Rightarrow> (bool \<times> exchange) res" where
  "expire_submission R now pk x =
     bind_res (fetch_submission pk x) (\<lambda>row.
     if sub_state row \<noteq> SUB_READY then Inr (False, x)
     else
       bind_res (effective_expiry row x) (\<lambda>deadline.
       if deadline > now then Inr (False, x)
       else
         bind_res (remove_payload R (sub_payload_key row) x) (\<lambda>x1.
         bind_res (update_submission pk (\<lambda>s. s\<lparr>sub_payload_key := [], sub_state := SUB_EXPIRED\<rparr>) x1) (\<lambda>x2.
         Inr (True, report_event_now ''report_transfer.content_purged'' None (Some (sub_department row))
           (Some (sub_station row)) ''report_submission'' (Some (sub_submission_id row))
           [(''result'', JStr ''expired''), (''installation_id'', JStr (dec_nat (sub_installation row)))] x2)))))"

definition sweep_submission :: "report_env \<Rightarrow> timestamp \<Rightarrow> nat \<Rightarrow> sweep \<Rightarrow> sweep res" where
  "sweep_submission R now pk s =
     (let (c, x) = s in
      case expire_submission R now pk x of
        Inl e \<Rightarrow> note_failure e s
      | Inr (purged, x1) \<Rightarrow> Inr (if purged then c\<lparr>cc_expired := cc_expired c + 1\<rparr> else c, x1))"

definition due_for_expiry :: "timestamp \<Rightarrow> submission_row \<Rightarrow> bool" where
  "due_for_expiry now s =
     (sub_state s = SUB_READY
      \<and> (sub_expires_at s \<le> now \<or> sub_created_at s \<le> now - 7 * usec_per_day
         \<or> (case sub_first_download_at s of None \<Rightarrow> False | Some t \<Rightarrow> t \<le> now - 48 * usec_per_hour)))"

definition referenced_payloads :: "exchange \<Rightarrow> string list" where
  "referenced_payloads x = filter (\<lambda>k. k \<noteq> []) (map sub_payload_key (submissions x))"

definition sweep_unreferenced :: "report_env \<Rightarrow> string list \<Rightarrow> string \<Rightarrow> sweep \<Rightarrow> sweep res" where
  "sweep_unreferenced R referenced key s =
     (let (c, x) = s in
      if key \<in> set referenced then Inr s
      else case remove_payload R key x of
             Inl e \<Rightarrow> note_failure e s
           | Inr x1 \<Rightarrow> Inr (c\<lparr>cc_orphans := cc_orphans c + 1\<rparr>, x1))"

definition sweep_receipt_temp :: "report_env \<Rightarrow> timestamp \<Rightarrow> (string \<times> timestamp) \<Rightarrow> sweep \<Rightarrow> sweep" where
  "sweep_receipt_temp R now f s =
     (let (c, x) = s in
      if \<not> snd f < now - usec_per_hour then s
      else if io_fault R (fst f) then (c\<lparr>cc_failed := cc_failed c + 1\<rparr>, x)
      else (c\<lparr>cc_orphans := cc_orphans c + 1\<rparr>,
            x\<lparr>receipt_temps := filter (\<lambda>g. fst g \<noteq> fst f) (receipt_temps x)\<rparr>))"

definition cleanup :: "report_env \<Rightarrow> timestamp option \<Rightarrow> exchange \<Rightarrow> sweep res" where
  "cleanup R at x =
     (let now = (case at of None \<Rightarrow> exchange_now x | Some t \<Rightarrow> t) in
      bind_res (storage_root R) (\<lambda>_.
      bind_res (fold_res (reconcile_receipt R) (receipts x) (\<lparr>cc_expired = 0, cc_orphans = 0, cc_failed = 0\<rparr>, x)) (\<lambda>s1.
      bind_res (fold_res (sweep_submission R now)
         (map sub_id (filter (due_for_expiry now) (submissions (snd s1)))) s1) (\<lambda>s2.
      bind_res (fold_res (sweep_unreferenced R (referenced_payloads (snd s2))) (map fst (payload_files (snd s2))) s2) (\<lambda>s3.
      Inr (fold (sweep_receipt_temp R now) (receipt_temps (snd s3)) s3))))))"

subsection \<open>Exports (exports.py)\<close>

text \<open>Reading a spool file.\<close>

definition read_payload :: "report_env \<Rightarrow> string \<Rightarrow> exchange \<Rightarrow> string res" where
  "read_payload R key x =
     bind_res (payload_path R key) (\<lambda>_. of_option (FileNotFoundError key) (map_of (payload_files x) key))"

abbreviation integrity_failure :: exn where
  "integrity_failure \<equiv> TransferError ''report_integrity_failure'' 409"

definition load_verified_payload :: "report_env \<Rightarrow> submission_row \<Rightarrow> exchange \<Rightarrow> report_package res" where
  "load_verified_payload R row x =
     bind_res (require (sub_document_schema_version row = Some 1) (TransferError ''legacy_report_document'' 409)) (\<lambda>_.
     bind_res (read_payload R (sub_payload_key row) x) (\<lambda>raw.
     bind_res (require (sha256 R raw = sub_payload_digest row) integrity_failure) (\<lambda>_.
     bind_res (parse_json (contract R) raw) (\<lambda>envelope.
     bind_res (inspect_envelope (contract R) envelope) (\<lambda>header.
     bind_res (require (hdr_installation_id header = sub_installation row \<and> hdr_department_id header = sub_department row
          \<and> hdr_station_id header = sub_station row \<and> hdr_recipient_personnel_id header = sub_recipient row
          \<and> hdr_submission_id header = sub_submission_id row \<and> hdr_report_id header = sub_report_id row)
        integrity_failure) (\<lambda>_.
     bind_res (decrypt_and_validate (contract R) envelope header) (\<lambda>package.
     bind_res (require (pkg_digest package = sub_document_digest row
          \<and> jfield (pkg_document package) ''report_id'' = JStr (dec_nat (sub_report_id row))) integrity_failure) (\<lambda>_.
     Inr package))))))))"

definition require_unexpired :: "submission_row \<Rightarrow> exchange \<Rightarrow> unit res" where
  "require_unexpired row x =
     bind_res (require (sub_state row = SUB_READY) (TransferError ''submission_expired'' 410)) (\<lambda>_.
     bind_res (effective_expiry row x) (\<lambda>deadline.
     require (deadline > exchange_now x) (TransferError ''submission_expired'' 410)))"

definition load_submission ::
  "report_env \<Rightarrow> nat \<Rightarrow> nat \<Rightarrow> exchange \<Rightarrow> (submission_row \<times> report_package) res" where
  "load_submission R installation_id submission_id x =
     bind_res (authorize installation_id x) (\<lambda>(installation, tablet, vehicle).
     bind_res (of_option (TransferError ''submission_not_found'' 404)
        (first_by sub_id (\<lambda>s. sub_installation s = installation_id \<and> sub_submission_id s = submission_id
           \<and> sub_department s = tab_department tablet \<and> sub_station s = veh_station vehicle) (submissions x))) (\<lambda>row.
     bind_res (require_unexpired row x) (\<lambda>_.
     bind_res (load_verified_payload R row x) (\<lambda>package. Inr (row, package)))))"

definition attachment_hashes :: "report_package \<Rightarrow> (json \<times> json) list" where
  "attachment_hashes package = map (\<lambda>a. (jfield a ''id'', jfield a ''sha256'')) (pkg_attachments package)"

definition render_submission_pdf :: "report_env \<Rightarrow> nat \<Rightarrow> nat \<Rightarrow> exchange \<Rightarrow> (string \<times> exchange) res" where
  "render_submission_pdf R installation_id submission_id x =
     bind_res (load_submission R installation_id submission_id x) (\<lambda>(row, package).
     bind_res (fetch_installation installation_id (yard (crew x))) (\<lambda>installation.
     Inr (render_pdf R (pkg_document package) (attachment_hashes package) (sub_created_at row),
       report_event_now ''report_transfer.pdf_generated'' (Some (ins_installation_uuid installation))
         (Some (sub_department row)) None ''report_submission'' (Some (sub_submission_id row))
         [(''file_type'', JStr ''pdf''), (''installation_id'', JStr (dec_nat (sub_installation row)))] x)))"

definition read_submission_jpeg :: "report_env \<Rightarrow> nat \<Rightarrow> nat \<Rightarrow> nat \<Rightarrow> exchange \<Rightarrow> string res" where
  "read_submission_jpeg R installation_id submission_id attachment_id x =
     bind_res (load_submission R installation_id submission_id x) (\<lambda>(row, package).
     bind_res (of_option (TransferError ''attachment_not_found'' 404)
        (find (\<lambda>a. jfield a ''id'' = JStr (dec_nat attachment_id)) (pkg_attachments package))) (\<lambda>attachment.
     decode (jfield attachment ''data'')))"

end
