(* ===== verification/Report_Transfers.thy ===== *)
theory Report_Transfers
  imports Report_Services
begin

text \<open>
  apps/report_transfer/transfers.py and the download hooks of portal.py: the access generations a tablet
  requests for a recipient, the one mail that carries their token, redemption, and the portal sessions.  The
  random values (\<open>secrets.token_urlsafe\<close>, session keys) are arguments.  A request of the portal is its
  server-side session: its key, the portal session it carries and its expiry in seconds.
\<close>

record browser =
  ses_key :: "string option"
  ses_portal :: "nat option"
  ses_expiry :: "int option"

definition flushed :: browser where
  "flushed = \<lparr>ses_key = None, ses_portal = None, ses_expiry = None\<rparr>"

abbreviation access_unavailable :: exn where
  "access_unavailable \<equiv> TransferError ''access_unavailable'' 403"

abbreviation report_unavailable :: exn where
  "report_unavailable \<equiv> TransferError ''report_unavailable'' 404"

definition fetch_transfer :: "nat \<Rightarrow> exchange \<Rightarrow> transfer_row res" where
  "fetch_transfer i x = of_option (DoesNotExist ''ReportTransfer'') (row_get trf_id i (report_transfers x))"

definition fetch_portal :: "nat \<Rightarrow> exchange \<Rightarrow> portal_row res" where
  "fetch_portal i x = of_option (DoesNotExist ''ReportPortalSession'') (row_get prt_id i (portal_sessions x))"

definition update_portal :: "nat \<Rightarrow> (portal_row \<Rightarrow> portal_row) \<Rightarrow> exchange \<Rightarrow> exchange" where
  "update_portal i g x = x\<lparr>portal_sessions := map (\<lambda>p. if prt_id p = i then g p else p) (portal_sessions x)\<rparr>"

subsection \<open>Checks of a grant\<close>

definition check_transfer :: "report_env \<Rightarrow> transfer_row \<Rightarrow> exchange \<Rightarrow> (installation_row \<times> tablet_row) res" where
  "check_transfer R row x =
     bind_res (require (trf_revoked_at row = None \<and> trf_mail_state row = MAIL_SENT) access_unavailable) (\<lambda>_.
     bind_res (fetch_installation (trf_installation row) (yard (crew x))) (\<lambda>installation.
     bind_res (fetch_tablet (ins_tablet installation) (yard (crew x))) (\<lambda>tablet.
     bind_res (require (current_status (ins_status installation) \<and> ins_revoked_at installation = None
          \<and> tab_active tablet \<and> tab_status tablet = TAB_ACTIVE
          \<and> department_is_active (base (yard (crew x))) (tab_department tablet)) access_unavailable) (\<lambda>_.
     bind_res (recipient_for R (tab_department tablet) (trf_recipient row) x) (\<lambda>recipient.
     bind_res (require (email_digest R (adm_email recipient) = trf_recipient_email_digest row) access_unavailable) (\<lambda>_.
     Inr (installation, tablet)))))))"

definition check_report ::
  "submission_row \<Rightarrow> nat \<Rightarrow> installation_row \<Rightarrow> tablet_row \<Rightarrow> exchange \<Rightarrow> unit res" where
  "check_report row recipient installation tablet x =
     bind_res (require (sub_installation row = ins_id installation \<and> sub_recipient row = recipient
          \<and> sub_department row = tab_department tablet \<and> sub_document_schema_version row = Some 1
          \<and> sub_state row = SUB_READY) report_unavailable) (\<lambda>_.
     bind_res (effective_expiry row x) (\<lambda>deadline.
     require (deadline > exchange_now x) report_unavailable))"

datatype transfer_status = TRF_REVOKED | TRF_MAIL mail_state

definition transfer_result :: "transfer_row \<Rightarrow> nat \<times> transfer_status" where
  "transfer_result row =
     (trf_id row, if trf_revoked_at row \<noteq> None then TRF_REVOKED else TRF_MAIL (trf_mail_state row))"

subsection \<open>Requests\<close>

definition transferable ::
  "installation_row \<Rightarrow> tablet_row \<Rightarrow> nat \<Rightarrow> exchange \<Rightarrow> submission_row list" where
  "transferable installation tablet person_id x =
     filter (\<lambda>s. check_report s (sub_recipient s) installation tablet x = Inr ())
       (sort_key sub_id (filter (\<lambda>s. sub_installation s = ins_id installation \<and> sub_recipient s = person_id
          \<and> sub_department s = tab_department tablet \<and> sub_state s = SUB_READY
          \<and> sub_document_schema_version s = Some 1 \<and> sub_expires_at s > exchange_now x) (submissions x)))"

definition report_limit :: "report_env \<Rightarrow> int" where
  "report_limit R = min (max (REPORT_TRANSFER_MAX_REPORTS R) 1) 100"

definition rate_limited :: "report_env \<Rightarrow> nat \<Rightarrow> nat \<Rightarrow> exchange \<Rightarrow> bool" where
  "rate_limited R installation_id person_id x =
     (let now = exchange_now x; attempts = filter (\<lambda>t. trf_installation t = installation_id) (report_transfers x) in
      length (filter (\<lambda>t. trf_issued_at t > now - usec_per_hour) attempts) \<ge> REPORT_TRANSFER_MAILS_PER_HOUR R
      \<or> length (filter (\<lambda>t. trf_recipient t = person_id \<and> trf_issued_at t > now - usec_per_minute) attempts)
          \<ge> REPORT_TRANSFER_MAILS_PER_MINUTE R)"

definition revocation_event :: "string \<Rightarrow> nat option \<Rightarrow> nat option \<Rightarrow> nat \<Rightarrow> exchange \<Rightarrow> exchange" where
  "revocation_event source installation_uuid department i x =
     report_event_now ''report_transfer.revoked'' installation_uuid department None ''report_transfer'' (Some i)
       [(''source'', JStr source), (''revoked_at'', JStr (isoformat (exchange_now x)))] x"

text \<open>The generations a new one replaces: revoked, each with its event.\<close>

definition live_generation :: "nat \<Rightarrow> nat \<Rightarrow> transfer_row \<Rightarrow> bool" where
  "live_generation installation_id person_id t =
     (trf_installation t = installation_id \<and> trf_recipient t = person_id \<and> trf_revoked_at t = None)"

definition replace_generations ::
  "installation_row \<Rightarrow> tablet_row \<Rightarrow> nat \<Rightarrow> exchange \<Rightarrow> exchange res" where
  "replace_generations installation tablet person_id x =
     (let live = live_generation (ins_id installation) person_id; now = exchange_now x in
      bind_res (put_transfers (map (\<lambda>t. if live t then t\<lparr>trf_revoked_at := Some now\<rparr> else t) (report_transfers x)) x) (\<lambda>x1.
      Inr (fold (revocation_event ''replacement'' (Some (ins_installation_uuid installation)) (Some (tab_department tablet)))
        (map trf_id (filter live (report_transfers x))) x1)))"

definition request_fingerprint :: "report_env \<Rightarrow> nat \<Rightarrow> string" where
  "request_fingerprint R person_id =
     sha256 R (canonical (JObj [(''recipient_personnel_id'', JStr (dec_nat person_id))]))"

definition new_transfer ::
  "report_env \<Rightarrow> nat \<Rightarrow> nat \<Rightarrow> admitted_recipient \<Rightarrow> nat \<Rightarrow> nat list \<Rightarrow> string \<Rightarrow> timestamp \<Rightarrow> transfer_row" where
  "new_transfer R i installation_id recipient request_id rows token now =
     \<lparr>trf_id = i, trf_installation = installation_id, trf_recipient = adm_personnel_id recipient,
      trf_transfer_request_id = request_id, trf_request_digest = request_fingerprint R (adm_personnel_id recipient),
      trf_recipient_email_digest = email_digest R (adm_email recipient), trf_submissions = rows,
      trf_token_digest = sha256 R token, trf_issued_at = now, trf_token_expires_at = now + 60 * usec_per_minute,
      trf_consumed_at = None, trf_revoked_at = None, trf_mail_state = MAIL_PROCESSING, trf_mail_code = ''pending''\<rparr>"

definition issue_transfer ::
  "report_env \<Rightarrow> installation_row \<Rightarrow> tablet_row \<Rightarrow> admitted_recipient \<Rightarrow> nat \<Rightarrow> nat list \<Rightarrow> string \<Rightarrow> exchange \<Rightarrow> (nat \<times> exchange) res" where
  "issue_transfer R installation tablet recipient request_id rows token x =
     bind_res (replace_generations installation tablet (adm_personnel_id recipient) x) (\<lambda>x1.
       let (i, x2) = fresh_exchange_id x1; now = exchange_now x in
       bind_res (put_transfers (report_transfers x2 @
          [new_transfer R i (ins_id installation) recipient request_id rows token now]) x2) (\<lambda>x3.
       Inr (i, report_event_now ''report_transfer.created'' (Some (ins_installation_uuid installation))
         (Some (tab_department tablet)) None ''report_transfer'' (Some i) [(''issued_at'', JStr (isoformat now))] x3)))"

datatype claim = Replayed "nat \<times> transfer_status" | Claimed nat

text \<open>
  The first transaction of \<open>request_transfer\<close>.  What is checked before and again under the lock reads the same
  state here.
\<close>

definition claim_transfer ::
  "report_env \<Rightarrow> nat \<Rightarrow> json \<Rightarrow> string \<Rightarrow> exchange \<Rightarrow> (claim \<times> exchange) res" where
  "claim_transfer R installation_id data token x =
     bind_res (require_package (has_fields data [''transfer_request_id'', ''recipient_personnel_id''])) (\<lambda>_.
     bind_res (identifier_of (jfield data ''transfer_request_id'')) (\<lambda>request_id.
     bind_res (identifier_of (jfield data ''recipient_personnel_id'')) (\<lambda>person_id.
     bind_res (authorize installation_id x) (\<lambda>(installation, tablet, vehicle).
     case first_by trf_id (\<lambda>t. trf_installation t = ins_id installation \<and> trf_transfer_request_id t = request_id)
        (report_transfers x) of
       Some prior \<Rightarrow>
         bind_res (require (trf_request_digest prior = request_fingerprint R person_id)
            (TransferError ''idempotency_conflict'' 409)) (\<lambda>_.
         bind_res (recipient_for R (tab_department tablet) person_id x) (\<lambda>_.
         Inr (Replayed (transfer_result prior), x)))
     | None \<Rightarrow>
         bind_res (recipient_for R (tab_department tablet) person_id x) (\<lambda>recipient.
           let rows = transferable installation tablet person_id x in
           bind_res (require (int (length rows) \<le> report_limit R) (TransferError ''too_many_reports'' 409)) (\<lambda>_.
           bind_res (require (rows \<noteq> []) (TransferError ''no_reports_available'' 409)) (\<lambda>_.
           bind_res (each (\<lambda>row. bind_res (load_verified_payload R row x) (\<lambda>_. Inr ())) rows) (\<lambda>_.
           bind_res (require (\<not> rate_limited R (ins_id installation) (adm_personnel_id recipient) x)
              (TransferError ''transfer_rate_limited'' 429)) (\<lambda>_.
           bind_res (require (public_origin_valid R) (TransferError ''portal_unavailable'' 503)) (\<lambda>_.
           bind_res (issue_transfer R installation tablet recipient request_id (map sub_id rows) token x) (\<lambda>(i, x1).
           Inr (Claimed i, x1)))))))))))) "

text \<open>\<open>send_link\<close> never raises.\<close>

definition send_link :: "report_env \<Rightarrow> nat \<Rightarrow> string \<Rightarrow> exchange \<Rightarrow> mail_state \<times> string" where
  "send_link R transfer_id token x =
     (case row_get trf_id transfer_id (report_transfers x) of
        None \<Rightarrow> (MAIL_FAILED, ''delivery_unavailable'')
      | Some row \<Rightarrow>
          if trf_revoked_at row \<noteq> None \<or> trf_token_expires_at row \<le> exchange_now x
          then (MAIL_FAILED, ''access_unavailable'')
          else
            (case authorize (trf_installation row) x of
               Inl _ \<Rightarrow> (MAIL_FAILED, ''delivery_unavailable'')
             | Inr (installation, tablet, vehicle) \<Rightarrow>
                 (case recipient_for R (tab_department tablet) (trf_recipient row) x of
                    Inl _ \<Rightarrow> (MAIL_FAILED, ''delivery_unavailable'')
                  | Inr recipient \<Rightarrow>
                      if email_digest R (adm_email recipient) \<noteq> trf_recipient_email_digest row
                      then (MAIL_FAILED, ''recipient_changed'')
                      else if \<not> provider_usable R (tab_department tablet) then (MAIL_FAILED, ''provider_unavailable'')
                      else
                        (case provider_send R (tab_department tablet) (adm_email recipient) token of
                           SendAccepted \<Rightarrow> (MAIL_SENT, ''delivered'')
                         | SendRejected \<Rightarrow> (MAIL_FAILED, ''message_rejected'')
                         | SendRaised \<Rightarrow> (MAIL_UNKNOWN, ''delivery_indeterminate'')
                         | SendOdd \<Rightarrow> (MAIL_UNKNOWN, ''delivery_indeterminate'')
                         | MessageRefused \<Rightarrow> (MAIL_FAILED, ''delivery_unavailable'')))))"

text \<open>
  The second transaction of \<open>request_transfer\<close> records what the send answered; other transactions may have run
  since the claim and since the send read its rows.  \<open>update\<close> of no row and \<open>refresh_from_db\<close> of a missing one
  cannot happen: transfers are never deleted.
\<close>

definition record_delivery ::
  "nat \<Rightarrow> mail_state \<Rightarrow> string \<Rightarrow> nat \<Rightarrow> nat \<Rightarrow> exchange \<Rightarrow> ((nat \<times> transfer_status) \<times> exchange) res" where
  "record_delivery transfer_id state code installation_uuid department x =
     bind_res (update_transfer transfer_id (\<lambda>t. t\<lparr>trf_mail_state := state, trf_mail_code := code\<rparr>) x) (\<lambda>x1.
     bind_res (fetch_transfer transfer_id x1) (\<lambda>row.
     Inr (transfer_result row, report_event_now ''report_transfer.link_issued'' (Some installation_uuid) (Some department) None
       ''report_transfer'' (Some transfer_id)
       [(''result'', JStr (case state of MAIL_PROCESSING \<Rightarrow> ''PROCESSING'' | MAIL_SENT \<Rightarrow> ''SENT''
           | MAIL_FAILED \<Rightarrow> ''FAILED'' | MAIL_UNKNOWN \<Rightarrow> ''UNKNOWN'')), (''code'', JStr code)] x1)))"

text \<open>The send and its record when nothing runs in between.\<close>

definition deliver_link ::
  "report_env \<Rightarrow> nat \<Rightarrow> string \<Rightarrow> nat \<Rightarrow> nat \<Rightarrow> exchange \<Rightarrow> ((nat \<times> transfer_status) \<times> exchange) res" where
  "deliver_link R transfer_id token installation_uuid department x =
     (let (state, code) = send_link R transfer_id token x in
      record_delivery transfer_id state code installation_uuid department x)"

definition request_transfer ::
  "report_env \<Rightarrow> nat \<Rightarrow> json \<Rightarrow> string \<Rightarrow> exchange \<Rightarrow> (((nat \<times> transfer_status) \<times> bool) \<times> exchange) res" where
  "request_transfer R installation_id data token x =
     bind_res (claim_transfer R installation_id data token x) (\<lambda>(c, x1).
     case c of
       Replayed result \<Rightarrow> Inr ((result, False), x1)
     | Claimed i \<Rightarrow>
         bind_res (authorize installation_id x) (\<lambda>(installation, tablet, vehicle).
         bind_res (deliver_link R i token (ins_installation_uuid installation) (tab_department tablet) x1) (\<lambda>(result, x2).
         Inr ((result, True), x2))))"

definition revoke_tablet :: "nat \<Rightarrow> nat \<Rightarrow> exchange \<Rightarrow> ((nat \<times> transfer_status) \<times> exchange) res" where
  "revoke_tablet installation_id transfer_id x =
     bind_res (authorize installation_id x) (\<lambda>(installation, tablet, vehicle).
     bind_res (of_option (TransferError ''transfer_not_found'' 404)
        (find (\<lambda>t. trf_id t = transfer_id \<and> trf_installation t = installation_id) (report_transfers x))) (\<lambda>row.
     if trf_revoked_at row \<noteq> None then Inr (transfer_result row, x)
     else
       bind_res (update_transfer transfer_id (\<lambda>t. t\<lparr>trf_revoked_at := Some (exchange_now x)\<rparr>) x) (\<lambda>x1.
       Inr (transfer_result (row\<lparr>trf_revoked_at := Some (exchange_now x)\<rparr>),
         revocation_event ''tablet'' (Some (ins_installation_uuid installation)) (Some (tab_department tablet))
           transfer_id x1))))"

subsection \<open>Tokens\<close>

definition token_row :: "report_env \<Rightarrow> string \<Rightarrow> exchange \<Rightarrow> transfer_row option" where
  "token_row R token x =
     (if length token = 43 then find (\<lambda>t. trf_token_digest t = sha256 R token) (report_transfers x) else None)"

definition token_transfer :: "report_env \<Rightarrow> string \<Rightarrow> exchange \<Rightarrow> transfer_row res" where
  "token_transfer R token x =
     bind_res (of_option access_unavailable (token_row R token x)) (\<lambda>row.
     bind_res (require (trf_token_expires_at row > exchange_now x \<and> trf_revoked_at row = None
          \<and> trf_mail_state row = MAIL_SENT) access_unavailable) (\<lambda>_.
     bind_res (if trf_consumed_at row = None then bind_res (check_transfer R row x) (\<lambda>_. Inr ()) else Inr ()) (\<lambda>_.
     Inr row)))"

definition transfer_reports :: "transfer_row \<Rightarrow> exchange \<Rightarrow> submission_row list" where
  "transfer_reports row x = filter (\<lambda>s. sub_id s \<in> set (trf_submissions row)) (submissions x)"

definition redeem_token ::
  "report_env \<Rightarrow> string \<Rightarrow> string \<Rightarrow> exchange \<Rightarrow> (browser \<times> exchange) res" where
  "redeem_token R token session_key x =
     bind_res (token_transfer R token x) (\<lambda>row.
     bind_res (require (trf_consumed_at row = None) (TransferError ''access_used'' 409)) (\<lambda>_.
     bind_res (check_transfer R row x) (\<lambda>(installation, tablet).
     bind_res (require (exists_row (\<lambda>s. check_report s (trf_recipient row) installation tablet x = Inr ())
        (transfer_reports row x)) access_unavailable) (\<lambda>_.
       let (i, x1) = fresh_exchange_id x; now = exchange_now x;
           portal = \<lparr>prt_id = i, prt_transfer = trf_id row, prt_session_digest = sha256 R session_key,
             prt_last_seen_at = now, prt_logged_out_at = None\<rparr> in
       bind_res (update_transfer (trf_id row) (\<lambda>t. t\<lparr>trf_consumed_at := Some now\<rparr>)
          (x1\<lparr>portal_sessions := portal_sessions x1 @ [portal]\<rparr>)) (\<lambda>x2.
       Inr (\<lparr>ses_key = Some session_key, ses_portal = Some i, ses_expiry = Some 1800\<rparr>,
         report_event_now ''report_transfer.login_succeeded'' None (Some (tab_department tablet)) None ''report_transfer''
           (Some (trf_id row)) [(''consumed_at'', JStr (isoformat now))] x2))))))"

text \<open>
  \<open>redeem\<close>: a refusal is audited, at most once for a known generation and once a minute for unknown tokens when
  the advisory lock is free, and raised again.
\<close>

definition error_code :: "exn \<Rightarrow> string" where
  "error_code e = (case e of TransferError code _ \<Rightarrow> code | _ \<Rightarrow> [])"

definition login_failed :: "report_env \<Rightarrow> bool \<Rightarrow> string \<Rightarrow> string \<Rightarrow> exchange \<Rightarrow> exchange" where
  "login_failed R acquired code token x =
     (case token_row R token x of
        Some candidate \<Rightarrow>
          if exists_row (\<lambda>e. rev_action e = ''report_transfer.login_failed'' \<and> rev_target e = Some (trf_id candidate))
               (report_log x) then x
          else report_event_now ''report_transfer.login_failed'' None None None ''report_transfer'' (Some (trf_id candidate))
                 [(''code'', JStr code)] x
      | None \<Rightarrow>
          if acquired \<and> \<not> exists_row (\<lambda>e. rev_action e = ''report_transfer.login_failed'' \<and> rev_target e = None
               \<and> rev_timestamp e \<ge> exchange_now x - usec_per_minute) (report_log x)
          then report_event_now ''report_transfer.login_failed'' None None None ''report_transfer'' None
                 [(''code'', JStr ''unidentified_token'')] x
          else x)"

definition redeem ::
  "report_env \<Rightarrow> bool \<Rightarrow> string \<Rightarrow> string \<Rightarrow> exchange \<Rightarrow> browser res \<times> exchange" where
  "redeem R acquired token session_key x =
     (case redeem_token R token session_key x of
        Inr (b, x1) \<Rightarrow> (Inr b, x1)
      | Inl (TransferError code status) \<Rightarrow> (Inl (TransferError code status), login_failed R acquired code token x)
      | Inl e \<Rightarrow> (Inl e, x))"

definition revoke_token :: "report_env \<Rightarrow> string \<Rightarrow> exchange \<Rightarrow> exchange res" where
  "revoke_token R token x =
     bind_res (token_transfer R token x) (\<lambda>row.
     bind_res (require (trf_consumed_at row \<noteq> None) access_unavailable) (\<lambda>_.
     bind_res (update_transfer (trf_id row) (\<lambda>t. t\<lparr>trf_revoked_at := Some (exchange_now x)\<rparr>) x) (\<lambda>x1.
     Inr (revocation_event ''consumed_token'' None None (trf_id row) x1))))"

subsection \<open>Portal sessions\<close>

fun available_reports ::
  "bool \<Rightarrow> nat \<Rightarrow> installation_row \<Rightarrow> tablet_row \<Rightarrow> exchange \<Rightarrow> submission_row list \<Rightarrow> submission_row list res" where
  "available_reports strict recipient installation tablet x [] = Inr []"
| "available_reports strict recipient installation tablet x (s # ss) =
     (case check_report s recipient installation tablet x of
        Inr _ \<Rightarrow> bind_res (available_reports strict recipient installation tablet x ss) (\<lambda>rs. Inr (s # rs))
      | Inl (TransferError code status) \<Rightarrow>
          if strict then Inl (TransferError code status)
          else available_reports strict recipient installation tablet x ss
      | Inl e \<Rightarrow> Inl e)"

definition portal_context ::
  "report_env \<Rightarrow> browser \<Rightarrow> nat option \<Rightarrow> exchange \<Rightarrow> ((transfer_row \<times> submission_row list) \<times> browser \<times> exchange) res" where
  "portal_context R b report_id x =
     bind_res (of_option access_unavailable (ses_portal b)) (\<lambda>pk.
     bind_res (of_option access_unavailable (row_get prt_id pk (portal_sessions x))) (\<lambda>portal.
     bind_res (of_option access_unavailable (ses_key b)) (\<lambda>session_key.
     bind_res (fetch_transfer (prt_transfer portal) x) (\<lambda>transfer.
       let now = exchange_now x in
       bind_res (require (prt_logged_out_at portal = None \<and> prt_last_seen_at portal + 30 * usec_per_minute > now
          \<and> prt_session_digest portal = sha256 R session_key) access_unavailable) (\<lambda>_.
       bind_res (check_transfer R transfer x) (\<lambda>(installation, tablet).
       bind_res (require (trf_consumed_at transfer \<noteq> None) access_unavailable) (\<lambda>_.
       bind_res (available_reports (report_id \<noteq> None) (trf_recipient transfer) installation tablet x
          (filter (\<lambda>s. case report_id of None \<Rightarrow> True | Some i \<Rightarrow> sub_report_id s = i) (transfer_reports transfer x)))
          (\<lambda>available.
       bind_res (require (\<not> (report_id \<noteq> None \<and> available = [])) report_unavailable) (\<lambda>_.
       Inr ((transfer, available), b\<lparr>ses_expiry := Some 1800\<rparr>,
         update_portal pk (\<lambda>p. p\<lparr>prt_last_seen_at := now\<rparr>) x))))))))))"

definition revoke_portal :: "report_env \<Rightarrow> browser \<Rightarrow> exchange \<Rightarrow> exchange res" where
  "revoke_portal R b x =
     bind_res (portal_context R b None x) (\<lambda>((transfer, rows), b1, x1).
     if exists_row (\<lambda>t. trf_id t = trf_id transfer \<and> trf_revoked_at t = None) (report_transfers x1)
     then bind_res (update_transfer (trf_id transfer) (\<lambda>t. if trf_revoked_at t = None
            then t\<lparr>trf_revoked_at := Some (exchange_now x1)\<rparr> else t) x1) (\<lambda>x2.
          Inr (revocation_event ''portal'' None None (trf_id transfer) x2))
     else Inr x1)"

definition logout :: "browser \<Rightarrow> exchange \<Rightarrow> browser \<times> exchange" where
  "logout b x =
     (flushed, case ses_portal b of None \<Rightarrow> x
        | Some pk \<Rightarrow> update_portal pk (\<lambda>p. p\<lparr>prt_logged_out_at := Some (exchange_now x)\<rparr>) x)"

subsection \<open>Reading and downloading in the portal\<close>

definition load_portal_submission ::
  "report_env \<Rightarrow> browser \<Rightarrow> nat \<Rightarrow> exchange \<Rightarrow> ((submission_row \<times> report_package) \<times> browser \<times> exchange) res" where
  "load_portal_submission R b report_id x =
     bind_res (portal_context R b (Some report_id) x) (\<lambda>((transfer, rows), b1, x1).
     bind_res (fetch_submission (sub_id (hd rows)) x1) (\<lambda>row.
     bind_res (require_unexpired row x1) (\<lambda>_.
     bind_res (load_verified_payload R row x1) (\<lambda>package. Inr ((row, package), b1, x1)))))"

text \<open>
  \<open>complete_download\<close>, the hook after the last chunk was sent: the receipt is journalled first, then the
  download is recorded if the grant still stands; every failure is swallowed and leaves the receipt.
\<close>

definition complete_download ::
  "report_env \<Rightarrow> browser \<Rightarrow> submission_row \<Rightarrow> string \<Rightarrow> nat \<Rightarrow> exchange \<Rightarrow> exchange" where
  "complete_download R b row file_type transfer_id x =
     (let (download_id, x0) = fresh_exchange_id x;
          completed_at = exchange_now x;
          audit = Some \<lparr>dla_download_id = download_id, dla_transfer_id = transfer_id, dla_file_type = file_type\<rparr>;
          (receipt, x1) = (case write_download_receipt R (sub_id row) completed_at audit x0 of
             Inl _ \<Rightarrow> (None, x0) | Inr (f, x2) \<Rightarrow> (Some f, x2)) in
      case bind_res (portal_context R b (Some (sub_report_id row)) x1) (\<lambda>(v, b1, x2).
           record_successful_download (sub_id row) (Some completed_at) audit x2) of
        Inl _ \<Rightarrow> x1
      | Inr (t, x2) \<Rightarrow>
          (case receipt of
             None \<Rightarrow> x2
           | Some f \<Rightarrow> (case unlink_receipt R f x2 of Inl _ \<Rightarrow> x2 | Inr x3 \<Rightarrow> x3)))"

text \<open>The page behind a link: \<open>used\<close>, \<open>fresh\<close> or \<open>expired\<close>.\<close>

definition access_state :: "report_env \<Rightarrow> string \<Rightarrow> exchange \<Rightarrow> string res" where
  "access_state R token x =
     (case token_transfer R token x of
        Inr row \<Rightarrow> Inr (if trf_consumed_at row \<noteq> None then ''used'' else ''fresh'')
      | Inl (TransferError code status) \<Rightarrow> Inr ''expired''
      | Inl e \<Rightarrow> Inl e)"

end
