(* ===== verification/Report_Inv.thy ===== *)
theory Report_Inv
  imports Report_Transfers Step_Invariant
begin

text \<open>
  What every transaction of the report component keeps.  The submissions and the spool (every READY row has its
  ciphertext, deadlines only shrink, EXPIRED is final) and the grants (one portal session for every consumed
  generation, revocation and consumption are final) are two invariants with two histories, both instances of
  the locale \<open>evolving\<close>.
\<close>

abbreviation exchange_next :: "exchange \<Rightarrow> nat" where
  "exchange_next x \<equiv> next_id (base (yard (crew x)))"

subsection \<open>Submissions and the spool\<close>

definition submission_ok :: "submission_row \<Rightarrow> bool" where
  "submission_ok s \<longleftrightarrow>
     sub_expires_at s \<le> sub_created_at s + 7 * usec_per_day
     \<and> (\<forall>t. sub_first_download_at s = Some t \<longrightarrow> sub_expires_at s \<le> t + 48 * usec_per_hour)
     \<and> (sub_payload_key s = [] \<longleftrightarrow> sub_state s = SUB_EXPIRED)"

definition payload_kept :: "report_env \<Rightarrow> (string \<times> string) list \<Rightarrow> submission_row \<Rightarrow> bool" where
  "payload_kept R files s \<longleftrightarrow>
     (sub_state s = SUB_READY \<longrightarrow>
        (\<exists>raw. map_of files (sub_payload_key s) = Some raw \<and> sha256 R raw = sub_payload_digest s))"

definition ready_keys :: "submission_row list \<Rightarrow> string list" where
  "ready_keys rows = map sub_payload_key (filter (\<lambda>s. sub_state s = SUB_READY) rows)"

definition spool_inv :: "report_env \<Rightarrow> exchange \<Rightarrow> bool" where
  "spool_inv R x \<longleftrightarrow>
     unique_rows sub_id (submissions x) \<and> (\<forall>s\<in>set (submissions x). sub_id s < exchange_next x)
     \<and> submission_constraints (submissions x) \<and> (\<forall>s\<in>set (submissions x). submission_ok s)
     \<and> distinct (ready_keys (submissions x)) \<and> (\<forall>s\<in>set (submissions x). payload_kept R (payload_files x) s)
     \<and> (\<forall>f\<in>set (receipts x). rcp_prefix f < exchange_next x)"

definition earlier :: "timestamp option \<Rightarrow> timestamp option \<Rightarrow> bool" where
  "earlier b a \<longleftrightarrow> (\<forall>t. a = Some t \<longrightarrow> (\<exists>u. b = Some u \<and> u \<le> t))"

definition submission_evolves :: "submission_row \<Rightarrow> submission_row \<Rightarrow> bool" where
  "submission_evolves s s' \<longleftrightarrow>
     sub_installation s' = sub_installation s \<and> sub_submission_id s' = sub_submission_id s
     \<and> sub_report_id s' = sub_report_id s \<and> sub_recipient s' = sub_recipient s \<and> sub_department s' = sub_department s
     \<and> sub_station s' = sub_station s \<and> sub_payload_digest s' = sub_payload_digest s
     \<and> sub_document_digest s' = sub_document_digest s \<and> sub_created_at s' = sub_created_at s
     \<and> sub_expires_at s' \<le> sub_expires_at s \<and> earlier (sub_first_download_at s') (sub_first_download_at s)
     \<and> (sub_state s = SUB_EXPIRED \<longrightarrow> sub_state s' = SUB_EXPIRED)"

definition spool_history :: "exchange \<Rightarrow> exchange \<Rightarrow> bool" where
  "spool_history x x' \<longleftrightarrow>
     rows_evolve sub_id submission_evolves (submissions x) (submissions x') \<and> exchange_next x \<le> exchange_next x'"

abbreviation spool_keeps :: "report_env \<Rightarrow> exchange \<Rightarrow> exchange \<Rightarrow> bool" where
  "spool_keeps R \<equiv> preserves (spool_inv R) spool_history"

lemma earlier_refl: "earlier a a"
  by (simp add: earlier_def)

lemma earlier_trans: "earlier b a \<Longrightarrow> earlier c b \<Longrightarrow> earlier c a"
  by (auto simp: earlier_def)

lemma submission_evolves_refl: "submission_evolves s s"
  by (simp add: submission_evolves_def earlier_refl)

lemma submission_evolves_trans: "submission_evolves r s \<Longrightarrow> submission_evolves s t \<Longrightarrow> submission_evolves r t"
  by (auto simp: submission_evolves_def elim: earlier_trans)

interpretation spool: evolving "spool_inv R" spool_history for R
proof unfold_locales
  show "spool_history s s" for s
    by (simp add: spool_history_def rows_evolve_refl submission_evolves_refl)
  show "spool_history r s \<Longrightarrow> spool_history s t \<Longrightarrow> spool_history r t" for r s t
    by (auto simp: spool_history_def elim: rows_evolve_trans submission_evolves_trans)
qed

subsection \<open>Grants\<close>

definition sessions_match :: "transfer_row list \<Rightarrow> portal_row list \<Rightarrow> bool" where
  "sessions_match ts ps \<longleftrightarrow>
     distinct (map prt_transfer ps)
     \<and> set (map prt_transfer ps) = trf_id ` {t \<in> set ts. trf_consumed_at t \<noteq> None}"

definition grant_inv :: "exchange \<Rightarrow> bool" where
  "grant_inv x \<longleftrightarrow>
     unique_rows trf_id (report_transfers x) \<and> unique_rows prt_id (portal_sessions x)
     \<and> (\<forall>t\<in>set (report_transfers x). trf_id t < exchange_next x)
     \<and> (\<forall>p\<in>set (portal_sessions x). prt_id p < exchange_next x)
     \<and> transfer_constraints (report_transfers x) \<and> sessions_match (report_transfers x) (portal_sessions x)"

definition keeps_some :: "'a option \<Rightarrow> 'a option \<Rightarrow> bool" where
  "keeps_some a b \<longleftrightarrow> a \<noteq> None \<longrightarrow> b = a"

definition transfer_evolves :: "transfer_row \<Rightarrow> transfer_row \<Rightarrow> bool" where
  "transfer_evolves t t' \<longleftrightarrow>
     trf_installation t' = trf_installation t \<and> trf_recipient t' = trf_recipient t
     \<and> trf_transfer_request_id t' = trf_transfer_request_id t \<and> trf_request_digest t' = trf_request_digest t
     \<and> trf_recipient_email_digest t' = trf_recipient_email_digest t \<and> trf_submissions t' = trf_submissions t
     \<and> trf_token_digest t' = trf_token_digest t \<and> trf_issued_at t' = trf_issued_at t
     \<and> trf_token_expires_at t' = trf_token_expires_at t
     \<and> keeps_some (trf_consumed_at t) (trf_consumed_at t') \<and> keeps_some (trf_revoked_at t) (trf_revoked_at t')"

definition portal_evolves :: "portal_row \<Rightarrow> portal_row \<Rightarrow> bool" where
  "portal_evolves p p' \<longleftrightarrow>
     prt_transfer p' = prt_transfer p \<and> prt_session_digest p' = prt_session_digest p
     \<and> (prt_logged_out_at p \<noteq> None \<longrightarrow> prt_logged_out_at p' \<noteq> None)"

definition grant_history :: "exchange \<Rightarrow> exchange \<Rightarrow> bool" where
  "grant_history x x' \<longleftrightarrow>
     rows_evolve trf_id transfer_evolves (report_transfers x) (report_transfers x')
     \<and> rows_evolve prt_id portal_evolves (portal_sessions x) (portal_sessions x')
     \<and> exchange_next x \<le> exchange_next x'"

abbreviation grant_keeps :: "exchange \<Rightarrow> exchange \<Rightarrow> bool" where
  "grant_keeps \<equiv> preserves grant_inv grant_history"

lemma transfer_evolves_refl: "transfer_evolves t t"
  by (simp add: transfer_evolves_def keeps_some_def)

lemma transfer_evolves_trans: "transfer_evolves r s \<Longrightarrow> transfer_evolves s t \<Longrightarrow> transfer_evolves r t"
  by (auto simp: transfer_evolves_def keeps_some_def)

lemma portal_evolves_refl: "portal_evolves p p"
  by (simp add: portal_evolves_def)

lemma portal_evolves_trans: "portal_evolves p q \<Longrightarrow> portal_evolves q r \<Longrightarrow> portal_evolves p r"
  by (auto simp: portal_evolves_def)

interpretation grants: evolving grant_inv grant_history
proof unfold_locales
  show "grant_history s s" for s
    by (simp add: grant_history_def rows_evolve_refl transfer_evolves_refl portal_evolves_refl)
  show "grant_history r s \<Longrightarrow> grant_history s t \<Longrightarrow> grant_history r t" for r s t
    by (auto simp: grant_history_def elim: rows_evolve_trans transfer_evolves_trans portal_evolves_trans)
qed

subsection \<open>Frames\<close>

definition receipts_known :: "exchange \<Rightarrow> exchange \<Rightarrow> bool" where
  "receipts_known x x' \<longleftrightarrow>
     (\<forall>f\<in>set (receipts x'). f \<in> set (receipts x) \<or> rcp_prefix f \<in> sub_id ` set (submissions x))"

definition same_spool :: "exchange \<Rightarrow> exchange \<Rightarrow> bool" where
  "same_spool x x' \<longleftrightarrow>
     submissions x' = submissions x \<and> payload_files x' = payload_files x \<and> exchange_next x \<le> exchange_next x'
     \<and> receipts_known x x'"

definition grants_untouched :: "exchange \<Rightarrow> exchange \<Rightarrow> bool" where
  "grants_untouched x x' \<longleftrightarrow>
     report_transfers x' = report_transfers x \<and> portal_sessions x' = portal_sessions x
     \<and> exchange_next x \<le> exchange_next x'"

lemma receipts_known_same: "set (receipts x') \<subseteq> set (receipts x) \<Longrightarrow> receipts_known x x'"
  by (auto simp: receipts_known_def)

lemma receipts_known_eq [simp]: "receipts x' = receipts x \<Longrightarrow> receipts_known x x'"
  by (simp add: receipts_known_def)

lemma receipts_known_bound:
  assumes "receipts_known x x'" and "spool_inv R x" and "exchange_next x \<le> exchange_next x'" and "f \<in> set (receipts x')"
  shows "rcp_prefix f < exchange_next x'"
proof -
  have "f \<in> set (receipts x) \<or> rcp_prefix f \<in> sub_id ` set (submissions x)" using assms(1,4) by (simp add: receipts_known_def)
  then have "rcp_prefix f < exchange_next x" using assms(2) by (auto simp: spool_inv_def)
  then show ?thesis using assms(3) by simp
qed

lemma same_spool_keeps:
  assumes "same_spool x x'"
  shows "spool_keeps R x x'"
  unfolding preserves_def
proof (intro impI conjI)
  note s = assms [unfolded same_spool_def]
  assume inv: "spool_inv R x"
  then have "\<forall>f\<in>set (receipts x'). rcp_prefix f < exchange_next x'" using s receipts_known_bound by blast
  moreover have "\<forall>r\<in>set (submissions x). sub_id r < exchange_next x'"
    using inv s by (auto simp: spool_inv_def intro: order_less_le_trans)
  ultimately show "spool_inv R x'" using inv s by (simp add: spool_inv_def)
  show "spool_history x x'" using s by (simp add: spool_history_def rows_evolve_refl submission_evolves_refl)
qed

lemma grants_untouched_keeps: "grants_untouched x x' \<Longrightarrow> grant_keeps x x'"
  by (auto simp: grants_untouched_def preserves_def grant_inv_def grant_history_def
      intro: rows_evolve_refl transfer_evolves_refl portal_evolves_refl)

lemma same_spool_refl [simp]: "same_spool x x"
  by (simp add: same_spool_def)

lemma grants_untouched_refl [simp]: "grants_untouched x x"
  by (simp add: grants_untouched_def)

lemma same_spool_trans: "same_spool x y \<Longrightarrow> same_spool y z \<Longrightarrow> same_spool x z"
  by (auto simp: same_spool_def receipts_known_def)

lemma grants_untouched_trans: "grants_untouched x y \<Longrightarrow> grants_untouched y z \<Longrightarrow> grants_untouched x z"
  by (auto simp: grants_untouched_def)

lemma report_event_now_tables [simp]:
  "submissions (report_event_now a i d s tt t m x) = submissions x"
  "report_transfers (report_event_now a i d s tt t m x) = report_transfers x"
  "portal_sessions (report_event_now a i d s tt t m x) = portal_sessions x"
  "payload_files (report_event_now a i d s tt t m x) = payload_files x"
  "receipts (report_event_now a i d s tt t m x) = receipts x"
  "crew (report_event_now a i d s tt t m x) = crew x"
  by (simp_all add: report_event_now_def)

lemma report_event_now_same [simp]:
  "same_spool x (report_event_now a i d s tt t m x)" "grants_untouched x (report_event_now a i d s tt t m x)"
  by (simp_all add: same_spool_def grants_untouched_def)

lemma revocation_event_tables [simp]:
  "submissions (revocation_event s i d t x) = submissions x"
  "report_transfers (revocation_event s i d t x) = report_transfers x"
  "portal_sessions (revocation_event s i d t x) = portal_sessions x"
  "payload_files (revocation_event s i d t x) = payload_files x"
  "receipts (revocation_event s i d t x) = receipts x"
  "crew (revocation_event s i d t x) = crew x"
  by (simp_all add: revocation_event_def)

lemma fresh_exchange_idD:
  assumes "fresh_exchange_id x = (i, x')"
  shows "i = exchange_next x" "submissions x' = submissions x" "report_transfers x' = report_transfers x"
    "portal_sessions x' = portal_sessions x" "payload_files x' = payload_files x" "receipts x' = receipts x"
    "exchange_next x' = Suc (exchange_next x)" "exchange_now x' = exchange_now x" "report_log x' = report_log x"
    "people (crew x') = people (crew x)"
  using assms by (auto simp: fresh_exchange_id_def fresh_roster_id_def fresh_fleet_id_def fresh_id_def)

lemma update_portal_tables [simp]:
  "submissions (update_portal i g x) = submissions x" "report_transfers (update_portal i g x) = report_transfers x"
  "payload_files (update_portal i g x) = payload_files x" "receipts (update_portal i g x) = receipts x"
  "crew (update_portal i g x) = crew x"
  "portal_sessions (update_portal i g x) = map (\<lambda>p. if prt_id p = i then g p else p) (portal_sessions x)"
  by (simp_all add: update_portal_def)

lemma put_submissions_Inr: "put_submissions rows x = Inr x' \<longleftrightarrow> submission_constraints rows \<and> x' = x\<lparr>submissions := rows\<rparr>"
  by (auto simp: put_submissions_def)

lemma put_transfers_Inr: "put_transfers rows x = Inr x' \<longleftrightarrow> transfer_constraints rows \<and> x' = x\<lparr>report_transfers := rows\<rparr>"
  by (auto simp: put_transfers_def)

lemma update_transfer_same_spool: "update_transfer i g x = Inr x' \<Longrightarrow> same_spool x x'"
  by (auto simp: update_transfer_def put_transfers_Inr same_spool_def)

lemma update_submission_same_grants: "update_submission i g x = Inr x' \<Longrightarrow> grants_untouched x x'"
  by (auto simp: update_submission_def put_submissions_Inr grants_untouched_def)

end
