(* ===== verification/Report_Steps.thy ===== *)
theory Report_Steps
  imports Report_Inv
begin

text \<open>Every transaction of the report component keeps the two invariants of \<open>Report_Inv\<close>.\<close>

subsection \<open>Deadlines\<close>

lemma download_ceiling_le: "download_ceiling c t d \<le> d"
  by (simp add: download_ceiling_def)

lemma fold_ceiling_le: "fold (download_ceiling c) ts d \<le> d"
proof (induction ts arbitrary: d)
  case (Cons t ts)
  have "fold (download_ceiling c) ts (download_ceiling c t d) \<le> download_ceiling c t d" by (rule Cons.IH)
  then show ?case using download_ceiling_le [of c t d] by simp
qed simp

lemma effective_expiry_le: "effective_expiry s x = Inr d \<Longrightarrow> d \<le> stored_deadline s"
  by (auto simp: effective_expiry_def bind_res_Inr fold_ceiling_le)

lemma stored_deadline_le:
  "stored_deadline s \<le> sub_expires_at s" "stored_deadline s \<le> sub_created_at s + 7 * usec_per_day"
  "sub_first_download_at s = Some t \<Longrightarrow> stored_deadline s \<le> t + 48 * usec_per_hour"
  by (auto simp: stored_deadline_def Let_def split: option.splits)

lemma stored_deadline_ok: "submission_ok s \<Longrightarrow> stored_deadline s = sub_expires_at s"
  by (auto simp: stored_deadline_def submission_ok_def Let_def split: option.splits)

text \<open>A receipt on disk caps the deadline before the database knows of the download.\<close>

lemma fold_ceiling_member: "t \<in> set ts \<Longrightarrow> c \<le> t \<Longrightarrow> fold (download_ceiling c) ts d \<le> t + 48 * usec_per_hour"
proof (induction ts arbitrary: d)
  case (Cons u ts)
  show ?case
  proof (cases "t = u")
    case True
    have "fold (download_ceiling c) ts (download_ceiling c u d) \<le> download_ceiling c u d" by (rule fold_ceiling_le)
    also have "\<dots> \<le> t + 48 * usec_per_hour" using True Cons.prems(2) by (simp add: download_ceiling_def)
    finally show ?thesis by simp
  qed (use Cons in simp)
qed simp

lemma read_timestamps_member:
  "read_timestamps fs x = Inr ts \<Longrightarrow> f \<in> set fs \<Longrightarrow> rcp_body f = Some (pk, t, a) \<Longrightarrow> t \<in> set ts"
proof (induction fs arbitrary: ts)
  case (Cons g fs)
  then show ?case by (auto simp: bind_res_Inr read_download_receipt_def)
qed simp

lemma effective_expiry_receipt:
  assumes "effective_expiry s x = Inr d" and "f \<in> set (receipts x)" and "rcp_prefix f = sub_id s"
    and "rcp_body f = Some (sub_id s, t, a)" and "sub_created_at s \<le> t"
  shows "d \<le> t + 48 * usec_per_hour"
proof -
  obtain ts where ts: "pending_downloads (sub_id s) x = Inr ts"
      "d = fold (download_ceiling (sub_created_at s)) ts (stored_deadline s)"
    using assms(1) by (auto simp: effective_expiry_def bind_res_Inr)
  have "t \<in> set ts" using read_timestamps_member [OF ts(1) [unfolded pending_downloads_def] _ assms(4)] assms(2,3) by simp
  then show ?thesis using fold_ceiling_member assms(5) by (simp add: ts(2))
qed

subsection \<open>Changes of the submissions\<close>

lemma distinct_shrink:
  "distinct (map k (filter P xs)) \<Longrightarrow> (\<And>x. x \<in> set xs \<Longrightarrow> P (h x) \<Longrightarrow> P x \<and> k (h x) = k x)
     \<Longrightarrow> distinct (map k (filter P (map h xs)))"
proof (induction xs)
  case (Cons x xs)
  have sub: "k (h y) \<in> k ` {z \<in> set xs. P z}" if "y \<in> set xs" "P (h y)" for y
    using that Cons.prems(2) by (metis (mono_tags, lifting) image_eqI list.set_intros(2) mem_Collect_eq)
  show ?case
  proof (cases "P (h x)")
    case True
    then have "P x" "k (h x) = k x" using Cons.prems(2) by simp_all
    moreover have "k x \<notin> k ` {z \<in> set xs. P z}" using Cons.prems(1) \<open>P x\<close> by simp
    ultimately show ?thesis using True Cons sub by (auto split: if_splits)
  next
    case False
    then show ?thesis using Cons by (auto split: if_splits)
  qed
qed simp

lemma spool_map:
  assumes "submissions x' = map h (submissions x)" and "exchange_next x \<le> exchange_next x'" and "receipts_known x x'"
    and "spool_inv R x \<Longrightarrow> submission_constraints (submissions x')"
    and "\<And>s. spool_inv R x \<Longrightarrow> s \<in> set (submissions x) \<Longrightarrow>
       sub_id (h s) = sub_id s \<and> submission_evolves s (h s) \<and> submission_ok (h s)
       \<and> (sub_state (h s) = SUB_READY \<longrightarrow> sub_state s = SUB_READY \<and> sub_payload_key (h s) = sub_payload_key s
          \<and> map_of (payload_files x') (sub_payload_key s) = map_of (payload_files x) (sub_payload_key s))"
  shows "spool_keeps R x x'"
  unfolding preserves_def
proof (intro impI conjI)
  assume inv: "spool_inv R x"
  note h = assms(5) [OF inv]
  have ids: "map sub_id (submissions x') = map sub_id (submissions x)" using h assms(1) by simp
  have "payload_kept R (payload_files x') (h s)" if "s \<in> set (submissions x)" for s
    using h [OF that] that inv by (auto simp: payload_kept_def spool_inv_def submission_evolves_def)
  moreover have "distinct (ready_keys (submissions x'))"
    unfolding ready_keys_def assms(1) by (rule distinct_shrink) (use inv h in \<open>auto simp: spool_inv_def ready_keys_def\<close>)
  moreover have "sub_id (h s) < exchange_next x'" if "s \<in> set (submissions x)" for s
    using h [OF that] that inv assms(2) by (auto simp: spool_inv_def intro: order_less_le_trans)
  moreover have "unique_rows sub_id (submissions x')" using inv ids by (simp add: spool_inv_def)
  moreover have "\<forall>s\<in>set (submissions x'). submission_ok s" using h assms(1) by simp
  moreover have "\<forall>f\<in>set (receipts x'). rcp_prefix f < exchange_next x'"
    using receipts_known_bound [OF assms(3) inv assms(2)] by blast
  ultimately show "spool_inv R x'" using assms(1) assms(4) [OF inv] by (simp add: spool_inv_def)
  show "spool_history x x'" unfolding spool_history_def assms(1)
    using h assms(2) by (auto intro: rows_evolve_map)
qed

lemma update_submission_spool:
  assumes "update_submission pk g x = Inr x'"
    and "\<And>s. spool_inv R x \<Longrightarrow> s \<in> set (submissions x) \<Longrightarrow> sub_id s = pk \<Longrightarrow>
       sub_id (g s) = sub_id s \<and> submission_evolves s (g s) \<and> submission_ok (g s)
       \<and> (sub_state (g s) = SUB_READY \<longrightarrow> sub_state s = SUB_READY \<and> sub_payload_key (g s) = sub_payload_key s)"
  shows "spool_keeps R x x'"
proof (rule spool_map)
  show "submissions x' = map (\<lambda>s. if sub_id s = pk then g s else s) (submissions x)"
    "exchange_next x \<le> exchange_next x'" "receipts_known x x'" "submission_constraints (submissions x')"
    using assms(1) by (auto simp: update_submission_def put_submissions_Inr)
  fix s
  assume "spool_inv R x" "s \<in> set (submissions x)"
  moreover have "payload_files x' = payload_files x"
    using assms(1) by (auto simp: update_submission_def put_submissions_Inr)
  ultimately show "sub_id (if sub_id s = pk then g s else s) = sub_id s
      \<and> submission_evolves s (if sub_id s = pk then g s else s) \<and> submission_ok (if sub_id s = pk then g s else s)
      \<and> (sub_state (if sub_id s = pk then g s else s) = SUB_READY \<longrightarrow> sub_state s = SUB_READY
         \<and> sub_payload_key (if sub_id s = pk then g s else s) = sub_payload_key s
         \<and> map_of (payload_files x') (sub_payload_key s) = map_of (payload_files x) (sub_payload_key s))"
    using assms(2) [of s] by (auto simp: submission_evolves_refl spool_inv_def)
qed

lemma fetch_submission_Inr: "fetch_submission pk x = Inr s \<longleftrightarrow> row_get sub_id pk (submissions x) = Some s"
  by (simp add: fetch_submission_def of_option_Inr)

lemma fetched_submission:
  assumes "fetch_submission pk x = Inr s" and "spool_inv R x" and "s' \<in> set (submissions x)" and "sub_id s' = pk"
  shows "s' = s"
  using assms row_get_unique [of sub_id "submissions x" s'] by (auto simp: fetch_submission_Inr spool_inv_def)

lemma record_successful_downloadE:
  assumes "record_successful_download pk completed audit x = Inr (t, x')"
  obtains row first expiry x1 where
    "fetch_submission pk x = Inr row" "sub_state row = SUB_READY" "earlier (Some first) (sub_first_download_at row)"
    "effective_expiry (row\<lparr>sub_first_download_at := Some first\<rparr>) x = Inr expiry"
    "update_submission pk (\<lambda>s. s\<lparr>sub_first_download_at := Some first, sub_expires_at := expiry\<rparr>) x = Inr x1"
    "same_spool x1 x'" "grants_untouched x1 x'" "receipts x' = receipts x1" "crew x' = crew x1" "submissions x' = submissions x1"
    "first \<le> (case completed of None \<Rightarrow> exchange_now x | Some u \<Rightarrow> u)" "sub_created_at row \<le> exchange_now x"
proof -
  let ?c = "case completed of None \<Rightarrow> exchange_now x | Some u \<Rightarrow> u"
  define f where "f a = (case a of None \<Rightarrow> Some ?c | Some t \<Rightarrow> Some (if ?c < t then ?c else t))" for a
  from assms obtain row d expiry x1 where r: "fetch_submission pk x = Inr row" "sub_state row = SUB_READY"
      "sub_created_at row \<le> ?c" "?c \<le> exchange_now x"
      "effective_expiry (row\<lparr>sub_first_download_at := f (sub_first_download_at row)\<rparr>) x = Inr expiry"
      "update_submission pk (\<lambda>s. s\<lparr>sub_first_download_at := f (sub_first_download_at row), sub_expires_at := expiry\<rparr>) x = Inr x1"
      "same_spool x1 x' \<and> grants_untouched x1 x' \<and> receipts x' = receipts x1 \<and> crew x' = crew x1 \<and> submissions x' = submissions x1"
    unfolding record_successful_download_def Let_def f_def
    by (elim bind_resE) (auto simp: require_Inr require_package_Inr split: option.splits if_splits)
  obtain first where first: "f (sub_first_download_at row) = Some first" "first \<le> ?c"
      "earlier (Some first) (sub_first_download_at row)"
    by (cases "sub_first_download_at row") (auto simp: f_def earlier_def)
  show ?thesis by (rule that [of row first expiry x1]) (use r first in \<open>auto\<close>)
qed

lemma record_successful_download_spool:
  assumes "record_successful_download pk completed audit x = Inr (t, x')"
  shows "spool_keeps R x x'"
proof -
  from assms obtain row first expiry x1 where row: "fetch_submission pk x = Inr row" "sub_state row = SUB_READY"
      "earlier (Some first) (sub_first_download_at row)"
      "effective_expiry (row\<lparr>sub_first_download_at := Some first\<rparr>) x = Inr expiry"
      "update_submission pk (\<lambda>s. s\<lparr>sub_first_download_at := Some first, sub_expires_at := expiry\<rparr>) x = Inr x1"
      "same_spool x1 x'"
    by (rule record_successful_downloadE)
  have le: "expiry \<le> sub_expires_at row" "expiry \<le> sub_created_at row + 7 * usec_per_day" "expiry \<le> first + 48 * usec_per_hour"
    using effective_expiry_le [OF row(4)] stored_deadline_le [of "row\<lparr>sub_first_download_at := Some first\<rparr>"] by auto
  have "spool_keeps R x x1"
  proof (rule update_submission_spool [OF row(5)])
    fix s
    assume s: "spool_inv R x" "s \<in> set (submissions x)" "sub_id s = pk"
    then have "s = row" "submission_ok s" using fetched_submission [OF row(1)] by (auto simp: spool_inv_def)
    with le row(2,3) show "sub_id (s\<lparr>sub_first_download_at := Some first, sub_expires_at := expiry\<rparr>) = sub_id s
        \<and> submission_evolves s (s\<lparr>sub_first_download_at := Some first, sub_expires_at := expiry\<rparr>)
        \<and> submission_ok (s\<lparr>sub_first_download_at := Some first, sub_expires_at := expiry\<rparr>)
        \<and> (sub_state (s\<lparr>sub_first_download_at := Some first, sub_expires_at := expiry\<rparr>) = SUB_READY \<longrightarrow>
            sub_state s = SUB_READY
            \<and> sub_payload_key (s\<lparr>sub_first_download_at := Some first, sub_expires_at := expiry\<rparr>) = sub_payload_key s)"
      by (auto simp: submission_evolves_def submission_ok_def)
  qed
  then show ?thesis by (rule spool.preserves_trans) (rule same_spool_keeps [OF row(6)])
qed

subsection \<open>Acceptance\<close>

lemma write_payload_Inr:
  assumes "write_payload R raw x = Inr (key, x')"
  shows "key = payload_name (exchange_next x)" "submissions x' = submissions x" "grants_untouched x x'"
    "payload_files x' = payload_files x @ [(key, raw)]" "map_of (payload_files x) key = None"
    "exchange_next x' = Suc (exchange_next x)" "exchange_now x' = exchange_now x" "receipts x' = receipts x"
proof -
  obtain i y where y: "fresh_exchange_id x = (i, y)" by (cases "fresh_exchange_id x")
  note d = fresh_exchange_idD [OF y]
  from assms y have "key = payload_name i" "x' = y\<lparr>payload_files := payload_files y @ [(key, raw)]\<rparr>"
      "map_of (payload_files y) key = None"
    by (auto simp: write_payload_def Let_def bind_res_Inr require_Inr)
  with d show "key = payload_name (exchange_next x)" "submissions x' = submissions x" "grants_untouched x x'"
    "payload_files x' = payload_files x @ [(key, raw)]" "map_of (payload_files x) key = None"
    "exchange_next x' = Suc (exchange_next x)" "exchange_now x' = exchange_now x" "receipts x' = receipts x"
    by (simp_all add: grants_untouched_def)
qed

lemma payload_name_nonempty [simp]: "payload_name i \<noteq> []"
  by (simp add: payload_name_def)

lemma record_submissionE:
  assumes "record_submission R installation department station header raw fingerprint key x = Inr (row, x')"
  obtains i where
    "row = new_submission R i header (ins_id installation) department station (sha256 R raw) fingerprint key (exchange_now x)"
    "submissions x' = submissions x @ [row]" "payload_files x' = payload_files x"
    "i = exchange_next x" "exchange_next x' = Suc i" "submission_constraints (submissions x')" "grants_untouched x x'"
    "exchange_now x' = exchange_now x" "receipts x' = receipts x"
proof -
  obtain i x1 where w: "fresh_exchange_id x = (i, x1)" by (cases "fresh_exchange_id x")
  note d = fresh_exchange_idD [OF w]
  from assms w have
      "row = new_submission R i header (ins_id installation) department station (sha256 R raw) fingerprint key (exchange_now x)
       \<and> submission_constraints (submissions x1 @ [row]) \<and> submissions x' = submissions x1 @ [row]
       \<and> payload_files x' = payload_files x1 \<and> crew x' = crew x1 \<and> report_transfers x' = report_transfers x1
       \<and> portal_sessions x' = portal_sessions x1 \<and> receipts x' = receipts x1"
    by (auto simp: record_submission_def bind_res_Inr Let_def put_submissions_Inr)
  then show ?thesis by (intro that [of i]) (use d in \<open>auto simp: grants_untouched_def\<close>)
qed

lemma new_submission_ok: "key \<noteq> [] \<Longrightarrow> submission_ok (new_submission R i h n d s g f key now)"
proof -
  have "min (REPORT_TRANSFER_RETENTION_HOURS R) 168 * usec_per_hour \<le> 168 * usec_per_hour"
    by (rule mult_right_mono) (simp_all add: usec_per_hour_def usec_per_second_def)
  moreover assume "key \<noteq> []"
  ultimately show ?thesis
    by (simp add: submission_ok_def new_submission_def usec_per_hour_def usec_per_day_def usec_per_second_def)
qed

text \<open>The payload and the row together.\<close>

lemma stored_spool:
  assumes "write_payload R raw x = Inr (key, x1)"
    and "record_submission R installation department station header raw fingerprint key x1 = Inr (row, x')"
  shows "spool_keeps R x x'"
  unfolding preserves_def
proof (intro impI conjI)
  assume inv: "spool_inv R x"
  note w = write_payload_Inr [OF assms(1)]
  from assms(2) obtain i where a:
    "row = new_submission R i header (ins_id installation) department station (sha256 R raw) fingerprint key (exchange_now x1)"
    "submissions x' = submissions x1 @ [row]" "payload_files x' = payload_files x1"
    "i = exchange_next x1" "exchange_next x' = Suc i" "submission_constraints (submissions x')" "grants_untouched x1 x'"
    "exchange_now x' = exchange_now x1" "receipts x' = receipts x1"
    by (rule record_submissionE)
  have row: "sub_id row = i" "sub_payload_key row = key" "sub_state row = SUB_READY" "sub_payload_digest row = sha256 R raw"
    by (simp_all add: a(1) new_submission_def)
  have rows: "submissions x' = submissions x @ [row]" "payload_files x' = payload_files x @ [(key, raw)]" "receipts x' = receipts x"
    "i = Suc (exchange_next x)"
    using a w by simp_all
  have kept: "payload_kept R (payload_files x') s" if "s \<in> set (submissions x)" for s
    using that inv by (auto simp: rows(2) payload_kept_def spool_inv_def map_of_append)
  have "payload_kept R (payload_files x') row" using rows(2) w(5) row by (simp add: payload_kept_def map_add_def)
  moreover have "key \<notin> set (ready_keys (submissions x))"
    using inv w(5) by (auto simp: ready_keys_def spool_inv_def payload_kept_def)
  moreover have less: "sub_id s < i" if "s \<in> set (submissions x)" for s
    using that inv rows(4) by (auto simp: spool_inv_def less_Suc_eq)
  moreover have "i \<notin> sub_id ` set (submissions x)" using less by (metis imageE less_irrefl)
  moreover have "unique_rows sub_id (submissions x')"
    using inv calculation(4) row(1) by (simp add: rows(1) spool_inv_def)
  moreover have "submission_ok row" unfolding a(1) w(1) by (rule new_submission_ok) simp
  moreover have "distinct (ready_keys (submissions x'))"
    using inv calculation(2) row by (simp add: rows(1) spool_inv_def ready_keys_def)
  ultimately show "spool_inv R x'"
    using inv a(5,6) row(1) rows(4) kept by (auto simp: rows(1,3) spool_inv_def less_Suc_eq)
  show "spool_history x x'" using rows(1,4) a(5)
    by (simp add: spool_history_def rows_evolve_append submission_evolves_refl)
qed

text \<open>No receipt carries the number of a row that was just created, so its result cannot raise.\<close>

lemma fresh_result:
  assumes "spool_inv R x" and "exchange_next x \<le> sub_id row" and "receipts x' = receipts x"
  shows "\<exists>r. submission_result_of row x' = Inr r"
proof -
  have "filter (\<lambda>f. rcp_prefix f = sub_id row) (receipts x') = []"
    using assms by (fastforce simp: spool_inv_def filter_empty_conv)
  then show ?thesis by (simp add: submission_result_of_def effective_expiry_def pending_downloads_def)
qed

lemma map_of_filter_key: "map_of (filter (\<lambda>(k, v). k \<noteq> key) files) k' = (if k' = key then None else map_of files k')"
  by (induction files) auto

lemma remove_payload_Inr:
  "remove_payload R key x = Inr x' \<Longrightarrow> x' = x\<lparr>payload_files := filter (\<lambda>(k, v). k \<noteq> key) (payload_files x)\<rparr>"
  by (auto simp: remove_payload_def bind_res_Inr)

lemma withdraw_payloadE:
  assumes "withdraw_payload R key e x = (r, x')"
  obtains files where "isl r" "x' = x\<lparr>payload_files := files\<rparr>" "\<And>k. k \<noteq> key \<Longrightarrow> map_of files k = map_of (payload_files x) k"
proof (cases "remove_payload R key x")
  case (Inl e')
  then show thesis using assms by (intro that [of "payload_files x"]) (auto simp: withdraw_payload_def)
next
  case (Inr x1)
  show thesis
    by (rule that [of "filter (\<lambda>(k, v). k \<noteq> key) (payload_files x)"])
      (use assms remove_payload_Inr [OF Inr] in \<open>auto simp: withdraw_payload_def Inr map_of_filter_key\<close>)
qed

text \<open>A refused row: the payload just written is no submission's, whether or not it could be removed.\<close>

lemma withdrawn_spool:
  assumes "write_payload R raw x = Inr (key, x1)" and "withdraw_payload R key e x1 = (r, x')"
  shows "spool_keeps R x x'"
proof (rule spool_map [where h = id])
  note w = write_payload_Inr [OF assms(1)]
  obtain files where f: "x' = x1\<lparr>payload_files := files\<rparr>" "\<And>k. k \<noteq> key \<Longrightarrow> map_of files k = map_of (payload_files x1) k"
    using assms(2) by (rule withdraw_payloadE) blast
  show "submissions x' = map id (submissions x)" "exchange_next x \<le> exchange_next x'" "receipts_known x x'"
    using f(1) w by simp_all
  show "submission_constraints (submissions x')" if "spool_inv R x" using that f(1) w by (simp add: spool_inv_def)
  fix s
  assume s: "spool_inv R x" "s \<in> set (submissions x)"
  then have "submission_ok s" "payload_kept R (payload_files x) s" by (simp_all add: spool_inv_def)
  moreover have "map_of files (sub_payload_key s) = map_of (payload_files x) (sub_payload_key s)" if "sub_state s = SUB_READY"
  proof -
    have "sub_payload_key s \<noteq> key" using that calculation(2) w(5) by (auto simp: payload_kept_def)
    then show ?thesis using f(2) w(4) by (simp add: map_of_append map_add_def split: option.splits)
  qed
  ultimately show "sub_id (id s) = sub_id s \<and> submission_evolves s (id s) \<and> submission_ok (id s)
      \<and> (sub_state (id s) = SUB_READY \<longrightarrow> sub_state s = SUB_READY \<and> sub_payload_key (id s) = sub_payload_key s
         \<and> map_of (payload_files x') (sub_payload_key s) = map_of (payload_files x) (sub_payload_key s))"
    by (simp add: f(1) submission_evolves_refl)
qed

lemma store_submission_spool:
  assumes "store_submission R installation department station header raw fingerprint x = (r, x')"
  shows "spool_keeps R x x'"
proof (cases "write_payload R raw x")
  case (Inl e)
  then show ?thesis using assms by (simp add: store_submission_def spool.preserves_refl)
next
  case w: (Inr v)
  obtain key x1 where v: "v = (key, x1)" by (cases v)
  note s = assms [unfolded store_submission_def w v sum.case prod.case]
  show ?thesis
  proof (cases "record_submission R installation department station header raw fingerprint key x1")
    case (Inl e)
    show ?thesis by (rule withdrawn_spool [OF w [unfolded v]]) (use s Inl in simp)
  next
    case (Inr u)
    obtain row x2 where u: "u = (row, x2)" by (cases u)
    note keeps = stored_spool [OF w [unfolded v] Inr [unfolded u]]
    have "x' = x2" if inv: "spool_inv R x"
    proof -
      have "exchange_next x \<le> sub_id row" "receipts x2 = receipts x"
        using Inr [unfolded u] write_payload_Inr [OF w [unfolded v]]
        by (auto elim!: record_submissionE simp: new_submission_def)
      with inv obtain result where "submission_result_of row x2 = Inr result" using fresh_result by blast
      then show ?thesis using s Inr u by simp
    qed
    with keeps show ?thesis by (auto simp: preserves_def)
  qed
qed

lemma store_submission_grants:
  assumes "store_submission R installation department station header raw fingerprint x = (r, x')"
  shows "grants_untouched x x'"
proof -
  have wd: "grants_untouched y x'" if "withdraw_payload R key e y = (r, x')" for key e y
    using that by (rule withdraw_payloadE) (simp add: grants_untouched_def)
  have rc: "grants_untouched y y'" if "record_submission R installation department station header raw fingerprint key y = Inr (row, y')"
    for key y row y'
    using that by (rule record_submissionE)
  show ?thesis using assms unfolding store_submission_def
    by (auto split: sum.splits prod.splits intro: wd rc grants_untouched_trans write_payload_Inr(3)
        grants_untouched_trans [OF write_payload_Inr(3)] grants_untouched_trans [OF grants_untouched_trans [OF write_payload_Inr(3) rc]])
qed

text \<open>What was stored when a submission is answered.\<close>

lemma store_submission_Inr:
  assumes "store_submission R installation department station header raw fingerprint x = (Inr result, x')"
  obtains i key row where
    "row = new_submission R i header (ins_id installation) department station (sha256 R raw) fingerprint key (exchange_now x)"
    "submissions x' = submissions x @ [row]" "submission_result_of row x' = Inr result"
proof -
  obtain key x1 where w: "write_payload R raw x = Inr (key, x1)"
    using assms by (auto simp: store_submission_def split: sum.splits)
  note s = assms [unfolded store_submission_def w sum.case prod.case]
  have nw: "withdraw_payload R key e y \<noteq> (Inr result, x')" for e y by (auto elim: withdraw_payloadE)
  obtain row where r: "record_submission R installation department station header raw fingerprint key x1 = Inr (row, x')"
      "submission_result_of row x' = Inr result"
    using s nw by (auto split: sum.splits prod.splits)
  from r(1) show thesis
    by (rule record_submissionE) (use that r(2) write_payload_Inr [OF w] in metis)
qed

lemma admit_packageE:
  assumes "admit_package R installation_id envelope x = Inr a"
  obtains (replay) header installation tablet vehicle existing result where
    "inspect_envelope (contract R) envelope = Inr header" "authorize installation_id x = Inr (installation, tablet, vehicle)"
    "\<exists>recipient. recipient_for R (tab_department tablet) (hdr_recipient_personnel_id header) x = Inr recipient"
    "first_by sub_id (same_report (ins_id installation) header) (submissions x) = Some existing"
    "sub_submission_id existing = hdr_submission_id header" "sub_payload_digest existing = sha256 R (canonical envelope)"
    "submission_result_of existing x = Inr result" "a = Replay result"
  | (package) header installation tablet vehicle package where
    "inspect_envelope (contract R) envelope = Inr header" "authorize installation_id x = Inr (installation, tablet, vehicle)"
    "\<exists>recipient. recipient_for R (tab_department tablet) (hdr_recipient_personnel_id header) x = Inr recipient"
    "first_by sub_id (same_report (ins_id installation) header) (submissions x) = None"
    "decrypt_and_validate (contract R) envelope header = Inr package"
    "a = Package header installation tablet vehicle package"
proof -
  obtain header where h: "inspect_envelope (contract R) envelope = Inr header"
    using assms unfolding admit_package_def by (elim bind_resE)
  obtain installation tablet vehicle where i: "authorize installation_id x = Inr (installation, tablet, vehicle)"
    using assms unfolding admit_package_def h bind_res.simps by (elim bind_resE) (metis prod_cases3)
  note m = assms [unfolded admit_package_def h i bind_res.simps prod.case Let_def]
  have r: "\<exists>recipient. recipient_for R (tab_department tablet) (hdr_recipient_personnel_id header) x = Inr recipient"
    using m by (elim bind_resE) blast
  show thesis
  proof (cases "first_by sub_id (same_report (ins_id installation) header) (submissions x)")
    case None
    from m [unfolded None option.case] show thesis
      by (elim bind_resE) (rule package [OF h i r None], auto)
  next
    case (Some existing)
    from m [unfolded Some option.case] show thesis
      by (elim bind_resE) (rule replay [OF h i r Some]; auto simp: require_Inr)
  qed
qed

lemma refused_recipient_submit:
  assumes "inspect_envelope (contract R) envelope = Inr h"
    and "\<And>d. isl (recipient_for R d (hdr_recipient_personnel_id h) x)"
  shows "isl (fst (submit R n envelope x)) \<and> snd (submit R n envelope x) = x"
proof (cases "admit_package R n envelope x")
  case (Inl e)
  then show ?thesis by (simp add: submit_def)
next
  case (Inr a)
  have "recipient_for R d (hdr_recipient_personnel_id h) x \<noteq> Inr recipient" for d recipient
    using assms(2) [of d] by (cases "recipient_for R d (hdr_recipient_personnel_id h) x") auto
  with Inr assms(1) show ?thesis by (auto elim!: admit_packageE)
qed

lemma submitE:
  assumes "submit R installation_id envelope x = (Inr (result, created), x')"
  obtains (replay) header installation tablet vehicle existing where
    "inspect_envelope (contract R) envelope = Inr header" "authorize installation_id x = Inr (installation, tablet, vehicle)"
    "first_by sub_id (same_report (ins_id installation) header) (submissions x) = Some existing"
    "sub_submission_id existing = hdr_submission_id header" "sub_payload_digest existing = sha256 R (canonical envelope)"
    "submission_result_of existing x = Inr result" "\<not> created" "x' = x"
  | (fresh) header installation tablet vehicle package where
    "inspect_envelope (contract R) envelope = Inr header" "authorize installation_id x = Inr (installation, tablet, vehicle)"
    "first_by sub_id (same_report (ins_id installation) header) (submissions x) = None"
    "decrypt_and_validate (contract R) envelope header = Inr package"
    "store_submission R installation (tab_department tablet) (veh_station vehicle) header (canonical envelope)
       (pkg_digest package) x = (Inr result, x')" "created"
proof -
  obtain a where a: "admit_package R installation_id envelope x = Inr a"
    using assms by (auto simp: submit_def split: sum.splits)
  note m = assms [unfolded submit_def a sum.case]
  from a show thesis
  proof (cases rule: admit_packageE)
    case (replay header installation tablet vehicle existing result')
    then show thesis using m by (intro that(1)) simp_all
  next
    case (package header installation tablet vehicle package)
    then show thesis using m by (intro that(2)) (auto split: prod.splits sum.splits)
  qed
qed

lemma submit_stored:
  assumes "submit R i e x = (r, x')"
  shows "x' = x \<or> (\<exists>installation department station header raw fingerprint q.
    store_submission R installation department station header raw fingerprint x = (q, x'))"
  using assms by (auto simp: submit_def split: sum.splits admission.splits prod.splits)

lemma submit_spool: "submit R i e x = (r, x') \<Longrightarrow> spool_keeps R x x'"
  using submit_stored [of R i e x r x'] by (auto intro: spool.preserves_refl store_submission_spool)

lemma submit_grants: "submit R i e x = (r, x') \<Longrightarrow> grants_untouched x x'"
  using submit_stored [of R i e x r x'] by (auto intro: store_submission_grants)

subsection \<open>Cleanup\<close>

lemma ready_key_unique:
  assumes "spool_inv R x" and "s \<in> set (submissions x)" and "t \<in> set (submissions x)"
    and "sub_state s = SUB_READY" and "sub_state t = SUB_READY" and "sub_payload_key s = sub_payload_key t"
  shows "s = t"
  using assms by (auto simp: spool_inv_def ready_keys_def distinct_map inj_on_def)

lemma expire_submissionE:
  assumes "expire_submission R now pk x = Inr (purged, x')"
  obtains (kept) row where "fetch_submission pk x = Inr row" "\<not> purged" "x' = x"
      "sub_state row = SUB_READY \<longrightarrow> (\<exists>d. effective_expiry row x = Inr d \<and> d > now)"
  | (purged) row d where "fetch_submission pk x = Inr row" "sub_state row = SUB_READY" "purged"
      "effective_expiry row x = Inr d" "d \<le> now"
      "submissions x' = map (\<lambda>s. if sub_id s = pk then s\<lparr>sub_payload_key := [], sub_state := SUB_EXPIRED\<rparr> else s) (submissions x)"
      "payload_files x' = filter (\<lambda>(k, v). k \<noteq> sub_payload_key row) (payload_files x)"
      "submission_constraints (submissions x')" "grants_untouched x x'" "crew x' = crew x" "receipts x' = receipts x"
proof -
  obtain row where f: "fetch_submission pk x = Inr row"
    using assms unfolding expire_submission_def by (elim bind_resE)
  note m = assms [unfolded expire_submission_def f bind_res.simps]
  show thesis
  proof (cases "sub_state row = SUB_READY")
    case False
    then show thesis using m by (intro kept [OF f]) simp_all
  next
    case ready: True
    then obtain d where d: "effective_expiry row x = Inr d" using m by (auto elim: bind_resE)
    show thesis
    proof (cases "d > now")
      case True
      then show thesis using m ready d by (intro kept [OF f]) simp_all
    next
      case False
      with m ready d show thesis
        by (intro purged [OF f ready _ d])
          (auto simp: bind_res_Inr update_submission_def put_submissions_Inr grants_untouched_def dest!: remove_payload_Inr)
    qed
  qed
qed

lemma expire_submission_spool:
  assumes "expire_submission R now pk x = Inr (purged, x')"
  shows "spool_keeps R x x'"
  using assms
proof (cases rule: expire_submissionE)
  case (kept row)
  then show ?thesis by (simp add: spool.preserves_refl)
next
  case (purged row d)
  show ?thesis
  proof (rule spool_map [OF purged(6)])
    show "exchange_next x \<le> exchange_next x'" "receipts_known x x'" using purged(10,11) by simp_all
    show "submission_constraints (submissions x')" by (rule purged(8))
    fix s
    assume s: "spool_inv R x" "s \<in> set (submissions x)"
    let ?h = "\<lambda>s. if sub_id s = pk then s\<lparr>sub_payload_key := [], sub_state := SUB_EXPIRED\<rparr> else s"
    have ok: "submission_ok s" using s by (simp add: spool_inv_def)
    have row: "row \<in> set (submissions x)" "sub_id row = pk"
      using purged(1) by (simp_all add: fetch_submission_Inr row_get_SomeD)
    have "sub_payload_key s \<noteq> sub_payload_key row" if "sub_state s = SUB_READY" "sub_id s \<noteq> pk"
      using ready_key_unique [OF s row(1) that(1) purged(2)] that(2) row(2) by blast
    then show "sub_id (?h s) = sub_id s \<and> submission_evolves s (?h s) \<and> submission_ok (?h s)
        \<and> (sub_state (?h s) = SUB_READY \<longrightarrow> sub_state s = SUB_READY \<and> sub_payload_key (?h s) = sub_payload_key s
           \<and> map_of (payload_files x') (sub_payload_key s) = map_of (payload_files x) (sub_payload_key s))"
      using ok by (auto simp: purged(7) map_of_filter_key submission_evolves_def submission_ok_def earlier_refl)
  qed
qed

lemma expire_submission_grants: "expire_submission R now pk x = Inr (purged, x') \<Longrightarrow> grants_untouched x x'"
  by (erule expire_submissionE) simp_all

text \<open>What a pass over the spool keeps, whatever it counts.\<close>

definition sweep_keeps :: "report_env \<Rightarrow> sweep \<Rightarrow> sweep \<Rightarrow> bool" where
  "sweep_keeps R s s' \<longleftrightarrow> spool_keeps R (snd s) (snd s') \<and> grants_untouched (snd s) (snd s')"

lemma sweep_keeps_refl: "sweep_keeps R s s"
  by (simp add: sweep_keeps_def spool.preserves_refl)

lemma sweep_keeps_trans: "sweep_keeps R r s \<Longrightarrow> sweep_keeps R s t \<Longrightarrow> sweep_keeps R r t"
  by (auto simp: sweep_keeps_def intro: spool.preserves_trans grants_untouched_trans)

lemma note_failure_Inr: "note_failure e s = Inr s' \<Longrightarrow> snd s' = snd s \<and> cc_failed (fst s') = Suc (cc_failed (fst s))"
  by (auto simp: note_failure_def split: if_splits)

lemma note_failure_sweep: "note_failure e s = Inr s' \<Longrightarrow> sweep_keeps R s s'"
  using note_failure_Inr [of e s s'] sweep_keeps_refl [of R s] by (simp add: sweep_keeps_def)

lemma record_successful_download_grants:
  "record_successful_download pk completed audit x = Inr (t, x') \<Longrightarrow> grants_untouched x x'"
  by (erule record_successful_downloadE) (auto dest: update_submission_same_grants intro: grants_untouched_trans)

lemma unlink_receipt_same:
  assumes "unlink_receipt R f x = Inr x'"
  shows "same_spool x x'" "grants_untouched x x'" "crew x' = crew x" "submissions x' = submissions x"
    "payload_files x' = payload_files x" "receipts x' = filter (\<lambda>g. rcp_id g \<noteq> rcp_id f) (receipts x)"
  using assms by (auto simp: unlink_receipt_def bind_res_Inr same_spool_def grants_untouched_def receipts_known_def)

lemma reconcile_receipt_sweep:
  assumes "reconcile_receipt R f s = Inr s'"
  shows "sweep_keeps R s s'"
proof -
  obtain c x where s: "s = (c, x)" by (cases s)
  define m where "m pk completed_at audit =
    (case row_get sub_id pk (submissions x) of
       None \<Rightarrow> Inr x
     | Some row \<Rightarrow>
         if sub_state row = SUB_READY
         then bind_res (record_successful_download pk (Some completed_at) audit x) (\<lambda>(t, x1). Inr x1)
         else Inr x)" for pk completed_at and audit :: "download_audit option"
  have m: "spool_keeps R x x1 \<and> grants_untouched x x1" if "m pk t a = Inr x1" for pk t a x1
    using that by (auto simp: m_def bind_res_Inr spool.preserves_refl split: option.splits if_splits
        intro: record_successful_download_spool record_successful_download_grants)
  note r = assms [unfolded reconcile_receipt_def s Let_def prod.case, folded m_def]
  show ?thesis
  proof (cases "read_download_receipt f x")
    case (Inl e)
    then show ?thesis using r s by (auto intro: note_failure_sweep)
  next
    case (Inr v)
    obtain pk t a where v: "v = (pk, t, a)" by (cases v)
    show ?thesis
    proof (cases "m pk t a")
      case e: (Inl e)
      then show ?thesis using r s Inr v by (auto intro: note_failure_sweep)
    next
      case x1: (Inr x1)
      then have k: "sweep_keeps R s (c, x1)" using m s by (simp add: sweep_keeps_def)
      have "sweep_keeps R (c, x1) s'"
      proof (cases "unlink_receipt R f x1")
        case (Inl e)
        then show ?thesis using r Inr v x1 \<open>read_download_receipt f x = Inr v\<close> by (auto intro: note_failure_sweep)
      next
        case u: (Inr x2)
        then show ?thesis using r x1 v \<open>read_download_receipt f x = Inr v\<close> unlink_receipt_same [OF u]
          by (auto simp: sweep_keeps_def intro: same_spool_keeps)
      qed
      with k show ?thesis by (rule sweep_keeps_trans)
    qed
  qed
qed

lemma sweep_submission_sweep:
  assumes "sweep_submission R now pk s = Inr s'"
  shows "sweep_keeps R s s'"
  using assms by (auto simp: sweep_submission_def split: prod.splits sum.splits
      intro: note_failure_sweep)
    (auto simp: sweep_keeps_def intro: expire_submission_spool expire_submission_grants)

lemma sweep_unreferenced_file:
  assumes "remove_payload R key x = Inr x1" and "key \<notin> set (referenced_payloads x)"
  shows "spool_keeps R x x1" "grants_untouched x x1" "submissions x1 = submissions x"
proof -
  note x1 = remove_payload_Inr [OF assms(1)]
  show "spool_keeps R x x1"
  proof (rule spool_map [where h = id])
    show "submissions x1 = map id (submissions x)" "exchange_next x \<le> exchange_next x1" "receipts_known x x1"
      using x1 by simp_all
    show "submission_constraints (submissions x1)" if "spool_inv R x" using that x1 by (simp add: spool_inv_def)
    fix r
    assume r: "spool_inv R x" "r \<in> set (submissions x)"
    then have "submission_ok r" by (simp add: spool_inv_def)
    then have "sub_payload_key r \<noteq> key" if "sub_state r = SUB_READY"
      using that r(2) assms(2) by (auto simp: referenced_payloads_def submission_ok_def)
    then show "sub_id (id r) = sub_id r \<and> submission_evolves r (id r) \<and> submission_ok (id r)
        \<and> (sub_state (id r) = SUB_READY \<longrightarrow> sub_state r = SUB_READY \<and> sub_payload_key (id r) = sub_payload_key r
           \<and> map_of (payload_files x1) (sub_payload_key r) = map_of (payload_files x) (sub_payload_key r))"
      using \<open>submission_ok r\<close> by (simp add: x1 map_of_filter_key submission_evolves_refl)
  qed
  show "grants_untouched x x1" "submissions x1 = submissions x" using x1 by (simp_all add: grants_untouched_def)
qed

lemma sweep_unreferenced_sweep:
  assumes "sweep_unreferenced R referenced key s = Inr s'"
    and "referenced = referenced_payloads (snd s)"
  shows "sweep_keeps R s s' \<and> submissions (snd s') = submissions (snd s)"
proof -
  obtain c x where s: "s = (c, x)" by (cases s)
  note m = assms(1) [unfolded sweep_unreferenced_def s Let_def prod.case]
  show ?thesis
  proof (cases "key \<in> set referenced")
    case True
    then show ?thesis using m s by (simp add: sweep_keeps_refl)
  next
    case out: False
    show ?thesis
    proof (cases "remove_payload R key x")
      case (Inl e)
      then have "note_failure e s = Inr s'" using m out s by simp
      then show ?thesis by (simp add: note_failure_sweep note_failure_Inr)
    next
      case x1: (Inr x1)
      then have "snd s' = x1" using m out s by auto
      then show ?thesis using sweep_unreferenced_file [OF x1] out assms(2) s by (simp add: sweep_keeps_def)
    qed
  qed
qed

lemma fold_sweep:
  assumes "fold_res f xs s = Inr s'" and "\<And>y t t'. f y t = Inr t' \<Longrightarrow> sweep_keeps R t t'"
  shows "sweep_keeps R s s'"
  by (rule fold_res_invariant [where I = "sweep_keeps R s", OF assms(1) sweep_keeps_refl])
    (blast intro: sweep_keeps_trans assms(2))

lemma fold_sweep_unreferenced:
  assumes "fold_res (sweep_unreferenced R (referenced_payloads (snd s))) keys s = Inr s'"
  shows "sweep_keeps R s s' \<and> submissions (snd s') = submissions (snd s)"
proof (rule fold_res_invariant [where I = "\<lambda>t. sweep_keeps R s t \<and> submissions (snd t) = submissions (snd s)", OF assms])
  show "sweep_keeps R s s \<and> submissions (snd s) = submissions (snd s)" by (simp add: sweep_keeps_refl)
  fix k t t'
  assume "sweep_keeps R s t \<and> submissions (snd t) = submissions (snd s)"
    and "sweep_unreferenced R (referenced_payloads (snd s)) k t = Inr t'"
  moreover from calculation have "referenced_payloads (snd s) = referenced_payloads (snd t)"
    by (simp add: referenced_payloads_def)
  ultimately show "sweep_keeps R s t' \<and> submissions (snd t') = submissions (snd s)"
    using sweep_unreferenced_sweep [of R _ k t t'] by (metis sweep_keeps_trans)
qed

lemma sweep_receipt_temp_same:
  "submissions (snd (sweep_receipt_temp R now f s)) = submissions (snd s)"
  "payload_files (snd (sweep_receipt_temp R now f s)) = payload_files (snd s)"
  "receipts (snd (sweep_receipt_temp R now f s)) = receipts (snd s)"
  "crew (snd (sweep_receipt_temp R now f s)) = crew (snd s)"
  "report_transfers (snd (sweep_receipt_temp R now f s)) = report_transfers (snd s)"
  "portal_sessions (snd (sweep_receipt_temp R now f s)) = portal_sessions (snd s)"
  "cc_failed (fst (sweep_receipt_temp R now f s)) \<ge> cc_failed (fst s)"
  by (simp_all add: sweep_receipt_temp_def split: prod.splits)

lemma fold_sweep_receipt_temp:
  "submissions (snd (fold (sweep_receipt_temp R now) fs s)) = submissions (snd s)
   \<and> payload_files (snd (fold (sweep_receipt_temp R now) fs s)) = payload_files (snd s)
   \<and> receipts (snd (fold (sweep_receipt_temp R now) fs s)) = receipts (snd s)
   \<and> crew (snd (fold (sweep_receipt_temp R now) fs s)) = crew (snd s)
   \<and> report_transfers (snd (fold (sweep_receipt_temp R now) fs s)) = report_transfers (snd s)
   \<and> portal_sessions (snd (fold (sweep_receipt_temp R now) fs s)) = portal_sessions (snd s)
   \<and> cc_failed (fst (fold (sweep_receipt_temp R now) fs s)) \<ge> cc_failed (fst s)"
proof (induction fs arbitrary: s)
  case (Cons f fs)
  show ?case using Cons.IH [of "sweep_receipt_temp R now f s"]
      sweep_receipt_temp_same [where R = R and now = now and f = f and s = s] by simp
qed simp

text \<open>The four passes of a cleanup that returns.\<close>

lemma cleanupE:
  assumes "cleanup R at x = Inr s"
  obtains s1 s2 s3 now where
    "now = (case at of None \<Rightarrow> exchange_now x | Some t \<Rightarrow> t)"
    "fold_res (reconcile_receipt R) (receipts x) (\<lparr>cc_expired = 0, cc_orphans = 0, cc_failed = 0\<rparr>, x) = Inr s1"
    "fold_res (sweep_submission R now) (map sub_id (filter (due_for_expiry now) (submissions (snd s1)))) s1 = Inr s2"
    "fold_res (sweep_unreferenced R (referenced_payloads (snd s2))) (map fst (payload_files (snd s2))) s2 = Inr s3"
    "s = fold (sweep_receipt_temp R now) (receipt_temps (snd s3)) s3"
  using assms unfolding cleanup_def Let_def by (elim bind_resE) (rule that [OF refl], assumption+, simp)

lemma cleanup_sweep:
  assumes "cleanup R at x = Inr s"
  shows "spool_keeps R x (snd s)" "grants_untouched x (snd s)"
proof -
  from assms obtain s1 s2 s3 now where c:
    "fold_res (reconcile_receipt R) (receipts x) (\<lparr>cc_expired = 0, cc_orphans = 0, cc_failed = 0\<rparr>, x) = Inr s1"
    "fold_res (sweep_submission R now) (map sub_id (filter (due_for_expiry now) (submissions (snd s1)))) s1 = Inr s2"
    "fold_res (sweep_unreferenced R (referenced_payloads (snd s2))) (map fst (payload_files (snd s2))) s2 = Inr s3"
    "s = fold (sweep_receipt_temp R now) (receipt_temps (snd s3)) s3"
    by (rule cleanupE)
  have "sweep_keeps R (\<lparr>cc_expired = 0, cc_orphans = 0, cc_failed = 0\<rparr>, x) s1"
    by (rule fold_sweep [OF c(1) reconcile_receipt_sweep])
  also have "sweep_keeps R s1 s2" by (rule fold_sweep [OF c(2) sweep_submission_sweep])
  finally (sweep_keeps_trans) have "sweep_keeps R (\<lparr>cc_expired = 0, cc_orphans = 0, cc_failed = 0\<rparr>, x) s3"
    by (rule sweep_keeps_trans) (simp add: fold_sweep_unreferenced [OF c(3)])
  moreover have "sweep_keeps R s3 s"
    using fold_sweep_receipt_temp [where R = R and now = now and fs = "receipt_temps (snd s3)" and s = s3]
    by (simp add: c(4) sweep_keeps_def grants_untouched_def same_spool_keeps same_spool_def)
  ultimately have "sweep_keeps R (\<lparr>cc_expired = 0, cc_orphans = 0, cc_failed = 0\<rparr>, x) s" by (rule sweep_keeps_trans)
  then show "spool_keeps R x (snd s)" "grants_untouched x (snd s)" by (simp_all add: sweep_keeps_def)
qed

end
