(* ===== verification/Report_Grants.thy ===== *)
theory Report_Grants
  imports Report_Steps
begin

text \<open>The grant invariant along requests, deliveries, redemptions, revocations and portal visits.\<close>

subsection \<open>Changes of the grants\<close>

lemma sessions_match_map:
  assumes "sessions_match ts ps"
    and "\<And>t. t \<in> set ts \<Longrightarrow> trf_id (h t) = trf_id t \<and> (trf_consumed_at (h t) = None \<longleftrightarrow> trf_consumed_at t = None)"
    and "\<And>p. p \<in> set ps \<Longrightarrow> prt_transfer (k p) = prt_transfer p"
  shows "sessions_match (map h ts) (map k ps)"
proof -
  have "map prt_transfer (map k ps) = map prt_transfer ps" using assms(3) by simp
  moreover have "trf_id ` {t \<in> set (map h ts). trf_consumed_at t \<noteq> None} = trf_id ` {t \<in> set ts. trf_consumed_at t \<noteq> None}"
    using assms(2) by (force simp: image_iff)
  ultimately show ?thesis using assms(1) by (simp add: sessions_match_def del: map_map)
qed

lemma grant_map:
  assumes "report_transfers x' = map h (report_transfers x)" and "portal_sessions x' = map k (portal_sessions x)"
    and "exchange_next x \<le> exchange_next x'" and "grant_inv x \<Longrightarrow> transfer_constraints (report_transfers x')"
    and "\<And>t. grant_inv x \<Longrightarrow> t \<in> set (report_transfers x) \<Longrightarrow> trf_id (h t) = trf_id t \<and> transfer_evolves t (h t)
        \<and> (trf_consumed_at (h t) = None \<longleftrightarrow> trf_consumed_at t = None)"
    and "\<And>p. p \<in> set (portal_sessions x) \<Longrightarrow> prt_id (k p) = prt_id p \<and> portal_evolves p (k p)"
  shows "grant_keeps x x'"
  unfolding preserves_def
proof (intro impI conjI)
  assume inv: "grant_inv x"
  note h = assms(5) [OF inv] and k = assms(6)
  have "map trf_id (report_transfers x') = map trf_id (report_transfers x)"
    "map prt_id (portal_sessions x') = map prt_id (portal_sessions x)"
    using h k assms(1,2) by simp_all
  moreover have "trf_id t < exchange_next x'" if "t \<in> set (report_transfers x')" for t
    using that h inv assms(1,3) by (auto simp: grant_inv_def intro: order_less_le_trans)
  moreover have "prt_id p < exchange_next x'" if "p \<in> set (portal_sessions x')" for p
    using that k inv assms(2,3) by (auto simp: grant_inv_def intro: order_less_le_trans)
  moreover have "sessions_match (report_transfers x') (portal_sessions x')" unfolding assms(1,2)
    by (rule sessions_match_map) (use inv h k in \<open>auto simp: grant_inv_def portal_evolves_def\<close>)
  ultimately show "grant_inv x'" using inv assms(4) [OF inv] by (simp add: grant_inv_def)
  show "grant_history x x'" unfolding grant_history_def assms(1,2)
    using h k assms(3) by (auto intro: rows_evolve_map)
qed

lemma update_transfer_Inr:
  assumes "update_transfer i g x = Inr x'"
  shows "report_transfers x' = map (\<lambda>t. if trf_id t = i then g t else t) (report_transfers x)"
    "transfer_constraints (report_transfers x')" "portal_sessions x' = portal_sessions x" "crew x' = crew x"
    "same_spool x x'" "receipts x' = receipts x"
  using assms by (auto simp: update_transfer_def put_transfers_Inr same_spool_def)

lemma update_transfer_grants:
  assumes "update_transfer i g x = Inr x'"
    and "\<And>t. grant_inv x \<Longrightarrow> t \<in> set (report_transfers x) \<Longrightarrow> trf_id t = i \<Longrightarrow> trf_id (g t) = trf_id t
        \<and> transfer_evolves t (g t) \<and> (trf_consumed_at (g t) = None \<longleftrightarrow> trf_consumed_at t = None)"
  shows "grant_keeps x x'"
proof (rule grant_map [where k = id])
  note u = update_transfer_Inr [OF assms(1)]
  show "report_transfers x' = map (\<lambda>t. if trf_id t = i then g t else t) (report_transfers x)" by (rule u(1))
  show "portal_sessions x' = map id (portal_sessions x)" "exchange_next x \<le> exchange_next x'" using u by simp_all
  show "transfer_constraints (report_transfers x')" by (rule u(2))
  show "trf_id (if trf_id t = i then g t else t) = trf_id t \<and> transfer_evolves t (if trf_id t = i then g t else t)
      \<and> (trf_consumed_at (if trf_id t = i then g t else t) = None \<longleftrightarrow> trf_consumed_at t = None)"
    if "grant_inv x" "t \<in> set (report_transfers x)" for t
    using assms(2) [OF that] by (simp add: transfer_evolves_refl)
  show "prt_id (id p) = prt_id p \<and> portal_evolves p (id p)" for p by (simp add: portal_evolves_refl)
qed

lemma fetched_transfer:
  assumes "row_get trf_id i (report_transfers x) = Some t" and "grant_inv x" and "t' \<in> set (report_transfers x)" and "trf_id t' = i"
  shows "t' = t"
  using assms row_get_unique [of trf_id "report_transfers x" t'] by (auto simp: grant_inv_def)

lemma revoking_evolves: "trf_revoked_at t = None \<Longrightarrow> transfer_evolves t (t\<lparr>trf_revoked_at := Some now\<rparr>)"
  by (simp add: transfer_evolves_def keeps_some_def)

text \<open>Revoking one live generation.\<close>

lemma revoke_one_grants:
  assumes "update_transfer i (\<lambda>t. t\<lparr>trf_revoked_at := Some now\<rparr>) x = Inr x'"
    and "t \<in> set (report_transfers x)" and "trf_id t = i" and "trf_revoked_at t = None"
  shows "grant_keeps x x'"
proof (rule update_transfer_grants [OF assms(1)])
  fix t'
  assume t': "grant_inv x" "t' \<in> set (report_transfers x)" "trf_id t' = i"
  then have "t' = t" using assms(2,3) by (auto simp: grant_inv_def distinct_map inj_on_def)
  then show "trf_id (t'\<lparr>trf_revoked_at := Some now\<rparr>) = trf_id t' \<and> transfer_evolves t' (t'\<lparr>trf_revoked_at := Some now\<rparr>)
      \<and> (trf_consumed_at (t'\<lparr>trf_revoked_at := Some now\<rparr>) = None \<longleftrightarrow> trf_consumed_at t' = None)"
    using assms(4) by (simp add: revoking_evolves)
qed

subsection \<open>Requests\<close>

lemma fold_revocation_event [simp]:
  "submissions (fold (revocation_event s i d) ts x) = submissions x"
  "report_transfers (fold (revocation_event s i d) ts x) = report_transfers x"
  "portal_sessions (fold (revocation_event s i d) ts x) = portal_sessions x"
  "payload_files (fold (revocation_event s i d) ts x) = payload_files x"
  "receipts (fold (revocation_event s i d) ts x) = receipts x"
  "crew (fold (revocation_event s i d) ts x) = crew x"
  by (induction ts arbitrary: x) simp_all

lemma replace_generations_Inr:
  assumes "replace_generations installation tablet person x = Inr x'"
  shows "report_transfers x' = map (\<lambda>t. if live_generation (ins_id installation) person t
      then t\<lparr>trf_revoked_at := Some (exchange_now x)\<rparr> else t) (report_transfers x)"
    "transfer_constraints (report_transfers x')" "portal_sessions x' = portal_sessions x" "crew x' = crew x"
    "submissions x' = submissions x" "payload_files x' = payload_files x" "receipts x' = receipts x"
  using assms by (auto simp: replace_generations_def Let_def bind_res_Inr put_transfers_Inr)

lemma replace_generations_grants:
  assumes "replace_generations installation tablet person x = Inr x'"
  shows "grant_keeps x x'"
proof (rule grant_map [where k = id, OF replace_generations_Inr(1) [OF assms]])
  note r = replace_generations_Inr [OF assms]
  show "portal_sessions x' = map id (portal_sessions x)" "exchange_next x \<le> exchange_next x'"
    "transfer_constraints (report_transfers x')"
    using r by simp_all
qed (auto simp: live_generation_def revoking_evolves transfer_evolves_refl portal_evolves_refl)

lemma issue_transferE:
  assumes "issue_transfer R installation tablet recipient request_id rows token x = Inr (i, x')"
  obtains x1 where "replace_generations installation tablet (adm_personnel_id recipient) x = Inr x1"
    "report_transfers x' = report_transfers x1 @
       [new_transfer R i (ins_id installation) recipient request_id rows token (exchange_now x)]"
    "transfer_constraints (report_transfers x')" "portal_sessions x' = portal_sessions x1" "i = exchange_next x1"
    "exchange_next x' = Suc (exchange_next x1)" "same_spool x1 x'" "exchange_now x' = exchange_now x1"
proof -
  obtain x1 where r: "replace_generations installation tablet (adm_personnel_id recipient) x = Inr x1"
    using assms unfolding issue_transfer_def by (elim bind_resE)
  obtain j x2 where j: "fresh_exchange_id x1 = (j, x2)" by (cases "fresh_exchange_id x1")
  note d = fresh_exchange_idD [OF j]
  from assms r j show thesis
    by (intro that [OF r]) (auto simp: issue_transfer_def Let_def bind_res_Inr put_transfers_Inr same_spool_def d)
qed

lemma issue_transfer_grants:
  assumes "issue_transfer R installation tablet recipient request_id rows token x = Inr (i, x')"
  shows "grant_keeps x x'" "same_spool x x'"
proof -
  from assms obtain x1 where i: "replace_generations installation tablet (adm_personnel_id recipient) x = Inr x1"
      "report_transfers x' = report_transfers x1 @
         [new_transfer R i (ins_id installation) recipient request_id rows token (exchange_now x)]"
      "transfer_constraints (report_transfers x')" "portal_sessions x' = portal_sessions x1" "i = exchange_next x1"
      "exchange_next x' = Suc (exchange_next x1)" "same_spool x1 x'"
    by (rule issue_transferE)
  let ?n = "new_transfer R i (ins_id installation) recipient request_id rows token (exchange_now x)"
  have n: "trf_id ?n = i" "trf_consumed_at ?n = None" by (simp_all add: new_transfer_def)
  have "grant_keeps x1 x'" unfolding preserves_def
  proof (intro impI conjI)
    assume inv: "grant_inv x1"
    then have "i \<notin> trf_id ` set (report_transfers x1)" using i(5) by (auto simp: grant_inv_def)
    moreover have "{t \<in> set (report_transfers x'). trf_consumed_at t \<noteq> None}
        = {t \<in> set (report_transfers x1). trf_consumed_at t \<noteq> None}"
      using i(2) n by auto
    ultimately show "grant_inv x'"
      using inv i(2-6) n by (auto simp: grant_inv_def sessions_match_def less_Suc_eq)
    show "grant_history x1 x'" unfolding grant_history_def i(2,4)
      using i(6) by (simp add: rows_evolve_append rows_evolve_refl transfer_evolves_refl portal_evolves_refl)
  qed
  then show "grant_keeps x x'" by (rule grants.preserves_trans [OF replace_generations_grants [OF i(1)]])
  show "same_spool x x'" using replace_generations_Inr [OF i(1)] i(7) by (simp add: same_spool_def receipts_known_def)
qed

lemma claim_transferE:
  assumes "claim_transfer R installation_id data token x = Inr (c, x')"
  obtains (replay) result where "c = Replayed result" "x' = x"
  | (issued) request_id person_id installation tablet vehicle recipient i where
    "authorize installation_id x = Inr (installation, tablet, vehicle)"
    "recipient_for R (tab_department tablet) person_id x = Inr recipient"
    "transferable installation tablet person_id x \<noteq> []"
    "int (length (transferable installation tablet person_id x)) \<le> report_limit R"
    "\<forall>s\<in>set (transferable installation tablet person_id x). \<exists>package. load_verified_payload R s x = Inr package"
    "\<not> rate_limited R (ins_id installation) (adm_personnel_id recipient) x"
    "issue_transfer R installation tablet recipient request_id (map sub_id (transferable installation tablet person_id x))
       token x = Inr (i, x')" "c = Claimed i"
proof -
  obtain request_id person_id where ids: "identifier_of (jfield data ''transfer_request_id'') = Inr request_id"
      "identifier_of (jfield data ''recipient_personnel_id'') = Inr person_id"
      "require_package (has_fields data [''transfer_request_id'', ''recipient_personnel_id'']) = Inr ()"
    using assms unfolding claim_transfer_def by (elim bind_resE) auto
  obtain installation tablet vehicle where a: "authorize installation_id x = Inr (installation, tablet, vehicle)"
    using assms unfolding claim_transfer_def ids bind_res.simps by (elim bind_resE) (metis prod_cases3)
  note m = assms [unfolded claim_transfer_def ids a bind_res.simps prod.case Let_def]
  show thesis
  proof (cases "first_by trf_id (\<lambda>t. trf_installation t = ins_id installation \<and> trf_transfer_request_id t = request_id)
      (report_transfers x)")
    case (Some prior)
    from m [unfolded Some option.case] show thesis by (elim bind_resE) (rule replay, auto)
  next
    case None
    from m [unfolded None option.case] show thesis
    proof (elim bind_resE, goal_cases)
      case (1 recipient u1 u2 u3 u4 u5 v)
      then show thesis
        by (cases v) (rule issued [OF a 1(1)]; auto simp: require_Inr each_Inr bind_res_Inr)
    qed
  qed
qed

lemma claim_transfer_grants: "claim_transfer R i data token x = Inr (c, x') \<Longrightarrow> grant_keeps x x'"
  by (erule claim_transferE) (auto intro: grants.preserves_refl issue_transfer_grants)

lemma claim_transfer_spool: "claim_transfer R i data token x = Inr (c, x') \<Longrightarrow> same_spool x x'"
  by (erule claim_transferE) (auto intro: issue_transfer_grants)

lemma record_delivery_keeps:
  assumes "record_delivery i state code u d x = Inr (r, x')"
  shows "grant_keeps x x'" "same_spool x x'"
proof -
  from assms obtain x1 where u: "update_transfer i (\<lambda>t. t\<lparr>trf_mail_state := state, trf_mail_code := code\<rparr>) x = Inr x1"
      "grants_untouched x1 x'" "same_spool x1 x'"
    by (auto simp: record_delivery_def bind_res_Inr)
  have "grant_keeps x x1"
    by (rule update_transfer_grants [OF u(1)]) (simp add: transfer_evolves_def keeps_some_def)
  then show "grant_keeps x x'" by (rule grants.preserves_trans) (rule grants_untouched_keeps [OF u(2)])
  show "same_spool x x'" by (rule same_spool_trans [OF update_transfer_same_spool [OF u(1)] u(3)])
qed

lemma revoke_tablet_keeps:
  assumes "revoke_tablet n i x = Inr (r, x')"
  shows "grant_keeps x x'" "same_spool x x'"
proof -
  obtain installation tablet vehicle where a: "authorize n x = Inr (installation, tablet, vehicle)"
    using assms unfolding revoke_tablet_def by (elim bind_resE) (metis prod_cases3)
  obtain row where f: "find (\<lambda>t. trf_id t = i \<and> trf_installation t = n) (report_transfers x) = Some row"
    using assms unfolding revoke_tablet_def a bind_res.simps prod.case by (elim bind_resE) (simp add: of_option_Inr)
  note m = assms [unfolded revoke_tablet_def a f bind_res.simps prod.case of_option_Some]
  have row: "row \<in> set (report_transfers x)" "trf_id row = i" using f by (auto simp: find_Some_iff)
  have "grant_keeps x x' \<and> same_spool x x'"
  proof (cases "trf_revoked_at row = None")
    case True
    with m obtain x1 where u: "update_transfer i (\<lambda>t. t\<lparr>trf_revoked_at := Some (exchange_now x)\<rparr>) x = Inr x1"
        "grants_untouched x1 x'" "same_spool x1 x'"
      by (auto simp: bind_res_Inr grants_untouched_def same_spool_def)
    show ?thesis
      using grants.preserves_trans [OF revoke_one_grants [OF u(1) row True] grants_untouched_keeps [OF u(2)]]
        same_spool_trans [OF update_transfer_same_spool [OF u(1)] u(3)] by simp
  next
    case False
    with m show ?thesis by (auto intro: grants.preserves_refl)
  qed
  then show "grant_keeps x x'" "same_spool x x'" by simp_all
qed

subsection \<open>Tokens\<close>

lemma token_row_mem: "token_row R token x = Some t \<Longrightarrow> t \<in> set (report_transfers x) \<and> trf_token_digest t = sha256 R token"
  by (auto simp: token_row_def find_Some_iff split: if_splits)

lemma token_transferD:
  assumes "token_transfer R token x = Inr t"
  shows "token_row R token x = Some t" "t \<in> set (report_transfers x)" "trf_revoked_at t = None" "trf_mail_state t = MAIL_SENT"
    "trf_token_expires_at t > exchange_now x"
  using assms by (auto simp: token_transfer_def bind_res_Inr of_option_Inr require_Inr dest: token_row_mem)

lemma revoke_token_keeps:
  assumes "revoke_token R token x = Inr x'"
  shows "grant_keeps x x'" "same_spool x x'"
proof -
  from assms obtain row x1 where t: "token_transfer R token x = Inr row"
      "update_transfer (trf_id row) (\<lambda>t. t\<lparr>trf_revoked_at := Some (exchange_now x)\<rparr>) x = Inr x1"
      "grants_untouched x1 x'" "same_spool x1 x'"
    by (auto simp: revoke_token_def bind_res_Inr grants_untouched_def same_spool_def)
  show "grant_keeps x x'"
    using revoke_one_grants [OF t(2) token_transferD(2) [OF t(1)] refl token_transferD(3) [OF t(1)]]
    by (rule grants.preserves_trans) (rule grants_untouched_keeps [OF t(3)])
  show "same_spool x x'" by (rule same_spool_trans [OF update_transfer_same_spool [OF t(2)] t(4)])
qed

lemma redeem_tokenE:
  assumes "redeem_token R token session_key x = Inr (b, x')"
  obtains row installation tablet i x1 where
    "token_transfer R token x = Inr row" "trf_consumed_at row = None" "check_transfer R row x = Inr (installation, tablet)"
    "\<exists>s\<in>set (transfer_reports row x). check_report s (trf_recipient row) installation tablet x = Inr ()"
    "i = exchange_next x"
    "report_transfers x' = map (\<lambda>t. if trf_id t = trf_id row then t\<lparr>trf_consumed_at := Some (exchange_now x)\<rparr> else t) (report_transfers x)"
    "transfer_constraints (report_transfers x')"
    "portal_sessions x' = portal_sessions x @ [\<lparr>prt_id = i, prt_transfer = trf_id row, prt_session_digest = sha256 R session_key,
       prt_last_seen_at = exchange_now x, prt_logged_out_at = None\<rparr>]"
    "b = \<lparr>ses_key = Some session_key, ses_portal = Some i, ses_expiry = Some 1800\<rparr>"
    "exchange_next x' = Suc (exchange_next x)" "same_spool x x'" "exchange_now x' = exchange_now x"
proof -
  obtain row where t: "token_transfer R token x = Inr row" using assms unfolding redeem_token_def by (elim bind_resE)
  obtain installation tablet where c: "check_transfer R row x = Inr (installation, tablet)"
    using assms unfolding redeem_token_def t bind_res.simps by (elim bind_resE) (metis surj_pair)
  obtain i x1 where f: "fresh_exchange_id x = (i, x1)" by (cases "fresh_exchange_id x")
  note d = fresh_exchange_idD [OF f]
  let ?p = "\<lparr>prt_id = i, prt_transfer = trf_id row, prt_session_digest = sha256 R session_key,
       prt_last_seen_at = exchange_now x, prt_logged_out_at = None\<rparr>"
  note m = assms [unfolded redeem_token_def t c f bind_res.simps prod.case Let_def]
  from m obtain x2 where r: "trf_consumed_at row = None"
      "\<exists>s\<in>set (transfer_reports row x). check_report s (trf_recipient row) installation tablet x = Inr ()"
      "update_transfer (trf_id row) (\<lambda>t. t\<lparr>trf_consumed_at := Some (exchange_now x)\<rparr>)
         (x1\<lparr>portal_sessions := portal_sessions x1 @ [?p]\<rparr>) = Inr x2"
      "b = \<lparr>ses_key = Some session_key, ses_portal = Some i, ses_expiry = Some 1800\<rparr>"
      "grants_untouched x2 x'" "same_spool x2 x'" "crew x' = crew x2"
    by (elim bind_resE) (auto simp: require_Inr)
  note u = update_transfer_Inr [OF r(3)]
  show thesis
    by (rule that [OF t r(1) c r(2) d(1)]) (use r(4-7) u d in \<open>auto simp: grants_untouched_def same_spool_def receipts_known_def\<close>)
qed

lemma consumed_ids_update:
  assumes "row \<in> set ts"
  shows "trf_id ` {t \<in> set (map (\<lambda>t. if trf_id t = trf_id row then t\<lparr>trf_consumed_at := Some now\<rparr> else t) ts).
      trf_consumed_at t \<noteq> None} = insert (trf_id row) (trf_id ` {t \<in> set ts. trf_consumed_at t \<noteq> None})"
proof -
  let ?h = "\<lambda>t. if trf_id t = trf_id row then t\<lparr>trf_consumed_at := Some now\<rparr> else t"
  have "i \<in> trf_id ` {t \<in> set (map ?h ts). trf_consumed_at t \<noteq> None} \<longleftrightarrow>
      (\<exists>t\<in>set ts. trf_consumed_at (?h t) \<noteq> None \<and> trf_id (?h t) = i)" for i
    unfolding image_iff set_map by blast
  also have "(\<exists>t\<in>set ts. trf_consumed_at (?h t) \<noteq> None \<and> trf_id (?h t) = i) \<longleftrightarrow>
      (\<exists>t\<in>set ts. trf_id t = i \<and> (i = trf_id row \<or> trf_consumed_at t \<noteq> None))" for i
    by (rule bex_cong) auto
  finally have "i \<in> trf_id ` {t \<in> set (map ?h ts). trf_consumed_at t \<noteq> None} \<longleftrightarrow>
      i \<in> insert (trf_id row) (trf_id ` {t \<in> set ts. trf_consumed_at t \<noteq> None})" for i
    using assms by (simp only: insert_iff image_iff mem_Collect_eq) blast
  then show ?thesis by blast
qed

lemma redeem_token_keeps:
  assumes "redeem_token R token session_key x = Inr (b, x')"
  shows "grant_keeps x x'" "same_spool x x'"
proof -
  from assms obtain row i where r: "token_transfer R token x = Inr row" "trf_consumed_at row = None" "i = exchange_next x"
    "report_transfers x' = map (\<lambda>t. if trf_id t = trf_id row then t\<lparr>trf_consumed_at := Some (exchange_now x)\<rparr> else t) (report_transfers x)"
    "transfer_constraints (report_transfers x')"
    "portal_sessions x' = portal_sessions x @ [\<lparr>prt_id = i, prt_transfer = trf_id row, prt_session_digest = sha256 R session_key,
       prt_last_seen_at = exchange_now x, prt_logged_out_at = None\<rparr>]"
    "exchange_next x' = Suc (exchange_next x)" "same_spool x x'"
    by (rule redeem_tokenE)
  show "same_spool x x'" by (rule r(8))
  show "grant_keeps x x'" unfolding preserves_def
  proof (intro impI conjI)
    assume inv: "grant_inv x"
    let ?h = "\<lambda>t. if trf_id t = trf_id row then t\<lparr>trf_consumed_at := Some (exchange_now x)\<rparr> else t"
    have mem: "row \<in> set (report_transfers x)" by (rule token_transferD(2) [OF r(1)])
    have same: "t = row" if "t \<in> set (report_transfers x)" "trf_id t = trf_id row" for t
      using that mem inv by (auto simp: grant_inv_def distinct_map inj_on_def)
    have ids: "map trf_id (report_transfers x') = map trf_id (report_transfers x)" unfolding r(4) by simp
    have "trf_id ` {t \<in> set (report_transfers x'). trf_consumed_at t \<noteq> None}
        = insert (trf_id row) (trf_id ` {t \<in> set (report_transfers x). trf_consumed_at t \<noteq> None})"
      unfolding r(4) by (rule consumed_ids_update [OF mem])
    moreover have "trf_id row \<notin> trf_id ` {t \<in> set (report_transfers x). trf_consumed_at t \<noteq> None}"
      using same r(2) by auto
    ultimately have "sessions_match (report_transfers x') (portal_sessions x')"
      using inv by (auto simp: r(6) grant_inv_def sessions_match_def)
    moreover have "i \<notin> prt_id ` set (portal_sessions x)" using inv r(3) by (auto simp: grant_inv_def)
    moreover have "trf_id t < exchange_next x'" if "t \<in> set (report_transfers x')" for t
      using that inv by (auto simp: r(4,7) grant_inv_def less_Suc_eq)
    ultimately show "grant_inv x'" using inv ids r(3,5,7) by (auto simp: grant_inv_def r(6) less_Suc_eq)
    have "trf_id (?h t) = trf_id t \<and> transfer_evolves t (?h t)" if "t \<in> set (report_transfers x)" for t
      using same [OF that] r(2) by (auto simp: transfer_evolves_def keeps_some_def)
    then show "grant_history x x'" unfolding grant_history_def r(4,6)
      using r(7) by (simp add: rows_evolve_map rows_evolve_append portal_evolves_refl)
  qed
qed

lemma login_failed_same: "same_spool x (login_failed R acquired code token x)" "grants_untouched x (login_failed R acquired code token x)"
  by (simp_all add: login_failed_def split: option.splits)

lemma redeem_keeps:
  assumes "redeem R acquired token session_key x = (r, x')"
  shows "grant_keeps x x'" "same_spool x x'"
proof -
  have *: "grant_keeps x x' \<and> same_spool x x'"
  proof (cases "redeem_token R token session_key x")
    case (Inl e)
    then show ?thesis using assms
      by (cases e) (auto simp: redeem_def login_failed_same grants_untouched_keeps grants.preserves_refl)
  next
    case (Inr v)
    then show ?thesis using assms by (cases v) (auto simp: redeem_def redeem_token_keeps)
  qed
  then show "grant_keeps x x'" "same_spool x x'" by simp_all
qed

subsection \<open>Portal\<close>

lemma portal_contextE:
  assumes "portal_context R b report_id x = Inr ((transfer, rows), b', x')"
  obtains pk portal session_key installation tablet where
    "ses_portal b = Some pk" "row_get prt_id pk (portal_sessions x) = Some portal" "ses_key b = Some session_key"
    "row_get trf_id (prt_transfer portal) (report_transfers x) = Some transfer"
    "prt_logged_out_at portal = None" "prt_last_seen_at portal + 30 * usec_per_minute > exchange_now x"
    "prt_session_digest portal = sha256 R session_key" "check_transfer R transfer x = Inr (installation, tablet)"
    "trf_consumed_at transfer \<noteq> None"
    "available_reports (report_id \<noteq> None) (trf_recipient transfer) installation tablet x
       (filter (\<lambda>s. case report_id of None \<Rightarrow> True | Some i \<Rightarrow> sub_report_id s = i) (transfer_reports transfer x)) = Inr rows"
    "report_id \<noteq> None \<longrightarrow> rows \<noteq> []"
    "x' = update_portal pk (\<lambda>p. p\<lparr>prt_last_seen_at := exchange_now x\<rparr>) x"
proof -
  from assms obtain pk portal session_key t where
    m: "ses_portal b = Some pk" "row_get prt_id pk (portal_sessions x) = Some portal" "ses_key b = Some session_key"
      "fetch_transfer (prt_transfer portal) x = Inr t"
    unfolding portal_context_def by (elim bind_resE) (simp add: of_option_Inr)
  obtain installation tablet where c: "check_transfer R t x = Inr (installation, tablet)"
    using assms unfolding portal_context_def m of_option_Some bind_res.simps Let_def by (elim bind_resE) (metis surj_pair)
  from assms [unfolded portal_context_def m of_option_Some bind_res.simps Let_def c prod.case] show thesis
    by (elim bind_resE) (rule that [OF m(1-3)], use m(4) c in \<open>auto simp: fetch_transfer_def of_option_Inr require_Inr\<close>)
qed

lemma update_portal_keeps:
  assumes "\<And>p. portal_evolves p (g p) \<and> prt_id (g p) = prt_id p"
  shows "grant_keeps x (update_portal i g x)" "same_spool x (update_portal i g x)"
proof -
  show "grant_keeps x (update_portal i g x)"
    by (rule grant_map [where h = id and k = "\<lambda>p. if prt_id p = i then g p else p"])
      (use assms in \<open>auto simp: transfer_evolves_refl portal_evolves_refl grant_inv_def\<close>)
  show "same_spool x (update_portal i g x)" by (simp add: same_spool_def)
qed

lemma portal_context_keeps:
  assumes "portal_context R b report_id x = Inr (v, b', x')"
  shows "grant_keeps x x'" "same_spool x x'" "submissions x' = submissions x" "crew x' = crew x" "receipts x' = receipts x"
    "report_transfers x' = report_transfers x"
proof -
  obtain pk where "x' = update_portal pk (\<lambda>p. p\<lparr>prt_last_seen_at := exchange_now x\<rparr>) x"
    using assms by (cases v) (auto elim: portal_contextE)
  then show "grant_keeps x x'" "same_spool x x'" "submissions x' = submissions x" "crew x' = crew x" "receipts x' = receipts x"
    "report_transfers x' = report_transfers x"
    by (simp_all add: update_portal_keeps portal_evolves_def)
qed

lemma revoke_portal_keeps:
  assumes "revoke_portal R b x = Inr x'"
  shows "grant_keeps x x'" "same_spool x x'"
proof -
  obtain transfer rows b1 x1 where p: "portal_context R b None x = Inr ((transfer, rows), b1, x1)"
    using assms unfolding revoke_portal_def by (elim bind_resE) (metis surj_pair)
  note k = portal_context_keeps [OF p]
  let ?g = "\<lambda>t. if trf_revoked_at t = None then t\<lparr>trf_revoked_at := Some (exchange_now x1)\<rparr> else t"
  from assms p have m: "x' = x1 \<or> (\<exists>x2. update_transfer (trf_id transfer) ?g x1 = Inr x2 \<and> grants_untouched x2 x' \<and> same_spool x2 x')"
    by (auto simp: revoke_portal_def bind_res_Inr grants_untouched_def same_spool_def split: if_splits)
  have g: "grant_keeps x1 x2" if "update_transfer (trf_id transfer) ?g x1 = Inr x2" for x2
    by (rule update_transfer_grants [OF that]) (simp add: revoking_evolves transfer_evolves_refl)
  have "grant_keeps x1 x'" using m g by (auto intro: grants.preserves_refl grants.preserves_trans grants_untouched_keeps)
  then show "grant_keeps x x'" by (rule grants.preserves_trans [OF k(1)])
  have "same_spool x1 x'" using m by (auto intro: same_spool_trans dest: update_transfer_same_spool)
  then show "same_spool x x'" by (rule same_spool_trans [OF k(2)])
qed

lemma logout_keeps: "logout b x = (b', x') \<Longrightarrow> grant_keeps x x' \<and> same_spool x x'"
  by (auto simp: logout_def update_portal_keeps portal_evolves_def grants.preserves_refl split: option.splits)

lemma write_download_receipt_same:
  assumes "write_download_receipt R pk t a x = Inr (f, x')" and "pk \<in> sub_id ` set (submissions x)"
  shows "same_spool x x'" "grants_untouched x x'" "exchange_now x' = exchange_now x"
proof -
  obtain i x1 where i: "fresh_exchange_id x = (i, x1)" by (cases "fresh_exchange_id x")
  note d = fresh_exchange_idD [OF i]
  show "same_spool x x'" "grants_untouched x x'" "exchange_now x' = exchange_now x"
    using assms i d
    by (auto simp: write_download_receipt_def Let_def bind_res_Inr same_spool_def grants_untouched_def receipts_known_def)
qed

lemma complete_download_keeps:
  assumes "sub_id row \<in> sub_id ` set (submissions x)"
  shows "spool_keeps R x (complete_download R b row ft tid x)" "grant_keeps x (complete_download R b row ft tid x)"
proof -
  obtain did x0 where f: "fresh_exchange_id x = (did, x0)" by (cases "fresh_exchange_id x")
  define audit where "audit = Some \<lparr>dla_download_id = did, dla_transfer_id = tid, dla_file_type = ft\<rparr>"
  define w where "w = (case write_download_receipt R (sub_id row) (exchange_now x) audit x0 of
      Inl _ \<Rightarrow> (None, x0) | Inr (f, x2) \<Rightarrow> (Some f, x2))"
  obtain receipt x1 where w1: "w = (receipt, x1)" by (cases w)
  have s0: "same_spool x x0" "grants_untouched x x0"
    using fresh_exchange_idD [OF f] by (simp_all add: same_spool_def grants_untouched_def)
  have s1: "same_spool x0 x1" "grants_untouched x0 x1"
    using w1 write_download_receipt_same [where x = x0] assms fresh_exchange_idD(2) [OF f]
    by (auto simp: w_def split: sum.splits)
  have k1: "spool_keeps R x x1" "grant_keeps x x1"
    using same_spool_trans [OF s0(1) s1(1)] grants_untouched_trans [OF s0(2) s1(2)]
    by (simp_all add: same_spool_keeps grants_untouched_keeps)
  define m where "m = bind_res (portal_context R b (Some (sub_report_id row)) x1) (\<lambda>(v, b1, x2).
       record_successful_download (sub_id row) (Some (exchange_now x)) audit x2)"
  have c: "complete_download R b row ft tid x = (case m of Inl _ \<Rightarrow> x1 | Inr (t, x2) \<Rightarrow>
      (case receipt of None \<Rightarrow> x2 | Some f \<Rightarrow> (case unlink_receipt R f x2 of Inl _ \<Rightarrow> x2 | Inr x3 \<Rightarrow> x3)))"
    by (simp add: complete_download_def f audit_def [symmetric] w_def [symmetric] w1 m_def Let_def)
  have m: "spool_keeps R x1 x2 \<and> grant_keeps x1 x2" if "m = Inr (t, x2)" for t x2
    using that unfolding m_def
    by (auto simp: bind_res_Inr intro: spool.preserves_trans [OF same_spool_keeps] grants.preserves_trans
        dest: portal_context_keeps record_successful_download_spool record_successful_download_grants grants_untouched_keeps)
  have u: "spool_keeps R x2 x3 \<and> grant_keeps x2 x3" if "unlink_receipt R f x2 = Inr x3" for f x2 x3
    using unlink_receipt_same [OF that] by (simp add: same_spool_keeps grants_untouched_keeps)
  have "spool_keeps R x1 (complete_download R b row ft tid x) \<and> grant_keeps x1 (complete_download R b row ft tid x)"
    unfolding c using m u
    by (auto split: sum.splits option.splits intro: spool.preserves_refl grants.preserves_refl
        spool.preserves_trans grants.preserves_trans)
  then show "spool_keeps R x (complete_download R b row ft tid x)" "grant_keeps x (complete_download R b row ft tid x)"
    using k1 by (blast intro: spool.preserves_trans grants.preserves_trans)+
qed

end
