(* ===== verification/Report_Runs.thy ===== *)
theory Report_Runs
  imports Report_Grants
begin

text \<open>Every transaction of the report component as a step, and what becomes of one row along a run.\<close>

text \<open>
  \<open>others\<close> is any transaction of the other components: people, tablets, departments and the clock change under
  the grants.  The two transactions of a transfer request are two steps, and the second one records any outcome
  of the send, so that anything may happen between the claim, the reads of \<open>send_link\<close> and the record.  Besides
  whole cleanups, the transactions of a cleanup are steps of their own.  A download completes for a row that exists:
  rows are never deleted.
\<close>

inductive exchange_step :: "report_env \<Rightarrow> exchange \<Rightarrow> exchange \<Rightarrow> bool" for R where
  submitted: "submit R n envelope x = (r, x') \<Longrightarrow> exchange_step R x x'"
| claimed: "claim_transfer R n data token x = Inr (c, x') \<Longrightarrow> exchange_step R x x'"
| delivered: "record_delivery i state code u d x = Inr (r, x') \<Longrightarrow> exchange_step R x x'"
| tablet_revoked: "revoke_tablet n i x = Inr (r, x') \<Longrightarrow> exchange_step R x x'"
| redeemed: "redeem R acquired token session_key x = (r, x') \<Longrightarrow> exchange_step R x x'"
| token_revoked: "revoke_token R token x = Inr x' \<Longrightarrow> exchange_step R x x'"
| visited: "portal_context R b report_id x = Inr (v, b', x') \<Longrightarrow> exchange_step R x x'"
| portal_revoked: "revoke_portal R b x = Inr x' \<Longrightarrow> exchange_step R x x'"
| logged_out: "logout b x = (b', x') \<Longrightarrow> exchange_step R x x'"
| downloaded: "sub_id row \<in> sub_id ` set (submissions x) \<Longrightarrow> exchange_step R x (complete_download R b row file_type i x)"
| receipt_reconciled: "reconcile_receipt R f s = Inr s' \<Longrightarrow> exchange_step R (snd s) (snd s')"
| row_swept: "sweep_submission R now pk s = Inr s' \<Longrightarrow> exchange_step R (snd s) (snd s')"
| orphan_swept: "sweep_unreferenced R (referenced_payloads (snd s)) key s = Inr s' \<Longrightarrow> exchange_step R (snd s) (snd s')"
| temporary_swept: "exchange_step R (snd s) (snd (sweep_receipt_temp R now f s))"
| swept: "cleanup R at x = Inr (c, x') \<Longrightarrow> exchange_step R x x'"
| exported: "render_submission_pdf R n i x = Inr (p, x') \<Longrightarrow> exchange_step R x x'"
| others: "next_id (base (yard (crew x))) \<le> next_id (base (yard r)) \<Longrightarrow> exchange_step R x (x\<lparr>crew := r\<rparr>)"

abbreviation exchange_run :: "report_env \<Rightarrow> exchange \<Rightarrow> exchange \<Rightarrow> bool" where
  "exchange_run R \<equiv> (exchange_step R)\<^sup>*\<^sup>*"

lemma render_submission_pdf_same:
  "render_submission_pdf R n i x = Inr (p, x') \<Longrightarrow> same_spool x x' \<and> grants_untouched x x'"
  by (auto simp: render_submission_pdf_def bind_res_Inr)

lemma exchange_step_keeps: "exchange_step R x x' \<Longrightarrow> spool_keeps R x x' \<and> grant_keeps x x'"
proof (induction rule: exchange_step.induct)
  case (submitted n envelope x r x')
  then show ?case by (simp add: submit_spool grants_untouched_keeps submit_grants)
next
  case (claimed n data token x c x')
  then show ?case by (simp add: same_spool_keeps claim_transfer_spool claim_transfer_grants)
next
  case (swept at x c x')
  then show ?case using cleanup_sweep [OF swept] by (simp add: grants_untouched_keeps)
next
  case (receipt_reconciled f s s')
  then show ?case using reconcile_receipt_sweep by (simp add: sweep_keeps_def grants_untouched_keeps)
next
  case (row_swept now pk s s')
  then show ?case using sweep_submission_sweep by (simp add: sweep_keeps_def grants_untouched_keeps)
next
  case (orphan_swept s key s')
  then show ?case using sweep_unreferenced_sweep [OF orphan_swept refl] by (simp add: sweep_keeps_def grants_untouched_keeps)
next
  case (temporary_swept s now f)
  have "same_spool (snd s) (snd (sweep_receipt_temp R now f s))" "grants_untouched (snd s) (snd (sweep_receipt_temp R now f s))"
    by (simp_all add: same_spool_def grants_untouched_def sweep_receipt_temp_same)
  then show ?case by (simp add: same_spool_keeps grants_untouched_keeps)
next
  case (logged_out b x b' x')
  then show ?case using logout_keeps by (simp add: same_spool_keeps)
next
  case (downloaded row x b file_type i)
  then show ?case by (simp add: complete_download_keeps)
next
  case (exported n i x p x')
  then show ?case using render_submission_pdf_same by (simp add: same_spool_keeps grants_untouched_keeps)
next
  case (others x r)
  then have "same_spool x (x\<lparr>crew := r\<rparr>)" "grants_untouched x (x\<lparr>crew := r\<rparr>)" by (simp_all add: same_spool_def grants_untouched_def)
  then show ?case by (simp add: same_spool_keeps grants_untouched_keeps)
qed (auto intro: same_spool_keeps dest: record_delivery_keeps revoke_tablet_keeps redeem_keeps revoke_token_keeps
    portal_context_keeps revoke_portal_keeps)

lemma exchange_run_spool:
  assumes "exchange_run R x x'" and "spool_inv R x"
  shows "spool_inv R x'" "spool_history x x'"
proof -
  have "spool_keeps R x x'" by (rule spool.preserves_run [OF _ assms(1)]) (simp add: exchange_step_keeps)
  then show "spool_inv R x'" "spool_history x x'" using assms(2) by (simp_all add: preserves_def)
qed

lemma exchange_run_grants:
  assumes "exchange_run R x x'" and "grant_inv x"
  shows "grant_inv x'" "grant_history x x'"
proof -
  have "grant_keeps x x'" by (rule grants.preserves_run [OF _ assms(1)]) (simp add: exchange_step_keeps)
  then show "grant_inv x'" "grant_history x x'" using assms(2) by (simp_all add: preserves_def)
qed

lemma run_transfer:
  assumes "exchange_run R x x'" and "grant_inv x" and "row_get trf_id i (report_transfers x) = Some t"
  obtains t' where "row_get trf_id i (report_transfers x') = Some t'" "transfer_evolves t t'"
proof (rule rows_evolve_get [OF _ _ assms(3)])
  show "rows_evolve trf_id transfer_evolves (report_transfers x) (report_transfers x')"
    "unique_rows trf_id (report_transfers x')"
    using exchange_run_grants [OF assms(1,2)] by (simp_all add: grant_history_def grant_inv_def)
qed

lemma run_submission:
  assumes "exchange_run R x x'" and "spool_inv R x" and "fetch_submission pk x = Inr s"
  obtains s' where "fetch_submission pk x' = Inr s'" "submission_evolves s s'"
proof (rule rows_evolve_get [OF _ _ assms(3) [unfolded fetch_submission_Inr]])
  show "rows_evolve sub_id submission_evolves (submissions x) (submissions x')" "unique_rows sub_id (submissions x')"
    using exchange_run_spool [OF assms(1,2)] by (simp_all add: spool_history_def spool_inv_def)
qed (rule that, simp add: fetch_submission_Inr)

text \<open>A token names one generation for good.\<close>

lemma token_row_unique:
  assumes "grant_inv x" and "token_row R token x = Some t" and "t' \<in> set (report_transfers x)"
    and "trf_token_digest t' = sha256 R token"
  shows "t = t'"
  using assms token_row_mem [OF assms(2)]
  by (auto simp: grant_inv_def transfer_constraints_def distinct_map inj_on_def)

lemma consumed_token_refused:
  assumes "grant_inv x" and "t \<in> set (report_transfers x)" and "trf_token_digest t = sha256 R token"
    and "trf_consumed_at t \<noteq> None"
  shows "isl (redeem_token R token session_key x)"
proof -
  have "redeem_token R token session_key x \<noteq> Inr (b, y)" for b y
  proof
    assume "redeem_token R token session_key x = Inr (b, y)"
    then obtain row where row: "token_transfer R token x = Inr row" "trf_consumed_at row = None"
      by (rule redeem_tokenE)
    have "row = t" by (rule token_row_unique [OF assms(1) token_transferD(1) [OF row(1)] assms(2,3)])
    with row(2) assms(4) show False by simp
  qed
  then show ?thesis by (cases "redeem_token R token session_key x") auto
qed

lemma redeem_isl: "isl (fst (redeem R acquired token session_key x)) \<longleftrightarrow> isl (redeem_token R token session_key x)"
  by (auto simp: redeem_def split: sum.splits exn.splits)

lemma redeem_Inr: "redeem R acquired token session_key x = (Inr b, x') \<longleftrightarrow> redeem_token R token session_key x = Inr (b, x')"
  by (auto simp: redeem_def split: sum.splits exn.splits)

lemma control_plane_context_rows:
  assumes "control_plane_context n now f = Inr (installation, tablet, vehicle)"
  shows "fetch_installation n f = Inr installation"
  using assms unfolding control_plane_context_def by (elim bind_resE) (auto split: if_splits option.splits)

lemma authorizeD:
  assumes "authorize n x = Inr (installation, tablet, vehicle)"
  shows "control_plane_context n (exchange_now x) (yard (crew x)) = Inr (installation, tablet, Some vehicle)"
proof (cases "control_plane_context n (exchange_now x) (yard (crew x))")
  case (Inl e)
  with assms show ?thesis by (cases e) (simp_all add: authorize_def)
next
  case (Inr v)
  with assms show ?thesis by (cases v; cases "snd (snd v)") (auto simp: authorize_def split: if_splits)
qed

lemma authorize_installation: "authorize n x = Inr (installation, tablet, vehicle) \<Longrightarrow> ins_id installation = n"
  using control_plane_context_rows [OF authorizeD [of n x installation tablet vehicle]]
  by (simp add: fetch_installation_def of_option_Inr row_get_key)

lemma check_transferD:
  assumes "check_transfer R t x = Inr (installation, tablet)"
  shows "trf_revoked_at t = None" "trf_mail_state t = MAIL_SENT"
    "fetch_installation (trf_installation t) (yard (crew x)) = Inr installation"
    "fetch_tablet (ins_tablet installation) (yard (crew x)) = Inr tablet"
    "current_status (ins_status installation)" "ins_revoked_at installation = None" "tab_status tablet = TAB_ACTIVE"
    "department_is_active (base (yard (crew x))) (tab_department tablet)"
    "\<exists>recipient. recipient_for R (tab_department tablet) (trf_recipient t) x = Inr recipient
       \<and> email_digest R (adm_email recipient) = trf_recipient_email_digest t"
  using assms unfolding check_transfer_def by (auto simp: bind_res_Inr require_Inr)

lemma recipient_for_Inr:
  "recipient_for R d i x = Inr a \<longleftrightarrow> resolve_report_recipient (email_accepted R) d i (crew x) = Inr a"
  by (auto simp: recipient_for_def split: sum.splits exn.splits)

lemma check_reportD:
  assumes "check_report s recipient installation tablet x = Inr u"
  shows "sub_installation s = ins_id installation" "sub_recipient s = recipient" "sub_department s = tab_department tablet"
    "sub_state s = SUB_READY" "\<exists>d. effective_expiry s x = Inr d \<and> exchange_now x < d" "stored_deadline s > exchange_now x"
  using assms effective_expiry_le [of s x] unfolding check_report_def
  by (auto simp: bind_res_Inr require_Inr intro: order_less_le_trans)

lemma available_reports_checked:
  "available_reports strict recipient installation tablet x ss = Inr rows \<Longrightarrow> s \<in> set rows
     \<Longrightarrow> s \<in> set ss \<and> check_report s recipient installation tablet x = Inr ()"
proof (induction ss arbitrary: rows)
  case (Cons r ss)
  show ?case
  proof (cases "check_report r recipient installation tablet x")
    case (Inl e)
    with Cons show ?thesis by (cases e) (auto split: if_splits)
  next
    case (Inr u)
    with Cons show ?thesis by (auto simp: bind_res_Inr)
  qed
qed simp

end
