(* ===== verification/Report_Properties.thy ===== *)
theory Report_Properties
  imports Report_Runs Tablet_Properties
begin

text \<open>
  What the report component promises along every run of its transactions: access tokens work once, revocation is
  final, the portal shows a recipient their own unexpired reports only, deadlines only shrink, packages are
  accepted once, and a cleanup without failures leaves nothing expired behind.
\<close>

subsection \<open>A concrete exchange\<close>

definition demo_contract :: contract_env where
  "demo_contract = \<lparr>json_loads = (\<lambda>_. None), digest_hex = (\<lambda>s. ''h'' @ s), private_keys = Inr (\<lambda>_. Some 8),
     oaep_decrypt = (\<lambda>_ _. None), gcm_decrypt = (\<lambda>_ _ _ _. None), open_image = (\<lambda>_. None),
     REPORT_TRANSFER_MAX_JSON_BYTES = 1000, REPORT_TRANSFER_MAX_JPEG_BYTES = 1000,
     REPORT_TRANSFER_MAX_ATTACHMENTS = 4, REPORT_TRANSFER_MAX_IMAGE_PIXELS = 1000\<rparr>"

definition demo_report_env :: report_env where
  "demo_report_env = \<lparr>contract = demo_contract, email_accepted = (\<lambda>_. True), email_digest = (\<lambda>s. ''k'' @ s),
     provider_usable = (\<lambda>_. True), provider_send = (\<lambda>_ _ _. SendAccepted), render_pdf = (\<lambda>_ _ _. ''pdf''),
     storage_overlap = False, is_symlink = (\<lambda>_. False), write_fault = (\<lambda>_. False), io_fault = (\<lambda>_. False),
     public_origin_valid = True, REPORT_TRANSFER_MAX_REQUEST_BYTES = 4096, REPORT_TRANSFER_RETENTION_HOURS = 72,
     REPORT_TRANSFER_MAX_REPORTS = 20, REPORT_TRANSFER_MAILS_PER_HOUR = 10, REPORT_TRANSFER_MAILS_PER_MINUTE = 3\<rparr>"

definition demo_person :: person_row where
  "demo_person = (blank_person 30 1 0)\<lparr>per_display_name := ''Kim'', per_commander_eligible := True,
     per_commander_email := Some ''kim@x.de'', per_email_verified_at := Some 5\<rparr>"

definition demo_submission :: submission_row where
  "demo_submission = \<lparr>sub_id = 31, sub_installation = 46, sub_submission_id = 70, sub_report_id = 71, sub_recipient = 30,
     sub_department = 1, sub_station = 2, sub_payload_digest = ''hE'', sub_document_digest = ''hD'',
     sub_document_schema_version = Some 1, sub_first_download_at = None, sub_payload_key = ''33.jwe'', sub_key_version = ''k1'',
     sub_state = SUB_READY, sub_created_at = 900, sub_expires_at = 2000\<rparr>"

definition demo_token :: string where "demo_token = replicate 43 (CHR ''t'')"

definition demo_transfer :: transfer_row where
  "demo_transfer = \<lparr>trf_id = 32, trf_installation = 46, trf_recipient = 30, trf_transfer_request_id = 72,
     trf_request_digest = ''hR'', trf_recipient_email_digest = ''kkim@x.de'', trf_submissions = [31],
     trf_token_digest = ''h'' @ demo_token, trf_issued_at = 950, trf_token_expires_at = 5000, trf_consumed_at = None,
     trf_revoked_at = None, trf_mail_state = MAIL_SENT, trf_mail_code = ''delivered''\<rparr>"

text \<open>A tablet in service, one accepted report, and a link to it that was mailed.\<close>

definition demo_crew :: roster where
  "demo_crew = \<lparr>yard = demo_fleet\<lparr>tablets := [demo_tablet\<lparr>tab_status := TAB_ACTIVE\<rparr>],
       installations := [(demo_installation 46 INS_ACTIVE)\<lparr>ins_authorization_valid_until := 9000\<rparr>]\<rparr>,
     people = [demo_person], station_assignments = [], retention_policies = [], recipient_policies = []\<rparr>"

definition demo_exchange :: exchange where
  "demo_exchange = \<lparr>crew = demo_crew, submissions = [demo_submission], report_transfers = [demo_transfer],
     portal_sessions = [], payload_files = [(''33.jwe'', ''E'')], receipts = [], receipt_temps = [], report_log = []\<rparr>"

lemmas demo_exchange_defs = demo_exchange_def demo_crew_def demo_submission_def demo_transfer_def demo_defs

lemma demo_grant_inv: "grant_inv demo_exchange"
  by (simp add: grant_inv_def demo_exchange_defs transfer_constraints_def sessions_match_def)

lemma demo_spool_inv: "spool_inv demo_report_env demo_exchange"
  by (simp add: spool_inv_def demo_exchange_defs submission_constraints_def submission_ok_def ready_keys_def
      payload_kept_def sha256_def demo_report_env_def demo_contract_def usec_per_day_value)

text \<open>The link opened once.\<close>

definition demo_opened :: "browser \<times> exchange" where
  "demo_opened = (case redeem_token demo_report_env demo_token ''key'' demo_exchange of Inl _ \<Rightarrow> (flushed, demo_exchange) | Inr v \<Rightarrow> v)"

lemma demo_redeemed: "redeem_token demo_report_env demo_token ''key'' demo_exchange = Inr demo_opened"
proof -
  have "\<not> isl (redeem_token demo_report_env demo_token ''key'' demo_exchange)" by code_simp
  then show ?thesis by (auto simp: demo_opened_def split: sum.splits)
qed

subsection \<open>Tokens and generations\<close>

text \<open>
  C33: An access token is good for one login.  Once a redemption succeeded, every later redemption of the same
  token is refused, whatever the tablets, the recipients, the mail worker and the cleanup did in between, and
  every generation has exactly one portal session when it was consumed and none otherwise.
\<close>

theorem token_single_use:
  assumes "grant_inv x" and "redeem R acquired token session_key x = (Inr b, y)" and "exchange_run R y z"
  shows "isl (fst (redeem R acquired' token session_key' z))
    \<and> sessions_match (report_transfers z) (portal_sessions z)"
proof -
  from assms(2) obtain row where row: "token_transfer R token x = Inr row"
      and ts: "report_transfers y = map (\<lambda>t. if trf_id t = trf_id row then t\<lparr>trf_consumed_at := Some (exchange_now x)\<rparr> else t)
        (report_transfers x)"
    by (auto simp: redeem_Inr elim: redeem_tokenE)
  let ?r = "row\<lparr>trf_consumed_at := Some (exchange_now x)\<rparr>"
  have y: "grant_inv y" using redeem_keeps(1) [OF assms(2)] assms(1) by (simp add: preserves_def)
  have "?r \<in> set (report_transfers y)" using token_transferD(2) [OF row] by (force simp: ts)
  then have "row_get trf_id (trf_id ?r) (report_transfers y) = Some ?r"
    using y row_get_unique [of trf_id "report_transfers y" ?r] by (simp add: grant_inv_def)
  then obtain t where t: "row_get trf_id (trf_id ?r) (report_transfers z) = Some t" "transfer_evolves ?r t"
    by (rule run_transfer [OF assms(3) y])
  have z: "grant_inv z" by (rule exchange_run_grants [OF assms(3) y])
  have "trf_token_digest t = sha256 R token" "trf_consumed_at t \<noteq> None"
    using t(2) token_row_mem [OF token_transferD(1) [OF row]] by (auto simp: transfer_evolves_def keeps_some_def)
  then have "isl (redeem_token R token session_key' z)" by (rule consumed_token_refused [OF z row_get_mem [OF t(1)]])
  then show ?thesis using z by (simp add: redeem_isl grant_inv_def)
qed

theorem token_single_use_witness:
  "isl (fst (redeem demo_report_env True demo_token ''other'' (snd demo_opened)))
    \<and> sessions_match (report_transfers (snd demo_opened)) (portal_sessions (snd demo_opened))"
proof -
  have "redeem demo_report_env True demo_token ''key'' demo_exchange = (Inr (fst demo_opened), snd demo_opened)"
    by (simp add: redeem_Inr demo_redeemed)
  then show ?thesis using token_single_use [OF demo_grant_inv _ rtranclp.rtrancl_refl] by blast
qed

text \<open>
  C34: Revocation is final.  From the moment a generation is revoked, by a new link for the same tablet and
  recipient, from the tablet, from the portal or with the used token, no session opens it, no token redeems it and
  no send that starts then mails its link, whatever happens afterwards.
\<close>

theorem revoked_generation_final:
  assumes "grant_inv x" and "row_get trf_id i (report_transfers x) = Some t" and "trf_revoked_at t \<noteq> None"
    and "exchange_run R x y"
  shows "(portal_context R b report_id y = Inr ((t', rows), b', z) \<longrightarrow> trf_id t' \<noteq> i)
    \<and> (token_transfer R token y = Inr t'' \<longrightarrow> trf_id t'' \<noteq> i)
    \<and> fst (send_link R i token' y) = MAIL_FAILED"
proof -
  obtain u where u: "row_get trf_id i (report_transfers y) = Some u" "transfer_evolves t u"
    by (rule run_transfer [OF assms(4,1,2)])
  have y: "grant_inv y" by (rule exchange_run_grants [OF assms(4,1)])
  have rev: "trf_revoked_at u \<noteq> None" using u(2) assms(3) by (auto simp: transfer_evolves_def keeps_some_def)
  have "trf_id t' \<noteq> i" if p: "portal_context R b report_id y = Inr ((t', rows), b', z)"
  proof
    assume "trf_id t' = i"
    from p obtain k installation tablet where "row_get trf_id k (report_transfers y) = Some t'"
        "check_transfer R t' y = Inr (installation, tablet)"
      by (rule portal_contextE)
    with \<open>trf_id t' = i\<close> u(1) y have "t' = u" by (metis fetched_transfer row_get_mem)
    with rev check_transferD(1) [OF \<open>check_transfer R t' y = Inr (installation, tablet)\<close>] show False by simp
  qed
  moreover have "trf_id t'' \<noteq> i" if "token_transfer R token y = Inr t''"
    using token_transferD [OF that] u(1) y rev by (metis fetched_transfer)
  moreover have "fst (send_link R i token' y) = MAIL_FAILED" using u(1) rev by (simp add: send_link_def)
  ultimately show ?thesis by blast
qed

definition demo_revoked :: exchange where
  "demo_revoked = demo_exchange\<lparr>report_transfers := [demo_transfer\<lparr>trf_revoked_at := Some 980\<rparr>]\<rparr>"

theorem revoked_generation_final_witness:
  "fst (send_link demo_report_env 32 demo_token demo_revoked) = MAIL_FAILED"
proof -
  have "grant_inv demo_revoked"
    by (simp add: demo_revoked_def demo_exchange_defs grant_inv_def transfer_constraints_def sessions_match_def)
  moreover have "row_get trf_id 32 (report_transfers demo_revoked) = Some (demo_transfer\<lparr>trf_revoked_at := Some 980\<rparr>)"
    by (simp add: demo_revoked_def demo_transfer_def row_get_def)
  ultimately show ?thesis using revoked_generation_final [OF _ _ _ rtranclp.rtrancl_refl] by simp
qed

text \<open>
  C35: What the portal shows.  A portal request that succeeds comes from the browser session the login opened (its
  key has the stored digest), less than thirty minutes idle, on a consumed, unrevoked, mailed generation of a
  current installation of a tablet in service; its recipient is at that moment an active, eligible person of the
  tablet's department with a verified address, the one the link was mailed to; and every report it shows is
  addressed to that person by that installation and unexpired: READY, before its effective expiry with the
  receipts on disk taken into account, before its stored deadline, less than seven days old and less than
  forty-eight hours after its first download and after every completed download whose receipt is on disk.
\<close>

theorem portal_shows_own_unexpired_reports:
  assumes "portal_context R b report_id x = Inr ((t, rows), b', x')"
  shows "(\<exists>p. ses_portal b = Some (prt_id p) \<and> p \<in> set (portal_sessions x) \<and> prt_transfer p = trf_id t
       \<and> exchange_now x < prt_last_seen_at p + 30 * usec_per_minute \<and> prt_logged_out_at p = None
       \<and> map_option (sha256 R) (ses_key b) = Some (prt_session_digest p))
    \<and> trf_revoked_at t = None \<and> trf_consumed_at t \<noteq> None \<and> trf_mail_state t = MAIL_SENT
    \<and> (\<exists>installation tablet person. fetch_installation (trf_installation t) (yard (crew x)) = Inr installation
       \<and> current_status (ins_status installation) \<and> fetch_tablet (ins_tablet installation) (yard (crew x)) = Inr tablet
       \<and> tab_status tablet = TAB_ACTIVE \<and> person \<in> set (people (crew x)) \<and> per_id person = trf_recipient t
       \<and> per_department person = tab_department tablet \<and> per_lifecycle_status person = PER_ACTIVE
       \<and> per_commander_eligible person \<and> per_email_verified_at person \<noteq> None
       \<and> map_option (email_digest R) (normalized_valid_email (email_accepted R) (per_commander_email person))
           = Some (trf_recipient_email_digest t))
    \<and> (\<forall>s\<in>set rows. s \<in> set (submissions x) \<and> sub_recipient s = trf_recipient t \<and> sub_installation s = trf_installation t
       \<and> sub_state s = SUB_READY \<and> (\<exists>d. effective_expiry s x = Inr d \<and> exchange_now x < d)
       \<and> exchange_now x < sub_expires_at s \<and> exchange_now x < sub_created_at s + 7 * usec_per_day
       \<and> (\<forall>f\<in>set (receipts x). \<forall>d a. rcp_prefix f = sub_id s \<longrightarrow> rcp_body f = Some (sub_id s, d, a) \<longrightarrow>
            sub_created_at s \<le> d \<longrightarrow> exchange_now x < d + 48 * usec_per_hour)
       \<and> (\<forall>d. sub_first_download_at s = Some d \<longrightarrow> exchange_now x < d + 48 * usec_per_hour))"
proof -
  from assms obtain pk portal session_key installation tablet where c:
    "ses_portal b = Some pk" "row_get prt_id pk (portal_sessions x) = Some portal"
    "row_get trf_id (prt_transfer portal) (report_transfers x) = Some t"
    "prt_logged_out_at portal = None" "prt_last_seen_at portal + 30 * usec_per_minute > exchange_now x"
    "check_transfer R t x = Inr (installation, tablet)" "trf_consumed_at t \<noteq> None"
    "available_reports (report_id \<noteq> None) (trf_recipient t) installation tablet x
       (filter (\<lambda>s. case report_id of None \<Rightarrow> True | Some i \<Rightarrow> sub_report_id s = i) (transfer_reports t x)) = Inr rows"
    "ses_key b = Some session_key" "prt_session_digest portal = sha256 R session_key"
    by (rule portal_contextE)
  note t = check_transferD [OF c(6)]
  obtain recipient where "recipient_for R (tab_department tablet) (trf_recipient t) x = Inr recipient"
      "email_digest R (adm_email recipient) = trf_recipient_email_digest t"
    using t(9) by blast
  then obtain p where p: "find (\<lambda>p. per_id p = trf_recipient t \<and> per_department p = tab_department tablet) (people (crew x)) = Some p"
      "per_lifecycle_status p = PER_ACTIVE" "per_commander_eligible p" "per_email_verified_at p \<noteq> None"
      "map_option (email_digest R) (normalized_valid_email (email_accepted R) (per_commander_email p)) = Some (trf_recipient_email_digest t)"
    by (auto simp: recipient_for_Inr resolve_report_recipient_Inr)
  have person: "p \<in> set (people (crew x))" "per_id p = trf_recipient t" "per_department p = tab_department tablet"
    using p(1) by (auto simp: find_Some_iff)
  have rows: "s \<in> set (submissions x) \<and> sub_recipient s = trf_recipient t \<and> sub_installation s = trf_installation t
       \<and> sub_state s = SUB_READY \<and> (\<exists>d. effective_expiry s x = Inr d \<and> exchange_now x < d)
       \<and> exchange_now x < sub_expires_at s \<and> exchange_now x < sub_created_at s + 7 * usec_per_day
       \<and> (\<forall>f\<in>set (receipts x). \<forall>d a. rcp_prefix f = sub_id s \<longrightarrow> rcp_body f = Some (sub_id s, d, a) \<longrightarrow>
            sub_created_at s \<le> d \<longrightarrow> exchange_now x < d + 48 * usec_per_hour)
       \<and> (\<forall>d. sub_first_download_at s = Some d \<longrightarrow> exchange_now x < d + 48 * usec_per_hour)" if "s \<in> set rows" for s
  proof -
    have s: "s \<in> set (transfer_reports t x)" "check_report s (trf_recipient t) installation tablet x = Inr ()"
      using available_reports_checked [OF c(8) that] by auto
    have "ins_id installation = trf_installation t" using t(3) by (simp add: fetch_installation_def of_option_Inr row_get_key)
    moreover obtain d where d: "effective_expiry s x = Inr d" "exchange_now x < d" using check_reportD(5) [OF s(2)] by blast
    moreover have "exchange_now x < t + 48 * usec_per_hour"
      if "f \<in> set (receipts x)" "rcp_prefix f = sub_id s" "rcp_body f = Some (sub_id s, t, a)" "sub_created_at s \<le> t" for f t a
      using effective_expiry_receipt [OF d(1) that] d(2) by simp
    ultimately show ?thesis using check_reportD [OF s(2)] stored_deadline_le [of s] s(1)
      by (auto simp: transfer_reports_def intro: order_less_le_trans)
  qed
  have portal: "ses_portal b = Some (prt_id portal) \<and> portal \<in> set (portal_sessions x) \<and> prt_transfer portal = trf_id t
       \<and> exchange_now x < prt_last_seen_at portal + 30 * usec_per_minute \<and> prt_logged_out_at portal = None
       \<and> map_option (sha256 R) (ses_key b) = Some (prt_session_digest portal)"
    using c(1-5,9,10) row_get_SomeD [OF c(2)] row_get_key [OF c(3)] by simp
  show ?thesis
  proof (intro conjI)
    show "\<exists>p. ses_portal b = Some (prt_id p) \<and> p \<in> set (portal_sessions x) \<and> prt_transfer p = trf_id t
       \<and> exchange_now x < prt_last_seen_at p + 30 * usec_per_minute \<and> prt_logged_out_at p = None
       \<and> map_option (sha256 R) (ses_key b) = Some (prt_session_digest p)"
      by (rule exI [of _ portal]) (rule portal)
    show "trf_revoked_at t = None" "trf_consumed_at t \<noteq> None" "trf_mail_state t = MAIL_SENT" by (fact t(1) c(7) t(2))+
    show "\<exists>installation tablet person. fetch_installation (trf_installation t) (yard (crew x)) = Inr installation
       \<and> current_status (ins_status installation) \<and> fetch_tablet (ins_tablet installation) (yard (crew x)) = Inr tablet
       \<and> tab_status tablet = TAB_ACTIVE \<and> person \<in> set (people (crew x)) \<and> per_id person = trf_recipient t
       \<and> per_department person = tab_department tablet \<and> per_lifecycle_status person = PER_ACTIVE
       \<and> per_commander_eligible person \<and> per_email_verified_at person \<noteq> None
       \<and> map_option (email_digest R) (normalized_valid_email (email_accepted R) (per_commander_email person))
           = Some (trf_recipient_email_digest t)"
      by (rule exI [of _ installation], rule exI [of _ tablet], rule exI [of _ p]) (intro conjI t person p)
  qed (use rows in blast)
qed

text \<open>The exchange after the login, and the browser that holds the session.\<close>

definition demo_visited :: exchange where
  "demo_visited = demo_exchange\<lparr>report_transfers := [demo_transfer\<lparr>trf_consumed_at := Some 980\<rparr>],
     portal_sessions := [\<lparr>prt_id = 49, prt_transfer = 32, prt_session_digest = ''hkey'', prt_last_seen_at = 980,
       prt_logged_out_at = None\<rparr>]\<rparr>"

definition demo_browser :: browser where
  "demo_browser = \<lparr>ses_key = Some ''key'', ses_portal = Some 49, ses_expiry = Some 1800\<rparr>"

theorem portal_shows_own_unexpired_reports_witness:
  "\<exists>t (rows :: submission_row list). t \<in> set (report_transfers demo_visited) \<and> rows \<noteq> [] \<and> trf_consumed_at t \<noteq> None
     \<and> (\<forall>s\<in>set rows. sub_recipient s = trf_recipient t)"
proof -
  have "case portal_context demo_report_env demo_browser None demo_visited of
      Inl _ \<Rightarrow> False | Inr ((t, rows), b, x) \<Rightarrow> rows \<noteq> []"
    by code_simp
  then obtain t rows b x where p: "portal_context demo_report_env demo_browser None demo_visited = Inr ((t, rows), b, x)"
      "rows \<noteq> []"
    by (auto split: sum.splits)
  then have t: "t \<in> set (report_transfers demo_visited)" by (auto elim: portal_contextE dest: row_get_mem)
  have c: "trf_consumed_at t \<noteq> None" using portal_shows_own_unexpired_reports [OF p(1)] by (elim conjE)
  have "\<forall>s\<in>set rows. sub_recipient s = trf_recipient t"
    using portal_shows_own_unexpired_reports [OF p(1)] by (elim conjE) simp
  with c t p(2) show ?thesis by blast
qed

subsection \<open>Deadlines\<close>

text \<open>
  C36: Deadlines only shrink.  Along every run a submission keeps its row, its deadline never moves out: it stays at
  most seven days after acceptance and at most forty-eight hours after the first recorded download, no later
  effective expiry exceeds the deadline stored before, and an EXPIRED submission stays EXPIRED.
\<close>

theorem deadlines_only_shrink:
  assumes "spool_inv R x" and "exchange_run R x y" and "fetch_submission pk x = Inr s"
  shows "\<exists>s'. fetch_submission pk y = Inr s' \<and> sub_created_at s' = sub_created_at s
    \<and> stored_deadline s' \<le> stored_deadline s \<and> stored_deadline s' \<le> sub_created_at s + 7 * usec_per_day
    \<and> (\<forall>t. sub_first_download_at s = Some t \<longrightarrow> stored_deadline s' \<le> t + 48 * usec_per_hour)
    \<and> (\<forall>d. effective_expiry s' y = Inr d \<longrightarrow> d \<le> stored_deadline s)
    \<and> (sub_state s = SUB_EXPIRED \<longrightarrow> sub_state s' = SUB_EXPIRED)"
proof -
  obtain s' where s': "fetch_submission pk y = Inr s'" "submission_evolves s s'"
    by (rule run_submission [OF assms(2,1,3)])
  have mem: "s \<in> set (submissions x)" "s' \<in> set (submissions y)"
    using assms(3) s'(1) by (simp_all add: fetch_submission_Inr row_get_mem)
  then have "submission_ok s" "submission_ok s'"
    using assms(1) exchange_run_spool(1) [OF assms(2,1)] by (simp_all add: spool_inv_def)
  then have "stored_deadline s = sub_expires_at s" "stored_deadline s' = sub_expires_at s'"
    by (simp_all add: stored_deadline_ok)
  then show ?thesis using s' stored_deadline_le [of s] stored_deadline_le [of s'] effective_expiry_le [of s' y]
    by (auto simp: submission_evolves_def intro: order_trans)
qed

theorem deadlines_only_shrink_witness:
  "\<exists>s'. fetch_submission 31 (snd demo_opened) = Inr s' \<and> stored_deadline s' \<le> 2000"
proof -
  have "exchange_step demo_report_env demo_exchange (snd demo_opened)"
    by (rule exchange_step.redeemed [where acquired = True and token = demo_token and session_key = "''key''"
        and r = "Inr (fst demo_opened)"]) (simp add: redeem_Inr demo_redeemed)
  then have run: "exchange_run demo_report_env demo_exchange (snd demo_opened)" by blast
  have f: "fetch_submission 31 demo_exchange = Inr demo_submission"
    by (simp add: fetch_submission_def demo_exchange_defs row_get_def)
  have "stored_deadline demo_submission = 2000" by code_simp
  with deadlines_only_shrink [OF demo_spool_inv run f] show ?thesis by auto
qed

end
