(* ===== verification/Report_Intake.thy ===== *)
theory Report_Intake
  imports Report_Properties
begin

text \<open>
  Intake and clearance of reports: a package is accepted once, an accepted document stays within the bounds of
  its validator, the ciphertext of every READY submission stays in the spool, and a cleanup that counts no
  failure leaves nothing expired and no orphan.
\<close>

subsection \<open>Documents\<close>

definition document_sections :: "json \<Rightarrow> json list" where
  "document_sections d = jitems (jfield d ''sections'')"

definition section_blocks :: "json \<Rightarrow> json list" where
  "section_blocks s = jitems (jfield s ''blocks'')"

definition block_cells :: "json \<Rightarrow> int" where
  "block_cells b =
     (if jfield b ''kind'' = JStr ''table'' then sum_list (map (\<lambda>r. int (length (jitems r))) (jitems (jfield b ''rows''))) else 0)"

definition section_keys :: "json \<Rightarrow> json list" where
  "section_keys s = jfield s ''key'' # map (\<lambda>b. jfield b ''key'') (section_blocks s)"

text \<open>The running totals of the validator are the totals of what it has read.\<close>

lemma check_rows_scan:
  "fold_res (check_row n) rows s = Inr t \<Longrightarrow> total_cells s \<le> 4000 \<Longrightarrow>
     scan_keys t = scan_keys s \<and> total_blocks t = total_blocks s \<and> total_cells t \<le> 4000
     \<and> total_cells t = total_cells s + sum_list (map (\<lambda>r. int (length (jitems r))) rows)"
proof (induction rows arbitrary: s)
  case (Cons r rows)
  from Cons.prems(1) obtain u where u: "check_row n r s = Inr u" "fold_res (check_row n) rows u = Inr t"
    by (auto simp: bind_res_Inr)
  have "u = s\<lparr>total_cells := total_cells s + int (length (jitems r))\<rparr>" "total_cells u \<le> 4000"
    using u(1) by (auto simp: check_row_def Let_def bind_res_Inr require_package_Inr)
  then show ?case using Cons.IH [OF u(2)] by simp
qed simp

lemma fresh_key_Inr:
  "fresh_key k s = Inr t \<longleftrightarrow> k \<notin> set (scan_keys s) \<and> t = s\<lparr>scan_keys := scan_keys s @ [k]\<rparr>"
  by (auto simp: fresh_key_def bind_res_Inr require_package_Inr)

lemma check_block_scan:
  assumes "check_block ids b s = Inr t" and "total_cells s \<le> 4000"
  shows "scan_keys t = scan_keys s @ [jfield b ''key''] \<and> jfield b ''key'' \<notin> set (scan_keys s)
     \<and> total_blocks t = total_blocks s \<and> total_cells t = total_cells s + block_cells b \<and> total_cells t \<le> 4000"
proof -
  obtain u where u: "fresh_key (jfield b ''key'') s = Inr u"
    using assms(1) unfolding check_block_def by (elim bind_resE)
  then have s: "jfield b ''key'' \<notin> set (scan_keys s)" "u = s\<lparr>scan_keys := scan_keys s @ [jfield b ''key'']\<rparr>"
    by (simp_all add: fresh_key_Inr)
  obtain kind where kind: "jfield b ''kind'' = JStr kind"
    using assms(1) unfolding check_block_def by (elim bind_resE) (auto split: json.splits)
  have "t = u \<and> kind \<noteq> ''table'' \<or> kind = ''table'' \<and> check_table b u = Inr t"
    using assms(1) u kind unfolding check_block_def by (auto simp: bind_res_Inr split: if_splits)
  then show ?thesis
  proof
    assume "t = u \<and> kind \<noteq> ''table''"
    then show ?thesis using s assms(2) kind by (simp add: block_cells_def)
  next
    assume t: "kind = ''table'' \<and> check_table b u = Inr t"
    then have "fold_res (check_row (int (length (jitems (jfield b ''columns''))))) (jitems (jfield b ''rows'')) u = Inr t"
      by (auto simp: check_table_def Let_def bind_res_Inr)
    from check_rows_scan [OF this] show ?thesis using s t assms(2) kind by (simp add: block_cells_def)
  qed
qed

lemma check_blocks_scan:
  "fold_res (check_block ids) bs s = Inr t \<Longrightarrow> total_cells s \<le> 4000 \<Longrightarrow> distinct (scan_keys s) \<Longrightarrow>
     scan_keys t = scan_keys s @ map (\<lambda>b. jfield b ''key'') bs \<and> distinct (scan_keys s @ map (\<lambda>b. jfield b ''key'') bs) \<and> total_blocks t = total_blocks s
     \<and> total_cells t = total_cells s + sum_list (map block_cells bs) \<and> total_cells t \<le> 4000"
proof (induction bs arbitrary: s)
  case (Cons b bs)
  from Cons.prems(1) obtain u where u: "check_block ids b s = Inr u" "fold_res (check_block ids) bs u = Inr t"
    by (auto simp: bind_res_Inr)
  note b = check_block_scan [OF u(1) Cons.prems(2)]
  have "distinct (scan_keys u)" using b Cons.prems(3) by simp
  then show ?case using Cons.IH [OF u(2)] b by simp
qed simp

lemma check_section_scan:
  assumes "check_section ids sec s = Inr t" and "total_cells s \<le> 4000" and "distinct (scan_keys s)"
  shows "scan_keys t = scan_keys s @ section_keys sec \<and> distinct (scan_keys s @ section_keys sec)
     \<and> total_blocks t = total_blocks s + int (length (section_blocks sec)) \<and> total_blocks t \<le> 200
     \<and> total_cells t = total_cells s + sum_list (map block_cells (section_blocks sec)) \<and> total_cells t \<le> 4000"
proof -
  obtain u where u: "fresh_key (jfield sec ''key'') s = Inr u"
      "total_blocks u + int (length (section_blocks sec)) \<le> 200"
      "fold_res (check_block ids) (section_blocks sec)
         (u\<lparr>total_blocks := total_blocks u + int (length (section_blocks sec))\<rparr>) = Inr t"
    using assms(1) unfolding check_section_def Let_def section_blocks_def [symmetric]
    by (elim bind_resE) (simp add: require_package_Inr)
  then have "jfield sec ''key'' \<notin> set (scan_keys s)" "u = s\<lparr>scan_keys := scan_keys s @ [jfield sec ''key'']\<rparr>"
    by (simp_all add: fresh_key_Inr)
  then show ?thesis using check_blocks_scan [OF u(3)] assms(2,3) u(2) by (simp add: section_keys_def)
qed

lemma check_sections_scan:
  "fold_res (check_section ids) secs s = Inr t \<Longrightarrow> total_cells s \<le> 4000 \<Longrightarrow> total_blocks s \<le> 200 \<Longrightarrow> distinct (scan_keys s) \<Longrightarrow>
     scan_keys t = scan_keys s @ concat (map section_keys secs) \<and> distinct (scan_keys s @ concat (map section_keys secs))
     \<and> total_blocks t = total_blocks s + int (length (concat (map section_blocks secs))) \<and> total_blocks t \<le> 200
     \<and> total_cells t = total_cells s + sum_list (map block_cells (concat (map section_blocks secs))) \<and> total_cells t \<le> 4000"
proof (induction secs arbitrary: s)
  case (Cons sec secs)
  from Cons.prems(1) obtain u where u: "check_section ids sec s = Inr u" "fold_res (check_section ids) secs u = Inr t"
    by (auto simp: bind_res_Inr)
  note b = check_section_scan [OF u(1) Cons.prems(2,4)]
  then show ?case using Cons.IH [OF u(2)] by (simp add: algebra_simps)
qed simp

lemma document_attachments_ids:
  "fold_res document_attachment as ids = Inr ids' \<Longrightarrow> distinct ids \<Longrightarrow>
     ids' = ids @ map (\<lambda>a. jfield a ''id'') as \<and> distinct (ids @ map (\<lambda>a. jfield a ''id'') as)"
proof (induction as arbitrary: ids)
  case (Cons a as)
  from Cons.prems(1) obtain u where u: "document_attachment a ids = Inr u" "fold_res document_attachment as u = Inr ids'"
    by (auto simp: bind_res_Inr)
  have "u = ids @ [jfield a ''id'']" "jfield a ''id'' \<notin> set ids"
    using u(1) by (auto simp: document_attachment_def bind_res_Inr require_package_Inr)
  then show ?case using Cons.IH [OF u(2)] Cons.prems(2) by simp
qed simp

text \<open>
  C37: An accepted document is within the validator's bounds, however its sections are arranged: at most 200
  blocks and 4000 table cells in all, no key twice in the whole document, exactly the attachments the
  package carries, each once, and at most a mebibyte of canonical text.
\<close>

theorem accepted_document_bounded:
  assumes "validate_document d report_id hashes = Inr ()"
  shows "length (concat (map section_blocks (document_sections d))) \<le> 200
    \<and> sum_list (map block_cells (concat (map section_blocks (document_sections d)))) \<le> 4000
    \<and> distinct (concat (map section_keys (document_sections d)))
    \<and> distinct (map (\<lambda>a. jfield a ''id'') (jitems (jfield d ''attachments'')))
    \<and> set (map (\<lambda>a. jfield a ''id'') (jitems (jfield d ''attachments''))) = set (map fst hashes)
    \<and> jfield d ''report_id'' = report_id \<and> int (length (canonical d)) \<le> 1024 * 1024"
proof -
  obtain ids t where v: "fold_res document_attachment (jitems (jfield d ''attachments'')) [] = Inr ids"
      "set ids = set (map fst hashes)"
      "fold_res (check_section ids) (document_sections d) \<lparr>scan_keys = [], total_blocks = 0, total_cells = 0\<rparr> = Inr t"
      "jfield d ''report_id'' = report_id" "int (length (canonical d)) \<le> 1024 * 1024"
    using assms unfolding validate_document_def document_sections_def [symmetric]
    by (elim bind_resE) (simp only: require_package_Inr)
  show ?thesis
    using check_sections_scan [OF v(3)] document_attachments_ids [OF v(1)] v(2,4,5) by simp
qed

definition demo_report_document :: json where
  "demo_report_document = JObj [(''report_id'', JStr ''81''), (''schema_version'', JInt 1), (''report_type'', JStr ''fire''),
     (''title'', JStr ''T''), (''header'', JList []), (''attachments'', JList []),
     (''sections'', JList [JObj [(''key'', JStr ''s''), (''title'', JStr ''S''),
        (''blocks'', JList [JObj [(''key'', JStr ''b''), (''kind'', JStr ''text''), (''text'', JStr ''x'')]])]]),
     (''finalization'', JObj [(''author'', JObj [(''id'', JStr ''1''), (''display_name'', JStr ''A'')]),
        (''finalized_at'', JStr ''2024-02-29T10:00:00Z'')])]"

theorem accepted_document_bounded_witness:
  "distinct (concat (map section_keys (document_sections demo_report_document)))
    \<and> length (concat (map section_blocks (document_sections demo_report_document))) \<le> 200"
proof -
  have "validate_document demo_report_document (JStr ''81'') [] = Inr ()" by code_simp
  from accepted_document_bounded [OF this] show ?thesis by simp
qed

subsection \<open>Idempotent acceptance\<close>

text \<open>
  C38: A package is accepted once.  After a submission was accepted, every later submission of the same tablet
  with the same submission identifier or the same report identifier that is not refused is a replay: it creates
  nothing and changes nothing, and with the same submission identifier its package has the digest accepted first
  and the answer names the same submission and the same report (the state and the deadline it gives are those of
  the moment of the replay).
\<close>

theorem package_accepted_once:
  assumes "spool_inv R x" and "submit R n envelope x = (Inr (r, True), y)" and "exchange_run R y z"
    and "submit R n envelope' z = (Inr (r', created), z')"
    and "inspect_envelope (contract R) envelope = Inr h" and "inspect_envelope (contract R) envelope' = Inr h'"
    and "hdr_submission_id h' = hdr_submission_id h \<or> hdr_report_id h' = hdr_report_id h"
  shows "\<not> created \<and> z' = z
    \<and> (hdr_submission_id h' = hdr_submission_id h \<longrightarrow>
         sha256 R (canonical envelope') = sha256 R (canonical envelope)
         \<and> res_submission_id r' = res_submission_id r \<and> res_report_id r' = res_report_id r)"
proof -
  obtain installation tablet vehicle and package :: report_package where a: "authorize n x = Inr (installation, tablet, vehicle)"
      "store_submission R installation (tab_department tablet) (veh_station vehicle) h (canonical envelope)
         (pkg_digest package) x = (Inr r, y)"
  proof (rule submitE [OF assms(2)], goal_cases)
    case (2 header installation tablet vehicle package)
    have "header = h" using 2(2) assms(5) by simp
    with 2(3,6) show ?case by (intro 2(1) [of installation tablet vehicle package]) simp_all
  qed simp
  obtain i key row where row: "row = new_submission R i h (ins_id installation) (tab_department tablet) (veh_station vehicle)
        (sha256 R (canonical envelope)) (pkg_digest package) key (exchange_now x)"
      "submissions y = submissions x @ [row]" "submission_result_of row y = Inr r"
    using a(2) by (rule store_submission_Inr)
  have y: "spool_inv R y" using submit_spool [OF assms(2)] assms(1) by (simp add: preserves_def)
  have "row_get sub_id (sub_id row) (submissions y) = Some row"
    using y row_get_unique [of sub_id "submissions y" row] by (simp add: spool_inv_def row(2))
  then obtain row' where e: "fetch_submission (sub_id row) z = Inr row'" "submission_evolves row row'"
    using run_submission [OF assms(3) y] by (metis fetch_submission_Inr)
  have row': "row' \<in> set (submissions z)" using e(1) by (simp add: fetch_submission_Inr row_get_mem)
  have fields: "sub_installation row' = n" "sub_submission_id row' = hdr_submission_id h" "sub_report_id row' = hdr_report_id h"
      "sub_payload_digest row' = sha256 R (canonical envelope)"
      "res_submission_id r = hdr_submission_id h" "res_report_id r = hdr_report_id h"
    using e(2) authorize_installation [OF a(1)] row(3)
    by (auto simp: row(1) submission_evolves_def new_submission_def submission_result_of_def bind_res_Inr)
  from assms(4) show ?thesis
  proof (cases rule: submitE)
    case (fresh header' installation' tablet' vehicle' package')
    have "same_report (ins_id installation') header' row'"
      using fields(1-3) authorize_installation [OF fresh(2)] fresh(1) assms(6,7) by (auto simp: same_report_def)
    then show ?thesis using fresh(3) row' by (simp add: first_by_None)
  next
    case (replay header' installation' tablet' vehicle' existing)
    have h': "header' = h'" using replay(1) assms(6) by simp
    have ex: "existing \<in> set (submissions z)" "sub_installation existing = n"
      using first_by_SomeD [OF replay(3)] authorize_installation [OF replay(2)] by (auto simp: same_report_def)
    have "existing = row'" if "hdr_submission_id h' = hdr_submission_id h"
      using that ex row' fields replay(4) h' exchange_run_spool(1) [OF assms(3) y]
      by (auto simp: spool_inv_def submission_constraints_def distinct_map inj_on_def)
    then show ?thesis using replay(4-8) h' fields
      by (auto simp: submission_result_of_def bind_res_Inr)
  qed
qed

text \<open>A package with an empty photo list, encrypted for the demonstration key.\<close>

definition demo_header :: json where
  "demo_header = JObj [(''typ'', JStr ''firedash-report+jwe''), (''alg'', JStr ''RSA-OAEP-256''), (''enc'', JStr ''A256GCM''),
     (''kid'', JStr ''k1''), (''package_version'', JInt 1), (''schema_version'', JStr ''transport-json-v1''),
     (''submission_id'', JStr ''80''), (''report_id'', JStr ''81''), (''recipient_personnel_id'', JStr ''30''),
     (''installation_id'', JStr ''46''), (''department_id'', JStr ''1''), (''station_id'', JStr ''2'')]"

definition demo_package :: json where
  "demo_package = JObj [(''report'', JObj [(''data'', JStr (encode_bytes ''D'')), (''size'', JInt 1), (''sha256'', JStr ''hD''),
     (''attachment_ids'', JList [])]), (''attachments'', JList [])]"

definition demo_envelope :: json where
  "demo_envelope = JObj [(''protected'', JStr (encode_bytes ''H'')), (''encrypted_key'', JStr (encode_bytes ''K'')),
     (''iv'', JStr (encode_bytes (replicate 12 (CHR ''i'')))), (''ciphertext'', JStr (encode_bytes ''C'')),
     (''tag'', JStr (encode_bytes (replicate 16 (CHR ''t''))))]"

definition demo_intake_env :: report_env where
  "demo_intake_env = demo_report_env\<lparr>contract := demo_contract\<lparr>
     json_loads := (\<lambda>s. if s = ''H'' then Some demo_header else if s = ''P'' then Some demo_package
        else if s = ''D'' then Some demo_report_document else None),
     oaep_decrypt := (\<lambda>_ _. Some (replicate 32 (CHR ''c''))), gcm_decrypt := (\<lambda>_ _ _ _. Some ''P'')\<rparr>\<rparr>"

lemma demo_intake_inv: "spool_inv demo_intake_env demo_exchange"
  by (simp add: spool_inv_def demo_exchange_defs submission_constraints_def submission_ok_def ready_keys_def
      payload_kept_def sha256_def demo_intake_env_def demo_report_env_def demo_contract_def usec_per_day_value)

theorem package_accepted_once_witness:
  "\<exists>y r. submit demo_intake_env 46 demo_envelope y = (Inr (r, False), y) \<and> length (submissions y) = 2"
proof -
  have "case submit demo_intake_env 46 demo_envelope demo_exchange of (Inl _, y) \<Rightarrow> False
      | (Inr (r, created), y) \<Rightarrow> created \<and> length (submissions y) = 2 \<and> \<not> isl (fst (submit demo_intake_env 46 demo_envelope y))"
    by code_simp
  then obtain r y where y: "submit demo_intake_env 46 demo_envelope demo_exchange = (Inr (r, True), y)"
      "length (submissions y) = 2" "\<not> isl (fst (submit demo_intake_env 46 demo_envelope y))"
    by (cases "submit demo_intake_env 46 demo_envelope demo_exchange";
        cases "fst (submit demo_intake_env 46 demo_envelope demo_exchange)") auto
  obtain r' created z where z: "submit demo_intake_env 46 demo_envelope y = (Inr (r', created), z)"
    using y(3) by (cases "submit demo_intake_env 46 demo_envelope y"; cases "fst (submit demo_intake_env 46 demo_envelope y)") auto
  obtain h where h: "inspect_envelope (contract demo_intake_env) demo_envelope = Inr h"
    using y(1) by (auto elim: submitE)
  have "\<not> created \<and> z = y"
    using package_accepted_once [OF demo_intake_inv y(1) rtranclp.rtrancl_refl z h h] by simp
  then show ?thesis using z y(2) by auto
qed

subsection \<open>The spool\<close>

text \<open>
  C39: No accepted report is lost before it expires.  Along every run, with submissions that fail at any point
  (before the write, when the row is refused, when the answer raises after the commit) and cleanups whose
  transactions interleave with everything else, the spool holds for every READY submission a ciphertext with the
  digest recorded at acceptance, which only the expiry of the submission removes.
\<close>

theorem ready_payload_intact:
  assumes "spool_inv R x" and "exchange_run R x y" and "fetch_submission pk x = Inr s"
    and "fetch_submission pk y = Inr s'" and "sub_state s' = SUB_READY"
  shows "\<exists>raw. map_of (payload_files y) (sub_payload_key s') = Some raw \<and> sha256 R raw = sub_payload_digest s"
proof -
  obtain u where "fetch_submission pk y = Inr u" "submission_evolves s u" by (rule run_submission [OF assms(2,1,3)])
  then have "sub_payload_digest s' = sub_payload_digest s" using assms(4) by (simp add: submission_evolves_def)
  moreover have "s' \<in> set (submissions y)" using assms(4) by (simp add: fetch_submission_Inr row_get_mem)
  ultimately show ?thesis using exchange_run_spool(1) [OF assms(2,1)] assms(5) by (auto simp: spool_inv_def payload_kept_def)
qed

theorem ready_payload_intact_witness:
  "\<exists>raw. map_of (payload_files demo_exchange) ''33.jwe'' = Some raw \<and> sha256 demo_report_env raw = ''hE''"
proof -
  have f: "fetch_submission 31 demo_exchange = Inr demo_submission"
    by (simp add: fetch_submission_def demo_exchange_defs row_get_def)
  show ?thesis
    using ready_payload_intact [OF demo_spool_inv rtranclp.rtrancl_refl f f] by (simp add: demo_submission_def)
qed

definition overdue :: "timestamp \<Rightarrow> submission_row \<Rightarrow> bool" where
  "overdue now s \<longleftrightarrow> sub_state s = SUB_READY \<and> sub_expires_at s \<le> now"

lemma expire_submission_clears:
  assumes "expire_submission R now pk x = Inr (purged, x')" and "spool_inv R x" and "r \<in> set (submissions x')" and "overdue now r"
  shows "r \<in> set (submissions x) \<and> sub_id r \<noteq> pk"
  using assms(1)
proof (cases rule: expire_submissionE)
  case (kept row)
  have "\<not> overdue now row"
    using kept(4) effective_expiry_le [of row x] stored_deadline_le(1) [of row] by (fastforce simp: overdue_def)
  then have "sub_id r \<noteq> pk" using fetched_submission [OF kept(1) assms(2)] assms(3,4) kept(3) by auto
  then show ?thesis using assms(3) kept(3) by simp
next
  case (purged row d)
  then show ?thesis using assms(3,4) by (auto simp: overdue_def)
qed

lemma sweep_submission_success:
  assumes "sweep_submission R now pk s = Inr s'"
  shows "cc_failed (fst s) \<le> cc_failed (fst s')"
    "cc_failed (fst s') = cc_failed (fst s) \<Longrightarrow> \<exists>p. expire_submission R now pk (snd s) = Inr (p, snd s')"
proof -
  obtain c x where s: "s = (c, x)" by (cases s)
  have "cc_failed (fst s) \<le> cc_failed (fst s')
      \<and> (cc_failed (fst s') = cc_failed (fst s) \<longrightarrow> (\<exists>p. expire_submission R now pk (snd s) = Inr (p, snd s')))"
  proof (cases "expire_submission R now pk x")
    case (Inl e)
    then show ?thesis using assms s note_failure_Inr [of e s s'] by (simp add: sweep_submission_def)
  next
    case (Inr v)
    then show ?thesis using assms s by (cases v) (auto simp: sweep_submission_def split: if_splits)
  qed
  then show "cc_failed (fst s) \<le> cc_failed (fst s')"
    "cc_failed (fst s') = cc_failed (fst s) \<Longrightarrow> \<exists>p. expire_submission R now pk (snd s) = Inr (p, snd s')" by simp_all
qed

lemma fold_failures:
  assumes "fold_res f xs s = Inr s'" and "\<And>y t t'. f y t = Inr t' \<Longrightarrow> cc_failed (fst t) \<le> cc_failed (fst t')"
  shows "cc_failed (fst s) \<le> cc_failed (fst s')"
  by (rule fold_res_invariant [where I = "\<lambda>t. cc_failed (fst s) \<le> cc_failed (fst t)", OF assms(1)])
    (auto intro: order_trans assms(2))

lemma sweep_submissions_clear:
  assumes "fold_res (sweep_submission R now) pks s = Inr s'" and "cc_failed (fst s') = cc_failed (fst s)"
    and "spool_inv R (snd s)" and "r \<in> set (submissions (snd s'))" and "overdue now r"
  shows "r \<in> set (submissions (snd s)) \<and> sub_id r \<notin> set pks"
  using assms(1-3)
proof (induction pks arbitrary: s)
  case Nil
  then show ?case using assms(4) by simp
next
  case (Cons pk pks)
  from Cons.prems(1) obtain u where u: "sweep_submission R now pk s = Inr u" "fold_res (sweep_submission R now) pks u = Inr s'"
    by (auto simp: bind_res_Inr)
  have le: "cc_failed (fst s) \<le> cc_failed (fst u)" "cc_failed (fst u) \<le> cc_failed (fst s')"
    using sweep_submission_success(1) [OF u(1)] fold_failures [OF u(2) sweep_submission_success(1)] by simp_all
  then have eq: "cc_failed (fst u) = cc_failed (fst s)" "cc_failed (fst s') = cc_failed (fst u)" using Cons.prems(2) by simp_all
  obtain p where p: "expire_submission R now pk (snd s) = Inr (p, snd u)" using sweep_submission_success(2) [OF u(1) eq(1)] by blast
  have "spool_inv R (snd u)" using expire_submission_spool [OF p] Cons.prems(3) by (simp add: preserves_def)
  from Cons.IH [OF u(2) eq(2) this] have "r \<in> set (submissions (snd u))" "sub_id r \<notin> set pks" by simp_all
  with expire_submission_clears [OF p Cons.prems(3) _ assms(5)] show ?case by simp
qed

lemma sweep_unreferenced_success:
  assumes "sweep_unreferenced R referenced key s = Inr s'"
  shows "cc_failed (fst s) \<le> cc_failed (fst s')"
    "cc_failed (fst s') = cc_failed (fst s) \<Longrightarrow> f \<in> set (payload_files (snd s')) \<Longrightarrow>
       f \<in> set (payload_files (snd s)) \<and> (fst f = key \<longrightarrow> key \<in> set referenced)"
proof -
  obtain c x where s: "s = (c, x)" by (cases s)
  have "cc_failed (fst s) \<le> cc_failed (fst s') \<and> (cc_failed (fst s') = cc_failed (fst s) \<longrightarrow> f \<in> set (payload_files (snd s')) \<longrightarrow>
       f \<in> set (payload_files (snd s)) \<and> (fst f = key \<longrightarrow> key \<in> set referenced))"
  proof (cases "key \<in> set referenced")
    case True
    then show ?thesis using assms s by (simp add: sweep_unreferenced_def)
  next
    case out: False
    show ?thesis
    proof (cases "remove_payload R key x")
      case (Inl e)
      then show ?thesis using assms s out note_failure_Inr [of e s s'] by (simp add: sweep_unreferenced_def)
    next
      case (Inr x1)
      then show ?thesis using assms s out remove_payload_Inr [OF Inr] by (auto simp: sweep_unreferenced_def)
    qed
  qed
  then show "cc_failed (fst s) \<le> cc_failed (fst s')"
    "cc_failed (fst s') = cc_failed (fst s) \<Longrightarrow> f \<in> set (payload_files (snd s')) \<Longrightarrow>
       f \<in> set (payload_files (snd s)) \<and> (fst f = key \<longrightarrow> key \<in> set referenced)" by simp_all
qed

lemma sweep_unreferenceds_clear:
  assumes "fold_res (sweep_unreferenced R referenced) keys s = Inr s'" and "cc_failed (fst s') = cc_failed (fst s)"
    and "f \<in> set (payload_files (snd s'))"
  shows "f \<in> set (payload_files (snd s)) \<and> (fst f \<in> set keys \<longrightarrow> fst f \<in> set referenced)"
  using assms(1,2)
proof (induction keys arbitrary: s)
  case Nil
  then show ?case using assms(3) by simp
next
  case (Cons key keys)
  from Cons.prems(1) obtain u where u: "sweep_unreferenced R referenced key s = Inr u" "fold_res (sweep_unreferenced R referenced) keys u = Inr s'"
    by (auto simp: bind_res_Inr)
  have "cc_failed (fst s) \<le> cc_failed (fst u)" "cc_failed (fst u) \<le> cc_failed (fst s')"
    using sweep_unreferenced_success(1) [OF u(1)] fold_failures [OF u(2) sweep_unreferenced_success(1)] by simp_all
  then have eq: "cc_failed (fst u) = cc_failed (fst s)" "cc_failed (fst s') = cc_failed (fst u)" using Cons.prems(2) by simp_all
  from Cons.IH [OF u(2) eq(2)] sweep_unreferenced_success(2) [OF u(1) eq(1), of f] show ?case by auto
qed

text \<open>
  C40: A cleanup that counts no failure leaves nothing behind: every READY submission still has time left, every
  EXPIRED one has given up its payload, and every ciphertext in the spool belongs to a READY submission.
\<close>

theorem cleanup_leaves_nothing_expired:
  assumes "spool_inv R x" and "cleanup R None x = Inr (c, y)" and "cc_failed c = 0"
  shows "(\<forall>s\<in>set (submissions y). sub_state s = SUB_READY \<longrightarrow> exchange_now x < stored_deadline s)
    \<and> (\<forall>s\<in>set (submissions y). sub_state s = SUB_EXPIRED \<longrightarrow> sub_payload_key s = [])
    \<and> (\<forall>f\<in>set (payload_files y). \<exists>s\<in>set (submissions y). sub_state s = SUB_READY \<and> sub_payload_key s = fst f)"
proof -
  let ?zero = "\<lparr>cc_expired = 0, cc_orphans = 0, cc_failed = 0\<rparr> :: cleanup_counts"
  from assms(2) obtain s1 s2 s3 now where k: "now = exchange_now x"
    "fold_res (reconcile_receipt R) (receipts x) (?zero, x) = Inr s1"
    "fold_res (sweep_submission R now) (map sub_id (filter (due_for_expiry now) (submissions (snd s1)))) s1 = Inr s2"
    "fold_res (sweep_unreferenced R (referenced_payloads (snd s2))) (map fst (payload_files (snd s2))) s2 = Inr s3"
    "(c, y) = fold (sweep_receipt_temp R now) (receipt_temps (snd s3)) s3"
    by (rule cleanupE) simp
  have last: "submissions y = submissions (snd s3)" "payload_files y = payload_files (snd s3)" "cc_failed (fst s3) \<le> cc_failed c"
    using fold_sweep_receipt_temp [where R = R and now = now and fs = "receipt_temps (snd s3)" and s = s3]
    by (simp_all add: k(5) [symmetric])
  have zero: "cc_failed (fst s3) = 0" "cc_failed (fst s2) = 0" "cc_failed (fst s1) = 0"
    using last(3) assms(3) fold_failures [OF k(3) sweep_submission_success(1)] fold_failures [OF k(4) sweep_unreferenced_success(1)]
    by simp_all
  have "sweep_keeps R (?zero, x) s1" by (rule fold_sweep [OF k(2) reconcile_receipt_sweep])
  then have s1: "spool_inv R (snd s1)" using assms(1) by (simp add: sweep_keeps_def preserves_def)
  have "sweep_keeps R s1 s2" by (rule fold_sweep [OF k(3) sweep_submission_sweep])
  then have s2: "spool_inv R (snd s2)" using s1 by (simp add: sweep_keeps_def preserves_def)
  have subs: "submissions y = submissions (snd s2)" using fold_sweep_unreferenced [OF k(4)] last(1) by simp
  have ok: "submission_ok s" if "s \<in> set (submissions y)" for s using that s2 subs by (simp add: spool_inv_def)
  have "\<not> overdue now s" if "s \<in> set (submissions y)" for s
  proof
    assume o: "overdue now s"
    then have "due_for_expiry now s" by (simp add: overdue_def due_for_expiry_def)
    moreover have "s \<in> set (submissions (snd s1)) \<and> sub_id s \<notin> set (map sub_id (filter (due_for_expiry now) (submissions (snd s1))))"
      using sweep_submissions_clear [OF k(3) _ s1 _ o] zero that subs by simp
    ultimately show False by auto
  qed
  then have "\<forall>s\<in>set (submissions y). sub_state s = SUB_READY \<longrightarrow> exchange_now x < stored_deadline s"
    using ok k(1) by (fastforce simp: overdue_def stored_deadline_ok not_le)
  moreover have "\<exists>s\<in>set (submissions y). sub_state s = SUB_READY \<and> sub_payload_key s = fst f" if "f \<in> set (payload_files y)" for f
  proof -
    have "fst f \<in> set (referenced_payloads (snd s2))"
      using sweep_unreferenceds_clear [OF k(4) _ that [unfolded last(2)]] zero by auto
    then obtain s where "s \<in> set (submissions y)" "sub_payload_key s = fst f" "sub_payload_key s \<noteq> []"
      by (auto simp: referenced_payloads_def subs)
    then show ?thesis using ok by (metis submission_ok_def submission_state.exhaust)
  qed
  ultimately show ?thesis using ok by (auto simp: submission_ok_def)
qed

text \<open>The report is past its deadline and an interrupted upload left a file behind.\<close>

definition demo_littered :: exchange where
  "demo_littered = demo_exchange\<lparr>submissions := [demo_submission\<lparr>sub_expires_at := 990\<rparr>],
     payload_files := [(''33.jwe'', ''E''), (''34.jwe'', ''F'')]\<rparr>"

theorem cleanup_leaves_nothing_expired_witness:
  "\<exists>c y. cleanup demo_report_env None demo_littered = Inr (c, y) \<and> cc_expired c = 1
     \<and> (\<forall>f\<in>set (payload_files y). \<exists>s\<in>set (submissions y). sub_state s = SUB_READY \<and> sub_payload_key s = fst f)"
proof -
  have i: "spool_inv demo_report_env demo_littered"
    by (simp add: demo_littered_def spool_inv_def demo_exchange_defs submission_constraints_def submission_ok_def ready_keys_def
        payload_kept_def sha256_def demo_report_env_def demo_contract_def usec_per_day_value)
  have "case cleanup demo_report_env None demo_littered of Inl _ \<Rightarrow> False | Inr (c, y) \<Rightarrow> cc_failed c = 0 \<and> cc_expired c = 1"
    by code_simp
  then obtain c y where c: "cleanup demo_report_env None demo_littered = Inr (c, y)" "cc_failed c = 0" "cc_expired c = 1"
    by (auto split: sum.splits)
  from cleanup_leaves_nothing_expired [OF i c(1,2)] have
    "\<forall>f\<in>set (payload_files y). \<exists>s\<in>set (submissions y). sub_state s = SUB_READY \<and> sub_payload_key s = fst f" by blast
  with c show ?thesis by blast
qed

end
