(* ===== verification/Personnel_Inv.thy ===== *)
theory Personnel_Inv
  imports Recipients Staff_Frame Queue_Inv Step_Invariant
begin

text \<open>
  What the personnel and assignment services keep: every active person has one open home, verification and
  eligibility stand on an active person, erased data stay erased, and the publication lifecycle underneath is in
  order.  \<open>roster_inv X\<close> exempts the people in \<open>X\<close> from having a home, for the states inside a
  transaction between closing one home and opening the next.
\<close>

abbreviation roster_next :: "roster \<Rightarrow> nat" where
  "roster_next r \<equiv> next_id (base (yard r))"

definition erased :: "person_row \<Rightarrow> bool" where
  "erased p \<longleftrightarrow> per_personnel_number p = None \<and> per_first_name p = None \<and> per_last_name p = None
     \<and> per_display_name p = ''Former member'' \<and> per_commander_email p = None"

definition person_ok :: "person_row \<Rightarrow> bool" where
  "person_ok p \<longleftrightarrow>
     (per_commander_eligible p \<longrightarrow> per_lifecycle_status p = PER_ACTIVE)
     \<and> (per_email_verified_at p \<noteq> None \<longrightarrow> per_commander_eligible p \<and> per_commander_email p \<noteq> None
        \<and> per_commander_email p \<noteq> Some [])
     \<and> (per_anonymized_at p \<noteq> None \<longrightarrow> erased p \<and> per_lifecycle_status p \<noteq> PER_ACTIVE)"

definition has_home :: "roster \<Rightarrow> nat \<Rightarrow> bool" where
  "has_home r i \<longleftrightarrow>
     (\<exists>a\<in>set (station_assignments r). psa_person a = i \<and> open_home a \<and> psa_valid_from a \<le> roster_now r)"

definition home_rows_ok :: "station_assignment_row list \<Rightarrow> bool" where
  "home_rows_ok rows \<longleftrightarrow>
     (\<forall>a\<in>set rows. psa_assignment_type a = HOME \<longrightarrow> (psa_valid_until a = None \<longleftrightarrow> psa_ended_at a = None))"

definition roster_inv :: "nat set \<Rightarrow> roster \<Rightarrow> bool" where
  "roster_inv X r \<longleftrightarrow>
     lifecycle_inv (roster_base r)
     \<and> unique_rows per_id (people r) \<and> (\<forall>p\<in>set (people r). per_id p < roster_next r)
     \<and> unique_rows psa_id (station_assignments r) \<and> (\<forall>a\<in>set (station_assignments r). psa_id a < roster_next r)
     \<and> person_constraints (people r) \<and> station_assignment_constraints (station_assignments r)
     \<and> home_rows_ok (station_assignments r) \<and> (\<forall>p\<in>set (people r). person_ok p)
     \<and> (\<forall>p\<in>set (people r). per_id p \<notin> X \<longrightarrow> per_id p \<in> psa_person ` set (station_assignments r))
     \<and> (\<forall>p\<in>set (people r). per_id p \<notin> X \<longrightarrow> per_active p \<longrightarrow> has_home r (per_id p))"

definition person_evolves :: "person_row \<Rightarrow> person_row \<Rightarrow> bool" where
  "person_evolves p p' \<longleftrightarrow>
     per_department p' = per_department p
     \<and> (per_lifecycle_status p \<noteq> PER_ACTIVE \<longrightarrow> per_lifecycle_status p' \<noteq> PER_ACTIVE)
     \<and> (per_anonymized_at p \<noteq> None \<longrightarrow> per_anonymized_at p' \<noteq> None)"

definition roster_history :: "roster \<Rightarrow> roster \<Rightarrow> bool" where
  "roster_history r r' \<longleftrightarrow>
     rows_evolve per_id person_evolves (people r) (people r') \<and> roster_next r \<le> roster_next r' \<and> roster_now r \<le> roster_now r'"

abbreviation roster_keeps :: "nat set \<Rightarrow> roster \<Rightarrow> roster \<Rightarrow> bool" where
  "roster_keeps X \<equiv> preserves (roster_inv X) roster_history"

lemma person_evolves_refl: "person_evolves p p"
  by (simp add: person_evolves_def)

lemma person_evolves_trans: "person_evolves p q \<Longrightarrow> person_evolves q r \<Longrightarrow> person_evolves p r"
  by (simp add: person_evolves_def)

interpretation rosters: evolving "roster_inv X" roster_history for X
proof unfold_locales
  show "roster_history r r" for r by (simp add: roster_history_def rows_evolve_refl person_evolves_refl)
  show "roster_history r s \<Longrightarrow> roster_history s t \<Longrightarrow> roster_history r t" for r s t
    by (auto simp: roster_history_def elim: rows_evolve_trans person_evolves_trans)
qed

subsection \<open>Changes outside the roster\<close>

definition same_roster :: "roster \<Rightarrow> roster \<Rightarrow> bool" where
  "same_roster r r' \<longleftrightarrow>
     people r' = people r \<and> station_assignments r' = station_assignments r \<and> roster_now r \<le> roster_now r'
     \<and> (lifecycle_inv (roster_base r) \<longrightarrow> lifecycle_inv (roster_base r') \<and> roster_next r \<le> roster_next r')"

lemma same_roster_keeps:
  assumes "same_roster r r'"
  shows "roster_keeps X r r'"
proof -
  have "has_home r' i" if "has_home r i" for i
    using that assms by (auto simp: has_home_def same_roster_def intro: order_trans)
  then show ?thesis using assms
    by (auto simp: preserves_def same_roster_def roster_inv_def roster_history_def
        intro: rows_evolve_refl person_evolves_refl order_less_le_trans)
qed

lemma same_roster_refl: "same_roster r r"
  by (simp add: same_roster_def)

lemma same_roster_trans: "same_roster r s \<Longrightarrow> same_roster s t \<Longrightarrow> same_roster r t"
  by (auto simp: same_roster_def)

lemma same_roster_world:
  assumes "core_eq (roster_base r) (g (roster_base r))"
  shows "same_roster r (roster_world g r)"
proof -
  have "lifecycle_inv (g (roster_base r))" if "lifecycle_inv (roster_base r)"
    using keepsD(1) [OF keeps_core_eq [OF assms that]] .
  then show ?thesis using assms by (simp add: same_roster_def roster_world_def on_base_def core_eq_def)
qed

lemma personnel_event_same: "same_roster r (personnel_event a b c d e f g r)"
  unfolding personnel_event_def by (rule same_roster_world) simp

lemma person_event_same: "same_roster r (person_event a b p r)"
  unfolding person_event_def by (rule personnel_event_same)

lemma core_eq_department_mutation: "core_eq w (department_mutation a w)"
  by (auto simp: department_mutation_def revoke_temporary_access_def active_temporary_access_def revoke_access_def
      core_eq_def record_event_def Let_def split: option.splits prod.splits if_splits)

lemma mark_station_personnel_same:
  assumes "mark_station_personnel E d actor s r = Inr r'"
  shows "same_roster r r'"
proof -
  obtain i w where m: "mark_dirty E (Some d) (Some s) ''station_personnel'' actor (roster_base r) = Inr (i, w)"
      "r' = r\<lparr>yard := (yard r)\<lparr>base := w\<rparr>\<rparr>"
    using assms by (auto simp: mark_station_personnel_def bind_res_Inr)
  have "clock w = clock (roster_base r)" using staff_mark_dirty [OF m(1)] by (simp add: staff_def)
  moreover have "lifecycle_inv w \<and> roster_next r \<le> next_id w" if "lifecycle_inv (roster_base r)"
    using presD [OF mark_dirty_pres [OF that] m(1)] by (simp add: keeps_def evolves_def)
  ultimately show ?thesis by (simp add: same_roster_def m(2))
qed

lemma mark_stations_same: "mark_stations E d actor ids r = Inr r' \<Longrightarrow> same_roster r r'"
  unfolding mark_stations_def
  by (rule fold_res_invariant [where I = "same_roster r", OF _ same_roster_refl])
    (auto intro: same_roster_trans mark_station_personnel_same)

lemma mark_visible_same: "mark_visible_station_scopes E p actor r = Inr r' \<Longrightarrow> same_roster r r'"
  unfolding mark_visible_station_scopes_def by (rule mark_stations_same)

subsection \<open>Changes of people\<close>

lemma fetch_person_Inr: "fetch_person i r = Inr p \<longleftrightarrow> row_get per_id i (people r) = Some p"
  by (simp add: fetch_person_def of_option_Inr)

lemma save_person_keeps:
  assumes "save_person q r = Inr r'" and "fetch_person (per_id q) r = Inr p"
    and "person_evolves p q" and "roster_inv X r \<Longrightarrow> person_ok q" and "per_active q \<Longrightarrow> per_active p"
  shows "roster_keeps X r r'"
  unfolding preserves_def
proof (intro impI conjI)
  assume inv: "roster_inv X r"
  let ?q = "q\<lparr>per_updated_at := roster_now r\<rparr>"
  have r': "r' = r\<lparr>people := row_put per_id ?q (people r)\<rparr>" "person_constraints (people r')"
    using assms(1) by (auto simp: save_person_def put_people_def split: if_splits)
  have p: "p \<in> set (people r)" "per_id p = per_id q" using assms(2) by (simp_all add: fetch_person_Inr row_get_SomeD)
  have ok: "person_ok ?q" using assms(4) [OF inv] by (simp add: person_ok_def erased_def)
  have cases: "x = ?q \<or> x \<in> set (people r)" if "x \<in> set (people r')" for x
    using that by (auto simp: r'(1) in_set_row_put)
  have home: "has_home r' i = has_home r i" for i by (simp add: has_home_def r'(1))
  have fields: "per_id ?q = per_id p" "per_active ?q = per_active q" using p(2) by simp_all
  have q: "per_id ?q \<notin> X \<Longrightarrow> per_id ?q \<in> psa_person ` set (station_assignments r)"
    "per_id ?q \<notin> X \<Longrightarrow> per_active ?q \<Longrightarrow> has_home r (per_id ?q)" "per_id ?q < roster_next r"
    unfolding fields using inv p(1) assms(5) unfolding roster_inv_def by blast+
  have keys: "map per_id (people r') = map per_id (people r)" by (simp add: r'(1) map_key_row_put [of per_id ?q, simplified])
  note i = inv [unfolded roster_inv_def]
  have same: "yard r' = yard r" "station_assignments r' = station_assignments r" by (simp_all add: r'(1))
  have "\<forall>x\<in>set (people r'). per_id x < roster_next r'" using i cases q(3) same by metis
  moreover have "\<forall>x\<in>set (people r'). person_ok x" using i cases ok by blast
  moreover have "\<forall>x\<in>set (people r'). per_id x \<notin> X \<longrightarrow> per_id x \<in> psa_person ` set (station_assignments r')"
    using i cases q(1) same by metis
  moreover have "\<forall>x\<in>set (people r'). per_id x \<notin> X \<longrightarrow> per_active x \<longrightarrow> has_home r (per_id x)"
    using i cases q(2) by metis
  ultimately show "roster_inv X r'" unfolding roster_inv_def home using i r'(2) keys same by simp
  show "roster_history r r'" unfolding roster_history_def
  proof (intro conjI)
    have same: "y = p" if "y \<in> set (people r)" "per_id y = per_id q" for y
      using that p inv by (auto simp: roster_inv_def distinct_map inj_on_def)
    have "person_evolves p ?q" using assms(3) by (simp add: person_evolves_def)
    then show "rows_evolve per_id person_evolves (people r) (people r')"
      unfolding r'(1) using same by (auto intro!: rows_evolve_put simp: person_evolves_refl)
  qed (simp_all add: r'(1))
qed

lemma new_person_keeps:
  assumes "fresh_roster_id r = (i, r1)" and "put_people (people r1 @ [p]) r1 = Inr r2" and "per_id p = i"
    and "person_ok p"
  shows "roster_inv X r \<longrightarrow> roster_inv (insert i X) r2 \<and> roster_history r r2"
    "i = roster_next r" "people r2 = people r @ [p]" "station_assignments r2 = station_assignments r" "roster_now r2 = roster_now r"
proof -
  have r1: "i = roster_next r" "people r1 = people r" "station_assignments r1 = station_assignments r"
    "roster_now r1 = roster_now r" "roster_next r1 = Suc i" "roster_base r1 = (roster_base r)\<lparr>next_id := Suc i\<rparr>"
    using assms(1) by (auto simp: fresh_roster_id_def fresh_fleet_id_def fresh_id_def)
  have r2: "r2 = r1\<lparr>people := people r @ [p]\<rparr>" "person_constraints (people r @ [p])"
    using assms(2) r1 by (auto simp: put_people_def split: if_splits)
  show "i = roster_next r" "people r2 = people r @ [p]" "station_assignments r2 = station_assignments r" "roster_now r2 = roster_now r"
    using r1 r2 by simp_all
  show "roster_inv X r \<longrightarrow> roster_inv (insert i X) r2 \<and> roster_history r r2"
  proof (intro impI conjI)
    assume inv: "roster_inv X r"
    have "core_eq (roster_base r) (roster_base r2)" using r1 r2 by (simp add: core_eq_def)
    then have l: "lifecycle_inv (roster_base r2)" using inv keepsD(1) [OF keeps_core_eq] by (auto simp: roster_inv_def)
    have home: "has_home r2 j = has_home r j" for j using r1 r2 by (simp add: has_home_def)
    have "i \<notin> per_id ` set (people r)" using inv r1(1) by (auto simp: roster_inv_def)
    moreover have "people r2 = people r @ [p]" "station_assignments r2 = station_assignments r"
        "roster_next r2 = Suc (roster_next r)" using r1 r2 by simp_all
    moreover have "roster_next r = per_id p" using r1(1) assms(3) by simp
    ultimately show "roster_inv (insert i X) r2"
      using inv r2(2) assms(3,4) l unfolding roster_inv_def home by (auto simp: less_Suc_eq)
    show "roster_history r r2"
      using r1 r2 by (simp add: roster_history_def rows_evolve_append person_evolves_refl)
  qed
qed

subsection \<open>Changes of assignments\<close>

lemma create_assignmentE:
  assumes "create_assignment person station kind from until reason actor r = Inr (i, r')"
  obtains "i = roster_next r" "people r' = people r" "roster_now r' = roster_now r" "roster_next r' = Suc i"
    "station_assignments r' = station_assignments r @ [new_assignment i person station kind from until reason actor]"
    "station_assignment_constraints (station_assignments r')" "core_eq (roster_base r) (roster_base r')"
proof -
  obtain j r1 where j: "fresh_roster_id r = (j, r1)" by (cases "fresh_roster_id r")
  then have "j = roster_next r" "people r1 = people r" "station_assignments r1 = station_assignments r"
    "roster_now r1 = roster_now r" "roster_next r1 = Suc j" "core_eq (roster_base r) (roster_base r1)"
    by (auto simp: fresh_roster_id_def fresh_fleet_id_def fresh_id_def core_eq_def)
  with assms j show thesis
    by (intro that) (auto simp: create_assignment_def bind_res_Inr put_station_assignments_def split: if_splits)
qed

lemma create_assignment_keeps:
  assumes "create_assignment person station kind from until reason actor r = Inr (i, r')"
    and "kind = HOME \<Longrightarrow> until = None"
  shows "roster_keeps X r r'"
  unfolding preserves_def
proof (intro impI conjI)
  assume inv: "roster_inv X r"
  let ?a = "new_assignment i person station kind from until reason actor"
  from assms(1) have a: "i = roster_next r" "people r' = people r" "roster_now r' = roster_now r" "roster_next r' = Suc i"
    "station_assignments r' = station_assignments r @ [?a]" "station_assignment_constraints (station_assignments r')"
    "core_eq (roster_base r) (roster_base r')"
    by (auto elim: create_assignmentE)
  have l: "lifecycle_inv (roster_base r')" using inv keepsD(1) [OF keeps_core_eq [OF a(7)]] by (simp add: roster_inv_def)
  have home: "has_home r j \<Longrightarrow> has_home r' j" for j using a by (auto simp: has_home_def)
  have new: "psa_id ?a = i" "psa_person ?a = person" "psa_assignment_type ?a = kind" "psa_valid_until ?a = until"
    "psa_ended_at ?a = None" by (simp_all add: new_assignment_def)
  have "home_rows_ok (station_assignments r')"
    using inv assms(2) new by (auto simp: home_rows_ok_def a(5) roster_inv_def)
  moreover have "i \<notin> psa_id ` set (station_assignments r)" using inv a(1) by (auto simp: roster_inv_def)
  ultimately show "roster_inv X r'"
    using inv l home a(1,2,4,5,6) new by (auto simp: roster_inv_def less_Suc_eq)
  show "roster_history r r'"
    using a by (simp add: roster_history_def rows_evolve_refl person_evolves_refl)
qed

lemma map_assignments_keeps:
  assumes "put_station_assignments (map g (station_assignments r)) r = Inr r'"
    and "\<And>a. psa_id (g a) = psa_id a \<and> psa_person (g a) = psa_person a \<and> psa_assignment_type (g a) = psa_assignment_type a"
    and "roster_inv X r \<Longrightarrow> home_rows_ok (map g (station_assignments r))"
    and "\<And>a. roster_inv X r \<Longrightarrow> a \<in> set (station_assignments r) \<Longrightarrow> open_home a \<Longrightarrow> psa_person a \<notin> Y \<Longrightarrow> g a = a"
    and "X \<subseteq> Y"
  shows "roster_inv X r \<longrightarrow> roster_inv Y r' \<and> roster_history r r'"
    "people r' = people r" "station_assignments r' = map g (station_assignments r)" "yard r' = yard r"
proof -
  have r': "r' = r\<lparr>station_assignments := map g (station_assignments r)\<rparr>"
      "station_assignment_constraints (map g (station_assignments r))"
    using assms(1) by (auto simp: put_station_assignments_def split: if_splits)
  show "people r' = people r" "station_assignments r' = map g (station_assignments r)" "yard r' = yard r" by (simp_all add: r'(1))
  show "roster_inv X r \<longrightarrow> roster_inv Y r' \<and> roster_history r r'"
  proof (intro impI conjI)
    assume inv: "roster_inv X r"
    have keys: "map psa_id (map g (station_assignments r)) = map psa_id (station_assignments r)" using assms(2) by simp
    have persons: "psa_person ` set (map g (station_assignments r)) = psa_person ` set (station_assignments r)"
      using assms(2) by (auto simp: image_image)
    have home: "has_home r' j" if h: "has_home r j" "j \<notin> Y" for j
    proof -
      obtain a where "a \<in> set (station_assignments r)" "psa_person a = j" "open_home a" "psa_valid_from a \<le> roster_now r"
        using h(1) unfolding has_home_def by blast
      moreover from this have "g a = a" using assms(4) [OF inv, of a] h(2) by blast
      ultimately show ?thesis unfolding has_home_def r'(1)
        by (intro bexI [of _ a]) (auto intro: image_eqI [of _ _ a])
    qed
    have "unique_rows psa_id (station_assignments r')" "\<forall>a\<in>set (station_assignments r'). psa_id a < roster_next r'"
      using inv keys assms(2) unfolding roster_inv_def by (simp_all add: r'(1) del: map_map)
    then show "roster_inv Y r'"
      using inv r' persons assms(3) [OF inv] home assms(5) by (auto simp: roster_inv_def)
    show "roster_history r r'" by (simp add: r'(1) roster_history_def rows_evolve_refl person_evolves_refl)
  qed
qed

lemma roster_inv_mono: "roster_inv X r \<Longrightarrow> X \<subseteq> Y \<Longrightarrow> roster_inv Y r"
  by (auto simp: roster_inv_def)

text \<open>The check \<open>ensure_current_home\<close> closes a transaction: a current home is an open one.\<close>

lemma current_home_open:
  assumes "home_rows_ok (station_assignments r)" and "current_home i r = Some a"
  shows "a \<in> set (station_assignments r)" "psa_person a = i" "open_home a" "psa_valid_from a \<le> roster_now r"
  using assms by (auto simp: current_home_def find_Some_iff home_rows_ok_def open_home_def current_assignment_def)

lemma ensure_current_home_closes:
  assumes "roster_inv (insert i X) r" and "ensure_current_home p r = Inr u" and "per_id p = i" and "per_active p"
  shows "roster_inv X r"
proof -
  obtain a where a: "current_home i r = Some a" using assms(2-4) by (auto simp: ensure_current_home_def require_Inr)
  have "home_rows_ok (station_assignments r)" using assms(1) by (simp add: roster_inv_def)
  note h = current_home_open [OF this a]
  have "has_home r i" using h by (auto simp: has_home_def)
  moreover have "i \<in> psa_person ` set (station_assignments r)" using h(1,2) by blast
  ultimately show ?thesis using assms(1) by (auto simp: roster_inv_def)
qed

end
