(* ===== verification/Personnel_Steps.thy ===== *)
theory Personnel_Steps
  imports Personnel_Inv Lifecycle_System
begin

text \<open>
  Every personnel and assignment service keeps the roster in order; the services as steps of a transition system,
  and what becomes of one person along a run.
\<close>

subsection \<open>Shared shapes\<close>

lemma fetched:
  assumes "fetch_person i r = Inr p"
  shows "p \<in> set (people r)" "per_id p = i" "roster_inv X r \<Longrightarrow> person_ok p"
  using assms by (auto simp: fetch_person_Inr roster_inv_def dest: row_get_SomeD)

lemma roster_inv_close:
  assumes "roster_inv (insert i X) r" and "i \<notin> X \<Longrightarrow> i \<in> psa_person ` set (station_assignments r)"
    and "\<And>p. p \<in> set (people r) \<Longrightarrow> per_id p = i \<Longrightarrow> \<not> per_active p"
  shows "roster_inv X r"
proof -
  have "per_id p \<in> psa_person ` set (station_assignments r)" "per_active p \<Longrightarrow> has_home r (per_id p)"
    if "p \<in> set (people r)" "per_id p \<notin> X" for p
    using assms that unfolding roster_inv_def by (cases "per_id p = i", blast+)+
  then show ?thesis using assms(1) unfolding roster_inv_def by blast
qed

text \<open>Most services read a person, save a changed row and announce the change to the stations that show them.\<close>

lemma announced_keeps:
  assumes "fetch_person i r = Inr p" and "save_person q r = Inr r1" and "same_roster r1 r'"
    and "per_id q = i" and "person_evolves p q" and "person_ok p \<Longrightarrow> person_ok q" and "per_active q \<Longrightarrow> per_active p"
  shows "roster_keeps X r r'"
proof -
  have "roster_keeps X r r1"
    by (rule save_person_keeps [OF assms(2), where p = p]) (use assms fetched(3) [OF assms(1)] in auto)
  then show ?thesis using rosters.preserves_trans same_roster_keeps [OF assms(3)] by blast
qed

lemma visible_same:
  "mark_visible_station_scopes E p actor (person_event a b c r) = Inr r' \<Longrightarrow> same_roster r r'"
  using same_roster_trans [OF person_event_same mark_visible_same] .

lemma update_assignment_keeps:
  assumes "update_assignment (psa_id b) g r = Inr r'" and "b \<in> set (station_assignments r)"
    and "psa_id (g b) = psa_id b" "psa_person (g b) = psa_person b" "psa_assignment_type (g b) = psa_assignment_type b"
    and "psa_assignment_type b = HOME \<Longrightarrow> psa_valid_until (g b) = None \<longleftrightarrow> psa_ended_at (g b) = None"
    and "open_home b \<Longrightarrow> psa_person b \<in> Y" and "X \<subseteq> Y"
  shows "roster_inv X r \<longrightarrow> roster_inv Y r' \<and> roster_history r r'" "people r' = people r" "yard r' = yard r"
proof -
  define h where "h a = (if a = b then g a else a)" for a
  have put: "r' = r\<lparr>station_assignments := map (\<lambda>a. if psa_id a = psa_id b then g a else a) (station_assignments r)\<rparr>"
    using assms(1) by (simp add: update_assignment_def put_station_assignments_def split: if_splits)
  then show "people r' = people r" "yard r' = yard r" by simp_all
  show inv: "roster_inv X r \<longrightarrow> roster_inv Y r' \<and> roster_history r r'"
  proof (rule impI)
    assume inv: "roster_inv X r"
    have one: "psa_id a = psa_id b \<longleftrightarrow> a = b" if "a \<in> set (station_assignments r)" for a
      using inv that assms(2) by (auto simp: roster_inv_def distinct_map inj_on_def)
    have rows: "map (\<lambda>a. if psa_id a = psa_id b then g a else a) (station_assignments r) = map h (station_assignments r)"
      using one by (simp add: h_def)
    have "roster_inv X r \<longrightarrow> roster_inv Y r' \<and> roster_history r r'"
    proof (rule map_assignments_keeps(1) [where g = h, OF _ _ _ _ assms(8)])
      show "put_station_assignments (map h (station_assignments r)) r = Inr r'"
        using assms(1) by (simp add: update_assignment_def rows)
      show "home_rows_ok (map h (station_assignments r))"
        using inv assms(5,6) by (auto simp: home_rows_ok_def roster_inv_def h_def)
    qed (use assms(3-5,7) in \<open>auto simp: h_def\<close>)
    then show "roster_inv Y r' \<and> roster_history r r'" using inv by blast
  qed
qed

subsection \<open>Assignments\<close>

lemma new_member_keeps:
  assumes "fresh_roster_id r = (i, r1)" and "put_people (people r1 @ [p]) r1 = Inr r2" and "per_id p = i" and "person_ok p"
    and "create_assignment i s HOME t None reason actor r2 = Inr (a, r3)" and "ensure_current_home p r3 = Inr u"
    and "per_active p"
  shows "roster_keeps X r r3"
  unfolding preserves_def
proof (intro impI)
  assume "roster_inv X r"
  then have inv: "roster_inv (insert i X) r2" "roster_history r r2" using new_person_keeps(1) [OF assms(1-4)] by blast+
  have "roster_keeps (insert i X) r2 r3" by (rule create_assignment_keeps [OF assms(5)]) simp
  then have "roster_inv (insert i X) r3" "roster_history r2 r3" using inv(1) by (auto simp: preserves_def)
  then show "roster_inv X r3 \<and> roster_history r r3"
    using ensure_current_home_closes [OF _ assms(6,3,7)] inv(2) rosters.evo_trans by blast
qed

lemma create_person_with_home_keeps:
  assumes "create_person_with_home d s actor at r = Inr (i, r')"
  shows "roster_keeps X r r'"
proof -
  obtain j r1 where j: "fresh_roster_id r = (j, r1)" by (cases "fresh_roster_id r")
  let ?p = "blank_person j d (roster_now r)"
  obtain r2 a u where "put_people (people r1 @ [?p]) r1 = Inr r2"
    "create_assignment j (sta_id s) HOME (case at of None \<Rightarrow> roster_now r | Some t \<Rightarrow> t) None [] actor r2 = Inr (a, r')"
    "ensure_current_home ?p r' = Inr u"
    using assms by (auto simp: create_person_with_home_def bind_res_Inr require_Inr j Let_def)
  then show ?thesis by (intro new_member_keeps [OF j]) (auto simp: blank_person_def person_ok_def)
qed

lemma create_person_keeps:
  assumes "create_person E actor d s number f l eligible email r = Inr (i, r')"
  shows "roster_keeps X r r'"
proof -
  obtain j r1 where j: "fresh_roster_id r = (j, r1)" by (cases "fresh_roster_id r")
  define p where "p = (blank_person j d (roster_now r))\<lparr>per_personnel_number := none_if_blank number,
               per_first_name := Some (strip f), per_last_name := Some (strip l),
               per_display_name := full_name f l, per_commander_eligible := eligible,
               per_commander_email := (if email \<noteq> [] then Some (normalize_commander_email email) else None)\<rparr>"
  obtain r2 a r3 u where *: "put_people (people r1 @ [p]) r1 = Inr r2"
    "create_assignment j (sta_id s) HOME (roster_now r) None [] actor r2 = Inr (a, r3)" "ensure_current_home p r3 = Inr u"
    and mark: "mark_station_personnel E d actor (sta_id s)
      (personnel_event ''personnel.created'' actor d (Some (sta_id s)) ''person'' j [] r3) = Inr r'"
    using assms by (auto simp: create_person_def bind_res_Inr require_Inr j Let_def p_def)
  have "roster_keeps X r r3"
    by (rule new_member_keeps [OF j *(1) _ _ *(2,3)]) (auto simp: p_def blank_person_def person_ok_def)
  then show ?thesis
    using rosters.preserves_trans same_roster_keeps [OF same_roster_trans [OF personnel_event_same mark_station_personnel_same [OF mark]]]
    by blast
qed

lemma transfer_home_keeps:
  assumes "transfer_home E i s actor at r = Inr (a, r')"
  shows "roster_keeps X r r'"
proof -
  define t where "t = (case at of None \<Rightarrow> roster_now r | Some t \<Rightarrow> t)"
  obtain p b r1 r2 u r3 r4 where p: "fetch_person i r = Inr p" "validate_person_station p s r = Inr ()"
    and b: "current_home i r = Some b"
    and r1: "update_assignment (psa_id b)
      (\<lambda>a. a\<lparr>psa_valid_until := Some t, psa_ended_at := Some (roster_now r), psa_ended_by := actor\<rparr>) r = Inr r1"
    and r2: "create_assignment i (sta_id s) HOME t None [] actor r1 = Inr (a, r2)" "ensure_current_home p r2 = Inr u"
    and r4: "mark_station_personnel E (per_department p) actor (psa_station b) r2 = Inr r3"
      "mark_station_personnel E (per_department p) actor (sta_id s) r3 = Inr r4"
      "r' = personnel_event ''personnel.home_station_transferred'' actor (per_department p) (Some (sta_id s)) ''person'' i [] r4"
    using assms by (auto simp: transfer_home_def bind_res_Inr require_Inr of_option_Inr Let_def t_def)
  have b': "b \<in> set (station_assignments r)" "psa_person b = i"
    using b by (auto simp: current_home_def find_Some_iff)
  have "roster_keeps X r r2" unfolding preserves_def
  proof (intro impI)
    assume inv: "roster_inv X r"
    have "roster_inv X r \<longrightarrow> roster_inv (insert i X) r1 \<and> roster_history r r1"
      by (rule update_assignment_keeps(1) [OF r1 b'(1)]) (use b'(2) in auto)
    then have one: "roster_inv (insert i X) r1" "roster_history r r1" using inv by blast+
    have "roster_keeps (insert i X) r1 r2" by (rule create_assignment_keeps [OF r2(1)]) simp
    then have "roster_inv (insert i X) r2" "roster_history r1 r2" using one by (auto simp: preserves_def)
    moreover have "per_active p" using p(2) by (simp add: validate_person_station_def bind_res_Inr require_Inr)
    ultimately show "roster_inv X r2 \<and> roster_history r r2"
      using ensure_current_home_closes [OF _ r2(2) fetched(2) [OF p(1)]] one(2) rosters.evo_trans by blast
  qed
  moreover have "same_roster r2 r'"
    unfolding r4(3) using r4(1,2) by (blast intro: same_roster_trans mark_station_personnel_same personnel_event_same)
  ultimately show ?thesis using rosters.preserves_trans same_roster_keeps by blast
qed

lemma create_temporary_assignment_keeps:
  assumes "create_temporary_assignment E i s actor until reason r = Inr (a, r')"
  shows "roster_keeps X r r'"
proof -
  obtain d r1 r2 where r: "create_assignment i (sta_id s) TEMPORARY (roster_now r) until (strip reason) actor r = Inr (a, r1)"
    "mark_station_personnel E d actor (sta_id s) r1 = Inr r2"
    "r' = personnel_event ''personnel.temporary_assignment_created'' actor d
       (Some (sta_id s)) ''personnel_station_assignment'' a [] r2"
    using assms by (auto simp: create_temporary_assignment_def bind_res_Inr)
  have "roster_keeps X r r1" by (rule create_assignment_keeps [OF r(1)]) simp
  moreover have "same_roster r1 r'"
    unfolding r(3) using r(2) by (blast intro: same_roster_trans mark_station_personnel_same personnel_event_same)
  ultimately show ?thesis using rosters.preserves_trans same_roster_keeps by blast
qed

lemma end_temporary_assignment_keeps:
  assumes "end_temporary_assignment E i actor r = Inr r'"
  shows "roster_keeps X r r'"
proof (cases "r' = r")
  case False
  obtain b d r1 r2 e where b: "row_get psa_id i (station_assignments r) = Some b" "psa_assignment_type b = TEMPORARY"
    and r1: "update_assignment i (\<lambda>a. a\<lparr>psa_ended_at := Some (roster_now r), psa_ended_by := actor\<rparr>) r = Inr r1"
    and r2: "mark_station_personnel E d actor (psa_station b) r1 = Inr r2"
      "r' = personnel_event e actor d (Some (psa_station b)) ''personnel_station_assignment'' i [] r2"
    using assms False
    by (auto simp: end_temporary_assignment_def bind_res_Inr require_Inr of_option_Inr split: if_splits)
  have b': "b \<in> set (station_assignments r)" "psa_id b = i" using row_get_SomeD [OF b(1)] by simp_all
  have "roster_keeps X r r1" unfolding preserves_def
    by (rule update_assignment_keeps(1) [OF r1 [folded b'(2)] b'(1)]) (use b(2) in \<open>auto simp: open_home_def\<close>)
  moreover have "same_roster r1 r'"
    unfolding r2(2) using r2(1) by (blast intro: same_roster_trans mark_station_personnel_same personnel_event_same)
  ultimately show ?thesis using rosters.preserves_trans same_roster_keeps by blast
qed (simp add: rosters.preserves_refl)

lemma expire_temporary_assignments_keeps: "expire_temporary_assignments E n r = Inr r' \<Longrightarrow> roster_keeps X r r'"
  unfolding expire_temporary_assignments_def by (erule rosters.preserves_fold_res [rotated]) (rule end_temporary_assignment_keeps)

subsection \<open>Personnel\<close>

lemmas personnel_reading = bind_res_Inr require_Inr of_option_Inr Let_def

lemma person_services_keep:
  "update_person E actor i number f l r = Inr r' \<Longrightarrow> roster_keeps X r r'"
  "set_commander_eligibility E actor i eligible s r = Inr r' \<Longrightarrow> roster_keeps X r r'"
  "set_commander_email E actor i email r = Inr r' \<Longrightarrow> roster_keeps X r r'"
  "verify_commander_email E actor i r = Inr r' \<Longrightarrow> roster_keeps X r r'"
  "anonymize_person E actor i r = Inr r' \<Longrightarrow> roster_keeps X r r'"
  unfolding update_person_def set_commander_eligibility_def set_commander_email_def verify_commander_email_def
    anonymize_person_def
  by (auto simp: personnel_reading person_evolves_def person_ok_def erased_def fetched(2)
      intro!: announced_keeps rosters.preserves_refl split: if_splits dest: visible_same)

lemma end_open_assignments_keeps:
  assumes "end_open_assignments i actor r = Inr r'"
  shows "roster_inv X r \<longrightarrow> roster_inv (insert i X) r' \<and> roster_history r r'" "people r' = people r" "yard r' = yard r"
    "psa_person ` set (station_assignments r') = psa_person ` set (station_assignments r)"
proof -
  define g where "g a = (if psa_person a = i \<and> psa_ended_at a = None \<and> psa_valid_until a = None
       then a\<lparr>psa_valid_until := Some (roster_now r), psa_ended_at := Some (roster_now r), psa_ended_by := actor\<rparr>
       else a)" for a :: station_assignment_row
  have put: "put_station_assignments (map g (station_assignments r)) r = Inr r'"
    using assms by (simp add: end_open_assignments_def g_def [abs_def])
  have *: "psa_id (g a) = psa_id a \<and> psa_person (g a) = psa_person a \<and> psa_assignment_type (g a) = psa_assignment_type a" for a
    by (simp add: g_def)
  have ok: "home_rows_ok (map g (station_assignments r))" if "roster_inv X r"
    using that by (auto simp: home_rows_ok_def roster_inv_def g_def)
  note m = map_assignments_keeps [where g = g and Y = "insert i X", OF put * ok]
  show "roster_inv X r \<longrightarrow> roster_inv (insert i X) r' \<and> roster_history r r'"
    by (rule m(1)) (auto simp: g_def)
  have r': "r' = r\<lparr>station_assignments := map g (station_assignments r)\<rparr>"
    using put by (simp add: put_station_assignments_def split: if_splits)
  then show "people r' = people r" "yard r' = yard r"
    "psa_person ` set (station_assignments r') = psa_person ` set (station_assignments r)"
    using * by (simp_all add: image_image)
qed

lemma save_person_sets:
  assumes "save_person q r = Inr r'"
  shows "station_assignments r' = station_assignments r" "yard r' = yard r"
    "x \<in> set (people r') \<Longrightarrow> per_id x = per_id q \<Longrightarrow> x = q\<lparr>per_updated_at := roster_now r\<rparr>"
  using assms by (auto simp: save_person_def put_people_def row_put_def split: if_splits)

lemma offboard_person_keeps:
  assumes "offboard_person E actor i r = Inr r'"
  shows "roster_keeps X r r'"
proof -
  obtain p policy r1 r2 q where p: "fetch_person i r = Inr p" and r1: "end_open_assignments i actor r = Inr r1"
    and q: "q = p\<lparr>per_lifecycle_status := PER_DEPARTED, per_active := False, per_departed_at := Some (roster_now r),
         per_retention_until := Some (roster_now r + rpo_retention_period (policy :: retention_policy_row)),
         per_commander_eligible := False, per_commander_email := None, per_email_verified_at := None,
         per_email_verified_by := None\<rparr>"
    and r2: "save_person q r1 = Inr r2"
      "mark_stations E (per_department p) actor (visible_station_ids i r) (person_event ''personnel.offboarded'' actor q r2) = Inr r'"
    using assms by (auto simp: offboard_person_def personnel_reading)
  note one = end_open_assignments_keeps [OF r1]
  have f: "fetch_person i r1 = Inr p" using p one(2) by (simp add: fetch_person_def)
  have q': "per_id q = i" "person_evolves p q" "person_ok p \<Longrightarrow> person_ok q" "\<not> per_active q"
    using fetched(2) [OF p] by (simp_all add: q person_evolves_def person_ok_def erased_def)
  have "roster_keeps X r r2" unfolding preserves_def
  proof (intro impI)
    assume inv: "roster_inv X r"
    then have i1: "roster_inv (insert i X) r1" "roster_history r r1" using one(1) by blast+
    have "roster_keeps (insert i X) r1 r2"
      by (rule announced_keeps [OF f r2(1) same_roster_refl]) (use q' in auto)
    then have i2: "roster_inv (insert i X) r2" "roster_history r1 r2" using i1 by (auto simp: preserves_def)
    have "i \<in> psa_person ` set (station_assignments r2)" if "i \<notin> X"
      using inv fetched [OF p] that one(4) unfolding roster_inv_def save_person_sets(1) [OF r2(1)] by blast
    moreover have "\<not> per_active x" if "x \<in> set (people r2)" "per_id x = i" for x
      using save_person_sets(3) [OF r2(1) that(1)] that(2) q'(1,4) by simp
    ultimately have "roster_inv X r2" using roster_inv_close i2(1) by blast
    then show "roster_inv X r2 \<and> roster_history r r2" using i1(2) i2(2) rosters.evo_trans by blast
  qed
  then show ?thesis
    using rosters.preserves_trans same_roster_keeps [OF same_roster_trans [OF person_event_same mark_stations_same [OF r2(2)]]]
    by blast
qed

lemma same_roster_mutation: "same_roster r (roster_world (department_mutation a) r)"
  by (rule same_roster_world) (rule core_eq_department_mutation)

lemma same_roster_policy_event:
  assumes "same_roster r r1"
  shows "same_roster r (roster_world (department_mutation a) (personnel_event e actor d s kind i m r1))"
  by (rule same_roster_trans [OF same_roster_trans [OF assms personnel_event_same] same_roster_mutation])

lemma set_retention_policy_same:
  assumes "set_retention_policy actor d period r = Inr r'"
  shows "same_roster r r'"
proof -
  have "same_roster r (r\<lparr>retention_policies := rows\<rparr>)" for rows by (simp add: same_roster_def)
  with assms show ?thesis
    by (auto simp: set_retention_policy_def bind_res_Inr Let_def split: if_splits
        intro!: same_roster_refl same_roster_policy_event)
qed

lemma set_department_recipient_policy_same:
  assumes "set_department_recipient_policy actor d on domains r = Inr r'"
  shows "same_roster r r'"
proof -
  have "same_roster r (r\<lparr>recipient_policies := rows\<rparr>)" for rows by (simp add: same_roster_def)
  with assms show ?thesis
    by (auto simp: set_department_recipient_policy_def bind_res_Inr Let_def split: if_splits
        intro!: same_roster_refl same_roster_policy_event)
qed

text \<open>
  Every person is created with a home and no assignment is ever deleted, so the protected foreign key refuses every
  deletion.
\<close>

lemma delete_person_refused:
  assumes "roster_inv {} r"
  shows "delete_person E protected actor i r \<noteq> Inr r'"
proof
  assume "delete_person E protected actor i r = Inr r'"
  then obtain p where p: "fetch_person i r = Inr p" and none: "\<not> exists_row (\<lambda>a. psa_person a = i) (station_assignments r)"
    by (auto simp: delete_person_def personnel_reading)
  have "i \<in> psa_person ` set (station_assignments r)" using assms fetched(1,2) [OF p] by (auto simp: roster_inv_def)
  then show False using none by (auto simp: list_ex_iff)
qed

subsection \<open>The roster as a transition system\<close>

text \<open>
  \<open>others\<close> is any transaction of the publication component or a change elsewhere in the database; the clock does
  not run backwards.
\<close>

inductive roster_step :: "env \<Rightarrow> roster \<Rightarrow> roster \<Rightarrow> bool" for E where
  joined: "create_person_with_home d s actor at r = Inr (i, r') \<Longrightarrow> roster_step E r r'"
| created: "create_person E actor d s number f l eligible email r = Inr (i, r') \<Longrightarrow> roster_step E r r'"
| transferred: "transfer_home E i s actor at r = Inr (a, r') \<Longrightarrow> roster_step E r r'"
| seconded: "create_temporary_assignment E i s actor until reason r = Inr (a, r') \<Longrightarrow> roster_step E r r'"
| recalled: "end_temporary_assignment E i actor r = Inr r' \<Longrightarrow> roster_step E r r'"
| expired: "expire_temporary_assignments E n r = Inr r' \<Longrightarrow> roster_step E r r'"
| updated: "update_person E actor i number f l r = Inr r' \<Longrightarrow> roster_step E r r'"
| deleted: "delete_person E protected actor i r = Inr r' \<Longrightarrow> roster_step E r r'"
| eligibility: "set_commander_eligibility E actor i eligible st r = Inr r' \<Longrightarrow> roster_step E r r'"
| email: "set_commander_email E actor i address r = Inr r' \<Longrightarrow> roster_step E r r'"
| verified: "verify_commander_email E actor i r = Inr r' \<Longrightarrow> roster_step E r r'"
| retention: "set_retention_policy actor d period r = Inr r' \<Longrightarrow> roster_step E r r'"
| recipients: "set_department_recipient_policy actor d on domains r = Inr r' \<Longrightarrow> roster_step E r r'"
| offboarded: "offboard_person E actor i r = Inr r' \<Longrightarrow> roster_step E r r'"
| anonymized: "anonymize_person E actor i r = Inr r' \<Longrightarrow> roster_step E r r'"
| others: "lifecycle_step E (roster_base r) (base f) \<Longrightarrow> roster_now r \<le> clock (base f) \<Longrightarrow> roster_step E r (r\<lparr>yard := f\<rparr>)"

abbreviation roster_run :: "env \<Rightarrow> roster \<Rightarrow> roster \<Rightarrow> bool" where
  "roster_run E \<equiv> (roster_step E)\<^sup>*\<^sup>*"

lemma others_same:
  assumes "lifecycle_step E (roster_base r) (base f)" and "roster_now r \<le> clock (base f)"
  shows "same_roster r (r\<lparr>yard := f\<rparr>)"
  using assms step_keeps [OF assms(1)] by (auto simp: same_roster_def keeps_def evolves_def)

lemma roster_step_keeps: "roster_step E r r' \<Longrightarrow> roster_keeps {} r r'"
proof (induction rule: roster_step.induct)
  case (deleted protected actor i r r')
  then show ?case using delete_person_refused by (auto simp: preserves_def)
qed (auto intro: create_person_with_home_keeps create_person_keeps transfer_home_keeps
    create_temporary_assignment_keeps end_temporary_assignment_keeps expire_temporary_assignments_keeps
    person_services_keep offboard_person_keeps same_roster_keeps set_retention_policy_same
    set_department_recipient_policy_same others_same)

lemmas roster_run_keeps = rosters.preserves_run [where X = "{}", OF roster_step_keeps]

definition no_people :: "roster \<Rightarrow> bool" where
  "no_people r \<longleftrightarrow> people r = [] \<and> station_assignments r = [] \<and> empty_tables (roster_base r)"

lemma no_people_inv: "no_people r \<Longrightarrow> roster_inv {} r"
  by (simp add: no_people_def roster_inv_def empty_tables_inv person_constraints_def station_assignment_constraints_def
      home_rows_ok_def)

text \<open>The row of a person at the end of a run that starts in order.\<close>

lemma run_person:
  assumes "roster_run E r r'" and "roster_inv {} r" and "row_get per_id i (people r) = Some p"
  obtains p' where "row_get per_id i (people r') = Some p'" "person_evolves p p'" "person_ok p'" "roster_inv {} r'"
proof -
  have k: "roster_inv {} r'" "roster_history r r'" using roster_run_keeps [OF _ assms(1)] assms(2) by (auto simp: preserves_def)
  obtain p' where p': "row_get per_id i (people r') = Some p'" "person_evolves p p'"
    using rows_evolve_get [OF _ _ assms(3)] k unfolding roster_history_def roster_inv_def by metis
  moreover have "person_ok p'" using k(1) row_get_SomeD [OF p'(1)] by (simp add: roster_inv_def)
  ultimately show thesis using k(1) that by blast
qed

end
