(* ===== verification/Personnel_Properties.thy ===== *)
theory Personnel_Properties
  imports Personnel_Steps Report_Intake Scenario
begin

text \<open>
  What the personnel services promise along every run: one current home for every active member, erased data
  that stay erased, and an end of report access with the end of service.
\<close>

subsection \<open>Concrete rosters\<close>

definition demo_station :: station_row where
  "demo_station = \<lparr>sta_id = 2, sta_department = 1, sta_name = ''S'', sta_short_code = ''S'', sta_active = True\<rparr>"

definition demo_unstaffed :: roster where
  "demo_unstaffed = \<lparr>yard = demo_fleet\<lparr>base := demo_world\<rparr>, people = [], station_assignments = [],
     retention_policies = [\<lparr>rpo_department = 1, rpo_retention_period = 100, rpo_updated_by = None\<rparr>],
     recipient_policies = []\<rparr>"

definition demo_staffed :: roster where
  "demo_staffed = demo_unstaffed\<lparr>people := [demo_person],
     station_assignments := [new_assignment 34 30 2 HOME 0 None [] None]\<rparr>"

definition demo_departed :: roster where
  "demo_departed = demo_unstaffed\<lparr>people := [demo_person\<lparr>per_lifecycle_status := PER_DEPARTED, per_active := False,
       per_departed_at := Some 400, per_retention_until := Some 500, per_commander_eligible := False,
       per_commander_email := None, per_email_verified_at := None\<rparr>],
     station_assignments := [(new_assignment 34 30 2 HOME 0 (Some 400) [] None)\<lparr>psa_ended_at := Some 400\<rparr>]\<rparr>"

lemmas demo_roster_defs = demo_staffed_def demo_departed_def demo_unstaffed_def demo_person_def blank_person_def
  new_assignment_def demo_fleet_def

lemma demo_world_inv: "lifecycle_inv demo_world"
  by (rule empty_tables_inv) (simp add: empty_tables_def demo_world_def)

lemma demo_rosters_inv: "roster_inv {} demo_staffed" "roster_inv {} demo_departed"
  using demo_world_inv
  by (simp_all add: roster_inv_def demo_roster_defs person_constraints_def station_assignment_constraints_def
      person_lifecycle_consistent_def home_rows_ok_def person_ok_def has_home_def open_home_def)
    (simp_all add: demo_world_def)

subsection \<open>Rows after a service\<close>

lemma save_person_row:
  assumes "save_person q r = Inr r'" and "fetch_person (per_id q) r = Inr p"
  shows "row_get per_id (per_id q) (people r') = Some (q\<lparr>per_updated_at := roster_now r\<rparr>)"
  using assms row_get_image [of per_id "per_id q" "people r" p]
  by (auto simp: save_person_def put_people_def fetch_person_Inr row_get_put split: if_splits)

lemma anonymize_person_row:
  assumes "anonymize_person E actor i r = Inr r'"
  obtains p where "row_get per_id i (people r') = Some p" "per_anonymized_at p \<noteq> None"
proof -
  obtain p q r1 where p: "fetch_person i r = Inr p" "save_person q r = Inr r1" "per_id q = per_id p" "per_anonymized_at q \<noteq> None"
    and mark: "same_roster r1 r'"
    using assms by (fastforce simp: anonymize_person_def personnel_reading dest: visible_same)
  then show thesis
    using save_person_row [OF p(2)] fetched(2) [OF p(1)]
    by (intro that [of "q\<lparr>per_updated_at := roster_now r\<rparr>"]) (auto simp: same_roster_def)
qed

lemma offboard_person_row:
  assumes "offboard_person E actor i r = Inr r'"
  obtains p where "row_get per_id i (people r') = Some p" "per_lifecycle_status p = PER_DEPARTED"
proof -
  obtain p q r1 r2 where p: "fetch_person i r = Inr p" "end_open_assignments i actor r = Inr r1" "save_person q r1 = Inr r2"
      "per_id q = per_id p" "per_lifecycle_status q = PER_DEPARTED"
    and mark: "same_roster r2 r'"
    using assms by (fastforce simp: offboard_person_def personnel_reading
        dest: same_roster_trans [OF person_event_same mark_stations_same])
  have "fetch_person (per_id q) r1 = Inr p"
    using p(1,4) fetched(2) [OF p(1)] end_open_assignments_keeps(2) [OF p(2)] by (simp add: fetch_person_def)
  then show thesis
    using save_person_row [OF p(3)] mark p(4,5) fetched(2) [OF p(1)]
    by (intro that [of "q\<lparr>per_updated_at := roster_now r1\<rparr>"]) (auto simp: same_roster_def)
qed

lemma inactive_status:
  assumes "roster_inv X r" and "row_get per_id i (people r) = Some p" and "per_active p"
  shows "per_lifecycle_status p = PER_ACTIVE"
proof -
  have "person_lifecycle_consistent p"
    using assms(1) row_get_SomeD [OF assms(2)] by (auto simp: roster_inv_def person_constraints_def list_all_iff)
  then show ?thesis using assms(3) by (simp add: person_lifecycle_consistent_def split: person_status.splits)
qed

lemma inactive_refused:
  assumes "roster_inv X r" and "row_get per_id i (people r) = Some p" and "per_lifecycle_status p \<noteq> PER_ACTIVE"
  shows "resolve_report_recipient accepts d i r = Inl (ReportAdmissionError ''recipient_not_authorized'')"
proof (cases "find (\<lambda>p. per_id p = i \<and> per_department p = d) (people r)")
  case (Some q)
  then have "q \<in> set (people r)" "per_id q = i" by (auto simp: find_Some_iff)
  then have "q = p" using assms(1,2) row_get_unique [of per_id "people r" q] by (simp add: roster_inv_def)
  then show ?thesis using assms(3) Some by (simp add: resolve_report_recipient_def of_option_def require_def)
qed (simp add: resolve_report_recipient_def of_option_def)

subsection \<open>Homes\<close>

lemma distinct_key_filter: "distinct (map f xs) \<Longrightarrow> length (filter (\<lambda>x. f x = k) xs) \<le> 1"
  by (induction xs) (auto simp: filter_empty_conv image_iff)

lemma length_filter_le_filter:
  "(\<And>x. x \<in> set xs \<Longrightarrow> P x \<Longrightarrow> Q x) \<Longrightarrow> length (filter P xs) \<le> length (filter Q xs)"
  by (induction xs) (auto simp: le_SucI)

text \<open>
  C30: Every active member has exactly one current home.  From empty tables on, whatever sequence of
  hirings, transfers, secondments, expiries, edits, departures and anonymisations was committed, a person who is
  active has exactly one home assignment in force.
\<close>

theorem every_member_has_one_home:
  assumes "no_people r0" and "roster_run E r0 r" and "row_get per_id i (people r) = Some p" and "per_active p"
  shows "length (filter (\<lambda>a. psa_person a = i \<and> psa_assignment_type a = HOME \<and> current_assignment (roster_now r) a)
      (station_assignments r)) = 1"
    (is "length (filter ?home _) = 1")
proof -
  have inv: "roster_inv {} r" using roster_run_keeps [OF _ assms(2)] no_people_inv [OF assms(1)] by (auto simp: preserves_def)
  note p = row_get_SomeD [OF assms(3)]
  have "has_home r i" using inv p assms(4) by (auto simp: roster_inv_def)
  then have "filter ?home (station_assignments r) \<noteq> []"
    by (auto simp: has_home_def open_home_def current_assignment_def filter_empty_conv)
  moreover have "length (filter ?home (station_assignments r)) \<le> 1"
  proof -
    have "length (filter ?home (station_assignments r))
        \<le> length (filter (\<lambda>a. open_home a \<and> psa_person a = i) (station_assignments r))"
      using inv by (intro length_filter_le_filter)
        (auto simp: roster_inv_def home_rows_ok_def open_home_def current_assignment_def)
    also have "\<dots> \<le> 1"
      using inv distinct_key_filter [of psa_person "filter open_home (station_assignments r)" i]
      by (simp add: roster_inv_def station_assignment_constraints_def conj_commute)
    finally show ?thesis .
  qed
  ultimately show ?thesis by (simp add: le_Suc_eq)
qed

definition demo_hired :: roster where
  "demo_hired = (case create_person_with_home 1 demo_station None None demo_unstaffed of
     Inl _ \<Rightarrow> demo_unstaffed | Inr (i, r) \<Rightarrow> r)"

lemma demo_unstaffed_empty: "no_people demo_unstaffed"
  by (simp add: no_people_def demo_unstaffed_def demo_world_def empty_tables_def)

lemma demo_hired_run: "roster_run demo_env demo_unstaffed demo_hired"
proof -
  have "\<not> isl (create_person_with_home 1 demo_station None None demo_unstaffed)" by code_simp
  then obtain i where "create_person_with_home 1 demo_station None None demo_unstaffed = Inr (i, demo_hired)"
    by (cases "create_person_with_home 1 demo_station None None demo_unstaffed") (auto simp: demo_hired_def)
  then show ?thesis by (blast intro: roster_step.joined)
qed

theorem every_member_has_one_home_witness:
  "length (filter (\<lambda>a. psa_person a = 100 \<and> psa_assignment_type a = HOME \<and> current_assignment (roster_now demo_hired) a)
      (station_assignments demo_hired)) = 1"
proof -
  have "row_get per_id 100 (people demo_hired) = Some (blank_person 100 1 1000)" by code_simp
  then show ?thesis
    using every_member_has_one_home [OF demo_unstaffed_empty demo_hired_run] by (simp add: blank_person_def)
qed

subsection \<open>Erased data\<close>

text \<open>
  C31: Anonymisation is final.  Once a person was anonymised, their number, names and address stay erased, they are
  never active or a report recipient again, and the row is still there, whatever is committed afterwards: no
  service writes personal data back.
\<close>

theorem anonymized_person_stays_erased:
  assumes "roster_inv {} r" and "anonymize_person E actor i r = Inr r1" and "roster_run E r1 r2"
  shows "\<exists>p. row_get per_id i (people r2) = Some p \<and> per_personnel_number p = None \<and> per_first_name p = None
     \<and> per_last_name p = None \<and> per_display_name p = ''Former member'' \<and> per_commander_email p = None
     \<and> \<not> per_active p \<and> isl (resolve_report_recipient accepts d i r2)"
proof -
  have keep: "roster_inv {} r1" using person_services_keep(5) [OF assms(2)] assms(1) by (auto simp: preserves_def)
  obtain p where p: "row_get per_id i (people r1) = Some p" "per_anonymized_at p \<noteq> None"
    using anonymize_person_row [OF assms(2)] by blast
  obtain p' where p': "row_get per_id i (people r2) = Some p'" "person_evolves p p'" "person_ok p'" "roster_inv {} r2"
    by (rule run_person [OF assms(3) keep p(1)])
  have e: "erased p'" "per_lifecycle_status p' \<noteq> PER_ACTIVE" using p' p(2) by (auto simp: person_evolves_def person_ok_def)
  then have "\<not> per_active p'" using inactive_status [OF p'(4,1)] by blast
  then show ?thesis using p'(1) e(1) inactive_refused [OF p'(4,1) e(2)] by (auto simp: erased_def)
qed

definition demo_erased :: roster where
  "demo_erased = (case anonymize_person demo_env (Some 7) 30 demo_departed of Inl _ \<Rightarrow> demo_departed | Inr r \<Rightarrow> r)"

theorem anonymized_person_stays_erased_witness:
  "\<exists>p. row_get per_id 30 (people demo_erased) = Some p \<and> per_personnel_number p = None \<and> per_first_name p = None
     \<and> per_last_name p = None \<and> per_display_name p = ''Former member'' \<and> per_commander_email p = None
     \<and> \<not> per_active p \<and> isl (resolve_report_recipient (\<lambda>_. True) 1 30 demo_erased)"
proof -
  have "\<not> isl (anonymize_person demo_env (Some 7) 30 demo_departed)" by code_simp
  then have "anonymize_person demo_env (Some 7) 30 demo_departed = Inr demo_erased"
    by (auto simp: demo_erased_def split: sum.splits)
  then show ?thesis by (rule anonymized_person_stays_erased [OF demo_rosters_inv(2) _ rtranclp.rtrancl_refl])
qed

subsection \<open>The end of service\<close>

text \<open>
  C32: A departure ends report access.  After a person was offboarded, and after any personnel transactions that
  follow, every submission of a package addressed to them is refused and changes nothing, no open portal session of theirs shows a report, no unused link of
  theirs can be redeemed and no waiting mail is sent to them, although the report component holds no record of
  the departure: it asks the roster at each request.
\<close>

theorem offboarded_recipient_cut_off:
  assumes "roster_inv {} r" and "offboard_person E actor i r = Inr r1" and "roster_run E r1 (crew x)"
  shows "recipient_for R d i x = Inl (TransferError ''recipient_not_authorized'' 403)
    \<and> (inspect_envelope (contract R) envelope = Inr h \<longrightarrow> hdr_recipient_personnel_id h = i \<longrightarrow>
         isl (fst (submit R n envelope x)) \<and> snd (submit R n envelope x) = x)
    \<and> (portal_context R b report_id x = Inr ((t, rows), b', x') \<longrightarrow> trf_recipient t \<noteq> i)
    \<and> (token_row R token x = Some t' \<longrightarrow> trf_recipient t' = i \<longrightarrow> isl (redeem_token R token session_key x))
    \<and> (row_get trf_id k (report_transfers x) = Some t'' \<longrightarrow> trf_recipient t'' = i \<longrightarrow> fst (send_link R k token' x) = MAIL_FAILED)"
proof -
  have keep: "roster_inv {} r1" using offboard_person_keeps [OF assms(2)] assms(1) by (auto simp: preserves_def)
  obtain p where p: "row_get per_id i (people r1) = Some p" "per_lifecycle_status p = PER_DEPARTED"
    by (rule offboard_person_row [OF assms(2)])
  obtain p' where p': "row_get per_id i (people (crew x)) = Some p'" "person_evolves p p'" "roster_inv {} (crew x)"
    by (rule run_person [OF assms(3) keep p(1)])
  have "per_lifecycle_status p' \<noteq> PER_ACTIVE" using p'(2) p(2) by (auto simp: person_evolves_def)
  then have refused: "recipient_for R d i x = Inl (TransferError ''recipient_not_authorized'' 403)" for d
    using inactive_refused [OF p'(3,1)] by (simp add: recipient_for_def)
  have "isl (fst (submit R n envelope x)) \<and> snd (submit R n envelope x) = x"
    if "inspect_envelope (contract R) envelope = Inr h" "hdr_recipient_personnel_id h = i"
    by (rule refused_recipient_submit [OF that(1)]) (use refused that(2) in simp)
  note submission = this
  have no_check: "check_transfer R u x \<noteq> Inr (installation, tablet)" if "trf_recipient u = i" for u installation tablet
    using check_transferD(9) [of R u x installation tablet] that refused by auto
  have "trf_recipient t \<noteq> i" if "portal_context R b report_id x = Inr ((t, rows), b', x')"
    using that no_check by (elim portal_contextE) blast
  moreover have "isl (redeem_token R token session_key x)" if "token_row R token x = Some t'" "trf_recipient t' = i"
  proof (rule ccontr)
    assume "\<not> isl (redeem_token R token session_key x)"
    then obtain v where v: "redeem_token R token session_key x = Inr v" by (cases "redeem_token R token session_key x") auto
    then obtain row where row: "token_transfer R token x = Inr row" "check_transfer R row x \<noteq> Inl e" for e
      by (auto simp: redeem_token_def bind_res_Inr)
    then have "row = t'" using token_transferD(1) [OF row(1)] that(1) by simp
    with row(2) no_check [OF that(2)] show False by (cases "check_transfer R t' x") auto
  qed
  moreover have "fst (send_link R k token' x) = MAIL_FAILED"
    if "row_get trf_id k (report_transfers x) = Some t''" "trf_recipient t'' = i"
    using that refused by (auto simp: send_link_def split: sum.splits)
  ultimately show ?thesis using refused submission by blast
qed

definition demo_left :: roster where
  "demo_left = (case offboard_person demo_env (Some 7) 30 demo_staffed of Inl _ \<Rightarrow> demo_staffed | Inr r \<Rightarrow> r)"

theorem offboarded_recipient_cut_off_witness:
  "recipient_for demo_intake_env 1 30 (demo_exchange\<lparr>crew := demo_left\<rparr>) = Inl (TransferError ''recipient_not_authorized'' 403)
    \<and> isl (fst (submit demo_intake_env 46 demo_envelope (demo_exchange\<lparr>crew := demo_left\<rparr>)))
    \<and> isl (redeem_token demo_intake_env demo_token ''key'' (demo_exchange\<lparr>crew := demo_left\<rparr>))
    \<and> fst (send_link demo_intake_env 32 demo_token (demo_exchange\<lparr>crew := demo_left\<rparr>)) = MAIL_FAILED"
proof -
  let ?x = "demo_exchange\<lparr>crew := demo_left\<rparr>"
  have "\<not> isl (offboard_person demo_env (Some 7) 30 demo_staffed)" by code_simp
  then have "offboard_person demo_env (Some 7) 30 demo_staffed = Inr demo_left"
    by (auto simp: demo_left_def split: sum.splits)
  note cut = offboarded_recipient_cut_off [OF demo_rosters_inv(1) this, where x = ?x and R = demo_intake_env]
  have "map_sum (\<lambda>_. ()) hdr_recipient_personnel_id (inspect_envelope (contract demo_intake_env) demo_envelope) = Inr 30"
    by code_simp
  then obtain h where "inspect_envelope (contract demo_intake_env) demo_envelope = Inr h" "hdr_recipient_personnel_id h = 30"
    by (cases "inspect_envelope (contract demo_intake_env) demo_envelope") auto
  moreover have "token_row demo_intake_env demo_token ?x = Some demo_transfer"
    "row_get trf_id 32 (report_transfers ?x) = Some demo_transfer" "trf_recipient demo_transfer = 30"
    by (simp_all add: token_row_def demo_exchange_def demo_transfer_def demo_token_def sha256_def demo_intake_env_def
        demo_report_env_def demo_contract_def row_get_def)
  ultimately show ?thesis using cut by simp
qed

subsection \<open>Deletion and repeated departures\<close>

text \<open>
  No person is ever deleted.  The service is meant to remove a person entered by mistake who has no protected
  history, but every person is stored together with a home assignment, assignments are never deleted, and their
  foreign key protects the person: from empty tables on, no deletion succeeds.
\<close>

theorem delete_person_never_succeeds:
  assumes "no_people r0" and "roster_run E r0 r"
  shows "isl (delete_person E protected actor i r)"
proof -
  have "roster_inv {} r" using roster_run_keeps [OF _ assms(2)] no_people_inv [OF assms(1)] by (auto simp: preserves_def)
  then show ?thesis using delete_person_refused by (cases "delete_person E protected actor i r") auto
qed

theorem delete_person_never_succeeds_witness: "isl (delete_person demo_env (\<lambda>_. False) (Some 7) 100 demo_hired)"
  by (rule delete_person_never_succeeds [OF demo_unstaffed_empty demo_hired_run])

text \<open>Nothing keeps an anonymised person from being offboarded again, which makes them DEPARTED with a new retention.\<close>

lemma offboard_reverts_anonymized:
  "map per_lifecycle_status (people demo_erased) = [PER_ANONYMIZED]
    \<and> map_sum (\<lambda>_. ()) (\<lambda>r. map (\<lambda>p. (per_lifecycle_status p, per_retention_until p)) (people r))
        (offboard_person demo_env (Some 7) 30 demo_erased) = Inr [(PER_DEPARTED, Some 1100)]"
  by code_simp

end
