(* ===== verification/Organizations.thy ===== *)
theory Organizations
  imports Personnel Tablet_Services
begin

text \<open>
  Stations and vehicles (apps/organizations/services.py).  The state wraps the roster (\<open>staff\<close>); the columns of
  a station and of a vehicle that no other component reads are kept beside the rows.
\<close>

record station_address =
  adr_street :: string
  adr_house_number :: string
  adr_postal_code :: string
  adr_city :: string

record vehicle_marks =
  vmk_call_sign :: string
  vmk_asset_identifier :: string

record estate =
  staff_roster :: roster
  station_addresses :: "(nat \<times> station_address) list"
  vehicle_details :: "(nat \<times> vehicle_marks) list"

abbreviation estate_world :: "estate \<Rightarrow> world" where
  "estate_world e \<equiv> base (yard (staff_roster e))"

abbreviation estate_now :: "estate \<Rightarrow> timestamp" where
  "estate_now e \<equiv> clock (base (yard (staff_roster e)))"

definition on_world :: "(world \<Rightarrow> world) \<Rightarrow> estate \<Rightarrow> estate" where
  "on_world g e = e\<lparr>staff_roster := roster_world g (staff_roster e)\<rparr>"

definition put_fleet :: "fleet \<Rightarrow> estate \<Rightarrow> estate" where
  "put_fleet f e = e\<lparr>staff_roster := (staff_roster e)\<lparr>yard := f\<rparr>\<rparr>"

definition fresh_estate_id :: "estate \<Rightarrow> nat \<times> estate" where
  "fresh_estate_id e = (let (i, r) = fresh_roster_id (staff_roster e) in (i, e\<lparr>staff_roster := r\<rparr>))"

text \<open>The audit event of a service and the end of the actor's temporary access, which close every mutation.\<close>

definition organization_event ::
  "string \<Rightarrow> nat option \<Rightarrow> nat \<Rightarrow> nat option \<Rightarrow> string \<Rightarrow> nat \<Rightarrow> (string \<times> json) list \<Rightarrow> estate \<Rightarrow> estate" where
  "organization_event action actor department station target_type target metadata =
     on_world (record_event action actor (Some department) station target_type (Some target) metadata)"

definition end_access :: "nat option \<Rightarrow> estate \<Rightarrow> estate" where
  "end_access actor = on_world (department_mutation actor)"

definition fetch_station_row :: "nat \<Rightarrow> estate \<Rightarrow> station_row res" where
  "fetch_station_row i e = of_option (DoesNotExist ''Station'') (row_get sta_id i (stations (estate_world e)))"

definition strip_address :: "station_address \<Rightarrow> station_address" where
  "strip_address a =
     \<lparr>adr_street = strip (adr_street a), adr_house_number = strip (adr_house_number a),
      adr_postal_code = strip (adr_postal_code a), adr_city = strip (adr_city a)\<rparr>"

definition strip_marks :: "vehicle_marks \<Rightarrow> vehicle_marks" where
  "strip_marks m =
     \<lparr>vmk_call_sign = strip (vmk_call_sign m), vmk_asset_identifier = strip (vmk_asset_identifier m)\<rparr>"

definition set_key :: "nat \<Rightarrow> 'a \<Rightarrow> (nat \<times> 'a) list \<Rightarrow> (nat \<times> 'a) list" where
  "set_key i v xs = filter (\<lambda>(j, w). j \<noteq> i) xs @ [(i, v)]"

subsection \<open>Stations\<close>

definition create_station ::
  "nat option \<Rightarrow> nat \<Rightarrow> string \<Rightarrow> string \<Rightarrow> station_address \<Rightarrow> bool \<Rightarrow> estate \<Rightarrow> (nat \<times> estate) res" where
  "create_station actor department name short_code address active e =
     bind_res (require_department_admin (estate_world e) actor (Some department)) (\<lambda>_.
       let (i, e1) = fresh_estate_id e;
           station = \<lparr>sta_id = i, sta_department = department, sta_name = strip name, sta_short_code = strip short_code,
             sta_active = active\<rparr>;
           e2 = on_world (\<lambda>w. w\<lparr>stations := stations w @ [station]\<rparr>)
             (e1\<lparr>station_addresses := set_key i (strip_address address) (station_addresses e1)\<rparr>) in
       Inr (i, end_access actor (organization_event ''organization.station_created'' actor department (Some i)
         ''station'' i [] e2)))"

definition save_station :: "station_row \<Rightarrow> station_address \<Rightarrow> estate \<Rightarrow> estate" where
  "save_station station address e =
     on_world (\<lambda>w. w\<lparr>stations := row_put sta_id station (stations w)\<rparr>)
       (e\<lparr>station_addresses := set_key (sta_id station) address (station_addresses e)\<rparr>)"

definition deactivate_station :: "nat \<Rightarrow> estate \<Rightarrow> estate res" where
  "deactivate_station station_id e =
     bind_res (fetch_station_row station_id e) (\<lambda>station.
     bind_res (require (\<not> exists_row (\<lambda>v. veh_station v = station_id \<and> veh_active v) (vehicles (yard (staff_roster e))))
        (AssignmentError ''Deactivate or move active vehicles before deactivating a station.'')) (\<lambda>_.
     bind_res (require (\<not> exists_row (\<lambda>a. psa_station a = station_id \<and> psa_valid_until a = None \<and> psa_ended_at a = None)
          (station_assignments (staff_roster e)))
        (AssignmentError ''End or transfer current personnel assignments before deactivating a station.'')) (\<lambda>_.
     Inr (on_world (\<lambda>w. w\<lparr>stations := row_put sta_id (station\<lparr>sta_active := False\<rparr>) (stations w)\<rparr>) e))))"

definition update_station ::
  "nat option \<Rightarrow> nat \<Rightarrow> string \<Rightarrow> string \<Rightarrow> station_address \<Rightarrow> bool \<Rightarrow> estate \<Rightarrow> estate res" where
  "update_station actor station_id name short_code address active e =
     bind_res (fetch_station_row station_id e) (\<lambda>station.
     bind_res (require_department_admin (estate_world e) actor (Some (sta_department station))) (\<lambda>_.
       let changed_row = station\<lparr>sta_name := strip name, sta_short_code := strip short_code, sta_active := active\<rparr> in
       if changed_row = station \<and> map_of (station_addresses e) station_id = Some (strip_address address) then Inr e
       else
         bind_res (if \<not> active \<and> sta_active station then deactivate_station station_id e
           else Inr (save_station changed_row (strip_address address) e)) (\<lambda>e1.
         Inr (end_access actor (organization_event ''organization.station_updated'' actor (sta_department station)
           (Some station_id) ''station'' station_id [] e1)))))"

text \<open>
  \<open>station.delete()\<close> raises while a protected foreign key points at the row: of the rows of this development the
  vehicles, assignments, roles, accesses, scopes, publications, jobs and audit events, and those of the other
  models, which \<open>protected\<close> stands for (libraries, submissions, phone book entries, imports).
\<close>

definition station_referenced :: "nat \<Rightarrow> estate \<Rightarrow> bool" where
  "station_referenced i e =
     (let w = estate_world e in
      exists_row (\<lambda>v. veh_station v = i) (vehicles (yard (staff_roster e)))
      \<or> exists_row (\<lambda>a. psa_station a = i) (station_assignments (staff_roster e))
      \<or> exists_row (\<lambda>a. saa_station a = i) (station_admins w) \<or> exists_row (\<lambda>a. tsa_station a = i) (temporary_accesses w)
      \<or> exists_row (\<lambda>s. scp_station s = Some i) (scope_states w) \<or> exists_row (\<lambda>p. pub_station p = Some i) (publications w)
      \<or> exists_row (\<lambda>j. job_station j = Some i) (jobs w) \<or> exists_row (\<lambda>a. aud_station a = Some i) (audit_log w))"

definition delete_station :: "(nat \<Rightarrow> bool) \<Rightarrow> nat option \<Rightarrow> nat \<Rightarrow> estate \<Rightarrow> estate res" where
  "delete_station protected actor station_id e =
     bind_res (fetch_station_row station_id e) (\<lambda>station.
     bind_res (require_department_admin (estate_world e) actor (Some (sta_department station))) (\<lambda>_.
     bind_res (require (\<not> station_referenced station_id e \<and> \<not> protected station_id)
        (AssignmentError ''Station cannot be deleted while protected resources or history exist.'')) (\<lambda>_.
     Inr (end_access actor (organization_event ''organization.station_deleted'' actor (sta_department station) None
       ''station'' station_id
       [(''name'', JStr (sta_name station)), (''short_code'', JStr (sta_short_code station))]
       (on_world (\<lambda>w. w\<lparr>stations := filter (\<lambda>s. sta_id s \<noteq> station_id) (stations w)\<rparr>) e))))))"

subsection \<open>Vehicles\<close>

definition create_vehicle ::
  "nat option \<Rightarrow> nat \<Rightarrow> station_row \<Rightarrow> string \<Rightarrow> vehicle_marks \<Rightarrow> bool \<Rightarrow> estate \<Rightarrow> (nat \<times> estate) res" where
  "create_vehicle actor department station display_name marks active e =
     bind_res (require_department_admin (estate_world e) actor (Some department)) (\<lambda>_.
     bind_res (require (sta_department station = department \<and> sta_active station)
        (AssignmentError ''Vehicle station must be active and in the selected department.'')) (\<lambda>_.
       let (i, e1) = fresh_estate_id e; f = yard (staff_roster e1);
           vehicle = \<lparr>veh_id = i, veh_department = department, veh_station = sta_id station,
             veh_display_name = strip display_name, veh_active = active\<rparr>;
           e2 = put_fleet (f\<lparr>vehicles := vehicles f @ [vehicle]\<rparr>)
             (e1\<lparr>vehicle_details := set_key i (strip_marks marks) (vehicle_details e1)\<rparr>) in
       Inr (i, end_access actor (organization_event ''organization.vehicle_created'' actor department
         (Some (sta_id station)) ''vehicle'' i [] e2))))"

text \<open>One tablet of a retired vehicle: its assignment ends and its installations lose their dataset keys.\<close>

definition retire_assignment :: "nat option \<Rightarrow> vehicle_row \<Rightarrow> nat \<Rightarrow> fleet \<Rightarrow> fleet res" where
  "retire_assignment actor vehicle tablet_id f =
     bind_res (fetch_tablet tablet_id f) (\<lambda>tablet.
       let now = clock (base f) in
       case first_by tva_id (\<lambda>a. tva_tablet a = tablet_id \<and> tva_vehicle a = veh_id vehicle \<and> tva_valid_until a = None
              \<and> tva_ended_at a = None) (vehicle_assignments f) of
         None \<Rightarrow> Inr f
       | Some assignment \<Rightarrow>
           bind_res (put_vehicle_assignments (map (\<lambda>a. if tva_id a = tva_id assignment
               then a\<lparr>tva_valid_until := Some now, tva_ended_at := Some now, tva_ended_by := actor,
                      tva_end_reason := ''VEHICLE_RETIRED''\<rparr> else a) (vehicle_assignments f)) f) (\<lambda>f1.
           Inr (on_base (record_event ''tablet.vehicle_assignment_ended_vehicle_retired'' actor
                (Some (veh_department vehicle)) (Some (veh_station vehicle)) ''tablet_vehicle_assignment''
                (Some (tva_id assignment))
                [(''tablet_id'', JStr (dec_nat tablet_id)), (''vehicle_id'', JStr (dec_nat (veh_id vehicle)))])
              (revoke_grants_of tablet_id current_status f1))))"

definition retire_vehicle :: "nat option \<Rightarrow> nat \<Rightarrow> estate \<Rightarrow> estate res" where
  "retire_vehicle actor vehicle_id e =
     (let f = yard (staff_roster e) in
      bind_res (fetch_vehicle vehicle_id f) (\<lambda>vehicle.
      bind_res (require_department_admin (estate_world e) actor (Some (veh_department vehicle))) (\<lambda>_.
      bind_res (require (veh_active vehicle) (AssignmentError ''Vehicle is already retired.'')) (\<lambda>_.
        let tablet_ids = sort (map tva_tablet (filter (\<lambda>a. tva_vehicle a = vehicle_id \<and> tva_valid_until a = None
              \<and> tva_ended_at a = None) (vehicle_assignments f))) in
        bind_res (fold_res (retire_assignment actor vehicle) tablet_ids f) (\<lambda>f1.
        Inr (end_access actor (organization_event ''organization.vehicle_retired'' actor (veh_department vehicle)
          (Some (veh_station vehicle)) ''vehicle'' vehicle_id []
          (put_fleet (f1\<lparr>vehicles := row_put veh_id (vehicle\<lparr>veh_active := False\<rparr>) (vehicles f1)\<rparr>) e))))))))"

definition update_vehicle ::
  "nat option \<Rightarrow> nat \<Rightarrow> string \<Rightarrow> vehicle_marks \<Rightarrow> bool \<Rightarrow> estate \<Rightarrow> estate res" where
  "update_vehicle actor vehicle_id display_name marks active e =
     (let f = yard (staff_roster e) in
      bind_res (fetch_vehicle vehicle_id f) (\<lambda>vehicle.
      bind_res (require_department_admin (estate_world e) actor (Some (veh_department vehicle))) (\<lambda>_.
        let changed_row = vehicle\<lparr>veh_display_name := strip display_name, veh_active := active\<rparr> in
        if changed_row = vehicle \<and> map_of (vehicle_details e) vehicle_id = Some (strip_marks marks) then Inr e
        else
          bind_res (if \<not> active \<and> veh_active vehicle then retire_vehicle actor vehicle_id e
            else Inr (put_fleet (f\<lparr>vehicles := row_put veh_id changed_row (vehicles f)\<rparr>)
              (e\<lparr>vehicle_details := set_key vehicle_id (strip_marks marks) (vehicle_details e)\<rparr>))) (\<lambda>e1.
          Inr (end_access actor (organization_event ''organization.vehicle_updated'' actor (veh_department vehicle)
            (Some (veh_station vehicle)) ''vehicle'' vehicle_id [] e1))))))"

subsection \<open>Withdrawal of people and tablets\<close>

definition deactivate_person :: "nat \<Rightarrow> nat option \<Rightarrow> estate \<Rightarrow> estate res" where
  "deactivate_person person_id actor e =
     bind_res (fetch_person person_id (staff_roster e)) (\<lambda>person.
     bind_res (end_open_assignments person_id actor (staff_roster e)) (\<lambda>r1.
     bind_res (put_people (row_put per_id (person\<lparr>per_active := False\<rparr>) (people r1)) r1) (\<lambda>r2.
     Inr (e\<lparr>staff_roster := r2\<rparr>))))"

definition withdraw_tablet :: "nat \<Rightarrow> nat option \<Rightarrow> estate \<Rightarrow> estate res" where
  "withdraw_tablet tablet_id actor e =
     (let f = yard (staff_roster e); now = estate_now e in
      bind_res (fetch_tablet tablet_id f) (\<lambda>tablet.
      bind_res (put_vehicle_assignments (map (\<lambda>a. if tva_tablet a = tablet_id \<and> tva_valid_until a = None
            \<and> tva_ended_at a = None
          then a\<lparr>tva_valid_until := Some now, tva_ended_at := Some now, tva_ended_by := actor\<rparr> else a)
          (vehicle_assignments f)) f) (\<lambda>f1.
      bind_res (put_tablets (row_put tab_id (tablet\<lparr>tab_active := False\<rparr>) (tablets f1)) f1) (\<lambda>f2.
      Inr (put_fleet f2 e)))))"

end
