(* ===== verification/Organization_Properties.thy ===== *)
theory Organization_Properties
  imports Organizations Tablet_Leases Scenario
begin

text \<open>
  What the organisation services achieve: a retired vehicle releases its tablets and their keys, and the references
  that keep stations and people from being removed.
\<close>

subsection \<open>Retirement of a vehicle\<close>

definition open_on :: "nat \<Rightarrow> vehicle_assignment_row \<Rightarrow> bool" where
  "open_on v a \<longleftrightarrow> tva_vehicle a = v \<and> tva_valid_until a = None \<and> tva_ended_at a = None"

definition keys_revoked :: "nat \<Rightarrow> fleet \<Rightarrow> bool" where
  "keys_revoked t f \<longleftrightarrow>
     (\<forall>i\<in>set (installations f). ins_tablet i = t \<longrightarrow> current_status (ins_status i) \<longrightarrow>
        (\<forall>k\<in>set (dataset_key_grants (base f)) \<union> set (generation_key_grants (base f)).
           kg_app_installation k = ins_id i \<longrightarrow> kg_status k = GRANT_REVOKED))"

definition grants_revoked_for :: "nat set \<Rightarrow> world \<Rightarrow> bool" where
  "grants_revoked_for X w \<longleftrightarrow>
     (\<forall>k\<in>set (dataset_key_grants w) \<union> set (generation_key_grants w).
        kg_app_installation k \<in> X \<longrightarrow> kg_status k = GRANT_REVOKED)"

lemma revoke_grant_status: "kg_status (revoke_grant t k) = GRANT_REVOKED" "kg_app_installation (revoke_grant t k) = kg_app_installation k"
  by (simp_all add: revoke_grant_def)

lemma revoke_dataset_key_grants_for:
  "grants_revoked_for X w \<Longrightarrow> grants_revoked_for (insert i X) (revoke_dataset_key_grants i w)"
  by (auto simp: grants_revoked_for_def revoke_dataset_key_grants_def revoke_grant_status Let_def)

lemma fold_revoke_for:
  "grants_revoked_for X w \<Longrightarrow> grants_revoked_for (set is' \<union> X) (fold revoke_dataset_key_grants is' w)"
  by (induction is' arbitrary: X w) (use revoke_dataset_key_grants_for in fastforce)+

lemma keys_revoked_iff:
  "keys_revoked t f \<longleftrightarrow>
     grants_revoked_for (ins_id ` {i \<in> set (installations f). ins_tablet i = t \<and> current_status (ins_status i)}) (base f)"
  by (auto simp: keys_revoked_def grants_revoked_for_def)

definition fleet_keys :: "nat \<Rightarrow> fleet \<Rightarrow> nat set" where
  "fleet_keys t f = ins_id ` {i \<in> set (installations f). ins_tablet i = t \<and> current_status (ins_status i)}"

lemma revoke_grants_of_keys:
  "grants_revoked_for X (base f) \<Longrightarrow> grants_revoked_for (fleet_keys t f \<union> X) (base (revoke_grants_of t current_status f))"
  using fold_revoke_for [of X "base f" "map ins_id (filter (\<lambda>i. ins_tablet i = t \<and> current_status (ins_status i)) (installations f))"]
  by (simp add: revoke_grants_of_def on_base_def fleet_keys_def)

text \<open>The assignments a step of the retirement may leave open, and the tablets whose keys are revoked by then.\<close>

definition released :: "nat \<Rightarrow> nat set \<Rightarrow> fleet \<Rightarrow> fleet \<Rightarrow> bool" where
  "released v T f f' \<longleftrightarrow>
     vehicle_assignment_constraints (vehicle_assignments f') \<and> unique_rows tva_id (vehicle_assignments f')
     \<and> installations f' = installations f
     \<and> (\<forall>a\<in>set (vehicle_assignments f'). open_on v a \<longrightarrow> a \<in> set (vehicle_assignments f) \<and> tva_tablet a \<notin> T)
     \<and> (\<forall>a\<in>set (vehicle_assignments f). \<not> (open_on v a \<and> tva_tablet a \<in> T) \<longrightarrow> a \<in> set (vehicle_assignments f'))
     \<and> (\<forall>a\<in>set (vehicle_assignments f). open_on v a \<longrightarrow> tva_tablet a \<in> T \<longrightarrow> keys_revoked (tva_tablet a) f')
     \<and> (\<forall>s. keys_revoked s f \<longrightarrow> keys_revoked s f')"

lemma released_trans:
  assumes "released v S f m" and "released v T m f'"
  shows "released v (S \<union> T) f f'"
proof -
  note a = assms(1) [unfolded released_def] and b = assms(2) [unfolded released_def]
  have "keys_revoked (tva_tablet x) f'" if "x \<in> set (vehicle_assignments f)" "open_on v x" "tva_tablet x \<in> S \<union> T" for x
  proof (cases "tva_tablet x \<in> S")
    case True
    then show ?thesis using a b that by blast
  next
    case False
    then have "x \<in> set (vehicle_assignments m)" using a that by blast
    then show ?thesis using b that False by blast
  qed
  moreover have "installations f' = installations f" using a b by simp
  moreover have "x \<in> set (vehicle_assignments f) \<and> tva_tablet x \<notin> S \<union> T" if "x \<in> set (vehicle_assignments f')" "open_on v x" for x
    using a b that by blast
  moreover have "x \<in> set (vehicle_assignments f')" if "x \<in> set (vehicle_assignments f)" "\<not> (open_on v x \<and> tva_tablet x \<in> S \<union> T)" for x
    using a b that by blast
  ultimately show ?thesis using a b unfolding released_def by blast
qed

lemma open_unique:
  assumes "vehicle_assignment_constraints rows" and "a \<in> set rows" and "b \<in> set rows" and "open_on v a" and "open_on v b"
    and "tva_tablet a = tva_tablet b"
  shows "a = b"
  using assms by (auto simp: vehicle_assignment_constraints_def distinct_map inj_on_def open_on_def)

lemma retire_assignment_releases:
  assumes "retire_assignment actor vehicle t f = Inr f'" and c: "vehicle_assignment_constraints (vehicle_assignments f)"
    and u: "unique_rows tva_id (vehicle_assignments f)"
  shows "released (veh_id vehicle) {t} f f'"
proof (cases "\<exists>a\<in>set (vehicle_assignments f). open_on (veh_id vehicle) a \<and> tva_tablet a = t")
  case False
  then have "first_by tva_id (\<lambda>a. tva_tablet a = t \<and> tva_vehicle a = veh_id vehicle \<and> tva_valid_until a = None
      \<and> tva_ended_at a = None) (vehicle_assignments f) = None"
    by (auto simp: first_by_None open_on_def)
  then have "f' = f" using assms(1) by (auto simp: retire_assignment_def bind_res_Inr)
  then show ?thesis using False c u by (auto simp: released_def)
next
  case True
  then obtain b where b: "b \<in> set (vehicle_assignments f)" "open_on (veh_id vehicle) b" "tva_tablet b = t" by blast
  define g where "g a = (if tva_id a = tva_id b then a\<lparr>tva_valid_until := Some (clock (base f)), tva_ended_at := Some (clock (base f)),
      tva_ended_by := actor, tva_end_reason := ''VEHICLE_RETIRED''\<rparr> else a)" for a :: vehicle_assignment_row
  obtain x where x: "first_by tva_id (\<lambda>a. tva_tablet a = t \<and> tva_vehicle a = veh_id vehicle \<and> tva_valid_until a = None
      \<and> tva_ended_at a = None) (vehicle_assignments f) = Some x"
    using b by (cases "first_by tva_id (\<lambda>a. tva_tablet a = t \<and> tva_vehicle a = veh_id vehicle \<and> tva_valid_until a = None
      \<and> tva_ended_at a = None) (vehicle_assignments f)") (auto simp: first_by_None open_on_def)
  have "x = b" using open_unique [OF c first_by_mem [OF x] b(1) _ b(2)] first_by_pred [OF x] b(3) by (simp add: open_on_def)
  with x assms(1) obtain f1 where f1: "put_vehicle_assignments (map g (vehicle_assignments f)) f = Inr f1"
      and f': "installations f' = installations f1" "vehicle_assignments f' = vehicle_assignments f1"
        "dataset_key_grants (base f') = dataset_key_grants (base (revoke_grants_of t current_status f1))"
        "generation_key_grants (base f') = generation_key_grants (base (revoke_grants_of t current_status f1))"
    by (auto simp: retire_assignment_def bind_res_Inr Let_def g_def [abs_def] on_base_def record_event_def revoke_grants_of_def)
  have rows: "vehicle_assignments f1 = map g (vehicle_assignments f)" "installations f1 = installations f" "base f1 = base f"
      "vehicle_assignment_constraints (map g (vehicle_assignments f))"
    using f1 by (auto simp: put_vehicle_assignments_def split: if_splits)
  have grants: "grants_revoked_for Y (base f') = grants_revoked_for Y (base (revoke_grants_of t current_status f1))" for Y
    by (simp add: grants_revoked_for_def f'(3,4))
  have keys: "keys_revoked s f' = grants_revoked_for (fleet_keys s f) (base f')" for s
    by (simp add: keys_revoked_iff fleet_keys_def f'(1) rows(2))
  have "keys_revoked t f'"
    unfolding keys grants using revoke_grants_of_keys [of "{}" f1 t] by (simp add: grants_revoked_for_def fleet_keys_def rows(2))
  moreover have "keys_revoked s f'" if "keys_revoked s f" for s
    using that revoke_grants_of_keys [of "fleet_keys s f" f1 t] unfolding keys grants
    by (auto simp: keys_revoked_iff fleet_keys_def [symmetric] rows(3) grants_revoked_for_def)
  moreover have "a \<in> set (vehicle_assignments f) \<and> tva_tablet a \<notin> {t}"
    if "a \<in> set (vehicle_assignments f')" "open_on (veh_id vehicle) a" for a
  proof -
    from that(1) obtain z where z: "z \<in> set (vehicle_assignments f)" "a = g z" by (auto simp: f'(2) rows(1))
    have "tva_id z \<noteq> tva_id b" using z(2) that(2) by (auto simp: g_def open_on_def)
    then have "a = z" "z \<noteq> b" using z(2) by (auto simp: g_def)
    then show ?thesis using open_unique [OF c z(1) b(1) _ b(2)] z(1) that(2) b(3) by auto
  qed
  moreover have "a \<in> set (vehicle_assignments f')"
    if "a \<in> set (vehicle_assignments f)" "\<not> (open_on (veh_id vehicle) a \<and> tva_tablet a \<in> {t})" for a
  proof -
    have "a \<noteq> b" using that(2) b(2,3) by auto
    then have "tva_id a \<noteq> tva_id b" using u that(1) b(1) by (auto simp: distinct_map inj_on_def)
    then have "g a = a" by (simp add: g_def)
    then show ?thesis using that(1) by (force simp: f'(2) rows(1))
  qed
  moreover have "unique_rows tva_id (vehicle_assignments f')" "vehicle_assignment_constraints (vehicle_assignments f')"
  proof -
    have "map tva_id (map g (vehicle_assignments f)) = map tva_id (vehicle_assignments f)" by (simp add: g_def)
    then show "unique_rows tva_id (vehicle_assignments f')" using u by (simp only: f'(2) rows(1))
    show "vehicle_assignment_constraints (vehicle_assignments f')" using rows(4) by (simp only: f'(2) rows(1))
  qed
  moreover have "installations f' = installations f" by (simp only: f'(1) rows(2))
  ultimately show ?thesis unfolding released_def by (intro conjI ballI allI impI; blast)
qed

lemma retire_assignments_release:
  assumes "fold_res (retire_assignment actor vehicle) ts f = Inr f'" and "vehicle_assignment_constraints (vehicle_assignments f)"
    and "unique_rows tva_id (vehicle_assignments f)"
  shows "released (veh_id vehicle) (set ts) f f'"
  using assms
proof (induction ts arbitrary: f)
  case (Cons t ts)
  from Cons.prems(1) obtain m where m: "retire_assignment actor vehicle t f = Inr m"
      "fold_res (retire_assignment actor vehicle) ts m = Inr f'"
    by (auto simp: bind_res_Inr)
  note one = retire_assignment_releases [OF m(1) Cons.prems(2,3)]
  have "released (veh_id vehicle) (set ts) m f'" by (rule Cons.IH [OF m(2)]) (use one in \<open>simp_all add: released_def\<close>)
  then show ?case using released_trans [OF one] by simp
qed (simp add: released_def)

lemma retire_vehicleE:
  assumes "retire_vehicle actor v e = Inr e'"
  obtains vehicle f1 where "row_get veh_id v (vehicles (yard (staff_roster e))) = Some vehicle"
    "require_department_admin (estate_world e) actor (Some (veh_department vehicle)) = Inr ()" "veh_active vehicle"
    "fold_res (retire_assignment actor vehicle) (sort (map tva_tablet (filter (open_on v)
       (vehicle_assignments (yard (staff_roster e)))))) (yard (staff_roster e)) = Inr f1"
    "e' = end_access actor (organization_event ''organization.vehicle_retired'' actor (veh_department vehicle)
       (Some (veh_station vehicle)) ''vehicle'' v []
       (put_fleet (f1\<lparr>vehicles := row_put veh_id (vehicle\<lparr>veh_active := False\<rparr>) (vehicles f1)\<rparr>) e))"
proof -
  have o: "open_on v = (\<lambda>a. tva_vehicle a = v \<and> tva_valid_until a = None \<and> tva_ended_at a = None)"
    by (auto simp: open_on_def)
  from assms show thesis unfolding retire_vehicle_def Let_def o [symmetric]
    by (elim bind_resE) (rule that, auto simp: fetch_vehicle_def of_option_Inr require_Inr)
qed

lemma retire_assignment_vehicles: "retire_assignment actor vehicle t f = Inr f' \<Longrightarrow> vehicles f' = vehicles f"
  by (auto simp: retire_assignment_def bind_res_Inr Let_def put_vehicle_assignments_def on_base_def revoke_grants_of_def
      split: option.splits if_splits)

lemma retire_assignments_vehicles:
  assumes "fold_res (retire_assignment actor vehicle) ts f = Inr f'"
  shows "vehicles f' = vehicles f"
  by (rule fold_res_invariant [where I = "\<lambda>g. vehicles g = vehicles f", OF assms]) (simp_all add: retire_assignment_vehicles)

text \<open>The audit event and the end of the temporary access change the base of the fleet only, and no key grant.\<close>

definition closing :: "nat option \<Rightarrow> string \<Rightarrow> nat \<Rightarrow> nat option \<Rightarrow> string \<Rightarrow> nat \<Rightarrow> fleet \<Rightarrow> fleet" where
  "closing actor action d s tt i f = on_base (department_mutation actor)
     (on_base (record_event action actor (Some d) s tt (Some i) []) f)"

lemma closed_fleet:
  "yard (staff_roster (end_access actor (organization_event action actor d s tt i [] (put_fleet f e)))) = closing actor action d s tt i f"
  by (simp add: end_access_def organization_event_def on_world_def roster_world_def put_fleet_def closing_def on_base_def)

lemma closing_frame:
  "vehicle_assignments (closing actor action d s tt i f) = vehicle_assignments f"
  "vehicles (closing actor action d s tt i f) = vehicles f"
  "keys_revoked t (closing actor action d s tt i f) = keys_revoked t f"
proof -
  have "same_key_grants (base f) (base (closing actor action d s tt i f))"
    using same_key_grants_trans [OF same_key_grants_event same_key_grants_mutation] by (simp add: closing_def on_base_def)
  then show "keys_revoked t (closing actor action d s tt i f) = keys_revoked t f"
    by (simp add: keys_revoked_def same_key_grants_def) (simp add: closing_def on_base_def)
qed (simp_all add: closing_def on_base_def)

text \<open>
  C12: A retired vehicle releases its tablets.  When a department administrator retires a vehicle, the vehicle is
  inactive, no assignment of a tablet to it is open any more, every key grant of the current installations of
  the tablets that were assigned to it is revoked, and every other assignment is as it was.
\<close>

theorem retire_vehicle_releases_tablets:
  assumes "retire_vehicle actor v e = Inr e'" and "f = yard (staff_roster e)" and "f' = yard (staff_roster e')"
    and "vehicle_assignment_constraints (vehicle_assignments f)" and "unique_rows tva_id (vehicle_assignments f)"
  shows "(\<exists>vehicle. row_get veh_id v (vehicles f) = Some vehicle \<and> veh_active vehicle
       \<and> require_department_admin (base f) actor (Some (veh_department vehicle)) = Inr ()
       \<and> row_get veh_id v (vehicles f') = Some (vehicle\<lparr>veh_active := False\<rparr>))
    \<and> (\<forall>a\<in>set (vehicle_assignments f'). \<not> open_on v a)
    \<and> (\<forall>a\<in>set (vehicle_assignments f). open_on v a \<longrightarrow> keys_revoked (tva_tablet a) f')
    \<and> (\<forall>a\<in>set (vehicle_assignments f). \<not> open_on v a \<longrightarrow> a \<in> set (vehicle_assignments f'))"
proof -
  from assms(1) obtain vehicle f1 where r: "row_get veh_id v (vehicles f) = Some vehicle"
      "require_department_admin (base f) actor (Some (veh_department vehicle)) = Inr ()" "veh_active vehicle"
      "fold_res (retire_assignment actor vehicle) (sort (map tva_tablet (filter (open_on v) (vehicle_assignments f)))) f = Inr f1"
      "e' = end_access actor (organization_event ''organization.vehicle_retired'' actor (veh_department vehicle)
         (Some (veh_station vehicle)) ''vehicle'' v []
         (put_fleet (f1\<lparr>vehicles := row_put veh_id (vehicle\<lparr>veh_active := False\<rparr>) (vehicles f1)\<rparr>) e))"
    unfolding assms(2) by (rule retire_vehicleE)
  have v: "veh_id vehicle = v" using r(1) by (rule row_get_key)
  let ?f2 = "f1\<lparr>vehicles := row_put veh_id (vehicle\<lparr>veh_active := False\<rparr>) (vehicles f1)\<rparr>"
  have f': "vehicle_assignments f' = vehicle_assignments f1" "vehicles f' = vehicles ?f2" "keys_revoked t f' = keys_revoked t f1" for t
    unfolding assms(3) r(5) closed_fleet by (simp_all add: closing_frame) (simp add: keys_revoked_def)
  note rel = retire_assignments_release [OF r(4) assms(4,5), unfolded v released_def]
  have "\<not> open_on v a" if "a \<in> set (vehicle_assignments f1)" for a using rel that by auto
  moreover have "keys_revoked (tva_tablet a) f1" if "a \<in> set (vehicle_assignments f)" "open_on v a" for a
    using rel that by auto
  moreover have "a \<in> set (vehicle_assignments f1)" if "a \<in> set (vehicle_assignments f)" "\<not> open_on v a" for a
    using rel that by blast
  moreover have "row_get veh_id v (vehicles f') = Some (vehicle\<lparr>veh_active := False\<rparr>)"
    using r(1) v by (simp add: f'(2) retire_assignments_vehicles [OF r(4)] row_get_put row_get_image)
  ultimately show ?thesis using r(1-3) by (auto simp: f')
qed

definition demo_estate :: estate where
  "demo_estate = \<lparr>staff_roster = \<lparr>yard = demo_keyed, people = [], station_assignments = [], retention_policies = [],
     recipient_policies = []\<rparr>, station_addresses = [], vehicle_details = []\<rparr>"

theorem retire_vehicle_releases_tablets_witness:
  "\<exists>e'. retire_vehicle (Some 7) 4 demo_estate = Inr e' \<and> filter (open_on 4) (vehicle_assignments demo_keyed) \<noteq> []
     \<and> filter (open_on 4) (vehicle_assignments (yard (staff_roster e'))) = [] \<and> keys_revoked 40 (yard (staff_roster e'))"
proof -
  have "\<not> isl (retire_vehicle (Some 7) 4 demo_estate)" by code_simp
  then obtain e' where e': "retire_vehicle (Some 7) 4 demo_estate = Inr e'" by (cases "retire_vehicle (Some 7) 4 demo_estate") auto
  have c: "vehicle_assignment_constraints (vehicle_assignments demo_keyed)" "unique_rows tva_id (vehicle_assignments demo_keyed)"
      "map tva_tablet (filter (open_on 4) (vehicle_assignments demo_keyed)) = [40]"
    by code_simp+
  then obtain a where "filter (open_on 4) (vehicle_assignments demo_keyed) = [a]" "tva_tablet a = 40"
    by (auto simp: map_eq_Cons_conv)
  then have a: "a \<in> set (filter (open_on 4) (vehicle_assignments demo_keyed))" "tva_tablet a = 40" by simp_all
  from retire_vehicle_releases_tablets [OF e' _ refl, of demo_keyed] c(1,2)
  have "\<forall>a\<in>set (vehicle_assignments (yard (staff_roster e'))). \<not> open_on 4 a"
    "\<forall>a\<in>set (vehicle_assignments demo_keyed). open_on 4 a \<longrightarrow> keys_revoked (tva_tablet a) (yard (staff_roster e'))"
    by (simp_all add: demo_estate_def)
  then show ?thesis using e' a by (auto simp: filter_empty_conv set_filter)
qed

subsection \<open>Stations are never deleted\<close>

lemma audit_kept_access: "set (audit_log w) \<subseteq> set (audit_log (revoke_access a b c d e g w))"
  by (auto simp: revoke_access_def record_event_def Let_def)

lemma audit_kept_mutation: "set (audit_log w) \<subseteq> set (audit_log (department_mutation a w))"
proof -
  have "set (audit_log w) \<subseteq> set (audit_log (snd (revoke_temporary_access u r t y w)))" for u r t y
  proof (cases "active_temporary_access u w")
    case (Pair x w1)
    have "set (audit_log w) \<subseteq> set (audit_log (snd (active_temporary_access u w)))"
      by (simp add: active_temporary_access_def audit_kept_access split: option.splits)
    with Pair show ?thesis
      by (auto simp: revoke_temporary_access_def split: option.splits dest: subsetD [OF audit_kept_access])
  qed
  then show ?thesis by (simp add: department_mutation_def split: option.splits)
qed

text \<open>
  The audit event of the creation of a station refers to the station with a protecting foreign key, so the
  deletion of a station created by mistake is refused from the start.
\<close>

lemma created_station_not_deletable:
  assumes "create_station actor department name short_code address active e = Inr (i, e')"
  shows "isl (delete_station protected actor' i e')"
proof -
  obtain w where w: "estate_world e' = department_mutation actor (record_event ''organization.station_created'' actor
      (Some department) (Some i) ''station'' (Some i) [] w)"
    using assms by (auto simp: create_station_def bind_res_Inr Let_def end_access_def organization_event_def on_world_def
        roster_world_def on_base_def split: prod.splits)
  have "\<exists>a\<in>set (audit_log (record_event ''organization.station_created'' actor (Some department) (Some i) ''station''
      (Some i) [] w)). aud_station a = Some i"
    by (simp add: record_event_def)
  then have "\<exists>a\<in>set (audit_log (estate_world e')). aud_station a = Some i"
    unfolding w using audit_kept_mutation by blast
  then have "station_referenced i e'" by (simp add: station_referenced_def Let_def exists_row_def)
  then have "delete_station protected actor' i e' \<noteq> Inr y" for y
    by (auto simp: delete_station_def bind_res_Inr require_Inr)
  then show ?thesis by (rule isl_never)
qed

end
