(* ===== verification/Spec2Isabelle.thy ===== *)
theory Spec2Isabelle
  imports Service_Properties Policy_Properties Access_Properties Administrator_Inv Tablet_Numbers Library_Explorer
    Report_Intake Personnel_Properties Organization_Properties
begin

text \<open>
  FireDash server: a verification library of its service layer.

  \<^bold>\<open>The program.\<close>  FireDash distributes reference data of fire departments to tablets in their vehicles and takes
  mission reports back.  Administrators edit canonical data (people, hydrants, plans, documents); every edit marks
  a \<^emph>\<open>scope\<close> (department or station, and dataset) dirty; a worker builds publications of dirty scopes; adopted
  tablets check in, hold a lease and fetch what is current; a tablet submits encrypted reports, and a mailed link
  opens them once to their recipient.  The code is Python on Django and PostgreSQL; each service function is one
  database transaction that checks an authority, locks rows, changes them, writes an audit event and may register
  work for after its commit.

  \<^bold>\<open>How it is modelled.\<close>  A table is a list of rows, a row a \<^theory_text>\<open>record\<close> with the fields of its model class, and a
  component's state a record of tables that wraps the state of the components below it:
  \<^item> \<^typ>\<open>world\<close> (theory World): users, roles, departments, stations, publications, jobs, grants, the audit log, the
    clock, the functions registered for after the commit, and the files of the artifact store;
  \<^item> \<^typ>\<open>portal\<close> = \<open>core\<close> + accounts and system policies (Accounts);
  \<^item> \<^typ>\<open>fleet\<close> = \<open>base\<close> + tablets, installations, invitations, vehicles (Fleet);
  \<^item> \<^typ>\<open>shelf\<close> = \<open>hall\<close> + libraries, entries, contents (Library_Tree);
  \<^item> \<^typ>\<open>roster\<close> = \<open>yard\<close> (a fleet) + people, station assignments, retention and recipient policies (Personnel);
  \<^item> \<^typ>\<open>estate\<close> = \<open>staff_roster\<close> (a roster) + the columns of stations and vehicles that only their editors read
    (Organizations);
  \<^item> \<^typ>\<open>exchange\<close> = \<open>crew\<close> (a roster) + submissions, access generations, portal sessions, the spool (Report_Services).

  A service is a function from its arguments and the state to \<^typ>\<open>exn + 'a\<close>: \<open>Inl\<close> is the raised exception, and a
  transaction that raises changes nothing.  Services that keep work although they raise (failed logins, expired
  access, a report whose answer raises after the commit) return the state beside the outcome.  Saves check the constraints of the model class
  (\<open>IntegrityError\<close>).  UUID keys are numbers drawn from \<open>next_id\<close>; timestamps are microseconds (\<^typ>\<open>int\<close>), strings
  are lists of characters, datetimes are printed by \<open>isoformat\<close>.

  \<^bold>\<open>Theories and sources\<close> (under src/apps).
  \<^item> Prelude, Decimal, Py_String, Json: exceptions, sequencing, tables and their queries, decimal notation, string
    methods, JSON values and their canonical text, shared by all components.
  \<^item> Registry, World, Store, Authorization, Temporary_Access: publications/registry.py and models.py, the models of
    accounts, authorization, organizations, audit and file_library; authorization/scopes.py and guards.
  \<^item> Source_Fingerprint, Document_Artifacts, Restore, Lifecycle_Base, Lifecycle_Queue, Lifecycle_Worker,
    Lifecycle_Admin, Retention, Scope_State: publications/builders.py, document_artifacts.py, restore.py,
    services.py (queue, worker, administration), retention.py, state.py.
  \<^item> Accounts, App_Version, Admin_Lifecycle: accounts/services.py, tablets/versions.py, authorization/services.py.
  \<^item> Fleet, Tablet_Services: tablets/models.py and services.py, assignments/services.py (vehicles).
  \<^item> Library_Tree, Library_Services, Library_Explorer: file_library/models.py, services.py, publication.py,
    publication_reconciliation.py, explorer.py.
  \<^item> Personnel, Recipients: personnel/models.py and services.py, assignments (people and stations), the command
    expire_temporary_assignments, outbound_mail/services.py (recipient domains) and report_admission.py.
  \<^item> Organizations: organizations/services.py.
  \<^item> Report_Contract, Report_Document, Report_Services, Report_Transfers: report_transfer/contract.py, documents.py,
    models.py, storage.py, services.py, exports.py, transfers.py, the download hooks of portal.py, and
    \<open>control_plane_context\<close> of publications/manifests.py.

  \<^bold>\<open>What is shown.\<close>  Each component has an invariant and a history its services move its rows along.
  \<^item> Publications (Abstract_Lifecycle, Lifecycle_Frame, Lifecycle_Inv, Lifecycle_Evolution, Queue_Inv, Worker_Inv,
    Admin_Inv, Retention_Inv; Lifecycle_System holds the step relation; System_, Service_, Policy_ and
    Access_Properties the results, Scenario a concrete deployment, Service_Effects and Staff_Frame what services
    leave alone): one current publication and at most one build per scope in every reachable state, an append-only
    history with growing versions, the outcome of builds, deletions and retention, no publication of a cancelled
    build, the batched predecessor walk equal to the plain query, the authority every mutation asks for, and two
    defects of the queue and the worker (the second, \<open>follow_up_failure_loses_artifact\<close>, by one run).
  \<^item> Administrators and accounts (Administrator_Inv): a department with an effective administrator keeps one, setup
    tokens work once, failures lock an account.
  \<^item> Tablets (Tablet_Inv, Tablet_Properties, Tablet_Leases, Tablet_Numbers): one current installation, final states,
    single-use invitations, bounded leases, the allocation loop ends.
  \<^item> Libraries (Library_Tree_Inv, Library_Inv, Library_Steps, Library_Properties, Library_Refinement): trees of bounded
    depth with exact usage, refinement of an abstract tree, quotas, the price of an elevated deletion.
  \<^item> People (Personnel_Inv, Personnel_Steps, Personnel_Properties): one current home for each active person,
    anonymisation is final, a departure ends report access, no person is ever deleted.
  \<^item> Stations and vehicles (Organization_Properties): a retired vehicle releases its tablets and their keys; a station
    the services created is never deleted.
  \<^item> Reports (Report_Inv, Report_Steps, Report_Grants, Report_Runs, Report_Properties, Report_Intake): single-use
    links, final revocation, what the portal may show, shrinking deadlines, bounded documents, idempotent
    acceptance, intact payloads, complete cleanup.

  \<^bold>\<open>Interfaces.\<close>  The locale \<^theory_text>\<open>constrained_table\<close> (Store) is the contract of the model layer, a table behind a
  constraint; it is interpreted for scopes, publications and jobs.  The locale \<^theory_text>\<open>evolving\<close> (Step_Invariant) is the
  contract between a component and its services, an invariant and a transitive history; it gives the rules for
  sequences, folds and runs, and is interpreted for the shelf, the fleet, the roster, the spool and the grants.
  The publication lifecycle enters the components above it through \<^theory_text>\<open>mark_dirty_pres\<close> and \<^theory_text>\<open>step_keeps\<close>.

  \<^bold>\<open>Bounds and fuel.\<close>  Walks over a library take as fuel the number of its rows plus eight, which
  \<^theory_text>\<open>library_tree_kept\<close> shows to be enough for trees of the permitted depth five; the asset-number loop has the
  thousand attempts of the source; every other recursion is structural or over a list.

  \<^bold>\<open>Parameters.\<close>  Code outside the repository is an argument: SHA-256 and keyed digests, the canonical sources the
  builders read and whether a generation can be built (\<^typ>\<open>env\<close>, \<^typ>\<open>worker_env\<close>), password hashing
  (\<^typ>\<open>auth_env\<close>), HPKE (\<^typ>\<open>tablet_env\<close>), PDF inspection (\<^typ>\<open>library_env\<close>), JSON parsing, RSA-OAEP, AES-GCM and
  image decoding (\<^typ>\<open>contract_env\<close>), mail providers, PDF layout and failing file operations (\<^typ>\<open>report_env\<close>;
  those of the artifact store are in \<^typ>\<open>env\<close>).
  Random values are arguments of the services that draw them.

  \<^bold>\<open>Not modelled.\<close>  The HTML views, forms and API views, which parse requests and call the services; ingestion of
  uploaded data files (spreadsheet and archive parsers), which reaches the modelled part through \<open>mark_dirty\<close>, the
  creation of a scope row and the audit log; reference data; the document generations and their cryptography
  (document_v2.py, manifests.py beyond \<open>control_plane_context\<close> and the revocation of grants, hpke.py,
  worker_grants.py); mail provider configuration and delivery; login and MFA; the fake tablet client; settings
  and deployment.

  \<^bold>\<open>Limits of the model.\<close>  Concurrency is the interleaving of transactions: row locks and isolation are the
  database's, except that the worker's checkpoints, the claim of a link and the record of its send, and the
  transactions of a cleanup are separate steps; the answer to a submission is computed in the step that stores it.
  A process that dies between the removal of a file and the commit that records it (which the cleanup of reports
  repeats) is not modelled.  Characters are those below code point 256, and \<open>casefold\<close> leaves the micro sign, whose
  folding lies outside them.  The lengths of text columns and the width of the asset-number sequence are not
  enforced.  A library without a row is read as the empty library that the source query inserts; the row itself
  is written by the services of the library.  The cascade of a deleted entry is the set of rows the walk finds,
  which \<open>library_refines_tree\<close> shows to be everything beneath the entry.
\<close>

end
